(* ===== verification/Prelude.thy ===== *)
theory Prelude imports Main "HOL-Library.Word" "HOL-Library.Sublist" begin

text \<open>
  Vocabulary shared by every component: Go strings as byte lists with the operations of the
  packages \<^verbatim>\<open>strings\<close>, \<^verbatim>\<open>strconv\<close> and \<^verbatim>\<open>fmt\<close> that the source calls, association lists for
  Go maps that are iterated, durations in nanoseconds, and the lemma collections the component
  proofs use.

  A Go \<^verbatim>\<open>string\<close> is a sequence of bytes, which is what Isabelle's \<^typ>\<open>string\<close> is.  Operations that
  Go defines on Unicode code points (\<^verbatim>\<open>TrimSpace\<close>, \<^verbatim>\<open>ToUpper\<close>, \<^verbatim>\<open>ToLower\<close>, \<^verbatim>\<open>EqualFold\<close>) are
  modelled on ASCII; bytes from 128 on pass through them unchanged.
\<close>

named_theorems go_str \<open>unfolding of the string operations\<close>
named_theorems model_defs \<open>definitions that proofs about whole handlers unfold\<close>

section \<open>Strings\<close>

definition HasPrefix :: "string \<Rightarrow> string \<Rightarrow> bool" where
  "HasPrefix s p \<longleftrightarrow> prefix p s"

definition HasSuffix :: "string \<Rightarrow> string \<Rightarrow> bool" where
  "HasSuffix s p \<longleftrightarrow> suffix p s"

definition TrimPrefix :: "string \<Rightarrow> string \<Rightarrow> string" where
  "TrimPrefix s p = (if HasPrefix s p then drop (length p) s else s)"

definition TrimSuffix :: "string \<Rightarrow> string \<Rightarrow> string" where
  "TrimSuffix s p = (if HasSuffix s p then take (length s - length p) s else s)"

definition trim_left :: "(char \<Rightarrow> bool) \<Rightarrow> string \<Rightarrow> string" where
  "trim_left p s = dropWhile p s"

definition trim_right :: "(char \<Rightarrow> bool) \<Rightarrow> string \<Rightarrow> string" where
  "trim_right p s = rev (dropWhile p (rev s))"

definition trim_both :: "(char \<Rightarrow> bool) \<Rightarrow> string \<Rightarrow> string" where
  "trim_both p s = trim_right p (trim_left p s)"

definition is_space :: "char \<Rightarrow> bool" where
  "is_space c \<longleftrightarrow> c \<in> {CHR '' '', CHR 0x09, CHR 0x0A, CHR 0x0B, CHR 0x0C, CHR 0x0D}"

definition TrimSpace :: "string \<Rightarrow> string" where
  "TrimSpace s = trim_both is_space s"

definition Trim :: "string \<Rightarrow> string \<Rightarrow> string" where
  "Trim s cutset = trim_both (\<lambda>c. c \<in> set cutset) s"

definition TrimRight :: "string \<Rightarrow> string \<Rightarrow> string" where
  "TrimRight s cutset = trim_right (\<lambda>c. c \<in> set cutset) s"

text \<open>\<^verbatim>\<open>strings.Split\<close> with a separator of one byte: never empty, one piece per separator plus one.\<close>

fun split_char :: "char \<Rightarrow> string \<Rightarrow> string list" where
  "split_char c [] = [[]]"
| "split_char c (x # xs) =
     (if x = c then [] # split_char c xs
      else (case split_char c xs of [] \<Rightarrow> [[x]] | p # ps \<Rightarrow> (x # p) # ps))"

text \<open>\<^verbatim>\<open>strings.SplitN(s, sep, 2)\<close> with a separator of one byte.\<close>

definition splitn2 :: "char \<Rightarrow> string \<Rightarrow> string list" where
  "splitn2 c s =
     (let a = takeWhile (\<lambda>x. x \<noteq> c) s in
      if length a = length s then [s] else [a, drop (Suc (length a)) s])"

fun join :: "string \<Rightarrow> string list \<Rightarrow> string" where
  "join sep [] = []"
| "join sep [x] = x"
| "join sep (x # y # ys) = x @ sep @ join sep (y # ys)"

text \<open>\<^verbatim>\<open>strings.ReplaceAll\<close> with one-byte arguments, and \<^verbatim>\<open>strings.ToUpper\<close>, \<^verbatim>\<open>strings.ToLower\<close>.\<close>

definition replace_char :: "char \<Rightarrow> char \<Rightarrow> string \<Rightarrow> string" where
  "replace_char a b s = map (\<lambda>c. if c = a then b else c) s"

definition is_lower :: "char \<Rightarrow> bool" where
  "is_lower c \<longleftrightarrow> c \<in> set ''abcdefghijklmnopqrstuvwxyz''"

definition is_upper :: "char \<Rightarrow> bool" where
  "is_upper c \<longleftrightarrow> c \<in> set ''ABCDEFGHIJKLMNOPQRSTUVWXYZ''"

definition is_digit :: "char \<Rightarrow> bool" where
  "is_digit c \<longleftrightarrow> c \<in> set ''0123456789''"

definition to_upper_char :: "char \<Rightarrow> char" where
  "to_upper_char c = (if is_lower c then char_of ((of_char c :: int) - 32) else c)"

definition to_lower_char :: "char \<Rightarrow> char" where
  "to_lower_char c = (if is_upper c then char_of ((of_char c :: int) + 32) else c)"

definition ToUpper :: "string \<Rightarrow> string" where
  "ToUpper s = map to_upper_char s"

definition ToLower :: "string \<Rightarrow> string" where
  "ToLower s = map to_lower_char s"

definition EqualFold :: "string \<Rightarrow> string \<Rightarrow> bool" where
  "EqualFold s t \<longleftrightarrow> ToLower s = ToLower t"

fun Contains :: "string \<Rightarrow> string \<Rightarrow> bool" where
  "Contains [] p = (p = [])"
| "Contains (x # xs) p = (HasPrefix (x # xs) p \<or> Contains xs p)"

section \<open>Numbers as text\<close>

definition digit_char :: "int \<Rightarrow> char" where
  "digit_char d = char_of (48 + d)"

text \<open>The decimal digits of a non-negative number.\<close>

fun show_pos :: "int \<Rightarrow> string" where
  "show_pos n = (if n < 10 then [digit_char n] else show_pos (n div 10) @ [digit_char (n mod 10)])"

declare show_pos.simps [simp del]

definition show_int :: "int \<Rightarrow> string" where
  "show_int i = (if i < 0 then CHR ''-'' # show_pos (- i) else show_pos i)"

definition show_nat :: "nat \<Rightarrow> string" where
  "show_nat n = show_int (int n)"

definition hex_digit :: "int \<Rightarrow> char" where
  "hex_digit d = (if d < 10 then char_of (48 + d) else char_of (87 + d))"

text \<open>The low \<open>w\<close> hexadecimal digits in lower case: \<^verbatim>\<open>%0wx\<close> of a number below \<open>16 ^ w\<close>.\<close>

fun hex_pad :: "nat \<Rightarrow> int \<Rightarrow> string" where
  "hex_pad 0 n = []"
| "hex_pad (Suc w) n = hex_pad w (n div 16) @ [hex_digit (n mod 16)]"

lemma length_hex_pad [simp]: "length (hex_pad w n) = w"
  by (induction w arbitrary: n) auto

text \<open>\<^verbatim>\<open>%q\<close>: the Go syntax of a string literal, on printable ASCII and the named escapes.\<close>

definition quote_char :: "char \<Rightarrow> string" where
  "quote_char c =
     (if c = CHR 0x22 then [CHR 0x5C, CHR 0x22]
      else if c = CHR 0x5C then [CHR 0x5C, CHR 0x5C]
      else if c = CHR 0x0A then [CHR 0x5C, CHR ''n'']
      else if c = CHR 0x09 then [CHR 0x5C, CHR ''t'']
      else if c = CHR 0x0D then [CHR 0x5C, CHR ''r'']
      else if (of_char c :: int) < 32 \<or> (of_char c :: int) = 127
        then CHR 0x5C # CHR ''x'' # hex_pad 2 (of_char c)
      else [c])"

definition quote :: "string \<Rightarrow> string" where
  "quote s = CHR 0x22 # concat (map quote_char s) @ [CHR 0x22]"

section \<open>UTF-8\<close>

text \<open>\<^verbatim>\<open>utf8.RuneStart\<close>: the byte is not a continuation byte (bits \<open>10xxxxxx\<close>).\<close>

definition RuneStart :: "char \<Rightarrow> bool" where
  "RuneStart c \<longleftrightarrow> \<not> (128 \<le> (of_char c :: int) \<and> (of_char c :: int) < 192)"

section \<open>Durations\<close>

text \<open>A \<^verbatim>\<open>time.Duration\<close> counts nanoseconds, and so do the instants of the model.\<close>

abbreviation millisecond :: int where "millisecond \<equiv> 1000000"
abbreviation second :: int where "second \<equiv> 1000000000"
abbreviation minute :: int where "minute \<equiv> 60000000000"
abbreviation hour :: int where "hour \<equiv> 3600000000000"

section \<open>Lists and maps\<close>

definition lookup_or :: "'v \<Rightarrow> ('k \<rightharpoonup> 'v) \<Rightarrow> 'k \<Rightarrow> 'v" where
  "lookup_or d m k = (case m k of None \<Rightarrow> d | Some v \<Rightarrow> v)"

text \<open>Reading a \<^verbatim>\<open>map[string]string\<close>: a missing key reads as the empty string, also in a nil map.\<close>

abbreviation get_str :: "(string \<rightharpoonup> string) \<Rightarrow> string \<Rightarrow> string" where
  "get_str m k \<equiv> lookup_or [] m k"

lemma lookup_or_upd [simp]: "lookup_or d (m(k \<mapsto> v)) k' = (if k' = k then v else lookup_or d m k')"
  by (simp add: lookup_or_def)

lemma lookup_or_empty [simp]: "lookup_or d (\<lambda>_. None) k = d"
  by (simp add: lookup_or_def)

text \<open>The index of the first element that satisfies a predicate, as the source's search loops find it.\<close>

fun find_index :: "('a \<Rightarrow> bool) \<Rightarrow> 'a list \<Rightarrow> nat option" where
  "find_index p [] = None"
| "find_index p (x # xs) = (if p x then Some 0 else map_option Suc (find_index p xs))"

lemma find_index_Some:
  "find_index p xs = Some i \<Longrightarrow> i < length xs \<and> p (xs ! i) \<and> (\<forall>j<i. \<not> p (xs ! j))"
proof (induction xs arbitrary: i)
  case Nil
  then show ?case by simp
next
  case (Cons x xs)
  show ?case
  proof (cases "p x")
    case True
    with Cons.prems show ?thesis by simp
  next
    case False
    with Cons.prems obtain j where j: "find_index p xs = Some j" "i = Suc j" by auto
    from Cons.IH [OF j(1)] False j(2) show ?thesis
      by (auto simp: nth_Cons less_Suc_eq_0_disj split: nat.splits)
  qed
qed

lemma find_index_None: "find_index p xs = None \<longleftrightarrow> (\<forall>x\<in>set xs. \<not> p x)"
  by (induction xs) auto

lemma find_index_ex: "x \<in> set xs \<Longrightarrow> p x \<Longrightarrow> \<exists>i. find_index p xs = Some i"
  by (metis find_index_None option.exhaust)

lemma map_list_update_same:
  "f y = f (xs ! i) \<Longrightarrow> map f (xs[i := y]) = map f xs"
  by (cases "i < length xs") (simp_all add: map_update list_update_same_conv list_update_beyond)

lemma split_char_ne: "split_char c s \<noteq> []"
  by (induction s) (auto split: list.splits)

lemma split_char_none: "c \<notin> set s \<Longrightarrow> split_char c s = [s]"
  by (induction s) auto

lemma split_char_append:
  "c \<notin> set a \<Longrightarrow> split_char c (a @ c # b) = a # split_char c b"
  by (induction a) auto

lemma join_split: "join [c] (split_char c s) = s"
proof (induction s)
  case Nil
  then show ?case by simp
next
  case (Cons x xs)
  obtain p ps where sp: "split_char c xs = p # ps"
    using split_char_ne [of c xs] by (cases "split_char c xs") auto
  show ?case
    using Cons.IH sp by (cases ps) auto
qed

text \<open>Splitting undoes joining when no piece holds the separator.\<close>

lemma split_join:
  "ps \<noteq> [] \<Longrightarrow> (\<forall>p\<in>set ps. c \<notin> set p) \<Longrightarrow> split_char c (join [c] ps) = ps"
proof (induction "[c]" ps rule: join.induct)
  case 1
  then show ?case by simp
next
  case (2 x)
  then show ?case by (simp add: split_char_none)
next
  case (3 x y ys)
  have "split_char c (join [c] (x # y # ys)) = x # split_char c (join [c] (y # ys))"
    using 3(3) by (simp add: split_char_append)
  with 3 show ?case by simp
qed

lemma HasPrefix_append [simp]: "HasPrefix (p @ s) p"
  by (simp add: HasPrefix_def)

lemma TrimPrefix_append [simp]: "TrimPrefix (p @ s) p = s"
  by (simp add: TrimPrefix_def)

lemma TrimSpace_id:
  "s = [] \<or> (\<not> is_space (hd s) \<and> \<not> is_space (last s)) \<Longrightarrow> TrimSpace s = s"
proof -
  assume *: "s = [] \<or> (\<not> is_space (hd s) \<and> \<not> is_space (last s))"
  show ?thesis
  proof (cases "s = []")
    case True
    then show ?thesis by (simp add: TrimSpace_def trim_both_def trim_left_def trim_right_def)
  next
    case False
    with * have h: "\<not> is_space (hd s)" and l: "\<not> is_space (last s)" by auto
    from False h have d: "dropWhile is_space s = s"
      by (cases s) auto
    from False l have "dropWhile is_space (rev s) = rev s"
      by (cases "rev s") (auto simp: hd_rev [symmetric])
    with d show ?thesis
      by (simp add: TrimSpace_def trim_both_def trim_left_def trim_right_def)
  qed
qed

declare HasPrefix_def [go_str] HasSuffix_def [go_str] TrimPrefix_def [go_str]
  TrimSuffix_def [go_str] trim_left_def [go_str] trim_right_def [go_str] trim_both_def [go_str]
  TrimSpace_def [go_str] Trim_def [go_str] TrimRight_def [go_str] is_space_def [go_str]
  replace_char_def [go_str] ToUpper_def [go_str] ToLower_def [go_str] EqualFold_def [go_str]
  to_upper_char_def [go_str] to_lower_char_def [go_str] is_lower_def [go_str]
  is_upper_def [go_str]

lemma find_filter_other: "\<forall>c. p c \<longrightarrow> q c \<Longrightarrow> find p (filter q cs) = find p cs"
  by (induction cs) auto

end
