(* ===== verification/Float64.thy ===== *)
theory Float64 imports Complex_Main Prelude begin

text \<open>
  The part of \<^verbatim>\<open>float64\<close> the source uses: IEEE 754 binary64 values as exact rationals with
  round-half-even rounding, comparison and addition, \<^verbatim>\<open>strconv.ParseFloat\<close> on decimal literals
  (hexadecimal floats and underscores are left out), and the formats \<^verbatim>\<open>%v\<close> (shortest digits,
  exponent form when the decimal exponent is below -4 or at least 6),
  \<^verbatim>\<open>FormatFloat(x, 'f', -1, 64)\<close> and \<^verbatim>\<open>%.2f\<close>.
\<close>

datatype f64 = Fin rat | NegZero | PosInf | NegInf | NaN

section \<open>Rounding\<close>

definition pow2 :: "int \<Rightarrow> rat" where
  "pow2 e = (if 0 \<le> e then 2 ^ nat e else 1 / 2 ^ nat (- e))"

definition pow10 :: "int \<Rightarrow> rat" where
  "pow10 e = (if 0 \<le> e then 10 ^ nat e else 1 / 10 ^ nat (- e))"

fun bitlen :: "int \<Rightarrow> int" where
  "bitlen n = (if n \<le> 0 then 0 else 1 + bitlen (n div 2))"

declare bitlen.simps [simp del]

text \<open>The binary exponent of a positive rational: \<open>pow2 e \<le> a < pow2 (e + 1)\<close>.\<close>

definition ilog2 :: "rat \<Rightarrow> int" where
  "ilog2 a =
     (let (p, q) = quotient_of a; e = bitlen p - bitlen q
      in if pow2 e \<le> a then e else e - 1)"

definition round_half_even :: "rat \<Rightarrow> int" where
  "round_half_even a =
     (let f = \<lfloor>a\<rfloor>; d = a - of_int f
      in if d < 1 / 2 then f else if 1 / 2 < d then f + 1 else if even f then f else f + 1)"

definition f64_of_rat :: "rat \<Rightarrow> f64" where
  "f64_of_rat q =
     (if q = 0 then Fin 0
      else let a = \<bar>q\<bar>; k = max (ilog2 a - 52) (- 1074);
               v = of_int (round_half_even (a / pow2 k)) * pow2 k
           in if 1023 \<le> ilog2 a \<and> pow2 1024 \<le> v then (if q < 0 then NegInf else PosInf)
              else if v = 0 then (if q < 0 then NegZero else Fin 0)
              else Fin (if q < 0 then - v else v))"

section \<open>Arithmetic and order\<close>

fun f64_val :: "f64 \<Rightarrow> rat option" where
  "f64_val (Fin q) = Some q"
| "f64_val NegZero = Some 0"
| "f64_val _ = None"

fun f64_lt :: "f64 \<Rightarrow> f64 \<Rightarrow> bool" where
  "f64_lt NaN _ = False"
| "f64_lt _ NaN = False"
| "f64_lt NegInf y = (y \<noteq> NegInf)"
| "f64_lt PosInf _ = False"
| "f64_lt _ PosInf = True"
| "f64_lt _ NegInf = False"
| "f64_lt x y = (case (f64_val x, f64_val y) of (Some a, Some b) \<Rightarrow> a < b | _ \<Rightarrow> False)"

definition f64_eq :: "f64 \<Rightarrow> f64 \<Rightarrow> bool" where
  "f64_eq x y \<longleftrightarrow>
     (case (f64_val x, f64_val y) of
        (Some a, Some b) \<Rightarrow> a = b
      | _ \<Rightarrow> x = y \<and> x \<noteq> NaN)"

definition f64_le :: "f64 \<Rightarrow> f64 \<Rightarrow> bool" where
  "f64_le x y \<longleftrightarrow> f64_lt x y \<or> f64_eq x y"

fun f64_add :: "f64 \<Rightarrow> f64 \<Rightarrow> f64" where
  "f64_add NaN _ = NaN"
| "f64_add _ NaN = NaN"
| "f64_add PosInf NegInf = NaN"
| "f64_add NegInf PosInf = NaN"
| "f64_add PosInf _ = PosInf"
| "f64_add _ PosInf = PosInf"
| "f64_add NegInf _ = NegInf"
| "f64_add _ NegInf = NegInf"
| "f64_add NegZero NegZero = NegZero"
| "f64_add x y =
     (case (f64_val x, f64_val y) of (Some a, Some b) \<Rightarrow> f64_of_rat (a + b) | _ \<Rightarrow> NaN)"

text \<open>Conversion of an integer, as \<^verbatim>\<open>float64(n)\<close>.\<close>

definition f64_of_int :: "int \<Rightarrow> f64" where
  "f64_of_int n = f64_of_rat (of_int n)"

section \<open>Parsing decimals\<close>

definition digit_val :: "char \<Rightarrow> int" where
  "digit_val c = of_char c - 48"

definition digits_val :: "string \<Rightarrow> int" where
  "digits_val ds = foldl (\<lambda>n c. 10 * n + digit_val c) 0 ds"

text \<open>
  A decimal floating point literal: sign, digits with an optional point, optional exponent.  The
  result is the exact rational and whether the literal was negative.
\<close>

definition parse_exp :: "string \<Rightarrow> int option" where
  "parse_exp s =
     (case s of
        [] \<Rightarrow> Some 0
      | e # r \<Rightarrow>
          if e \<noteq> CHR ''e'' \<and> e \<noteq> CHR ''E'' then None
          else let (neg, ds) = (case r of
                        CHR ''+'' # t \<Rightarrow> (False, t)
                      | CHR ''-'' # t \<Rightarrow> (True, t)
                      | _ \<Rightarrow> (False, r))
               in if ds = [] \<or> \<not> list_all is_digit ds then None
                  else Some (if neg then - digits_val ds else digits_val ds))"

definition parse_udec :: "string \<Rightarrow> rat option" where
  "parse_udec s =
     (let ip = takeWhile is_digit s; r = dropWhile is_digit s;
          (fp, r') = (case r of CHR ''.'' # t \<Rightarrow> (takeWhile is_digit t, dropWhile is_digit t)
                              | _ \<Rightarrow> ([], r))
      in if ip = [] \<and> fp = [] then None
         else case parse_exp r' of
                None \<Rightarrow> None
              | Some e \<Rightarrow> Some (of_int (digits_val (ip @ fp)) * pow10 (e - int (length fp))))"

definition inf_or_nan :: "bool \<Rightarrow> string \<Rightarrow> f64 option" where
  "inf_or_nan neg s =
     (let t = ToLower s in
      if t = ''inf'' \<or> t = ''infinity'' then Some (if neg then NegInf else PosInf) else None)"

text \<open>\<^verbatim>\<open>strconv.ParseFloat(s, 64)\<close>; a literal that overflows is the error \<^verbatim>\<open>ErrRange\<close>.\<close>

definition ParseFloat :: "string \<Rightarrow> f64 option" where
  "ParseFloat s =
     (let (neg, t) = (case s of
              CHR ''+'' # r \<Rightarrow> (False, r)
            | CHR ''-'' # r \<Rightarrow> (True, r)
            | _ \<Rightarrow> (False, s))
      in if ToLower s = ''nan'' then Some NaN
         else case inf_or_nan neg t of
                Some x \<Rightarrow> Some x
              | None \<Rightarrow>
                  (case parse_udec t of
                     None \<Rightarrow> None
                   | Some q \<Rightarrow>
                       (case f64_of_rat (if neg then - q else q) of
                          PosInf \<Rightarrow> None
                        | NegInf \<Rightarrow> None
                        | Fin r \<Rightarrow> Some (if r = 0 \<and> neg then NegZero else Fin r)
                        | x \<Rightarrow> Some x)))"

section \<open>Formatting\<close>

text \<open>The decimal point position \<open>dp\<close> of a positive rational: \<open>10^(dp-1) \<le> a < 10^dp\<close>.\<close>

definition dec_point :: "rat \<Rightarrow> int" where
  "dec_point a =
     (if 1 \<le> a then int (length (show_pos \<lfloor>a\<rfloor>))
      else let l = int (length (show_pos \<lfloor>1 / a\<rfloor>))
           in if a = pow10 (1 - l) then 2 - l else 1 - l)"

text \<open>The \<open>nd\<close> significant digits nearest to \<open>a\<close>, and where the point is.\<close>

definition dec_digits :: "rat \<Rightarrow> nat \<Rightarrow> int \<times> int" where
  "dec_digits a nd =
     (let dp = dec_point a; n = round_half_even (a / pow10 (dp - int nd))
      in if n = 10 ^ nd then (n div 10, dp + 1) else (n, dp))"

fun shortest_from :: "nat \<Rightarrow> rat \<Rightarrow> nat \<Rightarrow> string \<times> int" where
  "shortest_from 0 a nd = (let (n, dp) = dec_digits a nd in (show_pos n, dp))"
| "shortest_from (Suc k) a nd =
     (let (n, dp) = dec_digits a nd in
      if f64_of_rat (of_int n * pow10 (dp - int nd)) = Fin a then (show_pos n, dp)
      else shortest_from k a (Suc nd))"

text \<open>The shortest digits that read back as the same value: at most 17 are needed.\<close>

definition shortest :: "rat \<Rightarrow> string \<times> int" where
  "shortest a = shortest_from 16 a 1"

definition fmt_e :: "string \<Rightarrow> int \<Rightarrow> string" where
  "fmt_e ds ex =
     (case ds of
        [] \<Rightarrow> []
      | d # r \<Rightarrow> d # (if r = [] then [] else CHR ''.'' # r) @ ''e'' @
          (if ex < 0 then ''-'' else ''+'') @
          (let x = show_pos \<bar>ex\<bar> in if length x < 2 then CHR ''0'' # x else x))"

definition fmt_f :: "string \<Rightarrow> int \<Rightarrow> string" where
  "fmt_f ds dp =
     (let n = int (length ds) in
      if dp \<le> 0 then ''0.'' @ replicate (nat (- dp)) CHR ''0'' @ ds
      else if n \<le> dp then ds @ replicate (nat (dp - n)) CHR ''0''
      else take (nat dp) ds @ ''.'' @ drop (nat dp) ds)"

text \<open>
  \<^verbatim>\<open>FormatFloat(x, 'g', -1, 64)\<close>, which \<^verbatim>\<open>fmt\<close> uses for \<^verbatim>\<open>%v\<close>: exponent form when the decimal
  exponent is below -4 or, with the shortest precision, at least 6.
\<close>

definition fmt_g :: "rat \<Rightarrow> string" where
  "fmt_g a =
     (let (ds, dp) = shortest a; ex = dp - 1
      in if ex < - 4 \<or> 6 \<le> ex then fmt_e ds ex else fmt_f ds dp)"

fun show_f64 :: "f64 \<Rightarrow> string" where
  "show_f64 (Fin q) =
     (if q = 0 then ''0'' else if q < 0 then CHR ''-'' # fmt_g (- q) else fmt_g q)"
| "show_f64 NegZero = ''-0''"
| "show_f64 PosInf = ''+Inf''"
| "show_f64 NegInf = ''-Inf''"
| "show_f64 NaN = ''NaN''"

fun format_f :: "f64 \<Rightarrow> string" where
  "format_f (Fin q) =
     (if q = 0 then ''0''
      else let (ds, dp) = shortest \<bar>q\<bar> in (if q < 0 then ''-'' else []) @ fmt_f ds dp)"
| "format_f NegZero = ''-0''"
| "format_f PosInf = ''+Inf''"
| "format_f NegInf = ''-Inf''"
| "format_f NaN = ''NaN''"

fun show_2f :: "f64 \<Rightarrow> string" where
  "show_2f (Fin q) =
     (let n = round_half_even (\<bar>q\<bar> * 100) in
      (if q < 0 then ''-'' else []) @ show_pos (n div 100) @ ''.'' @
      [digit_char (n div 10 mod 10), digit_char (n mod 10)])"
| "show_2f NegZero = ''-0.00''"
| "show_2f PosInf = ''+Inf''"
| "show_2f NegInf = ''-Inf''"
| "show_2f NaN = ''NaN''"

end
