(* ===== verification/Json.thy ===== *)
theory Json imports Float64 begin

text \<open>
  The part of \<^verbatim>\<open>encoding/json\<close> the source uses, on byte strings: the grammar and its decoding
  (\<^verbatim>\<open>Unmarshal\<close> into \<^verbatim>\<open>map[string]json.RawMessage\<close>, \<^verbatim>\<open>string\<close>, \<^verbatim>\<open>interface{}\<close>, \<^verbatim>\<open>int64\<close> and structs),
  and the encoder (\<^verbatim>\<open>Marshal\<close> of strings, string lists, string maps and raw maps, with HTML
  escaping).  A \<^verbatim>\<open>RawMessage\<close> is the exact text of a value, so the parse tree keeps the text of
  every element and member.  The depth limit of 10000 is not modelled.
\<close>

datatype jtree =
    TNull
  | TBool bool
  | TNum string \<comment> \<open>the literal\<close>
  | TStr string \<comment> \<open>decoded\<close>
  | TArr "(string \<times> jtree) list" \<comment> \<open>text and value of each element\<close>
  | TObj "(string \<times> string \<times> jtree) list" \<comment> \<open>decoded key, text and value of each member\<close>

section \<open>Bytes and code points\<close>

abbreviation cval :: "char \<Rightarrow> int" where "cval c \<equiv> of_char c"

definition json_ws :: "char \<Rightarrow> bool" where
  "json_ws c \<longleftrightarrow> c \<in> {CHR '' '', CHR 0x09, CHR 0x0A, CHR 0x0D}"

definition skip_ws :: "string \<Rightarrow> string" where
  "skip_ws s = dropWhile json_ws s"

lemma length_skip_ws: "length (skip_ws s) \<le> length s"
  unfolding skip_ws_def by (rule length_dropWhile_le)

definition cont :: "int \<Rightarrow> int \<Rightarrow> char \<Rightarrow> bool" where
  "cont lo hi c \<longleftrightarrow> lo \<le> cval c \<and> cval c \<le> hi"

text \<open>How many bytes the valid UTF-8 sequence at the head takes; 0 for an invalid head.\<close>

definition utf8_len :: "string \<Rightarrow> nat" where
  "utf8_len s =
     (case s of
        [] \<Rightarrow> 0
      | a # t \<Rightarrow>
          let x = cval a in
          if x < 128 then 1
          else if 194 \<le> x \<and> x \<le> 223 then
            (case t of b # _ \<Rightarrow> if cont 128 191 b then 2 else 0 | _ \<Rightarrow> 0)
          else if 224 \<le> x \<and> x \<le> 239 then
            (case t of b # c # _ \<Rightarrow>
               if cont (if x = 224 then 160 else 128) (if x = 237 then 159 else 191) b \<and> cont 128 191 c
               then 3 else 0 | _ \<Rightarrow> 0)
          else if 240 \<le> x \<and> x \<le> 244 then
            (case t of b # c # d # _ \<Rightarrow>
               if cont (if x = 240 then 144 else 128) (if x = 244 then 143 else 191) b
                  \<and> cont 128 191 c \<and> cont 128 191 d
               then 4 else 0 | _ \<Rightarrow> 0)
          else 0)"

definition utf8_encode :: "int \<Rightarrow> string" where
  "utf8_encode r =
     (if r < 128 then [char_of r]
      else if r < 2048 then [char_of (192 + r div 64), char_of (128 + r mod 64)]
      else if r < 65536 then
        [char_of (224 + r div 4096), char_of (128 + r div 64 mod 64), char_of (128 + r mod 64)]
      else
        [char_of (240 + r div 262144), char_of (128 + r div 4096 mod 64),
         char_of (128 + r div 64 mod 64), char_of (128 + r mod 64)])"

definition replacement :: string where
  "replacement = [CHR 0xEF, CHR 0xBF, CHR 0xBD]"

section \<open>Strings\<close>

definition hex_val :: "char \<Rightarrow> int option" where
  "hex_val c =
     (let x = cval c in
      if 48 \<le> x \<and> x \<le> 57 then Some (x - 48)
      else if 97 \<le> x \<and> x \<le> 102 then Some (x - 87)
      else if 65 \<le> x \<and> x \<le> 70 then Some (x - 55)
      else None)"

definition hex4 :: "char \<Rightarrow> char \<Rightarrow> char \<Rightarrow> char \<Rightarrow> int option" where
  "hex4 a b c d =
     (case (hex_val a, hex_val b, hex_val c, hex_val d) of
        (Some w, Some x, Some y, Some z) \<Rightarrow> Some (4096 * w + 256 * x + 16 * y + z)
      | _ \<Rightarrow> None)"

definition simple_escape :: "char \<Rightarrow> char option" where
  "simple_escape e =
     (if e = CHR 0x22 then Some CHR 0x22
      else if e = CHR 0x5C then Some CHR 0x5C
      else if e = CHR ''/'' then Some CHR ''/''
      else if e = CHR ''b'' then Some CHR 0x08
      else if e = CHR ''f'' then Some CHR 0x0C
      else if e = CHR ''n'' then Some CHR 0x0A
      else if e = CHR ''r'' then Some CHR 0x0D
      else if e = CHR ''t'' then Some CHR 0x09
      else None)"

definition is_surrogate :: "int \<Rightarrow> bool" where
  "is_surrogate r \<longleftrightarrow> 55296 \<le> r \<and> r < 57344"

text \<open>\<^verbatim>\<open>utf16.DecodeRune\<close>: the code point of a surrogate pair, if it is one.\<close>

definition decode_pair :: "int \<Rightarrow> int \<Rightarrow> int option" where
  "decode_pair hi lo =
     (if 55296 \<le> hi \<and> hi < 56320 \<and> 56320 \<le> lo \<and> lo < 57344
      then Some ((hi - 55296) * 1024 + (lo - 56320) + 65536) else None)"

abbreviation prepend :: "string \<Rightarrow> (string \<times> string) option \<Rightarrow> (string \<times> string) option" where
  "prepend x r \<equiv> map_option (\<lambda>(y, t). (x @ y, t)) r"

text \<open>The text after an opening quote: the decoded string and what follows the closing quote.\<close>

fun pstr :: "string \<Rightarrow> (string \<times> string) option" where
  "pstr [] = None"
| "pstr (c # s) =
     (if c = CHR 0x22 then Some ([], s)
      else if c = CHR 0x5C then
        (case s of
           [] \<Rightarrow> None
         | e # s1 \<Rightarrow>
             (case simple_escape e of
                Some x \<Rightarrow> prepend [x] (pstr s1)
              | None \<Rightarrow>
                  if e \<noteq> CHR ''u'' then None
                  else (case s1 of
                      a # b # d # f # s2 \<Rightarrow>
                        (case hex4 a b d f of
                           None \<Rightarrow> None
                         | Some u \<Rightarrow>
                             if \<not> is_surrogate u then prepend (utf8_encode u) (pstr s2)
                             else (case s2 of
                                 b1 # b2 # g # h # i # j # s3 \<Rightarrow>
                                   (case (if b1 = CHR 0x5C \<and> b2 = CHR ''u''
                                          then Option.bind (hex4 g h i j) (decode_pair u) else None) of
                                      Some r \<Rightarrow> prepend (utf8_encode r) (pstr s3)
                                    | None \<Rightarrow> prepend replacement (pstr s2))
                               | _ \<Rightarrow> prepend replacement (pstr s2)))
                    | _ \<Rightarrow> None)))
      else if cval c < 32 then None
      else if cval c < 128 then prepend [c] (pstr s)
      else (let n = utf8_len (c # s) in
            if n = 0 then prepend replacement (pstr s)
            else prepend (take n (c # s)) (pstr (drop (n - 1) s))))"

declare pstr.simps(2) [simp del]

section \<open>Numbers\<close>

text \<open>The number at the head: literal and rest.\<close>

definition scan_frac :: "string \<Rightarrow> (string \<times> string) option" where
  "scan_frac s =
     (case s of
        CHR ''.'' # t \<Rightarrow>
          if takeWhile is_digit t = [] then None
          else Some (CHR ''.'' # takeWhile is_digit t, dropWhile is_digit t)
      | _ \<Rightarrow> Some ([], s))"

definition scan_exp :: "string \<Rightarrow> (string \<times> string) option" where
  "scan_exp s =
     (case s of
        e # t \<Rightarrow>
          if e = CHR ''e'' \<or> e = CHR ''E'' then
            (let (sg, u) = (case t of
                   CHR ''+'' # u \<Rightarrow> (''+'', u) | CHR ''-'' # u \<Rightarrow> (''-'', u) | _ \<Rightarrow> ([], t))
             in if takeWhile is_digit u = [] then None
                else Some (e # sg @ takeWhile is_digit u, dropWhile is_digit u))
          else Some ([], s)
      | [] \<Rightarrow> Some ([], s))"

definition scan_number :: "string \<Rightarrow> (string \<times> string) option" where
  "scan_number s =
     (let (sg, t) = (case s of CHR ''-'' # t \<Rightarrow> (''-'', t) | _ \<Rightarrow> ([], s));
          ip = (case t of
                  CHR ''0'' # u \<Rightarrow> Some (''0'', u)
                | _ \<Rightarrow> if takeWhile is_digit t = [] then None
                       else Some (takeWhile is_digit t, dropWhile is_digit t))
      in case ip of
           None \<Rightarrow> None
         | Some (i, u) \<Rightarrow>
             (case scan_frac u of
                None \<Rightarrow> None
              | Some (f, v) \<Rightarrow>
                  (case scan_exp v of
                     None \<Rightarrow> None
                   | Some (e, w) \<Rightarrow> Some (sg @ i @ f @ e, w))))"

section \<open>Values\<close>

text \<open>
  Recursive descent.  Each call on a rest is guarded by that rest being shorter, which it always
  is; the guard is what makes the recursion well founded without a fuel argument.
\<close>

function pval :: "string \<Rightarrow> (jtree \<times> string) option"
  and parr :: "string \<Rightarrow> ((string \<times> jtree) list \<times> string) option"
  and pobj :: "string \<Rightarrow> ((string \<times> string \<times> jtree) list \<times> string) option" where
  "pval s =
     (case s of
        [] \<Rightarrow> None
      | c # t \<Rightarrow>
          if c = CHR ''{'' then
            (case skip_ws t of
               [] \<Rightarrow> None
             | d # r \<Rightarrow> if d = CHR ''}'' then Some (TObj [], r)
                        else map_option (\<lambda>(ms, u). (TObj ms, u)) (pobj t))
          else if c = CHR ''['' then
            (case skip_ws t of
               [] \<Rightarrow> None
             | d # r \<Rightarrow> if d = CHR '']'' then Some (TArr [], r)
                        else map_option (\<lambda>(vs, u). (TArr vs, u)) (parr t))
          else if c = CHR 0x22 then map_option (\<lambda>(x, u). (TStr x, u)) (pstr t)
          else if HasPrefix s ''true'' then Some (TBool True, drop 4 s)
          else if HasPrefix s ''false'' then Some (TBool False, drop 5 s)
          else if HasPrefix s ''null'' then Some (TNull, drop 4 s)
          else map_option (\<lambda>(x, u). (TNum x, u)) (scan_number s))"
| "parr s =
     (let s1 = skip_ws s in
      case pval s1 of
        None \<Rightarrow> None
      | Some (v, r) \<Rightarrow>
          (let raw = take (length s1 - length r) s1 in
           case skip_ws r of
             [] \<Rightarrow> None
           | d # r2 \<Rightarrow>
               if d = CHR '']'' then Some ([(raw, v)], r2)
               else if d = CHR '','' \<and> length r2 < length s
                 then map_option (\<lambda>(vs, u). ((raw, v) # vs, u)) (parr r2)
               else None))"
| "pobj s =
     (case skip_ws s of
        [] \<Rightarrow> None
      | q # t \<Rightarrow>
          if q \<noteq> CHR 0x22 then None
          else (case pstr t of
              None \<Rightarrow> None
            | Some (k, r) \<Rightarrow>
                (case skip_ws r of
                   [] \<Rightarrow> None
                 | d # r1 \<Rightarrow>
                     if d \<noteq> CHR '':'' then None
                     else let s2 = skip_ws r1 in
                       if length s2 < length s then
                         (case pval s2 of
                            None \<Rightarrow> None
                          | Some (v, r3) \<Rightarrow>
                              (let raw = take (length s2 - length r3) s2 in
                               case skip_ws r3 of
                                 [] \<Rightarrow> None
                               | e # r4 \<Rightarrow>
                                   if e = CHR ''}'' then Some ([(k, raw, v)], r4)
                                   else if e = CHR '','' \<and> length r4 < length s
                                     then map_option (\<lambda>(ms, u). ((k, raw, v) # ms, u)) (pobj r4)
                                   else None))
                       else None)))"
  by pat_completeness auto
termination
  by (relation "measures [\<lambda>x. case x of Inl s \<Rightarrow> length s
                            | Inr (Inl s) \<Rightarrow> length s | Inr (Inr s) \<Rightarrow> length s,
                          \<lambda>x. case x of Inl s \<Rightarrow> 0 | Inr (Inl s) \<Rightarrow> 1 | Inr (Inr s) \<Rightarrow> (1::nat)]")
     (auto simp: less_le length_skip_ws)

declare pval.simps [simp del] parr.simps [simp del] pobj.simps [simp del]

text \<open>A whole document: one value, with white space around it and nothing else.\<close>

definition parse_json :: "string \<Rightarrow> jtree option" where
  "parse_json s =
     (case pval (skip_ws s) of
        None \<Rightarrow> None
      | Some (v, r) \<Rightarrow> if skip_ws r = [] then Some v else None)"

definition json_valid :: "string \<Rightarrow> bool" where
  "json_valid s \<longleftrightarrow> parse_json s \<noteq> None"

section \<open>Decoding into Go values\<close>

text \<open>
  \<^verbatim>\<open>Unmarshal\<close> into a fresh \<^verbatim>\<open>map[string]json.RawMessage\<close>: \<^verbatim>\<open>null\<close> leaves the map nil without an
  error, a later member wins over an earlier one with the same key, anything but an object is an
  error.
\<close>

definition raw_map :: "string \<Rightarrow> (string \<rightharpoonup> string) option" where
  "raw_map s =
     (case parse_json s of
        Some (TObj ms) \<Rightarrow> Some (map_of (rev (map (\<lambda>(k, raw, _). (k, raw)) ms)))
      | Some TNull \<Rightarrow> Some Map.empty
      | _ \<Rightarrow> None)"

text \<open>
  The keys of such a map without duplicates: what \<^verbatim>\<open>Marshal\<close> iterates over.
\<close>

definition raw_keys :: "string \<Rightarrow> string list" where
  "raw_keys s =
     (case parse_json s of
        Some (TObj ms) \<Rightarrow> remdups (map fst ms)
      | _ \<Rightarrow> [])"

text \<open>\<^verbatim>\<open>Unmarshal\<close> into a zero \<^verbatim>\<open>string\<close>: \<^verbatim>\<open>null\<close> is no error and leaves it empty.\<close>

definition unmarshal_string :: "string \<Rightarrow> string option" where
  "unmarshal_string s =
     (case parse_json s of
        Some (TStr x) \<Rightarrow> Some x
      | Some TNull \<Rightarrow> Some []
      | _ \<Rightarrow> None)"

text \<open>\<^verbatim>\<open>interface{}\<close> values; a number that \<^verbatim>\<open>float64\<close> cannot hold is an error.\<close>

datatype iface =
    INil
  | IBool bool
  | INum f64
  | IStr string
  | IArr "iface list"
  | IObj "(string \<times> iface) list" \<comment> \<open>without duplicate keys\<close>

definition alist_put :: "'k \<Rightarrow> 'v \<Rightarrow> ('k \<times> 'v) list \<Rightarrow> ('k \<times> 'v) list" where
  "alist_put k v xs =
     (if k \<in> set (map fst xs) then map (\<lambda>(k', v'). if k' = k then (k, v) else (k', v')) xs
      else xs @ [(k, v)])"

fun to_iface :: "jtree \<Rightarrow> iface option"
  and to_iface_arr :: "(string \<times> jtree) list \<Rightarrow> iface list option"
  and to_iface_obj :: "(string \<times> string \<times> jtree) list \<Rightarrow> (string \<times> iface) list \<Rightarrow>
         (string \<times> iface) list option" where
  "to_iface TNull = Some INil"
| "to_iface (TBool b) = Some (IBool b)"
| "to_iface (TNum lit) = map_option INum (ParseFloat lit)"
| "to_iface (TStr s) = Some (IStr s)"
| "to_iface (TArr vs) = map_option IArr (to_iface_arr vs)"
| "to_iface (TObj ms) = map_option IObj (to_iface_obj ms [])"
| "to_iface_arr [] = Some []"
| "to_iface_arr ((_, v) # vs) =
     (case (to_iface v, to_iface_arr vs) of
        (Some x, Some xs) \<Rightarrow> Some (x # xs) | _ \<Rightarrow> None)"
| "to_iface_obj [] acc = Some acc"
| "to_iface_obj ((k, _, v) # ms) acc =
     (case to_iface v of
        Some x \<Rightarrow> to_iface_obj ms (alist_put k x acc) | None \<Rightarrow> None)"

definition unmarshal_iface :: "string \<Rightarrow> iface option" where
  "unmarshal_iface s = Option.bind (parse_json s) to_iface"

text \<open>\<^verbatim>\<open>Unmarshal\<close> into a fresh \<^verbatim>\<open>map[string]interface{}\<close>.\<close>

definition iface_map :: "string \<Rightarrow> (string \<times> iface) list option" where
  "iface_map s =
     (case unmarshal_iface s of
        Some (IObj ms) \<Rightarrow> Some ms
      | Some INil \<Rightarrow> Some []
      | _ \<Rightarrow> None)"

text \<open>
  A struct field takes the last member whose key is its name up to case; \<^verbatim>\<open>null\<close> does not set it.
\<close>

definition struct_field :: "string \<Rightarrow> (string \<times> string \<times> jtree) list \<Rightarrow> jtree option" where
  "struct_field name ms =
     (case [v. (k, _, v) \<leftarrow> ms, EqualFold k name \<and> v \<noteq> TNull] of
        [] \<Rightarrow> None
      | vs \<Rightarrow> Some (last vs))"

text \<open>\<^verbatim>\<open>strconv.ParseInt(lit, 10, 64)\<close> on a JSON number literal.\<close>

definition parse_int64 :: "string \<Rightarrow> int option" where
  "parse_int64 lit =
     (let (neg, ds) = (case lit of CHR ''-'' # t \<Rightarrow> (True, t) | _ \<Rightarrow> (False, lit));
          n = (if neg then - digits_val ds else digits_val ds)
      in if ds \<noteq> [] \<and> list_all is_digit ds \<and> - (2 ^ 63) \<le> n \<and> n < 2 ^ 63 then Some n else None)"

text \<open>
  Decoding a scalar field: the zero value when the member is missing, \<^verbatim>\<open>None\<close> for a type error.
\<close>

definition field_int :: "string \<Rightarrow> (string \<times> string \<times> jtree) list \<Rightarrow> int option" where
  "field_int name ms =
     (case struct_field name ms of
        None \<Rightarrow> Some 0
      | Some (TNum lit) \<Rightarrow> parse_int64 lit
      | _ \<Rightarrow> None)"

definition field_f64 :: "string \<Rightarrow> (string \<times> string \<times> jtree) list \<Rightarrow> f64 option" where
  "field_f64 name ms =
     (case struct_field name ms of
        None \<Rightarrow> Some (Fin 0)
      | Some (TNum lit) \<Rightarrow> ParseFloat lit
      | _ \<Rightarrow> None)"

definition field_str :: "string \<Rightarrow> (string \<times> string \<times> jtree) list \<Rightarrow> string option" where
  "field_str name ms =
     (case struct_field name ms of
        None \<Rightarrow> Some []
      | Some (TStr x) \<Rightarrow> Some x
      | _ \<Rightarrow> None)"

section \<open>Formatting an interface value with \<open>%v\<close>\<close>

fun str_le :: "string \<Rightarrow> string \<Rightarrow> bool" where
  "str_le [] _ = True"
| "str_le (_ # _) [] = False"
| "str_le (x # xs) (y # ys) = (if x = y then str_le xs ys else cval x < cval y)"

fun insert_key :: "string \<times> 'v \<Rightarrow> (string \<times> 'v) list \<Rightarrow> (string \<times> 'v) list" where
  "insert_key p [] = [p]"
| "insert_key p (q # qs) = (if str_le (fst p) (fst q) then p # q # qs else q # insert_key p qs)"

definition sort_keys :: "(string \<times> 'v) list \<Rightarrow> (string \<times> 'v) list" where
  "sort_keys xs = foldr insert_key xs []"

fun show_iface :: "iface \<Rightarrow> string"
  and show_iface_list :: "iface list \<Rightarrow> string list"
  and show_iface_obj :: "(string \<times> iface) list \<Rightarrow> (string \<times> string) list" where
  "show_iface INil = ''<nil>''"
| "show_iface (IBool b) = (if b then ''true'' else ''false'')"
| "show_iface (INum x) = show_f64 x"
| "show_iface (IStr s) = s"
| "show_iface (IArr xs) = ''['' @ join '' '' (show_iface_list xs) @ '']''"
| "show_iface (IObj ms) =
     ''map['' @ join '' '' (map snd (sort_keys (show_iface_obj ms))) @ '']''"
| "show_iface_list [] = []"
| "show_iface_list (x # xs) = show_iface x # show_iface_list xs"
| "show_iface_obj [] = []"
| "show_iface_obj ((k, v) # ms) = (k, k @ '':'' @ show_iface v) # show_iface_obj ms"

section \<open>Encoding\<close>

definition hex_escape :: "int \<Rightarrow> string" where
  "hex_escape n = CHR 0x5C # CHR ''u'' # hex_pad 4 n"

definition escape_byte :: "char \<Rightarrow> string" where
  "escape_byte c =
     (if c = CHR 0x22 then [CHR 0x5C, CHR 0x22]
      else if c = CHR 0x5C then [CHR 0x5C, CHR 0x5C]
      else if c = CHR 0x08 then [CHR 0x5C, CHR ''b'']
      else if c = CHR 0x0C then [CHR 0x5C, CHR ''f'']
      else if c = CHR 0x0A then [CHR 0x5C, CHR ''n'']
      else if c = CHR 0x0D then [CHR 0x5C, CHR ''r'']
      else if c = CHR 0x09 then [CHR 0x5C, CHR ''t'']
      else if cval c < 32 \<or> c \<in> set ''<>&'' then hex_escape (cval c)
      else [c])"

text \<open>
  The body of an encoded string.  U+2028 and U+2029 are escaped, a byte that starts no valid
  sequence becomes the escape of the replacement character.
\<close>

function enc_body :: "string \<Rightarrow> string" where
  "enc_body [] = []"
| "enc_body (c # s) =
     (if cval c < 128 then escape_byte c @ enc_body s
      else if utf8_len (c # s) = 0 then CHR 0x5C # ''ufffd'' @ enc_body s
      else if take 3 (c # s) = [CHR 0xE2, CHR 0x80, CHR 0xA8]
        then CHR 0x5C # ''u2028'' @ enc_body (drop 2 s)
      else if take 3 (c # s) = [CHR 0xE2, CHR 0x80, CHR 0xA9]
        then CHR 0x5C # ''u2029'' @ enc_body (drop 2 s)
      else take (utf8_len (c # s)) (c # s) @ enc_body (drop (utf8_len (c # s) - 1) s))"
  by pat_completeness auto
termination by (relation "measure length") auto

declare enc_body.simps(2) [simp del]

definition marshal_string :: "string \<Rightarrow> string" where
  "marshal_string s = CHR 0x22 # enc_body s @ [CHR 0x22]"

definition marshal_strings :: "string list \<Rightarrow> string" where
  "marshal_strings xs = ''['' @ join '','' (map marshal_string xs) @ '']''"

definition marshal_object :: "(string \<times> string) list \<Rightarrow> string" where
  "marshal_object ms =
     ''{'' @ join '','' (map (\<lambda>(k, v). marshal_string k @ '':'' @ v) (sort_keys ms)) @ ''}''"

text \<open>\<^verbatim>\<open>Marshal\<close> of a \<^verbatim>\<open>map[string]string\<close>.\<close>

definition marshal_str_map :: "(string \<times> string) list \<Rightarrow> string" where
  "marshal_str_map ms = marshal_object (map (\<lambda>(k, v). (k, marshal_string v)) ms)"

text \<open>The compact form of a raw value, with the HTML characters escaped.\<close>

fun compact :: "bool \<Rightarrow> string \<Rightarrow> string" where
  "compact _ [] = []"
| "compact False (c # s) =
     (if json_ws c then compact False s
      else if c = CHR 0x22 then c # compact True s
      else (if c \<in> set ''<>&'' then hex_escape (cval c) else [c]) @ compact False s)"
| "compact True (c # s) =
     (if c = CHR 0x5C then (case s of [] \<Rightarrow> [c] | d # t \<Rightarrow> c # d # compact True t)
      else if c = CHR 0x22 then c # compact False s
      else if c \<in> set ''<>&'' then hex_escape (cval c) @ compact True s
      else if take 3 (c # s) = [CHR 0xE2, CHR 0x80, CHR 0xA8]
        then CHR 0x5C # ''u2028'' @ compact True (drop 2 s)
      else if take 3 (c # s) = [CHR 0xE2, CHR 0x80, CHR 0xA9]
        then CHR 0x5C # ''u2029'' @ compact True (drop 2 s)
      else c # compact True s)"

text \<open>\<^verbatim>\<open>Marshal\<close> of a \<^verbatim>\<open>map[string]json.RawMessage\<close>: an invalid raw value is an error.\<close>

definition marshal_raw_map :: "(string \<times> string) list \<Rightarrow> string option" where
  "marshal_raw_map ms =
     (if \<forall>(_, v) \<in> set ms. json_valid v
      then Some (marshal_object (map (\<lambda>(k, v). (k, compact False v)) ms)) else None)"

section \<open>What is encoded reads back\<close>

lemma skip_ws_nonws [simp]: "\<not> json_ws c \<Longrightarrow> skip_ws (c # s) = c # s"
  by (simp add: skip_ws_def)

definition ascii :: "char \<Rightarrow> bool" where
  "ascii c \<longleftrightarrow> cval c < 128"

lemma hex_checked:
  "list_all (\<lambda>n. case hex_pad 4 n of [w, x, y, z] \<Rightarrow> hex4 w x y z = Some n | _ \<Rightarrow> False) [0..127]"
  by code_simp

lemma hex4_pad:
  assumes "0 \<le> n" "n < 128"
  shows "\<exists>w x y z. hex_pad 4 n = [w, x, y, z] \<and> hex4 w x y z = Some n"
proof -
  have "n \<in> set [0..127]" using assms by simp
  with hex_checked have "case hex_pad 4 n of [w, x, y, z] \<Rightarrow> hex4 w x y z = Some n | _ \<Rightarrow> False"
    unfolding list_all_iff by blast
  then show ?thesis by (auto split: list.splits)
qed

lemma cval_nonneg [simp]: "0 \<le> cval c"
  by (cases c) (simp add: of_char_def)

lemma pstr_plain:
  "c \<noteq> CHR 0x22 \<Longrightarrow> c \<noteq> CHR 0x5C \<Longrightarrow> 32 \<le> cval c \<Longrightarrow> cval c < 128 \<Longrightarrow> pstr (c # t) = prepend [c] (pstr t)"
  by (simp add: pstr.simps(2))

lemma pstr_hex:
  assumes "cval c < 128"
  shows "pstr (hex_escape (cval c) @ t) = prepend [c] (pstr t)"
proof -
  obtain w x y z where h: "hex_pad 4 (cval c) = [w, x, y, z]" "hex4 w x y z = Some (cval c)"
    using hex4_pad [of "cval c"] assms by auto
  have "simple_escape CHR ''u'' = None" by (simp add: simple_escape_def)
  moreover have "\<not> is_surrogate (cval c)" using assms by (simp add: is_surrogate_def)
  moreover have "utf8_encode (cval c) = [c]" using assms by (simp add: utf8_encode_def)
  ultimately show ?thesis using h by (simp add: hex_escape_def pstr.simps(2))
qed

lemma pstr_escape:
  assumes "cval c < 128"
  shows "pstr (escape_byte c @ t) = prepend [c] (pstr t)"
proof -
  let ?S = "{CHR 0x22, CHR 0x5C, CHR 0x08, CHR 0x0C, CHR 0x0A, CHR 0x0D, CHR 0x09}"
  consider "c \<in> ?S" | "c \<notin> ?S" "cval c < 32 \<or> c \<in> set ''<>&''"
    | "c \<notin> ?S" "\<not> (cval c < 32 \<or> c \<in> set ''<>&'')" by blast
  then show ?thesis
  proof cases
    case 1
    then show ?thesis
      by (elim insertE emptyE) (simp_all add: escape_byte_def pstr.simps(2) simple_escape_def)
  next
    case 2
    then have "escape_byte c = hex_escape (cval c)" unfolding escape_byte_def by simp
    then show ?thesis by (simp add: pstr_hex assms)
  next
    case 3
    then have "escape_byte c = [c]" unfolding escape_byte_def by simp
    with 3 show ?thesis by (simp add: pstr_plain assms)
  qed
qed

lemma pstr_enc_body:
  "list_all ascii s \<Longrightarrow> pstr (enc_body s @ CHR 0x22 # r) = Some (s, r)"
proof (induction s)
  case Nil
  then show ?case by (simp add: pstr.simps(2))
next
  case (Cons c s)
  then show ?case by (simp add: ascii_def enc_body.simps(2) pstr_escape)
qed

lemma pval_marshal_string:
  "list_all ascii s \<Longrightarrow> pval (marshal_string s @ r) = Some (TStr s, r)"
  by (simp add: marshal_string_def pval.simps pstr_enc_body)

lemma skip_ws_marshal [simp]: "skip_ws (marshal_string s @ r) = marshal_string s @ r"
  by (simp add: marshal_string_def skip_ws_def json_ws_def)

lemma parr_one:
  assumes "list_all ascii s" "\<not> json_ws d"
  shows "parr (marshal_string s @ d # u) =
    (if d = CHR '']'' then Some ([(marshal_string s, TStr s)], u)
     else if d = CHR '','' then map_option (\<lambda>(vs, t). ((marshal_string s, TStr s) # vs, t)) (parr u)
     else None)"
  using assms by (subst parr.simps) (simp add: Let_def pval_marshal_string)

lemma parr_marshal:
  "ids \<noteq> [] \<Longrightarrow> list_all (list_all ascii) ids \<Longrightarrow>
   parr (join '','' (map marshal_string ids) @ CHR '']'' # r) =
     Some (map (\<lambda>s. (marshal_string s, TStr s)) ids, r)"
proof (induction ids rule: induct_list012)
  case 1
  then show ?case by simp
next
  case (2 s)
  then show ?case by (simp add: parr_one json_ws_def)
next
  case (3 s t ss)
  then show ?case by (simp add: parr_one json_ws_def)
qed

lemma parse_marshal_strings:
  assumes "list_all (list_all ascii) ids"
  shows "parse_json (marshal_strings ids) = Some (TArr (map (\<lambda>s. (marshal_string s, TStr s)) ids))"
proof (cases ids)
  case Nil
  then show ?thesis by (simp add: marshal_strings_def parse_json_def skip_ws_def json_ws_def pval.simps)
next
  case (Cons s ss)
  have "skip_ws (join '','' (map marshal_string ids) @ '']'') = join '','' (map marshal_string ids) @ '']''"
    using Cons by (cases ss) (simp_all add: marshal_string_def skip_ws_def json_ws_def)
  moreover have "\<exists>t. join '','' (map marshal_string ids) @ '']'' = CHR 0x22 # t"
    using Cons by (cases ss) (simp_all add: marshal_string_def)
  ultimately show ?thesis
    using parr_marshal [of ids "[]"] assms Cons
    by (auto simp: marshal_strings_def parse_json_def json_ws_def pval.simps) (simp_all add: skip_ws_def)
qed

end
