(* ===== verification/Go_Time.thy ===== *)
theory Go_Time imports Float64 begin

text \<open>
  The part of the package \<^verbatim>\<open>time\<close> the source uses, and 64-bit wrap-around.  A \<^verbatim>\<open>Duration\<close> and an
  instant are nanosecond counts (an instant: since the Unix epoch, in UTC).  Modelled are
  \<^verbatim>\<open>ParseDuration\<close>, \<^verbatim>\<open>Duration.String\<close>, \<^verbatim>\<open>Duration.Round(time.Second)\<close>, and the layouts
  \<^verbatim>\<open>RFC3339Nano\<close> and \<^verbatim>\<open>2006-01-02\<close>.
\<close>

section \<open>Integers of 64 bits\<close>

definition wrap64 :: "int \<Rightarrow> int" where
  "wrap64 x = (x + 9223372036854775808) mod 18446744073709551616 - 9223372036854775808"

definition in64 :: "int \<Rightarrow> bool" where
  "in64 x \<longleftrightarrow> - 9223372036854775808 \<le> x \<and> x < 9223372036854775808"

lemma wrap64_in64 [simp]: "in64 (wrap64 x)"
  unfolding wrap64_def in64_def
  using pos_mod_sign [of 18446744073709551616 "x + 9223372036854775808"]
    pos_mod_bound [of 18446744073709551616 "x + 9223372036854775808"] by linarith

lemma wrap64_id: "in64 x \<Longrightarrow> wrap64 x = x"
  unfolding wrap64_def in64_def by (subst mod_pos_pos_trivial) auto

section \<open>Parsing durations\<close>

definition two63 :: int where "two63 = 9223372036854775808"

text \<open>\<^verbatim>\<open>leadingInt\<close>: an error once the value passes \<open>2^63\<close>.\<close>

fun leadingInt :: "int \<Rightarrow> string \<Rightarrow> (int \<times> string) option" where
  "leadingInt x [] = Some (x, [])"
| "leadingInt x (c # s) =
     (if \<not> is_digit c then Some (x, c # s)
      else if two63 div 10 < x then None
      else let y = 10 * x + digit_val c in if two63 < y then None else leadingInt y s)"

text \<open>\<^verbatim>\<open>leadingFraction\<close>: digits that do not fit any more are dropped.\<close>

fun leadingFraction :: "int \<Rightarrow> int \<Rightarrow> bool \<Rightarrow> string \<Rightarrow> int \<times> int \<times> string" where
  "leadingFraction x sc ov [] = (x, sc, [])"
| "leadingFraction x sc ov (c # s) =
     (if \<not> is_digit c then (x, sc, c # s)
      else if ov then leadingFraction x sc ov s
      else if (two63 - 1) div 10 < x then leadingFraction x sc True s
      else let y = 10 * x + digit_val c in
        if two63 < y then leadingFraction x sc True s
        else leadingFraction y (10 * sc) False s)"

definition unit_map :: "string \<Rightarrow> int option" where
  "unit_map u =
     (if u = ''ns'' then Some 1
      else if u = ''us'' \<or> u = [CHR 0xC2, CHR 0xB5, CHR ''s''] \<or> u = [CHR 0xCE, CHR 0xBC, CHR ''s'']
        then Some 1000
      else if u = ''ms'' then Some millisecond
      else if u = ''s'' then Some second
      else if u = ''m'' then Some minute
      else if u = ''h'' then Some hour
      else None)"

text \<open>The nanoseconds of a fraction, computed in \<^verbatim>\<open>float64\<close>: \<open>uint64(float64(f) * (float64(unit) / scale))\<close>.\<close>

definition frac_ns :: "int \<Rightarrow> int \<Rightarrow> int \<Rightarrow> int" where
  "frac_ns f sc unit =
     (case (f64_of_int f, f64_of_rat (of_int unit / of_int sc)) of
        (Fin a, Fin b) \<Rightarrow> (case f64_of_rat (a * b) of Fin c \<Rightarrow> \<lfloor>c\<rfloor> | _ \<Rightarrow> 0)
      | _ \<Rightarrow> 0)"

definition not_unit_char :: "char \<Rightarrow> bool" where
  "not_unit_char c \<longleftrightarrow> c = CHR ''.'' \<or> is_digit c"

text \<open>The loop of \<^verbatim>\<open>ParseDuration\<close>: number and unit pairs up to the end of the text.\<close>

function parse_units :: "int \<Rightarrow> string \<Rightarrow> int option" where
  "parse_units d s =
     (case s of
        [] \<Rightarrow> Some d
      | c # _ \<Rightarrow>
          if \<not> (c = CHR ''.'' \<or> is_digit c) then None
          else (case leadingInt 0 s of
            None \<Rightarrow> None
          | Some (v, s1) \<Rightarrow>
              (let pre = (length s \<noteq> length s1);
                   (f, sc, s2, post) =
                     (case s1 of
                        CHR ''.'' # t \<Rightarrow>
                          (let (f, sc, s2) = leadingFraction 0 1 False t
                           in (f, sc, s2, length t \<noteq> length s2))
                      | _ \<Rightarrow> (0, 1, s1, False));
                   u = takeWhile (\<lambda>c. \<not> not_unit_char c) s2;
                   s3 = dropWhile (\<lambda>c. \<not> not_unit_char c) s2
               in if \<not> pre \<and> \<not> post then None
                  else if u = [] then None
                  else (case unit_map u of
                    None \<Rightarrow> None
                  | Some unit \<Rightarrow>
                      if two63 div unit < v then None
                      else (let v1 = v * unit;
                                v2 = (if 0 < f then v1 + frac_ns f sc unit else v1);
                                d2 = d + v2
                            in if two63 < v2 \<or> two63 < d2 then None
                               else if length s3 < length s then parse_units d2 s3
                               else None)))))"
  by pat_completeness auto
termination by (relation "measure (\<lambda>(d, s). length s)") auto

declare parse_units.simps [simp del]

definition ParseDuration :: "string \<Rightarrow> int option" where
  "ParseDuration s =
     (let (neg, t) = (case s of
              CHR ''-'' # r \<Rightarrow> (True, r) | CHR ''+'' # r \<Rightarrow> (False, r) | _ \<Rightarrow> (False, s))
      in if t = ''0'' then Some 0
         else if t = [] then None
         else (case parse_units 0 t of
                 None \<Rightarrow> None
               | Some d \<Rightarrow> if neg then Some (- d)
                          else if two63 - 1 < d then None else Some d))"

text \<open>\<^verbatim>\<open>int64(d.Seconds())\<close>.\<close>

definition whole_seconds :: "int \<Rightarrow> int" where
  "whole_seconds d =
     (let q = \<bar>d\<bar> div second; r = \<bar>d\<bar> mod second
      in case f64_add (f64_of_int q) (f64_of_rat (of_int r / 1000000000)) of
           Fin x \<Rightarrow> (if d < 0 then - \<lfloor>x\<rfloor> else \<lfloor>x\<rfloor>) | _ \<Rightarrow> 0)"

section \<open>Formatting\<close>

fun pad_int :: "nat \<Rightarrow> int \<Rightarrow> string" where
  "pad_int 0 n = []"
| "pad_int (Suc w) n = pad_int w (n div 10) @ [digit_char (n mod 10)]"

text \<open>A fraction of \<open>w\<close> digits without its trailing zeros, and without the point when it is zero.\<close>

definition fmtFrac :: "nat \<Rightarrow> int \<Rightarrow> string" where
  "fmtFrac w f =
     (if f = 0 then [] else CHR ''.'' # trim_right (\<lambda>c. c = CHR ''0'') (pad_int w f))"

definition show_duration :: "int \<Rightarrow> string" where
  "show_duration d =
     (let u = \<bar>d\<bar>;
          body =
            (if u = 0 then ''0s''
             else if u < 1000 then show_pos u @ ''ns''
             else if u < millisecond
               then show_pos (u div 1000) @ fmtFrac 3 (u mod 1000) @ [CHR 0xC2, CHR 0xB5, CHR ''s'']
             else if u < second
               then show_pos (u div millisecond) @ fmtFrac 6 (u mod millisecond) @ ''ms''
             else let sec = u div second; mn = sec div 60; hr = mn div 60 in
               (if hr > 0 then show_pos hr @ ''h'' else []) @
               (if mn > 0 then show_pos (mn mod 60) @ ''m'' else []) @
               show_pos (sec mod 60) @ fmtFrac 9 (u mod second) @ ''s'')
      in (if d < 0 then CHR ''-'' # body else body))"

text \<open>\<^verbatim>\<open>Round(time.Second)\<close>: to the nearest multiple, halves away from zero.\<close>

definition round_second :: "int \<Rightarrow> int" where
  "round_second d =
     (if d < 0 then (let r = (- d) mod second in if r + r < second then d + r else d - second + r)
      else (let r = d mod second in if r + r < second then d - r else d + second - r))"

text \<open>
  The civil date of a day count since the epoch: year, month, day.  Years are counted from March
  in eras of 400 years; \<open>doe\<close> is the day of the era, \<open>doy\<close> the day of the year, \<open>mp\<close> the month from March.
\<close>

definition year_of :: "int \<Rightarrow> int" where
  "year_of doe = (doe - doe div 1460 + doe div 36524 - doe div 146096) div 365"

definition year_start :: "int \<Rightarrow> int" where
  "year_start y = 365 * y + y div 4 - y div 100"

definition doe_of :: "int \<Rightarrow> int" where "doe_of n = (n + 719468) mod 146097"
definition doy_of :: "int \<Rightarrow> int" where "doy_of n = doe_of n - year_start (year_of (doe_of n))"
definition mp_of :: "int \<Rightarrow> int" where "mp_of n = (5 * doy_of n + 2) div 153"

definition civil :: "int \<Rightarrow> int \<times> int \<times> int" where
  "civil n =
     (let m = (if mp_of n < 10 then mp_of n + 3 else mp_of n - 9)
      in (year_of (doe_of n) + (n + 719468) div 146097 * 400 + (if m \<le> 2 then 1 else 0), m,
          doy_of n - (153 * mp_of n + 2) div 5 + 1))"

definition days_of :: "int \<Rightarrow> int \<Rightarrow> int \<Rightarrow> int" where
  "days_of y m d =
     (let y' = (if m \<le> 2 then y - 1 else y); era = y' div 400; yoe = y' mod 400;
          doy = (153 * (if m > 2 then m - 3 else m + 9) + 2) div 5 + d - 1;
          doe = yoe * 365 + yoe div 4 - yoe div 100 + doy
      in era * 146097 + doe - 719468)"

abbreviation day :: int where "day \<equiv> 86400000000000"

definition show_date :: "int \<Rightarrow> string" where
  "show_date t =
     (let (y, m, d) = civil (t div day)
      in pad_int 4 y @ ''-'' @ pad_int 2 m @ ''-'' @ pad_int 2 d)"

definition show_clock :: "int \<Rightarrow> string" where
  "show_clock t =
     (let s = t mod day div second
      in pad_int 2 (s div 3600) @ '':'' @ pad_int 2 (s div 60 mod 60) @ '':'' @ pad_int 2 (s mod 60))"

text \<open>\<^verbatim>\<open>t.UTC().Format(time.RFC3339Nano)\<close>: the fraction of a second loses its trailing zeros.\<close>

definition RFC3339Nano :: "int \<Rightarrow> string" where
  "RFC3339Nano t = show_date t @ ''T'' @ show_clock t @ fmtFrac 9 (t mod second) @ ''Z''"

text \<open>The text of SQLite's \<^verbatim>\<open>CURRENT_TIMESTAMP\<close>.\<close>

definition CURRENT_TIMESTAMP :: "int \<Rightarrow> string" where
  "CURRENT_TIMESTAMP t = show_date t @ '' '' @ show_clock t"

section \<open>Parsing stored timestamps\<close>

definition number :: "string \<Rightarrow> int option" where
  "number ds = (if ds \<noteq> [] \<and> list_all is_digit ds then Some (digits_val ds) else None)"

text \<open>
  Date and clock in fixed columns, with the given separator; a date is valid when it is the civil
  date of its own day number.
\<close>

definition parse_date_clock :: "char \<Rightarrow> string \<Rightarrow> (int \<times> string) option" where
  "parse_date_clock sep s =
     (if length s < 19 then None
      else if s ! 4 \<noteq> CHR ''-'' \<or> s ! 7 \<noteq> CHR ''-'' \<or> s ! 10 \<noteq> sep \<or> s ! 13 \<noteq> CHR '':'' \<or> s ! 16 \<noteq> CHR '':''
        then None
      else case (number (take 4 s), number (take 2 (drop 5 s)), number (take 2 (drop 8 s)),
                 number (take 2 (drop 11 s)), number (take 2 (drop 14 s)), number (take 2 (drop 17 s))) of
        (Some y, Some m, Some d, Some hh, Some mi, Some ss) \<Rightarrow>
          if civil (days_of y m d) = (y, m, d) \<and> hh < 24 \<and> mi < 60 \<and> ss < 60
          then Some (((days_of y m d * 24 + hh) * 60 + mi) * 60 + ss, drop 19 s) else None
      | _ \<Rightarrow> None)"

text \<open>The fraction of a second, of which nine digits count.\<close>

definition parse_frac :: "string \<Rightarrow> (int \<times> string) option" where
  "parse_frac s =
     (case s of
        CHR ''.'' # t \<Rightarrow>
          (let ds = takeWhile is_digit t in
           if ds = [] then None
           else Some (digits_val (take 9 (ds @ replicate 9 CHR ''0'')), dropWhile is_digit t))
      | _ \<Rightarrow> Some (0, s))"

definition parse_zone :: "string \<Rightarrow> int option" where
  "parse_zone s =
     (if s = ''Z'' then Some 0
      else if length s = 6 \<and> s ! 0 \<in> {CHR ''+'', CHR ''-''} \<and> s ! 3 = CHR '':'' then
        (case (number (take 2 (drop 1 s)), number (drop 4 s)) of
           (Some hh, Some mi) \<Rightarrow>
             if hh < 24 \<and> mi < 60
             then Some ((if s ! 0 = CHR ''-'' then -1 else 1) * (hh * 3600 + mi * 60)) else None
         | _ \<Rightarrow> None)
      else None)"

definition parse_rfc3339 :: "string \<Rightarrow> int option" where
  "parse_rfc3339 s =
     (case parse_date_clock CHR ''T'' s of
        None \<Rightarrow> None
      | Some (secs, r) \<Rightarrow>
          (case parse_frac r of
             None \<Rightarrow> None
           | Some (ns, z) \<Rightarrow>
               (case parse_zone z of
                  None \<Rightarrow> None
                | Some off \<Rightarrow> Some ((secs - off) * second + ns))))"

definition parse_plain :: "string \<Rightarrow> int option" where
  "parse_plain s =
     (case parse_date_clock CHR '' '' s of
        None \<Rightarrow> None
      | Some (secs, r) \<Rightarrow>
          (case parse_frac r of
             Some (ns, z) \<Rightarrow> if z = [] then Some (secs * second + ns) else None
           | None \<Rightarrow> None))"

text \<open>\<^verbatim>\<open>decodeTime\<close> of both stores: a NULL or empty column, and one no layout reads, is nil.\<close>

definition decodeTime :: "string option \<Rightarrow> int option" where
  "decodeTime col =
     (case col of
        None \<Rightarrow> None
      | Some s \<Rightarrow> if s = [] then None else
          (case parse_rfc3339 s of Some t \<Rightarrow> Some t | None \<Rightarrow> parse_plain s))"

text \<open>\<^verbatim>\<open>t.AddDate(0, 0, -days)\<close> in UTC.\<close>

definition minus_days :: "int \<Rightarrow> int \<Rightarrow> int" where
  "minus_days t days = t - days * day"

text \<open>
  SQLite's \<^verbatim>\<open>datetime()\<close> on the two stored formats: whole seconds, in the form
  \<^verbatim>\<open>YYYY-MM-DD HH:MM:SS\<close>; NULL for any other text.
\<close>

definition sql_datetime :: "string \<Rightarrow> string option" where
  "sql_datetime s =
     map_option (\<lambda>t. CURRENT_TIMESTAMP t) (decodeTime (Some s))"

section \<open>The calendar is exact\<close>

lemma div_succ: "(d + 1) div k \<le> d div k + 1" if "0 < k" for d k :: int
proof -
  have "(d + 1) div k \<le> (d + k) div k" using that by (intro zdiv_mono1) auto
  then show ?thesis using that by simp
qed

lemma year_of_step:
  assumes "0 \<le> d" "d < 146096"
  shows "year_of d \<le> year_of (d + 1)"
proof (cases "d = 146095")
  case True
  then show ?thesis by (simp add: year_of_def)
next
  case False
  with assms have "d div 146096 = 0" "(d + 1) div 146096 = 0" by (simp_all add: div_pos_pos_trivial)
  moreover have "d div 36524 \<le> (d + 1) div 36524" by (intro zdiv_mono1) auto
  moreover have "(d + 1) div 1460 \<le> d div 1460 + 1" by (intro div_succ) simp
  ultimately have "d - d div 1460 + d div 36524 - d div 146096
      \<le> d + 1 - (d + 1) div 1460 + (d + 1) div 36524 - (d + 1) div 146096" by linarith
  then show ?thesis unfolding year_of_def by (intro zdiv_mono1) simp_all
qed

lemma year_of_mono:
  assumes "0 \<le> a" "a \<le> b" "b \<le> 146096"
  shows "year_of a \<le> year_of b"
proof -
  have "b \<le> 146096 \<longrightarrow> year_of a \<le> year_of b"
    using assms(2)
  proof (induction b rule: int_ge_induct)
    case base
    then show ?case by simp
  next
    case (step i)
    then show ?case using year_of_step [of i] assms(1) by force
  qed
  with assms(3) show ?thesis by simp
qed

fun check_years :: "nat \<Rightarrow> int \<Rightarrow> bool" where
  "check_years 0 y = True"
| "check_years (Suc n) y =
     (year_of (year_start y) = y \<and> year_of (year_start (y + 1) - 1) = y \<and>
      year_start (y + 1) - year_start y \<le> 366 \<and> 0 \<le> year_start y \<and>
      year_start (y + 1) \<le> 146097 \<and> check_years n (y + 1))"

lemma check_years_ok:
  "check_years n y \<Longrightarrow> y \<le> z \<Longrightarrow> z < y + int n \<Longrightarrow>
   year_of (year_start z) = z \<and> year_of (year_start (z + 1) - 1) = z \<and>
   year_start (z + 1) - year_start z \<le> 366 \<and> 0 \<le> year_start z \<and> year_start (z + 1) \<le> 146097"
proof (induction n arbitrary: y)
  case 0
  then show ?case by simp
next
  case (Suc n)
  then show ?case by (cases "z = y") auto
qed

lemma years_checked: "check_years 400 0"
  by code_simp

lemma find_year:
  assumes "year_start 0 \<le> d" "d < year_start (int n)"
  shows "\<exists>y. 0 \<le> y \<and> y < int n \<and> year_start y \<le> d \<and> d < year_start (y + 1)"
  using assms
proof (induction n)
  case 0
  then show ?case by simp
next
  case (Suc n)
  show ?case
  proof (cases "d < year_start (int n)")
    case True
    with Suc obtain y where "0 \<le> y \<and> y < int n \<and> year_start y \<le> d \<and> d < year_start (y + 1)" by auto
    then show ?thesis by (intro exI [of _ y]) auto
  next
    case False
    with Suc(3) show ?thesis by (intro exI [of _ "int n"]) (auto simp: add.commute)
  qed
qed

lemma year_of_correct:
  assumes "0 \<le> d" "d < 146097"
  shows "0 \<le> year_of d \<and> year_of d < 400 \<and> year_start (year_of d) \<le> d \<and> d < year_start (year_of d) + 366"
proof (cases "d = 146096")
  case True
  then show ?thesis by (simp add: year_of_def year_start_def)
next
  case False
  have "\<exists>y. 0 \<le> y \<and> y < int 400 \<and> year_start y \<le> d \<and> d < year_start (y + 1)"
    using assms False by (intro find_year) (simp_all add: year_start_def)
  then obtain y where y: "0 \<le> y" "y < 400" "year_start y \<le> d" "d < year_start (y + 1)" by auto
  from check_years_ok [OF years_checked y(1)] y(2) have c:
    "year_of (year_start y) = y" "year_of (year_start (y + 1) - 1) = y"
    "year_start (y + 1) - year_start y \<le> 366" "0 \<le> year_start y" "year_start (y + 1) \<le> 146097"
    by auto
  have "year_of (year_start y) \<le> year_of d" using c(4) y(3) assms by (intro year_of_mono) auto
  moreover have "year_of d \<le> year_of (year_start (y + 1) - 1)"
    using c(5) y(4) assms by (intro year_of_mono) auto
  ultimately have "year_of d = y" using c(1,2) by linarith
  with c(3) y show ?thesis by auto
qed

lemma doy_range: "0 \<le> doy_of n" "doy_of n \<le> 365"
  using year_of_correct [of "doe_of n"] by (simp_all add: doy_of_def doe_of_def)

lemma mp_range: "0 \<le> mp_of n" "mp_of n \<le> 11"
proof -
  have "(5 * doy_of n + 2) div 153 \<le> 1827 div 153" using doy_range [of n] by (intro zdiv_mono1) auto
  then show "mp_of n \<le> 11" by (simp add: mp_of_def)
  show "0 \<le> mp_of n" using doy_range [of n] by (simp add: mp_of_def)
qed

lemma day_range: "1 \<le> doy_of n - (153 * mp_of n + 2) div 5 + 1" "doy_of n - (153 * mp_of n + 2) div 5 + 1 \<le> 31"
proof -
  have "5 * doy_of n + 2 = 153 * mp_of n + (5 * doy_of n + 2) mod 153" unfolding mp_of_def by simp
  moreover have "0 \<le> (5 * doy_of n + 2) mod 153" "(5 * doy_of n + 2) mod 153 < 153" by simp_all
  moreover have "153 * mp_of n + 2 = 5 * ((153 * mp_of n + 2) div 5) + (153 * mp_of n + 2) mod 5" by simp
  moreover have "0 \<le> (153 * mp_of n + 2) mod 5" "(153 * mp_of n + 2) mod 5 < 5" by simp_all
  ultimately have "(153 * mp_of n + 2) div 5 \<le> doy_of n" "doy_of n \<le> (153 * mp_of n + 2) div 5 + 30"
    by linarith+
  then show "1 \<le> doy_of n - (153 * mp_of n + 2) div 5 + 1"
    "doy_of n - (153 * mp_of n + 2) div 5 + 1 \<le> 31" by auto
qed

lemma days_of_civil: "(case civil n of (y, m, d) \<Rightarrow> days_of y m d) = n"
proof -
  let ?Y = "year_of (doe_of n)" and ?era = "(n + 719468) div 146097"
  have Y: "0 \<le> ?Y" "?Y < 400" using year_of_correct [of "doe_of n"] by (simp_all add: doe_of_def)
  then have e: "(?Y + ?era * 400) div 400 = ?era" "(?Y + ?era * 400) mod 400 = ?Y" by simp_all
  have "(case civil n of (y, m, d) \<Rightarrow> days_of y m d)
      = ?era * 146097 + (?Y * 365 + ?Y div 4 - ?Y div 100 + doy_of n) - 719468"
    using mp_range [of n] e by (auto simp: civil_def Let_def days_of_def Let_def)
  also have "\<dots> = ?era * 146097 + doe_of n - 719468"
    by (simp add: doy_of_def year_start_def)
  also have "\<dots> = n" by (simp add: doe_of_def)
  finally show ?thesis .
qed

lemma civil_range:
  assumes "civil n = (y, m, d)"
  shows "1 \<le> m" "m \<le> 12" "1 \<le> d" "d \<le> 31"
  using assms mp_range [of n] day_range [of n] by (auto simp: civil_def Let_def split: if_splits)

lemma civil_year:
  assumes "civil n = (y, m, d)" "0 \<le> n" "n < 2932897"
  shows "0 \<le> y" "y \<le> 9999"
proof -
  let ?Y = "year_of (doe_of n)" and ?era = "(n + 719468) div 146097"
  have Y: "0 \<le> ?Y" "?Y < 400" "year_start ?Y \<le> doe_of n"
    using year_of_correct [of "doe_of n"] by (simp_all add: doe_of_def)
  have era: "0 \<le> ?era" "?era \<le> 24"
  proof -
    have "?era \<le> 3652364 div 146097" using assms by (intro zdiv_mono1) auto
    then show "?era \<le> 24" by simp
    show "0 \<le> ?era" using assms by simp
  qed
  show "0 \<le> y" using assms(1) Y era by (auto simp: civil_def Let_def)
  show "y \<le> 9999"
  proof (cases "?era = 24 \<and> ?Y = 399")
    case False
    with assms(1) Y era show ?thesis by (auto simp: civil_def Let_def)
  next
    case True
    have "n + 719468 = 146097 * ?era + doe_of n" by (simp add: doe_of_def)
    with True assms(3) have "doe_of n < 146037" by simp
    with True have "doy_of n \<le> 305" by (simp add: doy_of_def year_start_def)
    then have "(5 * doy_of n + 2) div 153 \<le> 1527 div 153" by (intro zdiv_mono1) auto
    then have "mp_of n \<le> 9" by (simp add: mp_of_def)
    with assms(1) True mp_range [of n] show ?thesis by (auto simp: civil_def Let_def)
  qed
qed


section \<open>Stored timestamps read back\<close>

lemma digit_cases: "0 \<le> d \<Longrightarrow> d < 10 \<Longrightarrow> d \<in> set [0, 1, 2, 3, 4, 5, 6, 7, 8, 9 :: int]"
  unfolding list.set insert_iff empty_iff by presburger

lemma digits_checked:
  "list_all (\<lambda>d. is_digit (digit_char d) \<and> digit_val (digit_char d) = d) [0, 1, 2, 3, 4, 5, 6, 7, 8, 9]"
  by code_simp

lemma digit_char_ok:
  assumes "0 \<le> d" "d < 10"
  shows "is_digit (digit_char d)" "digit_val (digit_char d) = d"
  using digits_checked digit_cases [OF assms] unfolding list_all_iff by blast+

lemma length_pad_int [simp]: "length (pad_int w n) = w"
  by (induction w arbitrary: n) auto

lemma pad_int_digits: "list_all is_digit (pad_int w n)"
  by (induction w arbitrary: n) (auto simp: digit_char_ok)

lemma digits_val_snoc: "digits_val (xs @ [c]) = 10 * digits_val xs + digit_val c"
  by (simp add: digits_val_def)

lemma digits_val_zeros: "digits_val (replicate n CHR ''0'') = 0"
proof (induction n)
  case (Suc n)
  then show ?case
    by (simp only: replicate_Suc replicate_append_same [symmetric] digits_val_snoc) (simp add: digit_val_def)
qed (simp add: digits_val_def)

lemma digits_val_pad: "0 \<le> n \<Longrightarrow> n < 10 ^ w \<Longrightarrow> digits_val (pad_int w n) = n"
proof (induction w arbitrary: n)
  case 0
  then show ?case by (simp add: digits_val_def)
next
  case (Suc w)
  then have "n div 10 < 10 ^ w" by (simp add: div_less_iff_less_mult mult.commute)
  with Suc have "digits_val (pad_int w (n div 10)) = n div 10" by simp
  then show ?case by (simp add: digits_val_snoc digit_char_ok)
qed

lemma number_pad: "0 < w \<Longrightarrow> 0 \<le> n \<Longrightarrow> n < 10 ^ w \<Longrightarrow> number (pad_int w n) = Some n"
  using length_pad_int [of w n] pad_int_digits [of w n]
  by (cases "pad_int w n = []") (simp_all add: number_def digits_val_pad del: length_pad_int)

lemma trim_right_pad:
  "xs = trim_right (\<lambda>c. c = z) xs @ replicate (length xs - length (trim_right (\<lambda>c. c = z) xs)) z"
proof (induction xs rule: rev_induct)
  case Nil
  then show ?case by (simp add: trim_right_def)
next
  case (snoc x xs)
  show ?case
  proof (cases "x = z")
    case True
    have "length (trim_right (\<lambda>c. c = z) xs) \<le> length xs"
      unfolding trim_right_def using length_dropWhile_le [of _ "rev xs"] by simp
    moreover have "trim_right (\<lambda>c. c = z) (xs @ [x]) = trim_right (\<lambda>c. c = z) xs"
      using True by (simp add: trim_right_def)
    ultimately show ?thesis
      using snoc True by (simp add: Suc_diff_le replicate_append_same [symmetric])
  next
    case False
    then show ?thesis by (simp add: trim_right_def)
  qed
qed

lemma parse_frac_fmt:
  assumes "0 \<le> f" "f < 1000000000"
  shows "parse_frac (fmtFrac 9 f @ ''Z'') = Some (f, ''Z'')"
proof (cases "f = 0")
  case True
  then show ?thesis by (simp add: fmtFrac_def parse_frac_def)
next
  case False
  let ?t = "trim_right (\<lambda>c. c = CHR ''0'') (pad_int 9 f)"
  have val: "digits_val (pad_int 9 f) = f" using assms by (intro digits_val_pad) auto
  have pad: "pad_int 9 f = ?t @ replicate (9 - length ?t) CHR ''0''"
    using trim_right_pad [of "pad_int 9 f" "CHR ''0''"] by simp
  have len: "length ?t \<le> 9" using arg_cong [OF pad, of length] by simp
  have "list_all is_digit (pad_int 9 f)" by (rule pad_int_digits)
  with pad have dig: "list_all is_digit ?t" by (metis list_all_append)
  have "?t \<noteq> []"
  proof
    assume "?t = []"
    with pad have "pad_int 9 f = replicate 9 CHR ''0''" by simp
    then have "digits_val (pad_int 9 f) = 0" by (simp only: digits_val_zeros)
    with val False show False by simp
  qed
  moreover have "takeWhile is_digit (?t @ ''Z'') = ?t" "dropWhile is_digit (?t @ ''Z'') = ''Z''"
    using dig by (auto simp: list_all_iff takeWhile_append2 dropWhile_append2 is_digit_def)
  moreover have "take 9 (?t @ replicate 9 CHR ''0'') = pad_int 9 f"
    using len by (subst pad) (simp add: min_def)
  ultimately show ?thesis using False val by (simp add: fmtFrac_def parse_frac_def Let_def)
qed

lemma length2: "length xs = 2 \<longleftrightarrow> (\<exists>a b. xs = [a, b])"
  by (auto simp: numeral_eq_Suc length_Suc_conv)

lemma length4: "length xs = 4 \<longleftrightarrow> (\<exists>a b c d. xs = [a, b, c, d])"
  by (auto simp: numeral_eq_Suc length_Suc_conv)

lemma parse_date_clock_ok:
  assumes "0 \<le> y" "y \<le> 9999" "1 \<le> m" "m \<le> 12" "1 \<le> d" "d \<le> 31" "civil (days_of y m d) = (y, m, d)"
    and "0 \<le> hh" "hh < 24" "0 \<le> mi" "mi < 60" "0 \<le> ss" "ss < 60"
  shows "parse_date_clock sep (pad_int 4 y @ ''-'' @ pad_int 2 m @ ''-'' @ pad_int 2 d @ sep #
      pad_int 2 hh @ '':'' @ pad_int 2 mi @ '':'' @ pad_int 2 ss @ rest)
    = Some (((days_of y m d * 24 + hh) * 60 + mi) * 60 + ss, rest)"
proof -
  have n: "number (pad_int 4 y) = Some y" "number (pad_int 2 m) = Some m" "number (pad_int 2 d) = Some d"
    "number (pad_int 2 hh) = Some hh" "number (pad_int 2 mi) = Some mi" "number (pad_int 2 ss) = Some ss"
    using assms by (auto intro: number_pad)
  obtain a b c e where 1: "pad_int 4 y = [a, b, c, e]" using length4 [of "pad_int 4 y"] by auto
  obtain m1 m2 where 2: "pad_int 2 m = [m1, m2]" using length2 [of "pad_int 2 m"] by auto
  obtain d1 d2 where 3: "pad_int 2 d = [d1, d2]" using length2 [of "pad_int 2 d"] by auto
  obtain h1 h2 where 4: "pad_int 2 hh = [h1, h2]" using length2 [of "pad_int 2 hh"] by auto
  obtain i1 i2 where 5: "pad_int 2 mi = [i1, i2]" using length2 [of "pad_int 2 mi"] by auto
  obtain s1 s2 where 6: "pad_int 2 ss = [s1, s2]" using length2 [of "pad_int 2 ss"] by auto
  show ?thesis
    using n assms unfolding 1 2 3 4 5 6 parse_date_clock_def by simp
qed

text \<open>Instants from 1970 to the end of the year 9999.\<close>

definition in_years :: "int \<Rightarrow> bool" where
  "in_years t \<longleftrightarrow> 0 \<le> t \<and> t < 2932897 * day"

lemma clock_arith:
  fixes s :: int
  shows "q = 60 * h + mi \<Longrightarrow> r = 60 * q + x \<Longrightarrow> s = 86400 * a + r \<Longrightarrow> ((a * 24 + h) * 60 + mi) * 60 + x = s"
  by simp

lemma clock_split:
  fixes s :: int
  shows "((s div 86400 * 24 + s mod 86400 div 3600) * 60 + s mod 86400 div 60 mod 60) * 60
    + s mod 86400 mod 60 = s"
proof (rule clock_arith)
  show "s mod 86400 div 60 = 60 * (s mod 86400 div 3600) + s mod 86400 div 60 mod 60"
    using mult_div_mod_eq [of 60 "s mod 86400 div 60"] by (simp only: zdiv_zmult2_eq [symmetric]) simp
  show "s mod 86400 = 60 * (s mod 86400 div 60) + s mod 86400 mod 60" by simp
  show "s = 86400 * (s div 86400) + s mod 86400" by simp
qed

lemma day_split:
  fixes t :: int
  shows "t mod day div second = t div second mod 86400" "t div day = t div second div 86400"
proof -
  show "t div day = t div second div 86400" by (simp add: zdiv_zmult2_eq [symmetric])
  have "t mod day = second * (t div second mod 86400) + t mod second"
    using zmod_zmult2_eq [of 86400 t second] by simp
  then show "t mod day div second = t div second mod 86400" by simp
qed

lemma decode_RFC3339Nano:
  assumes "in_years t"
  shows "decodeTime (Some (RFC3339Nano t)) = Some t"
proof -
  let ?s = "t div second" and ?n = "t div day"
  obtain y m d where c: "civil ?n = (y, m, d)" by (cases "civil ?n")
  have n: "0 \<le> ?n" "?n < 2932897"
    using assms by (auto simp: in_years_def div_less_iff_less_mult)
  have dn: "days_of y m d = ?n" using days_of_civil [of ?n] c by simp
  have date: "show_date t @ ''T'' @ show_clock t @ rest =
      pad_int 4 y @ ''-'' @ pad_int 2 m @ ''-'' @ pad_int 2 d @ CHR ''T'' #
      pad_int 2 (?s mod 86400 div 3600) @ '':'' @ pad_int 2 (?s mod 86400 div 60 mod 60) @ '':'' @
      pad_int 2 (?s mod 86400 mod 60) @ rest" for rest
    using c by (simp add: show_date_def show_clock_def Let_def day_split)
  have hours: "?s mod 86400 div 3600 < 24" by (simp add: div_less_iff_less_mult)
  have "parse_date_clock CHR ''T'' (show_date t @ ''T'' @ show_clock t @ rest) = Some (?s, rest)" for rest
  proof -
    have "parse_date_clock CHR ''T'' (show_date t @ ''T'' @ show_clock t @ rest) =
      Some (((days_of y m d * 24 + ?s mod 86400 div 3600) * 60 + ?s mod 86400 div 60 mod 60) * 60
        + ?s mod 86400 mod 60, rest)"
      unfolding date
      by (rule parse_date_clock_ok) (use civil_year [OF c n] civil_range [OF c] dn c hours in simp_all)
    then show ?thesis by (simp only: dn day_split(2) clock_split)
  qed
  moreover have "parse_frac (fmtFrac 9 (t mod second) @ ''Z'') = Some (t mod second, ''Z'')"
    by (rule parse_frac_fmt) simp_all
  ultimately have "parse_rfc3339 (RFC3339Nano t) = Some (?s * second + t mod second)"
    by (simp add: parse_rfc3339_def RFC3339Nano_def parse_zone_def)
  moreover have "RFC3339Nano t \<noteq> []" by (simp add: RFC3339Nano_def)
  ultimately show ?thesis by (simp add: decodeTime_def)
qed

end
