(* ===== verification/Sql.thy ===== *)
theory Sql imports Json Go_Time "HOL-Library.Multiset" begin

text \<open>
  What the two SQLite stores share: \<open>ORDER BY\<close> as a stable insertion sort, \<open>LIMIT\<close>, \<open>LIKE\<close>, and the
  errors of the database.  Rows with equal sort keys keep their row order, which SQLite does not
  promise; no property depends on it.  Text columns compare bytewise (the \<open>BINARY\<close> collation).
\<close>

section \<open>Ordering\<close>

fun insert_by :: "('a \<Rightarrow> 'a \<Rightarrow> bool) \<Rightarrow> 'a \<Rightarrow> 'a list \<Rightarrow> 'a list" where
  "insert_by le x [] = [x]"
| "insert_by le x (y # ys) = (if le x y then x # y # ys else y # insert_by le x ys)"

definition order_by :: "('a \<Rightarrow> 'a \<Rightarrow> bool) \<Rightarrow> 'a list \<Rightarrow> 'a list" where
  "order_by le xs = foldr (insert_by le) xs []"

text \<open>\<open>LIMIT n\<close>; a negative limit is none.\<close>

definition sql_limit :: "int \<Rightarrow> 'a list \<Rightarrow> 'a list" where
  "sql_limit n xs = (if n < 0 then xs else take (nat n) xs)"

text \<open>\<open>LIKE\<close>: \<open>%\<close> stands for any text, \<open>_\<close> for one character, ASCII letters match in either case.\<close>

fun like :: "string \<Rightarrow> string \<Rightarrow> bool" where
  "like [] s = (s = [])"
| "like (p # ps) [] = (p = CHR ''%'' \<and> like ps [])"
| "like (p # ps) (c # s) =
     (if p = CHR ''%'' then like ps (c # s) \<or> like (p # ps) s
      else (p = CHR ''_'' \<or> to_lower_char p = to_lower_char c) \<and> like ps s)"

lemma set_insert_by [simp]: "set (insert_by le x xs) = insert x (set xs)"
  by (induction xs) auto

lemma set_order_by [simp]: "set (order_by le xs) = set xs"
  by (induction xs) (auto simp: order_by_def)

lemma length_insert_by [simp]: "length (insert_by le x xs) = Suc (length xs)"
  by (induction xs) auto

lemma length_order_by [simp]: "length (order_by le xs) = length xs"
  by (induction xs) (auto simp: order_by_def)

lemma mset_insert_by: "mset (insert_by le x xs) = add_mset x (mset xs)"
  by (induction xs) auto

lemma mset_order_by: "mset (order_by le xs) = mset xs"
  unfolding order_by_def by (induction xs) (simp_all add: mset_insert_by)

lemma sorted_insert_by:
  assumes "\<And>a b c. le a b \<Longrightarrow> le b c \<Longrightarrow> le a c" "\<And>a b. le a b \<or> le b a"
  shows "sorted_wrt le xs \<Longrightarrow> sorted_wrt le (insert_by le x xs)"
proof (induction xs)
  case Nil
  then show ?case by simp
next
  case (Cons y ys)
  then show ?case using assms by (cases "le x y") (auto, blast+)
qed

lemma sorted_order_by:
  assumes "\<And>a b c. le a b \<Longrightarrow> le b c \<Longrightarrow> le a c" "\<And>a b. le a b \<or> le b a"
  shows "sorted_wrt le (order_by le xs)"
  unfolding order_by_def
proof (induction xs)
  case (Cons x xs)
  then show ?case using sorted_insert_by [of le, OF assms] by simp
qed simp

lemma distinct_insert_by: "distinct (map f (insert_by le x xs)) = distinct (map f (x # xs))"
  by (induction xs) auto

lemma distinct_order_by: "distinct (map f (order_by le xs)) = distinct (map f xs)"
proof (induction xs)
  case Nil
  then show ?case by (simp add: order_by_def)
next
  case (Cons x xs)
  then show ?case
    using distinct_insert_by [of f le x "order_by le xs"] by (simp add: order_by_def) (metis image_set set_order_by order_by_def)
qed

lemma set_sql_limit: "set (sql_limit n xs) \<subseteq> set xs"
  by (auto simp: sql_limit_def dest: in_set_takeD)

lemma str_le_refl [simp]: "str_le s s"
  by (induction s) auto

lemma str_le_total: "str_le s t \<or> str_le t s"
proof (induction s t rule: str_le.induct)
  case (3 x xs y ys)
  have "cval x < cval y \<or> cval y < cval x" if "x \<noteq> y"
    using linorder_less_linear [of "cval x" "cval y"] that by simp
  with 3 show ?case by auto
qed auto

lemma str_le_trans: "str_le a b \<Longrightarrow> str_le b c \<Longrightarrow> str_le a c"
proof (induction a b arbitrary: c rule: str_le.induct)
  case (3 x xs y ys)
  then show ?case by (cases c) (auto split: if_splits)
qed auto

text \<open>What a database call may answer.\<close>

datatype sql_error = Closed | Constraint | NoRows | BadJson

end
