(* ===== verification/Types.thy ===== *)
theory Types imports Float64 begin

text \<open>
  The resource types of \<^verbatim>\<open>api/v1alpha1/types.go\<close>, one record per Go struct with the struct's field
  names behind a prefix, and the parts of the Kubernetes types the controllers read or write.

  A pointer that is only tested for nil and read is an option; a \<^verbatim>\<open>*runtime.RawExtension\<close> is the
  option of its bytes (nil pointer and nil bytes are treated alike by every use).  A
  \<^verbatim>\<open>map[string]string\<close> that is only read by key is a partial map, so a nil map and an empty one
  are the same; one that is iterated or measured is an association list.  \<^verbatim>\<open>metav1.Time\<close> is the
  instant in nanoseconds.  Fields that no modelled code touches keep their place as opaque values.
\<close>

type_synonym raw = string
type_synonym time = int
type_synonym str_map = "string \<rightharpoonup> string"
type_synonym str_alist = "(string \<times> string) list"

section \<open>Kubernetes metadata and conditions\<close>

record owner_ref =
  or_APIVersion :: string
  or_Kind :: string
  or_Name :: string
  or_UID :: string
  or_Controller :: "bool option"

record ObjectMeta =
  om_Name :: string
  om_Namespace :: string
  om_UID :: string
  om_Generation :: int
  om_CreationTimestamp :: time
  om_Labels :: str_map
  om_Annotations :: str_map
  om_DeletionTimestamp :: "time option"
  om_Finalizers :: "string list"
  om_OwnerReferences :: "owner_ref list"

definition empty_meta :: ObjectMeta where
  "empty_meta = \<lparr>om_Name = [], om_Namespace = [], om_UID = [], om_Generation = 0, om_CreationTimestamp = 0,
     om_Labels = Map.empty, om_Annotations = Map.empty, om_DeletionTimestamp = None,
     om_Finalizers = [], om_OwnerReferences = []\<rparr>"

record Condition =
  c_Type :: string
  c_Status :: string
  c_LastTransitionTime :: time
  c_Reason :: string
  c_Message :: string

section \<open>Shared types\<close>

record SecretRef =
  sr_Name :: string
  sr_Namespace :: string
  sr_Key :: string

record EndpointSpec =
  ep_URL :: string
  ep_Method :: string
  ep_Headers :: str_alist
  ep_TimeoutSeconds :: int
  ep_AuthScheme :: string
  ep_AuthHeader :: string

record RetryPolicySpec =
  rp_MaxRetries :: int
  rp_BackoffSeconds :: int
  rp_Backoff :: string
  rp_RetryOn :: "string list"

record StepTimeoutSpec =
  st_TimeoutSeconds :: int

record EnvVar =
  ev_Name :: string
  ev_Value :: string

section \<open>Agent\<close>

record ModelSpec =
  mo_Provider :: string
  mo_Name :: string
  mo_Version :: string
  mo_Temperature :: "f64 option"
  mo_MaxTokens :: "int option"
  mo_TopP :: "f64 option"
  mo_FrequencyPenalty :: "f64 option"
  mo_PresencePenalty :: "f64 option"
  mo_CredentialsSecretRef :: "SecretRef option"
  mo_Fallback :: "raw option"

record ToolSpec =
  to_Name :: string
  to_Type :: string
  to_Endpoint :: "EndpointSpec option"
  to_CredentialsSecretRef :: "SecretRef option"
  to_Config :: "raw option"

record PersistentStorage =
  ps_Enabled :: bool
  ps_VolumeClaimRef :: string

record MemorySpec =
  ms_Type :: string
  ms_Behavior :: string
  ms_ProviderRef :: string
  ms_Scope :: string
  ms_Backend :: string
  ms_TTL :: string
  ms_MaxEntries :: "int option"
  ms_MaxContextTokens :: "int option"
  ms_RetentionPolicy :: string
  ms_PersistentStorage :: "PersistentStorage option"

record SandboxSpec =
  sb_MaxExecutionSeconds :: int
  sb_MaxOutputBytes :: int
  sb_NetworkAccess :: bool
  sb_WritablePaths :: "string list"

record CodeExecutionSpec =
  ce_Enabled :: bool
  ce_Languages :: "string list"
  ce_Sandbox :: "SandboxSpec option"
  ce_Preinstalled :: "string list"

record RuntimeSpec =
  rt_Image :: string
  rt_ServiceAccountName :: string
  rt_Env :: "EnvVar list"
  rt_Config :: str_alist \<comment> \<open>in the order the loop over the map visits it\<close>
  rt_Resources :: "raw option"
  rt_CodeExecution :: "CodeExecutionSpec option"

record ScalingSpec =
  sc_MinReplicas :: "int option"
  sc_MaxReplicas :: "int option"
  sc_TargetUtilization :: "int option"
  sc_Metrics :: "raw list"
  sc_Behavior :: "raw option"

record ShuHaRiSpec =
  sh_Level :: string
  sh_PromotedAt :: "time option"

record ApprovalPolicy =
  ap_Mode :: string
  ap_AutoApproveRiskBelow :: string
  ap_RequireApprovalAbove :: string

record AgentSpec =
  as_Type :: string
  as_Model :: ModelSpec
  as_Role :: string
  as_SystemPrompt :: string
  as_Instructions :: string
  as_AutonomyLevel :: string
  as_ShuHaRi :: "ShuHaRiSpec option"
  as_ApprovalPolicy :: "ApprovalPolicy option"
  as_ConfidenceThreshold :: "f64 option"
  as_Replicas :: "int option"
  as_MaxConcurrency :: "int option"
  as_Timeout :: string
  as_Tools :: "ToolSpec list"
  as_Memory :: "MemorySpec option"
  as_Runtime :: "RuntimeSpec option"
  as_Scaling :: "ScalingSpec option"
  as_Guardrails :: "raw option"
  as_Observability :: "raw option"
  as_Lifecycle :: "raw option"
  as_Schedule :: "raw option"
  as_BlastRadius :: "raw option"
  as_Escalation :: "raw option"
  as_Capabilities :: "raw list"

record PromotionProgress =
  pp_ActionsCompleted :: int
  pp_ActionsRequired :: int
  pp_SuccessRate :: f64
  pp_DaysInLevel :: int
  pp_DaysRequired :: int

record ShuHaRiStatus =
  sh_CurrentLevel :: string
  sh_ReadyForPromotion :: bool
  sh_PromotionProgress :: "PromotionProgress option"

record AgentMetrics =
  am_TotalInvocations :: int
  am_TotalTokensUsed :: int
  am_AverageLatencyMs :: int
  am_TotalCostUSD :: f64
  am_LastInvocationTime :: "time option"
  am_SuccessCount :: int
  am_FailureCount :: int
  am_ConsecutiveFailures :: int

definition zero_metrics :: AgentMetrics where
  "zero_metrics = \<lparr>am_TotalInvocations = 0, am_TotalTokensUsed = 0, am_AverageLatencyMs = 0,
     am_TotalCostUSD = Fin 0, am_LastInvocationTime = None, am_SuccessCount = 0,
     am_FailureCount = 0, am_ConsecutiveFailures = 0\<rparr>"

record AgentStatus =
  at_Phase :: string
  at_Message :: string
  at_ObservedGeneration :: int
  at_AvailableReplicas :: int
  at_TotalTasksProcessed :: int
  at_ErrorCount :: int
  at_StartTime :: "time option"
  at_CompletionTime :: "time option"
  at_LastActiveTime :: "time option"
  at_Conditions :: "Condition list"
  at_Metrics :: "AgentMetrics option"
  at_ShuHaRi :: "ShuHaRiStatus option"

record Agent =
  ag_Meta :: ObjectMeta
  ag_Spec :: AgentSpec
  ag_Status :: AgentStatus

section \<open>Providers\<close>

record ModelPricing =
  pr_InputPerMToken :: f64
  pr_OutputPerMToken :: f64

record ModelDefinition =
  md_Name :: string
  md_DisplayName :: string
  md_MaxTokens :: int
  md_Pricing :: "ModelPricing option"

record CredentialSpec =
  cr_SecretRef :: string
  cr_SecretKey :: string

record HealthCheckSpec =
  hc_Enabled :: bool
  hc_IntervalSeconds :: int
  hc_TimeoutSeconds :: int

record FallbackSpec =
  fb_ProviderRef :: string

record LLMProviderSpec =
  lp_Type :: string
  lp_Endpoint :: string
  lp_APIFormat :: string
  lp_Model :: string
  lp_Models :: "ModelDefinition list"
  lp_Config :: str_map
  lp_Credentials :: "CredentialSpec option"
  lp_HealthCheck :: "HealthCheckSpec option"
  lp_Fallback :: "FallbackSpec option"
  lp_Default :: bool

record LLMProviderStatus =
  ls_Phase :: string
  ls_Message :: string
  ls_LastHealthCheck :: "time option"
  ls_AvailableModels :: int
  ls_Conditions :: "Condition list"

record LLMProvider =
  llm_Meta :: ObjectMeta
  llm_Spec :: LLMProviderSpec
  llm_Status :: LLMProviderStatus

record MemoryRetention =
  mr_MaxEntriesPerScope :: "int option"
  mr_MaxAgeDays :: "int option"
  mr_RecallLogMaxAgeDays :: "int option"

record MemoryProviderSpec =
  mp_Type :: string
  mp_Config :: str_map
  mp_Credentials :: "CredentialSpec option"
  mp_Default :: bool
  mp_Retention :: "MemoryRetention option"

record MemoryProviderStatus =
  mps_Healthy :: bool
  mps_EntryCount :: int
  mps_LastError :: string
  mps_LastChecked :: time

record MemoryProvider =
  mpr_Meta :: ObjectMeta
  mpr_Spec :: MemoryProviderSpec
  mpr_Status :: MemoryProviderStatus

section \<open>Workflow\<close>

record AgentRef =
  ar_Name :: string
  ar_Namespace :: string

record InputRef =
  ir_Step :: string
  ir_OutputKey :: string

record WorkflowStep =
  ws_Name :: string
  ws_AgentRef :: AgentRef
  ws_Type :: string
  ws_Description :: string
  ws_DependsOn :: "string list"
  ws_InputFrom :: "InputRef list"
  ws_RetryPolicy :: "RetryPolicySpec option"
  ws_StepTimeout :: "StepTimeoutSpec option"
  ws_ConditionExpr :: string
  ws_Input :: "raw option"
  ws_Output :: "raw option"
  ws_Config :: "raw option"

record Edge =
  ed_From :: string
  ed_To :: string
  ed_Condition :: "raw option"

record ScheduleTrigger =
  sg_Cron :: string
  sg_Timezone :: string
  sg_Suspend :: bool

record WebhookTrigger =
  wt_Path :: string
  wt_SecretRef :: SecretRef

record TriggerSpec =
  tr_Type :: string
  tr_Schedule :: "ScheduleTrigger option"
  tr_Webhook :: "WebhookTrigger option"
  tr_EventTriggers :: "raw list"

record ConcurrencySpec =
  cc_Policy :: string
  cc_MaxParallel :: int

record WorkflowSpec =
  wp_Description :: string
  wp_Steps :: "WorkflowStep list"
  wp_Parallelism :: "int option"
  wp_FailureStrategy :: string
  wp_Parameters :: str_alist
  wp_Edges :: "Edge list"
  wp_Trigger :: "TriggerSpec option"
  wp_Concurrency :: "ConcurrencySpec option"
  wp_ErrorHandling :: "raw option"
  wp_Observability :: "raw option"
  wp_Timeout :: "raw option"
  wp_Variables :: "raw list"
  wp_Hooks :: "raw option"

record StepStatus =
  ss_Name :: string
  ss_Phase :: string
  ss_JobName :: string
  ss_StartTime :: "time option"
  ss_CompletionTime :: "time option"
  ss_Output :: "raw option"
  ss_Error :: string
  ss_RetryCount :: int

definition zero_step_status :: "string \<Rightarrow> StepStatus" where
  "zero_step_status n = \<lparr>ss_Name = n, ss_Phase = [], ss_JobName = [], ss_StartTime = None,
     ss_CompletionTime = None, ss_Output = None, ss_Error = [], ss_RetryCount = 0\<rparr>"

record WorkflowStatus =
  wt_Phase :: string
  wt_Message :: string
  wt_ObservedGeneration :: int
  wt_TotalSteps :: int
  wt_CompletedSteps :: int
  wt_FailedSteps :: int
  wt_StartTime :: "time option"
  wt_CompletionTime :: "time option"
  wt_StepStatuses :: "StepStatus list"
  wt_Conditions :: "Condition list"
  wt_ActiveRuns :: int
  wt_LastTriggerTime :: "time option"
  wt_NextRunTime :: "time option"

definition zero_status :: WorkflowStatus where
  "zero_status = \<lparr>wt_Phase = [], wt_Message = [], wt_ObservedGeneration = 0, wt_TotalSteps = 0,
     wt_CompletedSteps = 0, wt_FailedSteps = 0, wt_StartTime = None, wt_CompletionTime = None,
     wt_StepStatuses = [], wt_Conditions = [], wt_ActiveRuns = 0, wt_LastTriggerTime = None,
     wt_NextRunTime = None\<rparr>"

record Workflow =
  wf_Meta :: ObjectMeta
  wf_Spec :: WorkflowSpec
  wf_Status :: WorkflowStatus

abbreviation wf_Name :: "Workflow \<Rightarrow> string" where "wf_Name w \<equiv> om_Name (wf_Meta w)"
abbreviation wf_Namespace :: "Workflow \<Rightarrow> string" where "wf_Namespace w \<equiv> om_Namespace (wf_Meta w)"
abbreviation wf_Annotation :: "Workflow \<Rightarrow> string \<Rightarrow> string" where
  "wf_Annotation w k \<equiv> get_str (om_Annotations (wf_Meta w)) k"
abbreviation wf_Steps :: "Workflow \<Rightarrow> WorkflowStep list" where "wf_Steps w \<equiv> wp_Steps (wf_Spec w)"
abbreviation wf_Phase :: "Workflow \<Rightarrow> string" where "wf_Phase w \<equiv> wt_Phase (wf_Status w)"
abbreviation wf_Strategy :: "Workflow \<Rightarrow> string" where
  "wf_Strategy w \<equiv> wp_FailureStrategy (wf_Spec w)"
abbreviation wf_StepStatuses :: "Workflow \<Rightarrow> StepStatus list" where
  "wf_StepStatuses w \<equiv> wt_StepStatuses (wf_Status w)"
abbreviation ag_Name :: "Agent \<Rightarrow> string" where "ag_Name a \<equiv> om_Name (ag_Meta a)"

abbreviation upd_status :: "(WorkflowStatus \<Rightarrow> WorkflowStatus) \<Rightarrow> Workflow \<Rightarrow> Workflow" where
  "upd_status f w \<equiv> w\<lparr>wf_Status := f (wf_Status w)\<rparr>"

definition set_steps :: "StepStatus list \<Rightarrow> Workflow \<Rightarrow> Workflow" where
  "set_steps sss w = upd_status (\<lambda>st. st\<lparr>wt_StepStatuses := sss\<rparr>) w"

lemma set_steps_simps [simp]:
  "wf_StepStatuses (set_steps sss w) = sss"
  "wf_Spec (set_steps sss w) = wf_Spec w"
  "wf_Meta (set_steps sss w) = wf_Meta w"
  "wf_Phase (set_steps sss w) = wf_Phase w"
  "wt_CompletedSteps (wf_Status (set_steps sss w)) = wt_CompletedSteps (wf_Status w)"
  "wt_FailedSteps (wf_Status (set_steps sss w)) = wt_FailedSteps (wf_Status w)"
  "wt_TotalSteps (wf_Status (set_steps sss w)) = wt_TotalSteps (wf_Status w)"
  "wt_StartTime (wf_Status (set_steps sss w)) = wt_StartTime (wf_Status w)"
  "wt_CompletionTime (wf_Status (set_steps sss w)) = wt_CompletionTime (wf_Status w)"
  by (simp_all add: set_steps_def)

section \<open>MCP servers\<close>

record ResourceRequirements =
  rr_Requests :: str_alist
  rr_Limits :: str_alist

record MCPServerSpec =
  mc_Image :: string
  mc_Port :: int
  mc_Args :: "string list"
  mc_Replicas :: "int option"
  mc_Auth :: string
  mc_SecretRef :: string
  mc_Icon :: string
  mc_Category :: string
  mc_HostNetwork :: bool
  mc_Env :: "EnvVar list"
  mc_Resources :: "ResourceRequirements option"

record MCPServerStatus =
  mcs_Phase :: string
  mcs_ToolCount :: int
  mcs_LastDiscovery :: "time option"
  mcs_Message :: string
  mcs_Conditions :: "Condition list"

record MCPServer =
  mcp_Meta :: ObjectMeta
  mcp_Spec :: MCPServerSpec
  mcp_Status :: MCPServerStatus

section \<open>Legacy memory types\<close>

definition BehaviorForType :: "string \<Rightarrow> string" where
  "BehaviorForType t =
     (if t = ''none'' then ''off''
      else if t = ''buffer'' then ''session''
      else if t = ''summary'' \<or> t = ''vector'' then ''persistent''
      else [])"

definition TypeForBehavior :: "string \<Rightarrow> string" where
  "TypeForBehavior b =
     (if b = ''off'' then ''none''
      else if b = ''session'' then ''buffer''
      else if b = ''persistent'' then ''summary''
      else [])"

lemma behavior_type_roundtrip:
  "b \<in> {''off'', ''session'', ''persistent''} \<Longrightarrow> BehaviorForType (TypeForBehavior b) = b"
  by (auto simp: BehaviorForType_def TypeForBehavior_def)

section \<open>Jobs, pods and the objects the controllers create\<close>

datatype env_source = EnvValue string | EnvSecret string string "bool option"
  \<comment> \<open>a value, or secret name, key and the optional flag\<close>

record env_var =
  en_Name :: string
  en_Value :: env_source

datatype volume_source =
    VolConfigMap string "bool option"
  | VolPVC string
  | VolSecret string "bool option"

record volume =
  vo_Name :: string
  vo_Source :: volume_source

record volume_mount =
  vm_Name :: string
  vm_MountPath :: string
  vm_ReadOnly :: bool

record pod_spec =
  pd_RestartPolicy :: string
  pd_ServiceAccountName :: string
  pd_HostNetwork :: bool
  pd_DNSPolicy :: string
  pd_ContainerName :: string
  pd_Image :: string
  pd_ImagePullPolicy :: string
  pd_Env :: "env_var list"
  pd_VolumeMounts :: "volume_mount list"
  pd_Volumes :: "volume list"

record job_condition =
  jc_Type :: string
  jc_Status :: string

record Job =
  jo_Meta :: ObjectMeta
  jo_BackoffLimit :: int
  jo_ActiveDeadlineSeconds :: int
  jo_TTLSecondsAfterFinished :: int
  jo_PodLabels :: str_map
  jo_Pod :: pod_spec
  jo_Active :: int \<comment> \<open>\<open>Status.Active\<close>\<close>
  jo_StartTime :: "time option" \<comment> \<open>\<open>Status.StartTime\<close>\<close>
  jo_CompletionTime :: "time option" \<comment> \<open>\<open>Status.CompletionTime\<close>\<close>
  jo_Conditions :: "job_condition list" \<comment> \<open>\<open>Status.Conditions\<close>\<close>

abbreviation jo_Name :: "Job \<Rightarrow> string" where "jo_Name j \<equiv> om_Name (jo_Meta j)"
abbreviation jo_Label :: "Job \<Rightarrow> string \<Rightarrow> string" where
  "jo_Label j k \<equiv> get_str (om_Labels (jo_Meta j)) k"

record ConfigMap =
  cm_Meta :: ObjectMeta
  cm_Data :: str_map

end
