(* ===== verification/Memory_Policy.thy ===== *)
theory Memory_Policy imports Types Json begin

text \<open>
  The decisions of \<^verbatim>\<open>controllers/memory.go\<close> that need no store: which memory path an agent takes,
  which pool its memories live in, and how text is cut to a budget without splitting a rune.
\<close>

definition memoryBehavior :: "Agent \<Rightarrow> string" where
  "memoryBehavior agent =
     (case as_Memory (ag_Spec agent) of
        None \<Rightarrow> ''session''
      | Some m \<Rightarrow>
          if ms_Behavior m \<noteq> [] then ms_Behavior m
          else if ms_Type m \<noteq> [] then []
          else ''session'')"

definition memoryEnvType :: "Agent \<Rightarrow> string" where
  "memoryEnvType agent =
     (let b = memoryBehavior agent in
      if b = ''off'' then ''none''
      else if b = ''session'' then ''buffer''
      else if b = ''persistent'' then ''summary''
      else (case as_Memory (ag_Spec agent) of
              Some m \<Rightarrow> if ms_Type m \<noteq> [] then ms_Type m else ''buffer''
            | None \<Rightarrow> ''buffer''))"

abbreviation component_label :: string where
  "component_label \<equiv> ''app.kubernetes.io/component''"

definition agent_scope :: "Agent \<Rightarrow> string" where
  "agent_scope agent =
     (case as_Memory (ag_Spec agent) of
        Some m \<Rightarrow> if ms_Scope m \<noteq> [] then ms_Scope m else ''agent''
      | None \<Rightarrow> ''agent'')"

definition memoryScopeKey :: "Agent \<Rightarrow> Workflow \<Rightarrow> string" where
  "memoryScopeKey agent w =
     (let ns = wf_Namespace w; scope = agent_scope agent;
          grp = get_str (om_Labels (ag_Meta agent)) component_label
      in if scope = ''group''
         then (if grp \<noteq> [] then ns @ ''/group/'' @ grp else ns @ ''/agent/'' @ ag_Name agent)
         else if scope = ''namespace'' then ns @ ''/'' @ ns
         else ns @ ''/agent/'' @ ag_Name agent)"

section \<open>Cutting text\<close>

text \<open>The loop backs up over continuation bytes; \<^verbatim>\<open>capContent\<close> of the store is the same loop.\<close>

fun back_to_rune :: "string \<Rightarrow> nat \<Rightarrow> nat" where
  "back_to_rune s 0 = 0"
| "back_to_rune s (Suc n) = (if RuneStart (s ! Suc n) then Suc n else back_to_rune s n)"

definition truncate_str :: "string \<Rightarrow> nat \<Rightarrow> string" where
  "truncate_str s n = (if length s \<le> n then s else take (back_to_rune s n) s)"

definition extract_one :: "str_map \<Rightarrow> string \<Rightarrow> string" where
  "extract_one outputMap k =
     (case outputMap k of
        None \<Rightarrow> []
      | Some r \<Rightarrow> (case unmarshal_string r of Some s \<Rightarrow> s | None \<Rightarrow> r))"

text \<open>The first of the three keys that gives a non-empty text.\<close>

definition extractResponseText :: "str_map \<Rightarrow> string" where
  "extractResponseText outputMap =
     (case filter (\<lambda>s. s \<noteq> []) (map (extract_one outputMap) [''response'', ''result'', ''output'']) of
        [] \<Rightarrow> []
      | s # _ \<Rightarrow> s)"

section \<open>Facts\<close>

lemma back_to_rune_le: "back_to_rune s n \<le> n"
  by (induction n) auto

lemma back_to_rune_start: "back_to_rune s n = 0 \<or> RuneStart (s ! back_to_rune s n)"
  by (induction n) auto

lemma back_to_rune_skips:
  "back_to_rune s n < j \<Longrightarrow> j \<le> n \<Longrightarrow> \<not> RuneStart (s ! j)"
  by (induction n) (auto split: if_splits simp: le_Suc_eq)

text \<open>
  A byte string is well-formed UTF-8 when it splits into valid sequences; cutting before a byte
  that starts a rune leaves a well-formed string.
\<close>

function utf8_ok :: "string \<Rightarrow> bool" where
  "utf8_ok s =
     (if s = [] then True else if utf8_len s = 0 then False else utf8_ok (drop (utf8_len s) s))"
  by pat_completeness auto
termination
  by (relation "measure length") (auto simp: diff_less)

declare utf8_ok.simps [simp del]

lemma utf8_ok_Nil [simp]: "utf8_ok []"
  by (subst utf8_ok.simps) simp

lemma utf8_len_bound: "utf8_len s \<le> length s"
  by (auto simp: utf8_len_def Let_def split: list.splits)

lemma utf8_len_cont:
  assumes "0 < j" "j < utf8_len s"
  shows "\<not> RuneStart (s ! j)"
proof -
  have "j = 1 \<or> j = 2 \<or> j = 3" if "utf8_len s \<le> 4" using assms that by auto
  moreover have "utf8_len s \<le> 4" by (auto simp: utf8_len_def Let_def split: list.split)
  ultimately have "j = 1 \<or> j = 2 \<or> j = 3" by blast
  with assms show ?thesis
    by (auto simp: utf8_len_def Let_def RuneStart_def cont_def split: list.splits if_splits)
qed

lemma utf8_len_le4: "utf8_len s \<le> 4"
  by (auto simp: utf8_len_def Let_def split: list.split)

lemma utf8_len_append:
  assumes "utf8_len (u @ v) = length u" "u \<noteq> []"
  shows "utf8_len (u @ v') = length u"
proof -
  have "length u \<le> 4" using assms(1) utf8_len_le4 [of "u @ v"] by simp
  with assms(2) consider a where "u = [a]" | a b where "u = [a, b]" | a b c where "u = [a, b, c]"
    | a b c d where "u = [a, b, c, d]"
    by (auto simp: le_Suc_eq numeral_eq_Suc length_Suc_conv)
  then show ?thesis
  proof cases
    case 1
    from assms(1) show ?thesis unfolding 1 utf8_len_def append.simps list.case Let_def
      by (simp split: if_split_asm list.split_asm)
  next
    case 2
    from assms(1) show ?thesis unfolding 2 utf8_len_def append.simps list.case Let_def
      by (simp split: if_split_asm list.split_asm)
  next
    case 3
    from assms(1) show ?thesis unfolding 3 utf8_len_def append.simps list.case Let_def
      by (simp split: if_split_asm list.split_asm)
  next
    case 4
    from assms(1) show ?thesis unfolding 4 utf8_len_def append.simps list.case by simp
  qed
qed

lemma utf8_len_take:
  assumes "utf8_len s \<noteq> 0" "utf8_len s \<le> k"
  shows "utf8_len (take k s) = utf8_len s"
proof -
  let ?l = "utf8_len s"
  have len: "length (take ?l s) = ?l" using utf8_len_bound [of s] by simp
  have "take k s = take ?l s @ take (k - ?l) (drop ?l s)"
    using assms(2) by (metis le_add_diff_inverse take_add)
  moreover have "utf8_len (take ?l s @ drop ?l s) = length (take ?l s)" using len by simp
  moreover have "take ?l s \<noteq> []"
  proof
    assume "take ?l s = []"
    with len assms(1) show False by simp
  qed
  ultimately show ?thesis using utf8_len_append [of "take ?l s" "drop ?l s"] len by simp
qed

lemma utf8_ok_take:
  "utf8_ok s \<Longrightarrow> k \<le> length s \<Longrightarrow> k = 0 \<or> k = length s \<or> RuneStart (s ! k) \<Longrightarrow> utf8_ok (take k s)"
proof (induction s arbitrary: k rule: utf8_ok.induct)
  case (1 s)
  show ?case
  proof (cases "s = [] \<or> k = 0")
    case True
    then show ?thesis by auto
  next
    case False
    with 1(2) have l: "utf8_len s \<noteq> 0" "utf8_ok (drop (utf8_len s) s)"
      by (auto simp: utf8_ok.simps [of s] split: if_splits)
    have kl: "utf8_len s \<le> k"
    proof (rule ccontr)
      assume "\<not> utf8_len s \<le> k"
      with False utf8_len_cont [of k s] utf8_len_bound [of s] 1(4) show False by auto
    qed
    have "utf8_ok (take (k - utf8_len s) (drop (utf8_len s) s))"
    proof (rule 1(1))
      show "k - utf8_len s = 0 \<or> k - utf8_len s = length (drop (utf8_len s) s)
          \<or> RuneStart (drop (utf8_len s) s ! (k - utf8_len s))"
        using 1(3,4) kl False by (auto simp: nth_drop)
    qed (use False l 1(3) kl in auto)
    with l kl False show ?thesis
      by (subst utf8_ok.simps) (simp add: utf8_len_take drop_take)
  qed
qed

lemma truncate_prefix: "prefix (truncate_str s n) s"
  by (simp add: truncate_str_def take_is_prefix)

lemma truncate_length: "length (truncate_str s n) \<le> n"
  using back_to_rune_le [of s n] by (auto simp: truncate_str_def)

lemma truncate_utf8:
  assumes "utf8_ok s"
  shows "utf8_ok (truncate_str s n)"
proof (cases "length s \<le> n")
  case True
  with assms show ?thesis by (simp add: truncate_str_def)
next
  case False
  then have "back_to_rune s n \<le> length s" using back_to_rune_le [of s n] by simp
  with False assms back_to_rune_start [of s n] show ?thesis
    by (auto simp: truncate_str_def intro: utf8_ok_take)
qed

text \<open>At most three bytes are given up: among any four bytes one starts a rune.\<close>

lemma utf8_ok_head: "utf8_ok s \<Longrightarrow> s \<noteq> [] \<Longrightarrow> RuneStart (s ! 0)"
proof -
  assume "utf8_ok s" "s \<noteq> []"
  then have "utf8_len s \<noteq> 0" by (simp add: utf8_ok.simps [of s] split: if_splits)
  then show ?thesis
    by (cases s) (auto simp: utf8_len_def Let_def RuneStart_def split: if_splits)
qed

lemma utf8_ok_dense:
  "utf8_ok s \<Longrightarrow> j + 3 < length s \<Longrightarrow> \<exists>i. j \<le> i \<and> i \<le> j + 3 \<and> RuneStart (s ! i)"
proof (induction s arbitrary: j rule: utf8_ok.induct)
  case (1 s)
  then have ne: "s \<noteq> []" by auto
  with 1(2) have l: "utf8_len s \<noteq> 0" "utf8_ok (drop (utf8_len s) s)"
    by (auto simp: utf8_ok.simps [of s] split: if_splits)
  let ?l = "utf8_len s"
  consider "j = 0" | "0 < j" "j < ?l" | "?l \<le> j" by linarith
  then show ?case
  proof cases
    case 1
    then show ?thesis using utf8_ok_head [OF \<open>utf8_ok s\<close> ne] by blast
  next
    case 2
    with utf8_len_le4 [of s] have le: "?l \<le> j + 3" by linarith
    with 1(3) have "drop ?l s \<noteq> []" by simp
    from utf8_ok_head [OF l(2) this] have "RuneStart (s ! ?l)" using le 1(3) by (simp add: nth_drop)
    with le 2 show ?thesis by (meson less_imp_le)
  next
    case 3
    have "\<exists>i. j - ?l \<le> i \<and> i \<le> j - ?l + 3 \<and> RuneStart (drop ?l s ! i)"
      using 1(3) 3 by (intro 1(1) ne l) auto
    then obtain i where i: "j - ?l \<le> i" "i \<le> j - ?l + 3" "RuneStart (drop ?l s ! i)" by blast
    then have "RuneStart (s ! (?l + i))" using 1(3) 3 by (simp add: nth_drop)
    with i 3 show ?thesis by (intro exI [of _ "?l + i"]) auto
  qed
qed

lemma truncate_close:
  assumes "utf8_ok s" "n < length s"
  shows "n \<le> length (truncate_str s n) + 3"
proof (rule ccontr)
  assume *: "\<not> ?thesis"
  have len: "length (truncate_str s n) = back_to_rune s n"
    using assms(2) back_to_rune_le [of s n] by (simp add: truncate_str_def)
  with * have gap: "back_to_rune s n + 4 \<le> n" by linarith
  with assms(2) obtain i where "back_to_rune s n + 1 \<le> i" "i \<le> back_to_rune s n + 1 + 3" "RuneStart (s ! i)"
    using utf8_ok_dense [OF assms(1), of "back_to_rune s n + 1"] by auto
  with back_to_rune_skips [of s n i] gap show False by linarith
qed

text \<open>Cutting a text to \<open>n\<close> bytes keeps a prefix of it, never more than \<open>n\<close> bytes and at most three
  fewer when something is cut, and what is kept of a well-formed UTF-8 text is well-formed.\<close>

theorem truncate_correct:
  assumes "utf8_ok s"
  shows "prefix (truncate_str s n) s \<and> length (truncate_str s n) \<le> n \<and> utf8_ok (truncate_str s n) \<and>
         (n < length s \<longrightarrow> n \<le> length (truncate_str s n) + 3)"
  using truncate_prefix truncate_length truncate_utf8 [OF assms] truncate_close [OF assms] by blast

lemma truncate_correct_witness:
  "prefix (truncate_str [CHR ''a'', CHR 0xE2, CHR 0x82, CHR 0xAC] 3) [CHR ''a'', CHR 0xE2, CHR 0x82, CHR 0xAC]
   \<and> truncate_str [CHR ''a'', CHR 0xE2, CHR 0x82, CHR 0xAC] 3 = ''a''"
proof -
  have "utf8_ok [CHR ''a'', CHR 0xE2, CHR 0x82, CHR 0xAC]" by code_simp
  from truncate_correct [OF this, of 3] have
    "prefix (truncate_str [CHR ''a'', CHR 0xE2, CHR 0x82, CHR 0xAC] 3) [CHR ''a'', CHR 0xE2, CHR 0x82, CHR 0xAC]"
    by blast
  moreover have "truncate_str [CHR ''a'', CHR 0xE2, CHR 0x82, CHR 0xAC] 3 = ''a''" by code_simp
  ultimately show ?thesis by blast
qed

text \<open>The recall pool of an agent lies in the namespace of the workflow it runs for, and agents of
  the same namespace share a pool only through the group or the namespace scope: two agents whose
  scope is neither share one exactly when they have the same name.\<close>

theorem scope_key_private:
  assumes "agent_scope a \<notin> {''group'', ''namespace''}" "agent_scope b \<notin> {''group'', ''namespace''}"
    and "wf_Namespace v = wf_Namespace w"
  shows "prefix (wf_Namespace w @ ''/'') (memoryScopeKey a w) \<and>
         (memoryScopeKey a v = memoryScopeKey b w \<longleftrightarrow> ag_Name a = ag_Name b)"
  using assms by (auto simp: memoryScopeKey_def Let_def)

end
