(* ===== verification/Regexp.thy ===== *)
theory Regexp imports Prelude begin

text \<open>
  The package \<^verbatim>\<open>regexp\<close> on the patterns the source compiles.  A pattern is a syntax tree; matching
  tries the alternatives in order and takes greedy repetitions first, which is the leftmost-first
  rule of Go's engine.  Every repetition in the source's patterns is over a single character class.
  All patterns used begin with a literal or a class, so no match is empty.
\<close>

datatype re =
    Chr "char \<Rightarrow> bool" \<comment> \<open>one character of a class\<close>
  | Lit string
  | Star "char \<Rightarrow> bool" \<comment> \<open>greedy\<close>
  | Cat re re
  | Alt re re
  | Grp nat re
  | Bol
  | Eol

type_synonym caps = "(nat \<times> string) list"

section \<open>Matching at a position\<close>

text \<open>
  The matcher is in continuation-passing style.  The flag says whether the position is the start of
  the text; the continuation gets the position after the match and the groups captured so far.
\<close>

type_synonym kont = "bool \<Rightarrow> string \<Rightarrow> caps \<Rightarrow> (string \<times> caps) option"

definition orelse :: "'a option \<Rightarrow> 'a option \<Rightarrow> 'a option" where
  "orelse x y = (case x of None \<Rightarrow> y | Some _ \<Rightarrow> x)"

fun star :: "(char \<Rightarrow> bool) \<Rightarrow> bool \<Rightarrow> string \<Rightarrow> caps \<Rightarrow> kont \<Rightarrow> (string \<times> caps) option" where
  "star p b [] cs k = k b [] cs"
| "star p b (c # s) cs k =
     (if p c then orelse (star p False s cs k) (k b (c # s) cs) else k b (c # s) cs)"

fun mt :: "re \<Rightarrow> bool \<Rightarrow> string \<Rightarrow> caps \<Rightarrow> kont \<Rightarrow> (string \<times> caps) option" where
  "mt (Chr p) b s cs k = (case s of [] \<Rightarrow> None | c # t \<Rightarrow> if p c then k False t cs else None)"
| "mt (Lit l) b s cs k =
     (if HasPrefix s l then k (b \<and> l = []) (drop (length l) s) cs else None)"
| "mt (Star p) b s cs k = star p b s cs k"
| "mt (Cat r1 r2) b s cs k = mt r1 b s cs (\<lambda>b' s' cs'. mt r2 b' s' cs' k)"
| "mt (Alt r1 r2) b s cs k = orelse (mt r1 b s cs k) (mt r2 b s cs k)"
| "mt (Grp g r) b s cs k =
     mt r b s cs (\<lambda>b' s' cs'. k b' s' ((g, take (length s - length s') s) # cs'))"
| "mt Bol b s cs k = (if b then k b s cs else None)"
| "mt Eol b s cs k = (if s = [] then k b s cs else None)"

definition match_at :: "re \<Rightarrow> bool \<Rightarrow> string \<Rightarrow> (string \<times> caps) option" where
  "match_at r b s = mt r b s [] (\<lambda>_ s' cs. Some (s', cs))"

text \<open>A group that took no part in the match reads as the empty string.\<close>

definition group :: "caps \<Rightarrow> nat \<Rightarrow> string" where
  "group cs g = (case map_of cs g of None \<Rightarrow> [] | Some x \<Rightarrow> x)"

section \<open>Searching\<close>

text \<open>The leftmost match: the text before it, the match, the text after it, the groups.\<close>

record found =
  f_before :: string
  f_match :: string
  f_rest :: string
  f_caps :: caps

fun find_from :: "re \<Rightarrow> bool \<Rightarrow> string \<Rightarrow> string \<Rightarrow> found option" where
  "find_from r b acc [] =
     (case match_at r b [] of
        None \<Rightarrow> None
      | Some (t, cs) \<Rightarrow> Some \<lparr>f_before = rev acc, f_match = [], f_rest = t, f_caps = cs\<rparr>)"
| "find_from r b acc (c # s) =
     (case match_at r b (c # s) of
        Some (t, cs) \<Rightarrow>
          Some \<lparr>f_before = rev acc, f_match = take (Suc (length s) - length t) (c # s),
                f_rest = t, f_caps = cs\<rparr>
      | None \<Rightarrow> find_from r False (c # acc) s)"

text \<open>\<^verbatim>\<open>FindStringSubmatch\<close>.\<close>

definition find_sub :: "re \<Rightarrow> string \<Rightarrow> found option" where
  "find_sub r s = find_from r True [] s"

text \<open>
  \<^verbatim>\<open>ReplaceAllStringFunc\<close> and \<^verbatim>\<open>FindAllString\<close>: successive matches that do not overlap.  After the
  first match the position is not the start of the text any more.
\<close>

function replace_from :: "re \<Rightarrow> bool \<Rightarrow> (string \<Rightarrow> string) \<Rightarrow> string \<Rightarrow> string" where
  "replace_from r b f s =
     (case find_from r b [] s of
        None \<Rightarrow> s
      | Some m \<Rightarrow>
          f_before m @ f (f_match m) @
          (if length (f_rest m) < length s then replace_from r False f (f_rest m) else f_rest m))"
  by pat_completeness auto
termination by (relation "measure (\<lambda>(r, b, f, s). length s)") auto

declare replace_from.simps [simp del]

definition replace_all :: "re \<Rightarrow> (string \<Rightarrow> string) \<Rightarrow> string \<Rightarrow> string" where
  "replace_all r f s = replace_from r True f s"

function find_all_from :: "re \<Rightarrow> bool \<Rightarrow> string \<Rightarrow> found list" where
  "find_all_from r b s =
     (case find_from r b [] s of
        None \<Rightarrow> []
      | Some m \<Rightarrow>
          m # (if length (f_rest m) < length s then find_all_from r False (f_rest m) else []))"
  by pat_completeness auto
termination by (relation "measure (\<lambda>(r, b, s). length s)") auto

declare find_all_from.simps [simp del]

definition find_all :: "re \<Rightarrow> string \<Rightarrow> found list" where
  "find_all r s = find_all_from r True s"

section \<open>Character classes and patterns in sequence\<close>

definition word_char :: "char \<Rightarrow> bool" where
  "word_char c \<longleftrightarrow>
     c \<in> set ''abcdefghijklmnopqrstuvwxyzABCDEFGHIJKLMNOPQRSTUVWXYZ0123456789_''"

definition re_space :: "char \<Rightarrow> bool" where
  "re_space c \<longleftrightarrow> c \<in> {CHR '' '', CHR 0x09, CHR 0x0A, CHR 0x0C, CHR 0x0D}"

definition any_char :: "char \<Rightarrow> bool" where
  "any_char c \<longleftrightarrow> c \<noteq> CHR 0x0A"

definition re_plus :: "(char \<Rightarrow> bool) \<Rightarrow> re" where
  "re_plus p = Cat (Chr p) (Star p)"

fun re_cat :: "re list \<Rightarrow> re" where
  "re_cat [] = Lit []"
| "re_cat [r] = r"
| "re_cat (r # q # rs) = Cat r (re_cat (q # rs))"

fun re_alt :: "re list \<Rightarrow> re" where
  "re_alt [] = Chr (\<lambda>_. False)"
| "re_alt [r] = r"
| "re_alt (r # q # rs) = Alt r (re_alt (q # rs))"

section \<open>Facts about searching\<close>

lemma orelse_Some: "orelse x y = Some z \<longleftrightarrow> x = Some z \<or> (x = None \<and> y = Some z)"
  by (auto simp: orelse_def split: option.splits)

lemma orelse_None [simp]: "orelse None y = y" "orelse (Some x) y = Some x"
  by (simp_all add: orelse_def)

text \<open>What a match leaves is a suffix of the text, so matching only consumes.\<close>

lemma star_suffix:
  assumes "star p b s cs k = Some (t, ds)"
  shows "\<exists>b' s' cs'. suffix s' s \<and> k b' s' cs' = Some (t, ds)"
  using assms
proof (induction p b s cs k arbitrary: t ds rule: star.induct)
  case (1 p b cs k)
  then show ?case by auto
next
  case (2 p b c s cs k)
  show ?case
  proof (cases "p c \<and> star p False s cs k = Some (t, ds)")
    case True
    with 2(1) [of t ds] obtain b' s' cs' where "suffix s' s" "k b' s' cs' = Some (t, ds)" by blast
    then show ?thesis by (meson suffix_ConsI)
  next
    case False
    with 2(2) have "k b (c # s) cs = Some (t, ds)"
      by (auto simp: orelse_Some split: if_splits)
    then show ?thesis by blast
  qed
qed

lemma mt_suffix:
  assumes "mt r b s cs k = Some (t, ds)"
  shows "\<exists>b' s' cs'. suffix s' s \<and> k b' s' cs' = Some (t, ds)"
  using assms
proof (induction r arbitrary: b s cs k)
  case (Chr p)
  then show ?case by (auto split: list.splits if_splits intro: suffix_ConsI)
next
  case (Lit l)
  then show ?case by (auto split: if_splits intro: suffix_drop)
next
  case (Star p)
  from star_suffix [OF Star.prems [unfolded mt.simps]] show ?case .
next
  case (Cat r1 r2)
  from Cat.IH(1) [OF Cat.prems [unfolded mt.simps]] obtain b1 s1 cs1 where
    1: "suffix s1 s" "mt r2 b1 s1 cs1 k = Some (t, ds)" by blast
  from Cat.IH(2) [OF 1(2)] obtain b2 s2 cs2 where
    2: "suffix s2 s1" "k b2 s2 cs2 = Some (t, ds)" by blast
  from 1(1) 2 show ?case by (meson suffix_order.trans)
next
  case (Alt r1 r2)
  then show ?case by (auto simp: orelse_Some)
next
  case (Grp g r)
  then show ?case by fastforce
next
  case Bol
  then show ?case by (auto split: if_splits)
next
  case Eol
  then show ?case by (auto split: if_splits)
qed

lemma match_at_suffix: "match_at r b s = Some (t, cs) \<Longrightarrow> suffix t s"
  unfolding match_at_def using mt_suffix by fastforce

text \<open>The three parts of a match make up the text that was searched.\<close>

lemma find_from_split:
  "find_from r b acc s = Some m \<Longrightarrow> f_before m @ f_match m @ f_rest m = rev acc @ s"
proof (induction r b acc s rule: find_from.induct)
  case (1 r b acc)
  then show ?case by (auto split: option.splits dest: match_at_suffix)
next
  case (2 r b acc c s)
  show ?case
  proof (cases "match_at r b (c # s)")
    case None
    with 2 show ?thesis by simp
  next
    case (Some p)
    obtain t cs where p: "p = (t, cs)" by (cases p)
    with Some have "suffix t (c # s)" using match_at_suffix by blast
    then obtain u where u: "c # s = u @ t" by (auto simp: suffix_def)
    then have len: "Suc (length s) = length u + length t" by (metis length_Cons length_append)
    from 2(2) Some p have m: "m = \<lparr>f_before = rev acc,
        f_match = take (Suc (length s) - length t) (c # s), f_rest = t, f_caps = cs\<rparr>" by simp
    have "take (Suc (length s) - length t) (c # s) = u" using u len by simp
    with m u show ?thesis by simp
  qed
qed

lemma find_sub_split: "find_sub r s = Some m \<Longrightarrow> f_before m @ f_match m @ f_rest m = s"
  unfolding find_sub_def by (drule find_from_split) simp

text \<open>Replacing every match by itself changes nothing.\<close>

lemma replace_from_id: "replace_from r b (\<lambda>x. x) s = s"
proof (induction s arbitrary: b rule: length_induct)
  case (1 s)
  show ?case
  proof (cases "find_from r b [] s")
    case None
    then show ?thesis by (simp add: replace_from.simps)
  next
    case (Some m)
    then have "replace_from r b (\<lambda>x. x) s = f_before m @ f_match m @
        (if length (f_rest m) < length s then replace_from r False (\<lambda>x. x) (f_rest m) else f_rest m)"
      by (subst replace_from.simps) simp
    also have "\<dots> = f_before m @ f_match m @ f_rest m" using 1 by simp
    finally show ?thesis using find_from_split [OF Some] by simp
  qed
qed

lemma replace_all_id: "replace_all r (\<lambda>x. x) s = s"
  unfolding replace_all_def by (rule replace_from_id)

text \<open>A pattern that starts with a literal matches nothing in a text that lacks its first byte.\<close>

lemma find_from_lit_None:
  "c \<notin> set s \<Longrightarrow> find_from (Cat (Lit (c # l)) r) b acc s = None"
proof (induction s arbitrary: b acc)
  case Nil
  then show ?case by (simp add: match_at_def HasPrefix_def)
next
  case (Cons x s)
  then show ?case by (auto simp: match_at_def HasPrefix_def)
qed

lemma replace_all_lit_None:
  "c \<notin> set s \<Longrightarrow> replace_all (Cat (Lit (c # l)) r) f s = s"
  by (simp add: replace_all_def replace_from.simps find_from_lit_None)

end
