(* ===== verification/Memory_Store.thy ===== *)
theory Memory_Store imports Sql Memory_Policy Regexp begin

text \<open>
  \<^verbatim>\<open>pkg/memory/store.go\<close>: the SQLite store of agent memories.  The state holds the rows of the
  tables \<^verbatim>\<open>memories\<close> (in rowid order) and \<^verbatim>\<open>recall_log\<close>, whether the full-text index is there, and
  whether the database is open.  Each method is the SQL statement it runs, on these rows; a method
  on a closed database answers the error \<^const>\<open>Closed\<close>.

  The full-text index of SQLite is no code of the repository: which rows match a query and how
  \<^verbatim>\<open>bm25\<close> ranks them are the fields of an argument.  \<open>now\<close> is the clock, \<open>uuid\<close> the new identifier.
\<close>

section \<open>Data\<close>

record Entry =
  me_ID :: string
  me_Namespace :: string
  me_ScopeKey :: string
  me_Agent :: string
  me_Workflow :: string
  me_Step :: string
  me_Content :: string
  me_CreatedAt :: "time option" \<comment> \<open>\<open>None\<close> is the zero time\<close>

text \<open>A row keeps the timestamp as the text that is stored.\<close>

record mem_row =
  row_entry :: Entry
  row_created :: string

record recall_row =
  rl_Namespace :: string
  rl_Run :: string
  rl_Step :: string
  rl_MemoryIDs :: string
  rl_Created :: string

record mem_store =
  mdb_memories :: "mem_row list"
  mdb_recall_log :: "recall_row list"
  mdb_ftsEnabled :: bool
  mdb_open :: bool

record mem_query =
  mq_Text :: string
  mq_Agent :: string
  mq_ScopeKey :: string
  mq_Since :: "time option"
  mq_Limit :: int

record mem_stats =
  mst_TotalEntries :: int
  mst_PerAgent :: "(string \<times> int) list"
  mst_ProviderType :: string

record fts =
  fts_match :: "string \<Rightarrow> mem_row list \<Rightarrow> mem_row \<Rightarrow> bool"
  fts_rank :: "string \<Rightarrow> mem_row list \<Rightarrow> mem_row \<Rightarrow> int"

definition row_id :: "mem_row \<Rightarrow> string" where "row_id r = me_ID (row_entry r)"

section \<open>Opening\<close>

text \<open>The state of a new database; \<open>probe\<close> is the answer of \<^verbatim>\<open>probeFTS\<close>.\<close>

definition NewSQLiteStore :: "bool \<Rightarrow> mem_store" where
  "NewSQLiteStore probe =
     \<lparr>mdb_memories = [], mdb_recall_log = [], mdb_ftsEnabled = probe, mdb_open = True\<rparr>"

definition Close :: "mem_store \<Rightarrow> mem_store" where
  "Close st = st\<lparr>mdb_open := False\<rparr>"

definition Healthy :: "mem_store \<Rightarrow> sql_error + unit" where
  "Healthy st = (if mdb_open st then Inr () else Inl Closed)"

section \<open>Writing\<close>

definition capContent :: "string \<Rightarrow> string" where
  "capContent c = truncate_str c 4096"

definition Learn :: "mem_store \<Rightarrow> string \<Rightarrow> time \<Rightarrow> Entry \<Rightarrow> (sql_error + unit) \<times> mem_store" where
  "Learn st uuid now e =
     (let e1 = (if me_ID e = [] then e\<lparr>me_ID := uuid\<rparr> else e);
          e2 = e1\<lparr>me_Content := capContent (me_Content e1)\<rparr>;
          createdAt = (case me_CreatedAt e2 of Some t \<Rightarrow> t | None \<Rightarrow> now);
          row = \<lparr>row_entry = e2\<lparr>me_CreatedAt := None\<rparr>, row_created = RFC3339Nano createdAt\<rparr>
      in if \<not> mdb_open st then (Inl Closed, st)
         else if me_ID e2 \<in> set (map row_id (mdb_memories st)) then (Inl Constraint, st)
         else (Inr (), st\<lparr>mdb_memories := mdb_memories st @ [row]\<rparr>))"

definition Forget :: "mem_store \<Rightarrow> string \<Rightarrow> string \<Rightarrow> (sql_error + unit) \<times> mem_store" where
  "Forget st ns i =
     (if \<not> mdb_open st then (Inl Closed, st)
      else (Inr (), st\<lparr>mdb_memories :=
        filter (\<lambda>r. \<not> (row_id r = i \<and> me_Namespace (row_entry r) = ns)) (mdb_memories st)\<rparr>))"

section \<open>Reading\<close>

definition read_entry :: "mem_row \<Rightarrow> Entry" where
  "read_entry r = (row_entry r)\<lparr>me_CreatedAt := decodeTime (Some (row_created r))\<rparr>"

definition newest_first :: "mem_row \<Rightarrow> mem_row \<Rightarrow> bool" where
  "newest_first a b = str_le (row_created b) (row_created a)"

text \<open>Terms of a text: alphanumeric runs without the operators of the query language.\<close>

definition alnum :: "char \<Rightarrow> bool" where
  "alnum c \<longleftrightarrow> is_lower c \<or> is_upper c \<or> is_digit c"

definition ftsWordRe :: re where "ftsWordRe = re_plus alnum"

definition ftsTerms :: "string \<Rightarrow> string list" where
  "ftsTerms q =
     filter (\<lambda>t. t \<notin> {''AND'', ''OR'', ''NOT'', ''NEAR''}) (map f_match (find_all ftsWordRe q))"

definition ftsQuery :: "string \<Rightarrow> string" where
  "ftsQuery q = join '' OR '' (ftsTerms q)"

definition sanitizeFTS :: "string \<Rightarrow> string" where
  "sanitizeFTS q = ftsQuery q"

definition search_where :: "fts \<Rightarrow> mem_store \<Rightarrow> string \<Rightarrow> mem_query \<Rightarrow> mem_row \<Rightarrow> bool" where
  "search_where ft st ns q r \<longleftrightarrow>
     (let e = row_entry r in
      me_Namespace e = ns \<and>
      (mq_Agent q = [] \<or> me_Agent e = mq_Agent q) \<and>
      (mq_ScopeKey q = [] \<or> me_ScopeKey e = mq_ScopeKey q) \<and>
      (case mq_Since q of
         None \<Rightarrow> True
       | Some t \<Rightarrow>
           (case (sql_datetime (row_created r), sql_datetime (RFC3339Nano t)) of
              (Some a, Some b) \<Rightarrow> str_le b a | _ \<Rightarrow> False)) \<and>
      (mq_Text q = [] \<or>
        (if mdb_ftsEnabled st then fts_match ft (sanitizeFTS (mq_Text q)) (mdb_memories st) r
         else like (CHR ''%'' # mq_Text q @ ''%'') (me_Content e))))"

definition Search :: "fts \<Rightarrow> mem_store \<Rightarrow> string \<Rightarrow> mem_query \<Rightarrow> sql_error + Entry list" where
  "Search ft st ns q =
     (let limit = (if mq_Limit q \<le> 0 \<or> 500 < mq_Limit q then 100 else mq_Limit q) in
      if \<not> mdb_open st then Inl Closed
      else Inr (map read_entry (sql_limit limit
             (order_by newest_first (filter (search_where ft st ns q) (mdb_memories st))))))"

text \<open>Counts per agent, agents in order of first appearance.\<close>

definition Stats :: "mem_store \<Rightarrow> string \<Rightarrow> sql_error + mem_stats" where
  "Stats st ns =
     (let es = filter (\<lambda>e. ns = [] \<or> me_Namespace e = ns) (map row_entry (mdb_memories st));
          per = map (\<lambda>a. (a, int (length (filter (\<lambda>e. me_Agent e = a) es)))) (remdups (map me_Agent es))
      in if \<not> mdb_open st then Inl Closed
         else Inr \<lparr>mst_TotalEntries = sum_list (map snd per), mst_PerAgent = per,
                   mst_ProviderType = ''builtin''\<rparr>)"

definition in_scope :: "string \<Rightarrow> string \<Rightarrow> mem_row \<Rightarrow> bool" where
  "in_scope ns scopeKey r \<longleftrightarrow>
     me_Namespace (row_entry r) = ns \<and> me_ScopeKey (row_entry r) = scopeKey"

text \<open>The three queries of \<^verbatim>\<open>Recall\<close>.\<close>

definition recall_rows :: "fts \<Rightarrow> mem_store \<Rightarrow> string \<Rightarrow> string \<Rightarrow> string \<Rightarrow> mem_row list" where
  "recall_rows ft st ns scopeKey query =
     (let terms = ftsTerms query; rows = mdb_memories st; mq = join '' OR '' terms in
      if mdb_ftsEnabled st \<and> terms \<noteq> [] then
        order_by (\<lambda>a b. fts_rank ft mq rows a < fts_rank ft mq rows b \<or>
                    (fts_rank ft mq rows a = fts_rank ft mq rows b \<and> newest_first a b))
          (filter (\<lambda>r. fts_match ft mq rows r \<and> in_scope ns scopeKey r) rows)
      else if terms \<noteq> [] then
        order_by newest_first
          (filter (\<lambda>r. in_scope ns scopeKey r \<and>
                     list_ex (\<lambda>t. like (CHR ''%'' # t @ ''%'') (me_Content (row_entry r))) terms) rows)
      else order_by newest_first (filter (in_scope ns scopeKey) rows))"

text \<open>Packing under the budget: the first entry always goes in.\<close>

fun pack :: "int \<Rightarrow> int \<Rightarrow> bool \<Rightarrow> Entry list \<Rightarrow> Entry list" where
  "pack budget used some [] = []"
| "pack budget used some (e # es) =
     (if budget < used + int (length (me_Content e)) \<and> some then []
      else e # pack budget (used + int (length (me_Content e))) True es)"

definition Recall :: "fts \<Rightarrow> mem_store \<Rightarrow> string \<Rightarrow> string \<Rightarrow> string \<Rightarrow> int \<Rightarrow> sql_error + Entry list" where
  "Recall ft st ns scopeKey query maxTokens0 =
     (let maxTokens = (if maxTokens0 \<le> 0 then 2048 else maxTokens0);
          ranked = map read_entry (sql_limit 50 (recall_rows ft st ns scopeKey query))
      in if \<not> mdb_open st then Inl Closed else Inr (pack (maxTokens * 4) 0 False ranked))"

section \<open>The recall log\<close>

definition log_key :: "string \<Rightarrow> string \<Rightarrow> string \<Rightarrow> recall_row \<Rightarrow> bool" where
  "log_key ns runID step r \<longleftrightarrow> rl_Namespace r = ns \<and> rl_Run r = runID \<and> rl_Step r = step"

definition WriteRecallLog :: "mem_store \<Rightarrow> time \<Rightarrow> string \<Rightarrow> string \<Rightarrow> string \<Rightarrow> string list \<Rightarrow>
    (sql_error + unit) \<times> mem_store" where
  "WriteRecallLog st now ns runID step ids =
     (let b = marshal_strings ids; ts = CURRENT_TIMESTAMP now in
      if \<not> mdb_open st then (Inl Closed, st)
      else if list_ex (log_key ns runID step) (mdb_recall_log st)
      then (Inr (), st\<lparr>mdb_recall_log :=
             map (\<lambda>r. if log_key ns runID step r then r\<lparr>rl_MemoryIDs := b, rl_Created := ts\<rparr> else r)
               (mdb_recall_log st)\<rparr>)
      else (Inr (), st\<lparr>mdb_recall_log := mdb_recall_log st @
             [\<lparr>rl_Namespace = ns, rl_Run = runID, rl_Step = step, rl_MemoryIDs = b, rl_Created = ts\<rparr>]\<rparr>))"

text \<open>\<^verbatim>\<open>Unmarshal\<close> into a \<^verbatim>\<open>[]string\<close>; \<^verbatim>\<open>null\<close> is the nil slice, a \<^verbatim>\<open>null\<close> element the empty string.\<close>

definition unmarshal_strings :: "string \<Rightarrow> string list option" where
  "unmarshal_strings s =
     (case parse_json s of
        Some (TArr vs) \<Rightarrow>
          those (map (\<lambda>(_, v). case v of TStr x \<Rightarrow> Some x | TNull \<Rightarrow> Some [] | _ \<Rightarrow> None) vs)
      | Some TNull \<Rightarrow> Some []
      | _ \<Rightarrow> None)"

definition ReadRecallLog :: "mem_store \<Rightarrow> string \<Rightarrow> string \<Rightarrow> string \<Rightarrow>
    sql_error + (Entry list \<times> string list)" where
  "ReadRecallLog st ns runID step =
     (if \<not> mdb_open st then Inl Closed
      else (case find (log_key ns runID step) (mdb_recall_log st) of
        None \<Rightarrow> Inr ([], [])
      | Some r \<Rightarrow>
          (case unmarshal_strings (rl_MemoryIDs r) of
             None \<Rightarrow> Inl BadJson
           | Some ids \<Rightarrow>
               Inr (concat (map (\<lambda>i. map read_entry
                 (filter (\<lambda>m. row_id m = i \<and> me_Namespace (row_entry m) = ns) (mdb_memories st))) ids),
                 ids))))"

section \<open>Retention\<close>

definition retained_ids :: "mem_store \<Rightarrow> string \<Rightarrow> int \<Rightarrow> string list" where
  "retained_ids st scopeKey n =
     map row_id (sql_limit n (order_by newest_first
       (filter (\<lambda>r. me_ScopeKey (row_entry r) = scopeKey) (mdb_memories st))))"

definition evicted :: "mem_store \<Rightarrow> string \<Rightarrow> int \<Rightarrow> mem_row \<Rightarrow> bool" where
  "evicted st scopeKey n r \<longleftrightarrow>
     me_ScopeKey (row_entry r) = scopeKey \<and> row_id r \<notin> set (retained_ids st scopeKey n)"

definition Retain :: "mem_store \<Rightarrow> string \<Rightarrow> int \<Rightarrow> (sql_error + int) \<times> mem_store" where
  "Retain st scopeKey maxEntries0 =
     (let n = (if maxEntries0 \<le> 0 then 500 else maxEntries0);
          gone = filter (evicted st scopeKey n) (mdb_memories st)
      in if \<not> mdb_open st then (Inl Closed, st)
         else (Inr (int (length gone)),
               st\<lparr>mdb_memories := filter (\<lambda>r. \<not> evicted st scopeKey n r) (mdb_memories st)\<rparr>))"

definition str_less :: "string \<Rightarrow> string \<Rightarrow> bool" where
  "str_less a b \<longleftrightarrow> \<not> str_le b a"

definition DeleteOlderThan :: "mem_store \<Rightarrow> time \<Rightarrow> int \<Rightarrow> (sql_error + int) \<times> mem_store" where
  "DeleteOlderThan st now days =
     (let cutoff = RFC3339Nano (minus_days now days) in
      if \<not> mdb_open st then (Inl Closed, st)
      else (Inr (int (length (filter (\<lambda>r. str_less (row_created r) cutoff) (mdb_memories st)))),
            st\<lparr>mdb_memories := filter (\<lambda>r. \<not> str_less (row_created r) cutoff) (mdb_memories st)\<rparr>))"

definition DeleteRecallLogOlderThan :: "mem_store \<Rightarrow> time \<Rightarrow> int \<Rightarrow> (sql_error + int) \<times> mem_store" where
  "DeleteRecallLogOlderThan st now days =
     (let cutoff = RFC3339Nano (minus_days now days) in
      if \<not> mdb_open st then (Inl Closed, st)
      else (Inr (int (length (filter (\<lambda>r. str_less (rl_Created r) cutoff) (mdb_recall_log st)))),
            st\<lparr>mdb_recall_log := filter (\<lambda>r. \<not> str_less (rl_Created r) cutoff) (mdb_recall_log st)\<rparr>))"

section \<open>Facts about the queries\<close>

lemma read_entry_simps [simp]:
  "me_Namespace (read_entry r) = me_Namespace (row_entry r)"
  "me_ScopeKey (read_entry r) = me_ScopeKey (row_entry r)"
  "me_ID (read_entry r) = me_ID (row_entry r)"
  "me_Content (read_entry r) = me_Content (row_entry r)"
  by (simp_all add: read_entry_def)

lemma recall_rows_scope:
  "r \<in> set (recall_rows ft st ns sk q) \<Longrightarrow> r \<in> set (mdb_memories st) \<and> in_scope ns sk r"
  by (auto simp: recall_rows_def Let_def split: if_splits)

lemma pack_prefix: "prefix (pack b u some es) es"
  by (induction es arbitrary: u some) auto

definition content_size :: "Entry list \<Rightarrow> int" where
  "content_size es = sum_list (map (\<lambda>e. int (length (me_Content e))) es)"

lemma content_size_simps [simp]:
  "content_size [] = 0" "content_size (e # es) = int (length (me_Content e)) + content_size es"
  by (simp_all add: content_size_def)

lemma pack_budget_some: "u \<le> b \<Longrightarrow> u + content_size (pack b u True es) \<le> b"
proof (induction es arbitrary: u)
  case (Cons e es)
  then show ?case using Cons.IH [of "u + int (length (me_Content e))"] by (auto simp: algebra_simps)
qed simp

lemma pack_budget:
  "content_size (pack b 0 False es) \<le> b \<or> length (pack b 0 False es) \<le> 1"
proof (cases es)
  case (Cons e r)
  let ?n = "int (length (me_Content e))"
  show ?thesis
  proof (cases "?n \<le> b")
    case True
    with Cons show ?thesis using pack_budget_some [of ?n b r] by simp
  next
    case False
    have "pack b ?n True r = []" using False by (cases r) auto
    with Cons show ?thesis by simp
  qed
qed simp

lemma pack_maximal:
  "pack b u some es \<noteq> es \<Longrightarrow>
   b < u + content_size (take (Suc (length (pack b u some es))) es)"
proof (induction es arbitrary: u some)
  case (Cons e es)
  show ?case
  proof (cases "b < u + int (length (me_Content e)) \<and> some")
    case True
    then show ?thesis by simp
  next
    case False
    with Cons.prems have "pack b (u + int (length (me_Content e))) True es \<noteq> es" by auto
    from Cons.IH [OF this] False show ?thesis by (simp add: algebra_simps)
  qed
qed simp

section \<open>The interface\<close>

text \<open>
  What the controllers rely on when they use a store (the Go interface \<^verbatim>\<open>memory.Store\<close>): recall stays
  in the pool it is asked for, what is learned is the entry itself up to its cap, identifier and
  timestamp, and retention touches one pool only.
\<close>

locale memory_provider =
  fixes recall :: "'m \<Rightarrow> string \<Rightarrow> string \<Rightarrow> string \<Rightarrow> int \<Rightarrow> sql_error + Entry list"
    and learn :: "'m \<Rightarrow> string \<Rightarrow> time \<Rightarrow> Entry \<Rightarrow> (sql_error + unit) \<times> 'm"
    and retain :: "'m \<Rightarrow> string \<Rightarrow> int \<Rightarrow> (sql_error + int) \<times> 'm"
    and entries :: "'m \<Rightarrow> Entry set" \<comment> \<open>what is stored, as it is read\<close>
  assumes recall_stored: "recall m ns sk q n = Inr es \<Longrightarrow> e \<in> set es \<Longrightarrow>
      e \<in> entries m \<and> me_Namespace e = ns \<and> me_ScopeKey e = sk"
    and learn_adds: "learn m uuid now e = (res, m') \<Longrightarrow> x \<in> entries m' \<Longrightarrow> x \<notin> entries m \<Longrightarrow>
      me_Namespace x = me_Namespace e \<and> me_ScopeKey x = me_ScopeKey e \<and> prefix (me_Content x) (me_Content e)"
    and learn_keeps: "learn m uuid now e = (res, m') \<Longrightarrow> entries m \<subseteq> entries m'"
    and retain_shrinks: "retain m sk n = (cnt, m') \<Longrightarrow> entries m' \<subseteq> entries m"
    and retain_other: "retain m sk n = (cnt, m') \<Longrightarrow> x \<in> entries m \<Longrightarrow> me_ScopeKey x \<noteq> sk \<Longrightarrow> x \<in> entries m'"
begin

text \<open>What a learned entry, followed by retention, can change in other pools: nothing.\<close>

lemma learn_retain_other_pools:
  assumes "learn m uuid now e = (r1, m1)" "retain m1 (me_ScopeKey e) n = (r2, m2)"
    and "me_ScopeKey x \<noteq> me_ScopeKey e"
  shows "x \<in> entries m2 \<longleftrightarrow> x \<in> entries m"
proof
  assume "x \<in> entries m2"
  with retain_shrinks [OF assms(2)] have "x \<in> entries m1" by blast
  with learn_adds [OF assms(1), of x] assms(3) show "x \<in> entries m" by blast
next
  assume "x \<in> entries m"
  with learn_keeps [OF assms(1)] have "x \<in> entries m1" by blast
  with retain_other [OF assms(2)] assms(3) show "x \<in> entries m2" by blast
qed

text \<open>A later recall in one pool returns what was there before or what was learned into that pool.\<close>

lemma recall_after_learn:
  assumes "learn m uuid now e = (r1, m1)" "retain m1 (me_ScopeKey e) n = (r2, m2)"
    and "recall m2 ns sk q k = Inr es" "x \<in> set es"
  shows "x \<in> entries m \<or> (me_Namespace e = ns \<and> me_ScopeKey e = sk)"
proof -
  from recall_stored [OF assms(3,4)] have x: "x \<in> entries m2" "me_Namespace x = ns" "me_ScopeKey x = sk"
    by simp_all
  with retain_shrinks [OF assms(2)] have "x \<in> entries m1" by blast
  with learn_adds [OF assms(1), of x] x show ?thesis by metis
qed

end

definition stored_entries :: "mem_store \<Rightarrow> Entry set" where
  "stored_entries st = read_entry ` set (mdb_memories st)"

interpretation builtin: memory_provider "Recall ft" Learn Retain stored_entries for ft
proof
  fix m ns sk q n es e
  assume "Recall ft m ns sk q n = Inr es" "e \<in> set es"
  then obtain r where "r \<in> set (sql_limit 50 (recall_rows ft m ns sk q))" "e = read_entry r"
    using set_mono_prefix [OF pack_prefix] by (fastforce simp: Recall_def Let_def split: if_splits)
  with recall_rows_scope [of r ft m ns sk q] show "e \<in> stored_entries m \<and> me_Namespace e = ns \<and> me_ScopeKey e = sk"
    using set_sql_limit [of 50 "recall_rows ft m ns sk q"] by (auto simp: stored_entries_def in_scope_def)
next
  fix m m' :: mem_store and uuid now e res x
  assume "Learn m uuid now e = (res, m')" "x \<in> stored_entries m'" "x \<notin> stored_entries m"
  then show "me_Namespace x = me_Namespace e \<and> me_ScopeKey x = me_ScopeKey e \<and> prefix (me_Content x) (me_Content e)"
    by (auto simp: Learn_def Let_def stored_entries_def capContent_def truncate_prefix split: if_splits)
qed (auto simp: Learn_def Retain_def Let_def stored_entries_def evicted_def split: if_splits)

section \<open>Retention\<close>

definition store_ok :: "mem_store \<Rightarrow> bool" where
  "store_ok st \<longleftrightarrow> distinct (map row_id (mdb_memories st))"

lemma Learn_ok: "store_ok st \<Longrightarrow> store_ok (snd (Learn st uuid now e))"
  by (auto simp: Learn_def Let_def store_ok_def row_id_def)

lemma filter_ok: "distinct (map f xs) \<Longrightarrow> distinct (map f (filter p xs))"
  by (simp add: distinct_map_filter)

lemma Retain_ok: "store_ok st \<Longrightarrow> store_ok (snd (Retain st sk n))"
  by (simp add: Retain_def Let_def store_ok_def filter_ok)

lemma Forget_ok: "store_ok st \<Longrightarrow> store_ok (snd (Forget st ns i))"
  by (simp add: Forget_def store_ok_def filter_ok)

lemma DeleteOlderThan_ok: "store_ok st \<Longrightarrow> store_ok (snd (DeleteOlderThan st now days))"
  by (simp add: DeleteOlderThan_def Let_def store_ok_def filter_ok)

definition pool_rows :: "mem_store \<Rightarrow> string \<Rightarrow> mem_row list" where
  "pool_rows st sk = filter (\<lambda>r. me_ScopeKey (row_entry r) = sk) (mdb_memories st)"

lemma evicted_iff:
  assumes "store_ok st" "0 < n" "r \<in> set (pool_rows st sk)"
  shows "evicted st sk n r \<longleftrightarrow> r \<in> set (drop (nat n) (order_by newest_first (pool_rows st sk)))"
proof -
  let ?L = "order_by newest_first (pool_rows st sk)"
  have d: "distinct (map row_id ?L)"
    using assms(1) by (simp add: distinct_order_by pool_rows_def store_ok_def filter_ok)
  have ids: "retained_ids st sk n = map row_id (take (nat n) ?L)"
    using assms(2) by (simp add: retained_ids_def sql_limit_def pool_rows_def)
  have split: "map row_id ?L = map row_id (take (nat n) ?L) @ map row_id (drop (nat n) ?L)"
    by (metis append_take_drop_id map_append)
  have rL: "r \<in> set (take (nat n) ?L) \<or> r \<in> set (drop (nat n) ?L)"
    using assms(3) by (metis append_take_drop_id set_order_by Un_iff set_append)
  from d split have "set (map row_id (take (nat n) ?L)) \<inter> set (map row_id (drop (nat n) ?L)) = {}"
    by (metis distinct_append)
  with rL ids assms(3) show ?thesis by (auto simp: evicted_def pool_rows_def)
qed

lemma retained_pool:
  assumes "store_ok st" "0 < n"
  shows "set (filter (\<lambda>r. \<not> evicted st sk n r) (pool_rows st sk))
      = set (take (nat n) (order_by newest_first (pool_rows st sk)))"
proof -
  let ?L = "order_by newest_first (pool_rows st sk)"
  have "distinct ?L"
    using assms(1) distinct_map distinct_order_by [of row_id newest_first]
    by (metis filter_ok pool_rows_def store_ok_def)
  then have "set (take (nat n) ?L) \<inter> set (drop (nat n) ?L) = {}"
    by (metis append_take_drop_id distinct_append)
  moreover have "set (pool_rows st sk) = set (take (nat n) ?L) \<union> set (drop (nat n) ?L)"
    by (metis append_take_drop_id set_append set_order_by)
  ultimately show ?thesis using evicted_iff [OF assms] by auto
qed

lemma newest_first_order: "sorted_wrt newest_first (order_by newest_first xs)"
  by (rule sorted_order_by) (auto simp: newest_first_def str_le_total intro: str_le_trans)

section \<open>Properties\<close>

text \<open>C16: A recall returns only memories of the namespace and the pool it is asked for, whatever the
  full-text index says, and each of them is stored.\<close>

theorem recall_isolated:
  assumes "Recall ft st ns sk q n = Inr es" "e \<in> set es"
  shows "me_Namespace e = ns \<and> me_ScopeKey e = sk \<and> e \<in> stored_entries st"
  using builtin.recall_stored [OF assms] by blast

text \<open>A recall packs the ranked memories from the best on until the budget of four bytes a token is
  used up: what it returns is the beginning of the ranking, it fits the budget unless it is the one
  best memory, and when something was left out the next memory would have exceeded the budget.\<close>

theorem recall_budget:
  assumes "Recall ft st ns sk q n = Inr es" "0 < n"
  shows "prefix es (map read_entry (take 50 (recall_rows ft st ns sk q))) \<and>
    (content_size es \<le> 4 * n \<or> length es \<le> 1) \<and>
    (es \<noteq> map read_entry (take 50 (recall_rows ft st ns sk q)) \<longrightarrow>
       4 * n < content_size (take (Suc (length es)) (map read_entry (take 50 (recall_rows ft st ns sk q)))))"
proof -
  let ?R = "map read_entry (take 50 (recall_rows ft st ns sk q))"
  have es: "es = pack (4 * n) 0 False ?R"
    using assms by (auto simp: Recall_def Let_def sql_limit_def mult.commute split: if_splits)
  have "es \<noteq> ?R \<Longrightarrow> 4 * n < content_size (take (Suc (length es)) ?R)"
    using pack_maximal [of "4 * n" 0 False ?R] es by simp
  with es pack_prefix [of "4 * n" 0 False ?R] pack_budget [of "4 * n" ?R] show ?thesis by metis
qed

text \<open>C15: Retention keeps at most the cap of a pool (all of it when it is smaller), evicts only rows of
  that pool, never evicts a row whose stored timestamp sorts after one it keeps, and reports how many
  went.\<close>

theorem retain_keeps_newest:
  assumes "store_ok st" "0 < n" "Retain st sk n = (Inr k, st')"
  shows "length (pool_rows st' sk) = min (nat n) (length (pool_rows st sk)) \<and>
    (\<forall>r \<in> set (mdb_memories st). me_ScopeKey (row_entry r) \<noteq> sk \<longrightarrow> r \<in> set (mdb_memories st')) \<and>
    (\<forall>kept \<in> set (pool_rows st' sk). \<forall>gone \<in> set (pool_rows st sk) - set (pool_rows st' sk).
        str_le (row_created gone) (row_created kept)) \<and>
    k = int (length (mdb_memories st) - length (mdb_memories st'))"
proof -
  let ?L = "order_by newest_first (pool_rows st sk)"
  from assms have st': "mdb_memories st' = filter (\<lambda>r. \<not> evicted st sk n r) (mdb_memories st)"
    and k: "k = int (length (filter (evicted st sk n) (mdb_memories st)))"
    by (auto simp: Retain_def Let_def split: if_splits)
  have pool: "pool_rows st' sk = filter (\<lambda>r. \<not> evicted st sk n r) (pool_rows st sk)"
    unfolding pool_rows_def st' by (simp add: conj_commute)
  have kept: "set (pool_rows st' sk) = set (take (nat n) ?L)"
    unfolding pool by (rule retained_pool [OF assms(1,2)])
  have dist: "distinct (pool_rows st' sk)" "distinct ?L"
    using assms(1) filter_ok distinct_order_by [of row_id newest_first] pool
    by (metis distinct_map pool_rows_def store_ok_def)+
  have "length (pool_rows st' sk) = length (take (nat n) ?L)"
    using kept dist distinct_card distinct_take by metis
  moreover have "sorted_wrt newest_first (take (nat n) ?L @ drop (nat n) ?L)"
    using newest_first_order by simp
  then have "\<forall>a \<in> set (take (nat n) ?L). \<forall>b \<in> set (drop (nat n) ?L). newest_first a b"
    unfolding sorted_wrt_append by blast
  moreover have "set (pool_rows st sk) - set (pool_rows st' sk) \<subseteq> set (drop (nat n) ?L)"
    using evicted_iff [OF assms(1,2)] by (auto simp: pool)
  moreover have "length (mdb_memories st) - length (mdb_memories st') = length (filter (evicted st sk n) (mdb_memories st))"
    using sum_length_filter_compl [of "evicted st sk n" "mdb_memories st"] by (simp add: st')
  moreover have "\<forall>r \<in> set (mdb_memories st). me_ScopeKey (row_entry r) \<noteq> sk \<longrightarrow> r \<in> set (mdb_memories st')"
    by (simp add: st' evicted_def)
  ultimately show ?thesis
    using kept k by (auto simp: newest_first_def)
qed

lemma unmarshal_marshal_strings:
  assumes "list_all (list_all ascii) ids"
  shows "unmarshal_strings (marshal_strings ids) = Some ids"
proof -
  have "those (map (\<lambda>(_, v). case v of TStr x \<Rightarrow> Some x | TNull \<Rightarrow> Some [] | _ \<Rightarrow> None)
      (map (\<lambda>s. (marshal_string s, TStr s)) ids)) = Some ids"
    by (induction ids) auto
  with parse_marshal_strings [OF assms] show ?thesis by (simp add: unmarshal_strings_def)
qed

lemma find_map_log:
  assumes "list_ex (log_key ns runID step) rows"
  shows "\<exists>r. find (log_key ns runID step)
      (map (\<lambda>r. if log_key ns runID step r then r\<lparr>rl_MemoryIDs := b, rl_Created := ts\<rparr> else r) rows) = Some r \<and>
     rl_MemoryIDs r = b"
  using assms by (induction rows) (auto simp: log_key_def)

lemma find_append_new:
  "\<not> list_ex p rows \<Longrightarrow> p r \<Longrightarrow> find p (rows @ [r]) = Some r"
  by (induction rows) auto

text \<open>What is written to the recall log for a run and step reads back as the same list of
  identifiers, with the entries that still exist, for all identifiers in ASCII; a second write replaces
  the first.\<close>

theorem recall_log_roundtrip:
  assumes "WriteRecallLog st now ns runID step ids = (Inr (), st')" "list_all (list_all ascii) ids"
  shows "ReadRecallLog st' ns runID step =
    Inr (concat (map (\<lambda>i. map read_entry
      (filter (\<lambda>m. row_id m = i \<and> me_Namespace (row_entry m) = ns) (mdb_memories st))) ids), ids)"
proof -
  have "\<exists>r. find (log_key ns runID step) (mdb_recall_log st') = Some r \<and> rl_MemoryIDs r = marshal_strings ids"
  proof (cases "list_ex (log_key ns runID step) (mdb_recall_log st)")
    case True
    with assms(1) find_map_log [OF True] show ?thesis
      by (auto simp: WriteRecallLog_def Let_def split: if_splits)
  next
    case False
    then show ?thesis using assms(1) find_append_new [OF False]
      by (auto simp: WriteRecallLog_def Let_def log_key_def split: if_splits)
  qed
  moreover have "mdb_open st'" "mdb_memories st' = mdb_memories st"
    using assms(1) by (auto simp: WriteRecallLog_def Let_def split: if_splits)
  ultimately show ?thesis
    using unmarshal_marshal_strings [OF assms(2)] by (auto simp: ReadRecallLog_def)
qed

text \<open>
  The stored timestamps lose trailing zeros, so their order as text is not the order of the instants
  within a second: an older memory can sort as the newer one, and retention then evicts the newer.
\<close>

lemma timestamp_text_order:
  "str_le (RFC3339Nano 1700000000120000000) (RFC3339Nano 1700000000100000000) \<and>
   \<not> str_le (RFC3339Nano 1700000000100000000) (RFC3339Nano 1700000000120000000)"
  by code_simp

lemma retain_evicts_newer:
  defines "e \<equiv> \<lparr>me_ID = ''a'', me_Namespace = ''n'', me_ScopeKey = ''s'', me_Agent = ''g'',
     me_Workflow = ''w'', me_Step = ''t'', me_Content = ''x'', me_CreatedAt = None\<rparr>"
  defines "st1 \<equiv> snd (Learn (NewSQLiteStore False) [] 1700000000100000000 e)"
  defines "st2 \<equiv> snd (Learn st1 [] 1700000000120000000 (e\<lparr>me_ID := ''b''\<rparr>))"
  shows "map row_id (mdb_memories (snd (Retain st2 ''s'' 1))) = [''a'']"
  unfolding e_def st1_def st2_def by code_simp

section \<open>The properties at work\<close>

definition demo_entry :: "string \<Rightarrow> string \<Rightarrow> string \<Rightarrow> Entry" where
  "demo_entry i sk c = \<lparr>me_ID = i, me_Namespace = ''n'', me_ScopeKey = sk, me_Agent = ''g'',
     me_Workflow = ''w'', me_Step = ''t'', me_Content = c, me_CreatedAt = None\<rparr>"

definition demo_fts :: fts where
  "demo_fts = \<lparr>fts_match = (\<lambda>_ _ _. False), fts_rank = (\<lambda>_ _ _. 0)\<rparr>"

definition demo_store :: mem_store where
  "demo_store =
     (let s1 = snd (Learn (NewSQLiteStore False) [] 1700000000000000000 (demo_entry ''a'' ''s'' ''alpha beta''));
          s2 = snd (Learn s1 [] 1700000001000000000 (demo_entry ''b'' ''t'' ''alpha gamma''));
          s3 = snd (Learn s2 [] 1700000002000000000 (demo_entry ''c'' ''s'' ''delta alpha''))
      in s3)"

lemma demo_recall:
  "case Recall demo_fts demo_store ''n'' ''s'' ''find alpha'' 4 of Inr es \<Rightarrow> map me_ID es = [''c''] | _ \<Rightarrow> False"
  by code_simp

lemma recall_isolated_witness:
  "\<exists>e. me_ID e = ''c'' \<and> me_Namespace e = ''n'' \<and> me_ScopeKey e = ''s'' \<and> e \<in> stored_entries demo_store"
proof -
  obtain es where es: "Recall demo_fts demo_store ''n'' ''s'' ''find alpha'' 4 = Inr es" "map me_ID es = [''c'']"
    using demo_recall by (auto split: sum.splits)
  then obtain e where "es = [e]" "me_ID e = ''c''" by auto
  with recall_isolated [OF es(1), of e] show ?thesis by auto
qed

lemma recall_budget_witness:
  "\<exists>es. Recall demo_fts demo_store ''n'' ''s'' ''find alpha'' 4 = Inr es \<and> length es = 1 \<and>
     (content_size es \<le> 4 * 4 \<or> length es \<le> 1)"
proof -
  obtain es where es: "Recall demo_fts demo_store ''n'' ''s'' ''find alpha'' 4 = Inr es" "map me_ID es = [''c'']"
    using demo_recall by (auto split: sum.splits)
  from arg_cong [OF es(2), of length] have "length es = 1" by simp
  moreover have "content_size es \<le> 4 * 4 \<or> length es \<le> 1" using recall_budget [OF es(1)] by simp
  ultimately show ?thesis using es(1) by blast
qed

lemma demo_retain: "case Retain demo_store ''s'' 1 of (Inr k, st) \<Rightarrow> k = 1 \<and> map row_id (mdb_memories st) = [''b'', ''c''] | _ \<Rightarrow> False"
  by code_simp

lemma demo_ok: "store_ok demo_store"
  by code_simp

lemma retain_keeps_newest_witness:
  "\<exists>st. Retain demo_store ''s'' 1 = (Inr 1, st) \<and>
     length (pool_rows st ''s'') = min 1 (length (pool_rows demo_store ''s''))"
proof -
  obtain st where st: "Retain demo_store ''s'' 1 = (Inr 1, st)"
    using demo_retain by (auto split: prod.splits sum.splits)
  from retain_keeps_newest [OF demo_ok _ st] st show ?thesis by auto
qed

lemma recall_log_roundtrip_witness:
  "ReadRecallLog (snd (WriteRecallLog demo_store 0 ''n'' ''r'' ''t'' [''a'', ''zz''])) ''n'' ''r'' ''t'' =
     Inr (concat (map (\<lambda>i. map read_entry
       (filter (\<lambda>m. row_id m = i \<and> me_Namespace (row_entry m) = ''n'') (mdb_memories demo_store)))
       [''a'', ''zz'']), [''a'', ''zz''])"
proof (rule recall_log_roundtrip)
  show "WriteRecallLog demo_store 0 ''n'' ''r'' ''t'' [''a'', ''zz''] =
      (Inr (), snd (WriteRecallLog demo_store 0 ''n'' ''r'' ''t'' [''a'', ''zz'']))"
    by (simp add: WriteRecallLog_def demo_store_def Learn_def NewSQLiteStore_def Let_def row_id_def demo_entry_def)
qed code_simp

end
