(* ===== verification/Transition_System.thy ===== *)
theory Transition_System imports Main begin

text \<open>
  Systems that move in steps: what each step keeps holds in every state that is reached, and a system whose steps are
  among those of a wider one inherits it.  The interpretations are the run of a workflow, the run with the decisions of
  its users, and the archive.
\<close>

locale kept_invariant =
  fixes step :: "'s \<Rightarrow> 's \<Rightarrow> bool" and inv :: "'s \<Rightarrow> bool"
  assumes kept: "step a b \<Longrightarrow> inv a \<Longrightarrow> inv b"
begin

lemma reached: "step\<^sup>*\<^sup>* a b \<Longrightarrow> inv a \<Longrightarrow> inv b"
  by (induction rule: rtranclp_induct) (auto intro: kept)

end

locale wider_system = kept_invariant step inv
  for step :: "'s \<Rightarrow> 's \<Rightarrow> bool" and inv :: "'s \<Rightarrow> bool" +
  fixes part :: "'s \<Rightarrow> 's \<Rightarrow> bool"
  assumes among: "part a b \<Longrightarrow> step a b"
begin

lemma part_reaches: "part\<^sup>*\<^sup>* a b \<Longrightarrow> step\<^sup>*\<^sup>* a b"
  by (rule rtranclp_mono [THEN predicate2D]) (auto intro: among)

end

sublocale wider_system \<subseteq> within_part: kept_invariant part inv
  by unfold_locales (blast intro: kept among)

end
