(* ===== verification/History_Store.thy ===== *)
theory History_Store imports Sql Types Transition_System begin

text \<open>
  \<^verbatim>\<open>pkg/history/store.go\<close>: the SQLite archive of workflow runs, step executions and tool calls.  The
  state holds the rows of the three tables; foreign keys are enforced (\<^verbatim>\<open>foreign_keys(1)\<close>), with
  cascading deletes.  Timestamps are stored as text (\<^const>\<open>RFC3339Nano\<close>), NULL for a nil pointer.
\<close>

section \<open>Data\<close>

record WorkflowRun =
  hr_ID :: string
  hr_Name :: string
  hr_Namespace :: string
  hr_Phase :: string
  hr_Parameters :: string
  hr_TotalSteps :: int
  hr_CompletedSteps :: int
  hr_FailedSteps :: int
  hr_StartTime :: "time option"
  hr_CompletionTime :: "time option"
  hr_Message :: string
  hr_CreatedAt :: "time option" \<comment> \<open>\<open>None\<close> is the zero time\<close>

record StepExecution =
  he_ID :: string
  he_WorkflowRunID :: string
  he_StepName :: string
  he_AgentName :: string
  he_Phase :: string
  he_Input :: string
  he_Output :: string
  he_Error :: string
  he_RetryCount :: int
  he_JobName :: string
  he_StartTime :: "time option"
  he_CompletionTime :: "time option"
  he_TokensIn :: int
  he_TokensOut :: int
  he_CostUSD :: f64
  he_CreatedAt :: "time option"

record ToolCall =
  tc_ID :: int
  tc_StepExecutionID :: string
  tc_ToolName :: string
  tc_ToolType :: string
  tc_ToolServer :: string
  tc_InputPreview :: string
  tc_ResultBytes :: int
  tc_ElapsedMs :: int
  tc_AutonomyLevel :: string
  tc_Timestamp :: "time option"

text \<open>Rows: the time columns as text beside the record, whose time fields are left out (\<open>None\<close>).\<close>

record run_row =
  rr_run :: WorkflowRun
  rr_start :: "string option"
  rr_completion :: "string option"
  rr_created :: string

record step_row =
  sr_step :: StepExecution
  sr_start :: "string option"
  sr_completion :: "string option"
  sr_created :: string

record tool_row =
  tl_call :: ToolCall
  tl_timestamp :: string

record history =
  hs_runs :: "run_row list"
  hs_steps :: "step_row list"
  hs_tools :: "tool_row list"
  hs_next :: int \<comment> \<open>the next \<open>AUTOINCREMENT\<close> value\<close>
  hs_open :: bool

record list_options =
  lo_Namespace :: string
  lo_Name :: string
  lo_Limit :: int
  lo_Offset :: int

definition NewHistory :: history where
  "NewHistory = \<lparr>hs_runs = [], hs_steps = [], hs_tools = [], hs_next = 1, hs_open = True\<rparr>"

definition CloseHistory :: "history \<Rightarrow> history" where
  "CloseHistory h = h\<lparr>hs_open := False\<rparr>"

definition run_id :: "run_row \<Rightarrow> string" where "run_id r = hr_ID (rr_run r)"
definition step_id :: "step_row \<Rightarrow> string" where "step_id r = he_ID (sr_step r)"
definition step_run :: "step_row \<Rightarrow> string" where "step_run r = he_WorkflowRunID (sr_step r)"
definition tool_step :: "tool_row \<Rightarrow> string" where "tool_step r = tc_StepExecutionID (tl_call r)"

definition encodeTime :: "time option \<Rightarrow> string option" where
  "encodeTime t = map_option RFC3339Nano t"

section \<open>Workflow runs\<close>

definition run_to_row :: "time \<Rightarrow> WorkflowRun \<Rightarrow> run_row" where
  "run_to_row now run =
     \<lparr>rr_run = run\<lparr>hr_StartTime := None, hr_CompletionTime := None, hr_CreatedAt := None\<rparr>,
      rr_start = encodeTime (hr_StartTime run), rr_completion = encodeTime (hr_CompletionTime run),
      rr_created = RFC3339Nano (case hr_CreatedAt run of Some t \<Rightarrow> t | None \<Rightarrow> now)\<rparr>"

text \<open>The columns an update writes: not the identifier, the names and the time of creation.\<close>

definition update_run_row :: "run_row \<Rightarrow> run_row \<Rightarrow> run_row" where
  "update_run_row new old =
     \<lparr>rr_run = (rr_run new)\<lparr>hr_ID := hr_ID (rr_run old), hr_Name := hr_Name (rr_run old),
        hr_Namespace := hr_Namespace (rr_run old)\<rparr>,
      rr_start = rr_start new, rr_completion = rr_completion new, rr_created = rr_created old\<rparr>"

definition SaveWorkflowRun :: "history \<Rightarrow> time \<Rightarrow> WorkflowRun \<Rightarrow> (sql_error + unit) \<times> history" where
  "SaveWorkflowRun h now run =
     (let new = run_to_row now run in
      if \<not> hs_open h then (Inl Closed, h)
      else if hr_ID run \<in> set (map run_id (hs_runs h))
      then (Inr (), h\<lparr>hs_runs := map (\<lambda>r. if run_id r = hr_ID run then update_run_row new r else r) (hs_runs h)\<rparr>)
      else (Inr (), h\<lparr>hs_runs := hs_runs h @ [new]\<rparr>))"

definition UpdateWorkflowRun :: "history \<Rightarrow> WorkflowRun \<Rightarrow> (sql_error + unit) \<times> history" where
  "UpdateWorkflowRun h run =
     (let new = run_to_row 0 run in
      if \<not> hs_open h then (Inl Closed, h)
      else if hr_ID run \<notin> set (map run_id (hs_runs h)) then (Inl NoRows, h)
      else (Inr (), h\<lparr>hs_runs := map (\<lambda>r. if run_id r = hr_ID run then update_run_row new r else r) (hs_runs h)\<rparr>))"

definition scanWorkflowRun :: "run_row \<Rightarrow> WorkflowRun" where
  "scanWorkflowRun r =
     (rr_run r)\<lparr>hr_StartTime := decodeTime (rr_start r), hr_CompletionTime := decodeTime (rr_completion r),
       hr_CreatedAt := decodeTime (Some (rr_created r))\<rparr>"

definition GetWorkflowRun :: "history \<Rightarrow> string \<Rightarrow> sql_error + WorkflowRun" where
  "GetWorkflowRun h i =
     (if \<not> hs_open h then Inl Closed
      else (case find (\<lambda>r. run_id r = i) (hs_runs h) of
              None \<Rightarrow> Inl NoRows | Some r \<Rightarrow> Inr (scanWorkflowRun r)))"

definition run_order :: "run_row \<Rightarrow> run_row \<Rightarrow> bool" where
  "run_order a b \<longleftrightarrow>
     (if rr_created a = rr_created b then str_le (run_id a) (run_id b)
      else str_le (rr_created b) (rr_created a))"

definition ListWorkflowRuns :: "history \<Rightarrow> list_options \<Rightarrow> sql_error + WorkflowRun list" where
  "ListWorkflowRuns h opts =
     (let rows = order_by run_order (filter (\<lambda>r.
            (lo_Namespace opts = [] \<or> hr_Namespace (rr_run r) = lo_Namespace opts) \<and>
            (lo_Name opts = [] \<or> hr_Name (rr_run r) = lo_Name opts)) (hs_runs h));
          limit = (if lo_Limit opts \<le> 0 then -1 else lo_Limit opts)
      in if \<not> hs_open h then Inl Closed
         else Inr (map scanWorkflowRun (sql_limit limit (drop (nat (lo_Offset opts)) rows))))"

section \<open>Step executions\<close>

definition step_to_row :: "time \<Rightarrow> StepExecution \<Rightarrow> step_row" where
  "step_to_row now step =
     \<lparr>sr_step = step\<lparr>he_StartTime := None, he_CompletionTime := None, he_CreatedAt := None\<rparr>,
      sr_start = encodeTime (he_StartTime step), sr_completion = encodeTime (he_CompletionTime step),
      sr_created = RFC3339Nano (case he_CreatedAt step of Some t \<Rightarrow> t | None \<Rightarrow> now)\<rparr>"

definition update_step_row :: "step_row \<Rightarrow> step_row \<Rightarrow> step_row" where
  "update_step_row new old =
     (let prev = sr_step old in
      \<lparr>sr_step = (sr_step new)\<lparr>he_ID := he_ID prev, he_WorkflowRunID := he_WorkflowRunID prev,
         he_StepName := he_StepName prev, he_AgentName := he_AgentName prev, he_RetryCount := he_RetryCount prev\<rparr>,
       sr_start = sr_start new, sr_completion = sr_completion new, sr_created = sr_created old\<rparr>)"

definition SaveStepExecution :: "history \<Rightarrow> time \<Rightarrow> StepExecution \<Rightarrow> (sql_error + unit) \<times> history" where
  "SaveStepExecution h now step =
     (let new = step_to_row now step in
      if \<not> hs_open h then (Inl Closed, h)
      else if he_ID step \<in> set (map step_id (hs_steps h))
      then (Inr (), h\<lparr>hs_steps := map (\<lambda>r. if step_id r = he_ID step then update_step_row new r else r) (hs_steps h)\<rparr>)
      else if he_WorkflowRunID step \<notin> set (map run_id (hs_runs h)) then (Inl Constraint, h)
      else (Inr (), h\<lparr>hs_steps := hs_steps h @ [new]\<rparr>))"

definition UpdateStepExecution :: "history \<Rightarrow> StepExecution \<Rightarrow> (sql_error + unit) \<times> history" where
  "UpdateStepExecution h step =
     (let new = step_to_row 0 step in
      if \<not> hs_open h then (Inl Closed, h)
      else if he_ID step \<notin> set (map step_id (hs_steps h)) then (Inl NoRows, h)
      else (Inr (), h\<lparr>hs_steps := map (\<lambda>r. if step_id r = he_ID step then update_step_row new r else r) (hs_steps h)\<rparr>))"

definition scanStepExecution :: "step_row \<Rightarrow> StepExecution" where
  "scanStepExecution r =
     (sr_step r)\<lparr>he_StartTime := decodeTime (sr_start r), he_CompletionTime := decodeTime (sr_completion r),
       he_CreatedAt := decodeTime (Some (sr_created r))\<rparr>"

definition GetStepExecution :: "history \<Rightarrow> string \<Rightarrow> sql_error + StepExecution" where
  "GetStepExecution h i =
     (if \<not> hs_open h then Inl Closed
      else (case find (\<lambda>r. step_id r = i) (hs_steps h) of
              None \<Rightarrow> Inl NoRows | Some r \<Rightarrow> Inr (scanStepExecution r)))"

definition step_order :: "step_row \<Rightarrow> step_row \<Rightarrow> bool" where
  "step_order a b \<longleftrightarrow>
     (if sr_created a = sr_created b then str_le (step_id a) (step_id b)
      else str_le (sr_created a) (sr_created b))"

definition ListStepExecutions :: "history \<Rightarrow> string \<Rightarrow> sql_error + StepExecution list" where
  "ListStepExecutions h runID =
     (if \<not> hs_open h then Inl Closed
      else Inr (map scanStepExecution
             (order_by step_order (filter (\<lambda>r. step_run r = runID) (hs_steps h)))))"

section \<open>Tool calls\<close>

fun number_calls :: "time \<Rightarrow> string \<Rightarrow> int \<Rightarrow> ToolCall list \<Rightarrow> tool_row list" where
  "number_calls now stepID n [] = []"
| "number_calls now stepID n (c # cs) =
     \<lparr>tl_call = c\<lparr>tc_ID := n, tc_StepExecutionID := stepID, tc_Timestamp := None\<rparr>,
      tl_timestamp = RFC3339Nano (case tc_Timestamp c of Some t \<Rightarrow> t | None \<Rightarrow> now)\<rparr>
       # number_calls now stepID (n + 1) cs"

text \<open>One transaction: when the step is missing, the first insert fails and nothing is written.\<close>

definition SaveToolCalls :: "history \<Rightarrow> time \<Rightarrow> string \<Rightarrow> ToolCall list \<Rightarrow> (sql_error + unit) \<times> history" where
  "SaveToolCalls h now stepID calls =
     (if calls = [] then (Inr (), h)
      else if \<not> hs_open h then (Inl Closed, h)
      else if stepID \<notin> set (map step_id (hs_steps h)) then (Inl Constraint, h)
      else (Inr (), h\<lparr>hs_tools := hs_tools h @ number_calls now stepID (hs_next h) calls,
                      hs_next := hs_next h + int (length calls)\<rparr>))"

definition ListToolCalls :: "history \<Rightarrow> string \<Rightarrow> sql_error + ToolCall list" where
  "ListToolCalls h stepID =
     (if \<not> hs_open h then Inl Closed
      else Inr (map (\<lambda>r. (tl_call r)\<lparr>tc_Timestamp := decodeTime (Some (tl_timestamp r))\<rparr>)
             (order_by (\<lambda>a b. tc_ID (tl_call a) \<le> tc_ID (tl_call b))
               (filter (\<lambda>r. tool_step r = stepID) (hs_tools h)))))"

section \<open>Cleanup\<close>

definition run_expired :: "time \<Rightarrow> run_row \<Rightarrow> bool" where
  "run_expired cutoff r \<longleftrightarrow>
     (case (sql_datetime (rr_created r), sql_datetime (RFC3339Nano cutoff)) of
        (Some a, Some b) \<Rightarrow> \<not> str_le b a | _ \<Rightarrow> False)"

definition DeleteRunsOlderThan :: "history \<Rightarrow> time \<Rightarrow> int \<Rightarrow> (sql_error + int) \<times> history" where
  "DeleteRunsOlderThan h now days =
     (let cutoff = minus_days now days;
          runs = filter (\<lambda>r. \<not> run_expired cutoff r) (hs_runs h);
          steps = filter (\<lambda>s. step_run s \<in> set (map run_id runs)) (hs_steps h);
          tools = filter (\<lambda>t. tool_step t \<in> set (map step_id steps)) (hs_tools h)
      in if \<not> hs_open h then (Inl Closed, h)
         else (Inr (int (length (hs_runs h) - length runs)),
               h\<lparr>hs_runs := runs, hs_steps := steps, hs_tools := tools\<rparr>))"

section \<open>Referential integrity\<close>

definition run_ids :: "history \<Rightarrow> string list" where "run_ids h = map run_id (hs_runs h)"
definition step_ids :: "history \<Rightarrow> string list" where "step_ids h = map step_id (hs_steps h)"
definition step_runs :: "history \<Rightarrow> string list" where "step_runs h = map step_run (hs_steps h)"
definition tool_steps :: "history \<Rightarrow> string list" where "tool_steps h = map tool_step (hs_tools h)"
definition tool_ids :: "history \<Rightarrow> int list" where "tool_ids h = map (\<lambda>t. tc_ID (tl_call t)) (hs_tools h)"

definition history_ok :: "history \<Rightarrow> bool" where
  "history_ok h \<longleftrightarrow>
     distinct (run_ids h) \<and> distinct (step_ids h) \<and> distinct (tool_ids h) \<and>
     set (step_runs h) \<subseteq> set (run_ids h) \<and> set (tool_steps h) \<subseteq> set (step_ids h) \<and>
     (\<forall>i \<in> set (tool_ids h). i < hs_next h)"

lemmas id_defs = run_ids_def step_ids_def step_runs_def tool_steps_def tool_ids_def

text \<open>One call of a method that writes.\<close>

inductive history_step :: "history \<Rightarrow> history \<Rightarrow> bool" where
  save_run: "history_step h (snd (SaveWorkflowRun h now run))"
| update_run: "history_step h (snd (UpdateWorkflowRun h run))"
| save_step: "history_step h (snd (SaveStepExecution h now step))"
| update_step: "history_step h (snd (UpdateStepExecution h step))"
| save_calls: "history_step h (snd (SaveToolCalls h now stepID calls))"
| cleanup: "history_step h (snd (DeleteRunsOlderThan h now days))"
| close: "history_step h (CloseHistory h)"

abbreviation history_reachable :: "history \<Rightarrow> bool" where
  "history_reachable h \<equiv> history_step\<^sup>*\<^sup>* NewHistory h"

inductive_cases history_stepE: "history_step h h'"

lemma run_id_update [simp]: "run_id (update_run_row new r) = run_id r"
  by (simp add: run_id_def update_run_row_def)

lemma run_id_row [simp]: "run_id (run_to_row now run) = hr_ID run"
  by (simp add: run_id_def run_to_row_def)

lemma step_id_update [simp]: "step_id (update_step_row new r) = step_id r"
  "step_run (update_step_row new r) = step_run r"
  by (simp_all add: step_id_def step_run_def update_step_row_def Let_def)

lemma step_id_row [simp]: "step_id (step_to_row now s) = he_ID s" "step_run (step_to_row now s) = he_WorkflowRunID s"
  by (simp_all add: step_id_def step_run_def step_to_row_def)

lemma map_id_cond: "(\<And>r. f (g r) = f r) \<Longrightarrow> map f (map (\<lambda>r. if p r then g r else r) xs) = map f xs"
  by (induction xs) auto

lemma map_id_cond_if: "(\<And>r. f (g r) = f r) \<Longrightarrow> map (\<lambda>r. f (if p r then g r else r)) xs = map f xs"
  by (induction xs) auto

lemma save_run_ids:
  "run_ids (snd (SaveWorkflowRun h now run)) =
     (if hs_open h \<and> hr_ID run \<notin> set (run_ids h) then run_ids h @ [hr_ID run] else run_ids h)"
  by (simp add: SaveWorkflowRun_def Let_def run_ids_def map_id_cond del: map_map)

lemma save_run_rest [simp]:
  "step_ids (snd (SaveWorkflowRun h now run)) = step_ids h"
  "step_runs (snd (SaveWorkflowRun h now run)) = step_runs h"
  "tool_steps (snd (SaveWorkflowRun h now run)) = tool_steps h"
  "tool_ids (snd (SaveWorkflowRun h now run)) = tool_ids h"
  "hs_next (snd (SaveWorkflowRun h now run)) = hs_next h"
  by (simp_all add: SaveWorkflowRun_def Let_def id_defs)

lemma SaveWorkflowRun_ok: "history_ok h \<Longrightarrow> history_ok (snd (SaveWorkflowRun h now run))"
  by (auto simp: history_ok_def save_run_ids)

lemma update_run_ids [simp]:
  "run_ids (snd (UpdateWorkflowRun h run)) = run_ids h"
  "step_ids (snd (UpdateWorkflowRun h run)) = step_ids h"
  "step_runs (snd (UpdateWorkflowRun h run)) = step_runs h"
  "tool_steps (snd (UpdateWorkflowRun h run)) = tool_steps h"
  "tool_ids (snd (UpdateWorkflowRun h run)) = tool_ids h"
  "hs_next (snd (UpdateWorkflowRun h run)) = hs_next h"
  by (simp_all add: UpdateWorkflowRun_def Let_def id_defs map_id_cond del: map_map)

lemma UpdateWorkflowRun_ok: "history_ok h \<Longrightarrow> history_ok (snd (UpdateWorkflowRun h run))"
  by (simp add: history_ok_def)

definition inserts_step :: "history \<Rightarrow> StepExecution \<Rightarrow> bool" where
  "inserts_step h s \<longleftrightarrow> hs_open h \<and> he_ID s \<notin> set (step_ids h) \<and> he_WorkflowRunID s \<in> set (run_ids h)"

lemma save_step_ids:
  "step_ids (snd (SaveStepExecution h now s)) = (if inserts_step h s then step_ids h @ [he_ID s] else step_ids h)"
  "step_runs (snd (SaveStepExecution h now s)) =
     (if inserts_step h s then step_runs h @ [he_WorkflowRunID s] else step_runs h)"
  "run_ids (snd (SaveStepExecution h now s)) = run_ids h"
  "tool_steps (snd (SaveStepExecution h now s)) = tool_steps h"
  "tool_ids (snd (SaveStepExecution h now s)) = tool_ids h"
  "hs_next (snd (SaveStepExecution h now s)) = hs_next h"
  by (simp_all add: SaveStepExecution_def inserts_step_def Let_def id_defs map_id_cond del: map_map)

lemma SaveStepExecution_ok: "history_ok h \<Longrightarrow> history_ok (snd (SaveStepExecution h now s))"
  by (auto simp: history_ok_def save_step_ids inserts_step_def)

lemma update_step_ids [simp]:
  "run_ids (snd (UpdateStepExecution h s)) = run_ids h"
  "step_ids (snd (UpdateStepExecution h s)) = step_ids h"
  "step_runs (snd (UpdateStepExecution h s)) = step_runs h"
  "tool_steps (snd (UpdateStepExecution h s)) = tool_steps h"
  "tool_ids (snd (UpdateStepExecution h s)) = tool_ids h"
  "hs_next (snd (UpdateStepExecution h s)) = hs_next h"
  by (simp_all add: UpdateStepExecution_def Let_def id_defs map_id_cond del: map_map)

lemma UpdateStepExecution_ok: "history_ok h \<Longrightarrow> history_ok (snd (UpdateStepExecution h s))"
  by (simp add: history_ok_def)

lemma number_calls_ids: "map (\<lambda>t. tc_ID (tl_call t)) (number_calls now i n cs) = map (\<lambda>k. n + int k) [0..<length cs]"
proof (induction cs arbitrary: n)
  case (Cons c cs)
  have "map (\<lambda>k. n + 1 + int k) [0..<length cs] = map (\<lambda>k. n + int k) (map Suc [0..<length cs])"
    by (simp add: algebra_simps)
  with Cons show ?case by (simp add: map_Suc_upt upt_conv_Cons del: upt_Suc)
qed simp

lemma number_calls_steps: "set (map tool_step (number_calls now i n cs)) \<subseteq> {i}"
  by (induction cs arbitrary: n) (auto simp: tool_step_def)

lemma SaveToolCalls_ok:
  assumes "history_ok h"
  shows "history_ok (snd (SaveToolCalls h now i cs))"
proof (cases "cs \<noteq> [] \<and> hs_open h \<and> i \<in> set (step_ids h)")
  case False
  then have "snd (SaveToolCalls h now i cs) = h" by (auto simp: SaveToolCalls_def step_ids_def)
  with assms show ?thesis by simp
next
  case True
  let ?h = "snd (SaveToolCalls h now i cs)" and ?new = "map (\<lambda>k. hs_next h + int k) [0..<length cs]"
  from True have "?h = h\<lparr>hs_tools := hs_tools h @ number_calls now i (hs_next h) cs,
      hs_next := hs_next h + int (length cs)\<rparr>"
    by (simp add: SaveToolCalls_def step_ids_def)
  then have e: "run_ids ?h = run_ids h" "step_ids ?h = step_ids h" "step_runs ?h = step_runs h"
    "tool_ids ?h = tool_ids h @ ?new" "hs_next ?h = hs_next h + int (length cs)"
    "tool_steps ?h = tool_steps h @ map tool_step (number_calls now i (hs_next h) cs)"
    by (simp_all add: id_defs number_calls_ids)
  have "distinct ?new" by (simp add: distinct_map inj_on_def)
  moreover have "set ?new \<inter> set (tool_ids h) = {}" using assms by (auto simp: history_ok_def)
  moreover have "\<forall>k \<in> set ?new. k < hs_next h + int (length cs)" by auto
  moreover have "set (tool_steps ?h) \<subseteq> set (step_ids h)"
    using assms number_calls_steps [of now i "hs_next h" cs] True e by (auto simp: history_ok_def)
  ultimately show ?thesis using assms e by (auto simp: history_ok_def)
qed

lemma set_map_filter_subset: "set (map f (filter (\<lambda>x. g x \<in> A) xs)) \<subseteq> set (map f xs)"
  by auto

lemma DeleteRunsOlderThan_ok: "history_ok h \<Longrightarrow> history_ok (snd (DeleteRunsOlderThan h now days))"
  by (auto simp: history_ok_def DeleteRunsOlderThan_def Let_def id_defs distinct_map_filter)

lemma history_step_ok: "history_step h h' \<Longrightarrow> history_ok h \<Longrightarrow> history_ok h'"
  by (elim history_stepE)
    (simp_all add: SaveWorkflowRun_ok UpdateWorkflowRun_ok SaveStepExecution_ok UpdateStepExecution_ok
      SaveToolCalls_ok DeleteRunsOlderThan_ok, simp add: history_ok_def CloseHistory_def id_defs)

interpretation archives: kept_invariant history_step history_ok
  by unfold_locales (rule history_step_ok)

section \<open>Properties\<close>

text \<open>C37: In every archive that the methods can produce, run and step identifiers are unique, every step
  execution belongs to an archived run, every tool call to an archived step, and tool call numbers are
  unique and below the next one: upserts, transactions and cascading deletes leave nothing dangling.\<close>

theorem history_integrity:
  assumes "history_reachable h"
  shows "history_ok h"
  using assms by (rule archives.reached) (simp add: history_ok_def NewHistory_def id_defs)

section \<open>Reading back\<close>

definition times_ok :: "time \<Rightarrow> WorkflowRun \<Rightarrow> bool" where
  "times_ok now run \<longleftrightarrow>
     in_years now \<and> pred_option in_years (hr_StartTime run) \<and> pred_option in_years (hr_CompletionTime run) \<and>
     pred_option in_years (hr_CreatedAt run)"

lemma decode_encode: "pred_option in_years t \<Longrightarrow> decodeTime (encodeTime t) = t"
  by (cases t) (simp_all add: encodeTime_def decode_RFC3339Nano, simp add: decodeTime_def)

lemma scan_row:
  assumes "times_ok now run"
  shows "scanWorkflowRun (run_to_row now run) =
    run\<lparr>hr_CreatedAt := Some (case hr_CreatedAt run of Some t \<Rightarrow> t | None \<Rightarrow> now)\<rparr>"
  using assms
  by (auto simp: scanWorkflowRun_def run_to_row_def times_ok_def decode_encode decode_RFC3339Nano
      split: option.splits)

lemma scan_update:
  assumes "times_ok now run" "run_id old = hr_ID run"
  shows "scanWorkflowRun (update_run_row (run_to_row now run) old) =
    run\<lparr>hr_Name := hr_Name (scanWorkflowRun old), hr_Namespace := hr_Namespace (scanWorkflowRun old),
        hr_CreatedAt := hr_CreatedAt (scanWorkflowRun old)\<rparr>"
  using assms
  by (auto simp: scanWorkflowRun_def run_to_row_def update_run_row_def times_ok_def decode_encode run_id_def)

lemma find_map_same:
  assumes "\<And>r. key (g r) = key r"
  shows "find (\<lambda>r. key r = i) (map (\<lambda>r. if key r = i then g r else r) xs) = map_option g (find (\<lambda>r. key r = i) xs)"
  using assms by (induction xs) auto

lemma find_map_other:
  assumes "\<And>r. key (g r) = key r" "j \<noteq> i"
  shows "find (\<lambda>r. key r = j) (map (\<lambda>r. if key r = i then g r else r) xs) = find (\<lambda>r. key r = j) xs"
  using assms by (induction xs) auto

lemma find_append_last:
  "find p (xs @ [x]) = (case find p xs of Some y \<Rightarrow> Some y | None \<Rightarrow> if p x then Some x else None)"
  by (induction xs) auto

lemma find_key_None: "i \<notin> set (map key xs) \<Longrightarrow> find (\<lambda>r. key r = i) xs = None"
  by (induction xs) auto

lemma find_key_ex: "i \<in> set (map key xs) \<Longrightarrow> \<exists>r. find (\<lambda>r. key r = i) xs = Some r \<and> key r = i"
  by (induction xs) auto

definition merged :: "time \<Rightarrow> WorkflowRun \<Rightarrow> sql_error + WorkflowRun \<Rightarrow> WorkflowRun" where
  "merged now run before =
     (case before of
        Inr old \<Rightarrow> run\<lparr>hr_Name := hr_Name old, hr_Namespace := hr_Namespace old, hr_CreatedAt := hr_CreatedAt old\<rparr>
      | Inl _ \<Rightarrow> run\<lparr>hr_CreatedAt := Some (case hr_CreatedAt run of Some t \<Rightarrow> t | None \<Rightarrow> now)\<rparr>)"

lemma save_get_run:
  assumes "hs_open h" "times_ok now run"
  shows "GetWorkflowRun (snd (SaveWorkflowRun h now run)) (hr_ID run) =
    Inr (merged now run (GetWorkflowRun h (hr_ID run)))"
proof (cases "hr_ID run \<in> set (map run_id (hs_runs h))")
  case True
  then obtain r where r: "find (\<lambda>r. run_id r = hr_ID run) (hs_runs h) = Some r" "run_id r = hr_ID run"
    using find_key_ex [of "hr_ID run" run_id] by blast
  with True assms show ?thesis
    by (simp add: SaveWorkflowRun_def Let_def GetWorkflowRun_def find_map_same scan_update merged_def)
next
  case False
  then show ?thesis
    using assms find_key_None [of "hr_ID run" run_id]
    by (simp add: SaveWorkflowRun_def Let_def GetWorkflowRun_def find_append_last scan_row merged_def)
qed

lemma save_get_other:
  assumes "j \<noteq> hr_ID run"
  shows "GetWorkflowRun (snd (SaveWorkflowRun h now run)) j = GetWorkflowRun h j"
  using assms
  by (auto simp: SaveWorkflowRun_def Let_def GetWorkflowRun_def find_map_other find_append_last split: option.split)

text \<open>
  The archive as its client sees it (the methods of the Go interface \<^verbatim>\<open>history.Store\<close> that concern
  runs): a save that succeeds reads back, and disturbs no other run; one that fails changes nothing.
\<close>

locale run_archive =
  fixes save :: "'h \<Rightarrow> time \<Rightarrow> WorkflowRun \<Rightarrow> (sql_error + unit) \<times> 'h"
    and getr :: "'h \<Rightarrow> string \<Rightarrow> sql_error + WorkflowRun"
  assumes save_get: "save h now run = (Inr (), h') \<Longrightarrow> times_ok now run \<Longrightarrow>
      getr h' (hr_ID run) = Inr (merged now run (getr h (hr_ID run)))"
    and save_other: "save h now run = (r, h') \<Longrightarrow> j \<noteq> hr_ID run \<Longrightarrow> getr h' j = getr h j"
    and save_failed: "save h now run = (Inl e, h') \<Longrightarrow> h' = h"
begin

text \<open>Saving the same run twice is saving it once, up to what a reader sees.\<close>

lemma save_idempotent:
  assumes "save h now run = (Inr (), h1)" "save h1 now run = (Inr (), h2)" "times_ok now run"
  shows "getr h2 j = getr h1 j"
proof (cases "j = hr_ID run")
  case True
  with save_get [OF assms(1,3)] save_get [OF assms(2,3)] show ?thesis
    by (simp add: merged_def split: sum.split)
next
  case False
  with save_other [OF assms(2)] show ?thesis by simp
qed

text \<open>After two saves of one run the later one counts, with the creation time of the first.\<close>

lemma last_save_wins:
  assumes "save h now run = (Inr (), h1)" "save h1 now' run' = (Inr (), h2)"
    and "times_ok now run" "times_ok now' run'" "hr_ID run' = hr_ID run"
  shows "\<exists>x y. getr h2 (hr_ID run) = Inr x \<and> getr h1 (hr_ID run) = Inr y \<and>
    hr_Phase x = hr_Phase run' \<and> hr_CompletedSteps x = hr_CompletedSteps run' \<and>
    hr_FailedSteps x = hr_FailedSteps run' \<and> hr_CompletionTime x = hr_CompletionTime run' \<and>
    hr_CreatedAt x = hr_CreatedAt y"
  using save_get [OF assms(1,3)] save_get [OF assms(2,4)] assms(5) by (simp add: merged_def)

end

interpretation sqlite: run_archive SaveWorkflowRun GetWorkflowRun
proof
  fix h now run h'
  assume s: "SaveWorkflowRun h now run = (Inr (), h')" and t: "times_ok now run"
  from s have "hs_open h" by (simp add: SaveWorkflowRun_def Let_def split: if_splits)
  with save_get_run [OF this t] s
  show "GetWorkflowRun h' (hr_ID run) = Inr (merged now run (GetWorkflowRun h (hr_ID run)))" by simp
next
  fix h now run r h' j
  assume "SaveWorkflowRun h now run = (r, h')" "j \<noteq> hr_ID run"
  then show "GetWorkflowRun h' j = GetWorkflowRun h j" using save_get_other [of j run h now] by simp
next
  fix h now run e h'
  assume "SaveWorkflowRun h now run = (Inl e, h')"
  then show "h' = h" by (simp add: SaveWorkflowRun_def Let_def split: if_splits)
qed

text \<open>C38: A run that is saved reads back with all its fields, timestamps to the nanosecond; an upsert
  replaces every column but the names and the creation time, and other runs keep theirs.\<close>

theorem save_run_roundtrip:
  assumes "SaveWorkflowRun h now run = (Inr (), h')" "times_ok now run"
  shows "GetWorkflowRun h' (hr_ID run) = Inr (merged now run (GetWorkflowRun h (hr_ID run))) \<and>
    (\<forall>j. j \<noteq> hr_ID run \<longrightarrow> GetWorkflowRun h' j = GetWorkflowRun h j)"
  using sqlite.save_get [OF assms] sqlite.save_other [OF assms(1)] by blast

definition demo_run :: WorkflowRun where
  "demo_run = \<lparr>hr_ID = ''wf-1'', hr_Name = ''wf'', hr_Namespace = ''ns'', hr_Phase = ''Running'',
     hr_Parameters = [], hr_TotalSteps = 3, hr_CompletedSteps = 1, hr_FailedSteps = 0,
     hr_StartTime = Some 1700000000123456780, hr_CompletionTime = None, hr_Message = ''ok'',
     hr_CreatedAt = None\<rparr>"

lemma save_run_roundtrip_witness:
  "GetWorkflowRun (snd (SaveWorkflowRun NewHistory 1700000001000000000 demo_run)) ''wf-1'' =
     Inr (demo_run\<lparr>hr_CreatedAt := Some 1700000001000000000\<rparr>)"
proof -
  let ?h = "snd (SaveWorkflowRun NewHistory 1700000001000000000 demo_run)"
  have "SaveWorkflowRun NewHistory 1700000001000000000 demo_run = (Inr (), ?h)"
    by (simp add: SaveWorkflowRun_def NewHistory_def Let_def)
  from save_run_roundtrip [OF this] have
    "GetWorkflowRun ?h (hr_ID demo_run) = Inr (merged 1700000001000000000 demo_run (GetWorkflowRun NewHistory (hr_ID demo_run)))"
    by (simp add: times_ok_def in_years_def demo_run_def)
  then show ?thesis by (simp add: merged_def GetWorkflowRun_def NewHistory_def demo_run_def)
qed

lemma history_integrity_witness:
  "history_ok (snd (SaveStepExecution (snd (SaveWorkflowRun NewHistory 0 demo_run)) 0
     \<lparr>he_ID = ''s'', he_WorkflowRunID = ''wf-1'', he_StepName = ''a'', he_AgentName = [], he_Phase = [],
      he_Input = [], he_Output = [], he_Error = [], he_RetryCount = 0, he_JobName = [], he_StartTime = None,
      he_CompletionTime = None, he_TokensIn = 0, he_TokensOut = 0, he_CostUSD = Fin 0, he_CreatedAt = None\<rparr>))"
  by (rule history_integrity)
    (intro rtranclp.rtrancl_into_rtrancl [of history_step, OF _ history_step.save_step]
      rtranclp.rtrancl_into_rtrancl [of history_step, OF _ history_step.save_run] rtranclp.rtrancl_refl)

end
