(* ===== verification/Sha256.thy ===== *)
theory Sha256 imports Prelude begin

text \<open>
  \<^verbatim>\<open>crypto/sha256\<close>, which \<^verbatim>\<open>buildJobName\<close> uses to shorten long names: the digest of a byte string, on
  words of 32 bits.
\<close>

unbundle bit_operations_syntax

type_synonym w32 = "32 word"

text \<open>
  The constants are the first 32 bits behind the point of the cube roots of the first 64 primes, and of the
  square roots of the first eight: \<open>root_bits k m n r\<close> finds the bits of the \<open>k\<close>-th root of \<open>m\<close> from the
  \<open>n\<close>-th down.
\<close>

fun root_bits :: "nat \<Rightarrow> int \<Rightarrow> int list \<Rightarrow> int \<Rightarrow> int" where
  "root_bits k m [] r = r"
| "root_bits k m (b # bs) r = root_bits k m bs (if (r + b) ^ k \<le> m then r + b else r)"

fun powers :: "nat \<Rightarrow> int list" where
  "powers 0 = [1]"
| "powers (Suc n) = (2 ^ Suc n) # powers n"

definition root_fraction :: "nat \<Rightarrow> int \<Rightarrow> w32" where
  "root_fraction k p = word_of_int (root_bits k (p * 2 ^ (32 * k)) (powers 34) 0)"

definition primes_64 :: "int list" where
  "primes_64 =
     [2, 3, 5, 7, 11, 13, 17, 19, 23, 29, 31, 37, 41, 43, 47, 53, 59, 61, 67, 71, 73, 79, 83, 89, 97, 101, 103,
      107, 109, 113, 127, 131, 137, 139, 149, 151, 157, 163, 167, 173, 179, 181, 191, 193, 197, 199, 211, 223,
      227, 229, 233, 239, 241, 251, 257, 263, 269, 271, 277, 281, 283, 293, 307, 311]"

definition sha_k :: "w32 list" where
  "sha_k = map (root_fraction 3) primes_64"

definition sha_h0 :: "w32 list" where
  "sha_h0 = map (root_fraction 2) (take 8 primes_64)"

lemma sha_constants:
  "root_fraction 3 2 = 0x428a2f98" "root_fraction 3 311 = 0xc67178f2" "root_fraction 2 2 = 0x6a09e667"
  by code_simp+

definition rotr :: "nat \<Rightarrow> w32 \<Rightarrow> w32" where
  "rotr n x = (drop_bit n x) OR (push_bit (32 - n) x)"

definition sigma0 :: "w32 \<Rightarrow> w32" where
  "sigma0 x = rotr 7 x XOR rotr 18 x XOR drop_bit 3 x"

definition sigma1 :: "w32 \<Rightarrow> w32" where
  "sigma1 x = rotr 17 x XOR rotr 19 x XOR drop_bit 10 x"

definition Sigma0 :: "w32 \<Rightarrow> w32" where
  "Sigma0 x = rotr 2 x XOR rotr 13 x XOR rotr 22 x"

definition Sigma1 :: "w32 \<Rightarrow> w32" where
  "Sigma1 x = rotr 6 x XOR rotr 11 x XOR rotr 25 x"

text \<open>The message schedule, newest word first.\<close>

fun schedule :: "nat \<Rightarrow> w32 list \<Rightarrow> w32 list" where
  "schedule 0 ws = ws"
| "schedule (Suc n) ws =
     schedule n ((sigma1 (ws ! 1) + ws ! 6 + sigma0 (ws ! 14) + ws ! 15) # ws)"

fun sha_round :: "w32 list \<Rightarrow> w32 \<times> w32 \<Rightarrow> w32 list" where
  "sha_round [a, b, c, d, e, f, g, h] (k, w) =
     (let t1 = h + Sigma1 e + ((e AND f) XOR (NOT e AND g)) + k + w;
          t2 = Sigma0 a + ((a AND b) XOR (a AND c) XOR (b AND c))
      in [t1 + t2, a, b, c, d + t1, e, f, g])"
| "sha_round st _ = st"

definition sha_block :: "w32 list \<Rightarrow> w32 list \<Rightarrow> w32 list" where
  "sha_block st m =
     map2 (+) st (foldl sha_round st (zip sha_k (rev (schedule 48 (rev m)))))"

fun bytes_word :: "string \<Rightarrow> w32" where
  "bytes_word s = foldl (\<lambda>n c. 256 * n + word_of_int (of_char c)) 0 s"

fun chunks :: "nat \<Rightarrow> nat \<Rightarrow> 'a list \<Rightarrow> 'a list list" where
  "chunks 0 n xs = []"
| "chunks (Suc k) n xs = (if xs = [] then [] else take n xs # chunks k n (drop n xs))"

fun be_bytes :: "nat \<Rightarrow> int \<Rightarrow> string" where
  "be_bytes 0 n = []"
| "be_bytes (Suc k) n = be_bytes k (n div 256) @ [char_of (n mod 256)]"

lemma length_be_bytes [simp]: "length (be_bytes k n) = k"
  by (induction k arbitrary: n) auto

definition sha_pad :: "string \<Rightarrow> string" where
  "sha_pad s =
     (let l = int (length s) in
      s @ CHR 0x80 # replicate (nat ((55 - l) mod 64)) CHR 0x00 @ be_bytes 8 (8 * l))"

definition Sum256 :: "string \<Rightarrow> string" where
  "Sum256 s =
     (let p = sha_pad s;
          blocks = map (\<lambda>b. map bytes_word (chunks 16 4 b)) (chunks (length p) 64 p)
      in concat (map (\<lambda>w. be_bytes 4 (uint w)) (foldl sha_block sha_h0 blocks)))"

lemma length_sha_round [simp]: "length st = 8 \<Longrightarrow> length (sha_round st kw) = 8"
  by (cases "(st, kw)" rule: sha_round.cases) (auto simp: Let_def)

lemma length_sha_rounds: "length st = 8 \<Longrightarrow> length (foldl sha_round st kws) = 8"
  by (induction kws arbitrary: st) auto

lemma length_sha_blocks: "length st = 8 \<Longrightarrow> length (foldl sha_block st bs) = 8"
  by (induction bs arbitrary: st) (auto simp: sha_block_def length_sha_rounds)

lemma length_Sum256 [simp]: "length (Sum256 s) = 32"
proof -
  have "length (concat (map (\<lambda>w. be_bytes 4 (uint w)) ws)) = 4 * length ws" for ws :: "w32 list"
    by (induction ws) auto
  moreover have "length sha_h0 = 8" by (simp add: sha_h0_def primes_64_def)
  ultimately show ?thesis by (simp add: Sum256_def Let_def length_sha_blocks)
qed

end
