(* ===== verification/Condition.thy ===== *)
theory Condition imports Json Regexp begin

text \<open>
  \<^verbatim>\<open>controllers/condition.go\<close>: evaluation of a step's condition expression against the outputs of
  earlier steps.  The outputs are a map from step name to the JSON text of the step's output.  An
  error is \<^const>\<open>Inl\<close> with the message; the caller treats it as false.
\<close>

section \<open>Looking a value up in an output\<close>

text \<open>The loop over the dot-separated keys, in \<^verbatim>\<open>resolveOutputValue\<close> and in \<^verbatim>\<open>substituteVariables\<close>.\<close>

fun navigate :: "string list \<Rightarrow> string \<Rightarrow> string option" where
  "navigate [] current = Some current"
| "navigate (k # ks) current =
     (case raw_map current of
        None \<Rightarrow> None
      | Some m \<Rightarrow> (case m k of None \<Rightarrow> None | Some v \<Rightarrow> navigate ks v))"

definition resolveOutputValue :: "(string \<rightharpoonup> string) \<Rightarrow> string \<Rightarrow> string \<Rightarrow> iface option" where
  "resolveOutputValue outputs stepName key =
     (case outputs stepName of
        None \<Rightarrow> None
      | Some outputJSON \<Rightarrow>
          if raw_map outputJSON = None then None
          else (case navigate (split_char CHR ''.'' key) outputJSON of
                  None \<Rightarrow> None
                | Some current \<Rightarrow>
                    (case unmarshal_iface current of
                       None \<Rightarrow> Some (IStr current)
                     | Some x \<Rightarrow> Some x)))"

section \<open>Comparing\<close>

definition isTruthy :: "iface \<Rightarrow> bool" where
  "isTruthy v =
     (case v of
        IBool b \<Rightarrow> b
      | INum x \<Rightarrow> \<not> f64_eq x (Fin 0)
      | IStr s \<Rightarrow> s \<noteq> [] \<and> s \<noteq> ''false'' \<and> s \<noteq> ''null''
      | INil \<Rightarrow> False
      | _ \<Rightarrow> True)"

abbreviation quotes :: string where
  "quotes \<equiv> [CHR 0x22, CHR 0x27]"

definition containsValue :: "iface \<Rightarrow> string \<Rightarrow> bool" where
  "containsValue actual listStr =
     list_ex (\<lambda>item. Trim (TrimSpace item) quotes = show_iface actual)
       (split_char CHR '','' (Trim listStr ''[]''))"

definition compareNumeric :: "iface \<Rightarrow> string \<Rightarrow> string \<Rightarrow> string + bool" where
  "compareNumeric actual op expected =
     (case (case actual of INum v \<Rightarrow> Some v | _ \<Rightarrow> ParseFloat (show_iface actual)) of
        None \<Rightarrow> Inl (''cannot compare non-numeric value '' @ show_iface actual)
      | Some a \<Rightarrow>
          (case ParseFloat expected of
             None \<Rightarrow> Inl (''expected value '' @ quote expected @ '' is not numeric'')
           | Some e \<Rightarrow>
               Inr (if op = ''>'' then f64_lt e a
                    else if op = ''>='' then f64_le e a
                    else if op = ''<'' then f64_lt a e
                    else if op = ''<='' then f64_le a e
                    else False)))"

definition compareValues :: "iface \<Rightarrow> string \<Rightarrow> string \<Rightarrow> string + bool" where
  "compareValues actual op expected0 =
     (let expected = Trim expected0 quotes in
      if op = ''=='' then Inr (show_iface actual = expected)
      else if op = ''!='' then Inr (show_iface actual \<noteq> expected)
      else if op \<in> {''>'', ''>='', ''<'', ''<=''} then compareNumeric actual op expected
      else if op = ''in'' then Inr (containsValue actual expected)
      else Inl (''unsupported operator: '' @ op))"

section \<open>The expression\<close>

definition word_dash :: "char \<Rightarrow> bool" where
  "word_dash c \<longleftrightarrow> word_char c \<or> c = CHR ''-''"

definition word_dot :: "char \<Rightarrow> bool" where
  "word_dot c \<longleftrightarrow> word_char c \<or> c = CHR ''.''"

definition not_quote :: "char \<Rightarrow> bool" where
  "not_quote c \<longleftrightarrow> c \<noteq> CHR 0x22"

text \<open>\<^verbatim>\<open>steps\.(?:"([^"]+)"|(\w[\w-]*))\.\s*output\.(\w[\w.]*)\<close>, the common part of both patterns.\<close>

definition step_part :: re where
  "step_part =
     Alt (re_cat [Lit [CHR 0x22], Grp 1 (re_plus not_quote), Lit [CHR 0x22]])
         (Grp 2 (Cat (Chr word_char) (Star word_dash)))"

definition ref_part :: "re list" where
  "ref_part =
     [Lit ''steps.'', step_part, Lit ''.'', Star re_space, Lit ''output.'',
      Grp 3 (Cat (Chr word_char) (Star word_dot))]"

definition op_part :: re where
  "op_part = Grp 4 (re_alt (map Lit [''=='', ''!='', ''>'', ''>='', ''<'', ''<='', ''in'']))"

definition pattern :: re where
  "pattern = re_cat (ref_part @ [Star re_space, op_part, Star re_space, Grp 5 (re_plus any_char)])"

definition boolPattern :: re where
  "boolPattern = re_cat (Bol # ref_part @ [Eol])"

definition match_step :: "caps \<Rightarrow> string" where
  "match_step cs = (if group cs 1 = [] then group cs 2 else group cs 1)"

definition evaluateCondition :: "string \<Rightarrow> (string \<rightharpoonup> string) \<Rightarrow> string + bool" where
  "evaluateCondition expr0 outputs =
     (let expr = TrimSpace expr0 in
      if expr = [] \<or> expr = ''true'' then Inr True
      else if expr = ''false'' then Inr False
      else (case find_sub pattern expr of
        None \<Rightarrow>
          (case find_sub boolPattern expr of
             Some bm \<Rightarrow>
               (case resolveOutputValue outputs (match_step (f_caps bm)) (group (f_caps bm) 3) of
                  None \<Rightarrow> Inr False
                | Some v \<Rightarrow> Inr (isTruthy v))
           | None \<Rightarrow> Inl (''unsupported condition expression: '' @ expr))
      | Some m \<Rightarrow>
          (case resolveOutputValue outputs (match_step (f_caps m)) (group (f_caps m) 3) of
             None \<Rightarrow> Inr False
           | Some actual \<Rightarrow>
               compareValues actual (group (f_caps m) 4) (TrimSpace (group (f_caps m) 5)))))"

text \<open>What the reconciler makes of the result: an error counts as false.\<close>

definition condition_met :: "string \<Rightarrow> (string \<rightharpoonup> string) \<Rightarrow> bool" where
  "condition_met expr outputs = (case evaluateCondition expr outputs of Inl _ \<Rightarrow> False | Inr b \<Rightarrow> b)"

section \<open>How a comparison is read\<close>

lemma star_exact:
  "(\<forall>x\<in>set xs. p x) \<Longrightarrow> rest = [] \<or> \<not> p (hd rest) \<Longrightarrow> k (b \<and> xs = []) rest cs = Some z \<Longrightarrow>
   star p b (xs @ rest) cs k = Some z"
proof (induction xs arbitrary: b)
  case Nil
  then show ?case by (cases rest) auto
next
  case (Cons x xs)
  then have "star p False (xs @ rest) cs k = Some z" by simp
  with Cons show ?case by simp
qed

lemma star_all: "(\<forall>x\<in>set xs. p x) \<Longrightarrow> k (b \<and> xs = []) [] cs = Some z \<Longrightarrow> star p b xs cs k = Some z"
  using star_exact [of xs p "[]" k b cs z] by simp

text \<open>Step names and keys that the pattern reads as one group, and values it keeps as they are.\<close>

definition step_ident :: "string \<Rightarrow> bool" where
  "step_ident s \<longleftrightarrow> s \<noteq> [] \<and> word_char (hd s) \<and> list_all word_dash s"

definition key_ident :: "string \<Rightarrow> bool" where
  "key_ident s \<longleftrightarrow> s \<noteq> [] \<and> word_char (hd s) \<and> list_all word_dot s"

definition plain_value :: "string \<Rightarrow> bool" where
  "plain_value v \<longleftrightarrow> v \<noteq> [] \<and> \<not> is_space (hd v) \<and> \<not> is_space (last v) \<and> list_all any_char v"

definition comparison :: "string \<Rightarrow> string \<Rightarrow> string \<Rightarrow> string \<Rightarrow> string" where
  "comparison s k op v = ''steps.'' @ s @ ''.output.'' @ k @ '' '' @ op @ '' '' @ v"

lemma word_char_dash: "word_char c \<Longrightarrow> word_dash c" "word_char c \<Longrightarrow> word_dot c"
  by (simp_all add: word_dash_def word_dot_def)

lemma not_in_classes [simp]:
  "\<not> word_dash CHR ''.''" "\<not> word_dot CHR '' ''" "re_space CHR '' ''" "\<not> word_char CHR 0x22"
  by (simp_all add: word_dash_def word_dot_def word_char_def re_space_def)

lemma mt_step_part:
  assumes "step_ident s" "rest = [] \<or> \<not> word_dash (hd rest)"
    and "k False rest ((2, s) # cs) = Some z"
  shows "mt step_part b (s @ rest) cs k = Some z"
proof -
  from assms(1) obtain c u where s: "s = c # u" "word_char c" "\<forall>x\<in>set u. word_dash x"
    by (cases s) (auto simp: step_ident_def list_all_iff)
  from s(2) have "c \<noteq> CHR 0x22" by auto
  with s assms(2,3) show ?thesis
    by (auto simp: step_part_def HasPrefix_def intro!: star_exact)
qed

lemma mt_key:
  assumes "key_ident s" "rest = [] \<or> \<not> word_dot (hd rest)"
    and "k False rest ((3, s) # cs) = Some z"
  shows "mt (Grp 3 (Cat (Chr word_char) (Star word_dot))) b (s @ rest) cs k = Some z"
proof -
  from assms(1) obtain c u where s: "s = c # u" "word_char c" "\<forall>x\<in>set u. word_dot x"
    by (cases s) (auto simp: key_ident_def list_all_iff)
  with assms(2,3) show ?thesis by (auto intro!: star_exact)
qed

lemma find_sub_at_start:
  assumes "match_at r True s = Some (t, cs)"
  shows "\<exists>m. find_sub r s = Some m \<and> f_caps m = cs"
  using assms by (cases s) (auto simp: find_sub_def)

lemma mt_CatI:
  "mt r1 b s cs (\<lambda>b' s' cs'. mt r2 b' s' cs' k) = Some z \<Longrightarrow> mt (Cat r1 r2) b s cs k = Some z"
  by simp

lemma mt_LitI: "k (b \<and> l = []) rest cs = Some z \<Longrightarrow> mt (Lit l) b (l @ rest) cs k = Some z"
  by (simp add: HasPrefix_def)

lemma mt_StarI:
  "(\<forall>x\<in>set xs. p x) \<Longrightarrow> rest = [] \<or> \<not> p (hd rest) \<Longrightarrow> k (b \<and> xs = []) rest cs = Some z \<Longrightarrow>
   mt (Star p) b (xs @ rest) cs k = Some z"
  by (simp add: star_exact)

lemma mt_skipI:
  "rest = [] \<or> \<not> p (hd rest) \<Longrightarrow> k b rest cs = Some z \<Longrightarrow> mt (Star p) b rest cs k = Some z"
  by (cases rest) auto

lemma pattern_eq:
  "pattern = Cat (Lit ''steps.'') (Cat step_part (Cat (Lit ''.'') (Cat (Star re_space)
     (Cat (Lit ''output.'') (Cat (Grp 3 (Cat (Chr word_char) (Star word_dot)))
     (Cat (Star re_space) (Cat op_part (Cat (Star re_space) (Grp 5 (re_plus any_char))))))))))"
  by (simp add: pattern_def ref_part_def)

lemma pattern_match:
  assumes s: "step_ident s" and k: "key_ident k"
    and t: "t \<noteq> []" "\<not> re_space (hd t)"
    and op: "\<And>cs c z. c False (sp @ w) ((4, oper) # cs) = Some z \<Longrightarrow> mt op_part False t cs c = Some z"
    and sp: "\<forall>x\<in>set sp. re_space x"
    and w: "w \<noteq> []" "\<not> re_space (hd w)" "list_all any_char w"
  shows "\<exists>m. find_sub pattern (''steps.'' @ s @ ''.'' @ ''output.'' @ k @ '' '' @ t) = Some m \<and>
             f_caps m = [(5, w), (4, oper), (3, k), (2, s)]"
proof -
  have tail: "mt (Grp 5 (re_plus any_char)) b w cs (\<lambda>_ s' cs. Some (s', cs)) = Some ([], (5, w) # cs)" for b cs
  proof -
    obtain c u where c: "w = c # u" using w(1) by (cases w) auto
    with w(3) have "any_char c" "\<forall>x\<in>set u. any_char x" by (auto simp: list_all_iff)
    with c show ?thesis
      by (auto simp: re_plus_def intro!: star_all)
  qed
  have "match_at pattern True (''steps.'' @ s @ ''.'' @ ''output.'' @ k @ '' '' @ t)
      = Some ([], [(5, w), (4, oper), (3, k), (2, s)])"
    unfolding match_at_def pattern_eq
    apply (rule mt_CatI, rule mt_LitI)
    apply (rule mt_CatI, rule mt_step_part [OF s])
     apply simp
    apply (rule mt_CatI, rule mt_LitI)
    apply (rule mt_CatI, rule mt_skipI)
     apply (simp add: re_space_def)
    apply (rule mt_CatI, rule mt_LitI)
    apply (rule mt_CatI, rule mt_key [OF k])
     apply simp
    apply (rule mt_CatI, rule mt_StarI [of "'' ''"])
      apply simp
    using t apply simp
    apply (rule mt_CatI)
    apply (simp only: HOL.simp_thms list.simps)
    apply (rule op)
    apply (rule mt_CatI, rule mt_StarI [OF sp])
    using w apply simp
    apply (rule tail)
    done
  then show ?thesis by (rule find_sub_at_start)
qed

lemma comparison_trim:
  assumes "plain_value v"
  shows "TrimSpace (comparison s k op v) = comparison s k op v"
    "comparison s k op v \<noteq> ''true''" "comparison s k op v \<noteq> ''false''" "comparison s k op v \<noteq> []"
proof -
  have "last (comparison s k op v) = last v" using assms by (simp add: comparison_def plain_value_def)
  moreover have "hd (comparison s k op v) = CHR ''s''" by (simp add: comparison_def)
  ultimately show "TrimSpace (comparison s k op v) = comparison s k op v"
    using assms by (intro TrimSpace_id) (simp add: plain_value_def is_space_def)
qed (simp_all add: comparison_def)

lemma evaluate_pattern:
  assumes "step_ident s" "key_ident k" "plain_value v"
    and "op @ '' '' @ v = t" "t \<noteq> []" "\<not> re_space (hd t)"
    and "\<And>cs c z. c False (sp @ w) ((4, oper) # cs) = Some z \<Longrightarrow> mt op_part False t cs c = Some z"
    and "\<forall>x\<in>set sp. re_space x" "w \<noteq> []" "\<not> re_space (hd w)" "list_all any_char w"
  shows "evaluateCondition (comparison s k op v) outputs =
     (case resolveOutputValue outputs s k of
        None \<Rightarrow> Inr False
      | Some actual \<Rightarrow> compareValues actual oper (TrimSpace w))"
proof -
  from pattern_match [OF assms(1,2,5,6) assms(7-11)] obtain m where
    "find_sub pattern (comparison s k op v) = Some m" "f_caps m = [(5, w), (4, oper), (3, k), (2, s)]"
    using assms(4) by (auto simp: comparison_def)
  with comparison_trim [OF assms(3), of s k op] show ?thesis
    by (simp add: evaluateCondition_def match_step_def group_def split: option.split)
qed

lemma plain_value_space: "plain_value v \<Longrightarrow> \<not> re_space (hd v)"
  by (auto simp: plain_value_def is_space_def re_space_def)

lemma plain_value_trim: "plain_value v \<Longrightarrow> TrimSpace v = v"
  by (rule TrimSpace_id) (simp add: plain_value_def)

lemma mt_simple_op:
  assumes "op \<in> {''=='', ''!='', ''>'', ''<''}" "c False ('' '' @ v) ((4, op) # cs) = Some z"
  shows "mt op_part False (op @ '' '' @ v) cs c = Some z"
  using assms by (elim insertE emptyE) (simp_all add: op_part_def HasPrefix_def)

lemma mt_op_equal:
  assumes "op \<in> {''>='', ''<=''}" "c False (''= '' @ v) ((4, take 1 op) # cs) = Some z"
  shows "mt op_part False (op @ '' '' @ v) cs c = Some z"
  using assms by (elim insertE emptyE) (simp_all add: op_part_def HasPrefix_def)

lemma evaluate_simple_op:
  assumes "op \<in> {''=='', ''!='', ''>'', ''<''}" "step_ident s" "key_ident k" "plain_value v"
  shows "evaluateCondition (comparison s k op v) outputs =
     (case resolveOutputValue outputs s k of
        None \<Rightarrow> Inr False
      | Some actual \<Rightarrow> compareValues actual op v)"
proof -
  have "evaluateCondition (comparison s k op v) outputs =
     (case resolveOutputValue outputs s k of
        None \<Rightarrow> Inr False
      | Some actual \<Rightarrow> compareValues actual op (TrimSpace v))"
  proof (rule evaluate_pattern [where t = "op @ '' '' @ v" and sp = "'' ''"])
    show "\<not> re_space (hd (op @ '' '' @ v))" using assms(1) by (auto simp: re_space_def)
    show "\<not> re_space (hd v)" using assms(4) by (rule plain_value_space)
  qed (use assms mt_simple_op in \<open>simp_all add: plain_value_def\<close>)
  then show ?thesis by (simp only: plain_value_trim [OF assms(4)])
qed

lemma Trim_keeps_head:
  assumes "c \<notin> set cs"
  shows "\<exists>u. Trim (c # s) cs = c # u"
proof -
  have "trim_left (\<lambda>x. x \<in> set cs) (c # s) = c # s" using assms by (simp add: trim_left_def)
  moreover have "dropWhile (\<lambda>x. x \<in> set cs) (t @ [c]) = dropWhile (\<lambda>x. x \<in> set cs) t @ [c]" for t
    using assms by (induction t) auto
  ultimately show ?thesis by (simp add: Trim_def trim_both_def trim_right_def)
qed

lemma ParseFloat_eq_sign: "ParseFloat (CHR ''='' # s) = None"
proof -
  have "to_lower_char CHR ''='' = CHR ''=''" by (simp add: to_lower_char_def is_upper_def)
  moreover have "\<not> is_digit CHR ''=''" by (simp add: is_digit_def)
  ultimately show ?thesis
    by (simp add: ParseFloat_def inf_or_nan_def ToLower_def parse_udec_def Let_def)
qed

lemma evaluate_or_equal:
  assumes "op \<in> {''>='', ''<=''}" "step_ident s" "key_ident k" "plain_value v"
  shows "condition_met (comparison s k op v) outputs = False"
proof -
  have "evaluateCondition (comparison s k op v) outputs =
     (case resolveOutputValue outputs s k of
        None \<Rightarrow> Inr False
      | Some actual \<Rightarrow> compareValues actual (take 1 op) (TrimSpace (''= '' @ v)))"
  proof (rule evaluate_pattern [where t = "op @ '' '' @ v" and sp = "[]"])
    show "\<not> re_space (hd (op @ '' '' @ v))" using assms(1) by (auto simp: re_space_def)
  qed (use assms mt_op_equal in \<open>simp_all add: plain_value_def re_space_def any_char_def\<close>)
  moreover have "TrimSpace (''= '' @ v) = ''= '' @ v"
    using assms(4) by (intro TrimSpace_id) (simp add: plain_value_def is_space_def)
  moreover have "\<exists>e. compareNumeric a (take 1 op) (Trim (''= '' @ v) quotes) = Inl e" for a
  proof -
    obtain u where "Trim (''= '' @ v) quotes = CHR ''='' # u"
      using Trim_keeps_head [of "CHR ''=''" quotes "CHR '' '' # v"] by auto
    then show ?thesis by (auto simp: compareNumeric_def ParseFloat_eq_sign split: option.split)
  qed
  then have "\<exists>e. compareValues a (take 1 op) (''= '' @ v) = Inl e" for a
    using assms(1) by (auto simp: compareValues_def Let_def)
  ultimately show ?thesis
    by (auto simp: condition_met_def split: option.splits sum.splits) (metis Inl_Inr_False)
qed


section \<open>What conditions mean\<close>

text \<open>C40: A comparison \<open>steps.S.output.K op V\<close> with \<open>op\<close> one of \<open>==\<close>, \<open>!=\<close>, \<open>>\<close>, \<open><\<close> reads exactly its
  three parts: it is false when the output or the key is missing, and otherwise compares the value
  found under the dotted key \<open>K\<close> of step \<open>S\<close> with \<open>V\<close>.\<close>

theorem condition_comparison:
  assumes "op \<in> {''=='', ''!='', ''>'', ''<''}" "step_ident s" "key_ident k" "plain_value v"
  shows "evaluateCondition (comparison s k op v) outputs =
     (case resolveOutputValue outputs s k of
        None \<Rightarrow> Inr False
      | Some actual \<Rightarrow> compareValues actual op v)"
  using assms by (rule evaluate_simple_op)

lemma condition_comparison_witness:
  "evaluateCondition (comparison ''scan-2'' ''m.c'' ''>'' ''4'') [''scan-2'' \<mapsto> ''{\"m\": {\"c\": 5}}''] = Inr True"
proof -
  have "evaluateCondition (comparison ''scan-2'' ''m.c'' ''>'' ''4'') [''scan-2'' \<mapsto> ''{\"m\": {\"c\": 5}}''] =
     (case resolveOutputValue [''scan-2'' \<mapsto> ''{\"m\": {\"c\": 5}}''] ''scan-2'' ''m.c'' of
        None \<Rightarrow> Inr False
      | Some actual \<Rightarrow> compareValues actual ''>'' ''4'')"
    by (rule condition_comparison) code_simp+
  also have "\<dots> = Inr True" by code_simp
  finally show ?thesis .
qed

text \<open>A condition with \<open>>=\<close> or \<open><=\<close> is never met, whatever the outputs: the pattern lists \<open>>\<close> before
  \<open>>=\<close>, so the operator is read as \<open>>\<close> and the value as \<open>= V\<close>, which is no number.\<close>

theorem condition_or_equal_never_met:
  assumes "op \<in> {''>='', ''<=''}" "step_ident s" "key_ident k" "plain_value v"
  shows "\<not> condition_met (comparison s k op v) outputs"
  using evaluate_or_equal [OF assms] by simp

lemma condition_or_equal_never_met_witness:
  "\<not> condition_met (comparison ''scan'' ''issues'' ''>='' ''5'') [''scan'' \<mapsto> ''{\"issues\": 7}'']"
  by (rule condition_or_equal_never_met) code_simp+

text \<open>
  A key that contains the letters \<open>in\<close> is not read as a reference to a truthy output but as the
  operator \<open>in\<close>; and a number from a million on compares in its exponent form.
\<close>

lemma condition_in_inside_key:
  "evaluateCondition ''steps.s.output.running'' [''s'' \<mapsto> ''{\"running\": true}''] = Inr False"
  by code_simp

lemma condition_million:
  "evaluateCondition ''steps.s.output.n == 1000000'' [''s'' \<mapsto> ''{\"n\": 1000000}''] = Inr False"
  by code_simp

end
