(* ===== verification/Step_Input.thy ===== *)
theory Step_Input imports Condition Types begin

text \<open>
  How a step's input is put together (\<^verbatim>\<open>buildStepInput\<close>, \<^verbatim>\<open>substituteVariables\<close> and
  \<^verbatim>\<open>substituteParameters\<close> of \<^verbatim>\<open>controllers/workflow_controller.go\<close>, and the loop of \<^verbatim>\<open>Reconcile\<close> that
  builds the \<^verbatim>\<open>STEP_INPUT_*\<close> variables): the explicit input, the keys taken from earlier outputs, then
  textual substitution on the serialized object.
\<close>

section \<open>References to step outputs\<close>

text \<open>\<^verbatim>\<open>\$\{steps\.(\w[\w-]*)\.output\.([\w.]+)\}\<close>.\<close>

definition varPattern :: re where
  "varPattern = re_cat
     [Lit ''${steps.'', Grp 1 (Cat (Chr word_char) (Star word_dash)), Lit ''.output.'',
      Grp 2 (re_plus word_dot), Lit ''}'']"

definition replace_var :: "(string \<rightharpoonup> string) \<Rightarrow> string \<Rightarrow> string" where
  "replace_var outputs mat =
     (case find_sub varPattern mat of
        None \<Rightarrow> mat
      | Some m \<Rightarrow>
          (case outputs (group (f_caps m) 1) of
             None \<Rightarrow> mat
           | Some stepOutput \<Rightarrow>
               if raw_map stepOutput = None then mat
               else (case navigate (split_char CHR ''.'' (group (f_caps m) 2)) stepOutput of
                  None \<Rightarrow> mat
                | Some current \<Rightarrow>
                    (case unmarshal_string current of Some s \<Rightarrow> s | None \<Rightarrow> current))))"

definition substituteVariables :: "string \<Rightarrow> (string \<rightharpoonup> string) \<Rightarrow> string" where
  "substituteVariables template outputs = replace_all varPattern (replace_var outputs) template"

text \<open>\<^verbatim>\<open>\$\{parameters\.(\w+)\}\<close>.\<close>

definition paramPattern :: re where
  "paramPattern = re_cat [Lit ''${parameters.'', Grp 1 (re_plus word_char), Lit ''}'']"

definition replace_param :: "str_alist \<Rightarrow> string \<Rightarrow> string" where
  "replace_param params mat =
     (case find_sub paramPattern mat of
        None \<Rightarrow> mat
      | Some m \<Rightarrow> (case map_of params (group (f_caps m) 1) of Some v \<Rightarrow> v | None \<Rightarrow> mat))"

definition substituteParameters :: "string \<Rightarrow> str_alist \<Rightarrow> string" where
  "substituteParameters template params =
     (if params = [] then template else replace_all paramPattern (replace_param params) template)"

section \<open>The input object\<close>

text \<open>
  The map starts from the explicit input when that is an object; anything else leaves it empty.  A
  raw value is never the text \<^verbatim>\<open>null\<close>: \<^verbatim>\<open>RawExtension\<close> decodes that to nil bytes.
\<close>

definition explicit_input :: "raw option \<Rightarrow> str_alist" where
  "explicit_input inp =
     (case inp of
        None \<Rightarrow> []
      | Some r \<Rightarrow>
          (case raw_map r of
             None \<Rightarrow> []
           | Some m \<Rightarrow> map (\<lambda>k. (k, get_str m k)) (raw_keys r)))"

definition add_input_ref :: "(string \<rightharpoonup> string) \<Rightarrow> str_alist \<Rightarrow> InputRef \<Rightarrow> str_alist" where
  "add_input_ref outputs input ref =
     (case outputs (ir_Step ref) of
        None \<Rightarrow> input
      | Some stepOutput \<Rightarrow>
          (case raw_map stepOutput of
             None \<Rightarrow> alist_put (ir_OutputKey ref) stepOutput input
           | Some m \<Rightarrow>
               (case m (ir_OutputKey ref) of
                  Some val \<Rightarrow> alist_put (ir_OutputKey ref) val input
                | None \<Rightarrow> alist_put (ir_OutputKey ref) ''null'' input)))"

text \<open>\<^verbatim>\<open>json.Marshal\<close> fails on a raw value that is no JSON, and its error is dropped: the text is then empty.\<close>

definition marshal_input :: "str_alist \<Rightarrow> string" where
  "marshal_input input = (case marshal_raw_map input of Some s \<Rightarrow> s | None \<Rightarrow> [])"

definition buildStepInput :: "Workflow \<Rightarrow> WorkflowStep \<Rightarrow> (string \<rightharpoonup> string) \<Rightarrow> string" where
  "buildStepInput w step outputs =
     (let input = foldl (add_input_ref outputs) (explicit_input (ws_Input step)) (ws_InputFrom step);
          resultStr = substituteVariables (marshal_input input) outputs
      in substituteParameters resultStr (wp_Parameters (wf_Spec w)))"

definition env_key :: "string \<Rightarrow> string" where
  "env_key s = ToUpper (replace_char CHR ''-'' CHR ''_'' s)"

definition inputFromEnvs :: "WorkflowStep \<Rightarrow> (string \<rightharpoonup> string) \<Rightarrow> env_var list" where
  "inputFromEnvs step outputs =
     concat (map (\<lambda>ref.
       case Option.bind (Option.bind (outputs (ir_Step ref)) raw_map) (\<lambda>m. m (ir_OutputKey ref)) of
         None \<Rightarrow> []
       | Some val \<Rightarrow>
           [\<lparr>en_Name = ''STEP_INPUT_'' @ env_key (ir_Step ref) @ ''_'' @ env_key (ir_OutputKey ref),
             en_Value = EnvValue val\<rparr>])
       (ws_InputFrom step))"

section \<open>Templates\<close>

text \<open>
  A template as a list of pieces: text without \<open>$\<close>, and references.  Its rendering is the string the
  source works on; its value is what the reader of a template expects.
\<close>

datatype piece = Text string | Ref string string

fun render :: "piece \<Rightarrow> string" where
  "render (Text a) = a"
| "render (Ref s k) = ''${steps.'' @ s @ ''.output.'' @ k @ ''}''"

definition output_text :: "(string \<rightharpoonup> string) \<Rightarrow> string \<Rightarrow> string \<Rightarrow> string option" where
  "output_text outputs s k =
     (case outputs s of
        None \<Rightarrow> None
      | Some out \<Rightarrow>
          if raw_map out = None then None
          else map_option (\<lambda>v. case unmarshal_string v of Some x \<Rightarrow> x | None \<Rightarrow> v)
                 (navigate (split_char CHR ''.'' k) out))"

fun piece_value :: "(string \<rightharpoonup> string) \<Rightarrow> piece \<Rightarrow> string" where
  "piece_value outputs (Text a) = a"
| "piece_value outputs (Ref s k) =
     (case output_text outputs s k of Some v \<Rightarrow> v | None \<Rightarrow> render (Ref s k))"

fun piece_ok :: "piece \<Rightarrow> bool" where
  "piece_ok (Text a) = (CHR ''$'' \<notin> set a)"
| "piece_ok (Ref s k) = (step_ident s \<and> k \<noteq> [] \<and> list_all word_dot k)"

lemma varPattern_eq:
  "varPattern = Cat (Lit ''${steps.'') (Cat (Grp 1 (Cat (Chr word_char) (Star word_dash)))
     (Cat (Lit ''.output.'') (Cat (Grp 2 (re_plus word_dot)) (Lit ''}''))))"
  by (simp add: varPattern_def)

lemma mt_group1:
  assumes "step_ident s" "rest = [] \<or> \<not> word_dash (hd rest)"
    and "k False rest ((1, s) # cs) = Some z"
  shows "mt (Grp 1 (Cat (Chr word_char) (Star word_dash))) b (s @ rest) cs k = Some z"
proof -
  from assms(1) obtain c u where s: "s = c # u" "word_char c" "\<forall>x\<in>set u. word_dash x"
    by (cases s) (auto simp: step_ident_def list_all_iff)
  with assms(2,3) show ?thesis by (auto intro!: star_exact)
qed

lemma mt_group2:
  assumes "s \<noteq> []" "list_all word_dot s" "rest = [] \<or> \<not> word_dot (hd rest)"
    and "k False rest ((2, s) # cs) = Some z"
  shows "mt (Grp 2 (re_plus word_dot)) b (s @ rest) cs k = Some z"
proof -
  from assms(1,2) obtain c u where s: "s = c # u" "word_dot c" "\<forall>x\<in>set u. word_dot x"
    by (cases s) (auto simp: list_all_iff)
  with assms(3,4) show ?thesis by (auto simp: re_plus_def intro!: star_exact)
qed

lemma match_ref:
  assumes "piece_ok (Ref s k)"
  shows "match_at varPattern b (render (Ref s k) @ rest) = Some (rest, [(2, k), (1, s)])"
proof -
  from assms have s: "step_ident s" and k: "k \<noteq> []" "list_all word_dot k" by auto
  have "\<not> word_dot CHR ''}''" by (simp add: word_dot_def word_char_def)
  then have "match_at varPattern b (''${steps.'' @ s @ ''.output.'' @ k @ ''}'' @ rest)
      = Some (rest, [(2, k), (1, s)])"
    unfolding match_at_def varPattern_eq
    apply (intro mt_CatI mt_LitI mt_group1 [OF s])
     apply simp
    apply (intro mt_CatI mt_LitI mt_group2 [OF k])
     apply simp
    apply simp
    done
  then show ?thesis by simp
qed

lemma find_from_skip:
  "c \<notin> set a \<Longrightarrow> find_from (Cat (Lit (c # l)) r) b acc (a @ s) =
     find_from (Cat (Lit (c # l)) r) (b \<and> a = []) (rev a @ acc) s"
proof (induction a arbitrary: b acc)
  case Nil
  then show ?case by simp
next
  case (Cons x a)
  then have "match_at (Cat (Lit (c # l)) r) b (x # a @ s) = None"
    by (simp add: match_at_def HasPrefix_def)
  with Cons show ?case by simp
qed

lemma find_ref:
  assumes "piece_ok (Ref s k)" "CHR ''$'' \<notin> set a"
  shows "find_from varPattern b [] (a @ render (Ref s k) @ rest) =
    Some \<lparr>f_before = a, f_match = render (Ref s k), f_rest = rest, f_caps = [(2, k), (1, s)]\<rparr>"
proof -
  obtain x t where xt: "render (Ref s k) @ rest = x # t" by simp
  then have len: "Suc (length t) = length (render (Ref s k)) + length rest"
    by (metis length_Cons length_append)
  have "find_from varPattern b [] (a @ render (Ref s k) @ rest) =
      find_from varPattern (b \<and> a = []) (rev a) (x # t)"
    using find_from_skip [OF assms(2)] xt unfolding varPattern_eq by simp
  also have "\<dots> = Some \<lparr>f_before = a, f_match = take (Suc (length t) - length rest) (x # t),
      f_rest = rest, f_caps = [(2, k), (1, s)]\<rparr>"
    using match_ref [OF assms(1), of _ rest] xt by simp
  also have "take (Suc (length t) - length rest) (x # t) = render (Ref s k)"
    unfolding xt [symmetric] len by (simp del: render.simps)
  finally show ?thesis .
qed

lemma replace_var_ref:
  assumes "piece_ok (Ref s k)"
  shows "replace_var outputs (render (Ref s k)) = piece_value outputs (Ref s k)"
proof -
  have "find_sub varPattern (render (Ref s k)) =
    Some \<lparr>f_before = [], f_match = render (Ref s k), f_rest = [], f_caps = [(2, k), (1, s)]\<rparr>"
    using find_ref [OF assms, of "[]" True "[]"] by (simp add: find_sub_def)
  then show ?thesis
    by (simp add: replace_var_def group_def output_text_def split: option.split)
qed

lemma replace_pieces:
  "list_all piece_ok ps \<Longrightarrow> CHR ''$'' \<notin> set a \<Longrightarrow>
   replace_from varPattern b (replace_var outputs) (a @ concat (map render ps)) =
     a @ concat (map (piece_value outputs) ps)"
proof (induction ps arbitrary: a b)
  case Nil
  then have "find_from varPattern b [] a = None"
    unfolding varPattern_eq by (intro find_from_lit_None) simp
  then show ?case by (simp add: replace_from.simps)
next
  case (Cons p ps)
  show ?case
  proof (cases p)
    case (Text t)
    with Cons.prems Cons.IH [of "a @ t" b] show ?thesis by simp
  next
    case (Ref s k)
    with Cons.prems have ok: "piece_ok (Ref s k)" by simp
    let ?rest = "concat (map render ps)"
    have "replace_from varPattern b (replace_var outputs) (a @ render (Ref s k) @ ?rest)
        = a @ replace_var outputs (render (Ref s k)) @ replace_from varPattern False (replace_var outputs) ?rest"
      by (subst replace_from.simps) (simp add: find_ref [OF ok Cons.prems(2)] del: render.simps, simp)
    also have "\<dots> = a @ piece_value outputs (Ref s k) @ concat (map (piece_value outputs) ps)"
      using Cons.IH [of "[]" False] Cons.prems replace_var_ref [OF ok, of outputs] by (simp del: render.simps)
    finally show ?thesis using Ref by simp
  qed
qed

text \<open>Substituting variables in a template replaces each reference \<open>${steps.S.output.K}\<close> by the value
  found in the output of \<open>S\<close> under the dotted key \<open>K\<close> (a string without its quotes, anything else as
  its JSON text), leaves references that do not resolve, and leaves all other text.\<close>

theorem substitute_template:
  assumes "list_all piece_ok ps"
  shows "substituteVariables (concat (map render ps)) outputs = concat (map (piece_value outputs) ps)"
  using replace_pieces [OF assms, of "[]"] by (simp add: substituteVariables_def replace_all_def)

lemma substitute_template_witness:
  "substituteVariables ''see ${steps.a-1.output.m.n}!'' [''a-1'' \<mapsto> ''{\"m\": {\"n\": \"ok\"}}''] = ''see ok!''"
proof -
  have "substituteVariables (concat (map render [Text ''see '', Ref ''a-1'' ''m.n'', Text ''!'']))
      [''a-1'' \<mapsto> ''{\"m\": {\"n\": \"ok\"}}''] =
    concat (map (piece_value [''a-1'' \<mapsto> ''{\"m\": {\"n\": \"ok\"}}''])
      [Text ''see '', Ref ''a-1'' ''m.n'', Text ''!''])"
    by (rule substitute_template) code_simp
  also have "\<dots> = ''see ok!''" by code_simp
  finally show ?thesis by simp
qed

text \<open>
  A string is put into the serialized input without its quotes and without escaping: an output that
  holds a quotation mark ends the JSON string it is put into, here adding a member.
\<close>

lemma substitution_not_escaped:
  "substituteVariables ''{\"q\":\"${steps.s.output.a}\"}''
     [''s'' \<mapsto> ''{\"a\":'' @ marshal_string ''x\",\"admin\":\"y'' @ ''}'']
     = ''{\"q\":\"x\",\"admin\":\"y\"}''"
  by code_simp

end
