(* ===== verification/Job_Builder.thy ===== *)
theory Job_Builder imports Sha256 Step_Input Memory_Policy Go_Time begin

text \<open>
  \<^verbatim>\<open>controllers/job_builder.go\<close>: the Kubernetes Job of a step.  The operator's environment is the
  argument \<open>getenv\<close>, the random number of a run-id the argument \<open>rnd\<close>.  The long function
  \<^verbatim>\<open>buildStepJob\<close> is a sequence of definitions, one per paragraph of its body, put together by
  \<open>buildStepJob\<close> at the end.
\<close>

section \<open>Names\<close>

text \<open>\<^verbatim>\<open>fmt.Sprintf("%04x", rand.Intn(0xFFFF))\<close>: \<open>rnd\<close> is below 65535, so four digits.\<close>

definition buildRunID :: "int \<Rightarrow> string \<Rightarrow> string" where
  "buildRunID rnd wfUID = (if 8 < length wfUID then take 8 wfUID else wfUID) @ ''-'' @ hex_pad 4 rnd"

definition hex_bytes :: "string \<Rightarrow> string" where
  "hex_bytes s = concat (map (\<lambda>c. hex_pad 2 (of_char c)) s)"

definition buildJobName :: "string \<Rightarrow> string \<Rightarrow> string \<Rightarrow> string" where
  "buildJobName workflowName stepName runID =
     (let base = workflowName @ ''-'' @ stepName @ ''-'' @ runID in
      if length base \<le> 63 then base
      else hex_bytes (take 6 (Sum256 (workflowName @ ''/'' @ stepName))) @ ''-'' @ runID)"

section \<open>JSON of the structs that are passed on\<close>

text \<open>\<^verbatim>\<open>json.Marshal\<close> of a struct: its fields in order, those with \<^verbatim>\<open>omitempty\<close> left out when empty.\<close>

definition json_struct :: "(string \<times> string) option list \<Rightarrow> string" where
  "json_struct fs =
     ''{'' @ join '','' (map (\<lambda>(k, v). marshal_string k @ '':'' @ v) (map the (filter (\<lambda>f. f \<noteq> None) fs))) @ ''}''"

definition omit_str :: "string \<Rightarrow> string \<Rightarrow> (string \<times> string) option" where
  "omit_str k s = (if s = [] then None else Some (k, marshal_string s))"

definition omit_int :: "string \<Rightarrow> int \<Rightarrow> (string \<times> string) option" where
  "omit_int k n = (if n = 0 then None else Some (k, show_int n))"

definition secret_ref_json :: "SecretRef \<Rightarrow> string" where
  "secret_ref_json r =
     json_struct [Some (''name'', marshal_string (sr_Name r)), omit_str ''namespace'' (sr_Namespace r),
       omit_str ''key'' (sr_Key r)]"

definition endpoint_json :: "EndpointSpec \<Rightarrow> string" where
  "endpoint_json e =
     json_struct [Some (''url'', marshal_string (ep_URL e)), omit_str ''method'' (ep_Method e),
       (if ep_Headers e = [] then None else Some (''headers'', marshal_str_map (ep_Headers e))),
       omit_int ''timeoutSeconds'' (ep_TimeoutSeconds e), omit_str ''authScheme'' (ep_AuthScheme e),
       omit_str ''authHeader'' (ep_AuthHeader e)]"

definition tool_json :: "ToolSpec \<Rightarrow> string" where
  "tool_json t =
     json_struct [Some (''name'', marshal_string (to_Name t)), Some (''type'', marshal_string (to_Type t)),
       map_option (\<lambda>e. (''endpoint'', endpoint_json e)) (to_Endpoint t),
       map_option (\<lambda>r. (''credentialsSecretRef'', secret_ref_json r)) (to_CredentialsSecretRef t),
       map_option (\<lambda>r. (''config'', compact False r)) (to_Config t)]"

definition tools_json :: "ToolSpec list \<Rightarrow> string" where
  "tools_json ts = ''['' @ join '','' (map tool_json ts) @ '']''"

definition sandbox_json :: "SandboxSpec \<Rightarrow> string" where
  "sandbox_json s =
     json_struct [omit_int ''maxExecutionSeconds'' (sb_MaxExecutionSeconds s),
       omit_int ''maxOutputBytes'' (sb_MaxOutputBytes s),
       (if sb_NetworkAccess s then Some (''networkAccess'', ''true'') else None),
       (if sb_WritablePaths s = [] then None
        else Some (''writablePaths'', marshal_strings (sb_WritablePaths s)))]"

text \<open>\<^verbatim>\<open>json.Marshal\<close> of an \<^verbatim>\<open>interface{}\<close> value; floats take the exponent form below 1e-6 and from 1e21.\<close>

definition clean_exp :: "string \<Rightarrow> string" where
  "clean_exp s =
     (let n = length s in
      if 4 \<le> n \<and> take 3 (drop (n - 4) s) = ''e-0'' then take (n - 2) s @ drop (n - 1) s else s)"

fun marshal_f64 :: "f64 \<Rightarrow> string" where
  "marshal_f64 (Fin q) =
     (if q \<noteq> 0 \<and> (\<bar>q\<bar> < 1 / 1000000 \<or> 1000000000000000000000 \<le> \<bar>q\<bar>)
      then (let (ds, dp) = shortest \<bar>q\<bar> in
            (if q < 0 then ''-'' else []) @ clean_exp (fmt_e ds (dp - 1)))
      else format_f (Fin q))"
| "marshal_f64 x = format_f x"

fun marshal_iface :: "iface \<Rightarrow> string"
  and marshal_iface_list :: "iface list \<Rightarrow> string list"
  and marshal_iface_obj :: "(string \<times> iface) list \<Rightarrow> (string \<times> string) list" where
  "marshal_iface INil = ''null''"
| "marshal_iface (IBool b) = (if b then ''true'' else ''false'')"
| "marshal_iface (INum x) = marshal_f64 x"
| "marshal_iface (IStr s) = marshal_string s"
| "marshal_iface (IArr xs) = ''['' @ join '','' (marshal_iface_list xs) @ '']''"
| "marshal_iface (IObj ms) = marshal_object (marshal_iface_obj ms)"
| "marshal_iface_list [] = []"
| "marshal_iface_list (x # xs) = marshal_iface x # marshal_iface_list xs"
| "marshal_iface_obj [] = []"
| "marshal_iface_obj ((k, v) # ms) = (k, marshal_iface v) # marshal_iface_obj ms"

section \<open>The environment of the executor\<close>

abbreviation env_val :: "string \<Rightarrow> string \<Rightarrow> env_var" where
  "env_val n v \<equiv> \<lparr>en_Name = n, en_Value = EnvValue v\<rparr>"

text \<open>The guardrails as a decoded object; \<^verbatim>\<open>None\<close> when absent or no object.\<close>

definition guardrails :: "Agent \<Rightarrow> (string \<times> iface) list option" where
  "guardrails agent = Option.bind (as_Guardrails (ag_Spec agent)) iface_map"

definition job_image :: "(string \<Rightarrow> string) \<Rightarrow> Agent \<Rightarrow> string" where
  "job_image getenv agent =
     (case as_Runtime (ag_Spec agent) of
        Some r \<Rightarrow> if rt_Image r \<noteq> [] then rt_Image r
                  else if getenv ''PURKO_EXECUTOR_IMAGE'' \<noteq> [] then getenv ''PURKO_EXECUTOR_IMAGE''
                  else ''localhost/purko-executor:latest''
      | None \<Rightarrow> if getenv ''PURKO_EXECUTOR_IMAGE'' \<noteq> [] then getenv ''PURKO_EXECUTOR_IMAGE''
                else ''localhost/purko-executor:latest'')"

definition guardrail_timeout :: "Agent \<Rightarrow> int" where
  "guardrail_timeout agent =
     (case guardrails agent of
        None \<Rightarrow> 1800
      | Some g \<Rightarrow>
          (case map_of g ''maxExecutionTime'' of
             Some (IStr s) \<Rightarrow>
               if s = [] then 1800
               else (case ParseDuration s of Some d \<Rightarrow> whole_seconds d | None \<Rightarrow> 1800)
           | _ \<Rightarrow> 1800))"

definition job_timeout :: "WorkflowStep \<Rightarrow> Agent \<Rightarrow> int" where
  "job_timeout step agent =
     (case ws_StepTimeout step of
        Some t \<Rightarrow> if 0 < st_TimeoutSeconds t then st_TimeoutSeconds t else guardrail_timeout agent
      | None \<Rightarrow> guardrail_timeout agent)"

definition job_model :: "Agent \<Rightarrow> LLMProvider option \<Rightarrow> string" where
  "job_model agent llm =
     (case llm of
        Some p \<Rightarrow>
          if om_Name (llm_Meta p) \<noteq> mo_Provider (as_Model (ag_Spec agent)) \<and> lp_Model (llm_Spec p) \<noteq> []
          then lp_Model (llm_Spec p) else mo_Name (as_Model (ag_Spec agent))
      | None \<Rightarrow> mo_Name (as_Model (ag_Spec agent)))"

definition env_base :: "Workflow \<Rightarrow> WorkflowStep \<Rightarrow> Agent \<Rightarrow> string \<Rightarrow> env_var list" where
  "env_base w step agent modelName =
     [env_val ''STEP_NAME'' (ws_Name step), env_val ''WORKFLOW_NAME'' (wf_Name w),
      env_val ''MODEL_PROVIDER'' (mo_Provider (as_Model (ag_Spec agent))),
      env_val ''MODEL_NAME'' modelName] @
     (case mo_MaxTokens (as_Model (ag_Spec agent)) of
        Some n \<Rightarrow> [env_val ''MODEL_MAX_TOKENS'' (show_int n)] | None \<Rightarrow> [])"

definition api_format :: "LLMProviderSpec \<Rightarrow> string" where
  "api_format p =
     (if lp_APIFormat p \<noteq> [] then lp_APIFormat p
      else if lp_Type p = ''anthropic'' \<or> lp_Type p = ''vertex-ai'' then ''anthropic''
      else ''openai'')"

text \<open>\<^verbatim>\<open>strconv.Atoi\<close>: does the text denote a 64-bit integer?\<close>

definition atoi :: "string \<Rightarrow> int option" where
  "atoi s =
     (let (neg, ds) = (case s of CHR ''-'' # t \<Rightarrow> (True, t) | CHR ''+'' # t \<Rightarrow> (False, t) | _ \<Rightarrow> (False, s));
          n = (if neg then - digits_val ds else digits_val ds)
      in if ds \<noteq> [] \<and> list_all is_digit ds \<and> in64 n then Some n else None)"

definition env_pricing :: "LLMProviderSpec \<Rightarrow> string \<Rightarrow> env_var list" where
  "env_pricing p modelName =
     (case find (\<lambda>m. md_Name m = modelName \<and> md_Pricing m \<noteq> None) (lp_Models p) of
        None \<Rightarrow> []
      | Some m \<Rightarrow>
          (case md_Pricing m of
             None \<Rightarrow> []
           | Some pr \<Rightarrow> [env_val ''MODEL_PRICE_IN'' (format_f (pr_InputPerMToken pr)),
                         env_val ''MODEL_PRICE_OUT'' (format_f (pr_OutputPerMToken pr))]))"

definition env_llm :: "LLMProvider option \<Rightarrow> string \<Rightarrow> string \<Rightarrow> env_var list" where
  "env_llm llm apiKey modelName =
     (case llm of
        None \<Rightarrow> []
      | Some prov \<Rightarrow>
          (let p = llm_Spec prov; timeout = get_str (lp_Config p) ''timeoutSeconds'' in
           [env_val ''MODEL_API_FORMAT'' (api_format p)] @
           (if lp_Endpoint p \<noteq> [] then [env_val ''MODEL_ENDPOINT'' (lp_Endpoint p)] else []) @
           (if apiKey \<noteq> [] then [env_val ''MODEL_API_KEY'' apiKey] else []) @
           (if timeout \<noteq> [] \<and> atoi timeout \<noteq> None then [env_val ''MODEL_TIMEOUT'' timeout] else []) @
           env_pricing p modelName @
           (if lp_Type p = ''vertex-ai'' then
              (case lp_Config p ''projectId'' of
                 Some x \<Rightarrow> [env_val ''ANTHROPIC_VERTEX_PROJECT_ID'' x] | None \<Rightarrow> []) @
              (case lp_Config p ''region'' of
                 Some x \<Rightarrow> [env_val ''CLOUD_ML_REGION'' x] | None \<Rightarrow> []) @
              [env_val ''GOOGLE_APPLICATION_CREDENTIALS'' ''/var/run/secrets/gcp/credentials.json'']
            else [])))"

definition env_prompt :: "Agent \<Rightarrow> string \<Rightarrow> env_var list" where
  "env_prompt agent stepInput =
     (if as_AutonomyLevel (ag_Spec agent) \<noteq> []
      then [env_val ''AUTONOMY_LEVEL'' (as_AutonomyLevel (ag_Spec agent))] else []) @
     (if as_SystemPrompt (ag_Spec agent) \<noteq> []
      then [env_val ''AGENT_SYSTEM_PROMPT'' (as_SystemPrompt (ag_Spec agent))] else []) @
     (if stepInput \<noteq> [] then [env_val ''STEP_INPUT'' stepInput] else [])"

definition env_mcp :: "(string \<Rightarrow> string) \<Rightarrow> string \<Rightarrow> env_var list" where
  "env_mcp getenv mcpServersJSON =
     (if mcpServersJSON \<noteq> [] then [env_val ''MCP_SERVERS'' mcpServersJSON]
      else
        (if getenv ''LUMINO_MCP_URL'' \<noteq> []
         then [env_val ''MCP_SERVER_URL'' (getenv ''LUMINO_MCP_URL'')] else []) @
        (if getenv ''GITHUB_MCP_URL'' \<noteq> []
         then [env_val ''GITHUB_MCP_URL'' (getenv ''GITHUB_MCP_URL''),
               \<lparr>en_Name = ''GITHUB_MCP_TOKEN'',
                en_Value = EnvSecret ''github-mcp-token'' ''token'' (Some True)\<rparr>] else []))"

definition provider_vertex :: "LLMProvider option \<Rightarrow> bool" where
  "provider_vertex llm = (case llm of Some p \<Rightarrow> lp_Type (llm_Spec p) = ''vertex-ai'' | None \<Rightarrow> False)"

definition useVertex :: "(string \<Rightarrow> string) \<Rightarrow> LLMProvider option \<Rightarrow> bool" where
  "useVertex getenv llm \<longleftrightarrow> provider_vertex llm \<or> getenv ''ANTHROPIC_VERTEX_PROJECT_ID'' \<noteq> []"

definition env_vertex :: "(string \<Rightarrow> string) \<Rightarrow> LLMProvider option \<Rightarrow> env_var list" where
  "env_vertex getenv llm =
     (if \<not> provider_vertex llm \<and> getenv ''ANTHROPIC_VERTEX_PROJECT_ID'' \<noteq> []
      then [env_val ''ANTHROPIC_VERTEX_PROJECT_ID'' (getenv ''ANTHROPIC_VERTEX_PROJECT_ID''),
            env_val ''CLOUD_ML_REGION'' (getenv ''CLOUD_ML_REGION''),
            env_val ''GOOGLE_APPLICATION_CREDENTIALS'' ''/var/run/secrets/gcp/credentials.json'']
      else [])"

definition guardrail_env ::
    "(string \<times> iface) list \<Rightarrow> string \<Rightarrow> string \<Rightarrow> (iface \<Rightarrow> string) \<Rightarrow> env_var list" where
  "guardrail_env g key name show_v =
     (case map_of g key of Some v \<Rightarrow> [env_val name (show_v v)] | None \<Rightarrow> [])"

definition env_guardrails :: "Agent \<Rightarrow> env_var list" where
  "env_guardrails agent =
     (case mo_Temperature (as_Model (ag_Spec agent)) of
        Some t \<Rightarrow> [env_val ''MODEL_TEMPERATURE'' (show_2f t)] | None \<Rightarrow> []) @
     (case guardrails agent of
        None \<Rightarrow> []
      | Some g \<Rightarrow>
          guardrail_env g ''maxIterations'' ''MAX_TOOL_CALLS'' show_iface @
          guardrail_env g ''costLimitUSD'' ''COST_LIMIT_USD'' show_iface @
          guardrail_env g ''contentFilters'' ''CONTENT_FILTERS'' marshal_iface @
          guardrail_env g ''maxExecutionTime'' ''MAX_EXECUTION_TIME'' show_iface)"

definition buildMemoryEnv :: "Agent \<Rightarrow> string \<Rightarrow> env_var list" where
  "buildMemoryEnv agent recalledMemory =
     (let mem = as_Memory (ag_Spec agent); behavior = memoryBehavior agent in
      [env_val ''MEMORY_TYPE'' (memoryEnvType agent)] @
      (case mem of
         Some m \<Rightarrow> if ms_Behavior m \<noteq> [] then [env_val ''MEMORY_BEHAVIOR'' behavior] else []
       | None \<Rightarrow> []) @
      (if behavior = ''persistent'' then [env_val ''AGENT_MEMORY'' recalledMemory] else []) @
      (case mem of
         Some m \<Rightarrow> if behavior = [] \<and> ms_Type m = ''summary''
                   then [env_val ''MEMORY_CM_NAME'' (ag_Name agent @ ''-memory'')] else []
       | None \<Rightarrow> []) @
      (case mem of
         Some m \<Rightarrow> (case ms_MaxContextTokens m of
                      Some n \<Rightarrow> [env_val ''MAX_CONTEXT_TOKENS'' (show_int n)] | None \<Rightarrow> [])
       | None \<Rightarrow> []))"

definition env_code :: "Agent \<Rightarrow> env_var list" where
  "env_code agent =
     (case as_Runtime (ag_Spec agent) of
        None \<Rightarrow> []
      | Some r \<Rightarrow>
          (case rt_CodeExecution r of
             None \<Rightarrow> []
           | Some ce \<Rightarrow>
               if \<not> ce_Enabled ce then []
               else [env_val ''CODE_EXECUTION_ENABLED'' ''true''] @
                 (if ce_Languages ce \<noteq> []
                  then [env_val ''CODE_LANGUAGES'' (join '','' (ce_Languages ce))] else []) @
                 (case ce_Sandbox ce of
                    Some s \<Rightarrow> [env_val ''CODE_SANDBOX'' (sandbox_json s)] | None \<Rightarrow> [])))"

definition env_tools :: "Agent \<Rightarrow> env_var list" where
  "env_tools agent =
     (if as_Tools (ag_Spec agent) \<noteq> []
      then [env_val ''AGENT_TOOLS'' (tools_json (as_Tools (ag_Spec agent)))] else [])"

definition env_credentials :: "Agent \<Rightarrow> string \<Rightarrow> env_var list" where
  "env_credentials agent apiKey =
     (case mo_CredentialsSecretRef (as_Model (ag_Spec agent)) of
        None \<Rightarrow> []
      | Some r \<Rightarrow>
          if apiKey = []
          then [\<lparr>en_Name = ''MODEL_API_KEY'',
                 en_Value = EnvSecret (sr_Name r) (if sr_Key r = [] then ''api-key'' else sr_Key r) (Some True)\<rparr>]
          else [])"

definition env_runtime :: "Agent \<Rightarrow> env_var list" where
  "env_runtime agent =
     (case as_Runtime (ag_Spec agent) of
        None \<Rightarrow> []
      | Some r \<Rightarrow>
          map (\<lambda>e. env_val (ev_Name e) (ev_Value e)) (rt_Env r) @
          map (\<lambda>(k, v). env_val (''EXECUTOR_'' @ ToUpper (replace_char CHR ''.'' CHR ''_'' k)) v)
            (rt_Config r))"

definition job_env :: "(string \<Rightarrow> string) \<Rightarrow> Workflow \<Rightarrow> WorkflowStep \<Rightarrow> Agent \<Rightarrow> string \<Rightarrow>
    env_var list \<Rightarrow> string \<Rightarrow> LLMProvider option \<Rightarrow> string \<Rightarrow> string \<Rightarrow> env_var list" where
  "job_env getenv w step agent stepInput fromEnvs mcp llm apiKey recalled =
     (let modelName = job_model agent llm in
      env_base w step agent modelName @ env_llm llm apiKey modelName @ env_prompt agent stepInput @
      env_mcp getenv mcp @ env_vertex getenv llm @ env_guardrails agent @
      buildMemoryEnv agent recalled @ env_code agent @ env_tools agent @
      env_credentials agent apiKey @ fromEnvs @ env_runtime agent)"

section \<open>Volumes\<close>

definition config_ref :: "raw \<Rightarrow> string option" where
  "config_ref r =
     (case parse_json r of
        Some (TObj ms) \<Rightarrow>
          (case (field_str ''configMapName'' ms, field_str ''key'' ms) of
             (Some n, Some _) \<Rightarrow> if n = [] then None else Some n
           | _ \<Rightarrow> None)
      | _ \<Rightarrow> None)"

definition tool_volumes :: "Agent \<Rightarrow> (volume \<times> volume_mount) list" where
  "tool_volumes agent =
     concat (map (\<lambda>t.
       case Option.bind (to_Config t) config_ref of
         None \<Rightarrow> []
       | Some cmName \<Rightarrow>
           let volName = take 63 (''tool-cfg-'' @ replace_char CHR ''_'' CHR ''-'' (to_Name t)) in
           [(\<lparr>vo_Name = volName, vo_Source = VolConfigMap cmName (Some True)\<rparr>,
             \<lparr>vm_Name = volName, vm_MountPath = ''/etc/tool-config/'' @ to_Name t, vm_ReadOnly = True\<rparr>)])
       (as_Tools (ag_Spec agent)))"

definition memory_volumes :: "Agent \<Rightarrow> (volume \<times> volume_mount) list" where
  "memory_volumes agent =
     (case as_Memory (ag_Spec agent) of
        None \<Rightarrow> []
      | Some m \<Rightarrow>
          (case ms_PersistentStorage m of
             None \<Rightarrow> []
           | Some ps \<Rightarrow>
               if memoryEnvType agent = ''vector'' \<and> ps_Enabled ps
               then [(\<lparr>vo_Name = ''agent-memory'',
                       vo_Source = VolPVC (if ps_VolumeClaimRef ps = [] then ag_Name agent @ ''-memory''
                                           else ps_VolumeClaimRef ps)\<rparr>,
                      \<lparr>vm_Name = ''agent-memory'', vm_MountPath = ''/var/run/agent-memory'',
                       vm_ReadOnly = False\<rparr>)]
               else []))"

definition gcp_secret :: "LLMProvider option \<Rightarrow> string" where
  "gcp_secret llm =
     (case llm of
        None \<Rightarrow> ''gcp-credentials''
      | Some p \<Rightarrow>
          (case lp_Credentials (llm_Spec p) of
             Some c \<Rightarrow> if lp_Type (llm_Spec p) = ''vertex-ai'' \<and> cr_SecretRef c \<noteq> []
                       then cr_SecretRef c else ''gcp-credentials''
           | None \<Rightarrow> ''gcp-credentials''))"

definition vertex_volumes :: "(string \<Rightarrow> string) \<Rightarrow> LLMProvider option \<Rightarrow> (volume \<times> volume_mount) list" where
  "vertex_volumes getenv llm =
     (if useVertex getenv llm
      then [(\<lparr>vo_Name = ''gcp-creds'', vo_Source = VolSecret (gcp_secret llm) (Some True)\<rparr>,
             \<lparr>vm_Name = ''gcp-creds'', vm_MountPath = ''/var/run/secrets/gcp'', vm_ReadOnly = True\<rparr>)]
      else [])"

section \<open>The Job\<close>

abbreviation labelWorkflow :: string where "labelWorkflow \<equiv> ''purko.io/workflow''"
abbreviation labelStep :: string where "labelStep \<equiv> ''purko.io/step''"
abbreviation labelAgent :: string where "labelAgent \<equiv> ''purko.io/agent''"

definition step_labels :: "Workflow \<Rightarrow> WorkflowStep \<Rightarrow> Agent \<Rightarrow> str_map" where
  "step_labels w step agent =
     [labelWorkflow \<mapsto> wf_Name w, labelStep \<mapsto> ws_Name step, labelAgent \<mapsto> ag_Name agent]"

definition step_job_meta :: "Workflow \<Rightarrow> WorkflowStep \<Rightarrow> Agent \<Rightarrow> string \<Rightarrow> ObjectMeta" where
  "step_job_meta w step agent runID =
     empty_meta\<lparr>om_Name := buildJobName (wf_Name w) (ws_Name step) runID, om_Namespace := wf_Namespace w,
       om_Labels := step_labels w step agent,
       om_OwnerReferences := [\<lparr>or_APIVersion = ''purko.io/v1alpha1'', or_Kind = ''Workflow'',
         or_Name = wf_Name w, or_UID = om_UID (wf_Meta w), or_Controller = Some True\<rparr>]\<rparr>"

definition step_pod :: "(string \<Rightarrow> string) \<Rightarrow> Agent \<Rightarrow> LLMProvider option \<Rightarrow> env_var list \<Rightarrow> pod_spec" where
  "step_pod getenv agent llm env =
     (let hostNet = (getenv ''PURKO_EXECUTOR_HOST_NETWORK'' = ''true'');
          vols = tool_volumes agent @ memory_volumes agent @ vertex_volumes getenv llm
      in \<lparr>pd_RestartPolicy = ''Never'', pd_ServiceAccountName = [], pd_HostNetwork = hostNet,
          pd_DNSPolicy = (if hostNet then ''Default'' else ''ClusterFirst''),
          pd_ContainerName = ''step-executor'', pd_Image = job_image getenv agent,
          pd_ImagePullPolicy = ''IfNotPresent'', pd_Env = env,
          pd_VolumeMounts = map snd vols, pd_Volumes = map fst vols\<rparr>)"

definition buildStepJob :: "(string \<Rightarrow> string) \<Rightarrow> Workflow \<Rightarrow> WorkflowStep \<Rightarrow> Agent \<Rightarrow> string \<Rightarrow> string \<Rightarrow>
    env_var list \<Rightarrow> string \<Rightarrow> LLMProvider option \<Rightarrow> string \<Rightarrow> string \<Rightarrow> Job" where
  "buildStepJob getenv w step agent runID stepInput fromEnvs mcp llm apiKey recalled =
     \<lparr>jo_Meta = step_job_meta w step agent runID, jo_BackoffLimit = 0,
      jo_ActiveDeadlineSeconds = job_timeout step agent, jo_TTLSecondsAfterFinished = 3600,
      jo_PodLabels = step_labels w step agent,
      jo_Pod = step_pod getenv agent llm
        (job_env getenv w step agent stepInput fromEnvs mcp llm apiKey recalled),
      jo_Active = 0, jo_StartTime = None, jo_CompletionTime = None, jo_Conditions = []\<rparr>"

section \<open>Properties\<close>

lemma length_hex_bytes: "length (hex_bytes s) = 2 * length s"
  unfolding hex_bytes_def by (induction s) simp_all

lemma length_buildRunID: "length (buildRunID rnd uid) \<le> 13"
  by (simp add: buildRunID_def)

lemma length_buildJobName: "length runID \<le> 50 \<Longrightarrow> length (buildJobName a s runID) \<le> 63"
  by (simp add: buildJobName_def Let_def length_hex_bytes)

text \<open>The name of a step's Job fits the 63 characters Kubernetes allows, for every workflow and step
  name and every run-id the controller generates, with the suffix of a rollback too; and where the
  plain name fits, different steps of a run have different Jobs.\<close>

theorem job_name_fits:
  "length (buildJobName a s (buildRunID rnd uid)) \<le> 63 \<and>
   length (buildJobName a s (buildRunID rnd uid @ ''-rb'')) \<le> 63 \<and>
   (length (a @ ''-'' @ s @ ''-'' @ r) \<le> 63 \<and> length (a @ ''-'' @ t @ ''-'' @ r) \<le> 63 \<and>
      buildJobName a s r = buildJobName a t r \<longrightarrow> s = t)"
proof -
  have "length (buildRunID rnd uid) \<le> 50" "length (buildRunID rnd uid @ ''-rb'') \<le> 50"
    using length_buildRunID [of rnd uid] by simp_all
  then show ?thesis by (auto simp: buildJobName_def Let_def length_hex_bytes)
qed

lemma job_name_fits_witness:
  "buildJobName ''wf'' ''scan'' ''0a1b2c3d-00ff'' = ''wf-scan-0a1b2c3d-00ff'' \<and>
   length (buildJobName ''a-workflow-with-a-rather-long-name'' ''and-a-step-with-a-long-name-too''
     (buildRunID 255 ''0a1b2c3d-77'')) \<le> 63"
  using job_name_fits [of "''a-workflow-with-a-rather-long-name''" "''and-a-step-with-a-long-name-too''" 255
      "''0a1b2c3d-77''"]
  by (simp add: buildJobName_def)

definition named :: "string \<Rightarrow> env_var list \<Rightarrow> env_var list" where
  "named n env = filter (\<lambda>e. en_Name e = n) env"

lemma named_append [simp]: "named n (xs @ ys) = named n xs @ named n ys"
  by (simp add: named_def)

lemma named_simps [simp]:
  "named n [] = []" "named n (e # es) = (if en_Name e = n then e # named n es else named n es)"
  "named n (if b then xs else ys) = (if b then named n xs else named n ys)"
  by (simp_all add: named_def)

lemma named_concat: "(\<And>x. x \<in> set xs \<Longrightarrow> named n (f x) = []) \<Longrightarrow> named n (concat (map f xs)) = []"
  by (induction xs) auto

lemma inputFromEnvs_no_key: "named ''MODEL_API_KEY'' (inputFromEnvs step outputs) = []"
  unfolding inputFromEnvs_def by (rule named_concat) (simp split: option.split)

lemma env_no_key:
  "named ''MODEL_API_KEY'' (env_base w step agent m) = []"
  "named ''MODEL_API_KEY'' (env_prompt agent inp) = []"
  "named ''MODEL_API_KEY'' (env_mcp getenv mcp) = []"
  "named ''MODEL_API_KEY'' (env_vertex getenv llm) = []"
  "named ''MODEL_API_KEY'' (buildMemoryEnv agent r) = []"
  "named ''MODEL_API_KEY'' (env_code agent) = []"
  "named ''MODEL_API_KEY'' (env_tools agent) = []"
  "named ''MODEL_API_KEY'' (env_guardrails agent) = []"
  "named ''MODEL_API_KEY'' (env_pricing p m) = []"
  by (auto simp: env_base_def env_prompt_def env_mcp_def env_vertex_def buildMemoryEnv_def env_code_def
      env_tools_def env_guardrails_def guardrail_env_def env_pricing_def Let_def split: option.splits)

text \<open>A Job gets a model key from exactly one source: the key resolved from the LLMProvider when
  there is one, otherwise the secret the agent names; beside it only a variable of that name the
  agent's own runtime section defines.\<close>

theorem api_key_single_source:
  "named ''MODEL_API_KEY''
     (job_env getenv w step agent inp (inputFromEnvs step outputs) mcp llm key recalled) =
   (if key \<noteq> [] then (case llm of Some _ \<Rightarrow> [env_val ''MODEL_API_KEY'' key] | None \<Rightarrow> [])
    else (case mo_CredentialsSecretRef (as_Model (ag_Spec agent)) of
            Some r \<Rightarrow> [\<lparr>en_Name = ''MODEL_API_KEY'',
               en_Value = EnvSecret (sr_Name r) (if sr_Key r = [] then ''api-key'' else sr_Key r) (Some True)\<rparr>]
          | None \<Rightarrow> [])) @ named ''MODEL_API_KEY'' (env_runtime agent)"
proof -
  have "named ''MODEL_API_KEY'' (env_llm llm key m) =
      (case llm of Some _ \<Rightarrow> if key \<noteq> [] then [env_val ''MODEL_API_KEY'' key] else [] | None \<Rightarrow> [])" for m
    by (auto simp: env_llm_def Let_def env_no_key split: option.split)
  moreover have "named ''MODEL_API_KEY'' (env_credentials agent key) =
      (if key = [] then (case mo_CredentialsSecretRef (as_Model (ag_Spec agent)) of
            Some r \<Rightarrow> [\<lparr>en_Name = ''MODEL_API_KEY'',
               en_Value = EnvSecret (sr_Name r) (if sr_Key r = [] then ''api-key'' else sr_Key r) (Some True)\<rparr>]
          | None \<Rightarrow> []) else [])"
    by (auto simp: env_credentials_def split: option.split)
  ultimately show ?thesis
    by (simp add: job_env_def Let_def env_no_key inputFromEnvs_no_key split: option.split)
qed

text \<open>The recalled memories are handed to the executor exactly when the agent's memory behaviour is
  \<open>persistent\<close>, and then unchanged.\<close>

theorem agent_memory_env:
  "named ''AGENT_MEMORY'' (buildMemoryEnv agent recalled) =
     (if memoryBehavior agent = ''persistent'' then [env_val ''AGENT_MEMORY'' recalled] else [])"
  by (auto simp: buildMemoryEnv_def Let_def split: option.split)

lemma step_job_simps [simp]:
  "jo_Name (buildStepJob ge w step agent r inp fe mcp llm key rec) = buildJobName (wf_Name w) (ws_Name step) r"
  "om_Namespace (jo_Meta (buildStepJob ge w step agent r inp fe mcp llm key rec)) = wf_Namespace w"
  "om_Labels (jo_Meta (buildStepJob ge w step agent r inp fe mcp llm key rec)) = step_labels w step agent"
  "jo_Active (buildStepJob ge w step agent r inp fe mcp llm key rec) = 0"
  "jo_Conditions (buildStepJob ge w step agent r inp fe mcp llm key rec) = []"
  by (simp_all add: buildStepJob_def step_job_meta_def)

end
