(* ===== verification/Workflow_Core.thy ===== *)
theory Workflow_Core imports Types Go_Time begin

text \<open>
  The parts of \<^verbatim>\<open>controllers/workflow_controller.go\<close> that decide from the workflow and its jobs alone:
  which steps may start, when a job or a workflow is finished, how long a retry waits, which jobs a
  failure stops, and the table of step statuses.
\<close>

section \<open>Jobs\<close>

definition isJobComplete :: "Job \<Rightarrow> bool" where
  "isJobComplete job = list_ex (\<lambda>c. jc_Type c = ''Complete'' \<and> jc_Status c = ''True'') (jo_Conditions job)"

definition isJobFailed :: "Job \<Rightarrow> bool" where
  "isJobFailed job = list_ex (\<lambda>c. jc_Type c = ''Failed'' \<and> jc_Status c = ''True'') (jo_Conditions job)"

section \<open>Steps and retries\<close>

definition getStepByName :: "Workflow \<Rightarrow> string \<Rightarrow> WorkflowStep option" where
  "getStepByName w name = find (\<lambda>s. ws_Name s = name) (wf_Steps w)"

definition getMaxRetries :: "WorkflowStep option \<Rightarrow> int" where
  "getMaxRetries step =
     (case step of
        None \<Rightarrow> 0
      | Some s \<Rightarrow> (case ws_RetryPolicy s of None \<Rightarrow> 0 | Some p \<Rightarrow> rp_MaxRetries p))"

text \<open>\<^verbatim>\<open>delay *= 2\<close>, \<open>n\<close> times, on a 64-bit integer.\<close>

fun double_n :: "nat \<Rightarrow> int \<Rightarrow> int" where
  "double_n 0 d = d"
| "double_n (Suc n) d = double_n n (wrap64 (d * 2))"

definition initial_delay :: "RetryPolicySpec \<Rightarrow> int" where
  "initial_delay p =
     (if rp_Backoff p \<noteq> []
      then (case ParseDuration (rp_Backoff p) of Some d \<Rightarrow> d | None \<Rightarrow> 5 * second)
      else 5 * second)"

definition getRetryDelay :: "WorkflowStep option \<Rightarrow> int \<Rightarrow> int" where
  "getRetryDelay step retryCount =
     (case step of
        None \<Rightarrow> 5 * second
      | Some s \<Rightarrow>
          (case ws_RetryPolicy s of
             None \<Rightarrow> 5 * second
           | Some p \<Rightarrow>
               (let delay = double_n (nat retryCount) (initial_delay p)
                in if 5 * minute < delay then 5 * minute else delay)))"

section \<open>Step statuses\<close>

text \<open>
  \<^verbatim>\<open>ensureStepStatus\<close> returns a pointer into the slice of statuses; the model returns the index it
  points at.
\<close>

definition ensureStepStatus :: "Workflow \<Rightarrow> string \<Rightarrow> Workflow \<times> nat" where
  "ensureStepStatus w stepName =
     (case find_index (\<lambda>ss. ss_Name ss = stepName) (wf_StepStatuses w) of
        Some i \<Rightarrow> (w, i)
      | None \<Rightarrow> (set_steps (wf_StepStatuses w @ [zero_step_status stepName]) w,
                 length (wf_StepStatuses w)))"

definition update_step :: "nat \<Rightarrow> (StepStatus \<Rightarrow> StepStatus) \<Rightarrow> Workflow \<Rightarrow> Workflow" where
  "update_step i f w = set_steps ((wf_StepStatuses w)[i := f (wf_StepStatuses w ! i)]) w"

text \<open>The two steps together: find or create the status of a step, then assign to its fields.\<close>

definition with_step_status :: "string \<Rightarrow> (StepStatus \<Rightarrow> StepStatus) \<Rightarrow> Workflow \<Rightarrow> Workflow" where
  "with_step_status stepName f w = (let (w1, i) = ensureStepStatus w stepName in update_step i f w1)"

section \<open>Which steps may start\<close>

definition has_phase :: "string list \<Rightarrow> Workflow \<Rightarrow> string \<Rightarrow> bool" where
  "has_phase phases w name =
     list_ex (\<lambda>ss. ss_Name ss = name \<and> ss_Phase ss \<in> set phases) (wf_StepStatuses w)"

abbreviation step_completed :: "Workflow \<Rightarrow> string \<Rightarrow> bool" where
  "step_completed \<equiv> has_phase [''Succeeded'', ''Skipped'']"

abbreviation step_finished :: "Workflow \<Rightarrow> string \<Rightarrow> bool" where
  "step_finished \<equiv> has_phase [''Succeeded'', ''Failed'', ''Skipped'']"

text \<open>\<open>jobs\<close> are the keys of the job map.\<close>

definition step_active :: "Workflow \<Rightarrow> string list \<Rightarrow> string \<Rightarrow> bool" where
  "step_active w jobs name \<longleftrightarrow> has_phase [''Running''] w name \<or> name \<in> set jobs"

definition deps_ready :: "Workflow \<Rightarrow> WorkflowStep \<Rightarrow> bool" where
  "deps_ready w step =
     list_all (\<lambda>dep. if wf_Strategy w = ''continueOnError'' then step_finished w dep
                     else step_completed w dep) (ws_DependsOn step)"

definition findExecutableSteps :: "Workflow \<Rightarrow> string list \<Rightarrow> string list" where
  "findExecutableSteps w jobs =
     map ws_Name
       (filter (\<lambda>step. \<not> (step_completed w (ws_Name step) \<or> step_finished w (ws_Name step)
                          \<or> step_active w jobs (ws_Name step)) \<and> deps_ready w step)
         (wf_Steps w))"

section \<open>Failure and completion\<close>

definition stoppable :: "StepStatus \<Rightarrow> bool" where
  "stoppable ss \<longleftrightarrow> ss_Phase ss = ''Running'' \<or> ss_Phase ss = ''Pending'' \<or> ss_Phase ss = []"

definition jobsToStopOnFailure :: "Workflow \<Rightarrow> string list" where
  "jobsToStopOnFailure w =
     map ss_JobName (filter (\<lambda>ss. stoppable ss \<and> ss_JobName ss \<noteq> []) (wf_StepStatuses w))"

text \<open>The loop of the \<open>failFast\<close> and \<open>stop\<close> branches over the statuses.\<close>

definition skip_unfinished :: "Workflow \<Rightarrow> Workflow" where
  "skip_unfinished w =
     set_steps (map (\<lambda>ss. if stoppable ss then ss\<lparr>ss_Phase := ''Skipped''\<rparr> else ss)
       (wf_StepStatuses w)) w"

text \<open>The loop of the cancellation branch; a pending step keeps its phase.\<close>

definition skip_running :: "Workflow \<Rightarrow> Workflow" where
  "skip_running w =
     set_steps (map (\<lambda>ss. if ss_Phase ss = ''Running'' \<or> ss_Phase ss = []
       then ss\<lparr>ss_Phase := ''Skipped''\<rparr> else ss) (wf_StepStatuses w)) w"

definition completionPhase :: "int \<Rightarrow> int \<Rightarrow> int \<Rightarrow> string \<Rightarrow> string \<times> string \<times> string" where
  "completionPhase completed failed tot strategy =
     (if failed = 0 then (''Succeeded'', ''AllStepsCompleted'', ''All workflow steps completed'')
      else if completed = 0
        then (''Failed'', ''AllStepsFailed'',
              ''0/'' @ show_int tot @ '' steps succeeded, '' @ show_int failed @ '' failed'')
      else if strategy = ''continueOnError''
        then (''CompletedWithErrors'', ''CompletedWithErrors'',
              show_int completed @ ''/'' @ show_int tot @ '' steps succeeded, '' @
              show_int failed @ '' failed (continueOnError)'')
      else (''Failed'', ''StepsFailed'',
            show_int completed @ ''/'' @ show_int tot @ '' steps succeeded, '' @
            show_int failed @ '' failed''))"

definition terminal_phase :: "string \<Rightarrow> bool" where
  "terminal_phase p \<longleftrightarrow>
     p = ''Succeeded'' \<or> p = ''CompletedWithErrors'' \<or> p = ''Failed'' \<or> p = ''Cancelled''"

section \<open>Facts about the status table\<close>

lemma wrap64_double: "wrap64 (wrap64 a * 2) = wrap64 (a * 2)"
proof -
  have "(wrap64 a * 2 + 9223372036854775808) mod 18446744073709551616
      = (a * 2 + 9223372036854775808) mod 18446744073709551616"
  proof -
    have "wrap64 a = a - 18446744073709551616 * ((a + 9223372036854775808) div 18446744073709551616)"
      unfolding wrap64_def by (simp add: minus_mult_div_eq_mod [symmetric])
    then have "wrap64 a * 2 + 9223372036854775808 = a * 2 + 9223372036854775808
        + 18446744073709551616 * (- 2 * ((a + 9223372036854775808) div 18446744073709551616))"
      by (simp add: algebra_simps)
    then show ?thesis by (simp only: mod_mult_self2)
  qed
  then show ?thesis by (simp add: wrap64_def)
qed

lemma wrap64_idem [simp]: "wrap64 (wrap64 a) = wrap64 a"
  by (simp add: wrap64_id)

lemma double_n_wrap: "in64 d \<Longrightarrow> double_n n d = wrap64 (d * 2 ^ n)"
proof (induction n arbitrary: d)
  case 0
  then show ?case by (simp add: wrap64_id)
next
  case (Suc n)
  have pow: "wrap64 (wrap64 a * 2 ^ k) = wrap64 (a * 2 ^ k)" for a :: int and k :: nat
  proof (induction k)
    case 0
    then show ?case by simp
  next
    case (Suc k)
    have "wrap64 (wrap64 a * 2 ^ Suc k) = wrap64 (wrap64 (wrap64 a * 2 ^ k) * 2)"
      using wrap64_double [of "wrap64 a * 2 ^ k"] by (simp add: mult_ac)
    also have "\<dots> = wrap64 (wrap64 (a * 2 ^ k) * 2)" by (simp add: Suc)
    also have "\<dots> = wrap64 (a * 2 ^ Suc k)"
      using wrap64_double [of "a * 2 ^ k"] by (simp add: mult_ac)
    finally show ?case .
  qed
  have "double_n (Suc n) d = wrap64 (wrap64 (d * 2) * 2 ^ n)" by (simp add: Suc.IH)
  also have "\<dots> = wrap64 (d * 2 ^ Suc n)" by (simp only: pow) (simp add: mult_ac)
  finally show ?case .
qed

lemma ensure_in_range:
  "ensureStepStatus w n = (w1, i) \<Longrightarrow>
   i < length (wf_StepStatuses w1) \<and> ss_Name (wf_StepStatuses w1 ! i) = n"
  by (auto simp: ensureStepStatus_def zero_step_status_def dest: find_index_Some split: option.splits)

lemma ensure_keeps:
  "ensureStepStatus w n = (w1, i) \<Longrightarrow> wf_Spec w1 = wf_Spec w \<and> wf_Meta w1 = wf_Meta w \<and>
     (\<exists>extra. wf_StepStatuses w1 = wf_StepStatuses w @ extra)"
  by (auto simp: ensureStepStatus_def split: option.splits)

text \<open>A status for every name at most, kept by all operations on the table.\<close>

definition distinct_steps :: "Workflow \<Rightarrow> bool" where
  "distinct_steps w = distinct (map ss_Name (wf_StepStatuses w))"

lemma ensure_distinct:
  assumes "distinct_steps w" "ensureStepStatus w n = (w1, i)"
  shows "distinct_steps w1"
proof (cases "find_index (\<lambda>ss. ss_Name ss = n) (wf_StepStatuses w)")
  case None
  then have "n \<notin> set (map ss_Name (wf_StepStatuses w))" by (auto simp: find_index_None)
  with None assms show ?thesis
    by (auto simp: distinct_steps_def ensureStepStatus_def zero_step_status_def)
next
  case (Some j)
  with assms show ?thesis by (simp add: ensureStepStatus_def)
qed

lemma update_step_distinct:
  "distinct_steps w \<Longrightarrow> ss_Name (f (wf_StepStatuses w ! i)) = ss_Name (wf_StepStatuses w ! i) \<Longrightarrow>
   distinct_steps (update_step i f w)"
  by (simp add: distinct_steps_def update_step_def map_list_update_same)

lemma with_step_distinct:
  "distinct_steps w \<Longrightarrow> (\<And>ss. ss_Name (f ss) = ss_Name ss) \<Longrightarrow> distinct_steps (with_step_status n f w)"
  by (auto simp: with_step_status_def intro: update_step_distinct ensure_distinct split: prod.split)

section \<open>Properties\<close>

lemma has_phase_iff:
  "has_phase ps w n \<longleftrightarrow> (\<exists>ss \<in> set (wf_StepStatuses w). ss_Name ss = n \<and> ss_Phase ss \<in> set ps)"
  by (simp add: has_phase_def list_ex_iff)

lemma has_phase_cong: "set ps = set qs \<Longrightarrow> has_phase ps w n = has_phase qs w n"
  by (simp add: has_phase_iff)

lemma has_phase_append: "has_phase (ps @ qs) w n \<longleftrightarrow> has_phase ps w n \<or> has_phase qs w n"
  by (auto simp: has_phase_iff)

lemma finished_or_running:
  "has_phase [''Succeeded'', ''Failed'', ''Skipped'', ''Running''] w n
     \<longleftrightarrow> step_finished w n \<or> has_phase [''Running''] w n"
  using has_phase_append [of "[''Succeeded'', ''Failed'', ''Skipped'']" "[''Running'']" w n] by simp

lemma completed_finished: "step_completed w n \<Longrightarrow> step_finished w n"
  by (auto simp: has_phase_iff)

text \<open>A step is offered for execution exactly when it is a step of the specification without a
  finished or running status and without a job, and each of its dependencies has succeeded or was
  skipped; under \<open>continueOnError\<close> a failed dependency counts as well.\<close>

theorem executable_iff:
  "n \<in> set (findExecutableSteps w jobs) \<longleftrightarrow>
     (\<exists>step \<in> set (wf_Steps w). ws_Name step = n \<and>
        \<not> has_phase [''Succeeded'', ''Failed'', ''Skipped'', ''Running''] w n \<and> n \<notin> set jobs \<and>
        (\<forall>dep \<in> set (ws_DependsOn step).
           has_phase (if wf_Strategy w = ''continueOnError'' then [''Succeeded'', ''Skipped'', ''Failed'']
                      else [''Succeeded'', ''Skipped'']) w dep))"
proof -
  have fin: "step_finished w dep = has_phase [''Succeeded'', ''Skipped'', ''Failed''] w dep" for dep
    by (rule has_phase_cong) auto
  have ready: "deps_ready w step \<longleftrightarrow> (\<forall>dep \<in> set (ws_DependsOn step).
      has_phase (if wf_Strategy w = ''continueOnError'' then [''Succeeded'', ''Skipped'', ''Failed'']
                 else [''Succeeded'', ''Skipped'']) w dep)" for step
    by (simp add: deps_ready_def list_all_iff fin)
  have free: "\<not> (step_completed w m \<or> step_finished w m \<or> step_active w jobs m) \<longleftrightarrow>
      \<not> has_phase [''Succeeded'', ''Failed'', ''Skipped'', ''Running''] w m \<and> m \<notin> set jobs" for m
    unfolding finished_or_running step_active_def using completed_finished by blast
  show ?thesis unfolding findExecutableSteps_def free ready by (simp only: set_map set_filter) blast
qed

text \<open>The delay before retry \<open>n\<close> is the initial delay doubled \<open>n\<close> times in 64-bit arithmetic and
  capped at five minutes.\<close>

theorem retry_delay_closed_form:
  assumes "ws_RetryPolicy step = Some p" "in64 (initial_delay p)" "0 \<le> n"
  shows "getRetryDelay (Some step) n = min (5 * minute) (wrap64 (initial_delay p * 2 ^ nat n))"
  using assms by (simp add: getRetryDelay_def double_n_wrap min_def Let_def)

end
