(* ===== verification/Kube.thy ===== *)
theory Kube imports Memory_Store History_Store Job_Builder Workflow_Core begin

text \<open>
  The surroundings of the controllers: the Kubernetes API, pod logs, the clock, randomness, the
  environment and the helpers of \<^verbatim>\<open>apimachinery\<close> and \<^verbatim>\<open>controller-runtime\<close>.  None of it is code of the
  repository, so it is an argument of every definition that uses it: the record \<open>api\<close> has one field per
  call the controllers make, over a cluster state of any type \<open>'c\<close>, and \<open>ctx\<close> holds the rest.

  The state a reconciler changes is \<open>'c rt\<close>: the cluster, the two optional stores, the Prometheus calls
  and Kubernetes events so far, and how many identifiers were drawn.  One instant \<open>x_now\<close> stands for
  every \<^verbatim>\<open>time.Now()\<close> of one call of \<^verbatim>\<open>Reconcile\<close>, and the object a write sends is the object the code goes
  on with.
\<close>

section \<open>The API\<close>

datatype kerr = NotFound | AlreadyExists | Conflict | OtherError string

type_synonym key = "string \<times> string" \<comment> \<open>namespace and name\<close>

record 'c api =
  k_get_wf :: "'c \<Rightarrow> key \<Rightarrow> kerr + Workflow"
  k_list_wf :: "'c \<Rightarrow> string \<Rightarrow> kerr + Workflow list"
  k_update_wf :: "'c \<Rightarrow> Workflow \<Rightarrow> kerr option \<times> 'c"
  k_status_wf :: "'c \<Rightarrow> Workflow \<Rightarrow> kerr option \<times> 'c"
  k_get_agent :: "'c \<Rightarrow> key \<Rightarrow> kerr + Agent"
  k_status_agent :: "'c \<Rightarrow> Agent \<Rightarrow> kerr option \<times> 'c"
  k_patch_agent :: "'c \<Rightarrow> Agent \<Rightarrow> kerr option \<times> 'c"
  k_get_job :: "'c \<Rightarrow> key \<Rightarrow> kerr + Job"
  k_list_jobs :: "'c \<Rightarrow> string \<Rightarrow> string \<Rightarrow> kerr + Job list" \<comment> \<open>namespace, value of the workflow label\<close>
  k_create_job :: "'c \<Rightarrow> Job \<Rightarrow> kerr option \<times> 'c"
  k_delete_job :: "'c \<Rightarrow> key \<Rightarrow> 'c" \<comment> \<open>the callers drop the error\<close>
  k_get_cm :: "'c \<Rightarrow> key \<Rightarrow> kerr + ConfigMap"
  k_create_cm :: "'c \<Rightarrow> ConfigMap \<Rightarrow> kerr option \<times> 'c"
  k_update_cm :: "'c \<Rightarrow> ConfigMap \<Rightarrow> kerr option \<times> 'c"
  k_list_llm :: "'c \<Rightarrow> kerr + LLMProvider list" \<comment> \<open>in \<open>purko-system\<close>\<close>
  k_list_memprov :: "'c \<Rightarrow> kerr + MemoryProvider list" \<comment> \<open>in \<open>purko-system\<close>\<close>
  k_get_secret :: "'c \<Rightarrow> key \<Rightarrow> kerr + str_map"
  k_pods :: "'c \<Rightarrow> string \<Rightarrow> string \<Rightarrow> kerr + string list" \<comment> \<open>namespace, job name\<close>
  k_logs :: "'c \<Rightarrow> string \<Rightarrow> string \<Rightarrow> int option \<Rightarrow> kerr + string" \<comment> \<open>namespace, pod, tail lines\<close>

record 'c ctx =
  x_api :: "'c api"
  x_now :: time
  x_rand :: int \<comment> \<open>\<open>rand.Intn(0xFFFF)\<close>\<close>
  x_getenv :: "string \<Rightarrow> string"
  x_uuid :: "nat \<Rightarrow> string"
  x_fts :: fts
  x_clientset :: bool \<comment> \<open>is there a client for pod logs\<close>
  x_mcp :: "string option" \<comment> \<open>\<open>MCPServers.GetServersJSON\<close>, when configured\<close>
  x_recorder :: bool
  x_setcond :: "Condition list \<Rightarrow> Condition \<Rightarrow> Condition list" \<comment> \<open>\<open>meta.SetStatusCondition\<close>\<close>
  x_has_finalizer :: "ObjectMeta \<Rightarrow> string \<Rightarrow> bool"
  x_add_finalizer :: "ObjectMeta \<Rightarrow> string \<Rightarrow> ObjectMeta"
  x_remove_finalizer :: "ObjectMeta \<Rightarrow> string \<Rightarrow> ObjectMeta"
  x_order :: "(string \<times> Job) list \<Rightarrow> (string \<times> Job) list" \<comment> \<open>iteration order of the job map\<close>
  x_spare :: "nat \<Rightarrow> nat" \<comment> \<open>the capacity a slice that was read has beyond its length\<close>
  x_grow :: "nat \<Rightarrow> nat" \<comment> \<open>the capacity \<open>append\<close> reserves beyond the new length\<close>
  x_errtext :: "kerr \<Rightarrow> string" \<comment> \<open>\<open>err.Error()\<close>\<close>

section \<open>Effects\<close>

datatype metric =
    AgentInvocations string string string
  | AgentLatency string string int
  | WorkflowStepDuration string string string int
  | WorkflowCostUSD string string f64
  | AgentTokens string string int
  | AgentCostUSD string string f64
  | WorkflowDuration string string string int
  | WorkflowsActiveInc string
  | WorkflowsActiveDec string
  | AgentsTotal string string

record kevent =
  kv_object :: string
  kv_type :: string
  kv_reason :: string
  kv_message :: string

record 'c rt =
  rs_c :: 'c
  rs_hist :: "history option"
  rs_mem :: "mem_store option"
  rs_metrics :: "metric list"
  rs_events :: "kevent list"
  rs_uuid :: nat

definition metric :: "metric \<Rightarrow> 'c rt \<Rightarrow> 'c rt" where
  "metric m s = s\<lparr>rs_metrics := rs_metrics s @ [m]\<rparr>"

datatype outcome = Done | Requeue | RequeueAfter time | Fail kerr

section \<open>Deleting jobs\<close>

definition delete_job :: "'c ctx \<Rightarrow> key \<Rightarrow> 'c rt \<Rightarrow> 'c rt" where
  "delete_job x k s = s\<lparr>rs_c := k_delete_job (x_api x) (rs_c s) k\<rparr>"

definition stopJobs :: "'c ctx \<Rightarrow> Workflow \<Rightarrow> string list \<Rightarrow> 'c rt \<Rightarrow> 'c rt" where
  "stopJobs x w names s = foldl (\<lambda>s n. delete_job x (wf_Namespace w, n) s) s names"

definition deleteWorkflowJobs :: "'c ctx \<Rightarrow> Workflow \<Rightarrow> 'c rt \<Rightarrow> 'c rt" where
  "deleteWorkflowJobs x w s =
     (case k_list_jobs (x_api x) (rs_c s) (wf_Namespace w) (wf_Name w) of
        Inl _ \<Rightarrow> s
      | Inr jobs \<Rightarrow> foldl (\<lambda>s j. delete_job x (om_Namespace (jo_Meta j), jo_Name j) s) s jobs)"

text \<open>
  The job map: a later job of the same step replaces an earlier one, and a job without the step label
  is left out.
\<close>

definition job_map :: "Job list \<Rightarrow> (string \<times> Job) list" where
  "job_map jobs =
     foldl (\<lambda>m j. let n = jo_Label j labelStep in if n = [] then m else alist_put n j m) [] jobs"

definition getWorkflowJobs :: "'c ctx \<Rightarrow> Workflow \<Rightarrow> 'c rt \<Rightarrow> kerr + (string \<times> Job) list" where
  "getWorkflowJobs x w s =
     (case k_list_jobs (x_api x) (rs_c s) (wf_Namespace w) (wf_Name w) of
        Inl e \<Rightarrow> Inl e | Inr jobs \<Rightarrow> Inr (job_map jobs))"

section \<open>Pod logs\<close>

text \<open>
  \<^verbatim>\<open>bufio.Scanner\<close> over lines: a carriage return before the newline is dropped, and the first line that
  does not fit the buffer ends the scan.
\<close>

definition drop_cr :: "string \<Rightarrow> string" where
  "drop_cr l = (if l \<noteq> [] \<and> last l = CHR 0x0D then butlast l else l)"

definition scan_lines :: "int \<Rightarrow> string \<Rightarrow> string list" where
  "scan_lines buf text =
     (let ls = split_char CHR 0x0A text; ls' = (if last ls = [] then butlast ls else ls)
      in map drop_cr (takeWhile (\<lambda>l. int (length l) < buf) ls'))"

definition first_pod_log :: "'c ctx \<Rightarrow> Job \<Rightarrow> int option \<Rightarrow> 'c rt \<Rightarrow> string option \<times> (kerr + string)" where
  "first_pod_log x job tail_lines s =
     (let ns = om_Namespace (jo_Meta job) in
      case k_pods (x_api x) (rs_c s) ns (jo_Name job) of
        Inl e \<Rightarrow> (None, Inl e)
      | Inr [] \<Rightarrow> (None, Inl NotFound)
      | Inr (p # _) \<Rightarrow> (Some p, k_logs (x_api x) (rs_c s) ns p tail_lines))"

definition last_output :: "string list \<Rightarrow> string" where
  "last_output ls =
     (case filter (\<lambda>l. HasPrefix l ''OUTPUT:'') ls of
        [] \<Rightarrow> [] | os \<Rightarrow> TrimPrefix (last os) ''OUTPUT:'')"

definition readJobOutput :: "'c ctx \<Rightarrow> Job \<Rightarrow> 'c rt \<Rightarrow> string" where
  "readJobOutput x job s =
     (if \<not> x_clientset x then ''{\"note\":\"no clientset configured\"}''
      else (case snd (first_pod_log x job None s) of
              Inl _ \<Rightarrow> ''{}''
            | Inr text \<Rightarrow>
                (let out = last_output (scan_lines 1048576 text)
                 in if out \<noteq> [] \<and> json_valid out then out else ''{}'')))"

definition readJobError :: "'c ctx \<Rightarrow> Job \<Rightarrow> 'c rt \<Rightarrow> string" where
  "readJobError x job s =
     (if \<not> x_clientset x then ''job failed (no clientset for log reading)''
      else (case first_pod_log x job (Some 20) s of
              (None, _) \<Rightarrow> ''job failed (no pods found)''
            | (Some _, Inl e) \<Rightarrow> ''job failed (log read error: '' @ x_errtext x e @ '')''
            | (Some _, Inr text) \<Rightarrow>
                (let ls = scan_lines 65536 text
                 in join [CHR 0x0A] (if 5 < length ls then drop (length ls - 5) ls else ls))))"

section \<open>Step outputs in a ConfigMap\<close>

definition outputs_name :: "Workflow \<Rightarrow> string" where
  "outputs_name w = wf_Name w @ ''-outputs''"

definition storeStepOutput :: "'c ctx \<Rightarrow> Workflow \<Rightarrow> string \<Rightarrow> string \<Rightarrow> 'c rt \<Rightarrow> kerr option \<times> 'c rt" where
  "storeStepOutput x w stepName output s =
     (let k = (wf_Namespace w, outputs_name w) in
      case k_get_cm (x_api x) (rs_c s) k of
        Inl NotFound \<Rightarrow>
          (let cm = \<lparr>cm_Meta = empty_meta\<lparr>om_Name := outputs_name w, om_Namespace := wf_Namespace w,
                       om_OwnerReferences := [\<lparr>or_APIVersion = ''purko.io/v1alpha1'', or_Kind = ''Workflow'',
                         or_Name = wf_Name w, or_UID = om_UID (wf_Meta w), or_Controller = Some True\<rparr>]\<rparr>,
                     cm_Data = [stepName \<mapsto> output]\<rparr>;
               (err, c) = k_create_cm (x_api x) (rs_c s) cm
           in (err, s\<lparr>rs_c := c\<rparr>))
      | Inl e \<Rightarrow> (Some e, s)
      | Inr cm \<Rightarrow>
          (let (err, c) = k_update_cm (x_api x) (rs_c s) (cm\<lparr>cm_Data := (cm_Data cm)(stepName \<mapsto> output)\<rparr>)
           in (err, s\<lparr>rs_c := c\<rparr>)))"

definition getStepOutputs :: "'c ctx \<Rightarrow> Workflow \<Rightarrow> 'c rt \<Rightarrow> str_map" where
  "getStepOutputs x w s =
     (case k_get_cm (x_api x) (rs_c s) (wf_Namespace w, outputs_name w) of
        Inl _ \<Rightarrow> Map.empty | Inr cm \<Rightarrow> cm_Data cm)"

section \<open>Choosing a model provider\<close>

text \<open>
  The loop: a provider with the name ends it; otherwise the last one marked as default is kept.
\<close>

fun pick_provider :: "('p \<Rightarrow> bool) \<Rightarrow> ('p \<Rightarrow> bool) \<Rightarrow> 'p option \<Rightarrow> 'p list \<Rightarrow> 'p option" where
  "pick_provider named_ok is_def d [] = d"
| "pick_provider named_ok is_def d (p # ps) =
     (if named_ok p then Some p else pick_provider named_ok is_def (if is_def p then Some p else d) ps)"

definition provider_key :: "'c ctx \<Rightarrow> LLMProvider \<Rightarrow> 'c rt \<Rightarrow> string" where
  "provider_key x p s =
     (case lp_Credentials (llm_Spec p) of
        None \<Rightarrow> []
      | Some cr \<Rightarrow>
          if cr_SecretRef cr = [] then []
          else (case k_get_secret (x_api x) (rs_c s) (om_Namespace (llm_Meta p), cr_SecretRef cr) of
                  Inl _ \<Rightarrow> []
                | Inr data \<Rightarrow>
                    get_str data (if cr_SecretKey cr = [] then ''api-key'' else cr_SecretKey cr)))"

definition resolveLLMProvider :: "'c ctx \<Rightarrow> string \<Rightarrow> 'c rt \<Rightarrow> LLMProvider option \<times> string" where
  "resolveLLMProvider x providerName s =
     (case k_list_llm (x_api x) (rs_c s) of
        Inl _ \<Rightarrow> (None, [])
      | Inr ps \<Rightarrow>
          (case pick_provider (\<lambda>p. om_Name (llm_Meta p) = providerName) (\<lambda>p. lp_Default (llm_Spec p)) None ps of
             None \<Rightarrow> (None, [])
           | Some p \<Rightarrow> (Some p, provider_key x p s)))"

lemma pick_provider_named:
  "(\<exists>p \<in> set ps. named_ok p) \<Longrightarrow> pick_provider named_ok is_def d ps = find named_ok ps"
  by (induction ps arbitrary: d) auto

lemma pick_provider_default:
  "\<not> (\<exists>p \<in> set ps. named_ok p) \<Longrightarrow> pick_provider named_ok is_def d ps =
     (case filter is_def ps of [] \<Rightarrow> d | ds \<Rightarrow> Some (last ds))"
  by (induction ps arbitrary: d) (auto split: list.split)

text \<open>An agent's provider is the one of its name when that exists; otherwise a provider marked as
  default, the last one listed; and none when there is no default.\<close>

theorem provider_resolution:
  assumes "k_list_llm (x_api x) (rs_c s) = Inr ps"
  shows "fst (resolveLLMProvider x name s) =
    (if \<exists>p \<in> set ps. om_Name (llm_Meta p) = name then find (\<lambda>p. om_Name (llm_Meta p) = name) ps
     else (case filter (\<lambda>p. lp_Default (llm_Spec p)) ps of [] \<Rightarrow> None | ds \<Rightarrow> Some (last ds)))"
proof -
  let ?pick = "pick_provider (\<lambda>p. om_Name (llm_Meta p) = name) (\<lambda>p. lp_Default (llm_Spec p)) None ps"
  have "fst (resolveLLMProvider x name s) = ?pick"
    using assms by (simp add: resolveLLMProvider_def split: option.split)
  then show ?thesis
    using pick_provider_named [of ps "\<lambda>p. om_Name (llm_Meta p) = name"]
      pick_provider_default [of ps "\<lambda>p. om_Name (llm_Meta p) = name"] by auto
qed

end
