(* ===== verification/Recording.thy ===== *)
theory Recording imports Kube begin

text \<open>
  \<^verbatim>\<open>controllers/workflow_history.go\<close> and \<^verbatim>\<open>setPhase\<close>: every phase transition is written to the
  workflow's status and mirrored into the history archive; finished steps are archived with their
  tool calls.  Errors of the archive are logged and dropped.
\<close>

section \<open>Runs\<close>

abbreviation run_id_key :: string where "run_id_key \<equiv> ''purko.io/run-id''"

definition historyRunID :: "Workflow \<Rightarrow> string" where
  "historyRunID w =
     (let r = wf_Annotation w run_id_key in if r = [] then [] else wf_Name w @ ''-'' @ r)"

definition workflow_run :: "Workflow \<Rightarrow> WorkflowRun" where
  "workflow_run w =
     (let st = wf_Status w; ps = wp_Parameters (wf_Spec w) in
      \<lparr>hr_ID = historyRunID w, hr_Name = wf_Name w, hr_Namespace = wf_Namespace w, hr_Phase = wt_Phase st,
       hr_Parameters = (if ps = [] then [] else marshal_str_map ps), hr_TotalSteps = wt_TotalSteps st,
       hr_CompletedSteps = wt_CompletedSteps st, hr_FailedSteps = wt_FailedSteps st,
       hr_StartTime = wt_StartTime st, hr_CompletionTime = wt_CompletionTime st,
       hr_Message = wt_Message st, hr_CreatedAt = None\<rparr>)"

definition recordWorkflowHistory :: "'c ctx \<Rightarrow> Workflow \<Rightarrow> 'c rt \<Rightarrow> 'c rt" where
  "recordWorkflowHistory x w s =
     (case rs_hist s of
        None \<Rightarrow> s
      | Some h \<Rightarrow>
          if historyRunID w = [] then s
          else s\<lparr>rs_hist := Some (snd (SaveWorkflowRun h (x_now x) (workflow_run w)))\<rparr>)"

section \<open>Steps and tool calls\<close>

text \<open>Members of the object a document is, of the object a member is, and elements of a list.\<close>

definition doc_members :: "string \<Rightarrow> (string \<times> string \<times> jtree) list" where
  "doc_members s = (case parse_json s of Some (TObj ms) \<Rightarrow> ms | _ \<Rightarrow> [])"

definition sub_members :: "string \<Rightarrow> (string \<times> string \<times> jtree) list \<Rightarrow> (string \<times> string \<times> jtree) list" where
  "sub_members k ms = (case struct_field k ms of Some (TObj ns) \<Rightarrow> ns | _ \<Rightarrow> [])"

definition or_zero :: "'a \<Rightarrow> 'a option \<Rightarrow> 'a" where
  "or_zero z v = (case v of Some y \<Rightarrow> y | None \<Rightarrow> z)"

text \<open>A field of the wrong type is an error that leaves this field zero and does not stop the others.\<close>

definition metrics_fields :: "string \<Rightarrow> int \<times> int \<times> f64" where
  "metrics_fields output =
     (let ms = sub_members ''_metrics'' (doc_members output) in
      (or_zero 0 (field_int ''tokens_in'' ms), or_zero 0 (field_int ''tokens_out'' ms),
       or_zero (Fin 0) (field_f64 ''cost_usd'' ms)))"

definition f64_mul1000 :: "f64 \<Rightarrow> f64" where
  "f64_mul1000 v = (case v of Fin q \<Rightarrow> f64_of_rat (q * 1000) | y \<Rightarrow> y)"

definition f64_to_int :: "f64 \<Rightarrow> int" where
  "f64_to_int v = (case v of Fin q \<Rightarrow> (if q < 0 then - \<lfloor>- q\<rfloor> else \<lfloor>q\<rfloor>) | _ \<Rightarrow> 0)"

record call_log =
  cl_tool :: string
  cl_server :: string
  cl_elapsed :: f64
  cl_preview :: string
  cl_bytes :: int
  cl_status :: string

definition decode_call :: "jtree \<Rightarrow> call_log option" where
  "decode_call v =
     (case (case v of TObj ms \<Rightarrow> Some ms | TNull \<Rightarrow> Some [] | _ \<Rightarrow> None) of
        None \<Rightarrow> None
      | Some ms \<Rightarrow>
          (case (field_str ''tool'' ms, field_str ''server'' ms, field_f64 ''elapsed_s'' ms,
                 field_str ''input_preview'' ms, field_int ''result_bytes'' ms, field_str ''status'' ms) of
             (Some a, Some b, Some c, Some d, Some e, Some f) \<Rightarrow>
               Some \<lparr>cl_tool = a, cl_server = b, cl_elapsed = c, cl_preview = d, cl_bytes = e, cl_status = f\<rparr>
           | _ \<Rightarrow> None))"

definition decode_calls :: "string \<Rightarrow> call_log list option" where
  "decode_calls output =
     (case parse_json output of
        Some (TObj ms) \<Rightarrow>
          (case struct_field ''tool_call_log'' ms of
             None \<Rightarrow> Some []
           | Some (TArr vs) \<Rightarrow> those (map (\<lambda>(_, v). decode_call v) vs)
           | _ \<Rightarrow> None)
      | Some TNull \<Rightarrow> Some []
      | _ \<Rightarrow> None)"

definition to_tool_call :: "call_log \<Rightarrow> ToolCall" where
  "to_tool_call c =
     \<lparr>tc_ID = 0, tc_StepExecutionID = [], tc_ToolName = cl_tool c, tc_ToolType = ''mcp'',
      tc_ToolServer = cl_server c,
      tc_InputPreview = (if 500 < length (cl_preview c) then take 500 (cl_preview c) else cl_preview c),
      tc_ResultBytes = cl_bytes c, tc_ElapsedMs = f64_to_int (f64_mul1000 (cl_elapsed c)),
      tc_AutonomyLevel = [], tc_Timestamp = None\<rparr>"

definition parseToolCalls :: "string \<Rightarrow> ToolCall list" where
  "parseToolCalls output =
     (if output = [] then []
      else (case decode_calls output of
              None \<Rightarrow> []
            | Some cs \<Rightarrow> map to_tool_call (filter (\<lambda>c. cl_status c \<noteq> ''blocked'') cs)))"

definition step_execution :: "Workflow \<Rightarrow> StepStatus \<Rightarrow> string \<Rightarrow> string \<Rightarrow> StepExecution" where
  "step_execution w ss agentName output =
     (let runID = historyRunID w; (tin, tout, cost) = (if output = [] then (0, 0, Fin 0) else metrics_fields output) in
      \<lparr>he_ID = runID @ ''-'' @ ss_Name ss @ ''-'' @ show_int (ss_RetryCount ss), he_WorkflowRunID = runID,
       he_StepName = ss_Name ss, he_AgentName = agentName, he_Phase = ss_Phase ss, he_Input = [],
       he_Output = output, he_Error = ss_Error ss, he_RetryCount = ss_RetryCount ss,
       he_JobName = ss_JobName ss, he_StartTime = ss_StartTime ss, he_CompletionTime = ss_CompletionTime ss,
       he_TokensIn = tin, he_TokensOut = tout, he_CostUSD = cost, he_CreatedAt = None\<rparr>)"

definition recordStepHistory :: "'c ctx \<Rightarrow> Workflow \<Rightarrow> StepStatus \<Rightarrow> string \<Rightarrow> string \<Rightarrow> 'c rt \<Rightarrow> 'c rt" where
  "recordStepHistory x w ss agentName output s =
     (case rs_hist s of
        None \<Rightarrow> s
      | Some h \<Rightarrow>
          if historyRunID w = [] then s
          else (let step = step_execution w ss agentName output in
            case SaveStepExecution h (x_now x) step of
              (Inl _, h1) \<Rightarrow> s\<lparr>rs_hist := Some h1\<rparr>
            | (Inr _, h1) \<Rightarrow>
                (let calls = parseToolCalls output
                 in s\<lparr>rs_hist := Some (if calls = [] then h1 else snd (SaveToolCalls h1 (x_now x) (he_ID step) calls))\<rparr>)))"

section \<open>Phase transitions\<close>

definition complete_condition :: "'c ctx \<Rightarrow> string \<Rightarrow> string \<Rightarrow> string \<Rightarrow> Condition" where
  "complete_condition x phase reason message =
     \<lparr>c_Type = ''Complete'', c_Status = (if phase = ''Succeeded'' then ''True'' else ''False''),
      c_LastTransitionTime = x_now x, c_Reason = reason, c_Message = message\<rparr>"

definition with_phase :: "'c ctx \<Rightarrow> string \<Rightarrow> string \<Rightarrow> string \<Rightarrow> Workflow \<Rightarrow> Workflow" where
  "with_phase x phase reason message w =
     upd_status (\<lambda>st. st\<lparr>wt_Phase := phase, wt_Message := message,
       wt_Conditions := x_setcond x (wt_Conditions st) (complete_condition x phase reason message)\<rparr>) w"

definition setPhase :: "'c ctx \<Rightarrow> Workflow \<Rightarrow> string \<Rightarrow> string \<Rightarrow> string \<Rightarrow> 'c rt \<Rightarrow>
    kerr option \<times> Workflow \<times> 'c rt" where
  "setPhase x w phase reason message s =
     (let w1 = with_phase x phase reason message w;
          (err, c) = k_status_wf (x_api x) (rs_c s) w1;
          s1 = s\<lparr>rs_c := c\<rparr>
      in case err of
           Some e \<Rightarrow> (Some e, w1, s1)
         | None \<Rightarrow> (None, w1, recordWorkflowHistory x w1 s1))"

section \<open>Facts\<close>

lemma with_phase_simps [simp]:
  "wf_Phase (with_phase x p r m w) = p"
  "wf_Spec (with_phase x p r m w) = wf_Spec w"
  "wf_Meta (with_phase x p r m w) = wf_Meta w"
  "wf_StepStatuses (with_phase x p r m w) = wf_StepStatuses w"
  "wt_CompletedSteps (wf_Status (with_phase x p r m w)) = wt_CompletedSteps (wf_Status w)"
  "wt_FailedSteps (wf_Status (with_phase x p r m w)) = wt_FailedSteps (wf_Status w)"
  "wt_CompletionTime (wf_Status (with_phase x p r m w)) = wt_CompletionTime (wf_Status w)"
  "wt_StartTime (wf_Status (with_phase x p r m w)) = wt_StartTime (wf_Status w)"
  by (simp_all add: with_phase_def)

lemma record_history_c [simp]: "rs_c (recordWorkflowHistory x w s) = rs_c s"
  by (simp add: recordWorkflowHistory_def split: option.split)

lemma setPhase_workflow [simp]: "fst (snd (setPhase x w p r m s)) = with_phase x p r m w"
  by (simp add: setPhase_def Let_def split: prod.split option.split)

context run_archive
begin

lemma recorded_phase:
  assumes "save h now (workflow_run w) = (Inr (), h')" "times_ok now (workflow_run w)"
  shows "\<exists>r. getr h' (historyRunID w) = Inr r \<and> hr_Phase r = wf_Phase w \<and>
    hr_Message r = wt_Message (wf_Status w) \<and>
    hr_CompletedSteps r = wt_CompletedSteps (wf_Status w) \<and> hr_FailedSteps r = wt_FailedSteps (wf_Status w) \<and>
    hr_CompletionTime r = wt_CompletionTime (wf_Status w)"
  using save_get [OF assms] by (simp add: workflow_run_def Let_def merged_def split: sum.split)

end

lemma save_open: "hs_open h \<Longrightarrow> fst (SaveWorkflowRun h now run) = Inr ()"
  by (simp add: SaveWorkflowRun_def Let_def)

lemma historyRunID_with_phase [simp]: "historyRunID (with_phase x p r m w) = historyRunID w"
  by (simp add: historyRunID_def Let_def)

lemma times_ok_with_phase [simp]:
  "times_ok now (workflow_run (with_phase x p r m w)) = times_ok now (workflow_run w)"
  by (simp add: times_ok_def workflow_run_def Let_def)

lemma historyRunID_eq:
  "historyRunID w = (if wf_Annotation w run_id_key = [] then [] else wf_Name w @ ''-'' @ wf_Annotation w run_id_key)"
  by (simp add: historyRunID_def Let_def)

lemma setPhase_history:
  assumes "setPhase x w phase reason msg s = (err, w', s')"
  shows "rs_hist s' = (case (err, rs_hist s) of
      (None, Some h) \<Rightarrow> (if historyRunID w = [] then Some h
        else Some (snd (SaveWorkflowRun h (x_now x) (workflow_run (with_phase x phase reason msg w)))))
    | (_, hist) \<Rightarrow> hist)"
  using assms
  by (auto simp: setPhase_def Let_def recordWorkflowHistory_def split: prod.splits option.splits)

text \<open>C39: A phase transition sets the new phase on the workflow it returns.  When its status write fails, the
  archive is as it was.  When the write succeeds, a controller without an archive still has none, and the
  archive is as it was when it is closed or the workflow has no run-id annotation yet (a workflow cancelled
  that early is not archived).  Otherwise no other run in the archive changes, and the run, under the
  workflow's name and run id, reads back with the new phase, the new message and the step counts and
  completion time of the workflow, provided that the current time and the run's start and completion times
  lie in the years that the archive's text form of times can hold.\<close>

theorem phase_mirrored:
  assumes "setPhase x w phase reason msg s = (err, w', s')"
  shows "wf_Phase w' = phase \<and>
    (case rs_hist s of
       None \<Rightarrow> rs_hist s' = None
     | Some h \<Rightarrow>
         if err \<noteq> None \<or> \<not> hs_open h \<or> wf_Annotation w ''purko.io/run-id'' = [] then rs_hist s' = Some h
         else (let i = wf_Name w @ ''-'' @ wf_Annotation w ''purko.io/run-id'' in
           \<exists>h'. rs_hist s' = Some h' \<and> (\<forall>j. j \<noteq> i \<longrightarrow> GetWorkflowRun h' j = GetWorkflowRun h j) \<and>
             (times_ok (x_now x) (workflow_run w) \<longrightarrow>
                (\<exists>r. GetWorkflowRun h' i = Inr r \<and> hr_Phase r = phase \<and> hr_Message r = msg \<and>
                   hr_CompletedSteps r = wt_CompletedSteps (wf_Status w) \<and>
                   hr_FailedSteps r = wt_FailedSteps (wf_Status w) \<and>
                   hr_CompletionTime r = wt_CompletionTime (wf_Status w)))))"
proof -
  let ?w = "with_phase x phase reason msg w"
  note hist = setPhase_history [OF assms]
  have "w' = ?w" using assms setPhase_workflow [of x w phase reason msg s] by simp
  moreover have "\<exists>h'. rs_hist s' = Some h' \<and> (\<forall>j. j \<noteq> historyRunID w \<longrightarrow> GetWorkflowRun h' j = GetWorkflowRun h j) \<and>
      (times_ok (x_now x) (workflow_run w) \<longrightarrow>
        (\<exists>r. GetWorkflowRun h' (historyRunID w) = Inr r \<and> hr_Phase r = phase \<and> hr_Message r = msg \<and>
           hr_CompletedSteps r = wt_CompletedSteps (wf_Status w) \<and>
           hr_FailedSteps r = wt_FailedSteps (wf_Status w) \<and>
           hr_CompletionTime r = wt_CompletionTime (wf_Status w)))"
    if saved: "rs_hist s = Some h" "err = None" "hs_open h" "historyRunID w \<noteq> []" for h
  proof -
    obtain h' where h': "SaveWorkflowRun h (x_now x) (workflow_run ?w) = (Inr (), h')"
      using save_open [OF saved(3), of "x_now x" "workflow_run ?w"] by (metis prod.collapse)
    have "hr_ID (workflow_run ?w) = historyRunID w" by (simp add: workflow_run_def Let_def)
    moreover have "wt_Message (wf_Status ?w) = msg" by (simp add: with_phase_def)
    ultimately show ?thesis
      using saved hist h' sqlite.save_other [OF h'] sqlite.recorded_phase [OF h'] by simp
  qed
  moreover have "rs_hist s' = Some h" if "rs_hist s = Some h" "err \<noteq> None \<or> \<not> hs_open h \<or> historyRunID w = []" for h
    using hist that by (auto simp: SaveWorkflowRun_def Let_def split: option.splits)
  ultimately show ?thesis
    using hist unfolding historyRunID_eq by (cases "rs_hist s") (auto split: option.splits)
qed

end
