(* ===== verification/Sample_Cluster.thy ===== *)
theory Sample_Cluster imports Kube begin

text \<open>
  A cluster held in lists, as one instance of the parameters the controllers take, and small workflows
  and agents.  The witnesses evaluate the model on it; no property depends on it.
\<close>

section \<open>A cluster in lists\<close>

record cluster =
  cl_wfs :: "Workflow list"
  cl_agents :: "Agent list"
  cl_jobs :: "Job list"
  cl_cms :: "ConfigMap list"
  cl_llms :: "LLMProvider list"
  cl_mems :: "MemoryProvider list"
  cl_ids :: "(string \<times> key) list" \<comment> \<open>service accounts, roles and bindings, by kind\<close>

definition key_of :: "ObjectMeta \<Rightarrow> key" where
  "key_of m = (om_Namespace m, om_Name m)"

definition get_obj :: "('o \<Rightarrow> ObjectMeta) \<Rightarrow> 'o list \<Rightarrow> key \<Rightarrow> kerr + 'o" where
  "get_obj meta os k = (case find (\<lambda>v. key_of (meta v) = k) os of None \<Rightarrow> Inl NotFound | Some v \<Rightarrow> Inr v)"

definition replace_obj :: "('o \<Rightarrow> ObjectMeta) \<Rightarrow> ('o \<Rightarrow> 'o) \<Rightarrow> key \<Rightarrow> 'o list \<Rightarrow> 'o list" where
  "replace_obj meta f k os = map (\<lambda>v. if key_of (meta v) = k then f v else v) os"

definition has_obj :: "('o \<Rightarrow> ObjectMeta) \<Rightarrow> 'o list \<Rightarrow> key \<Rightarrow> bool" where
  "has_obj meta os k = list_ex (\<lambda>v. key_of (meta v) = k) os"

definition list_api :: "cluster api" where
  "list_api = \<lparr>
     k_get_wf = \<lambda>c k. get_obj wf_Meta (cl_wfs c) k,
     k_list_wf = \<lambda>c ns. Inr (filter (\<lambda>w. wf_Namespace w = ns) (cl_wfs c)),
     k_update_wf = \<lambda>c w. (None, c\<lparr>cl_wfs := replace_obj wf_Meta
        (\<lambda>v. v\<lparr>wf_Meta := wf_Meta w, wf_Spec := wf_Spec w\<rparr>) (key_of (wf_Meta w)) (cl_wfs c)\<rparr>),
     k_status_wf = \<lambda>c w. (None, c\<lparr>cl_wfs := replace_obj wf_Meta
        (\<lambda>v. v\<lparr>wf_Status := wf_Status w\<rparr>) (key_of (wf_Meta w)) (cl_wfs c)\<rparr>),
     k_get_agent = \<lambda>c k. get_obj ag_Meta (cl_agents c) k,
     k_status_agent = \<lambda>c a. (None, c\<lparr>cl_agents := replace_obj ag_Meta
        (\<lambda>v. v\<lparr>ag_Status := ag_Status a\<rparr>) (key_of (ag_Meta a)) (cl_agents c)\<rparr>),
     k_patch_agent = \<lambda>c a. (None, c\<lparr>cl_agents := replace_obj ag_Meta
        (\<lambda>v. v\<lparr>ag_Meta := ag_Meta a\<rparr>) (key_of (ag_Meta a)) (cl_agents c)\<rparr>),
     k_get_job = \<lambda>c k. get_obj jo_Meta (cl_jobs c) k,
     k_list_jobs = \<lambda>c ns wf. Inr (filter (\<lambda>j. om_Namespace (jo_Meta j) = ns \<and> jo_Label j labelWorkflow = wf)
        (cl_jobs c)),
     k_create_job = \<lambda>c j. if has_obj jo_Meta (cl_jobs c) (key_of (jo_Meta j)) then (Some AlreadyExists, c)
        else (None, c\<lparr>cl_jobs := cl_jobs c @ [j]\<rparr>),
     k_delete_job = \<lambda>c k. c\<lparr>cl_jobs := filter (\<lambda>j. key_of (jo_Meta j) \<noteq> k) (cl_jobs c)\<rparr>,
     k_get_cm = \<lambda>c k. get_obj cm_Meta (cl_cms c) k,
     k_create_cm = \<lambda>c m. if has_obj cm_Meta (cl_cms c) (key_of (cm_Meta m)) then (Some AlreadyExists, c)
        else (None, c\<lparr>cl_cms := cl_cms c @ [m]\<rparr>),
     k_update_cm = \<lambda>c m. (None, c\<lparr>cl_cms := replace_obj cm_Meta (\<lambda>_. m) (key_of (cm_Meta m)) (cl_cms c)\<rparr>),
     k_list_llm = \<lambda>c. Inr (cl_llms c),
     k_list_memprov = \<lambda>c. Inr (cl_mems c),
     k_get_secret = \<lambda>c k. Inl NotFound,
     k_pods = \<lambda>c ns j. Inr [],
     k_logs = \<lambda>c ns p n. Inl NotFound\<rparr>"

definition list_ctx :: "cluster ctx" where
  "list_ctx = \<lparr>
     x_api = list_api, x_now = 1000000000000, x_rand = 255, x_getenv = \<lambda>_. [],
     x_uuid = show_nat, x_fts = \<lparr>fts_match = \<lambda>q rows r. False, fts_rank = \<lambda>q rows r. 0\<rparr>, x_clientset = True, x_mcp = None, x_recorder = True,
     x_setcond = \<lambda>cs c. c # filter (\<lambda>d. c_Type d \<noteq> c_Type c) cs,
     x_has_finalizer = \<lambda>m f. f \<in> set (om_Finalizers m),
     x_add_finalizer = \<lambda>m f. m\<lparr>om_Finalizers := om_Finalizers m @ [f]\<rparr>,
     x_remove_finalizer = \<lambda>m f. m\<lparr>om_Finalizers := filter (\<lambda>g. g \<noteq> f) (om_Finalizers m)\<rparr>,
     x_order = \<lambda>js. js, x_spare = \<lambda>_. 0, x_grow = \<lambda>n. n, x_errtext = \<lambda>_. ''error''\<rparr>"

definition no_cluster :: cluster where
  "no_cluster = \<lparr>cl_wfs = [], cl_agents = [], cl_jobs = [], cl_cms = [], cl_llms = [], cl_mems = [], cl_ids = []\<rparr>"

definition list_rt :: "cluster \<Rightarrow> cluster rt" where
  "list_rt c = \<lparr>rs_c = c, rs_hist = None, rs_mem = None, rs_metrics = [], rs_events = [], rs_uuid = 0\<rparr>"

section \<open>A workflow and its agent\<close>

definition named_meta :: "string \<Rightarrow> ObjectMeta" where
  "named_meta n = empty_meta\<lparr>om_Name := n, om_Namespace := ''team''\<rparr>"

definition plain_step :: "string \<Rightarrow> string list \<Rightarrow> WorkflowStep" where
  "plain_step n deps =
     \<lparr>ws_Name = n, ws_AgentRef = \<lparr>ar_Name = ''scout'', ar_Namespace = []\<rparr>, ws_Type = ''agent'',
      ws_Description = [], ws_DependsOn = deps, ws_InputFrom = [], ws_RetryPolicy = None,
      ws_StepTimeout = None, ws_ConditionExpr = [], ws_Input = None, ws_Output = None, ws_Config = None\<rparr>"

definition plain_spec :: "WorkflowStep list \<Rightarrow> WorkflowSpec" where
  "plain_spec steps =
     \<lparr>wp_Description = [], wp_Steps = steps, wp_Parallelism = Some 2, wp_FailureStrategy = ''failFast'',
      wp_Parameters = [], wp_Edges = [], wp_Trigger = None, wp_Concurrency = None,
      wp_ErrorHandling = None, wp_Observability = None, wp_Timeout = None, wp_Variables = [],
      wp_Hooks = None\<rparr>"

definition plain_workflow :: "WorkflowStep list \<Rightarrow> StepStatus list \<Rightarrow> Workflow" where
  "plain_workflow steps sss =
     \<lparr>wf_Meta = (named_meta ''flow'')\<lparr>om_Finalizers := [''purko.io/workflow-finalizer''],
        om_Annotations := [''purko.io/run-id'' \<mapsto> ''r1'']\<rparr>,
      wf_Spec = plain_spec steps,
      wf_Status = zero_status\<lparr>wt_Phase := ''Running'', wt_TotalSteps := int (length steps),
        wt_StartTime := Some 900000000000, wt_StepStatuses := sss\<rparr>\<rparr>"

definition step_in :: "string \<Rightarrow> string \<Rightarrow> StepStatus" where
  "step_in n phase = (zero_step_status n)\<lparr>ss_Phase := phase, ss_JobName := ''flow-'' @ n\<rparr>"

definition plain_job :: "string \<Rightarrow> string \<Rightarrow> Job" where
  "plain_job n cond =
     \<lparr>jo_Meta = (named_meta (''flow-'' @ n))\<lparr>om_Labels := [labelWorkflow \<mapsto> ''flow'', labelStep \<mapsto> n]\<rparr>,
      jo_BackoffLimit = 0, jo_ActiveDeadlineSeconds = 600, jo_TTLSecondsAfterFinished = 3600,
      jo_PodLabels = Map.empty,
      jo_Pod = \<lparr>pd_RestartPolicy = [], pd_ServiceAccountName = [], pd_HostNetwork = False, pd_DNSPolicy = [],
        pd_ContainerName = [], pd_Image = [], pd_ImagePullPolicy = [], pd_Env = [], pd_VolumeMounts = [],
        pd_Volumes = []\<rparr>,
      jo_Active = (if cond = [] then 1 else 0), jo_StartTime = None, jo_CompletionTime = None,
      jo_Conditions = (if cond = [] then [] else [\<lparr>jc_Type = cond, jc_Status = ''True''\<rparr>])\<rparr>"

definition plain_agent :: Agent where
  "plain_agent =
     \<lparr>ag_Meta = named_meta ''scout'',
      ag_Spec = \<lparr>as_Type = ''executor'', as_Model = \<lparr>mo_Provider = ''p'', mo_Name = ''m'', mo_Version = [],
          mo_Temperature = None, mo_MaxTokens = None, mo_TopP = None, mo_FrequencyPenalty = None,
          mo_PresencePenalty = None, mo_CredentialsSecretRef = None, mo_Fallback = None\<rparr>,
        as_Role = [], as_SystemPrompt = [], as_Instructions = [], as_AutonomyLevel = [], as_ShuHaRi = None,
        as_ApprovalPolicy = None, as_ConfidenceThreshold = None, as_Replicas = None, as_MaxConcurrency = None,
        as_Timeout = [], as_Tools = [], as_Memory = None, as_Runtime = None, as_Scaling = None,
        as_Guardrails = None, as_Observability = None, as_Lifecycle = None, as_Schedule = None,
        as_BlastRadius = None, as_Escalation = None, as_Capabilities = []\<rparr>,
      ag_Status = \<lparr>at_Phase = [], at_Message = [], at_ObservedGeneration = 0, at_AvailableReplicas = 0,
        at_TotalTasksProcessed = 0, at_ErrorCount = 0, at_StartTime = None, at_CompletionTime = None,
        at_LastActiveTime = None, at_Conditions = [], at_Metrics = None, at_ShuHaRi = None\<rparr>\<rparr>"

definition plain_provider :: "string \<Rightarrow> bool \<Rightarrow> LLMProvider" where
  "plain_provider n def =
     \<lparr>llm_Meta = empty_meta\<lparr>om_Name := n, om_Namespace := ''purko-system''\<rparr>,
      llm_Spec = \<lparr>lp_Type = ''openai'', lp_Endpoint = [], lp_APIFormat = [], lp_Model = [], lp_Models = [],
        lp_Config = Map.empty, lp_Credentials = None, lp_HealthCheck = None, lp_Fallback = None,
        lp_Default = def\<rparr>,
      llm_Status = \<lparr>ls_Phase = [], ls_Message = [], ls_LastHealthCheck = None, ls_AvailableModels = 0,
        ls_Conditions = []\<rparr>\<rparr>"

lemmas sample_defs = list_ctx_def list_api_def list_rt_def no_cluster_def key_of_def get_obj_def replace_obj_def
  has_obj_def named_meta_def plain_step_def plain_spec_def plain_workflow_def step_in_def plain_job_def
  plain_agent_def plain_provider_def empty_meta_def zero_status_def zero_step_status_def

end
