(* ===== verification/Witnesses.thy ===== *)
theory Witnesses imports Recording Sample_Cluster begin

text \<open>
  The properties of the pure parts of the controller at concrete inputs, where their hypotheses hold.
\<close>

abbreviation diamond :: Workflow where
  "diamond \<equiv> plain_workflow [plain_step ''a'' [], plain_step ''b'' [''a''], plain_step ''c'' [''b'']]
     [step_in ''a'' ''Succeeded'']"

lemma executable_iff_witness:
  "findExecutableSteps diamond [] = [''b''] \<and>
   (\<exists>step \<in> set (wf_Steps diamond). ws_Name step = ''b'' \<and>
      \<not> has_phase [''Succeeded'', ''Failed'', ''Skipped'', ''Running''] diamond ''b'')"
proof -
  have "findExecutableSteps diamond [] = [''b'']" by code_simp
  then show ?thesis using executable_iff [of "''b''" diamond "[]"] by auto
qed

definition retried :: WorkflowStep where
  "retried = (plain_step ''a'' [])\<lparr>ws_RetryPolicy := Some
     \<lparr>rp_MaxRetries = 5, rp_BackoffSeconds = 0, rp_Backoff = ''10s'', rp_RetryOn = []\<rparr>\<rparr>"

lemma ten_seconds:
  "initial_delay \<lparr>rp_MaxRetries = 5, rp_BackoffSeconds = 0, rp_Backoff = ''10s'', rp_RetryOn = []\<rparr> = 10 * second"
  by code_simp

lemma retry_delay_closed_form_witness: "getRetryDelay (Some retried) 3 = 80 * second"
  using retry_delay_closed_form [of retried
      "\<lparr>rp_MaxRetries = 5, rp_BackoffSeconds = 0, rp_Backoff = ''10s'', rp_RetryOn = []\<rparr>" 3]
  by (simp add: retried_def ten_seconds in64_def wrap64_id)

lemma plain_scope: "agent_scope plain_agent \<notin> {''group'', ''namespace''}"
  by code_simp

lemma scope_key_private_witness:
  "prefix ''team/'' (memoryScopeKey plain_agent (plain_workflow [] []))"
  using scope_key_private [OF plain_scope plain_scope, of "plain_workflow [] []" "plain_workflow [] []"]
  by (simp add: plain_workflow_def named_meta_def)

lemma provider_resolution_witness:
  "fst (resolveLLMProvider list_ctx ''b'' (list_rt (no_cluster
     \<lparr>cl_llms := [plain_provider ''a'' True, plain_provider ''b'' False]\<rparr>))) = Some (plain_provider ''b'' False) \<and>
   fst (resolveLLMProvider list_ctx ''z'' (list_rt (no_cluster
     \<lparr>cl_llms := [plain_provider ''a'' True, plain_provider ''b'' False]\<rparr>))) = Some (plain_provider ''a'' True)"
proof -
  let ?s = "list_rt (no_cluster\<lparr>cl_llms := [plain_provider ''a'' True, plain_provider ''b'' False]\<rparr>)"
  have "k_list_llm (x_api list_ctx) (rs_c ?s) = Inr [plain_provider ''a'' True, plain_provider ''b'' False]"
    by (simp add: list_ctx_def list_api_def list_rt_def)
  from provider_resolution [OF this, of "''b''"] provider_resolution [OF this, of "''z''"]
  show ?thesis by (simp add: plain_provider_def)
qed

definition archived :: "cluster rt" where
  "archived = (list_rt no_cluster)\<lparr>rs_hist := Some NewHistory\<rparr>"

lemma phase_mirrored_witness:
  "\<exists>h' r. rs_hist (snd (snd (setPhase list_ctx (plain_workflow [] []) ''Failed'' ''Why'' ''broken'' archived))) = Some h' \<and>
     GetWorkflowRun h' ''flow-r1'' = Inr r \<and> hr_Phase r = ''Failed''"
proof -
  let ?w = "plain_workflow [] []"
  let ?r = "setPhase list_ctx ?w ''Failed'' ''Why'' ''broken'' archived"
  have id: "wf_Name ?w = ''flow''" "wf_Annotation ?w ''purko.io/run-id'' = ''r1''"
    by (simp_all add: plain_workflow_def named_meta_def empty_meta_def)
  have ok: "times_ok (x_now list_ctx) (workflow_run ?w)"
    by (simp add: times_ok_def workflow_run_def plain_workflow_def zero_status_def list_ctx_def in_years_def Let_def)
  obtain w' s' where eq: "?r = (None, w', s')" by (simp add: setPhase_def list_ctx_def list_api_def Let_def)
  have "rs_hist archived = Some NewHistory" "hs_open NewHistory" by (simp_all add: archived_def NewHistory_def)
  with phase_mirrored [OF eq] id ok eq show ?thesis by (auto simp: Let_def)
qed

end
