(* ===== verification/Agent_Memory.thy ===== *)
theory Agent_Memory imports Recording begin

text \<open>
  The controller's use of agent memory (\<^verbatim>\<open>controllers/memory.go\<close>) and of agent metrics
  (\<^verbatim>\<open>updateAgentMetrics\<close>, \<^verbatim>\<open>storeAgentMemory\<close>, \<^verbatim>\<open>recordAgentFailure\<close> of \<^verbatim>\<open>workflow_controller.go\<close>).  Memory
  is advisory: an error of the store becomes an event and the step goes on.
\<close>

section \<open>Recall\<close>

definition memoryEvent :: "'c ctx \<Rightarrow> Workflow \<Rightarrow> string \<Rightarrow> string \<Rightarrow> string \<Rightarrow> 'c rt \<Rightarrow> 'c rt" where
  "memoryEvent x w typ reason msg s =
     (if x_recorder x
      then s\<lparr>rs_events := rs_events s @
        [\<lparr>kv_object = wf_Name w, kv_type = typ, kv_reason = reason, kv_message = msg\<rparr>]\<rparr>
      else s)"

definition sql_text :: "sql_error \<Rightarrow> string" where
  "sql_text e =
     (case e of Closed \<Rightarrow> ''sql: database is closed'' | Constraint \<Rightarrow> ''constraint failed''
      | NoRows \<Rightarrow> ''sql: no rows in result set'' | BadJson \<Rightarrow> ''invalid JSON'')"

definition recall_date :: "Entry \<Rightarrow> string" where
  "recall_date e = (case me_CreatedAt e of Some t \<Rightarrow> show_date t | None \<Rightarrow> ''0001-01-01'')"

definition recall_line :: "Entry \<Rightarrow> string" where
  "recall_line e =
     ''['' @ recall_date e @ '' '' @ me_Workflow e @ ''/'' @ me_Step e @ ''] '' @ me_Content e"

definition formatRecallBlock :: "Entry list \<Rightarrow> string" where
  "formatRecallBlock es = join (CHR 0x0A # ''---'' @ [CHR 0x0A]) (map recall_line es)"

definition agent_max_tokens :: "Agent \<Rightarrow> int" where
  "agent_max_tokens agent =
     (case as_Memory (ag_Spec agent) of
        Some m \<Rightarrow> (case ms_MaxContextTokens m of Some n \<Rightarrow> n | None \<Rightarrow> 2048)
      | None \<Rightarrow> 2048)"

definition recallMemory :: "'c ctx \<Rightarrow> Agent \<Rightarrow> Workflow \<Rightarrow> string \<Rightarrow> string \<Rightarrow> string \<Rightarrow> 'c rt \<Rightarrow> string \<times> 'c rt" where
  "recallMemory x agent w runID step stepInput s =
     (case rs_mem s of
        None \<Rightarrow> ([], s)
      | Some m \<Rightarrow>
          (case Recall (x_fts x) m (wf_Namespace w) (memoryScopeKey agent w) stepInput (agent_max_tokens agent) of
             Inl e \<Rightarrow> ([], memoryEvent x w ''Warning'' ''MemoryRecallFailed''
                          (''recall for step '' @ step @ '' failed: '' @ sql_text e) s)
           | Inr entries \<Rightarrow>
               if entries = [] then ([], s)
               else (let (_, m1) = WriteRecallLog m (x_now x) (wf_Namespace w) runID step (map me_ID entries)
                     in (formatRecallBlock entries, s\<lparr>rs_mem := Some m1\<rparr>))))"

section \<open>Persisting\<close>

definition resolveMemoryRetention :: "'c ctx \<Rightarrow> string \<Rightarrow> 'c rt \<Rightarrow> int" where
  "resolveMemoryRetention x providerRef s =
     (case k_list_memprov (x_api x) (rs_c s) of
        Inl _ \<Rightarrow> 500
      | Inr ps \<Rightarrow>
          (case pick_provider (\<lambda>p. om_Name (mpr_Meta p) = providerRef) (\<lambda>p. mp_Default (mpr_Spec p)) None ps of
             None \<Rightarrow> 500
           | Some p \<Rightarrow>
               (case mp_Retention (mpr_Spec p) of
                  None \<Rightarrow> 500
                | Some r \<Rightarrow> (case mr_MaxEntriesPerScope r of Some n \<Rightarrow> n | None \<Rightarrow> 500))))"

definition memory_content :: "Workflow \<Rightarrow> string \<Rightarrow> string \<Rightarrow> string \<Rightarrow> string \<Rightarrow> string" where
  "memory_content w step memoryUpdate stepInput response =
     (let content = TrimPrefix memoryUpdate (''['' @ wf_Name w @ ''/'' @ step @ ''] '');
          task = (if stepInput = [] then step else stepInput)
      in if content \<noteq> [] then content
         else ''Task: '' @ truncate_str task 200 @ '' | Result: '' @ truncate_str response 500)"

definition memory_entry :: "Agent \<Rightarrow> Workflow \<Rightarrow> string \<Rightarrow> string \<Rightarrow> Entry" where
  "memory_entry agent w step content =
     \<lparr>me_ID = [], me_Namespace = wf_Namespace w, me_ScopeKey = memoryScopeKey agent w,
      me_Agent = ag_Name agent, me_Workflow = wf_Name w, me_Step = step, me_Content = content,
      me_CreatedAt = None\<rparr>"

definition learn :: "'c ctx \<Rightarrow> Entry \<Rightarrow> 'c rt \<Rightarrow> (sql_error + unit) \<times> 'c rt" where
  "learn x e s =
     (case rs_mem s of
        None \<Rightarrow> (Inr (), s)
      | Some m \<Rightarrow>
          (let (r, m1) = Learn m (x_uuid x (rs_uuid s)) (x_now x) e
           in (r, s\<lparr>rs_mem := Some m1, rs_uuid := Suc (rs_uuid s)\<rparr>)))"

definition retain :: "'c ctx \<Rightarrow> string \<Rightarrow> int \<Rightarrow> 'c rt \<Rightarrow> 'c rt" where
  "retain x sk n s =
     (case rs_mem s of None \<Rightarrow> s | Some m \<Rightarrow> s\<lparr>rs_mem := Some (snd (Retain m sk n))\<rparr>)"

definition persistMemory :: "'c ctx \<Rightarrow> Agent \<Rightarrow> Workflow \<Rightarrow> string \<Rightarrow> string \<Rightarrow> string \<Rightarrow> string \<Rightarrow> 'c rt \<Rightarrow> 'c rt" where
  "persistMemory x agent w step memoryUpdate stepInput response s =
     (if rs_mem s = None then s
      else (let content = memory_content w step memoryUpdate stepInput response;
                (r, s1) = learn x (memory_entry agent w step content) s;
                ref = (case as_Memory (ag_Spec agent) of Some m \<Rightarrow> ms_ProviderRef m | None \<Rightarrow> [])
            in case r of
                 Inl e \<Rightarrow> memoryEvent x w ''Warning'' ''MemoryLearnFailed''
                            (''persist for step '' @ step @ '' failed: '' @ sql_text e) s1
               | Inr _ \<Rightarrow> retain x (memoryScopeKey agent w) (resolveMemoryRetention x ref s1) s1))"

section \<open>Importing legacy memory\<close>

abbreviation imported_key :: string where "imported_key \<equiv> ''purko.io/memory-imported''"

definition markMemoryImported :: "'c ctx \<Rightarrow> Agent \<Rightarrow> Workflow \<Rightarrow> 'c rt \<Rightarrow> Agent \<times> 'c rt" where
  "markMemoryImported x agent w s =
     (let agent1 = agent\<lparr>ag_Meta := (ag_Meta agent)
            \<lparr>om_Annotations := (om_Annotations (ag_Meta agent))(imported_key \<mapsto> ''true'')\<rparr>\<rparr>;
          (err, c) = k_patch_agent (x_api x) (rs_c s) agent1;
          s1 = s\<lparr>rs_c := c\<rparr>
      in (agent1, case err of
            None \<Rightarrow> s1
          | Some e \<Rightarrow> memoryEvent x w ''Warning'' ''MemoryImportFailed''
              (''memory-imported annotation patch for agent '' @ ag_Name agent @ '' failed: '' @ x_errtext x e) s1))"

definition importLegacyMemory :: "'c ctx \<Rightarrow> Agent \<Rightarrow> Workflow \<Rightarrow> 'c rt \<Rightarrow> Agent \<times> 'c rt" where
  "importLegacyMemory x agent w s =
     (if rs_mem s = None \<or> get_str (om_Annotations (ag_Meta agent)) imported_key = ''true'' then (agent, s)
      else (case k_get_cm (x_api x) (rs_c s) (wf_Namespace w, ag_Name agent @ ''-memory'') of
        Inl NotFound \<Rightarrow> markMemoryImported x agent w s
      | Inl _ \<Rightarrow> (agent, s)
      | Inr cm \<Rightarrow>
          (let summary = get_str (cm_Data cm) ''summary'' in
           if summary = [] then markMemoryImported x agent w s
           else (case learn x (memory_entry agent w ''imported'' summary) s of
               (Inl e, s1) \<Rightarrow> (agent, memoryEvent x w ''Warning'' ''MemoryImportFailed''
                  (''legacy import for agent '' @ ag_Name agent @ '' failed: '' @ sql_text e) s1)
             | (Inr _, s1) \<Rightarrow> markMemoryImported x agent w s1))))"

section \<open>The legacy summary\<close>

text \<open>The combined summary keeps its last 8192 bytes.\<close>

definition combine_summary :: "string \<Rightarrow> string \<Rightarrow> string" where
  "combine_summary existing summary =
     (if existing = [] then summary
      else (let combined = existing @ (CHR 0x0A # ''---'' @ [CHR 0x0A]) @ summary
            in if 8192 < int (length combined) then drop (length combined - 8192) combined else combined))"

definition storeAgentMemory :: "'c ctx \<Rightarrow> string \<Rightarrow> string \<Rightarrow> string \<Rightarrow> 'c rt \<Rightarrow> 'c rt" where
  "storeAgentMemory x ns agentName summary s =
     (let name = agentName @ ''-memory'' in
      case k_get_cm (x_api x) (rs_c s) (ns, name) of
        Inl NotFound \<Rightarrow>
          (let cm = \<lparr>cm_Meta = empty_meta\<lparr>om_Name := name, om_Namespace := ns,
                       om_Labels := [''purko.io/agent'' \<mapsto> agentName, ''purko.io/memory-type'' \<mapsto> ''summary'']\<rparr>,
                     cm_Data = [''summary'' \<mapsto> summary]\<rparr>
           in s\<lparr>rs_c := snd (k_create_cm (x_api x) (rs_c s) cm)\<rparr>)
      | Inl _ \<Rightarrow> s
      | Inr cm \<Rightarrow>
          (let new = combine_summary (get_str (cm_Data cm) ''summary'') summary
           in s\<lparr>rs_c := snd (k_update_cm (x_api x) (rs_c s) (cm\<lparr>cm_Data := (cm_Data cm)(''summary'' \<mapsto> new)\<rparr>))\<rparr>))"

section \<open>Metrics of an agent\<close>

text \<open>The counters are \<^verbatim>\<open>int64\<close>; division truncates towards zero.\<close>

definition go_div :: "int \<Rightarrow> int \<Rightarrow> int" where
  "go_div a b = (if (a < 0) = (b < 0) then \<bar>a\<bar> div \<bar>b\<bar> else - (\<bar>a\<bar> div \<bar>b\<bar>))"

definition count_success :: "int \<Rightarrow> int \<Rightarrow> int \<Rightarrow> f64 \<Rightarrow> time \<Rightarrow> AgentMetrics \<Rightarrow> AgentMetrics" where
  "count_success latencyMs tin tout cost now m =
     (let n = wrap64 (am_TotalInvocations m + 1) in
      m\<lparr>am_TotalInvocations := n,
        am_TotalTokensUsed := wrap64 (am_TotalTokensUsed m + tin + tout),
        am_TotalCostUSD := f64_add (am_TotalCostUSD m) cost,
        am_AverageLatencyMs := (if n = 1 then latencyMs
          else wrap64 (am_AverageLatencyMs m + go_div (wrap64 (latencyMs - am_AverageLatencyMs m)) n)),
        am_SuccessCount := wrap64 (am_SuccessCount m + 1), am_ConsecutiveFailures := 0,
        am_LastInvocationTime := Some now\<rparr>)"

definition count_failure :: "time \<Rightarrow> AgentMetrics \<Rightarrow> AgentMetrics" where
  "count_failure now m =
     m\<lparr>am_FailureCount := wrap64 (am_FailureCount m + 1),
       am_ConsecutiveFailures := wrap64 (am_ConsecutiveFailures m + 1),
       am_TotalInvocations := wrap64 (am_TotalInvocations m + 1), am_LastInvocationTime := Some now\<rparr>"

definition agent_metrics :: "Agent \<Rightarrow> AgentMetrics" where
  "agent_metrics a = (case at_Metrics (ag_Status a) of Some m \<Rightarrow> m | None \<Rightarrow> zero_metrics)"

definition set_metrics :: "AgentMetrics \<Rightarrow> Agent \<Rightarrow> Agent" where
  "set_metrics m a = a\<lparr>ag_Status := (ag_Status a)\<lparr>at_Metrics := Some m\<rparr>\<rparr>"

definition status_agent :: "'c ctx \<Rightarrow> Agent \<Rightarrow> 'c rt \<Rightarrow> 'c rt" where
  "status_agent x a s = s\<lparr>rs_c := snd (k_status_agent (x_api x) (rs_c s) a)\<rparr>"

text \<open>The \<^verbatim>\<open>_metrics\<close> member decoded into the struct; a wrong type is an error.\<close>

definition step_metrics :: "string \<Rightarrow> (int \<times> int \<times> f64) option" where
  "step_metrics r =
     (case parse_json r of
        Some (TObj ms) \<Rightarrow>
          (case (field_int ''tokens_in'' ms, field_int ''tokens_out'' ms, field_f64 ''cost_usd'' ms) of
             (Some a, Some b, Some c) \<Rightarrow> Some (a, b, c) | _ \<Rightarrow> None)
      | Some TNull \<Rightarrow> Some (0, 0, Fin 0)
      | _ \<Rightarrow> None)"

text \<open>Where the memory update of an output goes: to the store, to the legacy ConfigMap, or nowhere.\<close>

definition route_memory :: "'c ctx \<Rightarrow> Agent \<Rightarrow> string \<Rightarrow> string \<Rightarrow> str_map \<Rightarrow> Workflow \<Rightarrow> string \<Rightarrow> 'c rt \<Rightarrow> 'c rt" where
  "route_memory x agent ns agentName outputMap w step s =
     (case outputMap ''_memory_update'' of
        None \<Rightarrow> s
      | Some upd \<Rightarrow>
          (let summary = or_zero [] (unmarshal_string upd) in
           if memoryBehavior agent = ''persistent''
           then persistMemory x agent w step summary [] (extractResponseText outputMap) s
           else if summary \<noteq> [] then storeAgentMemory x ns agentName summary s
           else s))"

definition latency_ms :: "time option \<Rightarrow> time \<Rightarrow> int" where
  "latency_ms start fin = (case start of None \<Rightarrow> 0 | Some t \<Rightarrow> go_div (fin - t) millisecond)"

definition updateAgentMetrics :: "'c ctx \<Rightarrow> string \<Rightarrow> string \<Rightarrow> string \<Rightarrow> time option \<Rightarrow> time \<Rightarrow> Workflow \<Rightarrow>
    string \<Rightarrow> 'c rt \<Rightarrow> 'c rt" where
  "updateAgentMetrics x ns agentName output start fin w step s =
     (case raw_map output of
        None \<Rightarrow> s
      | Some outputMap \<Rightarrow>
          (case outputMap ''_metrics'' of
             None \<Rightarrow> s
           | Some metricsRaw \<Rightarrow>
               (case step_metrics metricsRaw of
                  None \<Rightarrow> s
                | Some (tin, tout, cost) \<Rightarrow>
                    (case k_get_agent (x_api x) (rs_c s) (ns, agentName) of
                       Inl e \<Rightarrow> memoryEvent x w ''Warning'' ''AgentFetchFailed''
                         (''agent '' @ agentName @ '' fetch failed for step '' @ step @
                          ''; memory persistence skipped: '' @ x_errtext x e) s
                     | Inr agent \<Rightarrow>
                         (let s1 = route_memory x agent ns agentName outputMap w step s;
                              m = count_success (latency_ms start fin) tin tout cost (x_now x) (agent_metrics agent);
                              s2 = metric (AgentCostUSD agentName ns cost)
                                     (metric (AgentTokens agentName ns (tin + tout)) s1)
                          in status_agent x (set_metrics m agent) s2)))))"

definition recordAgentFailure :: "'c ctx \<Rightarrow> string \<Rightarrow> string \<Rightarrow> 'c rt \<Rightarrow> 'c rt" where
  "recordAgentFailure x ns agentName s =
     (case k_get_agent (x_api x) (rs_c s) (ns, agentName) of
        Inl _ \<Rightarrow> s
      | Inr agent \<Rightarrow> status_agent x (set_metrics (count_failure (x_now x) (agent_metrics agent)) agent) s)"

end
