(* ===== verification/Status_Table.thy ===== *)
theory Status_Table imports Workflow_Core begin

text \<open>
  The table of step statuses seen by name: looking a status up, counting the statuses in some phases,
  and what each of the ways the controller writes the table does to both.
\<close>

definition status_of :: "Workflow \<Rightarrow> string \<Rightarrow> StepStatus option" where
  "status_of w n = find (\<lambda>ss. ss_Name ss = n) (wf_StepStatuses w)"

definition count_phase :: "string list \<Rightarrow> Workflow \<Rightarrow> int" where
  "count_phase ps w = int (length (filter (\<lambda>ss. ss_Phase ss \<in> set ps) (wf_StepStatuses w)))"

definition step_names :: "Workflow \<Rightarrow> string set" where
  "step_names w = ss_Name ` set (wf_StepStatuses w)"

section \<open>Lists\<close>

lemma find_append: "find P (xs @ ys) = (case find P xs of None \<Rightarrow> find P ys | Some z \<Rightarrow> Some z)"
  by (induction xs) auto

lemma count_list_update:
  "i < length ys \<Longrightarrow> int (length (filter P (ys[i := y]))) =
     int (length (filter P ys)) - (if P (ys ! i) then 1 else 0) + (if P y then 1 else 0)"
proof (induction ys arbitrary: i)
  case Nil
  then show ?case by simp
next
  case (Cons z zs)
  show ?case
  proof (cases i)
    case 0
    then show ?thesis by simp
  next
    case (Suc j)
    with Cons.prems have "j < length zs" by simp
    from Cons.IH [OF this] Suc show ?thesis by (simp split: if_splits)
  qed
qed

lemma distinct_find_nth:
  "distinct (map f ys) \<Longrightarrow> i < length ys \<Longrightarrow> find (\<lambda>y. f y = f (ys ! i)) ys = Some (ys ! i)"
proof (induction ys arbitrary: i)
  case Nil
  then show ?case by simp
next
  case (Cons z zs)
  show ?case
  proof (cases i)
    case 0
    then show ?thesis by simp
  next
    case (Suc j)
    with Cons.prems have "j < length zs" "f (zs ! j) \<in> f ` set zs" "f z \<notin> f ` set zs" by auto
    with Suc Cons show ?thesis by auto
  qed
qed

lemma distinct_find_update:
  "distinct (map f ys) \<Longrightarrow> i < length ys \<Longrightarrow> f y = f (ys ! i) \<Longrightarrow>
     find (\<lambda>z. f z = n) (ys[i := y]) = (if n = f y then Some y else find (\<lambda>z. f z = n) ys)"
proof (induction ys arbitrary: i)
  case Nil
  then show ?case by simp
next
  case (Cons z zs)
  show ?case
  proof (cases i)
    case 0
    with Cons.prems show ?thesis by auto
  next
    case (Suc j)
    with Cons.prems have "j < length zs" "f y \<in> f ` set zs" "f z \<notin> f ` set zs" by auto
    with Suc Cons show ?thesis by auto
  qed
qed

section \<open>Looking up\<close>

lemma status_of_SomeD: "status_of w n = Some ss \<Longrightarrow> ss_Name ss = n \<and> ss \<in> set (wf_StepStatuses w)"
  by (auto simp: status_of_def find_Some_iff)

lemma status_of_None: "status_of w n = None \<longleftrightarrow> n \<notin> step_names w"
  by (auto simp: status_of_def step_names_def find_None_iff)

lemma status_of_nth:
  "distinct_steps w \<Longrightarrow> i < length (wf_StepStatuses w) \<Longrightarrow>
     status_of w (ss_Name (wf_StepStatuses w ! i)) = Some (wf_StepStatuses w ! i)"
  unfolding status_of_def distinct_steps_def by (rule distinct_find_nth)

lemma status_of_in: "distinct_steps w \<Longrightarrow> ss \<in> set (wf_StepStatuses w) \<Longrightarrow> status_of w (ss_Name ss) = Some ss"
  by (metis in_set_conv_nth status_of_nth)

lemma has_phase_status:
  "distinct_steps w \<Longrightarrow> has_phase ps w n \<longleftrightarrow> (\<exists>ss. status_of w n = Some ss \<and> ss_Phase ss \<in> set ps)"
  unfolding has_phase_iff using status_of_SomeD status_of_in by metis

lemma status_of_update:
  assumes "distinct_steps w" "i < length (wf_StepStatuses w)" "ss_Name ss = ss_Name (wf_StepStatuses w ! i)"
  shows "status_of (update_step i (\<lambda>_. ss) w) n = (if n = ss_Name ss then Some ss else status_of w n)"
  using distinct_find_update [of ss_Name "wf_StepStatuses w" i ss n] assms
  by (simp add: status_of_def update_step_def distinct_steps_def)

lemma count_update:
  "i < length (wf_StepStatuses w) \<Longrightarrow> count_phase ps (update_step i (\<lambda>_. ss) w) =
     count_phase ps w - (if ss_Phase (wf_StepStatuses w ! i) \<in> set ps then 1 else 0)
       + (if ss_Phase ss \<in> set ps then 1 else 0)"
  unfolding count_phase_def update_step_def by (simp add: count_list_update)

lemma update_step_simps [simp]:
  "wf_Spec (update_step i f w) = wf_Spec w"
  "wf_Meta (update_step i f w) = wf_Meta w"
  "wf_Phase (update_step i f w) = wf_Phase w"
  "wt_CompletedSteps (wf_Status (update_step i f w)) = wt_CompletedSteps (wf_Status w)"
  "wt_FailedSteps (wf_Status (update_step i f w)) = wt_FailedSteps (wf_Status w)"
  "wt_TotalSteps (wf_Status (update_step i f w)) = wt_TotalSteps (wf_Status w)"
  "wt_StartTime (wf_Status (update_step i f w)) = wt_StartTime (wf_Status w)"
  "wf_StepStatuses (update_step i f w) = (wf_StepStatuses w)[i := f (wf_StepStatuses w ! i)]"
  by (simp_all add: update_step_def)

section \<open>Finding or creating a status\<close>

lemma ensure_cases:
  assumes "ensureStepStatus w n = (w1, i)"
  obtains (found) "w1 = w" "i < length (wf_StepStatuses w)" "ss_Name (wf_StepStatuses w ! i) = n"
      "n \<in> step_names w"
  | (added) "n \<notin> step_names w" "w1 = set_steps (wf_StepStatuses w @ [zero_step_status n]) w"
      "i = length (wf_StepStatuses w)"
proof (cases "find_index (\<lambda>ss. ss_Name ss = n) (wf_StepStatuses w)")
  case None
  with assms show ?thesis
    by (intro added) (auto simp: ensureStepStatus_def step_names_def find_index_None)
next
  case (Some j)
  with assms have "w1 = w" "i = j" by (simp_all add: ensureStepStatus_def)
  with find_index_Some [OF Some] show ?thesis by (intro found) (auto simp: step_names_def)
qed

lemma status_of_added:
  "n \<notin> step_names w \<Longrightarrow> status_of (set_steps (wf_StepStatuses w @ [zero_step_status n]) w) m =
     (if m = n then Some (zero_step_status n) else status_of w m)"
  using status_of_None [of w n]
  by (auto simp: status_of_def find_append zero_step_status_def split: option.split)

lemma count_added:
  "count_phase ps (set_steps (wf_StepStatuses w @ [zero_step_status n]) w) =
     count_phase ps w + (if [] \<in> set ps then 1 else 0)"
  by (simp add: count_phase_def zero_step_status_def)

text \<open>The status of a step, or the fresh one that \<^verbatim>\<open>ensureStepStatus\<close> makes.\<close>

definition status_or_new :: "Workflow \<Rightarrow> string \<Rightarrow> StepStatus" where
  "status_or_new w n = (case status_of w n of Some ss \<Rightarrow> ss | None \<Rightarrow> zero_step_status n)"

lemma ensure_facts:
  assumes "distinct_steps w" "ensureStepStatus w n = (w1, i)"
  shows "distinct_steps w1" "i < length (wf_StepStatuses w1)" "wf_StepStatuses w1 ! i = status_or_new w n"
    "status_of w1 m = (if m = n then Some (status_or_new w n) else status_of w m)"
    "wf_Spec w1 = wf_Spec w" "wf_Meta w1 = wf_Meta w" "wf_Phase w1 = wf_Phase w"
    "wt_CompletedSteps (wf_Status w1) = wt_CompletedSteps (wf_Status w)"
    "wt_FailedSteps (wf_Status w1) = wt_FailedSteps (wf_Status w)"
    "wt_TotalSteps (wf_Status w1) = wt_TotalSteps (wf_Status w)"
    "[] \<notin> set ps \<Longrightarrow> count_phase ps w1 = count_phase ps w"
proof -
  show "distinct_steps w1" using assms by (rule ensure_distinct)
  show "i < length (wf_StepStatuses w1)" using ensure_in_range [OF assms(2)] by simp
  from assms(2) show "wf_StepStatuses w1 ! i = status_or_new w n"
  proof (cases rule: ensure_cases)
    case found
    with status_of_nth [OF assms(1) found(2)] show ?thesis by (simp add: status_or_new_def)
  next
    case added
    then show ?thesis using status_of_None [of w n] by (simp add: status_or_new_def)
  qed
  from assms(2) show "status_of w1 m = (if m = n then Some (status_or_new w n) else status_of w m)"
  proof (cases rule: ensure_cases)
    case found
    with status_of_nth [OF assms(1) found(2)] show ?thesis by (simp add: status_or_new_def)
  next
    case added
    then show ?thesis using status_of_None [of w n] by (simp add: status_or_new_def status_of_added)
  qed
  from assms(2) show "[] \<notin> set ps \<Longrightarrow> count_phase ps w1 = count_phase ps w"
    by (cases rule: ensure_cases) (auto simp: count_added)
  from assms(2) show "wf_Spec w1 = wf_Spec w" "wf_Meta w1 = wf_Meta w" "wf_Phase w1 = wf_Phase w"
    "wt_CompletedSteps (wf_Status w1) = wt_CompletedSteps (wf_Status w)"
    "wt_FailedSteps (wf_Status w1) = wt_FailedSteps (wf_Status w)"
    "wt_TotalSteps (wf_Status w1) = wt_TotalSteps (wf_Status w)"
    by (auto elim!: ensure_cases)
qed

lemma with_step_simps [simp]:
  "wf_Spec (with_step_status n f w) = wf_Spec w"
  "wf_Meta (with_step_status n f w) = wf_Meta w"
  "wf_Phase (with_step_status n f w) = wf_Phase w"
  "wt_StartTime (wf_Status (with_step_status n f w)) = wt_StartTime (wf_Status w)"
  "wt_CompletedSteps (wf_Status (with_step_status n f w)) = wt_CompletedSteps (wf_Status w)"
  "wt_FailedSteps (wf_Status (with_step_status n f w)) = wt_FailedSteps (wf_Status w)"
  "wt_TotalSteps (wf_Status (with_step_status n f w)) = wt_TotalSteps (wf_Status w)"
  by (auto simp: with_step_status_def ensureStepStatus_def split: option.split)

lemma update_step_const: "update_step i f w = update_step i (\<lambda>_. f (wf_StepStatuses w ! i)) w"
  by (simp add: update_step_def)

lemma status_of_with_step:
  assumes "distinct_steps w" "\<And>ss. ss_Name (f ss) = ss_Name ss"
  shows "status_of (with_step_status n f w) m =
    (if m = n then Some (f (status_or_new w n)) else status_of w m)"
proof -
  obtain w1 i where e: "ensureStepStatus w n = (w1, i)" by (cases "ensureStepStatus w n")
  note E = ensure_facts [OF assms(1) e]
  have nm: "ss_Name (wf_StepStatuses w1 ! i) = n" using ensure_in_range [OF e] by simp
  have "status_of (update_step i (\<lambda>_. f (wf_StepStatuses w1 ! i)) w1) m =
      (if m = n then Some (f (status_or_new w n)) else status_of w m)"
    using status_of_update [OF E(1,2)] assms(2) nm E(3,4) by simp
  then show ?thesis using e update_step_const [of i f w1] by (simp add: with_step_status_def)
qed

lemma count_with_step:
  assumes "distinct_steps w" "[] \<notin> set ps"
  shows "count_phase ps (with_step_status n f w) = count_phase ps w
    - (if ss_Phase (status_or_new w n) \<in> set ps then 1 else 0)
    + (if ss_Phase (f (status_or_new w n)) \<in> set ps then 1 else 0)"
proof -
  obtain w1 i where e: "ensureStepStatus w n = (w1, i)" by (cases "ensureStepStatus w n")
  note E = ensure_facts [OF assms(1) e]
  show ?thesis
    using count_update [OF E(2), of ps "f (status_or_new w n)"] E(3) E(11) [OF assms(2)] e
      update_step_const [of i f w1]
    by (simp add: with_step_status_def)
qed

lemma step_names_with_step:
  assumes "distinct_steps w" "\<And>ss. ss_Name (f ss) = ss_Name ss"
  shows "step_names (with_step_status n f w) = insert n (step_names w)"
proof -
  have "m \<in> step_names (with_step_status n f w) \<longleftrightarrow> m \<in> insert n (step_names w)" for m
    using status_of_None [of "with_step_status n f w" m] status_of_None [of w m]
      status_of_with_step [OF assms, of n m] by (cases "m = n") auto
  then show ?thesis by blast
qed

end
