(* ===== verification/Reconcile_Sync.thy ===== *)
theory Reconcile_Sync imports Agent_Memory Status_Table "HOL-Library.Multiset" begin

text \<open>
  The loop of \<^verbatim>\<open>Reconcile\<close> that brings the step statuses up to date with the jobs.

  The source indexes the statuses once, by pointers into the slice, and appends a status for a job
  that has none.  An append beyond the capacity moves the slice to a new array, and the pointers of the
  index go on pointing into the old one.  The state of the loop therefore holds the slice the workflow
  has now, the old array once the slice has moved, and the capacity.
\<close>

section \<open>The slice and the pointers into it\<close>

record 'c sync =
  sy_wf :: Workflow
  sy_old :: "StepStatus list option" \<comment> \<open>the array of the index, once the slice has left it\<close>
  sy_cap :: nat
  sy_jobs :: "(string \<times> Job) list"
  sy_changed :: bool
  sy_rt :: "'c rt"

datatype ptr = Indexed nat | Fresh nat

text \<open>\<^verbatim>\<open>statusMap\<close>: the last status of a name wins.\<close>

definition status_index :: "StepStatus list \<Rightarrow> string \<Rightarrow> nat option" where
  "status_index sss name =
     map_option (\<lambda>i. length sss - 1 - i) (find_index (\<lambda>ss. ss_Name ss = name) (rev sss))"

definition deref :: "ptr \<Rightarrow> 'c sync \<Rightarrow> StepStatus" where
  "deref p y =
     (case p of
        Fresh i \<Rightarrow> wf_StepStatuses (sy_wf y) ! i
      | Indexed i \<Rightarrow> (case sy_old y of None \<Rightarrow> wf_StepStatuses (sy_wf y) ! i | Some old \<Rightarrow> old ! i))"

definition assign :: "ptr \<Rightarrow> StepStatus \<Rightarrow> 'c sync \<Rightarrow> 'c sync" where
  "assign p ss y =
     (case p of
        Fresh i \<Rightarrow> y\<lparr>sy_wf := update_step i (\<lambda>_. ss) (sy_wf y)\<rparr>
      | Indexed i \<Rightarrow>
          (case sy_old y of
             None \<Rightarrow> y\<lparr>sy_wf := update_step i (\<lambda>_. ss) (sy_wf y)\<rparr>
           | Some old \<Rightarrow> y\<lparr>sy_old := Some (old[i := ss])\<rparr>))"

text \<open>\<^verbatim>\<open>ensureStepStatus\<close> with what \<^verbatim>\<open>append\<close> does to the array.\<close>

definition ensure_ptr :: "'c ctx \<Rightarrow> string \<Rightarrow> 'c sync \<Rightarrow> 'c sync \<times> ptr" where
  "ensure_ptr x name y =
     (let old = wf_StepStatuses (sy_wf y); (w1, i) = ensureStepStatus (sy_wf y) name in
      if length (wf_StepStatuses w1) \<le> max (length old) (sy_cap y) then (y\<lparr>sy_wf := w1\<rparr>, Fresh i)
      else (y\<lparr>sy_wf := w1, sy_old := Some (case sy_old y of None \<Rightarrow> old | Some o1 \<Rightarrow> o1),
              sy_cap := length (wf_StepStatuses w1) + x_grow x (length old)\<rparr>, Fresh i))"

definition sync_start :: "'c ctx \<Rightarrow> Workflow \<Rightarrow> (string \<times> Job) list \<Rightarrow> 'c rt \<Rightarrow> 'c sync" where
  "sync_start x w jobs s =
     (let n = length (wf_StepStatuses w) in
      \<lparr>sy_wf = w, sy_old = None, sy_cap = n + x_spare x n, sy_jobs = jobs, sy_changed = False, sy_rt = s\<rparr>)"

section \<open>One job\<close>

definition step_cost :: "string \<Rightarrow> f64 option" where
  "step_cost metricsRaw =
     (case parse_json metricsRaw of
        Some (TObj ms) \<Rightarrow> field_f64 ''cost_usd'' ms | Some TNull \<Rightarrow> Some (Fin 0) | _ \<Rightarrow> None)"

definition step_durations :: "'c ctx \<Rightarrow> Workflow \<Rightarrow> string \<Rightarrow> string \<Rightarrow> time option \<Rightarrow> 'c rt \<Rightarrow> 'c rt" where
  "step_durations x w stepName agentName start s =
     (case start of
        None \<Rightarrow> s
      | Some t \<Rightarrow>
          (let dur = x_now x - t
           in metric (WorkflowStepDuration (wf_Name w) stepName agentName dur)
                (metric (AgentLatency agentName (wf_Namespace w) dur) s)))"

definition workflow_cost :: "Workflow \<Rightarrow> string \<Rightarrow> 'c rt \<Rightarrow> 'c rt" where
  "workflow_cost w output s =
     (case Option.bind (Option.bind (raw_map output) (\<lambda>m. m ''_metrics'')) step_cost of
        None \<Rightarrow> s
      | Some cost \<Rightarrow>
          if f64_lt (Fin 0) cost then metric (WorkflowCostUSD (wf_Name w) (wf_Namespace w) cost) s else s)"

definition success_effects :: "'c ctx \<Rightarrow> Workflow \<Rightarrow> Job \<Rightarrow> StepStatus \<Rightarrow> string \<Rightarrow> string \<Rightarrow> 'c rt \<Rightarrow> 'c rt" where
  "success_effects x w job ss stepName output s =
     (let agentName = jo_Label job labelAgent in
      if agentName = [] then s
      else updateAgentMetrics x (wf_Namespace w) agentName output (ss_StartTime ss) (x_now x) w (ss_Name ss)
             (workflow_cost w output
               (step_durations x w stepName agentName (ss_StartTime ss)
                 (metric (AgentInvocations agentName (wf_Namespace w) ''success'') s))))"

definition add_completed :: "Workflow \<Rightarrow> Workflow" where
  "add_completed w = upd_status (\<lambda>st. st\<lparr>wt_CompletedSteps := wt_CompletedSteps st + 1\<rparr>) w"

definition add_failed :: "Workflow \<Rightarrow> Workflow" where
  "add_failed w = upd_status (\<lambda>st. st\<lparr>wt_FailedSteps := wt_FailedSteps st + 1\<rparr>) w"

definition sync_succeeded :: "'c ctx \<Rightarrow> string \<Rightarrow> Job \<Rightarrow> ptr \<Rightarrow> 'c sync \<Rightarrow> 'c sync" where
  "sync_succeeded x stepName job p y =
     (let output = readJobOutput x job (sy_rt y);
          ss = (deref p y)\<lparr>ss_Phase := ''Succeeded'', ss_CompletionTime := Some (x_now x), ss_Output := Some output\<rparr>;
          y1 = assign p ss y;
          w = add_completed (sy_wf y1);
          (_, s1) = storeStepOutput x w stepName output (sy_rt y1);
          s2 = success_effects x w job ss stepName output s1;
          s3 = recordStepHistory x w ss (jo_Label job labelAgent) output s2
      in y1\<lparr>sy_wf := w, sy_changed := True, sy_rt := s3\<rparr>)"

definition failure_effects :: "'c ctx \<Rightarrow> Workflow \<Rightarrow> Job \<Rightarrow> StepStatus \<Rightarrow> 'c rt \<Rightarrow> 'c rt" where
  "failure_effects x w job ss s =
     (let agentName = jo_Label job labelAgent;
          s1 = (if agentName = [] then s
                else recordAgentFailure x (wf_Namespace w) agentName
                       (metric (AgentInvocations agentName (wf_Namespace w) ''failure'') s))
      in recordStepHistory x w ss agentName [] s1)"

text \<open>The retry whose time has not come leaves everything as it is (\<^verbatim>\<open>continue\<close>).\<close>

definition retry_early :: "'c ctx \<Rightarrow> WorkflowStep option \<Rightarrow> StepStatus \<Rightarrow> bool" where
  "retry_early x step ss =
     (case ss_CompletionTime ss of
        None \<Rightarrow> False | Some t \<Rightarrow> x_now x - t < getRetryDelay step (ss_RetryCount ss))"

definition sync_failed :: "'c ctx \<Rightarrow> string \<Rightarrow> Job \<Rightarrow> ptr \<Rightarrow> 'c sync \<Rightarrow> 'c sync" where
  "sync_failed x stepName job p y =
     (let errMsg = readJobError x job (sy_rt y);
          step = getStepByName (sy_wf y) stepName;
          ss = deref p y
      in if ss_RetryCount ss < getMaxRetries step then
           (if retry_early x step ss then y
            else (let y1 = assign p (ss\<lparr>ss_RetryCount := ss_RetryCount ss + 1, ss_Phase := [],
                                       ss_CompletionTime := None\<rparr>) y
                  in y1\<lparr>sy_changed := True, sy_jobs := filter (\<lambda>(n, _). n \<noteq> stepName) (sy_jobs y1),
                       sy_rt := delete_job x (om_Namespace (jo_Meta job), jo_Name job) (sy_rt y1)\<rparr>))
         else (let ss1 = ss\<lparr>ss_Phase := ''Failed'', ss_CompletionTime := Some (x_now x), ss_Error := errMsg\<rparr>;
                   y1 = assign p ss1 y; w = add_failed (sy_wf y1)
               in y1\<lparr>sy_wf := w, sy_changed := True, sy_rt := failure_effects x w job ss1 (sy_rt y1)\<rparr>))"

text \<open>A job without a status gets one, running.\<close>

definition adopt_job :: "'c ctx \<Rightarrow> string \<Rightarrow> Job \<Rightarrow> 'c sync \<Rightarrow> 'c sync \<times> ptr" where
  "adopt_job x stepName job y =
     (let (y1, p) = ensure_ptr x stepName y
      in (assign p ((deref p y1)\<lparr>ss_Phase := ''Running'', ss_JobName := jo_Name job\<rparr>) y1\<lparr>sy_changed := True\<rparr>, p))"

definition sync_running :: "'c ctx \<Rightarrow> string \<Rightarrow> Job \<Rightarrow> ptr \<Rightarrow> 'c sync \<Rightarrow> 'c sync" where
  "sync_running x stepName job p y =
     (if ss_Phase (deref p y) = ''Running'' then
        (if isJobComplete job then sync_succeeded x stepName job p y
         else if isJobFailed job then sync_failed x stepName job p y
         else y)
      else y)"

definition sync_one :: "'c ctx \<Rightarrow> (string \<Rightarrow> nat option) \<Rightarrow> string \<times> Job \<Rightarrow> 'c sync \<Rightarrow> 'c sync" where
  "sync_one x statusMap nj y =
     (let (stepName, job) = nj;
          (y1, p) = (case statusMap stepName of Some i \<Rightarrow> (y, Indexed i) | None \<Rightarrow> adopt_job x stepName job y)
      in sync_running x stepName job p y1)"

text \<open>The loop visits the entries of the job map in the order \<open>x_order\<close>.\<close>

definition syncJobs :: "'c ctx \<Rightarrow> Workflow \<Rightarrow> (string \<times> Job) list \<Rightarrow> 'c rt \<Rightarrow> 'c sync" where
  "syncJobs x w jobs s =
     foldl (\<lambda>y nj. sync_one x (status_index (wf_StepStatuses w)) nj y) (sync_start x w jobs s) (x_order x jobs)"

section \<open>What the loop promises\<close>

text \<open>
  The specification looks at a status alone: its phase and retries after the loop, given its job.
\<close>

definition settle :: "'c ctx \<Rightarrow> Workflow \<Rightarrow> Job \<Rightarrow> StepStatus \<Rightarrow> string \<times> int" where
  "settle x w job ss =
     (let step = getStepByName w (ss_Name ss); r = ss_RetryCount ss in
      if ss_Phase ss \<noteq> ''Running'' then (ss_Phase ss, r)
      else if isJobComplete job then (''Succeeded'', r)
      else if \<not> isJobFailed job then (''Running'', r)
      else if \<not> r < getMaxRetries step then (''Failed'', r)
      else if retry_early x step ss then (''Running'', r)
      else ([], r + 1))"

definition adopted :: "string \<Rightarrow> Job \<Rightarrow> StepStatus" where
  "adopted n job = (zero_step_status n)\<lparr>ss_Phase := ''Running'', ss_JobName := jo_Name job\<rparr>"

abbreviation core_of :: "StepStatus \<Rightarrow> string \<times> int" where
  "core_of ss \<equiv> (ss_Phase ss, ss_RetryCount ss)"

definition expected :: "'c ctx \<Rightarrow> Workflow \<Rightarrow> (string \<rightharpoonup> Job) \<Rightarrow> string \<Rightarrow> (string \<times> int) option" where
  "expected x w jobs n =
     (case (status_of w n, jobs n) of
        (None, None) \<Rightarrow> None
      | (Some ss, None) \<Rightarrow> Some (core_of ss)
      | (Some ss, Some job) \<Rightarrow> Some (settle x w job ss)
      | (None, Some job) \<Rightarrow> Some (settle x w job (adopted n job)))"

text \<open>Counters and statuses of finished steps differ by the same amounts before and after.\<close>

abbreviation done_phases :: "string list" where "done_phases \<equiv> [''Succeeded'', ''Skipped'']"

definition same_balance :: "Workflow \<Rightarrow> Workflow \<Rightarrow> bool" where
  "same_balance w w' \<longleftrightarrow>
     wt_CompletedSteps (wf_Status w') - count_phase done_phases w' =
       wt_CompletedSteps (wf_Status w) - count_phase done_phases w \<and>
     wt_FailedSteps (wf_Status w') - count_phase [''Failed''] w' =
       wt_FailedSteps (wf_Status w) - count_phase [''Failed''] w"

definition same_frame :: "Workflow \<Rightarrow> Workflow \<Rightarrow> bool" where
  "same_frame w w' \<longleftrightarrow> wf_Spec w' = wf_Spec w \<and> wf_Meta w' = wf_Meta w \<and> wf_Phase w' = wf_Phase w \<and>
     wt_TotalSteps (wf_Status w') = wt_TotalSteps (wf_Status w) \<and>
     wt_StartTime (wf_Status w') = wt_StartTime (wf_Status w)"

lemma same_trans:
  "same_balance a b \<Longrightarrow> same_balance b c \<Longrightarrow> same_balance a c"
  "same_frame a b \<Longrightarrow> same_frame b c \<Longrightarrow> same_frame a c"
  by (simp_all add: same_balance_def same_frame_def)

lemma same_refl [simp]: "same_balance w w" "same_frame w w"
  by (simp_all add: same_balance_def same_frame_def)

fun pidx :: "ptr \<Rightarrow> nat" where
  "pidx (Indexed i) = i"
| "pidx (Fresh i) = i"

lemma live_ptr:
  assumes "sy_old y = None"
  shows "deref p y = wf_StepStatuses (sy_wf y) ! pidx p"
    "assign p ss y = y\<lparr>sy_wf := update_step (pidx p) (\<lambda>_. ss) (sy_wf y)\<rparr>"
  using assms by (cases p; simp add: deref_def assign_def)+

lemma count_simps [simp]:
  "count_phase ps (add_completed w) = count_phase ps w" "count_phase ps (add_failed w) = count_phase ps w"
  "status_of (add_completed w) n = status_of w n" "status_of (add_failed w) n = status_of w n"
  "distinct_steps (add_completed w) = distinct_steps w" "distinct_steps (add_failed w) = distinct_steps w"
  "wf_StepStatuses (add_completed w) = wf_StepStatuses w" "wf_StepStatuses (add_failed w) = wf_StepStatuses w"
  "wt_CompletedSteps (wf_Status (add_completed w)) = wt_CompletedSteps (wf_Status w) + 1"
  "wt_FailedSteps (wf_Status (add_completed w)) = wt_FailedSteps (wf_Status w)"
  "wt_CompletedSteps (wf_Status (add_failed w)) = wt_CompletedSteps (wf_Status w)"
  "wt_FailedSteps (wf_Status (add_failed w)) = wt_FailedSteps (wf_Status w) + 1"
  by (simp_all add: count_phase_def status_of_def distinct_steps_def add_completed_def add_failed_def)

lemma frame_simps [simp]:
  "same_frame w (add_completed v) = same_frame w v" "same_frame w (add_failed v) = same_frame w v"
  "same_frame w (update_step i f v) = same_frame w v"
  by (simp_all add: same_frame_def add_completed_def add_failed_def)

text \<open>One status and one counter: the body of the loop behind a live pointer.\<close>

definition one_settled :: "'c ctx \<Rightarrow> Job \<Rightarrow> nat \<Rightarrow> 'c sync \<Rightarrow> 'c sync \<Rightarrow> bool" where
  "one_settled x job i y y' \<longleftrightarrow>
     (let old = wf_StepStatuses (sy_wf y) ! i in
      \<exists>ss. wf_StepStatuses (sy_wf y') = (wf_StepStatuses (sy_wf y))[i := ss] \<and> ss_Name ss = ss_Name old \<and>
        core_of ss = settle x (sy_wf y) job old) \<and>
     sy_old y' = sy_old y \<and> sy_cap y' = sy_cap y \<and>
     same_frame (sy_wf y) (sy_wf y') \<and> same_balance (sy_wf y) (sy_wf y')"

lemma settled_same:
  "i < length (wf_StepStatuses (sy_wf y)) \<Longrightarrow>
   settle x (sy_wf y) job (wf_StepStatuses (sy_wf y) ! i) = core_of (wf_StepStatuses (sy_wf y) ! i) \<Longrightarrow>
   one_settled x job i y y"
  unfolding one_settled_def Let_def by (auto intro: exI [of _ "wf_StepStatuses (sy_wf y) ! i"])

lemma sync_running_settles:
  assumes live: "sy_old y = None" and i: "pidx p < length (wf_StepStatuses (sy_wf y))"
    and nm: "ss_Name (wf_StepStatuses (sy_wf y) ! pidx p) = n"
  shows "one_settled x job (pidx p) y (sync_running x n job p y)"
proof -
  let ?ss = "wf_StepStatuses (sy_wf y) ! pidx p"
  note ptr = live_ptr [OF live, of p]
  note cu = count_update [OF i]
  consider (idle) "ss_Phase ?ss \<noteq> ''Running''" | (ok) "ss_Phase ?ss = ''Running''" "isJobComplete job"
    | (wait) "ss_Phase ?ss = ''Running''" "\<not> isJobComplete job" "\<not> isJobFailed job"
    | (fail) "ss_Phase ?ss = ''Running''" "\<not> isJobComplete job" "isJobFailed job" by blast
  then show ?thesis
  proof cases
    case idle
    then show ?thesis using settled_same [OF i] by (simp add: sync_running_def ptr settle_def Let_def)
  next
    case wait
    then show ?thesis using settled_same [OF i] by (simp add: sync_running_def ptr settle_def Let_def)
  next
    case ok
    then show ?thesis
      by (auto simp: sync_running_def ptr settle_def Let_def sync_succeeded_def one_settled_def cu
          same_balance_def split_def)
  next
    case fail
    moreover have "\<exists>ss. wf_StepStatuses (sy_wf y) = (wf_StepStatuses (sy_wf y))[pidx p := ss] \<and>
        ss_Name ss = ss_Name ?ss \<and> ss_Phase ss = ss_Phase ?ss \<and> ss_RetryCount ss = ss_RetryCount ?ss"
      by (rule exI [of _ ?ss]) simp
    ultimately show ?thesis
      using nm
      by (auto simp: sync_running_def ptr settle_def Let_def sync_failed_def one_settled_def cu same_balance_def
          delete_job_def)
  qed
qed


text \<open>Where the next entry of the job map finds its status: in the index, or in a new slot with room.\<close>

definition prepared :: "(string \<Rightarrow> nat option) \<Rightarrow> string \<Rightarrow> 'c sync \<Rightarrow> bool" where
  "prepared statusMap n y \<longleftrightarrow> sy_old y = None \<and> distinct_steps (sy_wf y) \<and>
     (case statusMap n of
        Some i \<Rightarrow> i < length (wf_StepStatuses (sy_wf y)) \<and> ss_Name (wf_StepStatuses (sy_wf y) ! i) = n
      | None \<Rightarrow> n \<notin> step_names (sy_wf y) \<and> length (wf_StepStatuses (sy_wf y)) < sy_cap y)"

lemma adopt_spec:
  assumes "sy_old y = None" "distinct_steps (sy_wf y)" "n \<notin> step_names (sy_wf y)"
    "length (wf_StepStatuses (sy_wf y)) < sy_cap y" "adopt_job x n job y = (y1, p)"
  shows "sy_old y1 = None" "sy_cap y1 = sy_cap y" "pidx p = length (wf_StepStatuses (sy_wf y))"
    "wf_StepStatuses (sy_wf y1) = wf_StepStatuses (sy_wf y) @ [adopted n job]"
    "same_frame (sy_wf y) (sy_wf y1)" "same_balance (sy_wf y) (sy_wf y1)"
proof -
  have none: "find_index (\<lambda>ss. ss_Name ss = n) (wf_StepStatuses (sy_wf y)) = None"
    using assms(3) by (auto simp: find_index_None step_names_def)
  show "sy_old y1 = None" "sy_cap y1 = sy_cap y" "pidx p = length (wf_StepStatuses (sy_wf y))"
    "wf_StepStatuses (sy_wf y1) = wf_StepStatuses (sy_wf y) @ [adopted n job]"
    "same_frame (sy_wf y) (sy_wf y1)" "same_balance (sy_wf y) (sy_wf y1)"
    using assms(5) none assms(1,4)
    by (auto simp: adopt_job_def ensure_ptr_def ensureStepStatus_def Let_def deref_def assign_def adopted_def
        same_frame_def same_balance_def count_phase_def)
qed

lemma status_of_list:
  "wf_StepStatuses w' = wf_StepStatuses w @ [ss] \<Longrightarrow> ss_Name ss \<notin> step_names w \<Longrightarrow>
     status_of w' m = (if m = ss_Name ss then Some ss else status_of w m)"
  using status_of_None [of w "ss_Name ss"] by (auto simp: status_of_def find_append split: option.split)

lemma status_of_set:
  assumes "wf_StepStatuses w' = (wf_StepStatuses w)[i := ss]" "distinct_steps w" "i < length (wf_StepStatuses w)"
    "ss_Name ss = ss_Name (wf_StepStatuses w ! i)"
  shows "status_of w' m = (if m = ss_Name ss then Some ss else status_of w m)" "distinct_steps w'"
proof -
  show "status_of w' m = (if m = ss_Name ss then Some ss else status_of w m)"
    using status_of_update [OF assms(2-4), of m] assms(1) by (simp add: status_of_def)
  show "distinct_steps w'" using assms by (simp add: distinct_steps_def map_list_update_same)
qed

text \<open>One entry of the job map changes the status of its step as specified and no other.\<close>

lemma sync_one_spec:
  assumes "prepared statusMap n y" and y': "y' = sync_one x statusMap (n, job) y"
  shows "sy_old y' = None" "sy_cap y' = sy_cap y" "distinct_steps (sy_wf y')"
    "same_frame (sy_wf y) (sy_wf y')" "same_balance (sy_wf y) (sy_wf y')"
    "m \<noteq> n \<Longrightarrow> status_of (sy_wf y') m = status_of (sy_wf y) m"
    "map_option core_of (status_of (sy_wf y') n) = expected x (sy_wf y) [n \<mapsto> job] n"
    "length (wf_StepStatuses (sy_wf y')) =
       length (wf_StepStatuses (sy_wf y)) + (if statusMap n = None then 1 else 0)"
    "i < length (wf_StepStatuses (sy_wf y)) \<Longrightarrow>
       ss_Name (wf_StepStatuses (sy_wf y') ! i) = ss_Name (wf_StepStatuses (sy_wf y) ! i)"
proof -
  have live: "sy_old y = None" and dist: "distinct_steps (sy_wf y)"
    using assms(1) by (simp_all add: prepared_def)
  have "sy_old y' = None \<and> sy_cap y' = sy_cap y \<and> distinct_steps (sy_wf y') \<and>
      same_frame (sy_wf y) (sy_wf y') \<and> same_balance (sy_wf y) (sy_wf y') \<and>
      (\<forall>m. m \<noteq> n \<longrightarrow> status_of (sy_wf y') m = status_of (sy_wf y) m) \<and>
      map_option core_of (status_of (sy_wf y') n) = expected x (sy_wf y) [n \<mapsto> job] n \<and>
      length (wf_StepStatuses (sy_wf y')) =
        length (wf_StepStatuses (sy_wf y)) + (if statusMap n = None then 1 else 0) \<and>
      (\<forall>i < length (wf_StepStatuses (sy_wf y)).
         ss_Name (wf_StepStatuses (sy_wf y') ! i) = ss_Name (wf_StepStatuses (sy_wf y) ! i))"
  proof (cases "statusMap n")
    case (Some i)
    with assms(1) have i: "i < length (wf_StepStatuses (sy_wf y))" "ss_Name (wf_StepStatuses (sy_wf y) ! i) = n"
      by (simp_all add: prepared_def)
    have "one_settled x job i y y'"
      using sync_running_settles [OF live, of "Indexed i"] i Some y' by (simp add: sync_one_def)
    then obtain ss where ss: "wf_StepStatuses (sy_wf y') = (wf_StepStatuses (sy_wf y))[i := ss]" "ss_Name ss = n"
        "core_of ss = settle x (sy_wf y) job (wf_StepStatuses (sy_wf y) ! i)"
      and rest: "sy_old y' = None" "sy_cap y' = sy_cap y" "same_frame (sy_wf y) (sy_wf y')"
        "same_balance (sy_wf y) (sy_wf y')"
      using i live by (auto simp: one_settled_def Let_def)
    have st: "status_of (sy_wf y) n = Some (wf_StepStatuses (sy_wf y) ! i)"
      using status_of_nth [OF dist i(1)] i(2) by simp
    show ?thesis
      using status_of_set [OF ss(1) dist i(1)] ss rest i st Some
      by (auto simp: expected_def nth_list_update)
  next
    case None
    obtain y1 p where ad: "adopt_job x n job y = (y1, p)" by (cases "adopt_job x n job y")
    have fresh: "n \<notin> step_names (sy_wf y)" "length (wf_StepStatuses (sy_wf y)) < sy_cap y"
      using assms(1) None by (simp_all add: prepared_def)
    note A = adopt_spec [OF live dist fresh ad]
    let ?i = "length (wf_StepStatuses (sy_wf y))"
    have at: "wf_StepStatuses (sy_wf y1) ! ?i = adopted n job" "?i < length (wf_StepStatuses (sy_wf y1))"
      "ss_Name (adopted n job) = n" using A(4) by (simp_all add: adopted_def zero_step_status_def)
    have d1: "distinct_steps (sy_wf y1)"
      using dist fresh(1) A(4) at(3) by (auto simp: distinct_steps_def step_names_def)
    have "one_settled x job ?i y1 y'"
      using sync_running_settles [OF A(1), of p n] at A(3) None ad y' by (simp add: sync_one_def)
    then obtain ss where ss: "wf_StepStatuses (sy_wf y') = (wf_StepStatuses (sy_wf y1))[?i := ss]" "ss_Name ss = n"
        "core_of ss = settle x (sy_wf y1) job (adopted n job)"
      and rest: "sy_old y' = None" "sy_cap y' = sy_cap y" "same_frame (sy_wf y1) (sy_wf y')"
        "same_balance (sy_wf y1) (sy_wf y')"
      using at A(1,2) by (auto simp: one_settled_def Let_def)
    have "settle x (sy_wf y1) job (adopted n job) = settle x (sy_wf y) job (adopted n job)"
      using A(5) by (simp add: settle_def getStepByName_def same_frame_def)
    moreover have "status_of (sy_wf y) n = None" using fresh(1) by (simp add: status_of_None)
    moreover have "ss_Name (adopted n job) \<notin> step_names (sy_wf y)" using fresh(1) at(3) by simp
    note status_of_list [OF A(4) this]
    moreover have nm: "ss_Name ss = ss_Name (wf_StepStatuses (sy_wf y1) ! ?i)" using ss(2) at by simp
    note status_of_set [OF ss(1) d1 at(2) nm]
    ultimately show ?thesis
      using ss rest at A(4) None same_trans(1) [OF A(6) rest(4)] same_trans(2) [OF A(5) rest(3)]
      by (auto simp: expected_def nth_list_update nth_append)
  qed
  then show "sy_old y' = None" "sy_cap y' = sy_cap y" "distinct_steps (sy_wf y')"
    "same_frame (sy_wf y) (sy_wf y')" "same_balance (sy_wf y) (sy_wf y')"
    "m \<noteq> n \<Longrightarrow> status_of (sy_wf y') m = status_of (sy_wf y) m"
    "map_option core_of (status_of (sy_wf y') n) = expected x (sy_wf y) [n \<mapsto> job] n"
    "length (wf_StepStatuses (sy_wf y')) =
       length (wf_StepStatuses (sy_wf y)) + (if statusMap n = None then 1 else 0)"
    "i < length (wf_StepStatuses (sy_wf y)) \<Longrightarrow>
       ss_Name (wf_StepStatuses (sy_wf y') ! i) = ss_Name (wf_StepStatuses (sy_wf y) ! i)"
    by blast+
qed

section \<open>The whole loop\<close>

lemma status_index_Some:
  "status_index sss n = Some i \<Longrightarrow> i < length sss \<and> ss_Name (sss ! i) = n"
  by (auto simp: status_index_def dest!: find_index_Some simp: rev_nth)

lemma status_index_None: "status_index (wf_StepStatuses w) n = None \<longleftrightarrow> n \<notin> step_names w"
  by (auto simp: status_index_def find_index_None step_names_def)

lemma settle_frame: "same_frame w v \<Longrightarrow> settle x v job ss = settle x w job ss"
  by (simp add: settle_def getStepByName_def same_frame_def)

lemma expected_frame:
  "same_frame w v \<Longrightarrow> status_of v m = status_of w m \<Longrightarrow> expected x v jobs m = expected x w jobs m"
  using settle_frame [of w v x] by (simp add: expected_def split: option.split)

definition index_ok :: "(string \<Rightarrow> nat option) \<Rightarrow> string \<Rightarrow> Workflow \<Rightarrow> bool" where
  "index_ok statusMap n w \<longleftrightarrow>
     (case statusMap n of
        Some i \<Rightarrow> i < length (wf_StepStatuses w) \<and> ss_Name (wf_StepStatuses w ! i) = n
      | None \<Rightarrow> n \<notin> step_names w)"

lemma index_ok_step:
  assumes "index_ok statusMap k w" "k \<noteq> n" "\<And>m. m \<noteq> n \<Longrightarrow> status_of v m = status_of w m"
    "length (wf_StepStatuses w) \<le> length (wf_StepStatuses v)"
    "\<And>i. i < length (wf_StepStatuses w) \<Longrightarrow> ss_Name (wf_StepStatuses v ! i) = ss_Name (wf_StepStatuses w ! i)"
  shows "index_ok statusMap k v"
  using assms status_of_None [of w k] status_of_None [of v k]
  by (cases "statusMap k") (auto simp: index_ok_def)

abbreviation orphans :: "(string \<Rightarrow> nat option) \<Rightarrow> (string \<times> Job) list \<Rightarrow> (string \<times> Job) list" where
  "orphans statusMap js \<equiv> filter (\<lambda>(n, _). statusMap n = None) js"

lemma sync_fold:
  assumes "sy_old y = None" "distinct_steps (sy_wf y)" "distinct (map fst js)"
    "\<And>n. n \<in> fst ` set js \<Longrightarrow> index_ok statusMap n (sy_wf y)"
    "length (wf_StepStatuses (sy_wf y)) + length (orphans statusMap js) \<le> sy_cap y"
  shows "let y' = foldl (\<lambda>y nj. sync_one x statusMap nj y) y js in
    distinct_steps (sy_wf y') \<and> same_frame (sy_wf y) (sy_wf y') \<and> same_balance (sy_wf y) (sy_wf y') \<and>
    (\<forall>m. map_option core_of (status_of (sy_wf y') m) = expected x (sy_wf y) (map_of js) m)"
  using assms
proof (induction js arbitrary: y)
  case Nil
  then show ?case by (auto simp: expected_def split: option.split)
next
  case (Cons nj js)
  obtain n job where nj: "nj = (n, job)" by (cases nj)
  define y1 where "y1 = sync_one x statusMap (n, job) y"
  have pr: "prepared statusMap n y"
    using Cons.prems(1,2,5) Cons.prems(4) [of n] nj
    by (auto simp: prepared_def index_ok_def split: option.splits)
  note S = sync_one_spec [OF pr y1_def]
  have "index_ok statusMap k (sy_wf y1)" if "k \<in> fst ` set js" for k
  proof (rule index_ok_step [where n = n])
    show "index_ok statusMap k (sy_wf y)" using Cons.prems(4) that by simp
    show "k \<noteq> n" using Cons.prems(3) that nj by auto
  qed (use S(6,8,9) in auto)
  moreover have "length (wf_StepStatuses (sy_wf y1)) + length (orphans statusMap js) \<le> sy_cap y1"
    using Cons.prems(5) S(2,8) nj by (auto split: if_splits)
  ultimately have IH: "let y' = foldl (\<lambda>y nj. sync_one x statusMap nj y) y1 js in
      distinct_steps (sy_wf y') \<and> same_frame (sy_wf y1) (sy_wf y') \<and> same_balance (sy_wf y1) (sy_wf y') \<and>
      (\<forall>m. map_option core_of (status_of (sy_wf y') m) = expected x (sy_wf y1) (map_of js) m)"
    using Cons.prems(3) S(1,3) by (intro Cons.IH) auto
  have "expected x (sy_wf y1) (map_of js) m = expected x (sy_wf y) (map_of (nj # js)) m" for m
  proof (cases "m = n")
    case True
    have "map_of js n = None" using Cons.prems(3) nj by (auto simp: map_of_eq_None_iff)
    then have "expected x (sy_wf y1) (map_of js) n = map_option core_of (status_of (sy_wf y1) n)"
      by (auto simp: expected_def split: option.split)
    then show ?thesis using S(7) True nj by (simp add: expected_def)
  next
    case False
    then have "expected x (sy_wf y1) (map_of js) m = expected x (sy_wf y) (map_of js) m"
      using expected_frame [OF S(4)] S(6) by blast
    then show ?thesis using False nj by (simp add: expected_def)
  qed
  then show ?case
    using IH same_trans(1) [OF S(5)] same_trans(2) [OF S(4)] nj y1_def
    by (simp add: Let_def fun_upd_def)
qed

text \<open>The loop against its specification, for any order of the job map: used by every caller below.\<close>

lemma syncJobs_spec:
  assumes "distinct_steps w" "distinct (map fst jobs)" "mset (x_order x jobs) = mset jobs"
    "length (filter (\<lambda>(n, _). n \<notin> step_names w) jobs) \<le> x_spare x (length (wf_StepStatuses w))"
  shows "distinct_steps (sy_wf (syncJobs x w jobs s))" "same_frame w (sy_wf (syncJobs x w jobs s))"
    "same_balance w (sy_wf (syncJobs x w jobs s))"
    "map_option core_of (status_of (sy_wf (syncJobs x w jobs s)) m) = expected x w (map_of jobs) m"
proof -
  let ?js = "x_order x jobs" and ?ix = "status_index (wf_StepStatuses w)"
  have dist: "distinct (map fst ?js)"
    using assms(2,3) by (metis mset_eq_imp_distinct_iff mset_map)
  have same: "map_of ?js = map_of jobs"
    using assms(2) dist mset_eq_setD [OF assms(3)] by (intro map_of_inject_set [THEN iffD2]) auto
  have "length (orphans ?ix ?js) = length (filter (\<lambda>(n, _). n \<notin> step_names w) jobs)"
    using assms(3) by (simp add: status_index_None size_mset [symmetric] del: size_mset)
  then have "length (wf_StepStatuses (sy_wf (sync_start x w jobs s))) + length (orphans ?ix ?js)
      \<le> sy_cap (sync_start x w jobs s)"
    using assms(4) by (simp add: sync_start_def Let_def)
  moreover have "index_ok ?ix n (sy_wf (sync_start x w jobs s))" for n
    by (auto simp: index_ok_def sync_start_def Let_def status_index_None dest: status_index_Some split: option.split)
  ultimately have "let y' = foldl (\<lambda>y nj. sync_one x ?ix nj y) (sync_start x w jobs s) ?js in
    distinct_steps (sy_wf y') \<and> same_frame w (sy_wf y') \<and> same_balance w (sy_wf y') \<and>
    (\<forall>m. map_option core_of (status_of (sy_wf y') m) = expected x w (map_of ?js) m)"
    using sync_fold [of "sync_start x w jobs s" ?js ?ix x] assms(1) dist
    by (simp add: sync_start_def Let_def)
  then show "distinct_steps (sy_wf (syncJobs x w jobs s))" "same_frame w (sy_wf (syncJobs x w jobs s))"
    "same_balance w (sy_wf (syncJobs x w jobs s))"
    "map_option core_of (status_of (sy_wf (syncJobs x w jobs s)) m) = expected x w (map_of jobs) m"
    unfolding syncJobs_def by (simp_all add: Let_def same)
qed

end
