(* ===== verification/Sync_Properties.thy ===== *)
theory Sync_Properties imports Reconcile_Sync Sample_Cluster begin

text \<open>What the status loop guarantees, on whole job maps, and the case in which it loses an update.\<close>

text \<open>C4: Bringing the statuses up to date with the jobs does for every step exactly what its own job and
  status say, whatever the order in which the job map is visited: a running step whose job is complete has
  succeeded, one whose job failed is retried while retries remain and has failed afterwards, every other
  status keeps its phase, and a job without a status gets one.  The counters of completed and failed steps
  move with the statuses.  The slice of statuses must have room for the statuses to add.\<close>

theorem sync_refines:
  assumes "distinct_steps w" "distinct (map fst jobs)" "mset (x_order x jobs) = mset jobs"
    and "length (filter (\<lambda>(n, _). n \<notin> step_names w) jobs) \<le> x_spare x (length (wf_StepStatuses w))"
  shows "map_option core_of (status_of (sy_wf (syncJobs x w jobs s)) n) = expected x w (map_of jobs) n \<and>
    same_balance w (sy_wf (syncJobs x w jobs s)) \<and> distinct_steps (sy_wf (syncJobs x w jobs s))"
  using syncJobs_spec [OF assms] by simp

abbreviation two_steps :: Workflow where
  "two_steps \<equiv> plain_workflow [plain_step ''a'' [], plain_step ''b'' []]
     [step_in ''a'' ''Running'', step_in ''b'' ''Running'']"

lemma sync_refines_witness:
  "map_option core_of (status_of (sy_wf (syncJobs list_ctx two_steps
     [(''a'', plain_job ''a'' ''Complete''), (''b'', plain_job ''b'' ''Failed'')] (list_rt no_cluster))) ''a'') =
   Some (''Succeeded'', 0)"
  using sync_refines [of two_steps "[(''a'', plain_job ''a'' ''Complete''), (''b'', plain_job ''b'' ''Failed'')]"
      list_ctx "list_rt no_cluster" "''a''"]
  by (simp add: sample_defs distinct_steps_def step_names_def expected_def status_of_def settle_def
      isJobComplete_def)

text \<open>
  Without room, the append for a job that has no status moves the slice, and a status brought up to date
  after that is lost while its counter is not.  A second pass counts the same step again: with two steps
  the workflow then counts as finished although one of them is still running.
\<close>

abbreviation one_status :: Workflow where
  "one_status \<equiv> plain_workflow [plain_step ''a'' [], plain_step ''b'' []] [step_in ''a'' ''Running'']"

abbreviation orphan_jobs :: "(string \<times> Job) list" where
  "orphan_jobs \<equiv> [(''b'', plain_job ''b'' []), (''a'', plain_job ''a'' ''Complete'')]"

lemma lost_update:
  fixes s :: "cluster rt"
  defines "w1 \<equiv> sy_wf (syncJobs list_ctx one_status orphan_jobs s)"
  defines "w2 \<equiv> sy_wf (syncJobs list_ctx w1 orphan_jobs s)"
  shows "map ss_Phase (wf_StepStatuses w1) = [''Running'', ''Running'']"
    "wt_CompletedSteps (wf_Status w1) = 1"
    "map ss_Phase (wf_StepStatuses w2) = [''Succeeded'', ''Running'']"
    "wt_CompletedSteps (wf_Status w2) = wt_TotalSteps (wf_Status w2)"
proof -
  have ord: "x_order list_ctx js = js" "x_spare list_ctx n = 0" "x_grow list_ctx n = n" for js n
    by (simp_all add: list_ctx_def)
  have job: "isJobComplete (plain_job ''a'' ''Complete'')" "\<not> isJobComplete (plain_job ''b'' [])"
    "\<not> isJobFailed (plain_job ''b'' [])" by (simp_all add: plain_job_def isJobComplete_def isJobFailed_def)
  note eval = syncJobs_def ord sync_one_def sync_running_def adopt_job_def ensure_ptr_def ensureStepStatus_def
    sync_start_def status_index_def deref_def assign_def sync_succeeded_def add_completed_def job
    update_step_def split_def Let_def
  let ?a = "step_in ''a'' ''Running''" and ?b = "adopted ''b'' (plain_job ''b'' [])"
  have st: "wf_StepStatuses one_status = [?a]" "wt_CompletedSteps (wf_Status one_status) = 0"
    by (simp_all add: plain_workflow_def zero_status_def)
  have nm: "ss_Name ?a = ''a''" "ss_Phase ?a = ''Running''" by (simp_all add: step_in_def zero_step_status_def)
  have sts: "wf_StepStatuses w1 = [?a, ?b]" and c1: "wt_CompletedSteps (wf_Status w1) = 1"
    unfolding w1_def by (simp_all add: eval st nm adopted_def zero_step_status_def)
  then show "map ss_Phase (wf_StepStatuses w1) = [''Running'', ''Running'']"
    "wt_CompletedSteps (wf_Status w1) = 1" by (simp_all add: nm adopted_def)
  have nb: "ss_Name ?b = ''b''" "ss_Phase ?b = ''Running''" by (simp_all add: adopted_def zero_step_status_def)
  have tot: "wt_TotalSteps (wf_Status w1) = 2"
    unfolding w1_def by (simp add: eval st nm) (simp add: plain_workflow_def zero_status_def)
  show "map ss_Phase (wf_StepStatuses w2) = [''Succeeded'', ''Running'']"
    unfolding w2_def by (simp add: eval sts nm nb c1)
  show "wt_CompletedSteps (wf_Status w2) = wt_TotalSteps (wf_Status w2)"
    unfolding w2_def by (simp add: eval sts nm nb c1 tot)
qed

end
