(* ===== verification/Reconcile_Phases.thy ===== *)
theory Reconcile_Phases imports Reconcile_Sync begin

text \<open>
  The parts of \<^verbatim>\<open>Reconcile\<close> before and after the status loop that end a reconcile early: finalizer and
  deletion, the monitoring of a rollback, cancellation, the workflow timeout, the concurrency policy, the
  first initialisation, the check of the agents, the failure strategies and completion.

  A part returns the result of the reconcile, or \<open>None\<close> to go on, with the workflow object in memory and
  the state.
\<close>

type_synonym 'c step = "outcome option \<times> Workflow \<times> 'c rt"

definition and_then :: "'c step \<Rightarrow> (Workflow \<Rightarrow> 'c rt \<Rightarrow> 'c step) \<Rightarrow> 'c step" where
  "and_then r k = (case r of (None, w, s) \<Rightarrow> k w s | (Some out, w, s) \<Rightarrow> (Some out, w, s))"

definition update_wf :: "'c ctx \<Rightarrow> Workflow \<Rightarrow> 'c rt \<Rightarrow> kerr option \<times> 'c rt" where
  "update_wf x w s = (let (err, c) = k_update_wf (x_api x) (rs_c s) w in (err, s\<lparr>rs_c := c\<rparr>))"

definition status_wf :: "'c ctx \<Rightarrow> Workflow \<Rightarrow> 'c rt \<Rightarrow> kerr option \<times> 'c rt" where
  "status_wf x w s = (let (err, c) = k_status_wf (x_api x) (rs_c s) w in (err, s\<lparr>rs_c := c\<rparr>))"

definition ends :: "outcome \<Rightarrow> kerr option \<Rightarrow> outcome" where
  "ends out err = (case err of Some e \<Rightarrow> Fail e | None \<Rightarrow> out)"

abbreviation in_5s :: outcome where "in_5s \<equiv> RequeueAfter (5 * second)"

definition complete_now :: "'c ctx \<Rightarrow> Workflow \<Rightarrow> Workflow" where
  "complete_now x w = upd_status (\<lambda>st. st\<lparr>wt_CompletionTime := Some (x_now x)\<rparr>) w"

text \<open>\<^verbatim>\<open>setPhase\<close> as the last action, with its error as the result.\<close>

definition end_with :: "'c ctx \<Rightarrow> string \<Rightarrow> string \<Rightarrow> string \<Rightarrow> Workflow \<Rightarrow> 'c rt \<Rightarrow> 'c step" where
  "end_with x phase reason msg w s =
     (let (err, w1, s1) = setPhase x w phase reason msg s in (Some (ends Done err), w1, s1))"

section \<open>Deletion and finalizer\<close>

abbreviation workflowFinalizer :: string where "workflowFinalizer \<equiv> ''purko.io/workflow-finalizer''"

definition map_meta :: "(ObjectMeta \<Rightarrow> ObjectMeta) \<Rightarrow> Workflow \<Rightarrow> Workflow" where
  "map_meta f w = w\<lparr>wf_Meta := f (wf_Meta w)\<rparr>"

definition reconcile_deletion :: "'c ctx \<Rightarrow> Workflow \<Rightarrow> 'c rt \<Rightarrow> 'c step" where
  "reconcile_deletion x w s =
     (if om_DeletionTimestamp (wf_Meta w) \<noteq> None then
        (if x_has_finalizer x (wf_Meta w) workflowFinalizer then
           (let s1 = deleteWorkflowJobs x w s;
                w1 = map_meta (\<lambda>m. x_remove_finalizer x m workflowFinalizer) w;
                (err, s2) = update_wf x w1 s1
            in (Some (ends Done err), w1, s2))
         else (Some Done, w, s))
      else if \<not> x_has_finalizer x (wf_Meta w) workflowFinalizer then
        (let w1 = map_meta (\<lambda>m. x_add_finalizer x m workflowFinalizer) w; (err, s1) = update_wf x w1 s
         in (Some (ends Requeue err), w1, s1))
      else (None, w, s))"

section \<open>Rollback\<close>

text \<open>A step being rolled back is done when its Job is finished, cannot be read, or was never named.\<close>

definition rollback_waits :: "'c ctx \<Rightarrow> Workflow \<Rightarrow> 'c rt \<Rightarrow> StepStatus \<Rightarrow> bool" where
  "rollback_waits x w s ss \<longleftrightarrow>
     ss_Phase ss = ''RollingBack'' \<and> ss_JobName ss \<noteq> [] \<and>
     (case k_get_job (x_api x) (rs_c s) (wf_Namespace w, ss_JobName ss) of
        Inl _ \<Rightarrow> False | Inr j \<Rightarrow> \<not> (isJobComplete j \<or> isJobFailed j))"

definition rollback_status :: "'c ctx \<Rightarrow> Workflow \<Rightarrow> 'c rt \<Rightarrow> StepStatus \<Rightarrow> StepStatus" where
  "rollback_status x w s ss =
     (if ss_Phase ss = ''RollingBack'' \<and> \<not> rollback_waits x w s ss then ss\<lparr>ss_Phase := ''RolledBack''\<rparr> else ss)"

definition rolledBack :: "Workflow \<Rightarrow> string list" where
  "rolledBack w = map ss_Name (filter (\<lambda>ss. ss_Phase ss = ''RolledBack'') (wf_StepStatuses w))"

definition rolled_back_msg :: "string list \<Rightarrow> string" where
  "rolled_back_msg names =
     ''Rolled back '' @ show_nat (length names) @ '' steps: '' @ join '', '' names"

definition monitor_rollback :: "'c ctx \<Rightarrow> Workflow \<Rightarrow> 'c rt \<Rightarrow> 'c step" where
  "monitor_rollback x w s =
     (let w1 = set_steps (map (rollback_status x w s) (wf_StepStatuses w)) w in
      if \<not> list_ex (rollback_waits x w s) (wf_StepStatuses w) then
        (let w2 = complete_now x w1;
             (err, w3, s1) = setPhase x w2 ''Failed'' ''RolledBack'' (rolled_back_msg (rolledBack w2)) s
         in case err of
              Some e \<Rightarrow> (Some (Fail e), w3, s1)
            | None \<Rightarrow> (Some Done, w3, metric (WorkflowsActiveDec (wf_Namespace w)) s1))
      else (let (err, s1) = status_wf x w1 s in (Some (ends in_5s err), w1, s1)))"

section \<open>Cancellation and timeout\<close>

abbreviation annotated :: "string \<Rightarrow> Workflow \<Rightarrow> bool" where
  "annotated k w \<equiv> wf_Annotation w k = ''true''"

definition cancel :: "'c ctx \<Rightarrow> Workflow \<Rightarrow> 'c rt \<Rightarrow> 'c step" where
  "cancel x w s =
     end_with x ''Cancelled'' ''UserCancelled'' ''Workflow cancelled via purko.io/cancel annotation''
       (complete_now x (skip_running w)) (deleteWorkflowJobs x w s)"

definition workflowTimeout :: "Workflow \<Rightarrow> int" where
  "workflowTimeout w =
     (case Option.bind (wp_Timeout (wf_Spec w)) unmarshal_string of
        None \<Rightarrow> 30 * minute
      | Some t \<Rightarrow> if t = [] then 30 * minute
                 else (case ParseDuration t of Some d \<Rightarrow> d | None \<Rightarrow> 30 * minute))"

definition reconcile_timeout :: "'c ctx \<Rightarrow> Workflow \<Rightarrow> 'c rt \<Rightarrow> 'c step" where
  "reconcile_timeout x w s =
     (case wt_StartTime (wf_Status w) of
        None \<Rightarrow> (None, w, s)
      | Some start \<Rightarrow>
          (let elapsed = x_now x - start in
           if wf_Phase w = ''Running'' \<and> workflowTimeout w < elapsed
           then end_with x ''Failed'' ''WorkflowTimeout''
                  (''Workflow exceeded timeout of '' @ show_duration (workflowTimeout w) @ '' (elapsed: '' @
                   show_duration (round_second elapsed) @ '')'')
                  (complete_now x w) (deleteWorkflowJobs x w s)
           else (None, w, s)))"

section \<open>Concurrency\<close>

definition template_name :: "Workflow \<Rightarrow> string" where
  "template_name w = wf_Annotation w ''purko.io/workflow-template''"

definition active_runs :: "Workflow \<Rightarrow> Workflow list \<Rightarrow> Workflow list" where
  "active_runs w ws =
     filter (\<lambda>v. wf_Name v \<noteq> wf_Name w \<and> (wf_Phase v = ''Running'' \<or> wf_Phase v = ''Pending'') \<and>
                 template_name w \<noteq> [] \<and> template_name v = template_name w) ws"

definition cancel_run :: "'c ctx \<Rightarrow> Workflow \<Rightarrow> 'c rt \<Rightarrow> 'c rt" where
  "cancel_run x v s =
     (let v1 = upd_status (\<lambda>st. st\<lparr>wt_Phase := ''Cancelled'',
                 wt_Message := ''Cancelled by concurrency policy (replace)'',
                 wt_CompletionTime := Some (x_now x)\<rparr>) v
      in deleteWorkflowJobs x v1 (snd (status_wf x v1 s)))"

definition max_parallel :: "ConcurrencySpec \<Rightarrow> int" where
  "max_parallel c = (if cc_MaxParallel c \<le> 0 then 1 else cc_MaxParallel c)"

definition enforceConcurrency :: "'c ctx \<Rightarrow> ConcurrencySpec \<Rightarrow> Workflow \<Rightarrow> 'c rt \<Rightarrow> outcome option \<times> 'c rt" where
  "enforceConcurrency x conc w s =
     (case k_list_wf (x_api x) (rs_c s) (wf_Namespace w) of
        Inl e \<Rightarrow> (Some (Fail e), s)
      | Inr ws \<Rightarrow>
          (let runs = active_runs w ws; n = int (length runs) in
           if cc_Policy conc = ''forbid'' \<and> 0 < n then (Some (RequeueAfter (30 * second)), s)
           else if cc_Policy conc = ''replace'' then (None, foldl (\<lambda>s v. cancel_run x v s) s runs)
           else if cc_Policy conc = ''allow'' \<and> max_parallel conc \<le> n then (Some (RequeueAfter (30 * second)), s)
           else (None, s)))"

definition reconcile_concurrency :: "'c ctx \<Rightarrow> Workflow \<Rightarrow> 'c rt \<Rightarrow> 'c step" where
  "reconcile_concurrency x w s =
     (case wp_Concurrency (wf_Spec w) of
        None \<Rightarrow> (None, w, s)
      | Some conc \<Rightarrow>
          if wf_Phase w = [] \<and> cc_Policy conc \<noteq> []
          then (let (out, s1) = enforceConcurrency x conc w s in (out, w, s1))
          else (None, w, s))"

section \<open>Initialisation\<close>

definition init_status :: "'c ctx \<Rightarrow> Workflow \<Rightarrow> 'c rt \<Rightarrow> Workflow \<times> 'c rt" where
  "init_status x w s =
     (if wf_Phase w = [] then
        (upd_status (\<lambda>st. st\<lparr>wt_Phase := ''Pending'', wt_TotalSteps := int (length (wf_Steps w)),
           wt_CompletedSteps := 0, wt_FailedSteps := 0, wt_StartTime := Some (x_now x)\<rparr>) w,
         metric (WorkflowsActiveInc (wf_Namespace w)) s)
      else (w, s))"

definition set_annotation :: "string \<Rightarrow> string \<Rightarrow> Workflow \<Rightarrow> Workflow" where
  "set_annotation k v w = map_meta (\<lambda>m. m\<lparr>om_Annotations := (om_Annotations m)(k \<mapsto> v)\<rparr>) w"

definition reconcile_init :: "'c ctx \<Rightarrow> Workflow \<Rightarrow> 'c rt \<Rightarrow> 'c step" where
  "reconcile_init x w0 s0 =
     (let (w, s) = init_status x w0 s0 in
      if wf_Annotation w run_id_key = [] then
        (let w1 = set_annotation run_id_key (buildRunID (x_rand x) (om_UID (wf_Meta w))) w;
             (err, s1) = update_wf x w1 s
         in (Some (ends Requeue err), w1, s1))
      else (None, w, if wf_Phase w = ''Pending'' then recordWorkflowHistory x w s else s))"

section \<open>Agents\<close>

text \<open>The agents of the steps, by step name; the first that cannot be read ends the reconcile.\<close>

fun find_agents :: "'c ctx \<Rightarrow> Workflow \<Rightarrow> 'c rt \<Rightarrow> WorkflowStep list \<Rightarrow> (string \<rightharpoonup> Agent) \<Rightarrow>
    (WorkflowStep \<times> kerr) + (string \<rightharpoonup> Agent)" where
  "find_agents x w s [] cache = Inr cache"
| "find_agents x w s (step # steps) cache =
     (if ar_Name (ws_AgentRef step) = [] then find_agents x w s steps cache
      else (let ns = (if ar_Namespace (ws_AgentRef step) \<noteq> [] then ar_Namespace (ws_AgentRef step)
                      else wf_Namespace w)
            in case k_get_agent (x_api x) (rs_c s) (ns, ar_Name (ws_AgentRef step)) of
                 Inl e \<Rightarrow> Inl (step, e)
               | Inr agent \<Rightarrow> find_agents x w s steps (cache(ws_Name step \<mapsto> agent))))"

definition agent_missing :: "'c ctx \<Rightarrow> WorkflowStep \<Rightarrow> kerr \<Rightarrow> Workflow \<Rightarrow> 'c rt \<Rightarrow> 'c step" where
  "agent_missing x step e w s =
     (if e = NotFound then
        (let (_, w1, s1) = setPhase x w ''Failed'' ''AgentNotFound''
               (''Agent '' @ quote (ar_Name (ws_AgentRef step)) @ '' not found for step '' @ quote (ws_Name step)) s
         in (Some Done, w1, s1))
      else (Some (Fail e), w, s))"

section \<open>Failure strategies\<close>

definition fail_fast :: "'c ctx \<Rightarrow> Workflow \<Rightarrow> 'c rt \<Rightarrow> 'c step" where
  "fail_fast x w s =
     end_with x ''Failed'' ''StepFailed'' ''A step failed with failFast strategy''
       (skip_unfinished w) (stopJobs x w (jobsToStopOnFailure w) s)"

definition stop_workflow :: "'c ctx \<Rightarrow> Workflow \<Rightarrow> 'c rt \<Rightarrow> 'c step" where
  "stop_workflow x w s =
     end_with x ''Failed'' ''StepFailed'' ''A step failed with stop strategy''
       (skip_unfinished w) (deleteWorkflowJobs x w s)"

text \<open>
  The monitoring inside the rollback branch.  It differs from \<open>monitor_rollback\<close>: a step without a
  job stays, the error of the status write is dropped, and the gauge is left alone.
\<close>

definition rollback_status_again :: "'c ctx \<Rightarrow> Workflow \<Rightarrow> 'c rt \<Rightarrow> StepStatus \<Rightarrow> StepStatus" where
  "rollback_status_again x w s ss =
     (if ss_JobName ss = [] then ss else rollback_status x w s ss)"

definition monitor_again :: "'c ctx \<Rightarrow> Workflow \<Rightarrow> 'c rt \<Rightarrow> 'c step" where
  "monitor_again x w s =
     (let w1 = set_steps (map (rollback_status_again x w s) (wf_StepStatuses w)) w in
      if \<not> list_ex (rollback_waits x w s) (wf_StepStatuses w) then
        (let w2 = complete_now x w1;
             (_, w3, s1) = setPhase x w2 ''Failed'' ''RolledBack'' (rolled_back_msg (rolledBack w2)) s
         in (Some Done, w3, s1))
      else (Some in_5s, w1, s))"

definition rollback_input :: "string \<Rightarrow> string \<Rightarrow> string" where
  "rollback_input name output =
     marshal_str_map [(''action'', ''rollback''), (''originalOutput'', output),
       (''task'', ''Rollback step '' @ quote name @ '': undo the actions taken in the original execution. '' @
          ''Original output is provided.'')]"

definition mcp_json :: "'c ctx \<Rightarrow> string" where
  "mcp_json x = (case x_mcp x of Some j \<Rightarrow> j | None \<Rightarrow> [])"

definition rollback_job_name :: "Workflow \<Rightarrow> string \<Rightarrow> string" where
  "rollback_job_name w name = wf_Name w @ ''-rollback-'' @ name"

definition rollback_job :: "'c ctx \<Rightarrow> Workflow \<Rightarrow> WorkflowStep \<Rightarrow> Agent \<Rightarrow> string \<Rightarrow> string \<Rightarrow> 'c rt \<Rightarrow> Job" where
  "rollback_job x w step agent runID output s =
     (let (llm, key) = resolveLLMProvider x (mo_Provider (as_Model (ag_Spec agent))) s;
          job = buildStepJob (x_getenv x) w step agent (runID @ ''-rb'') (rollback_input (ws_Name step) output) []
                  (mcp_json x) llm key []
      in job\<lparr>jo_Meta := (jo_Meta job)\<lparr>om_Name := rollback_job_name w (ws_Name step)\<rparr>\<rparr>)"

definition rollback_one :: "'c ctx \<Rightarrow> Workflow \<Rightarrow> (string \<rightharpoonup> Agent) \<Rightarrow> string \<Rightarrow> str_map \<Rightarrow> StepStatus \<Rightarrow> 'c rt \<Rightarrow>
    StepStatus \<times> 'c rt" where
  "rollback_one x w cache runID outputs ss s =
     (if ss_Phase ss = ''Succeeded'' then
        (case (getStepByName w (ss_Name ss), cache (ss_Name ss)) of
           (Some step, Some agent) \<Rightarrow>
             (let job = rollback_job x w step agent runID (get_str outputs (ss_Name ss)) s
              in (ss\<lparr>ss_Phase := ''RollingBack'', ss_JobName := jo_Name job\<rparr>,
                  s\<lparr>rs_c := snd (k_create_job (x_api x) (rs_c s) job)\<rparr>))
         | _ \<Rightarrow> (ss\<lparr>ss_Phase := ''RolledBack''\<rparr>, s))
      else (if stoppable ss then ss\<lparr>ss_Phase := ''Skipped''\<rparr> else ss, s))"

text \<open>The loop goes over the statuses from the last to the first; \<open>rollback_steps\<close> takes them reversed.\<close>

fun rollback_steps :: "'c ctx \<Rightarrow> Workflow \<Rightarrow> (string \<rightharpoonup> Agent) \<Rightarrow> string \<Rightarrow> str_map \<Rightarrow> StepStatus list \<Rightarrow> 'c rt \<Rightarrow>
    StepStatus list \<times> 'c rt" where
  "rollback_steps x w cache runID outputs [] s = ([], s)"
| "rollback_steps x w cache runID outputs (ss # sss) s =
     (let (ss1, s1) = rollback_one x w cache runID outputs ss s;
          (sss1, s2) = rollback_steps x w cache runID outputs sss s1
      in (ss1 # sss1, s2))"

definition start_rollback :: "'c ctx \<Rightarrow> (string \<rightharpoonup> Agent) \<Rightarrow> string \<Rightarrow> Workflow \<Rightarrow> 'c rt \<Rightarrow> 'c step" where
  "start_rollback x cache runID w s =
     (let s1 = deleteWorkflowJobs x w s;
          outputs = getStepOutputs x w s1;
          completed = map ss_Name (filter (\<lambda>ss. ss_Phase ss = ''Succeeded'') (rev (wf_StepStatuses w)));
          (sss, s2) = rollback_steps x w cache runID outputs (rev (wf_StepStatuses w)) s1;
          (_, w1, s3) = setPhase x (set_steps (rev sss) w) ''RollingBack'' ''RollbackInProgress''
            (''Rolling back '' @ show_nat (length completed) @ '' completed steps: '' @ join '', '' completed) s2
      in (Some in_5s, w1, s3))"

definition reconcile_failure :: "'c ctx \<Rightarrow> (string \<rightharpoonup> Agent) \<Rightarrow> string \<Rightarrow> Workflow \<Rightarrow> 'c rt \<Rightarrow> 'c step" where
  "reconcile_failure x cache runID w s =
     (if \<not> 0 < wt_FailedSteps (wf_Status w) then (None, w, s)
      else if wf_Strategy w = ''failFast'' then fail_fast x w s
      else if wf_Strategy w = ''rollback'' then
        (if wf_Phase w = ''RollingBack'' then monitor_again x w s else start_rollback x cache runID w s)
      else if wf_Strategy w = ''stop'' then stop_workflow x w s
      else (None, w, s))"

section \<open>Completion\<close>

definition all_finished :: "Workflow \<Rightarrow> bool" where
  "all_finished w \<longleftrightarrow>
     wt_TotalSteps (wf_Status w) \<le> wt_CompletedSteps (wf_Status w) + wt_FailedSteps (wf_Status w)"

definition late_output :: "'c ctx \<Rightarrow> Workflow \<Rightarrow> (string \<times> Job) list \<Rightarrow> StepStatus \<Rightarrow> 'c rt \<Rightarrow> StepStatus \<times> 'c rt" where
  "late_output x w jobs ss s =
     (case (if (case ss_Output ss of None \<Rightarrow> True | Some out \<Rightarrow> length out \<le> 2)
            then map_of jobs (ss_Name ss) else None) of
        None \<Rightarrow> (ss, s)
      | Some job \<Rightarrow>
          if \<not> isJobComplete job then (ss, s)
          else (let output = readJobOutput x job s;
                    ss1 = ss\<lparr>ss_Output := Some output\<rparr>;
                    (_, s1) = storeStepOutput x w (ss_Name ss) output s
                in (ss1, recordStepHistory x w ss1 (jo_Label job labelAgent) output s1)))"

definition finish_status :: "'c ctx \<Rightarrow> Workflow \<Rightarrow> (string \<times> Job) list \<Rightarrow> StepStatus \<Rightarrow> 'c rt \<Rightarrow> StepStatus \<times> 'c rt" where
  "finish_status x w jobs ss s =
     (if ss_Phase ss = ''Running'' \<or> ss_Phase ss = [] then
        late_output x w jobs
          (ss\<lparr>ss_Phase := ''Succeeded'',
              ss_CompletionTime := (case ss_CompletionTime ss of None \<Rightarrow> Some (x_now x) | Some t \<Rightarrow> Some t)\<rparr>) s
      else (ss, s))"

fun finish_statuses :: "'c ctx \<Rightarrow> Workflow \<Rightarrow> (string \<times> Job) list \<Rightarrow> StepStatus list \<Rightarrow> 'c rt \<Rightarrow>
    StepStatus list \<times> 'c rt" where
  "finish_statuses x w jobs [] s = ([], s)"
| "finish_statuses x w jobs (ss # sss) s =
     (let (ss1, s1) = finish_status x w jobs ss s; (sss1, s2) = finish_statuses x w jobs sss s1
      in (ss1 # sss1, s2))"

definition finish_metrics :: "'c ctx \<Rightarrow> string \<Rightarrow> Workflow \<Rightarrow> 'c rt \<Rightarrow> 'c rt" where
  "finish_metrics x phase w s =
     metric (WorkflowsActiveDec (wf_Namespace w))
       (case (wt_StartTime (wf_Status w), wt_CompletionTime (wf_Status w)) of
          (Some t, Some u) \<Rightarrow> metric (WorkflowDuration (wf_Name w) (wf_Namespace w) phase (u - t)) s
        | _ \<Rightarrow> s)"

definition reconcile_finished :: "'c ctx \<Rightarrow> (string \<times> Job) list \<Rightarrow> Workflow \<Rightarrow> 'c rt \<Rightarrow> 'c step" where
  "reconcile_finished x jobs w s =
     (if \<not> all_finished w then (None, w, s)
      else (let w1 = complete_now x w;
                (sss, s1) = finish_statuses x w1 jobs (wf_StepStatuses w1) s;
                w2 = set_steps sss w1; st = wf_Status w2;
                (phase, reason, msg) =
                  completionPhase (wt_CompletedSteps st) (wt_FailedSteps st) (wt_TotalSteps st) (wf_Strategy w2);
                (err, w3, s2) = setPhase x w2 phase reason msg s1
            in case err of
                 Some e \<Rightarrow> (Some (Fail e), w3, s2)
               | None \<Rightarrow> (Some Done, w3, finish_metrics x phase w3 s2)))"

end
