(* ===== verification/Reconcile.thy ===== *)
theory Reconcile imports Reconcile_Phases begin

text \<open>
  The end of \<^verbatim>\<open>Reconcile\<close>, which starts the steps whose turn has come, and \<^verbatim>\<open>Reconcile\<close> itself.
\<close>

section \<open>Starting steps\<close>

record 'c launch =
  la_wf :: Workflow
  la_running :: int
  la_changed :: bool
  la_cache :: "string \<rightharpoonup> Agent"
  la_rt :: "'c rt"

text \<open>Give the step a status without a job, and count it as completed.\<close>

definition close_step :: "'c ctx \<Rightarrow> string \<Rightarrow> string \<Rightarrow> 'c launch \<Rightarrow> 'c launch" where
  "close_step x stepName phase l =
     l\<lparr>la_wf := add_completed (with_step_status stepName
          (\<lambda>ss. ss\<lparr>ss_Phase := phase, ss_CompletionTime := Some (x_now x)\<rparr>) (la_wf l)),
       la_changed := True\<rparr>"

definition needs_approval :: "Agent \<Rightarrow> bool" where
  "needs_approval agent =
     (case Option.bind (as_Guardrails (ag_Spec agent)) iface_map of
        None \<Rightarrow> False | Some g \<Rightarrow> map_of g ''humanApprovalRequired'' = Some (IBool True))"

text \<open>
  The approval guardrail: the result says whether the step may start.  The status is made first, so an
  approved step has one when its job is built.
\<close>

definition denied :: "StepStatus \<Rightarrow> StepStatus" where
  "denied ss = ss\<lparr>ss_Phase := ''Failed'', ss_Error := ''Denied by user''\<rparr>"

definition waiting :: "string \<Rightarrow> StepStatus \<Rightarrow> StepStatus" where
  "waiting stepName ss =
     ss\<lparr>ss_Phase := ''Pending'',
        ss_Error := ''Waiting for human approval (set annotation purko.io/approve-'' @ stepName @ ''=true)''\<rparr>"

definition check_approval :: "Agent \<Rightarrow> string \<Rightarrow> 'c launch \<Rightarrow> bool \<times> 'c launch" where
  "check_approval agent stepName l =
     (if \<not> needs_approval agent then (True, l)
      else (let (w, i) = ensureStepStatus (la_wf l) stepName in
        if ss_Phase (wf_StepStatuses w ! i) = ''Running'' then (True, l\<lparr>la_wf := w\<rparr>)
        else if annotated (''purko.io/deny-'' @ stepName) w then
          (False, l\<lparr>la_wf := update_step i denied w, la_changed := True\<rparr>)
        else if \<not> annotated (''purko.io/approve-'' @ stepName) w then
          (False, l\<lparr>la_wf := update_step i (waiting stepName) w, la_changed := True\<rparr>)
        else (True, l\<lparr>la_wf := w\<rparr>)))"

definition recall_for :: "'c ctx \<Rightarrow> string \<Rightarrow> Agent \<Rightarrow> WorkflowStep \<Rightarrow> string \<Rightarrow> 'c launch \<Rightarrow>
    string \<times> Agent \<times> 'c launch" where
  "recall_for x runID agent step stepInput l =
     (if memoryBehavior agent = ''persistent'' then
        (let (agent1, s1) = importLegacyMemory x agent (la_wf l) (la_rt l);
             (block, s2) = recallMemory x agent1 (la_wf l) runID (ws_Name step) stepInput s1
         in (block, agent1, l\<lparr>la_cache := (la_cache l)(ws_Name step \<mapsto> agent1), la_rt := s2\<rparr>))
      else ([], agent, l))"

definition mark_running :: "'c ctx \<Rightarrow> string \<Rightarrow> string \<Rightarrow> 'c launch \<Rightarrow> 'c launch" where
  "mark_running x stepName jobName l =
     l\<lparr>la_wf := with_step_status stepName
          (\<lambda>ss. ss\<lparr>ss_Phase := ''Running'', ss_JobName := jobName, ss_StartTime := Some (x_now x)\<rparr>) (la_wf l),
       la_running := la_running l + 1, la_changed := True\<rparr>"

text \<open>A job that already exists counts as created; another error leaves the step for the next reconcile.\<close>

definition start_job :: "'c ctx \<Rightarrow> string \<Rightarrow> str_map \<Rightarrow> WorkflowStep \<Rightarrow> Agent \<Rightarrow> 'c launch \<Rightarrow> 'c launch" where
  "start_job x runID outputs step agent l =
     (let w = la_wf l;
          stepInput = buildStepInput w step outputs;
          (llm, key) = resolveLLMProvider x (mo_Provider (as_Model (ag_Spec agent))) (la_rt l);
          (recalled, agent1, l1) = recall_for x runID agent step stepInput l;
          job = buildStepJob (x_getenv x) w step agent1 runID stepInput (inputFromEnvs step outputs)
                  (mcp_json x) llm key recalled;
          (err, c) = k_create_job (x_api x) (rs_c (la_rt l1)) job;
          l2 = l1\<lparr>la_rt := (la_rt l1)\<lparr>rs_c := c\<rparr>\<rparr>
      in if err = None \<or> err = Some AlreadyExists then mark_running x (ws_Name step) (jo_Name job) l2 else l2)"

definition launch_one :: "'c ctx \<Rightarrow> string \<Rightarrow> str_map \<Rightarrow> string \<Rightarrow> 'c launch \<Rightarrow> 'c launch" where
  "launch_one x runID outputs stepName l =
     (case getStepByName (la_wf l) stepName of
        None \<Rightarrow> l
      | Some step \<Rightarrow>
          if ws_ConditionExpr step \<noteq> [] \<and> \<not> condition_met (ws_ConditionExpr step) outputs
          then close_step x stepName ''Skipped'' l
          else if ar_Name (ws_AgentRef step) = [] then close_step x stepName ''Succeeded'' l
          else (case la_cache l stepName of
                  None \<Rightarrow> l
                | Some agent \<Rightarrow>
                    (let (go, l1) = check_approval agent stepName l
                     in if go then start_job x runID outputs step agent l1 else l1)))"

fun launch_all :: "'c ctx \<Rightarrow> string \<Rightarrow> str_map \<Rightarrow> int \<Rightarrow> string list \<Rightarrow> 'c launch \<Rightarrow> 'c launch" where
  "launch_all x runID outputs parallelism [] l = l"
| "launch_all x runID outputs parallelism (n # ns) l =
     (if parallelism \<le> la_running l then l
      else launch_all x runID outputs parallelism ns (launch_one x runID outputs n l))"

definition running_jobs :: "(string \<times> Job) list \<Rightarrow> int" where
  "running_jobs jobs = int (length (filter (\<lambda>(_, j). 0 < jo_Active j) jobs))"

definition parallelism_of :: "Workflow \<Rightarrow> int" where
  "parallelism_of w = (case wp_Parallelism (wf_Spec w) of None \<Rightarrow> 1 | Some n \<Rightarrow> n)"

definition progress_message :: "Workflow \<Rightarrow> int \<Rightarrow> string" where
  "progress_message w running =
     show_int (wt_CompletedSteps (wf_Status w)) @ ''/'' @ show_int (wt_TotalSteps (wf_Status w)) @
     '' steps completed, '' @ show_int running @ '' running''"

definition launch_start :: "Workflow \<Rightarrow> (string \<times> Job) list \<Rightarrow> bool \<Rightarrow> (string \<rightharpoonup> Agent) \<Rightarrow> 'c rt \<Rightarrow> 'c launch" where
  "launch_start w jobs changed cache s =
     \<lparr>la_wf = w, la_running = running_jobs jobs, la_changed = changed, la_cache = cache, la_rt = s\<rparr>"

definition launch_steps :: "'c ctx \<Rightarrow> (string \<rightharpoonup> Agent) \<Rightarrow> string \<Rightarrow> (string \<times> Job) list \<Rightarrow> bool \<Rightarrow> Workflow \<Rightarrow> 'c rt \<Rightarrow>
    'c launch" where
  "launch_steps x cache runID jobs changed w s =
     launch_all x runID (getStepOutputs x w s) (parallelism_of w) (findExecutableSteps w (map fst jobs))
       (launch_start w jobs changed cache s)"

definition reconcile_launch :: "'c ctx \<Rightarrow> (string \<rightharpoonup> Agent) \<Rightarrow> string \<Rightarrow> (string \<times> Job) list \<Rightarrow> bool \<Rightarrow> Workflow \<Rightarrow>
    'c rt \<Rightarrow> 'c step" where
  "reconcile_launch x cache runID jobs changed w s =
     (let l = launch_steps x cache runID jobs changed w s in
      if la_changed l \<or> wf_Phase (la_wf l) = ''Pending'' then
        (let w1 = upd_status (\<lambda>st. st\<lparr>wt_ObservedGeneration := om_Generation (wf_Meta (la_wf l))\<rparr>) (la_wf l);
             (_, w2, s1) = setPhase x w1 ''Running'' ''StepsInProgress'' (progress_message w1 (la_running l)) (la_rt l)
         in (Some in_5s, w2, s1))
      else (Some in_5s, la_wf l, la_rt l))"

section \<open>Reconcile\<close>

definition reconcile_run :: "'c ctx \<Rightarrow> (string \<rightharpoonup> Agent) \<Rightarrow> Workflow \<Rightarrow> 'c rt \<Rightarrow> 'c step" where
  "reconcile_run x cache w s =
     (case getWorkflowJobs x w s of
        Inl e \<Rightarrow> (Some (Fail e), w, s)
      | Inr jobs \<Rightarrow>
          (let y = syncJobs x w jobs s; runID = wf_Annotation w run_id_key in
           and_then (reconcile_failure x cache runID (sy_wf y) (sy_rt y)) (\<lambda>w s.
           and_then (reconcile_finished x (sy_jobs y) w s) (\<lambda>w s.
             reconcile_launch x cache runID (sy_jobs y) (sy_changed y) w s))))"

definition reconcile_agents :: "'c ctx \<Rightarrow> Workflow \<Rightarrow> 'c rt \<Rightarrow> 'c step" where
  "reconcile_agents x w s =
     (case find_agents x w s (wf_Steps w) Map.empty of
        Inl (step, e) \<Rightarrow> agent_missing x step e w s
      | Inr cache \<Rightarrow> reconcile_run x cache w s)"

text \<open>Timeout, concurrency and initialisation, which come before the agents and jobs are read.\<close>

definition reconcile_prepare :: "'c ctx \<Rightarrow> Workflow \<Rightarrow> 'c rt \<Rightarrow> 'c step" where
  "reconcile_prepare x w s =
     and_then (reconcile_timeout x w s) (\<lambda>w s.
     and_then (reconcile_concurrency x w s) (\<lambda>w s. reconcile_init x w s))"

definition reconcile_active :: "'c ctx \<Rightarrow> Workflow \<Rightarrow> 'c rt \<Rightarrow> 'c step" where
  "reconcile_active x w s =
     (if terminal_phase (wf_Phase w) then (Some Done, w, s)
      else if annotated ''purko.io/template'' w then (Some Done, w, s)
      else if wf_Phase w = ''RollingBack'' then monitor_rollback x w s
      else if annotated ''purko.io/cancel'' w then cancel x w s
      else and_then (reconcile_prepare x w s) (reconcile_agents x))"

definition Reconcile :: "'c ctx \<Rightarrow> key \<Rightarrow> 'c rt \<Rightarrow> outcome \<times> Workflow option \<times> 'c rt" where
  "Reconcile x k s =
     (case k_get_wf (x_api x) (rs_c s) k of
        Inl NotFound \<Rightarrow> (Done, None, s)
      | Inl e \<Rightarrow> (Fail e, None, s)
      | Inr w \<Rightarrow>
          (let (out, w1, s1) = and_then (reconcile_deletion x w s) (reconcile_active x)
           in (case out of Some r \<Rightarrow> r | None \<Rightarrow> Done, Some w1, s1)))"

end
