(* ===== verification/Launch_Properties.thy ===== *)
theory Launch_Properties imports Reconcile Sample_Cluster begin

text \<open>
  The launch loop: it writes the status of the step it handles and of no other, keeps the counters in step
  with the statuses, starts only steps that are executable, and never more jobs than the parallelism allows.
\<close>

section \<open>One status at a time\<close>

abbreviation busy_phases :: "string list" where
  "busy_phases \<equiv> [''Succeeded'', ''Skipped'', ''Failed'', ''Running'']"

definition counted :: "Workflow \<Rightarrow> bool" where
  "counted w \<longleftrightarrow> wt_CompletedSteps (wf_Status w) = count_phase done_phases w \<and>
     wt_FailedSteps (wf_Status w) \<le> count_phase [''Failed''] w"

definition open_step :: "Workflow \<Rightarrow> string \<Rightarrow> bool" where
  "open_step w n \<longleftrightarrow> ss_Phase (status_or_new w n) \<notin> set busy_phases"

lemma counted_balance: "same_balance w w' \<Longrightarrow> counted w \<Longrightarrow> counted w'"
  by (simp add: counted_def same_balance_def)

text \<open>\<open>touches n w w'\<close>: from \<open>w\<close> to \<open>w'\<close> only the status of \<open>n\<close> was written, and counted if it is completed.\<close>

definition touches :: "string \<Rightarrow> Workflow \<Rightarrow> Workflow \<Rightarrow> bool" where
  "touches n w w' \<longleftrightarrow> distinct_steps w' \<and> same_frame w w' \<and>
     (\<forall>m. m \<noteq> n \<longrightarrow> status_of w' m = status_of w m) \<and> (counted w \<longrightarrow> counted w')"

lemma add_completed_simps [simp]:
  "wf_Spec (add_completed w) = wf_Spec w" "wf_Meta (add_completed w) = wf_Meta w"
  "wf_Phase (add_completed w) = wf_Phase w" "wt_TotalSteps (wf_Status (add_completed w)) = wt_TotalSteps (wf_Status w)"
  "wt_StartTime (wf_Status (add_completed w)) = wt_StartTime (wf_Status w)"
  by (simp_all add: add_completed_def)

lemma touches_refl: "distinct_steps w \<Longrightarrow> touches n w w"
  by (simp add: touches_def)

lemma touches_trans: "touches n a b \<Longrightarrow> touches n b c \<Longrightarrow> touches n a c"
  using same_trans(2) by (auto simp: touches_def)

lemma touches_names: "touches n w w' \<Longrightarrow> step_names w' \<subseteq> insert n (step_names w)"
  using status_of_None by (metis insertI1 insertI2 subsetI touches_def)

lemma touches_step:
  assumes "distinct_steps w" "open_step w n" "\<And>ss. ss_Name (f ss) = ss_Name ss"
    "ss_Phase (f (status_or_new w n)) \<notin> set done_phases"
  shows "touches n w (with_step_status n f w)"
  using assms with_step_distinct [OF assms(1,3)] status_of_with_step [OF assms(1,3)]
  by (auto simp: touches_def same_frame_def counted_def open_step_def count_with_step)

lemma touches_closed:
  assumes "distinct_steps w" "open_step w n" "\<And>ss. ss_Name (f ss) = ss_Name ss"
    "ss_Phase (f (status_or_new w n)) \<in> set done_phases"
  shows "touches n w (add_completed (with_step_status n f w))"
  using assms with_step_distinct [OF assms(1,3)] status_of_with_step [OF assms(1,3)]
  by (auto simp: touches_def same_frame_def counted_def open_step_def count_with_step)

text \<open>A step of the loop; the surplus of running statuses over counted jobs does not move.\<close>

definition surplus :: "'c launch \<Rightarrow> int" where
  "surplus l = count_phase [''Running''] (la_wf l) - la_running l"

definition step_ok :: "string \<Rightarrow> 'c launch \<Rightarrow> 'c launch \<Rightarrow> bool" where
  "step_ok n l l' \<longleftrightarrow> touches n (la_wf l) (la_wf l') \<and> surplus l' = surplus l \<and>
     la_running l \<le> la_running l' \<and> la_running l' \<le> la_running l + 1"

lemma ensure_start:
  "ensureStepStatus w n = (w1, i) \<Longrightarrow> wt_StartTime (wf_Status w1) = wt_StartTime (wf_Status w)"
  by (auto simp: ensureStepStatus_def split: option.splits)

lemma open_after_ensure:
  assumes "distinct_steps w" "open_step w n" "ensureStepStatus w n = (w1, i)"
  shows "touches n w w1" "open_step w1 n" "count_phase [''Running''] w1 = count_phase [''Running''] w"
  using ensure_facts [OF assms(1,3)] assms(2) ensure_start [OF assms(3)]
  by (auto simp: touches_def same_frame_def counted_def open_step_def status_or_new_def split: option.splits)


lemma check_approval_ok:
  assumes "distinct_steps (la_wf l)" "open_step (la_wf l) n" "check_approval agent n l = (go, l1)"
  shows "step_ok n l l1" "la_running l1 = la_running l" "la_rt l1 = la_rt l" "la_cache l1 = la_cache l"
    "go \<Longrightarrow> open_step (la_wf l1) n"
proof -
  obtain w1 i where e: "ensureStepStatus (la_wf l) n = (w1, i)" by (cases "ensureStepStatus (la_wf l) n")
  note E = ensure_facts [OF assms(1) e]
  note O = open_after_ensure [OF assms(1,2) e]
  have idle: "ss_Phase (wf_StepStatuses w1 ! i) \<notin> set busy_phases" using assms(2) E(3) by (simp add: open_step_def)
  have upd: "with_step_status n f (la_wf l) = update_step i f w1" for f using e by (simp add: with_step_status_def)
  have T: "touches n (la_wf l) (update_step i f w1)" "count_phase [''Running''] (update_step i f w1) =
      count_phase [''Running''] (la_wf l)" if "f = denied \<or> f = waiting n" for f
  proof -
    have f: "ss_Phase (f ss) \<notin> set done_phases" "ss_Phase (f ss) \<noteq> ''Running''" "ss_Name (f ss) = ss_Name ss" for ss
      using that by (auto simp: denied_def waiting_def)
    show "touches n (la_wf l) (update_step i f w1)"
      using touches_step [OF assms(1,2) f(3) f(1)] by (simp add: upd)
    show "count_phase [''Running''] (update_step i f w1) = count_phase [''Running''] (la_wf l)"
      using count_with_step [OF assms(1), of "[''Running'']" n f] f assms(2) by (simp add: upd open_step_def)
  qed
  consider "l1 = l" "go" | "l1 = l\<lparr>la_wf := w1\<rparr>" "go"
    | f where "f = denied \<or> f = waiting n" "l1 = l\<lparr>la_wf := update_step i f w1, la_changed := True\<rparr>" "\<not> go"
    using assms(3) e idle unfolding check_approval_def Let_def by (auto split: if_splits)
  then have "step_ok n l l1 \<and> la_running l1 = la_running l \<and> la_rt l1 = la_rt l \<and> la_cache l1 = la_cache l \<and>
      (go \<longrightarrow> open_step (la_wf l1) n)"
  proof cases
    case 1
    then show ?thesis using touches_refl [OF assms(1)] assms(2) by (simp add: step_ok_def)
  next
    case 2
    then show ?thesis using O by (simp add: step_ok_def surplus_def)
  next
    case 3
    then show ?thesis using T [OF 3(1)] by (simp add: step_ok_def surplus_def)
  qed
  then show "step_ok n l l1" "la_running l1 = la_running l" "la_rt l1 = la_rt l" "la_cache l1 = la_cache l"
    "go \<Longrightarrow> open_step (la_wf l1) n" by simp_all
qed

lemma recall_for_ok:
  assumes "recall_for x runID agent step inp l = (block, agent1, l1)"
  shows "la_wf l1 = la_wf l" "la_running l1 = la_running l" "la_changed l1 = la_changed l"
  using assms by (auto simp: recall_for_def Let_def split: if_splits prod.splits)

lemma start_job_ok:
  assumes "distinct_steps (la_wf l)" "open_step (la_wf l) (ws_Name step)"
  shows "step_ok (ws_Name step) l (start_job x runID outputs step agent l)"
proof -
  obtain block agent1 l1 where r: "recall_for x runID agent step (buildStepInput (la_wf l) step outputs) l
      = (block, agent1, l1)" by (metis prod.exhaust)
  note R = recall_for_ok [OF r]
  let ?n = "ws_Name step"
  have "start_job x runID outputs step agent l = l1\<lparr>la_rt := la_rt (start_job x runID outputs step agent l)\<rparr> \<or>
      (\<exists>job. start_job x runID outputs step agent l = mark_running x ?n job
         (l1\<lparr>la_rt := la_rt (start_job x runID outputs step agent l)\<rparr>))"
    by (auto simp: start_job_def Let_def r mark_running_def split: prod.split)
  moreover have "step_ok ?n l (l1\<lparr>la_rt := s\<rparr>)" for s
    using R touches_refl [OF assms(1)] by (simp add: step_ok_def surplus_def)
  moreover have "step_ok ?n l (mark_running x ?n job (l1\<lparr>la_rt := s\<rparr>))" for job s
    using R touches_step [OF assms] count_with_step [OF assms(1), of "[''Running'']" ?n] assms(2)
    by (auto simp: step_ok_def surplus_def mark_running_def open_step_def)
  ultimately show ?thesis by metis
qed

lemma close_step_ok:
  assumes "distinct_steps (la_wf l)" "open_step (la_wf l) n" "phase \<in> set done_phases"
  shows "step_ok n l (close_step x n phase l)"
  using assms touches_closed [OF assms(1,2)] count_with_step [OF assms(1), of "[''Running'']" n]
  by (auto simp: step_ok_def surplus_def close_step_def open_step_def)

lemma getStepByName_name: "getStepByName w n = Some step \<Longrightarrow> ws_Name step = n \<and> step \<in> set (wf_Steps w)"
  by (auto simp: getStepByName_def find_Some_iff)

lemma step_ok_trans: "step_ok n a b \<Longrightarrow> la_running b = la_running a \<Longrightarrow> step_ok n b c \<Longrightarrow> step_ok n a c"
  using touches_trans by (auto simp: step_ok_def)

lemma launch_one_ok:
  assumes "distinct_steps (la_wf l)" "open_step (la_wf l) n"
  shows "step_ok n l (launch_one x runID outputs n l)"
proof (cases "getStepByName (la_wf l) n")
  case None
  then show ?thesis using touches_refl [OF assms(1)] by (simp add: launch_one_def step_ok_def)
next
  case (Some step)
  then have nm: "ws_Name step = n" by (simp add: getStepByName_name)
  have same: "step_ok n l l" using touches_refl [OF assms(1)] by (simp add: step_ok_def)
  have close: "step_ok n l (close_step x n ''Skipped'' l)" "step_ok n l (close_step x n ''Succeeded'' l)"
    using close_step_ok [OF assms] by simp_all
  have start: "step_ok n l (if go then start_job x runID outputs step agent l1 else l1)"
    if "check_approval agent n l = (go, l1)" for agent go l1
  proof -
    note A = check_approval_ok [OF assms that]
    have "distinct_steps (la_wf l1)" using A(1) by (simp add: step_ok_def touches_def)
    then have "go \<Longrightarrow> step_ok n l1 (start_job x runID outputs step agent l1)"
      using start_job_ok [of l1 step] A(5) nm by simp
    then show ?thesis using A(1,2) step_ok_trans by auto
  qed
  show ?thesis using Some same close start
    by (auto simp: launch_one_def split: option.split prod.split)
qed

section \<open>The loop\<close>

definition launched :: "string set \<Rightarrow> 'c launch \<Rightarrow> 'c launch \<Rightarrow> bool" where
  "launched ns l l' \<longleftrightarrow> distinct_steps (la_wf l') \<and> same_frame (la_wf l) (la_wf l') \<and>
     (\<forall>m. m \<notin> ns \<longrightarrow> status_of (la_wf l') m = status_of (la_wf l) m) \<and>
     (counted (la_wf l) \<longrightarrow> counted (la_wf l')) \<and> surplus l' = surplus l \<and> la_running l \<le> la_running l'"

lemma open_step_status: "status_of w' n = status_of w n \<Longrightarrow> open_step w n \<Longrightarrow> open_step w' n"
  by (simp add: open_step_def status_or_new_def)

lemma launch_all_ok:
  "distinct ns \<Longrightarrow> distinct_steps (la_wf l) \<Longrightarrow> (\<And>n. n \<in> set ns \<Longrightarrow> open_step (la_wf l) n) \<Longrightarrow>
   launched (set ns) l (launch_all x runID outputs par ns l) \<and>
   la_running (launch_all x runID outputs par ns l) \<le> max (la_running l) par"
proof (induction ns arbitrary: l)
  case Nil
  then show ?case by (simp add: launched_def)
next
  case (Cons n ns)
  show ?case
  proof (cases "par \<le> la_running l")
    case True
    with Cons.prems show ?thesis by (simp add: launched_def)
  next
    case False
    define l1 where "l1 = launch_one x runID outputs n l"
    have ok: "step_ok n l l1" unfolding l1_def using Cons.prems(2,3) by (intro launch_one_ok) auto
    then have t: "touches n (la_wf l) (la_wf l1)" by (simp add: step_ok_def)
    have "open_step (la_wf l1) m" if "m \<in> set ns" for m
    proof (rule open_step_status)
      have "m \<noteq> n" using Cons.prems(1) that by auto
      then show "status_of (la_wf l1) m = status_of (la_wf l) m" using t by (simp add: touches_def)
      show "open_step (la_wf l) m" using Cons.prems(3) that by simp
    qed
    then have IH: "launched (set ns) l1 (launch_all x runID outputs par ns l1) \<and>
        la_running (launch_all x runID outputs par ns l1) \<le> max (la_running l1) par"
      using Cons.prems(1) t by (intro Cons.IH) (auto simp: touches_def)
    have "launched (set (n # ns)) l (launch_all x runID outputs par ns l1)"
      using IH ok same_trans(2) by (auto simp: launched_def step_ok_def touches_def)
    moreover have "max (la_running l1) par \<le> max (la_running l) par" using ok False by (simp add: step_ok_def)
    ultimately show ?thesis using IH False by (simp add: l1_def)
  qed
qed

lemma executable_open:
  assumes "distinct_steps w" "n \<in> set (findExecutableSteps w jobs)"
  shows "open_step w n" "n \<in> set (map ws_Name (wf_Steps w))"
proof -
  have ex: "\<not> step_finished w n" "\<not> has_phase [''Running''] w n" "n \<in> set (map ws_Name (wf_Steps w))"
    using assms(2) by (auto simp: findExecutableSteps_def step_active_def)
  show "n \<in> set (map ws_Name (wf_Steps w))" by fact
  have "ss_Phase ss \<notin> set busy_phases" if "status_of w n = Some ss" for ss
    using ex(1,2) that has_phase_status [OF assms(1)] by auto
  then show "open_step w n" by (auto simp: open_step_def status_or_new_def zero_step_status_def split: option.split)
qed

lemma launch_steps_ok:
  assumes "distinct_steps w" "distinct (map ws_Name (wf_Steps w))"
  shows "launched (set (findExecutableSteps w (map fst jobs))) (launch_start w jobs changed cache s)
      (launch_steps x cache runID jobs changed w s)"
    "la_running (launch_steps x cache runID jobs changed w s) \<le> max (running_jobs jobs) (parallelism_of w)"
proof -
  have "distinct (findExecutableSteps w (map fst jobs))"
    unfolding findExecutableSteps_def using assms(2) by (simp add: distinct_map_filter)
  from launch_all_ok [OF this, of "launch_start w jobs changed cache s" x runID "getStepOutputs x w s"
      "parallelism_of w"] executable_open [OF assms(1)] assms(1)
  show "launched (set (findExecutableSteps w (map fst jobs))) (launch_start w jobs changed cache s)
      (launch_steps x cache runID jobs changed w s)"
    "la_running (launch_steps x cache runID jobs changed w s) \<le> max (running_jobs jobs) (parallelism_of w)"
    unfolding launch_steps_def by (auto simp: launch_start_def)
qed

section \<open>Properties\<close>

text \<open>C6: One reconcile starts no more steps than the parallelism of the workflow leaves room for: the jobs
  that run and the steps it starts together stay within the parallelism, or at the number of jobs already
  running when that is larger; and exactly the steps it counts become running.\<close>

theorem launch_bounded:
  assumes "distinct_steps w" "distinct (map ws_Name (wf_Steps w))"
    and "l = launch_steps x cache runID jobs changed w s"
  shows "la_running l \<le> max (running_jobs jobs) (parallelism_of w) \<and>
    count_phase [''Running''] (la_wf l) = count_phase [''Running''] w + (la_running l - running_jobs jobs)"
  using launch_steps_ok [OF assms(1,2), where x = x and cache = cache and runID = runID and jobs = jobs
      and changed = changed and s = s]
  unfolding assms(3) by (simp add: launched_def surplus_def launch_start_def)

abbreviation chain :: Workflow where
  "chain \<equiv> plain_workflow [plain_step ''a'' [], plain_step ''b'' [''a''], plain_step ''c'' []] []"

lemma launch_bounded_witness:
  "la_running (launch_steps list_ctx [''a'' \<mapsto> plain_agent] ''r1'' [] False chain (list_rt no_cluster)) \<le> 2"
  using launch_bounded [of chain "launch_steps list_ctx [''a'' \<mapsto> plain_agent] ''r1'' [] False chain (list_rt no_cluster)"
      list_ctx "[''a'' \<mapsto> plain_agent]" "''r1''" "[]" False "list_rt no_cluster"]
  by (simp add: plain_workflow_def plain_spec_def plain_step_def distinct_steps_def zero_status_def
      running_jobs_def parallelism_of_def)

text \<open>C7: A step with a dependency that is neither completed nor, under \<open>continueOnError\<close>, failed, is left
  alone by the launch loop: its status does not change, whatever other steps are started before it.\<close>

theorem blocked_step_untouched:
  assumes "distinct_steps w" "distinct (map ws_Name (wf_Steps w))"
    and "step \<in> set (wf_Steps w)" "dep \<in> set (ws_DependsOn step)"
    and "\<not> has_phase (if wf_Strategy w = ''continueOnError'' then [''Succeeded'', ''Failed'', ''Skipped'']
                      else [''Succeeded'', ''Skipped'']) w dep"
  shows "status_of (la_wf (launch_steps x cache runID jobs changed w s)) (ws_Name step) =
    status_of w (ws_Name step)"
proof -
  have "ws_Name step \<notin> set (findExecutableSteps w (map fst jobs))"
  proof
    assume "ws_Name step \<in> set (findExecutableSteps w (map fst jobs))"
    then obtain step' where "step' \<in> set (wf_Steps w)" "ws_Name step' = ws_Name step" "deps_ready w step'"
      by (auto simp: findExecutableSteps_def)
    moreover from this assms(2,3) have "step' = step" by (auto simp: distinct_map inj_on_def)
    ultimately show False using assms(4,5) by (auto simp: deps_ready_def list_all_iff split: if_splits)
  qed
  then show ?thesis
    using launch_steps_ok(1) [OF assms(1,2), where x = x and cache = cache and runID = runID and jobs = jobs
      and changed = changed and s = s]
    by (simp add: launched_def launch_start_def)
qed

lemma blocked_step_untouched_witness:
  "status_of (la_wf (launch_steps list_ctx [''b'' \<mapsto> plain_agent] ''r1'' [] False chain (list_rt no_cluster))) ''b''
     = None"
  using blocked_step_untouched [of chain "plain_step ''b'' [''a'']" "''a''" list_ctx "[''b'' \<mapsto> plain_agent]" "''r1''"
      "[]" False "list_rt no_cluster"]
  by (simp add: plain_workflow_def plain_spec_def plain_step_def distinct_steps_def zero_status_def
      has_phase_def status_of_def)

end
