(* ===== verification/Keyed_Table.thy ===== *)
theory Keyed_Table imports Json "HOL-Library.Multiset" begin

text \<open>
  Lists that are used as tables: an entry with a key is put in or replaces the one it finds, and is removed
  by its key.  The interface is a locale; the JSON objects are one instance, the list of MCP servers is
  another.
\<close>

locale keyed_table =
  fixes key :: "'e \<Rightarrow> 'k option"
    and put :: "'k \<Rightarrow> 'e \<Rightarrow> 'e list \<Rightarrow> 'e list"
    and del :: "'k \<Rightarrow> 'e list \<Rightarrow> 'e list"
  assumes find_put: "key e = Some k \<Longrightarrow> find (\<lambda>x. key x = Some k) (put k e xs) = Some e"
    and others_put: "key e = Some k \<Longrightarrow>
      filter (\<lambda>x. key x \<noteq> Some k) (put k e xs) = filter (\<lambda>x. key x \<noteq> Some k) xs"
    and del_filter: "del k xs = filter (\<lambda>x. key x \<noteq> Some k) xs"
begin

lemma find_others: "j \<noteq> k \<Longrightarrow> find (\<lambda>x. key x = Some j) (filter (\<lambda>x. key x \<noteq> Some k) xs) = find (\<lambda>x. key x = Some j) xs"
  by (rule find_filter_other) auto

lemma find_put_other:
  assumes "key e = Some k" "j \<noteq> k"
  shows "find (\<lambda>x. key x = Some j) (put k e xs) = find (\<lambda>x. key x = Some j) xs"
  using find_others [OF assms(2), of "put k e xs"] find_others [OF assms(2), of xs] others_put [OF assms(1), of xs]
  by simp

lemma del_put: "key e = Some k \<Longrightarrow> del k (put k e xs) = del k xs"
  by (simp add: del_filter others_put)

lemma find_del: "find (\<lambda>x. key x = Some j) (del k xs) = (if j = k then None else find (\<lambda>x. key x = Some j) xs)"
  by (simp add: del_filter find_others find_None_iff)

lemma put_there: "key e = Some k \<Longrightarrow> e \<in> set (put k e xs)"
  using find_put [of e k xs] by (metis find_Some_iff nth_mem)

end

section \<open>Association lists\<close>

lemma alist_put_keys: "fst ` set (alist_put k v m) = insert k (fst ` set m)"
  by (force simp: alist_put_def split: if_splits)

lemma alist_put_distinct: "distinct (map fst m) \<Longrightarrow> distinct (map fst (alist_put k v m))"
proof -
  assume d: "distinct (map fst m)"
  have "map fst (map (\<lambda>(k', v'). if k' = k then (k, v) else (k', v')) m) = map fst m"
    by (induction m) auto
  then show ?thesis using d by (auto simp: alist_put_def simp del: map_map)
qed

lemma alist_put_all:
  "distinct (map fst (m @ kvs)) \<Longrightarrow> foldl (\<lambda>m (k, v). alist_put k v m) m kvs = m @ kvs"
  by (induction kvs arbitrary: m) (auto simp: alist_put_def)

lemma alist_put_all_distinct:
  "distinct (map fst m) \<Longrightarrow> distinct (map fst (foldl (\<lambda>m (k, v). alist_put k v m) m kvs))"
  by (induction kvs arbitrary: m) (auto simp: alist_put_distinct)

lemma map_of_replaced:
  "map_of (map (\<lambda>(k', v'). if k' = k then (k, v) else (k', v')) m) j =
     (if j = k \<and> k \<in> fst ` set m then Some v else map_of m j)"
proof (induction m)
  case (Cons p m)
  obtain a b where "p = (a, b)" by (cases p)
  with Cons show ?case by (cases "j = k"; cases "a = k") (simp_all add: case_prod_beta)
qed simp

lemma map_of_alist_put: "map_of (alist_put k v m) j = (if j = k then Some v else map_of m j)"
proof (cases "k \<in> fst ` set m")
  case False
  then have "map_of m k = None" by (simp add: map_of_eq_None_iff)
  with False show ?thesis by (auto simp: alist_put_def map_add_def split: option.split)
qed (simp add: alist_put_def map_of_replaced)

lemma map_of_alist_put_all:
  "distinct (map fst kvs) \<Longrightarrow>
   map_of (foldl (\<lambda>m (k, v). alist_put k (f v) m) m kvs) j =
     (case map_of kvs j of None \<Rightarrow> map_of m j | Some v \<Rightarrow> Some (f v))"
proof (induction kvs arbitrary: m)
  case (Cons kv kvs)
  obtain k v where kv: "kv = (k, v)" by (cases kv)
  with Cons.prems have "map_of kvs k = None" by (simp add: map_of_eq_None_iff)
  with Cons kv show ?case by (simp add: map_of_alist_put split: option.split)
qed simp

lemma mset_insert_key: "mset (insert_key p qs) = add_mset p (mset qs)"
  by (induction qs) auto

lemma mset_sort_keys: "mset (sort_keys xs) = mset xs"
  by (induction xs) (simp_all add: sort_keys_def mset_insert_key)

lemma set_sort_keys [simp]: "set (sort_keys xs) = set xs"
  using mset_sort_keys by (rule mset_eq_setD)

lemma distinct_sort_keys [simp]: "distinct (map fst (sort_keys xs)) \<longleftrightarrow> distinct (map fst xs)"
  using mset_sort_keys [of xs] by (metis distinct_map mset_eq_imp_distinct_iff set_sort_keys)

text \<open>The members of a JSON object.\<close>

definition member_key :: "'k \<times> 'v \<Rightarrow> 'k option" where
  "member_key p = Some (fst p)"

definition put_member :: "'k \<Rightarrow> 'k \<times> 'v \<Rightarrow> ('k \<times> 'v) list \<Rightarrow> ('k \<times> 'v) list" where
  "put_member k p xs = alist_put k (snd p) xs"

definition del_member :: "'k \<Rightarrow> ('k \<times> 'v) list \<Rightarrow> ('k \<times> 'v) list" where
  "del_member k xs = filter (\<lambda>p. fst p \<noteq> k) xs"

lemma find_replaced:
  "k \<in> fst ` set xs \<Longrightarrow> find (\<lambda>x. fst x = k) (map (\<lambda>(k', v'). if k' = k then (k, v) else (k', v')) xs) = Some (k, v)"
  by (induction xs) (auto split: if_splits)

lemma filter_replaced:
  "filter (\<lambda>x. fst x \<noteq> k) (map (\<lambda>(k', v'). if k' = k then (k, v) else (k', v')) xs) = filter (\<lambda>x. fst x \<noteq> k) xs"
  by (induction xs) (auto split: if_splits)

lemma find_new: "k \<notin> fst ` set xs \<Longrightarrow> find (\<lambda>x. fst x = k) (xs @ [(k, v)]) = Some (k, v)"
  by (induction xs) auto

interpretation members: keyed_table member_key put_member del_member
  by unfold_locales
    (auto simp: member_key_def put_member_def del_member_def alist_put_def find_replaced filter_replaced find_new)

end
