(* ===== verification/Run_Invariant.thy ===== *)
theory Run_Invariant imports Transition_System Keyed_Table Launch_Properties begin

text \<open>
  A workflow over many reconciles.  Between two reconciles anything may happen to the cluster and to the
  metadata of the workflow; a status write may be lost, which leaves the workflow as it was.  The
  invariant ties the counters to the statuses, so that a workflow that ends has a final status for each
  of its steps.
\<close>

section \<open>Runs\<close>

text \<open>
  What a reconcile needs of the job list: the loop visits each entry of the map once, the jobs belong to
  steps of the workflow, and there is room for the statuses of jobs that have none.
\<close>

definition listing_ok :: "'c ctx \<Rightarrow> Workflow \<Rightarrow> 'c rt \<Rightarrow> bool" where
  "listing_ok x w s =
     (case getWorkflowJobs x w s of
        Inl _ \<Rightarrow> True
      | Inr jobs \<Rightarrow> mset (x_order x jobs) = mset jobs \<and>
          fst ` set jobs \<subseteq> set (map ws_Name (wf_Steps w)) \<and>
          length (filter (\<lambda>(n, _). n \<notin> step_names w) jobs) \<le> x_spare x (length (wf_StepStatuses w)))"

definition lists_ok :: "'c ctx \<Rightarrow> Workflow \<Rightarrow> 'c rt \<Rightarrow> bool" where
  "lists_ok x w s = (case reconcile_prepare x w s of (None, w1, s1) \<Rightarrow> listing_ok x w1 s1 | _ \<Rightarrow> True)"

inductive run_step :: "Workflow \<times> 'c rt \<Rightarrow> Workflow \<times> 'c rt \<Rightarrow> bool" where
  reconciled: "lists_ok x w s \<Longrightarrow> reconcile_active x w s = (out, w', s') \<Longrightarrow> run_step (w, s) (w', s')"
| elsewhere: "run_step (w, s) (map_meta f w, s')"

abbreviation run_reaches :: "Workflow \<times> 'c rt \<Rightarrow> Workflow \<times> 'c rt \<Rightarrow> bool" where
  "run_reaches \<equiv> run_step\<^sup>*\<^sup>*"

inductive_cases run_stepE: "run_step (w, s) (w', s')"

section \<open>The invariant\<close>

definition named_steps :: "Workflow \<Rightarrow> bool" where
  "named_steps w \<longleftrightarrow> distinct_steps w \<and> distinct (map ws_Name (wf_Steps w)) \<and>
     step_names w \<subseteq> set (map ws_Name (wf_Steps w))"

definition steps_in :: "string list \<Rightarrow> Workflow \<Rightarrow> bool" where
  "steps_in ps w = list_all (\<lambda>step. case status_of w (ws_Name step) of None \<Rightarrow> False
     | Some ss \<Rightarrow> ss_Phase ss \<in> set ps) (wf_Steps w)"

definition phase_inv :: "Workflow \<Rightarrow> bool" where
  "phase_inv w \<longleftrightarrow>
     (wf_Phase w = [] \<longrightarrow> wf_StepStatuses w = []) \<and>
     (wf_Phase w = ''Pending'' \<or> wf_Phase w = ''Running'' \<longrightarrow>
        counted w \<and> wt_TotalSteps (wf_Status w) = int (length (wf_Steps w))) \<and>
     (wf_Phase w = ''Succeeded'' \<longrightarrow> steps_in done_phases w) \<and>
     (wf_Phase w = ''CompletedWithErrors'' \<longrightarrow> steps_in [''Succeeded'', ''Skipped'', ''Failed''] w)"

definition known_phase :: "string \<Rightarrow> bool" where
  "known_phase p \<longleftrightarrow> p \<in> {[], ''Pending'', ''Running'', ''RollingBack''} \<or> terminal_phase p"

definition run_inv :: "Workflow \<Rightarrow> bool" where
  "run_inv w \<longleftrightarrow> named_steps w \<and> phase_inv w \<and> known_phase (wf_Phase w)"

text \<open>A phase in which nothing is promised but the names.\<close>

definition stopped_phase :: "string \<Rightarrow> bool" where
  "stopped_phase p \<longleftrightarrow> p \<in> {''Failed'', ''Cancelled'', ''RollingBack''}"

lemma stopped_inv: "named_steps w \<Longrightarrow> stopped_phase (wf_Phase w) \<Longrightarrow> run_inv w"
  by (auto simp: run_inv_def phase_inv_def stopped_phase_def known_phase_def terminal_phase_def)

lemma stopped_phases [simp]: "stopped_phase ''Failed''" "stopped_phase ''Cancelled''" "stopped_phase ''RollingBack''"
  by (simp_all add: stopped_phase_def)

section \<open>Names\<close>

lemma named_names:
  assumes "map ss_Name (wf_StepStatuses w') = map ss_Name (wf_StepStatuses w)" "wf_Spec w' = wf_Spec w"
  shows "named_steps w' = named_steps w"
proof -
  have "step_names w' = step_names w" unfolding step_names_def using assms(1) by (metis list.set_map)
  then show ?thesis using assms by (simp add: named_steps_def distinct_steps_def)
qed

lemma named_map:
  "(\<And>ss. ss_Name (f ss) = ss_Name ss) \<Longrightarrow> named_steps (set_steps (map f (wf_StepStatuses w)) w) = named_steps w"
  by (rule named_names) simp_all

lemma named_cong:
  "wf_StepStatuses w' = wf_StepStatuses w \<Longrightarrow> wf_Spec w' = wf_Spec w \<Longrightarrow> named_steps w' = named_steps w"
  by (rule named_names) simp_all

lemma named_with_phase [simp]: "named_steps (with_phase x p r m w) = named_steps w"
  by (rule named_cong) simp_all

lemma complete_now_simps [simp]:
  "wf_StepStatuses (complete_now x w) = wf_StepStatuses w" "wf_Spec (complete_now x w) = wf_Spec w"
  "wf_Phase (complete_now x w) = wf_Phase w" "wf_Meta (complete_now x w) = wf_Meta w"
  "wt_CompletedSteps (wf_Status (complete_now x w)) = wt_CompletedSteps (wf_Status w)"
  "wt_FailedSteps (wf_Status (complete_now x w)) = wt_FailedSteps (wf_Status w)"
  "wt_TotalSteps (wf_Status (complete_now x w)) = wt_TotalSteps (wf_Status w)"
  by (simp_all add: complete_now_def)

lemma named_complete_now [simp]: "named_steps (complete_now x w) = named_steps w"
  by (rule named_cong) simp_all

lemma named_skip: "named_steps (skip_unfinished w) = named_steps w" "named_steps (skip_running w) = named_steps w"
  unfolding skip_unfinished_def skip_running_def by (rule named_map, simp)+

lemma named_monitor: "named_steps (set_steps (map (rollback_status x w s) (wf_StepStatuses w)) w) = named_steps w"
  "named_steps (set_steps (map (rollback_status_again x w s) (wf_StepStatuses w)) w) = named_steps w"
  by (rule named_map, simp add: rollback_status_def rollback_status_again_def)+

lemma rollback_steps_names:
  "map ss_Name (fst (rollback_steps x w cache r outs sss s)) = map ss_Name sss"
proof (induction sss arbitrary: s)
  case Nil
  then show ?case by simp
next
  case (Cons ss sss)
  have "ss_Name (fst (rollback_one x w cache r outs ss s)) = ss_Name ss"
    by (simp add: rollback_one_def Let_def split: option.split)
  with Cons show ?case by (simp add: split_def Let_def)
qed

section \<open>Each part keeps the invariant\<close>

lemma and_thenE:
  assumes "and_then r k = (out, w', s')"
  obtains (stopped) o1 where "r = (Some o1, w', s')" "out = Some o1"
  | (went_on) w1 s1 where "r = (None, w1, s1)" "k w1 s1 = (out, w', s')"
  using assms by (auto simp: and_then_def split: prod.splits option.splits)

lemma setPhase_result: "setPhase x w p r m s = (err, w1, s1) \<Longrightarrow> w1 = with_phase x p r m w"
  using setPhase_workflow [of x w p r m s] by simp

lemma snd_setPhase: "snd (setPhase x w p r m s) = (w1, s1) \<Longrightarrow> w1 = with_phase x p r m w"
  using setPhase_workflow [of x w p r m s] by simp

lemma end_with_inv:
  "end_with x p r m w s = (out, w', s') \<Longrightarrow> named_steps w \<Longrightarrow> stopped_phase p \<Longrightarrow> run_inv w'"
  by (auto simp: end_with_def Let_def intro!: stopped_inv dest!: setPhase_result split: prod.splits)

lemma monitor_inv:
  assumes "monitor_rollback x w s = (out, w', s')" "named_steps w" "wf_Phase w = ''RollingBack''"
  shows "run_inv w'"
proof -
  have "named_steps w'" "stopped_phase (wf_Phase w')"
    using assms named_monitor(1) [of x w s]
    by (auto simp: monitor_rollback_def Let_def dest!: setPhase_result split: prod.splits option.splits if_splits)
  then show ?thesis by (rule stopped_inv)
qed

lemma timeout_inv:
  "reconcile_timeout x w s = (out, w', s') \<Longrightarrow> run_inv w \<Longrightarrow> run_inv w' \<and> (out = None \<longrightarrow> w' = w)"
  by (auto simp: reconcile_timeout_def Let_def run_inv_def [of w] intro: end_with_inv split: option.splits if_splits)
    (auto simp: end_with_def Let_def run_inv_def split: prod.splits)

lemma concurrency_inv:
  "reconcile_concurrency x w s = (out, w', s') \<Longrightarrow> w' = w"
  by (auto simp: reconcile_concurrency_def Let_def split: option.splits if_splits prod.splits)

lemma inv_frame:
  assumes "wf_Status w' = wf_Status w" "wf_Spec w' = wf_Spec w"
  shows "run_inv w' = run_inv w"
proof -
  have "status_of w' n = status_of w n" "count_phase ps w' = count_phase ps w" for n ps
    using assms by (simp_all add: status_of_def count_phase_def)
  then show ?thesis
    using assms named_cong [of w' w] by (simp add: run_inv_def phase_inv_def counted_def steps_in_def)
qed

lemma inv_meta [simp]: "run_inv (map_meta f w) = run_inv w" "wf_Phase (map_meta f w) = wf_Phase w"
  by (rule inv_frame) (simp_all add: map_meta_def)

lemma init_status_inv:
  assumes "run_inv w"
  shows "run_inv (fst (init_status x w s))"
    "wf_Phase (fst (init_status x w s)) = (if wf_Phase w = [] then ''Pending'' else wf_Phase w)"
proof -
  show "wf_Phase (fst (init_status x w s)) = (if wf_Phase w = [] then ''Pending'' else wf_Phase w)"
    by (simp add: init_status_def)
  show "run_inv (fst (init_status x w s))"
  proof (cases "wf_Phase w = []")
    case True
    with assms have "wf_StepStatuses w = []" by (simp add: run_inv_def phase_inv_def)
    moreover from this have "named_steps (fst (init_status x w s)) = named_steps w"
      by (intro named_cong) (simp_all add: init_status_def)
    ultimately show ?thesis
      using assms True
      by (simp add: run_inv_def phase_inv_def init_status_def counted_def count_phase_def known_phase_def)
  qed (use assms in \<open>simp add: init_status_def\<close>)
qed

lemma init_inv:
  assumes "reconcile_init x w s = (out, w', s')" "run_inv w"
  shows "run_inv w'" "wf_Phase w' = (if wf_Phase w = [] then ''Pending'' else wf_Phase w)"
proof -
  obtain w1 s1 where i: "init_status x w s = (w1, s1)" by (cases "init_status x w s")
  have "w' = w1 \<or> (\<exists>f. w' = map_meta f w1)"
    using assms(1) i by (auto simp: reconcile_init_def set_annotation_def Let_def split: if_splits prod.splits)
  then show "run_inv w'" "wf_Phase w' = (if wf_Phase w = [] then ''Pending'' else wf_Phase w)"
    using init_status_inv [OF assms(2), of x s] i by auto
qed

lemma prepare_inv:
  assumes "reconcile_prepare x w s = (out, w', s')" "run_inv w"
  shows "run_inv w'" "out = None \<Longrightarrow> wf_Phase w' = (if wf_Phase w = [] then ''Pending'' else wf_Phase w)"
proof -
  from assms(1) have "run_inv w' \<and> (out = None \<longrightarrow> wf_Phase w' = (if wf_Phase w = [] then ''Pending'' else wf_Phase w))"
    unfolding reconcile_prepare_def
  proof (cases rule: and_thenE)
    case (stopped o1)
    then show ?thesis using timeout_inv [OF stopped(1) assms(2)] by simp
  next
    case (went_on w1 s1)
    then have w1: "w1 = w" using timeout_inv [OF went_on(1) assms(2)] by simp
    from went_on(2) show ?thesis
    proof (cases rule: and_thenE)
      case (stopped o1)
      then show ?thesis using concurrency_inv [OF stopped(1)] w1 assms(2) by simp
    next
      case (went_on w2 s2)
      then have "w2 = w" using concurrency_inv w1 by auto
      then show ?thesis using init_inv [OF went_on(2)] assms(2) by simp
    qed
  qed
  then show "run_inv w'" "out = None \<Longrightarrow> wf_Phase w' = (if wf_Phase w = [] then ''Pending'' else wf_Phase w)"
    by simp_all
qed

lemma agent_missing_inv:
  assumes "agent_missing x step e w s = (out, w', s')" "run_inv w"
  shows "run_inv w'"
proof (cases "e = NotFound")
  case True
  have "named_steps w" using assms(2) by (simp add: run_inv_def)
  then show ?thesis using assms(1) True
    by (auto simp: agent_missing_def Let_def intro!: stopped_inv dest!: setPhase_result split: prod.splits)
qed (use assms in \<open>simp add: agent_missing_def\<close>)

section \<open>Jobs, failure and completion\<close>

text \<open>The job map has one entry per step.\<close>

lemma job_map_distinct: "distinct (map fst (job_map jobs))"
proof -
  have "distinct (map fst m) \<Longrightarrow> distinct (map fst (foldl (\<lambda>m j. let n = jo_Label j labelStep in
      if n = [] then m else alist_put n j m) m js))" for m js
    by (induction js arbitrary: m) (simp_all add: Let_def alist_put_distinct)
  then show ?thesis by (simp add: job_map_def)
qed

lemma sync_inv:
  assumes "run_inv w" "wf_Phase w = ''Pending'' \<or> wf_Phase w = ''Running''"
    "getWorkflowJobs x w s = Inr jobs" "listing_ok x w s"
  shows "run_inv (sy_wf (syncJobs x w jobs s))" "wf_Phase (sy_wf (syncJobs x w jobs s)) = wf_Phase w"
proof -
  let ?v = "sy_wf (syncJobs x w jobs s)"
  have d: "distinct_steps w" using assms(1) by (simp add: run_inv_def named_steps_def)
  have dj: "distinct (map fst jobs)"
    using assms(3) by (auto simp: getWorkflowJobs_def job_map_distinct split: sum.splits)
  have ls: "mset (x_order x jobs) = mset jobs" "length (filter (\<lambda>(n, _). n \<notin> step_names w) jobs) \<le>
      x_spare x (length (wf_StepStatuses w))" and sub: "fst ` set jobs \<subseteq> set (map ws_Name (wf_Steps w))"
    using assms(3,4) by (simp_all add: listing_ok_def)
  note S = syncJobs_spec [OF d dj ls, where s = s]
  have "step_names ?v \<subseteq> step_names w \<union> fst ` set jobs"
  proof
    fix m assume "m \<in> step_names ?v"
    then have "expected x w (map_of jobs) m \<noteq> None" using S(4) [of m] status_of_None [of ?v m]
      by (cases "status_of ?v m"; cases "expected x w (map_of jobs) m") auto
    then have "status_of w m \<noteq> None \<or> map_of jobs m \<noteq> None" by (auto simp: expected_def split: option.splits)
    then show "m \<in> step_names w \<union> fst ` set jobs"
      using status_of_None [of w m] by (auto simp: map_of_eq_None_iff)
  qed
  moreover have "step_names w \<subseteq> set (map ws_Name (wf_Steps w))"
    using assms(1) by (simp add: run_inv_def named_steps_def)
  ultimately have "step_names ?v \<subseteq> set (map ws_Name (wf_Steps w))" using sub by blast
  then have "named_steps ?v"
    using S(1,2) assms(1) by (simp add: run_inv_def named_steps_def same_frame_def)
  then show "run_inv ?v" using assms(1,2) S(2) counted_balance [OF S(3)]
    by (auto simp: run_inv_def phase_inv_def same_frame_def)
  show "wf_Phase ?v = wf_Phase w" using S(2) by (simp add: same_frame_def)
qed

lemma failure_inv:
  assumes "reconcile_failure x cache runID w s = (out, w', s')" "run_inv w"
  shows "run_inv w'" "out = None \<Longrightarrow> w' = w"
proof -
  have n: "named_steps w" using assms(2) by (simp add: run_inv_def)
  have ff: "run_inv w'" if "fail_fast x w s = (out, w', s')"
    using that n end_with_inv unfolding fail_fast_def by (metis named_skip(1) stopped_phases(1))
  have st: "run_inv w'" if "stop_workflow x w s = (out, w', s')"
    using that n end_with_inv unfolding stop_workflow_def by (metis named_skip(1) stopped_phases(1))
  have ma: "run_inv w'" if "monitor_again x w s = (out, w', s')" "wf_Phase w = ''RollingBack''"
  proof -
    have "named_steps w'" "stopped_phase (wf_Phase w')"
      using that n named_monitor(2) [of x w s]
      by (auto simp: monitor_again_def Let_def dest!: setPhase_result split: prod.splits if_splits)
    then show ?thesis by (rule stopped_inv)
  qed
  have sr: "run_inv w'" if "start_rollback x cache runID w s = (out, w', s')"
  proof -
    have nm: "map ss_Name (rev (fst (rollback_steps x w cache runID outs (rev (wf_StepStatuses w)) t))) =
        map ss_Name (wf_StepStatuses w)" for outs t
      using rollback_steps_names [of x w cache runID outs "rev (wf_StepStatuses w)" t]
      by (simp add: rev_map [symmetric])
    have "named_steps (set_steps (rev (fst (rollback_steps x w cache runID outs (rev (wf_StepStatuses w)) t))) w)"
      for outs t
      using n named_names [of "set_steps (rev (fst (rollback_steps x w cache runID outs (rev (wf_StepStatuses w)) t))) w" w]
        nm [of outs t] by simp
    then have "named_steps w' \<and> stopped_phase (wf_Phase w')"
      using that by (auto simp: start_rollback_def Let_def split_def dest!: snd_setPhase)
    then show ?thesis using stopped_inv by blast
  qed
  show "run_inv w'" using assms ff st ma sr by (auto simp: reconcile_failure_def split: if_splits)
  show "out = None \<Longrightarrow> w' = w"
    using assms(1)
    by (auto simp: reconcile_failure_def fail_fast_def stop_workflow_def end_with_def monitor_again_def
        start_rollback_def Let_def split: if_splits prod.splits)
qed

lemma steps_in_iff: "steps_in ps w \<longleftrightarrow>
    (\<forall>step \<in> set (wf_Steps w). \<exists>ss. status_of w (ws_Name step) = Some ss \<and> ss_Phase ss \<in> set ps)"
  unfolding steps_in_def list_all_iff by (auto split: option.splits)

text \<open>
  Counting: when the counters reach the number of steps, the names of the statuses counted are the names
  of all the steps.
\<close>

lemma counted_all:
  assumes "named_steps w" "int (length (wf_Steps w)) \<le> count_phase ps w"
  shows "steps_in ps w"
proof -
  let ?F = "filter (\<lambda>ss. ss_Phase ss \<in> set ps) (wf_StepStatuses w)" and ?N = "set (map ws_Name (wf_Steps w))"
  have "distinct (map ss_Name ?F)" using assms(1) by (simp add: named_steps_def distinct_steps_def distinct_map_filter)
  then have "card (ss_Name ` set ?F) = length ?F" using distinct_card by force
  moreover have "card ?N = length (wf_Steps w)"
    using assms(1) distinct_card by (force simp: named_steps_def)
  moreover have sub: "ss_Name ` set ?F \<subseteq> ?N"
    using assms(1) by (auto simp: named_steps_def step_names_def)
  ultimately have "ss_Name ` set ?F = ?N"
    using assms(2) by (intro card_seteq) (auto simp: count_phase_def)
  then have "\<exists>ss. status_of w (ws_Name step) = Some ss \<and> ss_Phase ss \<in> set ps" if "step \<in> set (wf_Steps w)" for step
  proof -
    from that \<open>ss_Name ` set ?F = ?N\<close> have "ws_Name step \<in> ss_Name ` set ?F" by simp
    then obtain ss where "ss \<in> set (wf_StepStatuses w)" "ss_Phase ss \<in> set ps" "ss_Name ss = ws_Name step" by auto
    then show ?thesis using status_of_in [of w ss] assms(1) by (simp add: named_steps_def)
  qed
  then show ?thesis by (simp add: steps_in_iff)
qed

lemma count_final: "count_phase [''Succeeded'', ''Skipped'', ''Failed''] w = count_phase done_phases w + count_phase [''Failed''] w"
proof -
  have "int (length (filter (\<lambda>ss. ss_Phase ss \<in> set [''Succeeded'', ''Skipped'', ''Failed'']) xs)) =
      int (length (filter (\<lambda>ss. ss_Phase ss \<in> set done_phases) xs)) +
      int (length (filter (\<lambda>ss. ss_Phase ss \<in> set [''Failed'']) xs))" for xs
    by (induction xs) auto
  then show ?thesis by (simp add: count_phase_def)
qed

lemma steps_in_statuses:
  assumes "named_steps w" "steps_in ps w" "ss \<in> set (wf_StepStatuses w)"
  shows "ss_Phase ss \<in> set ps"
proof -
  have "ss_Name ss \<in> set (map ws_Name (wf_Steps w))"
    using assms(1,3) by (auto simp: named_steps_def step_names_def)
  then obtain step where "step \<in> set (wf_Steps w)" "ws_Name step = ss_Name ss" by auto
  moreover have "status_of w (ss_Name ss) = Some ss"
    using assms(1,3) by (auto simp: named_steps_def intro: status_of_in)
  ultimately show ?thesis using assms(2) by (auto simp: steps_in_iff)
qed

lemma finish_statuses_id:
  "(\<And>ss. ss \<in> set sss \<Longrightarrow> ss_Phase ss \<noteq> ''Running'' \<and> ss_Phase ss \<noteq> []) \<Longrightarrow>
     finish_statuses x w jobs sss s = (sss, s)"
  by (induction sss arbitrary: s) (auto simp: finish_status_def)

lemma steps_in_cong:
  "wf_StepStatuses w' = wf_StepStatuses w \<Longrightarrow> wf_Spec w' = wf_Spec w \<Longrightarrow> steps_in ps w' = steps_in ps w"
  by (simp add: steps_in_def status_of_def)

text \<open>A workflow whose counters say it is finished has a final status for every step.\<close>

lemma all_finished_final:
  assumes "run_inv w" "wf_Phase w = ''Pending'' \<or> wf_Phase w = ''Running''" "all_finished w"
  shows "steps_in [''Succeeded'', ''Skipped'', ''Failed''] w"
    "wt_FailedSteps (wf_Status w) = 0 \<Longrightarrow> steps_in done_phases w"
proof -
  have n: "named_steps w" and c: "counted w" "wt_TotalSteps (wf_Status w) = int (length (wf_Steps w))"
    using assms(1,2) by (auto simp: run_inv_def phase_inv_def)
  show "steps_in [''Succeeded'', ''Skipped'', ''Failed''] w"
    using assms(3) c count_final [of w] by (intro counted_all [OF n]) (simp add: all_finished_def counted_def)
  show "wt_FailedSteps (wf_Status w) = 0 \<Longrightarrow> steps_in done_phases w"
    using assms(3) c by (intro counted_all [OF n]) (simp add: all_finished_def counted_def)
qed

lemma finished_inv:
  assumes "reconcile_finished x jobs w s = (out, w', s')" "run_inv w"
    "wf_Phase w = ''Pending'' \<or> wf_Phase w = ''Running''"
  shows "run_inv w'" "out = None \<Longrightarrow> w' = w" "out \<noteq> None \<Longrightarrow> wf_StepStatuses w' = wf_StepStatuses w"
proof -
  show "out = None \<Longrightarrow> w' = w"
    using assms(1) by (auto simp: reconcile_finished_def Let_def split: if_splits prod.splits option.splits)
  have n: "named_steps w" using assms(2) by (simp add: run_inv_def)
  have "run_inv w' \<and> (out \<noteq> None \<longrightarrow> wf_StepStatuses w' = wf_StepStatuses w)"
  proof (cases "all_finished w")
    case False
    with assms show ?thesis by (simp add: reconcile_finished_def)
  next
    case True
    note F = all_finished_final [OF assms(2,3) True]
    have same: "finish_statuses x (complete_now x w) jobs (wf_StepStatuses w) s = (wf_StepStatuses w, s)"
    proof (rule finish_statuses_id)
      fix ss assume "ss \<in> set (wf_StepStatuses w)"
      from steps_in_statuses [OF n F(1) this] show "ss_Phase ss \<noteq> ''Running'' \<and> ss_Phase ss \<noteq> []" by auto
    qed
    let ?w = "set_steps (wf_StepStatuses w) (complete_now x w)"
    obtain p r m where cp: "completionPhase (wt_CompletedSteps (wf_Status w)) (wt_FailedSteps (wf_Status w))
        (wt_TotalSteps (wf_Status w)) (wf_Strategy w) = (p, r, m)" by (metis prod.exhaust)
    have w': "w' = with_phase x p r m ?w"
      using assms(1) True same cp
      by (auto simp: reconcile_finished_def Let_def dest!: setPhase_result split: prod.splits option.splits)
    have p: "p = ''Succeeded'' \<and> wt_FailedSteps (wf_Status w) = 0 \<or> p = ''CompletedWithErrors'' \<or> p = ''Failed''"
      using cp by (auto simp: completionPhase_def split: if_splits)
    have "named_steps w'" using w' n named_cong [of ?w w] by simp
    moreover have "steps_in ps w' = steps_in ps w" for ps by (rule steps_in_cong) (simp_all add: w')
    moreover have "wf_Phase w' = p" using w' by simp
    ultimately show ?thesis using p F by (auto simp: run_inv_def phase_inv_def w' known_phase_def terminal_phase_def)
  qed
  then show "run_inv w'" "out \<noteq> None \<Longrightarrow> wf_StepStatuses w' = wf_StepStatuses w" by simp_all
qed

lemma launch_inv:
  assumes "reconcile_launch x cache runID jobs changed w s = (out, w', s')" "run_inv w"
    "wf_Phase w = ''Pending'' \<or> wf_Phase w = ''Running''"
  shows "run_inv w'"
proof -
  let ?l = "launch_steps x cache runID jobs changed w s"
  have n: "named_steps w" and c: "counted w" "wt_TotalSteps (wf_Status w) = int (length (wf_Steps w))"
    using assms(2,3) by (auto simp: run_inv_def phase_inv_def)
  then have d: "distinct_steps w" "distinct (map ws_Name (wf_Steps w))" by (simp_all add: named_steps_def)
  have L: "launched (set (findExecutableSteps w (map fst jobs))) (launch_start w jobs changed cache s) ?l"
    by (rule launch_steps_ok [OF d])
  then have fr: "same_frame w (la_wf ?l)" "counted (la_wf ?l)" "distinct_steps (la_wf ?l)"
    using c by (simp_all add: launched_def launch_start_def)
  have "step_names (la_wf ?l) \<subseteq> step_names w \<union> set (findExecutableSteps w (map fst jobs))"
  proof
    fix m assume m: "m \<in> step_names (la_wf ?l)"
    then show "m \<in> step_names w \<union> set (findExecutableSteps w (map fst jobs))"
      using L status_of_None [of w m] status_of_None [of "la_wf ?l" m]
      by (auto simp: launched_def launch_start_def)
  qed
  moreover have "set (findExecutableSteps w (map fst jobs)) \<subseteq> set (map ws_Name (wf_Steps w))"
    using executable_open(2) [OF d(1)] by blast
  ultimately have nl: "named_steps (la_wf ?l)"
    using n fr by (auto simp: named_steps_def same_frame_def)
  have il: "run_inv (la_wf ?l)" "wf_Phase (la_wf ?l) = wf_Phase w"
    using nl fr c assms(3) by (auto simp: run_inv_def phase_inv_def same_frame_def known_phase_def)
  let ?g = "upd_status (\<lambda>st. st\<lparr>wt_ObservedGeneration := om_Generation (wf_Meta (la_wf ?l))\<rparr>) (la_wf ?l)"
  have "w' = la_wf ?l \<or> (\<exists>r m. w' = with_phase x ''Running'' r m ?g)"
    using assms(1) by (auto simp: reconcile_launch_def Let_def dest!: setPhase_result split: if_splits prod.splits)
  moreover have "run_inv (with_phase x ''Running'' r m ?g)" for r m
  proof -
    have "named_steps (with_phase x ''Running'' r m ?g)" using nl named_cong [of ?g "la_wf ?l"] by simp
    moreover have "counted (with_phase x ''Running'' r m ?g)" using fr(2) by (simp add: counted_def count_phase_def)
    moreover have "wt_TotalSteps (wf_Status (with_phase x ''Running'' r m ?g)) = int (length (wf_Steps (la_wf ?l)))"
      using fr(1) c(2) by (simp add: with_phase_def same_frame_def)
    ultimately show ?thesis by (simp add: run_inv_def phase_inv_def known_phase_def)
  qed
  ultimately show ?thesis using il by blast
qed

section \<open>The whole reconcile\<close>

lemma run_part_inv:
  assumes "reconcile_run x cache w s = (out, w', s')" "run_inv w"
    "wf_Phase w = ''Pending'' \<or> wf_Phase w = ''Running''" "listing_ok x w s"
  shows "run_inv w'"
proof (cases "getWorkflowJobs x w s")
  case (Inl e)
  with assms show ?thesis by (simp add: reconcile_run_def)
next
  case (Inr jobs)
  let ?y = "syncJobs x w jobs s"
  note S = sync_inv [OF assms(2,3) Inr assms(4)]
  from assms(1) Inr have "and_then (reconcile_failure x cache (wf_Annotation w run_id_key) (sy_wf ?y) (sy_rt ?y))
      (\<lambda>w1 s1. and_then (reconcile_finished x (sy_jobs ?y) w1 s1) (\<lambda>w2 s2.
         reconcile_launch x cache (wf_Annotation w run_id_key) (sy_jobs ?y) (sy_changed ?y) w2 s2)) = (out, w', s')"
    by (simp add: reconcile_run_def Let_def)
  then show ?thesis
  proof (cases rule: and_thenE)
    case (stopped o1)
    then show ?thesis using failure_inv(1) S(1) by blast
  next
    case (went_on w1 s1)
    have w1: "w1 = sy_wf ?y" using failure_inv(2) [OF went_on(1) S(1)] by simp
    have ph: "wf_Phase w1 = ''Pending'' \<or> wf_Phase w1 = ''Running''" using assms(3) S(2) w1 by simp
    have i1: "run_inv w1" using w1 S(1) by simp
    from went_on(2) show ?thesis
    proof (cases rule: and_thenE)
      case (stopped o1)
      then show ?thesis using finished_inv(1) i1 ph by blast
    next
      case (went_on w2 s2)
      then have "w2 = w1" using finished_inv(2) i1 ph by blast
      then show ?thesis using launch_inv [OF went_on(2)] i1 ph by simp
    qed
  qed
qed

lemma reconcile_active_inv:
  assumes "reconcile_active x w s = (out, w', s')" "run_inv w" "lists_ok x w s"
  shows "run_inv w'"
proof -
  have ph: "known_phase (wf_Phase w)" using assms(2) by (simp add: run_inv_def)
  consider "w' = w" | "monitor_rollback x w s = (out, w', s')" "wf_Phase w = ''RollingBack''"
    | "cancel x w s = (out, w', s')"
    | "and_then (reconcile_prepare x w s) (reconcile_agents x) = (out, w', s')" "\<not> terminal_phase (wf_Phase w)"
      "wf_Phase w \<noteq> ''RollingBack''"
    using assms(1) by (auto simp: reconcile_active_def split: if_splits)
  then show ?thesis
  proof cases
    case 1
    then show ?thesis using assms(2) by simp
  next
    case 2
    then show ?thesis using monitor_inv [OF 2(1)] assms(2) by (simp add: run_inv_def)
  next
    case 3
    then show ?thesis
      using end_with_inv [of x "''Cancelled''"] assms(2) named_skip(2) [of w] unfolding cancel_def run_inv_def
      by (metis named_complete_now run_inv_def stopped_phases(2))
  next
    case 4
    from 4(1) show ?thesis
    proof (cases rule: and_thenE)
      case (stopped o1)
      then show ?thesis using prepare_inv(1) assms(2) by blast
    next
      case (went_on w1 s1)
      note P = prepare_inv [OF went_on(1) assms(2)]
      have ph1: "wf_Phase w1 = ''Pending'' \<or> wf_Phase w1 = ''Running''" using P(2) ph 4(2,3) by (auto simp: known_phase_def)
      have lo: "listing_ok x w1 s1" using assms(3) went_on(1) by (simp add: lists_ok_def)
      show ?thesis
        using went_on(2) agent_missing_inv [OF _ P(1)] run_part_inv [OF _ P(1) ph1 lo]
        by (auto simp: reconcile_agents_def split: sum.splits)
    qed
  qed
qed

section \<open>Properties of runs\<close>

lemma run_step_inv: "run_step a b \<Longrightarrow> run_inv (fst a) \<Longrightarrow> run_inv (fst b)"
  by (induction rule: run_step.induct) (auto intro: reconcile_active_inv)

interpretation runs: kept_invariant run_step "\<lambda>a. run_inv (fst a)"
  by unfold_locales (rule run_step_inv)

lemmas run_reaches_inv = runs.reached

text \<open>A workflow as it is created: no phase, no statuses, steps with different names.\<close>

definition fresh_workflow :: "Workflow \<Rightarrow> bool" where
  "fresh_workflow w \<longleftrightarrow> wf_Phase w = [] \<and> wf_StepStatuses w = [] \<and> distinct (map ws_Name (wf_Steps w))"

lemma fresh_inv: "fresh_workflow w \<Longrightarrow> run_inv w"
  by (simp add: fresh_workflow_def run_inv_def named_steps_def phase_inv_def distinct_steps_def step_names_def
      known_phase_def)

text \<open>While a workflow runs, its counter of completed steps is the number of its succeeded and skipped
  statuses, its counter of failed steps never exceeds the number of its failed statuses, its total is the
  number of its steps, and it has at most one status per step, whatever the cluster does between the
  reconciles.\<close>

theorem counters_match_statuses:
  assumes "fresh_workflow w0" "run_reaches (w0, s0) (w, s)"
    and "wf_Phase w = ''Pending'' \<or> wf_Phase w = ''Running''"
  shows "wt_CompletedSteps (wf_Status w) = count_phase [''Succeeded'', ''Skipped''] w \<and>
    wt_FailedSteps (wf_Status w) \<le> count_phase [''Failed''] w \<and>
    wt_TotalSteps (wf_Status w) = int (length (wf_Steps w)) \<and> distinct_steps w"
  using run_reaches_inv [OF assms(2)] fresh_inv [OF assms(1)] assms(3)
  by (auto simp: run_inv_def phase_inv_def counted_def named_steps_def)

text \<open>Completion never rewrites the status of a step: in a run the statuses are final before the counters
  say that the workflow is finished, and the phase is \<open>Succeeded\<close> exactly when no failure was counted.\<close>

theorem completion_keeps_statuses:
  assumes "fresh_workflow w0" "run_reaches (w0, s0) (w, s)"
    and "wf_Phase w = ''Pending'' \<or> wf_Phase w = ''Running''" "all_finished w"
    and "reconcile_finished x jobs w s = (out, w', s')"
  shows "wf_StepStatuses w' = wf_StepStatuses w \<and>
    (wf_Phase w' = ''Succeeded'' \<longleftrightarrow> wt_FailedSteps (wf_Status w) = 0)"
proof -
  have i: "run_inv w" using run_reaches_inv [OF assms(2)] fresh_inv [OF assms(1)] by simp
  have "out \<noteq> None" using assms(4,5)
    by (auto simp: reconcile_finished_def Let_def split: prod.splits option.splits)
  moreover have "wf_Phase w' = fst (completionPhase (wt_CompletedSteps (wf_Status w)) (wt_FailedSteps (wf_Status w))
      (wt_TotalSteps (wf_Status w)) (wf_Strategy w))"
    using assms(4,5)
    by (auto simp: reconcile_finished_def Let_def dest!: setPhase_result split: prod.splits option.splits)
  ultimately show ?thesis
    using finished_inv(3) [OF assms(5) i assms(3)] by (auto simp: completionPhase_def)
qed

section \<open>A run\<close>

text \<open>Two notification steps, one after the other: three reconciles take the workflow to its end.\<close>

definition note_step :: "string \<Rightarrow> string list \<Rightarrow> WorkflowStep" where
  "note_step n deps =
     (plain_step n deps)\<lparr>ws_AgentRef := \<lparr>ar_Name = [], ar_Namespace = []\<rparr>, ws_Type := ''notification''\<rparr>"

definition memo :: Workflow where
  "memo = (plain_workflow [note_step ''a'' [], note_step ''b'' [''a'']] [])\<lparr>wf_Status := zero_status\<rparr>"

fun reconciled_n :: "nat \<Rightarrow> Workflow \<times> cluster rt \<Rightarrow> Workflow \<times> cluster rt" where
  "reconciled_n 0 a = a"
| "reconciled_n (Suc n) a = (let (w, s) = reconciled_n n a in snd (reconcile_active list_ctx w s))"

lemma lists_ok_list:
  "(case reconcile_prepare list_ctx w s of (None, w1, s1) \<Rightarrow> List.null (cl_jobs (rs_c s1)) | _ \<Rightarrow> True) \<Longrightarrow>
   lists_ok list_ctx w s"
  by (auto simp: lists_ok_def listing_ok_def getWorkflowJobs_def list_ctx_def list_api_def job_map_def List.null_iff
      split: prod.splits option.splits)

definition no_jobs :: "Workflow \<times> cluster rt \<Rightarrow> bool" where
  "no_jobs a = (case reconcile_prepare list_ctx (fst a) (snd a) of
     (None, w1, s1) \<Rightarrow> List.null (cl_jobs (rs_c s1)) | _ \<Rightarrow> True)"

lemma run_n: "(\<forall>i<n. no_jobs (reconciled_n i a)) \<Longrightarrow> run_reaches a (reconciled_n n a)"
proof (induction n)
  case 0
  show ?case by simp
next
  case (Suc n)
  obtain w s where ws: "reconciled_n n a = (w, s)" by (cases "reconciled_n n a")
  obtain out b where r: "reconcile_active list_ctx w s = (out, b)" by (cases "reconcile_active list_ctx w s")
  have "no_jobs (w, s)" using Suc.prems ws by (metis lessI)
  then have "lists_ok list_ctx w s" by (intro lists_ok_list) (simp add: no_jobs_def)
  then have "run_step (w, s) (fst b, snd b)" using r by (intro reconciled) simp_all
  moreover have "run_reaches a (w, s)" using Suc ws by simp
  ultimately show ?case using ws r rtranclp.rtrancl_into_rtrancl [of run_step] by simp
qed

abbreviation memo_start :: "Workflow \<times> cluster rt" where "memo_start \<equiv> (memo, list_rt no_cluster)"

lemma memo_facts:
  "no_jobs (reconciled_n 0 memo_start)" "no_jobs (reconciled_n 1 memo_start)" "no_jobs (reconciled_n 2 memo_start)"
  "wf_Phase (fst (reconciled_n 2 memo_start)) = ''Running''"
  "wf_Phase (fst (reconciled_n 3 memo_start)) = ''Succeeded''"
  "all_finished (fst (reconciled_n 2 memo_start))"
  "map ws_Name (wf_Steps (fst (reconciled_n 3 memo_start))) = [''a'', ''b'']"
  "wf_Phase memo = []" "List.null (wf_StepStatuses memo)" "distinct (map ws_Name (wf_Steps memo))"
  by code_simp+

lemma memo_fresh: "fresh_workflow memo"
  using memo_facts(8-10) by (simp add: fresh_workflow_def List.null_iff)

lemma less_three: "(i::nat) < 3 \<Longrightarrow> i = 0 \<or> i = 1 \<or> i = 2" by arith

lemma memo_run: "n \<le> 3 \<Longrightarrow> run_reaches memo_start (reconciled_n n memo_start)"
  using memo_facts(1-3) less_three by (intro run_n) (metis less_le_trans)

lemma counters_match_statuses_witness:
  "let w = fst (reconciled_n 2 memo_start) in
   wt_CompletedSteps (wf_Status w) = count_phase [''Succeeded'', ''Skipped''] w \<and> wf_Phase w = ''Running''"
  using counters_match_statuses [OF memo_fresh, of "list_rt no_cluster" "fst (reconciled_n 2 memo_start)"
      "snd (reconciled_n 2 memo_start)"] memo_run [of 2] memo_facts(4) by (simp add: Let_def)

lemma completion_keeps_statuses_witness:
  "wf_StepStatuses (fst (snd (reconcile_finished list_ctx [] (fst (reconciled_n 2 memo_start))
     (snd (reconciled_n 2 memo_start))))) = wf_StepStatuses (fst (reconciled_n 2 memo_start))"
proof -
  let ?r = "reconcile_finished list_ctx [] (fst (reconciled_n 2 memo_start)) (snd (reconciled_n 2 memo_start))"
  have "run_reaches (memo, list_rt no_cluster) (fst (reconciled_n 2 memo_start), snd (reconciled_n 2 memo_start))"
    using memo_run [of 2] by simp
  from completion_keeps_statuses [OF memo_fresh this _ memo_facts(6), of list_ctx "[]" "fst ?r" "fst (snd ?r)"
      "snd (snd ?r)"] memo_facts(4)
  show ?thesis by simp
qed

end
