(* ===== verification/Reconcile_Properties.thy ===== *)
theory Reconcile_Properties imports Run_Invariant begin

text \<open>
  Properties of single reconciles: which of them change nothing, what each failure strategy leaves behind,
  how a rollback starts, when a timeout ends a workflow, and how the concurrency policy keeps a run from starting.
\<close>

section \<open>Finished workflows\<close>

text \<open>A workflow in a terminal phase is never changed again: the reconcile reads it and leaves the cluster,
  the archive, the memory, the metrics and the events as they are.\<close>

theorem terminal_phase_absorbs:
  assumes "k_get_wf (x_api x) (rs_c s) k = Inr w" "terminal_phase (wf_Phase w)"
    and "om_DeletionTimestamp (wf_Meta w) = None" "x_has_finalizer x (wf_Meta w) workflowFinalizer"
  shows "Reconcile x k s = (Done, Some w, s)"
  using assms by (simp add: Reconcile_def reconcile_deletion_def and_then_def reconcile_active_def)

definition ended :: Workflow where
  "ended = (plain_workflow [plain_step ''a'' []] [step_in ''a'' ''Failed''])
     \<lparr>wf_Status := zero_status\<lparr>wt_Phase := ''Failed''\<rparr>\<rparr>"

lemma terminal_phase_absorbs_witness:
  "Reconcile list_ctx (''team'', ''flow'') (list_rt (no_cluster\<lparr>cl_wfs := [ended]\<rparr>)) =
     (Done, Some ended, list_rt (no_cluster\<lparr>cl_wfs := [ended]\<rparr>))"
  by (rule terminal_phase_absorbs) (simp_all add: ended_def sample_defs terminal_phase_def)

section \<open>Failure\<close>

lemma skip_unfinished_phases:
  "ss \<in> set (wf_StepStatuses (skip_unfinished w)) \<Longrightarrow> \<not> stoppable ss"
  by (auto simp: skip_unfinished_def stoppable_def)

text \<open>C9: After a failure under \<open>failFast\<close> the workflow has failed, no step is running or waiting, every step
  that had ended keeps its status, and of the jobs exactly those of the steps that were running or waiting
  are deleted, so that the job of the failed step keeps its logs.\<close>

theorem fail_fast_stops:
  assumes "reconcile_failure x cache runID w s = (out, w', s')"
    and "0 < wt_FailedSteps (wf_Status w)" "wf_Strategy w = ''failFast''"
  shows "wf_Phase w' = ''Failed'' \<and> filter stoppable (wf_StepStatuses w') = [] \<and>
    filter (\<lambda>ss. ss_Phase ss \<noteq> ''Skipped'') (wf_StepStatuses w') =
      filter (\<lambda>ss. \<not> stoppable ss \<and> ss_Phase ss \<noteq> ''Skipped'') (wf_StepStatuses w) \<and>
    rs_c s' = snd (k_status_wf (x_api x)
      (foldl (\<lambda>c n. k_delete_job (x_api x) c (wf_Namespace w, n)) (rs_c s)
        (map ss_JobName (filter (\<lambda>ss. stoppable ss \<and> ss_JobName ss \<noteq> []) (wf_StepStatuses w)))) w')"
proof -
  let ?w = "skip_unfinished w" and ?s = "stopJobs x w (jobsToStopOnFailure w) s"
  have r: "end_with x ''Failed'' ''StepFailed'' ''A step failed with failFast strategy'' ?w ?s = (out, w', s')"
    using assms by (simp add: reconcile_failure_def fail_fast_def)
  then have w': "w' = with_phase x ''Failed'' ''StepFailed'' ''A step failed with failFast strategy'' ?w"
    by (auto simp: end_with_def Let_def dest!: setPhase_result split: prod.splits)
  have del: "rs_c (foldl (\<lambda>s n. delete_job x (wf_Namespace w, n) s) t ns) =
      foldl (\<lambda>c n. k_delete_job (x_api x) c (wf_Namespace w, n)) (rs_c t) ns" for t :: "'a rt" and ns
    by (induction ns arbitrary: t) (simp_all add: delete_job_def)
  have "rs_c s' = snd (k_status_wf (x_api x) (rs_c ?s) w')"
    using r w' by (auto simp: end_with_def setPhase_def Let_def split: prod.splits option.splits)
  moreover have "filter stoppable (wf_StepStatuses w') = []"
    using w' skip_unfinished_phases [of _ w] by (auto simp: filter_empty_conv)
  moreover have "filter (\<lambda>ss. ss_Phase ss \<noteq> ''Skipped'') (map (\<lambda>ss. if stoppable ss then ss\<lparr>ss_Phase := ''Skipped''\<rparr>
      else ss) sss) = filter (\<lambda>ss. \<not> stoppable ss \<and> ss_Phase ss \<noteq> ''Skipped'') sss" for sss
    by (induction sss) auto
  ultimately show ?thesis using w' by (simp add: skip_unfinished_def stopJobs_def jobsToStopOnFailure_def del)
qed

definition failing :: Workflow where
  "failing = add_failed (plain_workflow [plain_step ''a'' [], plain_step ''b'' []]
     [step_in ''a'' ''Failed'', step_in ''b'' ''Running''])"

lemma fail_fast_stops_witness:
  "filter stoppable (wf_StepStatuses (fst (snd (reconcile_failure list_ctx Map.empty ''r1'' failing (list_rt no_cluster)))))
     = []"
  using fail_fast_stops [of list_ctx Map.empty "''r1''" failing "list_rt no_cluster"
      "fst (reconcile_failure list_ctx Map.empty ''r1'' failing (list_rt no_cluster))"
      "fst (snd (reconcile_failure list_ctx Map.empty ''r1'' failing (list_rt no_cluster)))"
      "snd (snd (reconcile_failure list_ctx Map.empty ''r1'' failing (list_rt no_cluster)))"]
  by (simp add: failing_def plain_workflow_def plain_spec_def zero_status_def add_failed_def)

section \<open>Rollback\<close>

text \<open>
  A rollback job has no bounded name: with long names the API refuses it, the error is dropped, and the
  next reconcile takes the step as rolled back.
\<close>

lemma rollback_job_name_unbounded:
  "wf_Name w = replicate 40 CHR ''w'' \<Longrightarrow> 63 < length (rollback_job_name w (replicate 20 CHR ''s''))"
  by (simp add: rollback_job_name_def)

lemma rollback_without_job:
  assumes "k_get_job (x_api x) (rs_c s) (wf_Namespace w, ss_JobName ss) = Inl NotFound" "ss_Phase ss = ''RollingBack''"
  shows "ss_Phase (rollback_status x w s ss) = ''RolledBack''"
  using assms by (simp add: rollback_status_def rollback_waits_def)

section \<open>Timeout\<close>

text \<open>A running workflow is stopped exactly when more time has passed since its start than its timeout,
  thirty minutes when it names none that parses; it has failed then, at this moment.\<close>

theorem workflow_timeout:
  assumes "reconcile_timeout x w s = (out, w', s')" "wt_StartTime (wf_Status w) = Some t"
  shows "(out \<noteq> None \<longleftrightarrow> wf_Phase w = ''Running'' \<and> workflowTimeout w < x_now x - t) \<and>
    (if out = None then w' = w \<and> s' = s
     else wf_Phase w' = ''Failed'' \<and> wt_CompletionTime (wf_Status w') = Some (x_now x)) \<and>
    (wp_Timeout (wf_Spec w) = None \<longrightarrow> workflowTimeout w = 30 * minute)"
proof (cases "wf_Phase w = ''Running'' \<and> workflowTimeout w < x_now x - t")
  case True
  with assms have "out \<noteq> None \<and> wf_Phase w' = ''Failed'' \<and> wt_CompletionTime (wf_Status w') = Some (x_now x)"
    by (auto simp: reconcile_timeout_def end_with_def complete_now_def Let_def dest!: setPhase_result
        split: prod.splits)
  with True show ?thesis by (auto simp: workflowTimeout_def)
next
  case False
  with assms have "out = None \<and> w' = w \<and> s' = s" by (auto simp: reconcile_timeout_def Let_def)
  with False show ?thesis by (simp add: workflowTimeout_def)
qed

lemma late_start:
  "wt_StartTime (wf_Status (plain_workflow steps sss)) = Some 900000000000"
  "wp_Timeout (wf_Spec (plain_workflow steps sss)) = None" "x_now list_ctx = 1000000000000"
  by (simp_all add: plain_workflow_def zero_status_def plain_spec_def list_ctx_def)

lemma workflow_timeout_witness:
  "fst (reconcile_timeout list_ctx (plain_workflow [] []) (list_rt no_cluster)) = None"
  using workflow_timeout [of list_ctx "plain_workflow [] []" "list_rt no_cluster"
      "fst (reconcile_timeout list_ctx (plain_workflow [] []) (list_rt no_cluster))"
      "fst (snd (reconcile_timeout list_ctx (plain_workflow [] []) (list_rt no_cluster)))"
      "snd (snd (reconcile_timeout list_ctx (plain_workflow [] []) (list_rt no_cluster)))" 900000000000]
  by (auto simp: late_start)

section \<open>Concurrency\<close>

text \<open>Under the policy \<open>forbid\<close> a new run does not start while another run of the same template is pending
  or running: the reconcile asks to be called again in thirty seconds and changes nothing.\<close>

theorem forbid_holds_back:
  assumes "wf_Phase w = []" "wp_Concurrency (wf_Spec w) = Some conc" "cc_Policy conc = ''forbid''"
    and "k_list_wf (x_api x) (rs_c s) (wf_Namespace w) = Inr ws" "v \<in> set ws" "wf_Name v \<noteq> wf_Name w"
    and "wf_Phase v = ''Running'' \<or> wf_Phase v = ''Pending''"
    and "template_name w \<noteq> []" "template_name v = template_name w"
    and "\<not> annotated ''purko.io/template'' w" "\<not> annotated ''purko.io/cancel'' w"
  shows "reconcile_active x w s = (Some (RequeueAfter (30 * second)), w, s)"
proof -
  have "v \<in> set (active_runs w ws)" using assms by (auto simp: active_runs_def)
  then have "active_runs w ws \<noteq> []" by auto
  then have "reconcile_concurrency x w s = (Some (RequeueAfter (30 * second)), w, s)"
    using assms by (simp add: reconcile_concurrency_def enforceConcurrency_def Let_def)
  moreover have "reconcile_timeout x w s = (None, w, s)"
    using assms(1) by (simp add: reconcile_timeout_def Let_def split: option.split)
  ultimately show ?thesis
    using assms by (simp add: reconcile_active_def terminal_phase_def reconcile_prepare_def and_then_def)
qed

definition run_of :: "string \<Rightarrow> string \<Rightarrow> Workflow" where
  "run_of n phase =
     \<lparr>wf_Meta = (named_meta n)\<lparr>om_Annotations := [''purko.io/workflow-template'' \<mapsto> ''nightly'']\<rparr>,
      wf_Spec = (plain_spec [])\<lparr>wp_Concurrency := Some \<lparr>cc_Policy = ''forbid'', cc_MaxParallel = 1\<rparr>\<rparr>,
      wf_Status = zero_status\<lparr>wt_Phase := phase\<rparr>\<rparr>"

lemma forbid_holds_back_witness:
  "fst (reconcile_active list_ctx (run_of ''run2'' []) (list_rt (no_cluster\<lparr>cl_wfs := [run_of ''run1'' ''Running'']\<rparr>))) =
     Some (RequeueAfter (30 * second))"
  using forbid_holds_back [of "run_of ''run2'' []" "\<lparr>cc_Policy = ''forbid'', cc_MaxParallel = 1\<rparr>" list_ctx
      "list_rt (no_cluster\<lparr>cl_wfs := [run_of ''run1'' ''Running'']\<rparr>)" "[run_of ''run1'' ''Running'']"
      "run_of ''run1'' ''Running''"]
  by (simp add: run_of_def template_name_def named_meta_def empty_meta_def plain_spec_def zero_status_def
      list_ctx_def list_api_def list_rt_def)

end
