(* ===== verification/Agent_Properties.thy ===== *)
theory Agent_Properties imports Agent_Memory Sample_Cluster begin

text \<open>
  What the controller's use of memory and of the agent counters guarantees; the facts about the store come
  from the provider interface of \<^verbatim>\<open>Memory_Store\<close>.
\<close>

section \<open>Memory\<close>

lemma memoryEvent_mem [simp]: "rs_mem (memoryEvent x w t r m s) = rs_mem s"
  by (simp add: memoryEvent_def)

text \<open>The provider's view of persisting: one learned entry, then retention in the entry's own pool.\<close>

lemma persist_memory_cases:
  assumes "rs_mem s = Some m"
  obtains r1 m1 where "Learn m (x_uuid x (rs_uuid s)) (x_now x)
      (memory_entry agent w step (memory_content w step upd inp resp)) = (r1, m1)"
    "rs_mem (persistMemory x agent w step upd inp resp s) = Some m1 \<or>
     (\<exists>n. rs_mem (persistMemory x agent w step upd inp resp s) =
        Some (snd (Retain m1 (memoryScopeKey agent w) n)))"
proof -
  obtain r1 m1 where l: "Learn m (x_uuid x (rs_uuid s)) (x_now x)
      (memory_entry agent w step (memory_content w step upd inp resp)) = (r1, m1)" by (metis prod.exhaust)
  then have "rs_mem (persistMemory x agent w step upd inp resp s) = Some m1 \<or>
     (\<exists>n. rs_mem (persistMemory x agent w step upd inp resp s) =
        Some (snd (Retain m1 (memoryScopeKey agent w) n)))"
    using assms by (auto simp: persistMemory_def learn_def retain_def Let_def split: sum.split)
  with l show ?thesis by (rule that)
qed

text \<open>C19: What a step adds to memory, and what retention removes after it, stays in the pool of its own agent:
  the entries of every other pool are the same before and after, also when learning fails.\<close>

theorem persist_touches_own_pool:
  assumes "rs_mem s = Some m" "me_ScopeKey e \<noteq> memoryScopeKey agent w"
  shows "\<exists>m'. rs_mem (persistMemory x agent w step upd inp resp s) = Some m' \<and>
    (e \<in> stored_entries m' \<longleftrightarrow> e \<in> stored_entries m)"
proof -
  let ?e = "memory_entry agent w step (memory_content w step upd inp resp)"
  obtain r1 m1 where l: "Learn m (x_uuid x (rs_uuid s)) (x_now x) ?e = (r1, m1)"
    and p: "rs_mem (persistMemory x agent w step upd inp resp s) = Some m1 \<or>
     (\<exists>n. rs_mem (persistMemory x agent w step upd inp resp s) = Some (snd (Retain m1 (memoryScopeKey agent w) n)))"
    using persist_memory_cases [OF assms(1)] by blast
  have sk: "me_ScopeKey ?e = memoryScopeKey agent w" by (simp add: memory_entry_def)
  have "e \<in> stored_entries m1 \<longleftrightarrow> e \<in> stored_entries m"
    using builtin.learn_adds [OF l, of e] builtin.learn_keeps [OF l] assms(2) sk by (metis subsetD)
  moreover have "e \<in> stored_entries (snd (Retain m1 (memoryScopeKey agent w) n)) \<longleftrightarrow> e \<in> stored_entries m" for n
  proof -
    obtain r2 m2 where r: "Retain m1 (me_ScopeKey ?e) n = (r2, m2)" by (metis prod.exhaust)
    show ?thesis using builtin.learn_retain_other_pools [OF l r, of e] assms(2) sk r by simp
  qed
  ultimately show ?thesis using p by auto
qed

text \<open>C20: The block of memories a step is given holds only entries that are stored for the step's own
  namespace and pool; when the store fails, the step gets no block and a warning is recorded.\<close>

theorem recall_block_from_own_pool:
  assumes "recallMemory x agent w runID step inp s = (block, s')" "rs_mem s = Some m"
  shows "(\<exists>es. block = formatRecallBlock es \<and>
      (\<forall>e \<in> set es. e \<in> stored_entries m \<and> me_Namespace e = wf_Namespace w \<and>
         me_ScopeKey e = memoryScopeKey agent w)) \<and>
    (mdb_open m \<or> block = [] \<and> (x_recorder x \<longrightarrow> length (rs_events s') = Suc (length (rs_events s))))"
proof (cases "Recall (x_fts x) m (wf_Namespace w) (memoryScopeKey agent w) inp (agent_max_tokens agent)")
  case (Inl err)
  then have "block = []" "x_recorder x \<longrightarrow> length (rs_events s') = Suc (length (rs_events s))"
    using assms by (auto simp: recallMemory_def memoryEvent_def)
  then show ?thesis by (auto simp: formatRecallBlock_def intro: exI [of _ "[]"])
next
  case (Inr es)
  then have "block = formatRecallBlock es"
    using assms by (auto simp: recallMemory_def Let_def formatRecallBlock_def split: if_splits prod.splits)
  moreover have "mdb_open m" using Inr by (simp add: Recall_def Let_def split: if_splits)
  ultimately show ?thesis using builtin.recall_stored [OF Inr] by auto
qed

text \<open>The legacy summary never loses its newest part: what is appended is the end of the new summary text,
  which stays within 8192 bytes once there is something to append to.\<close>

theorem combined_summary_bounded:
  "suffix (combine_summary old new) (old @ (if old = [] then [] else CHR 0x0A # ''---'' @ [CHR 0x0A]) @ new) \<and>
   (old \<noteq> [] \<longrightarrow> int (length (combine_summary old new)) \<le> 8192) \<and>
   (length new \<le> 8192 \<longrightarrow> suffix new (combine_summary old new))"
proof (cases "old = []")
  case True
  then show ?thesis by (simp add: combine_summary_def)
next
  case False
  let ?c = "old @ (CHR 0x0A # ''---'' @ [CHR 0x0A]) @ new"
  have "suffix new (drop (length ?c - 8192) ?c)" if "length new \<le> 8192"
  proof (rule suffix_length_suffix)
    show "suffix new ?c" by (simp add: suffix_def)
    show "suffix (drop (length ?c - 8192) ?c) ?c" by (rule suffix_drop)
  qed (use that in simp)
  moreover have "suffix new ?c" by (simp add: suffix_def)
  ultimately show ?thesis
    using False suffix_drop [of "length ?c - 8192" ?c] by (auto simp: combine_summary_def Let_def)
qed

section \<open>Counters\<close>

text \<open>Every recorded success or failure of an agent adds one invocation, so that invocations are successes
  plus failures in the 64-bit arithmetic of the counters; a success ends a row of failures and a failure
  lengthens it.\<close>

theorem agent_counters_balance:
  assumes "am_TotalInvocations m = wrap64 (am_SuccessCount m + am_FailureCount m)"
  shows "(\<forall>lat tin tout cost now. let m' = count_success lat tin tout cost now m in
      am_TotalInvocations m' = wrap64 (am_SuccessCount m' + am_FailureCount m') \<and> am_ConsecutiveFailures m' = 0) \<and>
    (\<forall>now. let m' = count_failure now m in
      am_TotalInvocations m' = wrap64 (am_SuccessCount m' + am_FailureCount m') \<and>
      am_ConsecutiveFailures m' = wrap64 (am_ConsecutiveFailures m + 1))"
proof -
  have add: "wrap64 (wrap64 a + b) = wrap64 (a + b)" for a b
  proof -
    have e: "wrap64 a + b + 9223372036854775808 = (a + 9223372036854775808) mod 18446744073709551616 + b"
      by (simp add: wrap64_def)
    have "(wrap64 a + b + 9223372036854775808) mod 18446744073709551616 =
        (a + b + 9223372036854775808) mod 18446744073709551616"
      unfolding e mod_add_left_eq by (rule arg_cong [where f = "\<lambda>z. z mod 18446744073709551616"]) simp
    then show ?thesis by (simp only: wrap64_def [of "wrap64 a + b"] wrap64_def [of "a + b"])
  qed
  have add2: "wrap64 (a + wrap64 b) = wrap64 (a + b)" for a b
    using add [of b a] by (simp add: add.commute)
  have "wrap64 (wrap64 (a + b) + 1) = wrap64 (wrap64 (a + 1) + b)"
    "wrap64 (wrap64 (a + b) + 1) = wrap64 (a + wrap64 (b + 1))" for a b
    by (simp_all add: add add2 algebra_simps)
  then show ?thesis using assms by (simp add: count_success_def count_failure_def Let_def)
qed

section \<open>Witnesses\<close>

definition two_pools :: mem_store where
  "two_pools = \<lparr>mdb_memories =
     [\<lparr>row_entry = \<lparr>me_ID = ''1'', me_Namespace = ''team'', me_ScopeKey = ''team/other'', me_Agent = ''other'',
        me_Workflow = ''flow'', me_Step = ''a'', me_Content = ''kept'', me_CreatedAt = None\<rparr>,
       row_created = ''2024-01-01T00:00:00Z''\<rparr>], mdb_recall_log = [], mdb_ftsEnabled = False, mdb_open = True\<rparr>"

abbreviation sample_flow :: Workflow where "sample_flow \<equiv> plain_workflow [] []"

definition with_pools :: "cluster rt" where
  "with_pools = (list_rt no_cluster)\<lparr>rs_mem := Some two_pools\<rparr>"

lemma pools_facts: "rs_mem with_pools = Some two_pools" "mdb_open two_pools"
  by (simp_all add: with_pools_def two_pools_def)

lemma scout_pool: "me_ScopeKey (read_entry (hd (mdb_memories two_pools))) \<noteq> memoryScopeKey plain_agent sample_flow"
  by code_simp

lemma persist_touches_own_pool_witness:
  "\<exists>m'. rs_mem (persistMemory list_ctx plain_agent sample_flow ''a'' ''learned'' [] [] with_pools) = Some m' \<and>
     read_entry (hd (mdb_memories two_pools)) \<in> stored_entries m'"
  using persist_touches_own_pool [OF pools_facts(1) scout_pool, of list_ctx "''a''" "''learned''" "[]" "[]"]
  by (simp add: stored_entries_def two_pools_def)

lemma recall_block_from_own_pool_witness:
  "\<exists>es. fst (recallMemory list_ctx plain_agent sample_flow ''r1'' ''a'' ''task'' with_pools) = formatRecallBlock es \<and>
     (\<forall>e \<in> set es. me_ScopeKey e = memoryScopeKey plain_agent sample_flow)"
  using recall_block_from_own_pool [of list_ctx plain_agent sample_flow "''r1''" "''a''" "''task''" with_pools
      "fst (recallMemory list_ctx plain_agent sample_flow ''r1'' ''a'' ''task'' with_pools)"
      "snd (recallMemory list_ctx plain_agent sample_flow ''r1'' ''a'' ''task'' with_pools)" two_pools]
  by (auto simp: pools_facts)

lemma combined_summary_bounded_witness:
  "int (length (combine_summary ''old'' ''new'')) \<le> 8192"
  using combined_summary_bounded [of "''old''" "''new''"] by blast

lemma agent_counters_balance_witness:
  "am_TotalInvocations (count_failure 0 zero_metrics) =
     wrap64 (am_SuccessCount (count_failure 0 zero_metrics) + am_FailureCount (count_failure 0 zero_metrics))"
  using agent_counters_balance [of zero_metrics] by (simp add: zero_metrics_def wrap64_def Let_def)

end
