(* ===== verification/Step_Graph.thy ===== *)
theory Step_Graph imports Types "HOL-Library.AList" "HOL-Library.Multiset" begin

text \<open>
  The check of the step dependencies at admission (\<^verbatim>\<open>detectCycles\<close> of \<^verbatim>\<open>webhooks/validating_webhook.go\<close>): a
  topological sort that counts the steps it reaches.  It is compared here with the plain statement that
  the dependency relation has no cycle.
\<close>

section \<open>The topological sort\<close>

text \<open>
  \<^verbatim>\<open>inDegree\<close> is a Go map: a key that is missing reads as zero, and incrementing it adds it.  The
  iteration over it that starts the queue visits the keys in any order, the argument \<open>order\<close>.
\<close>

type_synonym degrees = "(string \<times> int) list"

definition degree :: "degrees \<Rightarrow> string \<Rightarrow> int" where
  "degree deg n = lookup_or 0 (map_of deg) n"

definition add_degree :: "string \<Rightarrow> int \<Rightarrow> degrees \<Rightarrow> degrees" where
  "add_degree n k deg = AList.update n (degree deg n + k) deg"

record step_graph =
  sg_degree :: degrees
  sg_adj :: "string \<Rightarrow> string list"

definition add_edge :: "string \<Rightarrow> step_graph \<Rightarrow> string \<Rightarrow> step_graph" where
  "add_edge name g dep =
     g\<lparr>sg_adj := (sg_adj g)(dep := sg_adj g dep @ [name]), sg_degree := add_degree name 1 (sg_degree g)\<rparr>"

definition add_node :: "step_graph \<Rightarrow> WorkflowStep \<Rightarrow> step_graph" where
  "add_node g step =
     foldl (add_edge (ws_Name step))
       (if map_of (sg_degree g) (ws_Name step) = None
        then g\<lparr>sg_degree := AList.update (ws_Name step) 0 (sg_degree g)\<rparr> else g)
       (ws_DependsOn step)"

definition graph_of :: "WorkflowStep list \<Rightarrow> step_graph" where
  "graph_of steps = foldl add_node \<lparr>sg_degree = [], sg_adj = (\<lambda>_. [])\<rparr> steps"

text \<open>The loop over the neighbours of a node, and the loop over the queue.\<close>

fun relax :: "string list \<Rightarrow> degrees \<Rightarrow> string list \<Rightarrow> degrees \<times> string list" where
  "relax [] deg q = (deg, q)"
| "relax (n # ns) deg q =
     (let deg1 = add_degree n (- 1) deg
      in relax ns deg1 (if degree deg1 n = 0 then q @ [n] else q))"

lemma degree_update [simp]: "degree (AList.update n k deg) m = (if m = n then k else degree deg m)"
  by (simp add: degree_def lookup_or_def update_conv')

lemma degree_add [simp]: "degree (add_degree n k deg) m = degree deg m + (if m = n then k else 0)"
  by (simp add: add_degree_def)

lemma keys_add [simp]:
  "fst ` set (add_degree n k deg) = insert n (fst ` set deg)"
  "distinct (map fst deg) \<Longrightarrow> distinct (map fst (add_degree n k deg))"
  by (auto simp: add_degree_def dom_update distinct_update)

definition positive :: "degrees \<Rightarrow> string set" where
  "positive deg = {n. 0 < degree deg n}"

lemma finite_positive [simp]: "finite (positive deg)"
  by (rule finite_subset [OF _ finite_dom_map_of [of deg]])
    (auto simp: positive_def degree_def lookup_or_def split: option.splits)

lemma relax_measure:
  "relax ns deg q = (deg', q') \<Longrightarrow> length q' + card (positive deg') \<le> length q + card (positive deg)"
proof (induction ns arbitrary: deg q)
  case (Cons n ns)
  let ?d = "add_degree n (- 1) deg"
  have "card (positive ?d) + (if degree ?d n = 0 then 1 else 0) \<le> card (positive deg)"
  proof (cases "degree deg n = 1")
    case True
    then have "positive deg = insert n (positive ?d)" "n \<notin> positive ?d"
      by (auto simp: positive_def split: if_splits)
    then show ?thesis by (simp add: True)
  next
    case False
    then have "positive ?d = positive deg" by (auto simp: positive_def)
    with False show ?thesis by simp
  qed
  moreover from Cons.prems have
    "relax ns ?d (if degree ?d n = 0 then q @ [n] else q) = (deg', q')" by (simp add: Let_def)
  from Cons.IH [OF this] have
    "length q' + card (positive deg') \<le> length (if degree ?d n = 0 then q @ [n] else q) + card (positive ?d)" .
  ultimately show ?case by (simp split: if_splits)
qed simp

text \<open>The loop ends: a node enters the queue only when its degree falls from one to zero.\<close>

function visit :: "(string \<Rightarrow> string list) \<Rightarrow> degrees \<Rightarrow> string list \<Rightarrow> nat \<Rightarrow> nat" where
  "visit adj deg [] visited = visited"
| "visit adj deg (node # queue) visited =
     visit adj (fst (relax (adj node) deg queue)) (snd (relax (adj node) deg queue)) (Suc visited)"
  by pat_completeness auto
termination
proof (relation "measure (\<lambda>(adj, deg, queue, _). length queue + card (positive deg))", goal_cases)
  case (2 adj deg node queue visited)
  show ?case
    using relax_measure [of "adj node" deg queue] by (cases "relax (adj node) deg queue") auto
qed simp

definition detectCycles :: "(string list \<Rightarrow> string list) \<Rightarrow> WorkflowStep list \<Rightarrow> string option" where
  "detectCycles order steps =
     (let g = graph_of steps;
          queue = order (map fst (filter (\<lambda>(_, k). k = 0) (sg_degree g)))
      in if visit (sg_adj g) (sg_degree g) queue 0 \<noteq> length steps
         then Some ''dependency cycle detected among steps'' else None)"

section \<open>What the graph holds\<close>

definition edges :: "WorkflowStep list \<Rightarrow> (string \<times> string) list" where
  "edges steps = concat (map (\<lambda>s. map (\<lambda>d. (d, ws_Name s)) (ws_DependsOn s)) steps)"

definition depends :: "WorkflowStep list \<Rightarrow> (string \<times> string) set" where
  "depends steps = {(d, ws_Name s) | d s. s \<in> set steps \<and> d \<in> set (ws_DependsOn s)}"

lemma set_edges [simp]: "set (edges steps) = depends steps"
  by (auto simp: edges_def depends_def)

definition targets :: "(string \<times> string) list \<Rightarrow> string \<Rightarrow> string list" where
  "targets es d = map snd (filter (\<lambda>e. fst e = d) es)"

definition graph_ok :: "step_graph \<Rightarrow> (string \<times> string) list \<Rightarrow> string set \<Rightarrow> bool" where
  "graph_ok g es names \<longleftrightarrow>
     sg_adj g = targets es \<and> (\<forall>n. degree (sg_degree g) n = int (length (filter (\<lambda>e. snd e = n) es))) \<and>
     fst ` set (sg_degree g) = names \<and> distinct (map fst (sg_degree g))"

lemma add_edge_ok:
  assumes "graph_ok g es names" "n \<in> names"
  shows "graph_ok (add_edge n g d) (es @ [(d, n)]) names"
  using assms by (auto simp: graph_ok_def add_edge_def targets_def fun_eq_iff)

lemma add_edges_ok:
  "graph_ok g es names \<Longrightarrow> n \<in> names \<Longrightarrow>
     graph_ok (foldl (add_edge n) g ds) (es @ map (\<lambda>d. (d, n)) ds) names"
proof (induction ds arbitrary: g es)
  case (Cons d ds)
  from Cons.IH [OF add_edge_ok [OF Cons.prems] Cons.prems(2)] show ?case by simp
qed simp

lemma add_node_ok:
  assumes "graph_ok g es names"
  shows "graph_ok (add_node g s) (es @ map (\<lambda>d. (d, ws_Name s)) (ws_DependsOn s)) (insert (ws_Name s) names)"
proof -
  let ?g = "if map_of (sg_degree g) (ws_Name s) = None
        then g\<lparr>sg_degree := AList.update (ws_Name s) 0 (sg_degree g)\<rparr> else g"
  have "degree (sg_degree g) (ws_Name s) = 0" if "map_of (sg_degree g) (ws_Name s) = None"
    using that by (simp add: degree_def lookup_or_def)
  then have "graph_ok ?g es (insert (ws_Name s) names)"
    using assms by (auto simp: graph_ok_def dom_update distinct_update map_of_eq_None_iff)
  from add_edges_ok [OF this] show ?thesis by (simp add: add_node_def)
qed

lemma graph_of_ok: "graph_ok (graph_of steps) (edges steps) (ws_Name ` set steps)"
proof -
  have "graph_ok (foldl add_node g ss) (es @ edges ss) (names \<union> ws_Name ` set ss)" if "graph_ok g es names"
    for g es names ss
    using that
  proof (induction ss arbitrary: g es names)
    case (Cons s ss)
    from Cons.IH [OF add_node_ok [OF Cons.prems]] show ?case by (simp add: edges_def)
  qed (simp add: edges_def)
  from this [of "\<lparr>sg_degree = [], sg_adj = (\<lambda>_. [])\<rparr>" "[]" "{}" steps] show ?thesis
    by (simp add: graph_of_def graph_ok_def degree_def lookup_or_def targets_def fun_eq_iff)
qed

section \<open>The invariant of the queue loop\<close>

text \<open>
  \<open>P\<close> is the set of nodes that were taken from the queue.  The degree of a node counts its dependencies
  outside \<open>P\<close>, and \<open>P\<close> is closed and ordered: a rank function puts every dependency of a node of \<open>P\<close>
  before it.
\<close>

definition ranked :: "(string \<times> string) list \<Rightarrow> string set \<Rightarrow> bool" where
  "ranked es P \<longleftrightarrow> (\<exists>f :: string \<Rightarrow> nat. \<forall>d n. (d, n) \<in> set es \<longrightarrow> n \<in> P \<longrightarrow> d \<in> P \<and> f d < f n)"

definition open_edges :: "(string \<times> string) list \<Rightarrow> string set \<Rightarrow> string \<Rightarrow> int" where
  "open_edges es P n = int (length (filter (\<lambda>e. snd e = n \<and> fst e \<notin> P) es))"

definition visit_inv :: "(string \<times> string) list \<Rightarrow> string set \<Rightarrow> degrees \<Rightarrow> string list \<Rightarrow> string set \<Rightarrow> bool" where
  "visit_inv es names deg q P \<longleftrightarrow>
     distinct q \<and> set q \<inter> P = {} \<and> P \<union> set q = {n \<in> names. degree deg n = 0} \<and> finite names \<and>
     (\<forall>n. degree deg n = open_edges es P n) \<and> ranked es P"

lemma visit_invD:
  assumes "visit_inv es names deg q P"
  shows "P \<union> set q = {n \<in> names. degree deg n = 0}" "degree deg n = open_edges es P n" "finite names" "ranked es P"
  using assms unfolding visit_inv_def by blast+

lemma visit_inv_end:
  assumes "visit_inv es names deg [] P"
  shows "P = {n \<in> names. degree deg n = 0}" "finite names" "P \<subseteq> names"
  using visit_invD [OF assms] by auto

lemma open_edges_nonneg [simp]: "0 \<le> open_edges es P n"
  by (simp add: open_edges_def)

lemma open_edges_zero: "open_edges es P n = 0 \<longleftrightarrow> (\<forall>d. (d, n) \<in> set es \<longrightarrow> d \<in> P)"
  by (auto simp: open_edges_def filter_empty_conv)

lemma open_edges_insert:
  "x \<notin> P \<Longrightarrow> open_edges es (insert x P) n = open_edges es P n - int (count_list (targets es x) n)"
  by (induction es) (auto simp: open_edges_def targets_def)

lemma relax_spec:
  assumes "relax ns deg q = (deg', q')" "\<forall>n. int (count_list ns n) \<le> degree deg n"
    and "distinct q" "\<forall>n \<in> set q. n \<notin> set ns"
  shows "(\<forall>n. degree deg' n = degree deg n - int (count_list ns n)) \<and> distinct q' \<and>
    set q' = set q \<union> {n \<in> set ns. degree deg n = int (count_list ns n)}"
  using assms
proof (induction ns arbitrary: deg q)
  case (Cons x ns)
  let ?d = "add_degree x (- 1) deg" and ?q = "if degree deg x = 1 then q @ [x] else q"
  have le: "int (count_list ns n) \<le> degree ?d n" for n
    using Cons.prems(2) [rule_format, of n] by auto
  have "x \<notin> set ns" if "degree deg x = 1"
    using le [of x] that by (auto simp: count_list_0_iff)
  then have "distinct ?q" "\<forall>n \<in> set ?q. n \<notin> set ns" using Cons.prems(3,4) by auto
  with Cons.IH [of ?d ?q] Cons.prems(1) le have IH:
    "\<forall>n. degree deg' n = degree ?d n - int (count_list ns n)" "distinct q'"
    "set q' = set ?q \<union> {n \<in> set ns. degree ?d n = int (count_list ns n)}"
    by (auto simp: Let_def)
  have "set q' = set q \<union> {n \<in> set (x # ns). degree deg n = int (count_list (x # ns) n)}"
    unfolding IH(3) using le [of x] by (auto simp: count_list_0_iff)
  with IH show ?case by auto
qed simp

lemma ranked_insert:
  assumes "ranked es P" "x \<notin> P" "finite P" "\<forall>d. (d, x) \<in> set es \<longrightarrow> d \<in> P"
  shows "ranked es (insert x P)"
proof -
  obtain f :: "string \<Rightarrow> nat" where f: "\<And>d n. (d, n) \<in> set es \<Longrightarrow> n \<in> P \<Longrightarrow> d \<in> P \<and> f d < f n"
    using assms(1) unfolding ranked_def by blast
  define g where "g = f(x := Suc (sum f P))"
  have "d \<in> insert x P \<and> g d < g n" if "(d, n) \<in> set es" "n \<in> insert x P" for d n
  proof (cases "n = x")
    case True
    with that assms(4) have "d \<in> P" by blast
    moreover have "f d \<le> sum f P" using \<open>d \<in> P\<close> assms(3) by (simp add: member_le_sum)
    ultimately show ?thesis using True assms(2) by (auto simp: g_def)
  next
    case False
    with that f assms(2) show ?thesis by (auto simp: g_def)
  qed
  then show ?thesis unfolding ranked_def by (intro exI [of _ g]) auto
qed

lemma visit_step:
  assumes inv: "visit_inv es names deg (x # q) P" and names: "snd ` set es \<subseteq> names"
    and r: "relax (targets es x) deg q = (deg', q')"
  shows "visit_inv es names deg' q' (insert x P) \<and> x \<notin> P"
proof -
  have x: "x \<notin> P" "x \<in> names" "degree deg x = 0" "finite P"
    and deg: "\<And>n. degree deg n = open_edges es P n"
    and reached: "P \<union> set (x # q) = {n \<in> names. degree deg n = 0}"
    using inv unfolding visit_inv_def by (auto intro: finite_subset)
  note new = open_edges_insert [OF x(1), of es]
  have le: "int (count_list (targets es x) n) \<le> degree deg n" for n
    using open_edges_nonneg [of es "insert x P" n] by (simp only: new deg)
  have fresh: "n \<notin> set (targets es x)" if "n \<in> set (x # q)" for n
  proof -
    from that reached have "degree deg n = 0" by blast
    with le [of n] show ?thesis by (simp add: count_list_0_iff)
  qed
  have "distinct q" "\<forall>n \<in> set q. n \<notin> set (targets es x)"
    using inv fresh by (simp_all add: visit_inv_def)
  with relax_spec [OF r] le have rel:
    "\<And>n. degree deg' n = degree deg n - int (count_list (targets es x) n)" "distinct q'"
    "set q' = set q \<union> {n \<in> set (targets es x). degree deg n = int (count_list (targets es x) n)}"
    by blast+
  have deg': "degree deg' n = open_edges es (insert x P) n" for n by (simp add: rel(1) deg new)
  have zero: "degree deg' n = 0 \<longleftrightarrow> degree deg n = 0 \<or>
      n \<in> set (targets es x) \<and> degree deg n = int (count_list (targets es x) n)" for n
    using le [of n] by (auto simp: rel(1) count_list_0_iff)
  have sub: "set (targets es x) \<subseteq> names" using names by (auto simp: targets_def)
  have "insert x P \<union> set q' = {n \<in> names. degree deg' n = 0}"
    using reached sub unfolding rel(3) by (auto simp: zero)
  moreover have "x \<notin> set q'" using fresh [of x] inv by (auto simp: rel(3) visit_inv_def)
  moreover have "set q' \<inter> P = {}"
  proof -
    have "degree deg n \<noteq> int (count_list (targets es x) n)" if "n \<in> P" "n \<in> set (targets es x)" for n
    proof -
      from that(1) reached have "degree deg n = 0" by blast
      with that(2) show ?thesis by (simp add: count_list_0_iff)
    qed
    with inv show ?thesis by (auto simp: rel(3) visit_inv_def)
  qed
  moreover have "ranked es (insert x P)"
    using ranked_insert [OF _ x(1,4)] inv x(3) deg [of x] by (simp add: visit_inv_def open_edges_zero)
  ultimately show ?thesis using inv deg' rel(2) x(1) by (simp add: visit_inv_def)
qed

lemma visit_result:
  assumes "visit_inv es names deg q P" "snd ` set es \<subseteq> names"
  shows "\<exists>deg' P'. visit (targets es) deg q v + card P = v + card P' \<and> visit_inv es names deg' [] P'"
  using assms(1)
proof (induction "targets es" deg q v arbitrary: P rule: visit.induct)
  case (2 deg x q v)
  let ?r = "relax (targets es x) deg q"
  have step: "visit_inv es names (fst ?r) (snd ?r) (insert x P)" "x \<notin> P"
    using visit_step [OF 2(2) assms(2), of "fst ?r" "snd ?r"] by auto
  moreover have "finite P" using 2(2) by (auto simp: visit_inv_def intro: finite_subset)
  ultimately show ?case using 2(1) [OF step(1)] by simp
qed auto

text \<open>
  When every node was reached the rank function orders all dependencies; when some were not, a minimal
  one among them has all its dependencies reached, so that its degree is zero and it was reached.
\<close>

lemma ranked_acyclic: "ranked es P \<Longrightarrow> snd ` set es \<subseteq> P \<Longrightarrow> acyclic (set es)"
proof -
  assume "ranked es P" and sub: "snd ` set es \<subseteq> P"
  then obtain f :: "string \<Rightarrow> nat" where f: "\<forall>d n. (d, n) \<in> set es \<longrightarrow> n \<in> P \<longrightarrow> d \<in> P \<and> f d < f n"
    unfolding ranked_def by blast
  have "set es \<subseteq> measure f"
  proof (rule subrelI)
    fix d n assume e: "(d, n) \<in> set es"
    with sub have "n \<in> P" by force
    with f e show "(d, n) \<in> measure f" by simp
  qed
  then show ?thesis by (rule wf_acyclic [OF wf_subset [OF wf_measure]])
qed

lemma visit_complete:
  assumes inv: "visit_inv es names deg [] P" and es: "fst ` set es \<subseteq> names"
    and "acyclic (set es)"
  shows "P = names"
proof (rule ccontr)
  note P = visit_inv_end(1) [OF inv]
  assume "P \<noteq> names"
  with P obtain m where m: "m \<in> names - P" by blast
  have "wf (set es)" by (rule finite_acyclic_wf [OF finite_set assms(3)])
  then have "\<exists>n \<in> names - P. \<forall>d. (d, n) \<in> set es \<longrightarrow> d \<notin> names - P"
    using m unfolding wf_eq_minimal by (metis (no_types))
  then obtain n where n: "n \<in> names - P" "\<And>d. (d, n) \<in> set es \<Longrightarrow> d \<notin> names - P" by blast
  have "d \<in> P" if "(d, n) \<in> set es" for d using n(2) [OF that] es that by force
  then have "degree deg n = 0" by (simp add: visit_invD(2) [OF inv] open_edges_zero)
  with P n(1) show False by blast
qed

section \<open>Acceptance\<close>

definition valid_steps :: "WorkflowStep list \<Rightarrow> bool" where
  "valid_steps steps \<longleftrightarrow> distinct (map ws_Name steps) \<and>
     list_all (\<lambda>s. set (ws_DependsOn s) \<subseteq> ws_Name ` set steps) steps"

lemma visit_start:
  assumes "mset (order (map fst (filter (\<lambda>(_, k). k = 0) (sg_degree g)))) =
    mset (map fst (filter (\<lambda>(_, k). k = 0) (sg_degree g)))" "graph_ok g es names"
  shows "visit_inv es names (sg_degree g) (order (map fst (filter (\<lambda>(_, k). k = 0) (sg_degree g)))) {}"
proof -
  let ?ks = "map fst (filter (\<lambda>(_, k). k = 0) (sg_degree g))"
  have g: "fst ` set (sg_degree g) = names" "distinct (map fst (sg_degree g))"
    "\<And>n. degree (sg_degree g) n = open_edges es {} n"
    using assms(2) by (auto simp: graph_ok_def open_edges_def)
  have "set ?ks = {n \<in> names. degree (sg_degree g) n = 0}"
    using g(2) unfolding g(1) [symmetric] by (force simp: degree_def lookup_or_def)
  moreover have "distinct ?ks" using g(2) by (simp add: distinct_map_filter)
  moreover have "finite names" using g(1) by auto
  moreover have "ranked es {}" by (simp add: ranked_def)
  ultimately show ?thesis
    using g(3) mset_eq_setD [OF assms(1)] mset_eq_imp_distinct_iff [OF assms(1)] by (simp add: visit_inv_def)
qed

lemma detectCycles_iff:
  assumes "valid_steps steps"
    and "\<And>xs. mset (order xs) = mset xs"
  shows "detectCycles order steps = None \<longleftrightarrow> acyclic (depends steps)"
proof -
  let ?g = "graph_of steps" and ?names = "ws_Name ` set steps"
  let ?q = "order (map fst (filter (\<lambda>(_, k). k = 0) (sg_degree ?g)))"
  have fields: "sg_adj ?g = targets (edges steps)" using graph_of_ok [of steps] by (simp add: graph_ok_def)
  have "\<And>s. s \<in> set steps \<Longrightarrow> set (ws_DependsOn s) \<subseteq> ?names"
    using assms(1) by (simp add: valid_steps_def list_all_iff)
  then have ends: "fst ` set (edges steps) \<subseteq> ?names" "snd ` set (edges steps) \<subseteq> ?names"
    by (force simp: depends_def)+
  have start: "visit_inv (edges steps) ?names (sg_degree ?g) ?q {}"
    by (rule visit_start [where g = ?g and order = order, OF assms(2) graph_of_ok])
  obtain deg P where P: "visit (targets (edges steps)) (sg_degree ?g) ?q 0 = card P"
    "visit_inv (edges steps) ?names deg [] P"
    using visit_result [OF start ends(2), of 0] by auto
  have "card P = card ?names \<longleftrightarrow> P = ?names"
    using card_subset_eq [of ?names P] visit_inv_end(3) [OF P(2)] by auto
  moreover have "card ?names = length steps"
    using assms(1) distinct_card [of "map ws_Name steps"] by (simp add: valid_steps_def)
  moreover have "P = ?names \<longleftrightarrow> acyclic (depends steps)"
    using ranked_acyclic [of "edges steps" P] visit_complete [OF P(2) ends(1)] ends(2)
      visit_invD(4) [OF P(2)] by auto
  ultimately show ?thesis by (simp add: detectCycles_def Let_def fields P(1))
qed

end
