(* ===== verification/Webhook.thy ===== *)
theory Webhook imports Step_Graph Step_Input Memory_Policy Go_Time Float64 begin

text \<open>
  The admission webhooks (\<^verbatim>\<open>webhooks/validating_webhook.go\<close>): the checks of an Agent and of a Workflow in
  the order the handlers make them.  The first check that fails decides the answer.
\<close>

section \<open>Requests and answers\<close>

text \<open>
  The decoder of the request and the client belong to \<^verbatim>\<open>controller-runtime\<close>: what decoding gave is an
  argument, and \<open>reader\<close> holds the three reads the handlers make.  A client that is not configured is
  \<open>None\<close>.
\<close>

datatype lookup_error = Missing | Unavailable

record reader =
  rd_secret :: "string \<times> string \<Rightarrow> lookup_error option"
  rd_agent :: "string \<times> string \<Rightarrow> lookup_error option"
  rd_provider :: "string \<times> string \<Rightarrow> lookup_error option"

datatype answer = Errored int string | Denied string | Allowed string "string list"

fun first_some :: "'a option list \<Rightarrow> 'a option" where
  "first_some [] = None"
| "first_some (None # xs) = first_some xs"
| "first_some (Some x # xs) = Some x"

definition deny_if :: "bool \<Rightarrow> string \<Rightarrow> string option" where
  "deny_if c msg = (if c then Some msg else None)"

lemma first_some_None [simp]: "first_some xs = None \<longleftrightarrow> list_all (\<lambda>x. x = None) xs"
  by (induction xs rule: first_some.induct) auto

lemma deny_if_None [simp]: "deny_if c msg = None \<longleftrightarrow> \<not> c"
  by (simp add: deny_if_def)

text \<open>\<^verbatim>\<open>%f\<close>: six digits behind the point.\<close>

fun show_6f :: "f64 \<Rightarrow> string" where
  "show_6f (Fin q) =
     (let n = round_half_even (\<bar>q\<bar> * 1000000) in
      (if q < 0 then ''-'' else []) @ show_pos (n div 1000000) @ ''.'' @
      map (\<lambda>k. digit_char (n div 10 ^ k mod 10)) [5, 4, 3, 2, 1, 0])"
| "show_6f NegZero = ''-0.000000''"
| "show_6f PosInf = ''+Inf''"
| "show_6f NegInf = ''-Inf''"
| "show_6f NaN = ''NaN''"

section \<open>Agents\<close>

fun first_dup :: "string list \<Rightarrow> string list \<Rightarrow> string option" where
  "first_dup seen [] = None"
| "first_dup seen (n # ns) = (if n \<in> set seen then Some n else first_dup (n # seen) ns)"

lemma first_dup_None: "first_dup seen ns = None \<longleftrightarrow> distinct ns \<and> set seen \<inter> set ns = {}"
  by (induction ns arbitrary: seen) auto

definition check_model :: "ModelSpec \<Rightarrow> string option" where
  "check_model m = first_some
     [deny_if (mo_Provider m = []) ''spec.model.provider must not be empty'',
      deny_if (mo_Name m = []) ''spec.model.name must not be empty'',
      (case mo_MaxTokens m of
         None \<Rightarrow> None
       | Some n \<Rightarrow> deny_if (n \<le> 0 \<or> 2000000 < n)
           (''spec.model.maxTokens must be between 1 and 2000000, got '' @ show_int n)),
      (case mo_Temperature m of
         None \<Rightarrow> None
       | Some t \<Rightarrow> deny_if (f64_lt t (Fin 0) \<or> f64_lt (Fin 2) t)
           (''spec.model.temperature must be between 0.0 and 2.0, got '' @ show_6f t))]"

definition validTypes :: "string list" where
  "validTypes = ['''', ''planner'', ''executor'', ''reviewer'', ''router'', ''monitor'', ''retriever'']"

definition check_secret :: "reader option \<Rightarrow> string \<Rightarrow> ModelSpec \<Rightarrow> string option" where
  "check_secret client ns m =
     (case (mo_CredentialsSecretRef m, client) of
        (Some r, Some c) \<Rightarrow>
          deny_if (sr_Name r \<noteq> [] \<and> rd_secret c (ns, sr_Name r) = Some Missing)
            (''AG-003: referenced Secret '' @ quote (sr_Name r) @ '' not found in namespace '' @ quote ns)
      | _ \<Rightarrow> None)"

definition check_tools :: "ToolSpec list \<Rightarrow> string option" where
  "check_tools tools =
     map_option (\<lambda>n. ''AG-004: duplicate tool name '' @ quote n @ '' in spec.tools'') (first_dup [] (map to_Name tools))"

definition check_replicas :: "AgentSpec \<Rightarrow> string option" where
  "check_replicas a =
     deny_if (as_Type a = ''monitor'' \<and> (case as_Replicas a of None \<Rightarrow> False | Some n \<Rightarrow> 1 < n))
       ''AG-005: monitor agents are limited to replicas <= 1''"

definition check_retriever :: "AgentSpec \<Rightarrow> string option" where
  "check_retriever a =
     (let legacyOK = (case as_Memory a of None \<Rightarrow> False | Some m \<Rightarrow> ms_Type m \<in> {''vector'', ''buffer'', ''summary''});
          behaviorOK = (case as_Memory a of None \<Rightarrow> False | Some m \<Rightarrow> ms_Behavior m \<in> {''session'', ''persistent''})
      in deny_if (as_Type a = ''retriever'' \<and> \<not> legacyOK \<and> \<not> behaviorOK)
        ''AG-010: retriever agents need spec.memory.type (vector/buffer/summary) or spec.memory.behavior (session/persistent)'')"

definition check_memory :: "reader option \<Rightarrow> Agent \<Rightarrow> MemorySpec \<Rightarrow> string option" where
  "check_memory client agent m = first_some
     [deny_if (ms_Type m \<notin> {'''', ''buffer'', ''summary'', ''vector'', ''none''})
        (''spec.memory.type must be buffer, summary, vector, or none (got '' @ quote (ms_Type m) @ '')''),
      deny_if (ms_Behavior m \<notin> {'''', ''off'', ''session'', ''persistent''})
        (''spec.memory.behavior must be off, session, or persistent (got '' @ quote (ms_Behavior m) @ '')''),
      deny_if (ms_Scope m \<notin> {'''', ''agent'', ''group'', ''namespace''})
        (''spec.memory.scope must be agent, group, or namespace (got '' @ quote (ms_Scope m) @ '')''),
      deny_if (ms_Scope m = ''group'' \<and> get_str (om_Labels (ag_Meta agent)) component_label = [])
        ''spec.memory.scope=group requires the app.kubernetes.io/component label (the group key)'',
      (case ms_MaxContextTokens m of
         None \<Rightarrow> None
       | Some n \<Rightarrow> deny_if (32768 < n) (''spec.memory.maxContextTokens must be <= 32768 (got '' @ show_int n @ '')'')),
      (case ms_MaxEntries m of
         None \<Rightarrow> None
       | Some n \<Rightarrow> deny_if (10000 < n) (''spec.memory.maxEntries must be <= 10000 (got '' @ show_int n @ '')'')),
      (case client of
         None \<Rightarrow> None
       | Some c \<Rightarrow> deny_if (ms_ProviderRef m \<noteq> [] \<and> rd_provider c (''purko-system'', ms_ProviderRef m) = Some Missing)
           (''spec.memory.providerRef '' @ quote (ms_ProviderRef m) @ '' not found (MemoryProviders live in purko-system)''))]"

definition memory_warnings :: "AgentSpec \<Rightarrow> string list" where
  "memory_warnings a =
     (case as_Memory a of
        None \<Rightarrow> []
      | Some m \<Rightarrow>
          (if ms_Type m \<noteq> [] \<and> ms_Behavior m \<noteq> [] then
             [''spec.memory: both type and behavior set '' @ [CHR 0xE2, CHR 0x80, CHR 0x94] @
              '' behavior wins; type is ignored at runtime''] @
             (if ms_Type m = ''vector'' then
                [''spec.memory: behavior overrides the vector PVC path '' @ [CHR 0xE2, CHR 0x80, CHR 0x94] @
                 '' the persistent-storage mount will not be used'']
              else [])
           else []) @
          (if ms_Scope m = ''namespace'' \<and> as_AutonomyLevel a = ''full'' then
             [''spec.memory.scope=namespace with autonomyLevel=full: a low-trust agent'' @ [CHR 0x27] @
              ''s memories may be recalled and acted on by this high-autonomy agent'']
           else []))"

definition handle_agent :: "reader option \<Rightarrow> string \<Rightarrow> string + Agent \<Rightarrow> answer" where
  "handle_agent client ns decoded =
     (case decoded of
        Inl err \<Rightarrow> Errored 400 (''failed to decode Agent: '' @ err)
      | Inr agent \<Rightarrow>
          (let a = ag_Spec agent in
           case first_some
             [check_model (as_Model a),
              deny_if (as_Type a \<notin> set validTypes)
                (''AG-001: spec.type must be one of planner, executor, reviewer, router, monitor, retriever (got '' @
                 quote (as_Type a) @ '')''),
              check_secret client ns (as_Model a),
              check_tools (as_Tools a),
              check_replicas a,
              check_retriever a,
              (case as_Memory a of None \<Rightarrow> None | Some m \<Rightarrow> check_memory client agent m)] of
             Some msg \<Rightarrow> Denied msg
           | None \<Rightarrow> Allowed ''agent validation passed'' (memory_warnings a)))"

section \<open>Workflows\<close>

text \<open>The loop of WF-002, with the names seen so far.\<close>

fun check_names :: "string list \<Rightarrow> WorkflowStep list \<Rightarrow> string option" where
  "check_names seen [] = None"
| "check_names seen (s # ss) =
     (if ws_Name s = [] then Some ''WF-002: each step must have a non-empty name''
      else if ws_Name s \<in> set seen then Some (''WF-002: duplicate step name: '' @ quote (ws_Name s))
      else if ar_Name (ws_AgentRef s) = [] \<and> ws_Type s = []
        then Some (''step '' @ quote (ws_Name s) @ '' must have either agentRef.name or type'')
      else check_names (ws_Name s # seen) ss)"

definition check_dep :: "string list \<Rightarrow> string \<Rightarrow> string \<Rightarrow> string option" where
  "check_dep stepNames name dep =
     (if dep \<notin> set stepNames
      then Some (''WF-003: step '' @ quote name @ '' depends on non-existent step '' @ quote dep)
      else if dep = name then Some (''WF-003: step '' @ quote name @ '' cannot depend on itself'')
      else None)"

definition check_deps :: "string list \<Rightarrow> WorkflowStep list \<Rightarrow> string option" where
  "check_deps stepNames steps =
     first_some (concat (map (\<lambda>s. map (check_dep stepNames (ws_Name s)) (ws_DependsOn s)) steps))"

definition check_edge :: "string list \<Rightarrow> Edge \<Rightarrow> string option" where
  "check_edge stepNames e = first_some
     [deny_if (ed_From e \<notin> set stepNames)
        (''edge references non-existent step '' @ quote (ed_From e) @ '' in '' @ [CHR 0x27] @ ''from'' @ [CHR 0x27]),
      deny_if (ed_To e \<notin> set stepNames)
        (''edge references non-existent step '' @ quote (ed_To e) @ '' in '' @ [CHR 0x27] @ ''to'' @ [CHR 0x27])]"

definition check_agent :: "reader \<Rightarrow> string \<Rightarrow> WorkflowStep \<Rightarrow> string option" where
  "check_agent c ns s =
     (let agentNS = (if ar_Namespace (ws_AgentRef s) \<noteq> [] then ar_Namespace (ws_AgentRef s) else ns) in
      deny_if (ar_Name (ws_AgentRef s) \<noteq> [] \<and> rd_agent c (agentNS, ar_Name (ws_AgentRef s)) = Some Missing)
        (''WF-005: step '' @ quote (ws_Name s) @ '' references non-existent agent '' @
         quote (ar_Name (ws_AgentRef s)) @ '' in namespace '' @ quote agentNS))"

definition check_structure :: "(string list \<Rightarrow> string list) \<Rightarrow> reader option \<Rightarrow> string \<Rightarrow> Workflow \<Rightarrow> string option" where
  "check_structure order client ns w =
     (let steps = wf_Steps w; stepNames = map ws_Name steps in first_some
       [deny_if (steps = []) ''WF-001: spec.steps must contain at least one step'',
        deny_if (50 < length steps)
          (''WF-008: workflow cannot have more than 50 steps (got '' @ show_nat (length steps) @ '')''),
        check_names [] steps,
        check_deps stepNames steps,
        first_some (map (check_edge stepNames) (wp_Edges (wf_Spec w))),
        map_option (\<lambda>e. ''WF-004: '' @ e) (detectCycles order steps),
        (case client of None \<Rightarrow> None | Some c \<Rightarrow> first_some (map (check_agent c ns) steps))])"

text \<open>WF-006: the warning ends the handler.\<close>

definition step_timeout :: "WorkflowStep \<Rightarrow> int option" where
  "step_timeout s =
     (case ws_StepTimeout s of
        None \<Rightarrow> None
      | Some t \<Rightarrow> if 0 < st_TimeoutSeconds t then Some (wrap64 (st_TimeoutSeconds t * second)) else None)"

definition parseDurationLoose :: "string \<Rightarrow> int option" where
  "parseDurationLoose s = ParseDuration s"

definition exceeding :: "int \<Rightarrow> WorkflowStep \<Rightarrow> (string \<times> int) option" where
  "exceeding bound s =
     (case step_timeout s of None \<Rightarrow> None | Some t \<Rightarrow> if bound < t then Some (ws_Name s, t) else None)"

definition timeout_warning :: "Workflow \<Rightarrow> answer option" where
  "timeout_warning w =
     (case Option.bind (wp_Timeout (wf_Spec w)) unmarshal_string of
        None \<Rightarrow> None
      | Some str \<Rightarrow>
          (case (if str = [] then None else parseDurationLoose str) of
             None \<Rightarrow> None
           | Some total_limit \<Rightarrow>
               map_option (\<lambda>(n, t).
                   let text = ''step '' @ quote n @ '' timeout ('' @ show_duration t @
                         '') exceeds workflow timeout ('' @ show_duration total_limit @ '')''
                   in Allowed (''WF-006 warning: '' @ text) [''WF-006: '' @ text])
                 (first_some (map (exceeding total_limit) (wf_Steps w)))))"

text \<open>WF-007 and WF-009 on the condition expressions, then the step timeouts and the failure strategy.\<close>

definition check_condition :: "WorkflowStep \<Rightarrow> string option" where
  "check_condition s =
     deny_if (ws_ConditionExpr s \<noteq> [] \<and> \<not> Contains (ws_ConditionExpr s) ''steps.'' \<and>
              ws_ConditionExpr s \<noteq> ''true'' \<and> ws_ConditionExpr s \<noteq> ''false'')
       (''WF-007: step '' @ quote (ws_Name s) @ '' condition expression '' @ quote (ws_ConditionExpr s) @
        '' does not reference any step output'')"

definition stepRefPattern :: re where
  "stepRefPattern = re_cat [Lit ''${steps.'', Grp 1 (Cat (Chr word_char) (Star word_dash)), Lit ''.'']"

definition check_refs :: "string list \<Rightarrow> WorkflowStep \<Rightarrow> string option" where
  "check_refs stepNames s =
     (if ws_ConditionExpr s = [] then None
      else first_some (map (\<lambda>m. let n = group (f_caps m) 1 in
             deny_if (n \<notin> set stepNames)
               (''WF-009: step '' @ quote (ws_Name s) @ '' condition references non-existent step '' @ quote n))
           (find_all stepRefPattern (ws_ConditionExpr s))))"

definition check_step_timeout :: "WorkflowStep \<Rightarrow> string option" where
  "check_step_timeout s =
     deny_if (case ws_StepTimeout s of None \<Rightarrow> False | Some t \<Rightarrow> st_TimeoutSeconds t < 0)
       (''step '' @ quote (ws_Name s) @ '' timeout must be non-negative'')"

definition validStrategies :: "string list" where
  "validStrategies = [''failFast'', ''continueOnError'', ''rollback'', ''stop'', ''continue'']"

definition check_content :: "Workflow \<Rightarrow> string option" where
  "check_content w =
     (let steps = wf_Steps w in first_some
       [first_some (map check_condition steps),
        first_some (map (check_refs (map ws_Name steps)) steps),
        first_some (map check_step_timeout steps),
        deny_if (wf_Strategy w \<noteq> [] \<and> wf_Strategy w \<notin> set validStrategies)
          (''spec.failureStrategy must be failFast, continueOnError, or rollback (got '' @ quote (wf_Strategy w) @ '')'')])"

definition handle_workflow :: "(string list \<Rightarrow> string list) \<Rightarrow> reader option \<Rightarrow> string \<Rightarrow> string + Workflow \<Rightarrow> answer" where
  "handle_workflow order client ns decoded =
     (case decoded of
        Inl err \<Rightarrow> Errored 400 (''failed to decode Workflow: '' @ err)
      | Inr w \<Rightarrow>
          (case check_structure order client ns w of
             Some msg \<Rightarrow> Denied msg
           | None \<Rightarrow>
               (case timeout_warning w of
                  Some a \<Rightarrow> a
                | None \<Rightarrow>
                    (case check_content w of
                       Some msg \<Rightarrow> Denied msg
                     | None \<Rightarrow> Allowed ''workflow validation passed'' []))))"

fun is_allowed :: "answer \<Rightarrow> bool" where
  "is_allowed (Allowed _ _) = True"
| "is_allowed _ = False"

end
