(* ===== verification/Webhook_Properties.thy ===== *)
theory Webhook_Properties imports Webhook Sample_Cluster Status_Table begin

text \<open>
  What admission guarantees to the controllers: the shape of an accepted workflow, that its steps can
  always go on, and the bounds of an accepted agent.
\<close>

section \<open>The shape of an accepted workflow\<close>

lemma check_names_None:
  "check_names seen ss = None \<longleftrightarrow>
     distinct (map ws_Name ss) \<and> set seen \<inter> ws_Name ` set ss = {} \<and>
     list_all (\<lambda>s. ws_Name s \<noteq> [] \<and> (ar_Name (ws_AgentRef s) \<noteq> [] \<or> ws_Type s \<noteq> [])) ss"
  by (induction ss arbitrary: seen) auto

lemma check_dep_None [simp]: "check_dep names n d = None \<longleftrightarrow> d \<in> set names \<and> d \<noteq> n"
  by (simp add: check_dep_def)

lemma check_deps_None:
  "check_deps names ss = None \<longleftrightarrow>
     list_all (\<lambda>s. set (ws_DependsOn s) \<subseteq> set names \<and> ws_Name s \<notin> set (ws_DependsOn s)) ss"
  by (auto simp: check_deps_def list_all_iff)

lemma check_edge_None [simp]: "check_edge names e = None \<longleftrightarrow> ed_From e \<in> set names \<and> ed_To e \<in> set names"
  by (simp add: check_edge_def)

definition agent_key :: "string \<Rightarrow> WorkflowStep \<Rightarrow> string \<times> string" where
  "agent_key ns s =
     (if ar_Namespace (ws_AgentRef s) \<noteq> [] then ar_Namespace (ws_AgentRef s) else ns, ar_Name (ws_AgentRef s))"

lemma check_agent_None [simp]:
  "check_agent c ns s = None \<longleftrightarrow> ar_Name (ws_AgentRef s) = [] \<or> rd_agent c (agent_key ns s) \<noteq> Some Missing"
  by (auto simp: check_agent_def agent_key_def)

lemma timeout_warning_allowed: "timeout_warning w = Some a \<Longrightarrow> is_allowed a"
  by (auto simp: timeout_warning_def Let_def split: option.splits if_splits)

lemma handle_workflow_allowed:
  "is_allowed (handle_workflow order client ns (Inr w)) \<longleftrightarrow>
     check_structure order client ns w = None \<and> (timeout_warning w \<noteq> None \<or> check_content w = None)"
  by (auto simp: handle_workflow_def dest: timeout_warning_allowed split: option.splits)

definition well_formed :: "reader option \<Rightarrow> string \<Rightarrow> Workflow \<Rightarrow> bool" where
  "well_formed client ns w \<longleftrightarrow>
     (let names = ws_Name ` set (wf_Steps w) in
      0 < length (wf_Steps w) \<and> length (wf_Steps w) \<le> 50 \<and> distinct (map ws_Name (wf_Steps w)) \<and>
      (\<forall>s \<in> set (wf_Steps w). ws_Name s \<noteq> [] \<and> (ar_Name (ws_AgentRef s) \<noteq> [] \<or> ws_Type s \<noteq> []) \<and>
         set (ws_DependsOn s) \<subseteq> names) \<and>
      (\<forall>e \<in> set (wp_Edges (wf_Spec w)). ed_From e \<in> names \<and> ed_To e \<in> names) \<and>
      acyclic (depends (wf_Steps w)) \<and>
      (\<forall>c. client = Some c \<longrightarrow> (\<forall>s \<in> set (wf_Steps w).
         ar_Name (ws_AgentRef s) \<noteq> [] \<longrightarrow> rd_agent c (agent_key ns s) \<noteq> Some Missing)))"

lemma acyclic_no_self: "acyclic (depends steps) \<Longrightarrow> s \<in> set steps \<Longrightarrow> ws_Name s \<notin> set (ws_DependsOn s)"
  unfolding acyclic_def depends_def by (blast intro: r_into_trancl')

lemma structure_iff:
  assumes "\<And>xs. mset (order xs) = mset xs"
  shows "check_structure order client ns w = None \<longleftrightarrow> well_formed client ns w"
proof (cases "valid_steps (wf_Steps w)")
  case True
  then have "detectCycles order (wf_Steps w) = None \<longleftrightarrow> acyclic (depends (wf_Steps w))"
    by (rule detectCycles_iff) (rule assms)
  with True show ?thesis
    using acyclic_no_self [of "wf_Steps w"]
    by (auto simp: check_structure_def Let_def check_names_None check_deps_None valid_steps_def list_all_iff
        well_formed_def split: option.splits)
next
  case False
  then show ?thesis
    by (auto simp: check_structure_def Let_def check_names_None check_deps_None valid_steps_def list_all_iff
        well_formed_def)
qed

text \<open>C28: A workflow's steps pass the cycle check exactly when their dependencies have no cycle, in whatever
  order the map of degrees is visited; the names are unique and the dependencies name steps, which the
  webhook has checked before.\<close>

theorem cycle_check_correct:
  assumes "valid_steps steps" "\<And>xs. mset (order xs) = mset xs"
  shows "detectCycles order steps = None \<longleftrightarrow> acyclic (depends steps)"
  by (rule detectCycles_iff [OF assms])

abbreviation fan_steps :: "WorkflowStep list" where
  "fan_steps \<equiv> [plain_step ''a'' [], plain_step ''b'' [''a''], plain_step ''c'' [''b'', ''a'']]"

abbreviation loop_steps :: "WorkflowStep list" where
  "loop_steps \<equiv> [plain_step ''a'' [''b''], plain_step ''b'' [''a'']]"

lemma cycle_check_correct_witness:
  "acyclic (depends fan_steps) \<and> \<not> acyclic (depends loop_steps)"
proof -
  have "detectCycles rev fan_steps = None" "detectCycles rev loop_steps \<noteq> None"
    "valid_steps fan_steps" "valid_steps loop_steps"
    by code_simp+
  then show ?thesis
    using cycle_check_correct [of fan_steps rev] cycle_check_correct [of loop_steps rev] by simp
qed

section \<open>References in condition expressions\<close>

text \<open>
  A condition refers to a step where it holds \<^verbatim>\<open>${steps.\<close>, a name the engine reads as one group and a dot.
  The search of the webhook finds exactly these, because no two of them overlap.
\<close>

definition refers_to :: "string \<Rightarrow> string \<Rightarrow> bool" where
  "refers_to cond n \<longleftrightarrow> step_ident n \<and> (\<exists>pre post. cond = pre @ ''${steps.'' @ n @ ''.'' @ post)"

definition starts_ref :: "string \<Rightarrow> string \<Rightarrow> string \<Rightarrow> bool" where
  "starts_ref s n post \<longleftrightarrow> step_ident n \<and> s = ''${steps.'' @ n @ ''.'' @ post"

lemma star_taken:
  assumes "star p b s cs k = Some z"
  shows "\<exists>b' u s'. s = u @ s' \<and> list_all p u \<and> k b' s' cs = Some z"
  using assms
proof (induction p b s cs k rule: star.induct)
  case (2 p b c s cs k)
  show ?case
  proof (cases "p c \<and> star p False s cs k = Some z")
    case True
    with 2(1) obtain b' u s' where "s = u @ s'" "list_all p u" "k b' s' cs = Some z" by blast
    with True have "c # s = (c # u) @ s' \<and> list_all p (c # u) \<and> k b' s' cs = Some z" by simp
    then show ?thesis by blast
  next
    case False
    with 2(2) have "k b (c # s) cs = Some z" by (auto simp: orelse_Some split: if_splits)
    then show ?thesis by (intro exI [of _ b] exI [of _ "[]"] exI [of _ "c # s"]) simp
  qed
qed auto

lemma match_starts_ref: "match_at stepRefPattern b s = Some (post, [(1, n)])" if "starts_ref s n post"
proof -
  have "\<not> word_dash CHR ''.''" by (simp add: word_dash_def word_char_def)
  with that have "match_at stepRefPattern b (''${steps.'' @ n @ ''.'' @ post) = Some (post, [(1, n)])"
    unfolding match_at_def stepRefPattern_def re_cat.simps starts_ref_def
    apply (intro mt_CatI mt_LitI mt_group1 [of n])
      apply simp
     apply simp
    apply simp
    done
  with that show ?thesis by (simp add: starts_ref_def)
qed

lemma mt_lit_taken:
  assumes "mt (Lit l) b s cs k = Some z"
  obtains s' where "s = l @ s'" "k (b \<and> l = []) s' cs = Some z"
  using assms by (auto simp: HasPrefix_def prefix_def split: if_splits)

lemma starts_ref_match:
  assumes "match_at stepRefPattern b s = Some (post, cs)"
  shows "\<exists>n. starts_ref s n post \<and> cs = [(1, n)]"
proof -
  let ?done = "\<lambda>_ s' cs. Some (s', cs)"
  have "mt (Lit ''${steps.'') b s [] (\<lambda>b v cs. mt (Grp 1 (Cat (Chr word_char) (Star word_dash))) b v cs
      (\<lambda>b v cs. mt (Lit ''.'') b v cs ?done)) = Some (post, cs)"
    using assms by (simp only: match_at_def stepRefPattern_def re_cat.simps mt.simps(4))
  then obtain v b' where s: "s = ''${steps.'' @ v"
    and m: "mt (Grp 1 (Cat (Chr word_char) (Star word_dash))) b' v []
      (\<lambda>b v cs. mt (Lit ''.'') b v cs ?done) = Some (post, cs)"
    by (rule mt_lit_taken)
  from m obtain c t where v: "v = c # t" "word_char c"
    and st: "star word_dash False t [] (\<lambda>b' s' cs'. mt (Lit ''.'') b' s' ((1, take (length v - length s') v) # cs') ?done)
      = Some (post, cs)"
    by (simp only: mt.simps) (auto simp del: mt.simps split: list.splits if_splits)
  from star_taken [OF st] obtain b2 u t' where u: "t = u @ t'" "list_all word_dash u"
    and l: "mt (Lit ''.'') b2 t' [(1, take (length v - length t') v)] ?done = Some (post, cs)" by blast
  from l obtain r where r: "t' = ''.'' @ r" "Some (r, [(1, take (length v - length t') v)]) = Some (post, cs)"
    by (rule mt_lit_taken)
  have "take (length v - length t') v = c # u" using u v by simp
  with r have "post = r" "cs = [(1, c # u)]" by auto
  moreover have "starts_ref s (c # u) r" using s v u r(1)
    by (simp add: starts_ref_def step_ident_def word_char_dash)
  ultimately show ?thesis by blast
qed

lemma refers_to_Cons:
  "refers_to (c # s) n \<longleftrightarrow> (\<exists>post. starts_ref (c # s) n post) \<or> refers_to s n"
proof
  assume "refers_to (c # s) n"
  then obtain pre post where "step_ident n" "c # s = pre @ ''${steps.'' @ n @ ''.'' @ post"
    unfolding refers_to_def by blast
  then show "(\<exists>post. starts_ref (c # s) n post) \<or> refers_to s n"
    by (cases pre) (auto simp: starts_ref_def refers_to_def)
next
  assume "(\<exists>post. starts_ref (c # s) n post) \<or> refers_to s n"
  then show "refers_to (c # s) n"
    unfolding starts_ref_def refers_to_def by (metis append_Cons append_Nil)
qed

lemma refers_to_Nil [simp]: "\<not> refers_to [] n" by (simp add: refers_to_def)

lemma refers_to_skip: "CHR ''$'' \<notin> set u \<Longrightarrow> refers_to (u @ s) n \<longleftrightarrow> refers_to s n"
  by (induction u) (auto simp: refers_to_Cons starts_ref_def)

lemma step_ident_no_dollar:
  assumes "step_ident n"
  shows "CHR ''$'' \<notin> set n"
proof -
  have "\<not> word_dash CHR ''$''" by (simp add: word_dash_def word_char_def)
  with assms show ?thesis by (metis list_all_iff step_ident_def)
qed

lemma refers_to_start:
  assumes "starts_ref s m post"
  shows "refers_to s n \<longleftrightarrow> n = m \<or> refers_to post n"
proof -
  let ?u = "''{steps.'' @ m @ ''.''"
  have m: "step_ident m" and s: "s = CHR ''$'' # (?u @ post)" using assms by (simp_all add: starts_ref_def)
  have "CHR ''$'' \<notin> set ?u" using step_ident_no_dollar [OF m] by simp
  then have "refers_to (?u @ post) n \<longleftrightarrow> refers_to post n" by (rule refers_to_skip)
  moreover have "refers_to s n \<longleftrightarrow> (\<exists>q. starts_ref s n q) \<or> refers_to (?u @ post) n"
    unfolding s by (rule refers_to_Cons)
  moreover have "(\<exists>q. starts_ref s n q) \<longleftrightarrow> n = m"
  proof
    assume "\<exists>q. starts_ref s n q"
    then obtain q where "starts_ref s n q" ..
    from match_starts_ref [OF this, of True] match_starts_ref [OF assms, of True] show "n = m" by simp
  qed (use assms in blast)
  ultimately show ?thesis by blast
qed

lemma find_from_refs:
  "case find_from stepRefPattern b acc s of
     None \<Rightarrow> \<not> refers_to s n
   | Some m \<Rightarrow> length (f_rest m) < length s \<and> (refers_to s n \<longleftrightarrow> n = group (f_caps m) 1 \<or> refers_to (f_rest m) n)"
proof (induction s arbitrary: b acc)
  case Nil
  show ?case using starts_ref_match [of b "[]"] by (auto simp: starts_ref_def split: option.split)
next
  case (Cons c s)
  show ?case
  proof (cases "match_at stepRefPattern b (c # s)")
    case None
    then have "\<not> starts_ref (c # s) n q" for q using match_starts_ref by fastforce
    then show ?thesis using None Cons [of False "c # acc"]
      by (auto simp: refers_to_Cons less_SucI split: option.splits)
  next
    case (Some p)
    then obtain post m where p: "p = (post, [(1, m)])" "starts_ref (c # s) m post"
      using starts_ref_match by (cases p) fastforce
    have "length post < length (c # s)" using p(2) by (auto simp: starts_ref_def)
    with Some p(1) refers_to_start [OF p(2), of n] show ?thesis by (simp add: group_def)
  qed
qed

lemma find_all_refs: "(\<exists>m \<in> set (find_all stepRefPattern s). group (f_caps m) 1 = n) \<longleftrightarrow> refers_to s n"
proof -
  have "(\<exists>m \<in> set (find_all_from stepRefPattern b s). group (f_caps m) 1 = n) \<longleftrightarrow> refers_to s n" for b
  proof (induction s arbitrary: b rule: length_induct)
    case (1 s)
    show ?case
    proof (cases "find_from stepRefPattern b [] s")
      case None
      then show ?thesis using find_from_refs [of s n b "[]"] by (subst find_all_from.simps) simp
    next
      case (Some m)
      then have "length (f_rest m) < length s" "refers_to s n \<longleftrightarrow> n = group (f_caps m) 1 \<or> refers_to (f_rest m) n"
        using find_from_refs [of s n b "[]"] by simp_all
      with Some 1 show ?thesis by (subst find_all_from.simps) auto
    qed
  qed
  then show ?thesis by (simp add: find_all_def)
qed

lemma check_refs_None:
  "check_refs names s = None \<longleftrightarrow> (\<forall>n. refers_to (ws_ConditionExpr s) n \<longrightarrow> n \<in> set names)"
proof (cases "ws_ConditionExpr s = []")
  case True
  then show ?thesis by (simp add: check_refs_def)
next
  case False
  then show ?thesis
    by (auto simp: check_refs_def Let_def list_all_iff simp flip: find_all_refs)
qed

section \<open>The content of an accepted workflow\<close>

lemma Contains_sublist: "Contains s p \<longleftrightarrow> sublist p s"
  by (induction s) (auto simp: HasPrefix_def sublist_Cons_right)

text \<open>A step that may take longer than the workflow.\<close>

definition overlong :: "Workflow \<Rightarrow> bool" where
  "overlong w \<longleftrightarrow> (\<exists>raw str limit s t.
     wp_Timeout (wf_Spec w) = Some raw \<and> unmarshal_string raw = Some str \<and> str \<noteq> [] \<and>
     ParseDuration str = Some limit \<and> s \<in> set (wf_Steps w) \<and> ws_StepTimeout s = Some t \<and>
     0 < st_TimeoutSeconds t \<and> limit < wrap64 (st_TimeoutSeconds t * second))"

definition valid_content :: "Workflow \<Rightarrow> bool" where
  "valid_content w \<longleftrightarrow>
     (\<forall>s \<in> set (wf_Steps w).
        (ws_ConditionExpr s \<in> {'''', ''true'', ''false''} \<or> sublist ''steps.'' (ws_ConditionExpr s)) \<and>
        (\<forall>n. refers_to (ws_ConditionExpr s) n \<longrightarrow> n \<in> ws_Name ` set (wf_Steps w)) \<and>
        (\<forall>t. ws_StepTimeout s = Some t \<longrightarrow> 0 \<le> st_TimeoutSeconds t)) \<and>
     wf_Strategy w \<in> {'''', ''failFast'', ''continueOnError'', ''rollback'', ''stop'', ''continue''}"

lemma exceeding_Some:
  "exceeding limit s \<noteq> None \<longleftrightarrow>
     (\<exists>t. ws_StepTimeout s = Some t \<and> 0 < st_TimeoutSeconds t \<and> limit < wrap64 (st_TimeoutSeconds t * second))"
  by (auto simp: exceeding_def step_timeout_def split: option.split)

lemma exceeding_None:
  "list_all (\<lambda>x. x = None) (map (exceeding limit) steps) \<longleftrightarrow>
     \<not> (\<exists>s \<in> set steps. \<exists>t. ws_StepTimeout s = Some t \<and> 0 < st_TimeoutSeconds t \<and>
          limit < wrap64 (st_TimeoutSeconds t * second))"
  by (simp only: list_all_iff set_map ball_simps bex_simps not_not flip: exceeding_Some)

lemma timeout_warning_overlong: "timeout_warning w \<noteq> None \<longleftrightarrow> overlong w"
proof -
  have "timeout_warning w \<noteq> None \<longleftrightarrow> (\<exists>raw str limit. wp_Timeout (wf_Spec w) = Some raw \<and>
      unmarshal_string raw = Some str \<and> str \<noteq> [] \<and> ParseDuration str = Some limit \<and>
      \<not> list_all (\<lambda>x. x = None) (map (exceeding limit) (wf_Steps w)))"
    by (auto simp: timeout_warning_def parseDurationLoose_def Let_def bind_eq_Some_conv
        simp flip: first_some_None split: option.split)
  then show ?thesis unfolding exceeding_None overlong_def by blast
qed

lemma check_condition_None:
  "check_condition s = None \<longleftrightarrow>
     ws_ConditionExpr s \<in> {'''', ''true'', ''false''} \<or> sublist ''steps.'' (ws_ConditionExpr s)"
  by (auto simp: check_condition_def Contains_sublist)

lemma check_step_timeout_None:
  "check_step_timeout s = None \<longleftrightarrow> (\<forall>t. ws_StepTimeout s = Some t \<longrightarrow> 0 \<le> st_TimeoutSeconds t)"
  by (auto simp: check_step_timeout_def split: option.split)

lemma check_content_valid: "check_content w = None \<longleftrightarrow> valid_content w"
  by (auto simp: check_content_def valid_content_def Let_def list_all_iff validStrategies_def
      check_condition_None check_refs_None check_step_timeout_None)

text \<open>C30: A workflow is admitted exactly when it is well formed and, unless it has an overlong step, its
  content is valid.  Well formed: one to fifty steps with distinct non-empty names, each with an agent name or
  a type, every dependency and both ends of every edge name a step, the dependencies have no cycle, and, when
  the webhook has a client, no agent a step names is reported as not found, whether or not the step has a type
  (a lookup that fails otherwise passes).  Overlong: the workflow's timeout is a duration, written as a
  non-empty JSON string, and some step's positive timeout, in 64-bit nanoseconds, is longer.  Valid content:
  every condition is empty, true, false or has the text \<^verbatim>\<open>steps.\<close> in it, every
  \<^verbatim>\<open>${steps.NAME.\<close> in a condition, with a NAME of word characters and dashes that begins with a word
  character, names a step of the workflow, no step timeout is negative, and the failure
  strategy is empty or one of the five names.  The map of degrees is visited in any order.\<close>

theorem admission_exact:
  assumes "\<And>xs. mset (order xs) = mset xs"
  shows "is_allowed (handle_workflow order client ns (Inr w)) \<longleftrightarrow>
    well_formed client ns w \<and> (overlong w \<or> valid_content w)"
  unfolding handle_workflow_allowed structure_iff [OF assms] timeout_warning_overlong check_content_valid ..

definition judged :: "string \<Rightarrow> Workflow" where
  "judged cond = plain_workflow
     [plain_step ''a'' [], (plain_step ''b'' [''a''])\<lparr>ws_ConditionExpr := cond\<rparr>] []"

lemma admission_exact_witness:
  "well_formed None ''team'' (judged ''${steps.a.output.x} == 1'') \<and>
   \<not> valid_content (judged ''${steps.z.output.x} == 1'') \<and> refers_to ''${steps.z.output.x} == 1'' ''z''"
proof -
  let ?good = "judged ''${steps.a.output.x} == 1''" and ?bad = "judged ''${steps.z.output.x} == 1''"
  have "is_allowed (handle_workflow rev None ''team'' (Inr ?good))"
    "\<not> is_allowed (handle_workflow rev None ''team'' (Inr ?bad))" by code_simp+
  moreover have "check_structure rev None ''team'' ?bad = None" by code_simp
  then have "well_formed None ''team'' ?bad" using structure_iff [of rev] by simp
  moreover have "\<exists>m \<in> set (find_all stepRefPattern ''${steps.z.output.x} == 1''). group (f_caps m) 1 = ''z''"
    by code_simp
  ultimately show ?thesis
    using admission_exact [of rev None "''team''" ?good] admission_exact [of rev None "''team''" ?bad]
      find_all_refs [of "''${steps.z.output.x} == 1''" "''z''"] by simp
qed

section \<open>An accepted workflow can always go on\<close>

lemma deps_ready_iff:
  "deps_ready w s \<longleftrightarrow> (\<forall>d \<in> set (ws_DependsOn s).
     if wf_Strategy w = ''continueOnError'' then step_finished w d else step_completed w d)"
  by (simp add: deps_ready_def list_all_iff)

lemma finished_completed:
  "step_finished w d \<Longrightarrow> \<not> has_phase [''Failed''] w d \<Longrightarrow> step_completed w d"
  by (auto simp: has_phase_def list_ex_iff)

lemma completed_step_finished: "step_completed w d \<Longrightarrow> step_finished w d"
  by (auto simp: has_phase_def list_ex_iff)

lemma minimal_unfinished:
  assumes "acyclic (depends steps)" "s \<in> set steps" "\<not> P (ws_Name s)"
    and "\<forall>s \<in> set steps. set (ws_DependsOn s) \<subseteq> ws_Name ` set steps"
  shows "\<exists>s \<in> set steps. \<not> P (ws_Name s) \<and> (\<forall>d \<in> set (ws_DependsOn s). P d)"
proof -
  have "finite (depends steps)" by (metis List.finite_set set_edges)
  then have "wf (depends steps)" using assms(1) by (rule finite_acyclic_wf)
  moreover have "ws_Name s \<in> {n \<in> ws_Name ` set steps. \<not> P n}" using assms(2,3) by blast
  ultimately obtain n where n: "n \<in> ws_Name ` set steps" "\<not> P n"
    "\<forall>d. (d, n) \<in> depends steps \<longrightarrow> d \<notin> {n \<in> ws_Name ` set steps. \<not> P n}"
    unfolding wf_eq_minimal by (metis (mono_tags, lifting) mem_Collect_eq)
  then obtain t where t: "t \<in> set steps" "ws_Name t = n" by blast
  have "P d" if "d \<in> set (ws_DependsOn t)" for d
  proof -
    have "(d, n) \<in> depends steps" using t that by (auto simp: depends_def)
    moreover have "d \<in> ws_Name ` set steps" using assms(4) t(1) that by blast
    ultimately show ?thesis using n(3) by blast
  qed
  with t n(2) show ?thesis by blast
qed

lemma some_step_ready:
  assumes "acyclic (depends (wf_Steps w))"
    and "\<forall>s \<in> set (wf_Steps w). set (ws_DependsOn s) \<subseteq> ws_Name ` set (wf_Steps w)"
    and "s \<in> set (wf_Steps w)" "\<not> step_finished w (ws_Name s)" "\<And>n. \<not> has_phase [''Running''] w n"
    and "wf_Strategy w = ''continueOnError'' \<or> (\<forall>n. \<not> has_phase [''Failed''] w n)"
    and "\<And>n. n \<in> set jobs \<Longrightarrow> step_finished w n"
  shows "findExecutableSteps w jobs \<noteq> []"
proof -
  obtain t where t: "t \<in> set (wf_Steps w)" "\<not> step_finished w (ws_Name t)"
      "\<forall>d \<in> set (ws_DependsOn t). step_finished w d"
    using minimal_unfinished [OF assms(1,3), of "step_finished w"] assms(2,4) by blast
  then have "deps_ready w t" using assms(6) by (auto simp: deps_ready_iff dest: finished_completed)
  moreover have "\<not> step_completed w (ws_Name t)" using t(2) completed_step_finished by blast
  ultimately show ?thesis
    using t(1,2) assms(5,7) by (auto simp: findExecutableSteps_def step_active_def filter_empty_conv)
qed

text \<open>C29: A run of an admitted workflow is never stuck: while a step has not finished, nothing runs and no
  job exists, some step can be started, unless a step failed under a strategy that does not go on.\<close>

theorem admitted_never_stuck:
  assumes "is_allowed (handle_workflow order client ns (Inr v))" "\<And>xs. mset (order xs) = mset xs"
    and "wf_Steps w = wf_Steps v" "s \<in> set (wf_Steps w)" "\<not> step_finished w (ws_Name s)"
    and "\<And>n. \<not> has_phase [''Running''] w n"
    and "wf_Strategy w = ''continueOnError'' \<or> (\<forall>n. \<not> has_phase [''Failed''] w n)"
  shows "findExecutableSteps w [] \<noteq> []"
proof -
  have "well_formed client ns v" using assms(1) handle_workflow_allowed structure_iff [OF assms(2)] by blast
  then show ?thesis
    using assms(3-7) by (intro some_step_ready [of w s]) (auto simp: well_formed_def Let_def)
qed

lemma admitted_never_stuck_witness:
  "findExecutableSteps (plain_workflow fan_steps [step_in ''a'' ''Succeeded'']) [] \<noteq> []"
proof -
  let ?w = "plain_workflow fan_steps [step_in ''a'' ''Succeeded'']"
  have "is_allowed (handle_workflow rev None ''team'' (Inr (plain_workflow fan_steps [])))" by code_simp
  moreover have "\<not> step_finished ?w ''b''" by code_simp
  ultimately show ?thesis
    using admitted_never_stuck [of rev None "''team''" "plain_workflow fan_steps []" ?w "plain_step ''b'' [''a'']"]
    by (simp add: plain_workflow_def plain_spec_def plain_step_def has_phase_def step_in_def zero_step_status_def)
qed

section \<open>Accepted agents\<close>

lemma accepted_agent_checks:
  assumes "is_allowed (handle_agent client ns (Inr agent))"
  shows "check_model (as_Model (ag_Spec agent)) = None" "as_Type (ag_Spec agent) \<in> set validTypes"
    "check_tools (as_Tools (ag_Spec agent)) = None" "check_replicas (ag_Spec agent) = None"
    "check_retriever (ag_Spec agent) = None"
    "\<And>m. as_Memory (ag_Spec agent) = Some m \<Longrightarrow> check_memory client agent m = None"
  using assms by (auto simp: handle_agent_def Let_def split: option.splits)

text \<open>The agents that pass admission keep within the bounds the controllers rely on: the token limit and the
  temperature lie in their ranges, tool names are unique, a monitor has at most one replica; and an agent
  whose memory scope is the group has a group, so that its pool is the group's and not its own.\<close>

theorem admitted_agent_bounded:
  assumes "is_allowed (handle_agent client ns (Inr agent))"
  shows "(\<forall>n. mo_MaxTokens (as_Model (ag_Spec agent)) = Some n \<longrightarrow> 1 \<le> n \<and> n \<le> 2000000) \<and>
    (\<forall>t. mo_Temperature (as_Model (ag_Spec agent)) = Some t \<longrightarrow> \<not> f64_lt t (Fin 0) \<and> \<not> f64_lt (Fin 2) t) \<and>
    distinct (map to_Name (as_Tools (ag_Spec agent))) \<and>
    (as_Type (ag_Spec agent) = ''monitor'' \<longrightarrow> (\<forall>n. as_Replicas (ag_Spec agent) = Some n \<longrightarrow> n \<le> 1)) \<and>
    agent_scope agent \<in> {''agent'', ''group'', ''namespace''} \<and>
    (agent_scope agent = ''group'' \<longrightarrow>
       (\<exists>g. g \<noteq> [] \<and> memoryScopeKey agent w = wf_Namespace w @ ''/group/'' @ g))"
proof -
  note checks = accepted_agent_checks [OF assms]
  have "(\<forall>n. mo_MaxTokens (as_Model (ag_Spec agent)) = Some n \<longrightarrow> 1 \<le> n \<and> n \<le> 2000000) \<and>
    (\<forall>t. mo_Temperature (as_Model (ag_Spec agent)) = Some t \<longrightarrow> \<not> f64_lt t (Fin 0) \<and> \<not> f64_lt (Fin 2) t)"
    using checks(1) by (auto simp: check_model_def)
  moreover have "distinct (map to_Name (as_Tools (ag_Spec agent)))"
    using checks(3) by (simp add: check_tools_def first_dup_None)
  moreover have "as_Type (ag_Spec agent) = ''monitor'' \<longrightarrow> (\<forall>n. as_Replicas (ag_Spec agent) = Some n \<longrightarrow> n \<le> 1)"
    using checks(4) by (auto simp: check_replicas_def)
  moreover have "agent_scope agent \<in> {''agent'', ''group'', ''namespace''} \<and>
      (agent_scope agent = ''group'' \<longrightarrow> get_str (om_Labels (ag_Meta agent)) component_label \<noteq> [])"
  proof (cases "as_Memory (ag_Spec agent)")
    case (Some m)
    with checks(6) [OF Some] show ?thesis by (auto simp: check_memory_def agent_scope_def)
  qed (simp add: agent_scope_def)
  ultimately show ?thesis by (auto simp: memoryScopeKey_def Let_def)
qed

definition group_agent :: Agent where
  "group_agent = plain_agent\<lparr>ag_Meta := (named_meta ''scout'')\<lparr>om_Labels := [component_label \<mapsto> ''red'']\<rparr>,
     ag_Spec := (ag_Spec plain_agent)\<lparr>as_Memory := Some
       \<lparr>ms_Type = [], ms_Behavior = ''persistent'', ms_ProviderRef = [], ms_Scope = ''group'', ms_Backend = [],
        ms_TTL = [], ms_MaxEntries = Some 100, ms_MaxContextTokens = None, ms_RetentionPolicy = [],
        ms_PersistentStorage = None\<rparr>\<rparr>\<rparr>"

lemma admitted_agent_bounded_witness:
  "\<exists>g. g \<noteq> [] \<and> memoryScopeKey group_agent (plain_workflow [] []) = ''team/group/'' @ g"
proof -
  have "is_allowed (handle_agent None ''team'' (Inr group_agent))" "agent_scope group_agent = ''group''" by code_simp+
  then show ?thesis
    using admitted_agent_bounded [of None "''team''" group_agent "plain_workflow [] []"]
    by (auto simp: plain_workflow_def named_meta_def)
qed

section \<open>What admission lets through\<close>

text \<open>
  An agent of type \<open>retriever\<close> must have a memory that can retrieve, but a legacy type is enough even when
  the behaviour, which wins at run time, switches memory off.
\<close>

lemma retriever_without_memory:
  "check_retriever (ag_Spec agent) = None \<and> memoryBehavior agent = ''off''"
  if "as_Memory (ag_Spec agent) = Some m" "ms_Type m = ''vector''" "ms_Behavior m = ''off''"
  using that by (simp add: check_retriever_def memoryBehavior_def)

text \<open>
  The warning WF-006 answers at once: a workflow with a step that waits longer than the workflow is
  admitted whatever its failure strategy and conditions are.
\<close>

lemma warning_skips_checks:
  "timeout_warning w \<noteq> None \<Longrightarrow> check_structure order client ns w = None \<Longrightarrow>
     is_allowed (handle_workflow order client ns (Inr w))"
  by (simp add: handle_workflow_allowed)

end
