(* ===== verification/Registry.thy ===== *)
theory Registry imports Kube begin

text \<open>
  The registry of MCP servers (\<^verbatim>\<open>pkg/registry/registry.go\<close>): it reads the servers from a ConfigMap, asks
  each one for its tools over HTTP, and hands the list to the executors.  HTTP, YAML and the API server
  are arguments; the JSON-RPC exchange, the two transports and the state are the code's.
\<close>

section \<open>Surroundings\<close>

record MCPServerInfo =
  mi_Name :: string
  mi_URL :: string
  mi_Auth :: string
  mi_SecretRef :: string
  mi_Icon :: string
  mi_Category :: string
  mi_Tools :: "string list"
  mi_Status :: string
  mi_ToolCount :: int

record ToolInfo =
  ti_Name :: string
  ti_Description :: string
  ti_Server :: string
  ti_Category :: string

record http_request =
  rq_Method :: string
  rq_URL :: string
  rq_Headers :: str_alist
  rq_Body :: string

record http_response =
  rsp_StatusCode :: int
  rsp_Header :: "string \<Rightarrow> string"
  rsp_Body :: string \<comment> \<open>what \<open>io.ReadAll\<close> returns\<close>
  rsp_ReadError :: "string option"

text \<open>
  The network keeps a state of any type: an answer may depend on the requests before.  The YAML decoder
  and the texts of the errors of other packages are fields too.
\<close>

record 'h net =
  nt_new :: "string \<Rightarrow> string \<Rightarrow> string option" \<comment> \<open>the error of \<open>http.NewRequest\<close>\<close>
  nt_do :: "http_request \<Rightarrow> 'h \<Rightarrow> (string + http_response) \<times> 'h"
  nt_config :: "'h \<Rightarrow> str_map option" \<comment> \<open>the data of the ConfigMap, when it can be read\<close>
  nt_secret :: "'h \<Rightarrow> string \<Rightarrow> str_map option"
  nt_yaml :: "string \<Rightarrow> string + MCPServerInfo list"
  nt_json_error :: "string \<Rightarrow> string"
  nt_metrics :: bool \<comment> \<open>is \<open>OnMetrics\<close> set\<close>

section \<open>Addresses\<close>

definition replaceIP :: "string \<Rightarrow> string" where
  "replaceIP url = replace_all (Lit ''127.0.0.1'') (\<lambda>_. ''localhost'') url"

definition streamableEndpoint :: "string \<Rightarrow> string" where
  "streamableEndpoint serverURL =
     (let u = TrimRight serverURL ''/'' in if HasSuffix u ''/mcp'' then u else u @ ''/mcp'')"

definition sseEndpoint :: "string \<Rightarrow> string" where
  "sseEndpoint serverURL =
     (let u = TrimRight serverURL ''/'' in
      if HasSuffix u ''/sse'' then u else TrimSuffix u ''/mcp'' @ ''/sse'')"

definition splitLines :: "string \<Rightarrow> string list" where
  "splitLines s = (let ls = split_char CHR 0x0A s in if last ls = [] then butlast ls else ls)"

section \<open>Requests\<close>

text \<open>A request gives the session the server names, and its answer or an error.\<close>

definition sse_data :: "string \<Rightarrow> string option" where
  "sse_data body =
     map_option (drop 6) (find (\<lambda>l. 6 < length l \<and> take 6 l = ''data: '') (splitLines body))"

definition mcpRequest :: "'h net \<Rightarrow> string \<Rightarrow> string \<Rightarrow> str_alist \<Rightarrow> 'h \<Rightarrow> (string \<times> (string + string)) \<times> 'h" where
  "mcpRequest n endpoint body headers h =
     (case nt_new n ''POST'' endpoint of
        Some e \<Rightarrow> (([], Inl e), h)
      | None \<Rightarrow>
          (case nt_do n \<lparr>rq_Method = ''POST'', rq_URL = endpoint, rq_Headers = headers, rq_Body = body\<rparr> h of
             (Inl e, h1) \<Rightarrow> (([], Inl e), h1)
           | (Inr r, h1) \<Rightarrow>
               ((rsp_Header r ''mcp-session-id'',
                 if rsp_StatusCode r \<noteq> 200 then Inl (''status '' @ show_int (rsp_StatusCode r))
                 else if Contains (rsp_Header r ''Content-Type'') ''application/json''
                 then (case rsp_ReadError r of Some e \<Rightarrow> Inl e | None \<Rightarrow> Inr (rsp_Body r))
                 else (case sse_data (rsp_Body r) of
                         Some d \<Rightarrow> Inr d | None \<Rightarrow> Inl ''no data in SSE response'')), h1)))"

text \<open>The payloads, with the keys of the maps in the order \<^verbatim>\<open>json.Marshal\<close> gives them.\<close>

definition init_payload :: "string \<Rightarrow> string" where
  "init_payload client =
     json_struct [Some (''id'', ''1''), Some (''jsonrpc'', marshal_string ''2.0''),
       Some (''method'', marshal_string ''initialize''),
       Some (''params'', json_struct [Some (''capabilities'', ''{}''),
         Some (''clientInfo'', json_struct [Some (''name'', marshal_string client), Some (''version'', marshal_string ''1.0'')]),
         Some (''protocolVersion'', marshal_string ''2025-03-26'')])]"

definition list_payload :: string where
  "list_payload =
     json_struct [Some (''id'', ''2''), Some (''jsonrpc'', marshal_string ''2.0''),
       Some (''method'', marshal_string ''tools/list''), Some (''params'', ''{}'')]"

definition auth_header :: "string \<Rightarrow> str_alist" where
  "auth_header token = (if token = [] then [] else [(''Authorization'', ''Bearer '' @ token)])"

definition post_headers :: "string \<Rightarrow> str_alist" where
  "post_headers token =
     [(''Content-Type'', ''application/json''), (''Accept'', ''application/json, text/event-stream'')] @ auth_header token"

section \<open>Decoding the tools\<close>

definition decode_tool :: "jtree \<Rightarrow> ToolInfo option" where
  "decode_tool v =
     (case (case v of TObj ms \<Rightarrow> Some ms | TNull \<Rightarrow> Some [] | _ \<Rightarrow> None) of
        None \<Rightarrow> None
      | Some ms \<Rightarrow>
          (case (field_str ''name'' ms, field_str ''description'' ms) of
             (Some a, Some b) \<Rightarrow> Some \<lparr>ti_Name = a, ti_Description = b, ti_Server = [], ti_Category = []\<rparr>
           | _ \<Rightarrow> None))"

definition decode_result :: "jtree \<Rightarrow> ToolInfo list option" where
  "decode_result v =
     (case v of
        TObj ms \<Rightarrow>
          (case struct_field ''tools'' ms of
             None \<Rightarrow> Some []
           | Some (TArr vs) \<Rightarrow> those (map (\<lambda>(_, t). decode_tool t) vs)
           | _ \<Rightarrow> None)
      | _ \<Rightarrow> None)"

definition decode_tools :: "string \<Rightarrow> ToolInfo list option" where
  "decode_tools body =
     (case parse_json body of
        Some (TObj ms) \<Rightarrow> (case struct_field ''result'' ms of None \<Rightarrow> Some [] | Some v \<Rightarrow> decode_result v)
      | Some TNull \<Rightarrow> Some []
      | _ \<Rightarrow> None)"

section \<open>Discovery\<close>

definition discoverViaStreamableHTTP :: "'h net \<Rightarrow> string \<Rightarrow> string \<Rightarrow> 'h \<Rightarrow> (string + ToolInfo list) \<times> 'h" where
  "discoverViaStreamableHTTP n serverURL token h =
     (let endpoint = streamableEndpoint serverURL; headers = post_headers token;
          ((sessionID, r1), h1) = mcpRequest n endpoint (init_payload ''agentic-registry'') headers h
      in case r1 of
           Inl e \<Rightarrow> (Inl (''initialize: '' @ e), h1)
         | Inr _ \<Rightarrow>
             (let headers2 = headers @ (if sessionID \<noteq> [] then [(''mcp-session-id'', sessionID)] else []);
                  ((_, r2), h2) = mcpRequest n endpoint list_payload headers2 h1
              in (case r2 of
                    Inl e \<Rightarrow> Inl (''tools/list: '' @ e)
                  | Inr d \<Rightarrow>
                      (case decode_tools d of
                         None \<Rightarrow> Inl (''parse tools: '' @ nt_json_error n d)
                       | Some ts \<Rightarrow> Inr ts), h2)))"

text \<open>The first data line that names the messages address; a relative one is appended to the server's.\<close>

definition messages_url :: "string \<Rightarrow> string \<Rightarrow> string option" where
  "messages_url serverURL stream =
     (case find (\<lambda>d. Contains d ''/messages'')
             (map (\<lambda>l. TrimSpace (TrimPrefix l ''data: '')) (filter (\<lambda>l. HasPrefix l ''data: '') (splitLines stream))) of
        None \<Rightarrow> None
      | Some u \<Rightarrow> Some (if HasPrefix u ''/'' then serverURL @ u else u))"

definition sse_exchange :: "'h net \<Rightarrow> string \<Rightarrow> string \<Rightarrow> 'h \<Rightarrow> (string + ToolInfo list) \<times> 'h" where
  "sse_exchange n messagesURL token h =
     (let ((_, r1), h1) = mcpRequest n messagesURL (init_payload ''purko-registry'') (post_headers token) h
      in case r1 of
           Inl e \<Rightarrow> (Inl (''SSE initialize: '' @ e), h1)
         | Inr _ \<Rightarrow>
             (let ((_, r2), h2) = mcpRequest n messagesURL list_payload (post_headers token) h1
              in (case r2 of
                    Inl e \<Rightarrow> Inl (''SSE tools/list: '' @ e)
                  | Inr d \<Rightarrow>
                      (case decode_tools d of
                         None \<Rightarrow> Inl (''parse SSE tools: '' @ nt_json_error n d)
                       | Some ts \<Rightarrow> Inr ts), h2)))"

definition discoverViaSSE :: "'h net \<Rightarrow> string \<Rightarrow> string \<Rightarrow> 'h \<Rightarrow> (string + ToolInfo list) \<times> 'h" where
  "discoverViaSSE n serverURL token h =
     (let sseURL = sseEndpoint serverURL in
      case nt_new n ''GET'' sseURL of
        Some e \<Rightarrow> (Inl e, h)
      | None \<Rightarrow>
          (case nt_do n \<lparr>rq_Method = ''GET'', rq_URL = sseURL,
                  rq_Headers = (''Accept'', ''text/event-stream'') # auth_header token, rq_Body = []\<rparr> h of
             (Inl e, h1) \<Rightarrow> (Inl (''SSE connect: '' @ e), h1)
           | (Inr r, h1) \<Rightarrow>
               if rsp_StatusCode r \<noteq> 200 then (Inl (''SSE status '' @ show_int (rsp_StatusCode r)), h1)
               else (case messages_url serverURL (rsp_Body r) of
                       None \<Rightarrow> (Inl ''no messages URL in SSE stream'', h1)
                     | Some u \<Rightarrow> sse_exchange n u token h1)))"

definition discoverMCPTools :: "'h net \<Rightarrow> string \<Rightarrow> string \<Rightarrow> 'h \<Rightarrow> (string + ToolInfo list) \<times> 'h" where
  "discoverMCPTools n url token h =
     (let serverURL = replaceIP url; (r1, h1) = discoverViaStreamableHTTP n serverURL token h in
      case r1 of
        Inr ts \<Rightarrow> (Inr ts, h1)
      | Inl e1 \<Rightarrow>
          (let (r2, h2) = discoverViaSSE n serverURL token h1 in
           (case r2 of
              Inr ts \<Rightarrow> Inr ts
            | Inl e2 \<Rightarrow> Inl (''streamable-http: '' @ e1 @ ''; sse: '' @ e2), h2)))"

section \<open>The registry\<close>

record registry =
  rg_servers :: "MCPServerInfo list"
  rg_tools :: "ToolInfo list"
  rg_lastSync :: time
  rg_reported :: "(string \<times> string \<times> string \<times> int) list" \<comment> \<open>the calls of \<open>OnMetrics\<close>\<close>

definition resolveSecret :: "'h net \<Rightarrow> 'h \<Rightarrow> string \<Rightarrow> string" where
  "resolveSecret n h name = (case nt_secret n h name of None \<Rightarrow> [] | Some d \<Rightarrow> get_str d ''token'')"

definition server_token :: "'h net \<Rightarrow> 'h \<Rightarrow> MCPServerInfo \<Rightarrow> string" where
  "server_token n h srv =
     (if mi_Auth srv = ''bearer'' \<and> mi_SecretRef srv \<noteq> [] then resolveSecret n h (mi_SecretRef srv) else [])"

definition sync_server :: "'h net \<Rightarrow> MCPServerInfo \<Rightarrow> 'h \<Rightarrow> MCPServerInfo \<times> ToolInfo list \<times> 'h" where
  "sync_server n srv h =
     (let (r, h1) = discoverMCPTools n (mi_URL srv) (server_token n h srv) h in
      case r of
        Inl _ \<Rightarrow> (srv\<lparr>mi_Status := ''error'', mi_Tools := [], mi_ToolCount := 0\<rparr>, [], h1)
      | Inr tools \<Rightarrow>
          (srv\<lparr>mi_Status := ''connected'', mi_Tools := map ti_Name tools, mi_ToolCount := int (length tools)\<rparr>,
           map (\<lambda>t. t\<lparr>ti_Server := mi_Name srv, ti_Category := mi_Category srv\<rparr>) tools, h1))"

fun sync_servers :: "'h net \<Rightarrow> MCPServerInfo list \<Rightarrow> 'h \<Rightarrow> MCPServerInfo list \<times> ToolInfo list \<times> 'h" where
  "sync_servers n [] h = ([], [], h)"
| "sync_servers n (srv # srvs) h =
     (let (s, ts, h1) = sync_server n srv h; (ss, tss, h2) = sync_servers n srvs h1 in (s # ss, ts @ tss, h2))"

definition Sync :: "'h net \<Rightarrow> time \<Rightarrow> registry \<Rightarrow> 'h \<Rightarrow> string option \<times> registry \<times> 'h" where
  "Sync n now r h =
     (case nt_config n h of
        None \<Rightarrow> (None, r\<lparr>rg_servers := [], rg_tools := [], rg_lastSync := now\<rparr>, h)
      | Some d \<Rightarrow>
          (case d ''servers'' of
             None \<Rightarrow> (Some (''mcp-servers ConfigMap missing '' @ [CHR 0x27] @ ''servers'' @ [CHR 0x27] @ '' key''), r, h)
           | Some text \<Rightarrow>
               (case nt_yaml n text of
                  Inl e \<Rightarrow> (Some (''parse mcp-servers: '' @ e), r, h)
                | Inr configs \<Rightarrow>
                    (let (servers, tools, h1) = sync_servers n configs h;
                         reported = (if nt_metrics n
                           then map (\<lambda>s. (mi_Name s, mi_Category s, mi_Status s, mi_ToolCount s)) servers else [])
                     in (None, \<lparr>rg_servers = servers, rg_tools = tools, rg_lastSync = now,
                                rg_reported = rg_reported r @ reported\<rparr>, h1)))))"

definition SyncIfStale :: "'h net \<Rightarrow> time \<Rightarrow> registry \<Rightarrow> 'h \<Rightarrow> registry \<times> 'h" where
  "SyncIfStale n now r h = (if 60 * second < now - rg_lastSync r then snd (Sync n now r h) else (r, h))"

definition GetServers :: "registry \<Rightarrow> MCPServerInfo list" where
  "GetServers r = rg_servers r"

definition GetAllTools :: "registry \<Rightarrow> ToolInfo list" where
  "GetAllTools r = rg_tools r"

definition server_entry :: "'h net \<Rightarrow> 'h \<Rightarrow> MCPServerInfo \<Rightarrow> string" where
  "server_entry n h srv =
     json_struct [Some (''name'', marshal_string (mi_Name srv)), Some (''url'', marshal_string (mi_URL srv)),
       Some (''auth'', marshal_string (mi_Auth srv)), omit_str ''token'' (server_token n h srv)]"

definition GetServersJSON :: "'h net \<Rightarrow> 'h \<Rightarrow> registry \<Rightarrow> string" where
  "GetServersJSON n h r = ''['' @ join '','' (map (server_entry n h) (rg_servers r)) @ '']''"

section \<open>What a sync leaves in the registry\<close>

text \<open>A server reports as many tools as it has, an unreachable one none, and the list of all tools is the
  servers' lists one after the other, each tool under its server.\<close>

definition server_ok :: "MCPServerInfo \<Rightarrow> bool" where
  "server_ok srv \<longleftrightarrow>
     mi_Status srv \<in> {''connected'', ''error''} \<and> mi_ToolCount srv = int (length (mi_Tools srv)) \<and>
     (mi_Status srv = ''error'' \<longrightarrow> mi_Tools srv = [])"

definition registry_ok :: "registry \<Rightarrow> bool" where
  "registry_ok r \<longleftrightarrow> list_all server_ok (rg_servers r) \<and>
     map (\<lambda>t. (ti_Server t, ti_Category t, ti_Name t)) (rg_tools r) =
       concat (map (\<lambda>s. map (\<lambda>t. (mi_Name s, mi_Category s, t)) (mi_Tools s)) (rg_servers r))"

lemma sync_server_ok:
  "sync_server n srv h = (s, ts, h1) \<Longrightarrow>
     server_ok s \<and> mi_Name s = mi_Name srv \<and> mi_URL s = mi_URL srv \<and>
     map (\<lambda>t. (ti_Server t, ti_Category t, ti_Name t)) ts = map (\<lambda>t. (mi_Name s, mi_Category s, t)) (mi_Tools s)"
  by (auto simp: sync_server_def server_ok_def Let_def split: prod.splits sum.splits)

lemma sync_servers_ok:
  "sync_servers n srvs h = (ss, ts, h1) \<Longrightarrow>
     list_all server_ok ss \<and> map mi_Name ss = map mi_Name srvs \<and>
     map (\<lambda>t. (ti_Server t, ti_Category t, ti_Name t)) ts =
       concat (map (\<lambda>s. map (\<lambda>t. (mi_Name s, mi_Category s, t)) (mi_Tools s)) ss)"
proof (induction srvs arbitrary: h ss ts h1)
  case (Cons srv srvs)
  obtain s t h2 where 1: "sync_server n srv h = (s, t, h2)" by (metis prod_cases3)
  obtain ss' ts' h3 where 2: "sync_servers n srvs h2 = (ss', ts', h3)" by (metis prod_cases3)
  from Cons.prems 1 2 have "ss = s # ss'" "ts = t @ ts'" by (auto simp: Let_def)
  with sync_server_ok [OF 1] Cons.IH [OF 2] show ?case by simp
qed simp

text \<open>
  A server that speaks the streamable transport answers every request to its endpoint with readable JSON, and
  the tools request with a list that decodes to its tools.  A server is down when no request to either of its
  endpoints gets a response.
\<close>

definition serves :: "'h net \<Rightarrow> MCPServerInfo \<Rightarrow> ToolInfo list \<Rightarrow> bool" where
  "serves n srv tools \<longleftrightarrow>
     (let endpoint = streamableEndpoint (replaceIP (mi_URL srv)) in
      nt_new n ''POST'' endpoint = None \<and>
      (\<forall>rq h. rq_Method rq = ''POST'' \<longrightarrow> rq_URL rq = endpoint \<longrightarrow>
         (\<exists>r h'. nt_do n rq h = (Inr r, h') \<and> rsp_StatusCode r = 200 \<and> rsp_ReadError r = None \<and>
            Contains (rsp_Header r ''Content-Type'') ''application/json'' \<and>
            (rq_Body rq = list_payload \<longrightarrow> decode_tools (rsp_Body r) = Some tools))))"

definition down :: "'h net \<Rightarrow> MCPServerInfo \<Rightarrow> bool" where
  "down n srv \<longleftrightarrow>
     (let u = replaceIP (mi_URL srv) in
      \<forall>rq h. rq_URL rq \<in> {streamableEndpoint u, sseEndpoint u} \<longrightarrow> (\<exists>e h'. nt_do n rq h = (Inl e, h')))"

lemma mcpRequest_json:
  assumes "nt_new n ''POST'' u = None"
    "nt_do n \<lparr>rq_Method = ''POST'', rq_URL = u, rq_Headers = headers, rq_Body = body\<rparr> h = (Inr r, h1)"
    "rsp_StatusCode r = 200" "Contains (rsp_Header r ''Content-Type'') ''application/json''" "rsp_ReadError r = None"
  shows "mcpRequest n u body headers h = ((rsp_Header r ''mcp-session-id'', Inr (rsp_Body r)), h1)"
  using assms by (simp add: mcpRequest_def)

lemma serves_request:
  assumes "serves n srv tools"
  shows "\<exists>sid d h1. mcpRequest n (streamableEndpoint (replaceIP (mi_URL srv))) body headers h = ((sid, Inr d), h1) \<and>
    (body = list_payload \<longrightarrow> decode_tools d = Some tools)"
proof -
  let ?u = "streamableEndpoint (replaceIP (mi_URL srv))"
  let ?rq = "\<lparr>rq_Method = ''POST'', rq_URL = ?u, rq_Headers = headers, rq_Body = body\<rparr>"
  have new: "nt_new n ''POST'' ?u = None" using assms by (simp add: serves_def Let_def)
  obtain r h1 where r: "nt_do n ?rq h = (Inr r, h1)" "rsp_StatusCode r = 200" "rsp_ReadError r = None"
      "Contains (rsp_Header r ''Content-Type'') ''application/json''"
      "rq_Body ?rq = list_payload \<longrightarrow> decode_tools (rsp_Body r) = Some tools"
    using assms unfolding serves_def Let_def
    by (metis http_request.select_convs(1) http_request.select_convs(2))
  from mcpRequest_json [OF new r(1,2,4,3)] r(5) show ?thesis by simp
qed

lemma discover_serves:
  assumes "serves n srv tools"
  shows "fst (discoverMCPTools n (mi_URL srv) token h) = Inr tools"
proof -
  let ?u = "streamableEndpoint (replaceIP (mi_URL srv))"
  obtain sid d h1 where 1: "mcpRequest n ?u (init_payload ''agentic-registry'') (post_headers token) h = ((sid, Inr d), h1)"
    using serves_request [OF assms] by blast
  obtain sid2 d2 h2 where 2: "mcpRequest n ?u list_payload
      (post_headers token @ (if sid \<noteq> [] then [(''mcp-session-id'', sid)] else [])) h1 = ((sid2, Inr d2), h2)"
      "decode_tools d2 = Some tools"
    using serves_request [OF assms] by blast
  from 1 2 show ?thesis by (simp add: discoverMCPTools_def discoverViaStreamableHTTP_def Let_def)
qed

lemma down_request:
  assumes "\<And>rq h. rq_URL rq = u \<Longrightarrow> \<exists>e h'. nt_do n rq h = (Inl e, h')"
  shows "\<exists>e h1. mcpRequest n u body headers h = (([], Inl e), h1)"
proof (cases "nt_new n ''POST'' u")
  case None
  obtain e h1 where "nt_do n \<lparr>rq_Method = ''POST'', rq_URL = u, rq_Headers = headers, rq_Body = body\<rparr> h = (Inl e, h1)"
    using assms by (metis http_request.select_convs(2))
  with None show ?thesis by (simp add: mcpRequest_def)
qed (simp add: mcpRequest_def)

lemma down_sse:
  assumes "\<And>rq h. rq_URL rq = sseEndpoint u \<Longrightarrow> \<exists>e h'. nt_do n rq h = (Inl e, h')"
  shows "\<exists>e h1. discoverViaSSE n u token h = (Inl e, h1)"
proof (cases "nt_new n ''GET'' (sseEndpoint u)")
  case None
  obtain e h1 where "nt_do n \<lparr>rq_Method = ''GET'', rq_URL = sseEndpoint u,
      rq_Headers = (''Accept'', ''text/event-stream'') # auth_header token, rq_Body = []\<rparr> h = (Inl e, h1)"
    using assms by (metis http_request.select_convs(2))
  with None show ?thesis by (simp add: discoverViaSSE_def Let_def)
qed (simp add: discoverViaSSE_def Let_def)

lemma discover_down:
  assumes "down n srv"
  shows "\<exists>e. fst (discoverMCPTools n (mi_URL srv) token h) = Inl e"
proof -
  let ?u = "replaceIP (mi_URL srv)"
  have unreached: "\<exists>e h'. nt_do n rq h = (Inl e, h')" if "rq_URL rq \<in> {streamableEndpoint ?u, sseEndpoint ?u}" for rq h
    using assms that unfolding down_def Let_def by blast
  obtain e1 h1 where 1: "mcpRequest n (streamableEndpoint ?u) (init_payload ''agentic-registry'') (post_headers token) h =
      (([], Inl e1), h1)"
    using down_request [of "streamableEndpoint ?u" n] unreached by blast
  obtain e2 h2 where 2: "discoverViaSSE n ?u token h1 = (Inl e2, h2)"
    using down_sse [of ?u n] unreached by blast
  from 1 2 show ?thesis by (simp add: discoverMCPTools_def discoverViaStreamableHTTP_def Let_def)
qed

text \<open>What a sync has for a server, by the outcome of its discovery, and its part of the list of tools.\<close>

fun listed_as :: "string + ToolInfo list \<Rightarrow> MCPServerInfo \<Rightarrow> MCPServerInfo" where
  "listed_as (Inr tools) srv =
     srv\<lparr>mi_Status := ''connected'', mi_Tools := map ti_Name tools, mi_ToolCount := int (length tools)\<rparr>"
| "listed_as (Inl _) srv = srv\<lparr>mi_Status := ''error'', mi_Tools := [], mi_ToolCount := 0\<rparr>"

fun offered_by :: "string + ToolInfo list \<Rightarrow> MCPServerInfo \<Rightarrow> ToolInfo list" where
  "offered_by (Inr tools) srv = map (\<lambda>t. t\<lparr>ti_Server := mi_Name srv, ti_Category := mi_Category srv\<rparr>) tools"
| "offered_by (Inl _) srv = []"

lemma sync_server_outcome:
  "sync_server n srv h = (let (res, h1) = discoverMCPTools n (mi_URL srv) (server_token n h srv) h
     in (listed_as res srv, offered_by res srv, h1))"
  by (auto simp: sync_server_def Let_def split: prod.split sum.split)

text \<open>The servers are asked one after the other, each in the state of the network the one before has left.\<close>

inductive asked :: "'h net \<Rightarrow> MCPServerInfo list \<Rightarrow> 'h \<Rightarrow> (string + ToolInfo list) list \<Rightarrow> 'h \<Rightarrow> bool"
  for n :: "'h net" where
  "asked n [] h [] h"
| "discoverMCPTools n (mi_URL srv) (server_token n h srv) h = (res, h1) \<Longrightarrow> asked n srvs h1 ress h2 \<Longrightarrow>
   asked n (srv # srvs) h (res # ress) h2"

lemma sync_servers_asked:
  "sync_servers n srvs h = (ss, ts, h1) \<Longrightarrow>
     \<exists>ress. asked n srvs h ress h1 \<and> ss = map2 listed_as ress srvs \<and> ts = concat (map2 offered_by ress srvs)"
proof (induction srvs arbitrary: h ss ts h1)
  case Nil
  then show ?case by (auto intro: asked.intros)
next
  case (Cons srv srvs)
  obtain res h2 where d: "discoverMCPTools n (mi_URL srv) (server_token n h srv) h = (res, h2)" by fastforce
  obtain ss' ts' h3 where 2: "sync_servers n srvs h2 = (ss', ts', h3)" by (metis prod_cases3)
  from Cons.IH [OF 2] obtain ress where
    "asked n srvs h2 ress h3" "ss' = map2 listed_as ress srvs" "ts' = concat (map2 offered_by ress srvs)" by blast
  moreover have "ss = listed_as res srv # ss'" "ts = offered_by res srv @ ts'" "h1 = h3"
    using Cons.prems d 2 by (simp_all add: sync_server_outcome Let_def)
  ultimately show ?case using d by (intro exI [of _ "res # ress"]) (simp add: asked.intros)
qed

lemma asked_outcomes:
  assumes "asked n srvs h ress h1"
  shows "length ress = length srvs \<and> (\<forall>i < length srvs. \<forall>tools.
    (serves n (srvs ! i) tools \<longrightarrow> ress ! i = Inr tools) \<and> (down n (srvs ! i) \<longrightarrow> (\<exists>e. ress ! i = Inl e)))"
  using assms
proof induction
  case (2 srv h res h1 srvs ress h2)
  have "(serves n srv tools \<longrightarrow> res = Inr tools) \<and> (down n srv \<longrightarrow> (\<exists>e. res = Inl e))" for tools
    using discover_serves [of n srv tools] discover_down [of n srv] 2(1) by (metis fst_conv)
  with 2(3) show ?case by (auto simp: less_Suc_eq_0_disj)
qed simp

text \<open>C34: A sync empties the registry when the ConfigMap cannot be read; it fails and leaves the registry as
  it was when the ConfigMap has no servers or they do not parse.  Otherwise it succeeds and asks the
  configured servers one after the other: each is listed in its place, connected with exactly the names of
  the tools its discovery gave, or in error with no tools when the discovery failed, and the list of tools is
  theirs one after the other, each tool under its server and category.  The discovery of a server that
  answers every request to its streamable endpoint with readable JSON gives the tools its answer decodes to;
  that of a server from which neither of its endpoints gets a response fails.  So the registry stays
  consistent: tool counts are right and servers in error have no tools.\<close>

theorem sync_consistent:
  assumes "Sync n now r h = (err, r', h')" "registry_ok r"
  shows "registry_ok r' \<and>
    (case nt_config n h of
       None \<Rightarrow> err = None \<and> GetServers r' = [] \<and> GetAllTools r' = []
     | Some d \<Rightarrow>
        (case map_option (nt_yaml n) (d ''servers'') of
           Some (Inr cs) \<Rightarrow> err = None \<and> rg_lastSync r' = now \<and>
             (\<exists>ress. asked n cs h ress h' \<and> length ress = length cs \<and>
                GetServers r' = map2 listed_as ress cs \<and> GetAllTools r' = concat (map2 offered_by ress cs)) \<and>
             (\<forall>i < length cs. \<forall>tools.
                (serves n (cs ! i) tools \<longrightarrow> GetServers r' ! i = listed_as (Inr tools) (cs ! i)) \<and>
                (down n (cs ! i) \<longrightarrow>
                   mi_Status (GetServers r' ! i) = ''error'' \<and> mi_Tools (GetServers r' ! i) = []))
         | _ \<Rightarrow> err \<noteq> None \<and> r' = r))"
proof (cases "nt_config n h")
  case None
  with assms show ?thesis by (auto simp: Sync_def registry_ok_def GetServers_def GetAllTools_def)
next
  case (Some d)
  consider (bad) "\<nexists>yml cs. d ''servers'' = Some yml \<and> nt_yaml n yml = Inr cs"
    | (good) yml cs where "d ''servers'' = Some yml" "nt_yaml n yml = Inr cs" by blast
  then show ?thesis
  proof cases
    case bad
    with assms Some show ?thesis by (auto simp: Sync_def split: option.splits sum.splits)
  next
    case good
    obtain ss ts h1 where y: "sync_servers n cs h = (ss, ts, h1)" by (metis prod_cases3)
    with assms(1) Some good have r': "err = None" "rg_servers r' = ss" "rg_tools r' = ts" "rg_lastSync r' = now" "h' = h1"
      by (auto simp: Sync_def Let_def)
    from sync_servers_asked [OF y] obtain ress where
      asked: "asked n cs h ress h1" "ss = map2 listed_as ress cs" "ts = concat (map2 offered_by ress cs)" by blast
    note out = asked_outcomes [OF asked(1)]
    have nth: "ss ! i = listed_as (ress ! i) (cs ! i)" if "i < length cs" for i
      using that asked(2) out by simp
    have "(serves n (cs ! i) tools \<longrightarrow> ss ! i = listed_as (Inr tools) (cs ! i)) \<and>
        (down n (cs ! i) \<longrightarrow> mi_Status (ss ! i) = ''error'' \<and> mi_Tools (ss ! i) = [])" if "i < length cs" for i tools
      using out that unfolding nth [OF that] by fastforce
    with sync_servers_ok [OF y] good Some r' asked out show ?thesis
      by (auto simp: registry_ok_def GetServers_def GetAllTools_def simp del: listed_as.simps)
  qed
qed

definition one_server :: "unit net" where
  "one_server =
     \<lparr>nt_new = (\<lambda>_ _. None),
      nt_do = (\<lambda>rq h. (if HasPrefix (rq_URL rq) ''http://git'' then Inr \<lparr>rsp_StatusCode = 200,
          rsp_Header = (\<lambda>k. if k = ''Content-Type'' then ''application/json'' else []),
          rsp_Body = ''{\"result\":{\"tools\":[{\"name\":\"search\"},{\"name\":\"read\"}]}}'', rsp_ReadError = None\<rparr>
        else Inl ''refused'', h)),
      nt_config = (\<lambda>_. Some [''servers'' \<mapsto> ''list'']), nt_secret = (\<lambda>_ _. None),
      nt_yaml = (\<lambda>_. Inr (map (\<lambda>u. \<lparr>mi_Name = u, mi_URL = ''http://'' @ u, mi_Auth = [], mi_SecretRef = [], mi_Icon = [],
        mi_Category = ''vcs'', mi_Tools = [], mi_Status = [], mi_ToolCount = 0\<rparr>) [''git'', ''db''])),
      nt_json_error = (\<lambda>_. []), nt_metrics = False\<rparr>"

definition no_registry :: registry where
  "no_registry = \<lparr>rg_servers = [], rg_tools = [], rg_lastSync = 0, rg_reported = []\<rparr>"

lemma one_server_sync:
  "map (\<lambda>s. (mi_Name s, mi_Status s, mi_Tools s)) (rg_servers (fst (snd (Sync one_server 5 no_registry ())))) =
     [(''git'', ''connected'', [''search'', ''read'']), (''db'', ''error'', [])]"
  by code_simp

lemma sync_consistent_witness:
  "let r = fst (snd (Sync one_server 5 no_registry ())) in registry_ok r \<and>
     mi_Tools (GetServers r ! 0) = [''search'', ''read''] \<and> mi_Status (GetServers r ! 1) = ''error''"
proof -
  obtain err r h' where run: "Sync one_server 5 no_registry () = (err, r, h')" by (metis prod_cases3)
  let ?server = "\<lambda>u. \<lparr>mi_Name = u, mi_URL = ''http://'' @ u, mi_Auth = [], mi_SecretRef = [], mi_Icon = [],
    mi_Category = ''vcs'', mi_Tools = [], mi_Status = [], mi_ToolCount = 0\<rparr>"
  let ?tool = "\<lambda>t. \<lparr>ti_Name = t, ti_Description = [], ti_Server = [], ti_Category = []\<rparr>"
  have "streamableEndpoint (replaceIP ''http://git'') = ''http://git/mcp''"
    "decode_tools ''{\"result\":{\"tools\":[{\"name\":\"search\"},{\"name\":\"read\"}]}}'' = Some [?tool ''search'', ?tool ''read'']"
    "HasPrefix ''http://git/mcp'' ''http://git''" "Contains ''application/json'' ''application/json''"
    by code_simp+
  then have git: "serves one_server (?server ''git'') [?tool ''search'', ?tool ''read'']"
    by (simp add: serves_def one_server_def)
  have "streamableEndpoint (replaceIP ''http://db'') = ''http://db/mcp''"
    "sseEndpoint (replaceIP ''http://db'') = ''http://db/sse''"
    "\<not> HasPrefix ''http://db/mcp'' ''http://git''" "\<not> HasPrefix ''http://db/sse'' ''http://git''" by code_simp+
  then have db: "down one_server (?server ''db'')" by (auto simp: down_def one_server_def)
  have "registry_ok no_registry" by (simp add: no_registry_def registry_ok_def)
  from sync_consistent [OF run this] have "registry_ok r"
    and all: "\<forall>i < length [''git'', ''db'']. \<forall>tools.
      (serves one_server (map ?server [''git'', ''db''] ! i) tools \<longrightarrow>
         GetServers r ! i = listed_as (Inr tools) (map ?server [''git'', ''db''] ! i)) \<and>
      (down one_server (map ?server [''git'', ''db''] ! i) \<longrightarrow>
         mi_Status (GetServers r ! i) = ''error'' \<and> mi_Tools (GetServers r ! i) = [])"
    by (simp_all add: one_server_def)
  moreover have "GetServers r ! 0 = listed_as (Inr [?tool ''search'', ?tool ''read'']) (?server ''git'')"
    using all git by force
  moreover have "mi_Status (GetServers r ! 1) = ''error''" using all db by force
  ultimately show ?thesis using run by simp
qed

section \<open>Endpoints and tokens\<close>

lemma TrimRight_idem [simp]: "TrimRight (TrimRight s cs) cs = TrimRight s cs"
  by (simp add: TrimRight_def trim_right_def dropWhile_idem)

lemma TrimRight_fixed: "s \<noteq> [] \<Longrightarrow> last s \<notin> set cs \<Longrightarrow> TrimRight s cs = s"
  by (cases s rule: rev_cases) (auto simp: TrimRight_def trim_right_def)

lemma endpoints_stable:
  "HasSuffix (streamableEndpoint u) ''/mcp''" "HasSuffix (sseEndpoint u) ''/sse''"
  "streamableEndpoint (streamableEndpoint u) = streamableEndpoint u" "sseEndpoint (sseEndpoint u) = sseEndpoint u"
proof -
  have fixed: "TrimRight v ''/'' = v" if "HasSuffix v (x @ [c])" "c \<noteq> CHR ''/''" for v x c
    using that by (intro TrimRight_fixed) (auto simp: HasSuffix_def suffix_def)
  show 1: "HasSuffix (streamableEndpoint u) ''/mcp''" and 2: "HasSuffix (sseEndpoint u) ''/sse''"
    by (auto simp: streamableEndpoint_def sseEndpoint_def Let_def HasSuffix_def suffix_def)
  show "streamableEndpoint (streamableEndpoint u) = streamableEndpoint u"
    using 1 fixed [of _ "''/mc''" "CHR ''p''"] by (subst streamableEndpoint_def) (simp add: Let_def)
  show "sseEndpoint (sseEndpoint u) = sseEndpoint u"
    using 2 fixed [of _ "''/ss''" "CHR ''e''"] by (subst sseEndpoint_def) (simp add: Let_def)
qed

text \<open>
  The messages address of an SSE server is appended to the whole configured URL, so that a server
  configured by its \<^verbatim>\<open>/sse\<close> address is asked under a path it does not have.
\<close>

lemma relative_messages_url:
  "sseEndpoint ''http://h/sse'' = ''http://h/sse'' \<and>
   messages_url ''http://h/sse'' ''data: /messages?s=1'' = Some ''http://h/sse/messages?s=1''"
  by code_simp

text \<open>The executors get a token only for a server that authenticates with one.\<close>

lemma token_only_bearer: "mi_Auth srv \<noteq> ''bearer'' \<Longrightarrow> server_token n h srv = []"
  by (simp add: server_token_def)

end
