(* ===== verification/Agent_Controller.thy ===== *)
theory Agent_Controller imports Kube begin

text \<open>
  The controller of agents (\<^verbatim>\<open>controllers/agent_controller.go\<close>): it gives every agent a service account
  and a role of its own, checks its credentials, tools and costs, and keeps its conditions and phase.
\<close>

section \<open>The objects it creates\<close>

record ServiceAccount =
  sa_Name :: string
  sa_Namespace :: string
  sa_Labels :: str_map
  sa_OwnerReferences :: "owner_ref list"
  sa_Automount :: "bool option"

record PolicyRule =
  pl_APIGroups :: "string list"
  pl_Resources :: "string list"
  pl_ResourceNames :: "string list"
  pl_Verbs :: "string list"

record Role =
  ro_Name :: string
  ro_Namespace :: string
  ro_OwnerReferences :: "owner_ref list"
  ro_Labels :: str_map
  ro_Rules :: "PolicyRule list"

record RoleBinding =
  rb_Name :: string
  rb_Namespace :: string
  rb_OwnerReferences :: "owner_ref list"
  rb_Labels :: str_map
  rb_RoleRef :: "string \<times> string \<times> string" \<comment> \<open>API group, kind, name\<close>
  rb_Subjects :: "(string \<times> string \<times> string) list" \<comment> \<open>kind, name, namespace\<close>

text \<open>The calls of the API server that the other controllers do not make; a lookup of an object gives its
  error or nothing.\<close>

record 'c rbac_api =
  b_update_agent :: "'c \<Rightarrow> Agent \<Rightarrow> kerr option \<times> 'c"
  b_get_sa :: "'c \<Rightarrow> key \<Rightarrow> kerr option"
  b_create_sa :: "'c \<Rightarrow> ServiceAccount \<Rightarrow> kerr option \<times> 'c"
  b_delete_sa :: "'c \<Rightarrow> key \<Rightarrow> 'c"
  b_get_role :: "'c \<Rightarrow> key \<Rightarrow> kerr option"
  b_create_role :: "'c \<Rightarrow> Role \<Rightarrow> kerr option \<times> 'c"
  b_delete_role :: "'c \<Rightarrow> key \<Rightarrow> 'c"
  b_get_binding :: "'c \<Rightarrow> key \<Rightarrow> kerr option"
  b_create_binding :: "'c \<Rightarrow> RoleBinding \<Rightarrow> kerr option \<times> 'c"
  b_delete_binding :: "'c \<Rightarrow> key \<Rightarrow> 'c"

definition agentFinalizer :: string where
  "agentFinalizer = ''purko.io/agent-finalizer''"

definition defaultRequeue :: time where
  "defaultRequeue = 30 * second"

definition ag_Namespace :: "Agent \<Rightarrow> string" where
  "ag_Namespace a = om_Namespace (ag_Meta a)"

definition agent_owner :: "Agent \<Rightarrow> owner_ref" where
  "agent_owner a =
     \<lparr>or_APIVersion = ''purko.io/v1alpha1'', or_Kind = ''Agent'', or_Name = ag_Name a,
      or_UID = om_UID (ag_Meta a), or_Controller = Some True\<rparr>"

definition default_sa :: "Agent \<Rightarrow> string" where
  "default_sa a = ''agent-'' @ ag_Name a @ ''-sa''"

definition role_name :: "Agent \<Rightarrow> string" where
  "role_name a = ''agent-'' @ ag_Name a @ ''-role''"

definition binding_name :: "Agent \<Rightarrow> string" where
  "binding_name a = ''agent-'' @ ag_Name a @ ''-binding''"

definition agent_sa :: "Agent \<Rightarrow> ServiceAccount" where
  "agent_sa a = \<lparr>sa_Name = default_sa a, sa_Namespace = ag_Namespace a,
     sa_Labels = [''purko.io/agent'' \<mapsto> ag_Name a, ''purko.io/agent-type'' \<mapsto> as_Type (ag_Spec a),
                  ''purko.io/managed-by'' \<mapsto> ''agent-controller''],
     sa_OwnerReferences = [agent_owner a], sa_Automount = Some False\<rparr>"

definition ensureServiceAccount :: "'c rbac_api \<Rightarrow> Agent \<Rightarrow> string \<Rightarrow> 'c rt \<Rightarrow> kerr option \<times> 'c rt" where
  "ensureServiceAccount b a saName s =
     (case b_get_sa b (rs_c s) (ag_Namespace a, saName) of
        None \<Rightarrow> (None, s)
      | Some NotFound \<Rightarrow>
          (let (err, c) = b_create_sa b (rs_c s) ((agent_sa a)\<lparr>sa_Name := saName\<rparr>) in (err, s\<lparr>rs_c := c\<rparr>))
      | Some e \<Rightarrow> (Some e, s))"

definition secret_ref :: "Agent \<Rightarrow> string" where
  "secret_ref a = (case mo_CredentialsSecretRef (as_Model (ag_Spec a)) of None \<Rightarrow> [] | Some r \<Rightarrow> sr_Name r)"

definition agent_rules :: "Agent \<Rightarrow> PolicyRule list" where
  "agent_rules a =
     \<lparr>pl_APIGroups = [[]], pl_Resources = [''configmaps''], pl_ResourceNames = [], pl_Verbs = [''get'', ''list'']\<rparr> #
     (if secret_ref a \<noteq> [] then
        [\<lparr>pl_APIGroups = [[]], pl_Resources = [''secrets''], pl_ResourceNames = [secret_ref a], pl_Verbs = [''get'']\<rparr>]
      else [])"

definition agent_role :: "Agent \<Rightarrow> Role" where
  "agent_role a = \<lparr>ro_Name = role_name a, ro_Namespace = ag_Namespace a, ro_OwnerReferences = [agent_owner a],
     ro_Labels = [''purko.io/agent'' \<mapsto> ag_Name a], ro_Rules = agent_rules a\<rparr>"

definition agent_binding :: "Agent \<Rightarrow> string \<Rightarrow> RoleBinding" where
  "agent_binding a saName = \<lparr>rb_Name = binding_name a, rb_Namespace = ag_Namespace a,
     rb_OwnerReferences = [agent_owner a], rb_Labels = [''purko.io/agent'' \<mapsto> ag_Name a],
     rb_RoleRef = (''rbac.authorization.k8s.io'', ''Role'', role_name a),
     rb_Subjects = [(''ServiceAccount'', saName, ag_Namespace a)]\<rparr>"

text \<open>
  An object that exists is left as it is.  The error is the text the conditions get: a failed creation is
  wrapped, a failed lookup is not.
\<close>

definition ensure_role :: "'c ctx \<Rightarrow> 'c rbac_api \<Rightarrow> Agent \<Rightarrow> 'c rt \<Rightarrow> string option \<times> 'c rt" where
  "ensure_role x b a s =
     (case b_get_role b (rs_c s) (ag_Namespace a, role_name a) of
        None \<Rightarrow> (None, s)
      | Some NotFound \<Rightarrow>
          (let (err, c) = b_create_role b (rs_c s) (agent_role a)
           in (map_option (\<lambda>e. ''create role: '' @ x_errtext x e) err, s\<lparr>rs_c := c\<rparr>))
      | Some e \<Rightarrow> (Some (x_errtext x e), s))"

definition ensure_binding :: "'c ctx \<Rightarrow> 'c rbac_api \<Rightarrow> Agent \<Rightarrow> string \<Rightarrow> 'c rt \<Rightarrow> string option \<times> 'c rt" where
  "ensure_binding x b a saName s =
     (case b_get_binding b (rs_c s) (ag_Namespace a, binding_name a) of
        None \<Rightarrow> (None, s)
      | Some NotFound \<Rightarrow>
          (let (err, c) = b_create_binding b (rs_c s) (agent_binding a saName)
           in (map_option (\<lambda>e. ''create rolebinding: '' @ x_errtext x e) err, s\<lparr>rs_c := c\<rparr>))
      | Some e \<Rightarrow> (Some (x_errtext x e), s))"

definition ensureRBAC :: "'c ctx \<Rightarrow> 'c rbac_api \<Rightarrow> Agent \<Rightarrow> string \<Rightarrow> 'c rt \<Rightarrow> string option \<times> 'c rt" where
  "ensureRBAC x b a saName s =
     (let (err, s1) = ensure_role x b a s in
      if err \<noteq> None then (err, s1) else ensure_binding x b a saName s1)"

definition validateCredentials :: "'c ctx \<Rightarrow> Agent \<Rightarrow> 'c rt \<Rightarrow> bool" where
  "validateCredentials x a s =
     (case mo_CredentialsSecretRef (as_Model (ag_Spec a)) of
        None \<Rightarrow> True
      | Some r \<Rightarrow>
          if sr_Name r = [] then True
          else (case k_get_secret (x_api x) (rs_c s) (ag_Namespace a, sr_Name r) of
                  Inl _ \<Rightarrow> False
                | Inr d \<Rightarrow> d (if sr_Key r = [] then ''api-key'' else sr_Key r) \<noteq> None))"

definition remove_if_there :: "('c \<Rightarrow> key \<Rightarrow> kerr option) \<Rightarrow> ('c \<Rightarrow> key \<Rightarrow> 'c) \<Rightarrow> key \<Rightarrow> 'c \<Rightarrow> 'c" where
  "remove_if_there look del k c = (if look c k = None then del c k else c)"

definition cleanupAgentResources :: "'c rbac_api \<Rightarrow> Agent \<Rightarrow> 'c rt \<Rightarrow> 'c rt" where
  "cleanupAgentResources b a s =
     (let ns = ag_Namespace a;
          c1 = remove_if_there (b_get_binding b) (b_delete_binding b) (ns, binding_name a) (rs_c s);
          c2 = remove_if_there (b_get_role b) (b_delete_role b) (ns, role_name a) c1;
          c3 = remove_if_there (b_get_sa b) (b_delete_sa b) (ns, default_sa a) c2
      in s\<lparr>rs_c := c3\<rparr>)"

section \<open>Conditions and phases\<close>

definition agent_status :: "(AgentStatus \<Rightarrow> AgentStatus) \<Rightarrow> Agent \<Rightarrow> Agent" where
  "agent_status f a = a\<lparr>ag_Status := f (ag_Status a)\<rparr>"

definition setCondition :: "'c ctx \<Rightarrow> string \<Rightarrow> bool \<Rightarrow> string \<Rightarrow> string \<Rightarrow> Agent \<Rightarrow> Agent" where
  "setCondition x condType ok reason msg =
     agent_status (\<lambda>st. st\<lparr>at_Conditions := x_setcond x (at_Conditions st)
       \<lparr>c_Type = condType, c_Status = (if ok then ''True'' else ''False''), c_LastTransitionTime = x_now x,
        c_Reason = reason, c_Message = msg\<rparr>\<rparr>)"

text \<open>A status write that fails is only logged.\<close>

definition set_agent_phase :: "'c ctx \<Rightarrow> string \<Rightarrow> string \<Rightarrow> Agent \<Rightarrow> 'c rt \<Rightarrow> Agent \<times> 'c rt" where
  "set_agent_phase x phase msg a s =
     (let a1 = agent_status (\<lambda>st. st\<lparr>at_Phase := phase, at_Message := msg\<rparr>) a;
          (_, c) = k_status_agent (x_api x) (rs_c s) a1
      in (a1, s\<lparr>rs_c := c\<rparr>))"

definition agent_error :: "'c ctx \<Rightarrow> string \<Rightarrow> string \<Rightarrow> Agent \<Rightarrow> 'c rt \<Rightarrow> outcome \<times> Agent \<times> 'c rt" where
  "agent_error x reason msg a s =
     (let (a1, s1) = set_agent_phase x ''Error'' msg (setCondition x ''Ready'' False reason msg a) s
      in (RequeueAfter defaultRequeue, a1, s1))"

section \<open>Reconcile\<close>

definition begin_agent :: "'c ctx \<Rightarrow> Agent \<Rightarrow> Agent" where
  "begin_agent x a =
     (if at_Phase (ag_Status a) = [] \<or> at_Phase (ag_Status a) = ''Pending''
      then agent_status (\<lambda>st. st\<lparr>at_Phase := ''Initializing'', at_StartTime := Some (x_now x)\<rparr>) a else a)"

definition agent_sa_name :: "Agent \<Rightarrow> string" where
  "agent_sa_name a =
     (case as_Runtime (ag_Spec a) of
        None \<Rightarrow> default_sa a
      | Some r \<Rightarrow> if rt_ServiceAccountName r \<noteq> [] then rt_ServiceAccountName r else default_sa a)"

definition credentials_condition :: "'c ctx \<Rightarrow> Agent \<Rightarrow> 'c rt \<Rightarrow> Agent" where
  "credentials_condition x a s =
     (if validateCredentials x a s
      then setCondition x ''CredentialsValid'' True ''SecretFound'' (''Credentials loaded from '' @ secret_ref a) a
      else setCondition x ''CredentialsValid'' False ''SecretMissing'' ''Required credentials not found'' a)"

text \<open>The cost limit, when the guardrails name one that is exceeded.\<close>

definition exceeded_limit :: "Agent \<Rightarrow> (f64 \<times> f64) option" where
  "exceeded_limit a =
     (case at_Metrics (ag_Status a) of
        None \<Rightarrow> None
      | Some m \<Rightarrow>
          if \<not> f64_lt (Fin 0) (am_TotalCostUSD m) then None
          else (case guardrails a of
                  None \<Rightarrow> None
                | Some g \<Rightarrow>
                    (case map_of g ''costLimitUSD'' of
                       Some (INum costLimit) \<Rightarrow>
                         if f64_lt (Fin 0) costLimit \<and> f64_lt costLimit (am_TotalCostUSD m)
                         then Some (am_TotalCostUSD m, costLimit) else None
                     | _ \<Rightarrow> None)))"

definition quota_condition :: "'c ctx \<Rightarrow> Agent \<Rightarrow> Agent" where
  "quota_condition x a =
     (case exceeded_limit a of
        Some (cost, costLimit) \<Rightarrow>
          setCondition x ''QuotaAvailable'' False ''CostLimitExceeded''
            (''Total cost $'' @ show_2f cost @ '' exceeds limit $'' @ show_2f costLimit) a
      | None \<Rightarrow> setCondition x ''QuotaAvailable'' True ''WithinLimits'' ''Cost within guardrail limits'' a)"

definition agent_model_name :: "Agent \<Rightarrow> string" where
  "agent_model_name a = mo_Provider (as_Model (ag_Spec a)) @ ''/'' @ mo_Name (as_Model (ag_Spec a))"

definition agent_image :: "Agent \<Rightarrow> string" where
  "agent_image a =
     (case as_Runtime (ag_Spec a) of
        None \<Rightarrow> ''purko-executor:latest''
      | Some r \<Rightarrow> if rt_Image r \<noteq> [] then rt_Image r else ''purko-executor:latest'')"

definition agent_ready :: "'c ctx \<Rightarrow> string \<Rightarrow> Agent \<Rightarrow> 'c rt \<Rightarrow> outcome \<times> Agent \<times> 'c rt" where
  "agent_ready x saName a s =
     (let tools = show_nat (length (as_Tools (ag_Spec a)));
          a1 = setCondition x ''ToolsRegistered'' True ''ToolsConfigured'' (tools @ '' tools configured'')
                 (credentials_condition x a s);
          a2 = setCondition x ''ModelAvailable'' True ''Configured'' (''Model '' @ agent_model_name a @ '' configured'')
                 (quota_condition x a1);
          a3 = agent_status (\<lambda>st. st\<lparr>at_ObservedGeneration := om_Generation (ag_Meta a),
                 at_LastActiveTime := Some (x_now x)\<rparr>) a2;
          a4 = setCondition x ''Ready'' True ''Initialized''
                 (''Agent ready: SA='' @ saName @ '', '' @ tools @ '' tools, image='' @ agent_image a) a3;
          (a5, s1) = set_agent_phase x ''Ready'' (''Agent '' @ ag_Name a @ '' ('' @ agent_model_name a @
                 '') ready with '' @ tools @ '' tools'') a4 s;
          agentType = (if as_Type (ag_Spec a) = [] then ''untyped'' else as_Type (ag_Spec a))
      in (Done, a5, metric (AgentsTotal (ag_Namespace a) agentType) s1))"

definition reconcile_live :: "'c ctx \<Rightarrow> 'c rbac_api \<Rightarrow> Agent \<Rightarrow> 'c rt \<Rightarrow> outcome \<times> Agent \<times> 'c rt" where
  "reconcile_live x b agent s =
     (let a = begin_agent x agent; saName = agent_sa_name a in
      if mo_Provider (as_Model (ag_Spec a)) = [] \<or> mo_Name (as_Model (ag_Spec a)) = []
      then agent_error x ''InvalidConfig'' ''model.provider and model.name are required'' a s
      else (let (err, s1) = ensureServiceAccount b a saName s in
            case err of
              Some e \<Rightarrow> agent_error x ''SACreationFailed'' (x_errtext x e) a s1
            | None \<Rightarrow>
                (let (err, s2) = ensureRBAC x b a saName s1 in
                 case err of
                   Some e \<Rightarrow> agent_error x ''RBACFailed'' e a s2
                 | None \<Rightarrow> agent_ready x saName a s2)))"

definition write_agent :: "'c rbac_api \<Rightarrow> Agent \<Rightarrow> outcome \<Rightarrow> 'c rt \<Rightarrow> outcome \<times> Agent \<times> 'c rt" where
  "write_agent b a out s =
     (let (err, c) = b_update_agent b (rs_c s) a
      in (case err of Some e \<Rightarrow> Fail e | None \<Rightarrow> out, a, s\<lparr>rs_c := c\<rparr>))"

definition reconcile_deleted :: "'c ctx \<Rightarrow> 'c rbac_api \<Rightarrow> Agent \<Rightarrow> 'c rt \<Rightarrow> outcome \<times> Agent \<times> 'c rt" where
  "reconcile_deleted x b a s =
     (if x_has_finalizer x (ag_Meta a) agentFinalizer then
        (let (a1, s1) = set_agent_phase x ''Terminated'' ''Agent resources cleaned up'' a (cleanupAgentResources b a s)
         in write_agent b (a1\<lparr>ag_Meta := x_remove_finalizer x (ag_Meta a1) agentFinalizer\<rparr>) Done s1)
      else (Done, a, s))"

definition reconcile_agent :: "'c ctx \<Rightarrow> 'c rbac_api \<Rightarrow> key \<Rightarrow> 'c rt \<Rightarrow> outcome \<times> Agent option \<times> 'c rt" where
  "reconcile_agent x b k s =
     (case k_get_agent (x_api x) (rs_c s) k of
        Inl NotFound \<Rightarrow> (Done, None, s)
      | Inl e \<Rightarrow> (Fail e, None, s)
      | Inr a \<Rightarrow>
          (let (out, a1, s1) =
             (if om_DeletionTimestamp (ag_Meta a) \<noteq> None then reconcile_deleted x b a s
              else if \<not> x_has_finalizer x (ag_Meta a) agentFinalizer
              then write_agent b (a\<lparr>ag_Meta := x_add_finalizer x (ag_Meta a) agentFinalizer\<rparr>) Requeue s
              else reconcile_live x b a s)
           in (out, Some a1, s1)))"

end
