(* ===== verification/Provider_Controllers.thy ===== *)
theory Provider_Controllers imports Agent_Memory Sample_Cluster begin

text \<open>
  The controllers of LLM providers and of memory providers (\<^verbatim>\<open>controllers/llmprovider_controller.go\<close>,
  \<^verbatim>\<open>controllers/memoryprovider_controller.go\<close>): both only report, in the status, whether the provider can
  be used.
\<close>

section \<open>LLM providers\<close>




definition provider_condition :: "'c ctx \<Rightarrow> string \<Rightarrow> bool \<Rightarrow> string \<Rightarrow> string \<Rightarrow> Condition list \<Rightarrow> Condition list" where
  "provider_condition x t ok reason msg cs =
     x_setcond x cs \<lparr>c_Type = t, c_Status = (if ok then ''True'' else ''False''), c_LastTransitionTime = x_now x,
       c_Reason = reason, c_Message = msg\<rparr>"

definition model_count :: "LLMProvider \<Rightarrow> int" where
  "model_count p = (if lp_Models (llm_Spec p) = [] then 1 else int (length (lp_Models (llm_Spec p))))"

definition provider_status :: "'c ctx \<Rightarrow> bool \<Rightarrow> LLMProvider \<Rightarrow> LLMProviderStatus" where
  "provider_status x ok p =
     (let st = llm_Status p;
          message = (if ok then ''Provider '' @ lp_Type (llm_Spec p) @ '' ready, '' @ show_int (model_count p) @
                       '' models available''
                     else ''Credentials not found or invalid'');
          ready = provider_condition x ''Ready'' ok (if ok then ''Ready'' else ''CredentialsInvalid'') message
                    (ls_Conditions st);
          conds = (if \<not> ok then ready
                   else (case lp_Credentials (llm_Spec p) of
                           None \<Rightarrow> provider_condition x ''CredentialsValid'' True ''NoCredentialsRequired''
                                     ''No credentials required'' ready
                         | Some cr \<Rightarrow> provider_condition x ''CredentialsValid'' True ''SecretFound''
                                     (''Credentials loaded from '' @ cr_SecretRef cr) ready))
      in st\<lparr>ls_Phase := (if ok then ''Ready'' else ''Error''), ls_Message := message,
            ls_AvailableModels := model_count p, ls_LastHealthCheck := Some (x_now x), ls_Conditions := conds\<rparr>)"



section \<open>Memory providers\<close>

record 'c memprov_api =
  me_get :: "'c \<Rightarrow> key \<Rightarrow> kerr + MemoryProvider"
  me_status :: "'c \<Rightarrow> MemoryProvider \<Rightarrow> kerr option \<times> 'c"

definition memory_health :: "time \<Rightarrow> mem_store option \<Rightarrow> MemoryProvider \<Rightarrow> MemoryProviderStatus" where
  "memory_health now store p =
     (let st = (mpr_Status p)\<lparr>mps_LastChecked := now\<rparr> in
      if mp_Type (mpr_Spec p) \<noteq> ''builtin''
      then st\<lparr>mps_Healthy := False,
              mps_LastError := ''provider type not implemented (only builtin ships in Spec 34)''\<rparr>
      else (case store of
              None \<Rightarrow> st\<lparr>mps_Healthy := False, mps_LastError := ''memory store not initialized''\<rparr>
            | Some m \<Rightarrow>
                (case Healthy m of
                   Inl e \<Rightarrow> st\<lparr>mps_Healthy := False, mps_LastError := sql_text e\<rparr>
                 | Inr _ \<Rightarrow>
                     (let ok = st\<lparr>mps_Healthy := True, mps_LastError := []\<rparr> in
                      case Stats m [] of
                        Inl _ \<Rightarrow> ok
                      | Inr s \<Rightarrow> ok\<lparr>mps_EntryCount := mst_TotalEntries s\<rparr>))))"

definition reconcile_memprov :: "'c ctx \<Rightarrow> 'c memprov_api \<Rightarrow> mem_store option \<Rightarrow> key \<Rightarrow> 'c \<Rightarrow>
    outcome \<times> MemoryProvider option \<times> 'c" where
  "reconcile_memprov x a store k c =
     (case me_get a c k of
        Inl NotFound \<Rightarrow> (Done, None, c)
      | Inl e \<Rightarrow> (Fail e, None, c)
      | Inr p \<Rightarrow>
          (let p1 = p\<lparr>mpr_Status := memory_health (x_now x) store p\<rparr>; (err, c1) = me_status a c p1
           in (case err of Some e \<Rightarrow> Fail e | None \<Rightarrow> RequeueAfter (5 * minute), Some p1, c1)))"

section \<open>Facts\<close>

text \<open>What \<^verbatim>\<open>meta.SetStatusCondition\<close> documents: the condition of its type is set, the others stay.\<close>

definition condition_of :: "string \<Rightarrow> Condition list \<Rightarrow> Condition option" where
  "condition_of t cs = find (\<lambda>c. c_Type c = t) cs"

definition setcond_laws :: "'c ctx \<Rightarrow> bool" where
  "setcond_laws x \<longleftrightarrow>
     (\<forall>cs c t. condition_of t (x_setcond x cs c) = (if t = c_Type c then Some c else condition_of t cs))"












text \<open>
  The condition \<open>CredentialsValid\<close> is only ever set to true: when the credentials of a provider go, the old
  condition stays beside the phase \<open>Error\<close>.
\<close>

lemma stale_credentials_condition:
  assumes "setcond_laws x"
  shows "condition_of ''CredentialsValid'' (ls_Conditions (provider_status x False p)) =
      condition_of ''CredentialsValid'' (ls_Conditions (llm_Status p)) \<and>
    ls_Phase (provider_status x False p) = ''Error''"
  using assms by (simp add: provider_status_def provider_condition_def setcond_laws_def Let_def)

text \<open>The entry count is the number of rows, over all namespaces.\<close>

lemma sum_counts:
  "set as \<supseteq> f ` set xs \<Longrightarrow> distinct as \<Longrightarrow>
     sum_list (map (\<lambda>a. int (length (filter (\<lambda>x. f x = a) xs))) as) = int (length xs)"
proof (induction xs)
  case (Cons x xs)
  have "sum_list (map (\<lambda>a. int (length (filter (\<lambda>y. f y = a) (x # xs)))) as) =
      sum_list (map (\<lambda>a. (if a = f x then 1 else 0)) as) + sum_list (map (\<lambda>a. int (length (filter (\<lambda>y. f y = a) xs))) as)"
    unfolding sum_list_addf [symmetric] by (rule arg_cong [where f = sum_list]) (auto intro!: map_cong)
  moreover have "sum_list (map (\<lambda>a. (if a = f x then 1 else 0 :: int)) as) = 1"
    using Cons.prems by (simp add: sum.delta sum_list_distinct_conv_sum_set)
  ultimately show ?case using Cons by simp
qed simp

lemma memory_health_exact:
  "mps_Healthy (memory_health now store p) \<longleftrightarrow>
     mp_Type (mpr_Spec p) = ''builtin'' \<and> (\<exists>m. store = Some m \<and> mdb_open m)"
  "mp_Type (mpr_Spec p) = ''builtin'' \<Longrightarrow> store = Some m \<Longrightarrow> mdb_open m \<Longrightarrow>
     mps_EntryCount (memory_health now store p) = int (length (mdb_memories m))"
  by (auto simp: memory_health_def Healthy_def Stats_def Let_def comp_def sum_counts split: option.splits sum.splits)

end
