(* ===== verification/MCP_Controller.thy ===== *)
theory MCP_Controller imports Kube Keyed_Table begin

text \<open>
  The controller of MCP servers (\<^verbatim>\<open>controllers/mcpserver_controller.go\<close>): it runs each server as a
  deployment with a service, and keeps the list of servers in the ConfigMap \<^verbatim>\<open>mcp-servers\<close>, from which
  the registry reads it.
\<close>

section \<open>The objects it creates\<close>

record mcp_pod =
  mq_HostNetwork :: bool
  mq_DNSPolicy :: string
  mq_Name :: string
  mq_Image :: string
  mq_ImagePullPolicy :: string
  mq_Args :: "string list"
  mq_Ports :: "int list"
  mq_Resources :: "(str_alist \<times> str_alist) option" \<comment> \<open>requests and limits\<close>
  mq_Env :: "env_var list"

record deployment_spec =
  ds_Replicas :: int
  ds_Selector :: str_map
  ds_PodLabels :: str_map
  ds_Pod :: mcp_pod

record Deployment =
  de_Meta :: ObjectMeta
  de_Spec :: deployment_spec

record Service =
  se_Meta :: ObjectMeta
  se_Selector :: str_map
  se_Ports :: "(int \<times> int) list" \<comment> \<open>port and target port\<close>

text \<open>
  The API server; a lookup that fails leaves the object empty.  The data of the ConfigMap is \<open>None\<close> for a
  nil map.  \<open>m_quantity\<close> says which texts \<^verbatim>\<open>resource.MustParse\<close> accepts; it panics on the others.
\<close>

record 'c mcp_api =
  m_get :: "'c \<Rightarrow> key \<Rightarrow> kerr + MCPServer"
  m_update :: "'c \<Rightarrow> MCPServer \<Rightarrow> kerr option \<times> 'c"
  m_status :: "'c \<Rightarrow> MCPServer \<Rightarrow> 'c"
  m_get_deploy :: "'c \<Rightarrow> key \<Rightarrow> kerr + Deployment"
  m_create_deploy :: "'c \<Rightarrow> Deployment \<Rightarrow> kerr option \<times> 'c"
  m_update_deploy :: "'c \<Rightarrow> Deployment \<Rightarrow> kerr option \<times> 'c"
  m_get_svc :: "'c \<Rightarrow> key \<Rightarrow> kerr + Service"
  m_create_svc :: "'c \<Rightarrow> Service \<Rightarrow> kerr option \<times> 'c"
  m_update_svc :: "'c \<Rightarrow> Service \<Rightarrow> kerr option \<times> 'c"
  m_get_list :: "'c \<Rightarrow> string \<Rightarrow> kerr + str_map option"
  m_create_list :: "'c \<Rightarrow> string \<Rightarrow> str_map \<Rightarrow> kerr option \<times> 'c"
  m_update_list :: "'c \<Rightarrow> string \<Rightarrow> str_map \<Rightarrow> kerr option \<times> 'c"
  m_quantity :: "string \<Rightarrow> bool"

definition mcpServerFinalizer :: string where
  "mcpServerFinalizer = ''purko.io/mcpserver-finalizer''"

abbreviation mcp_Name :: "MCPServer \<Rightarrow> string" where "mcp_Name srv \<equiv> om_Name (mcp_Meta srv)"
abbreviation mcp_Namespace :: "MCPServer \<Rightarrow> string" where "mcp_Namespace srv \<equiv> om_Namespace (mcp_Meta srv)"

definition wrap32 :: "int \<Rightarrow> int" where
  "wrap32 n = (n + 2 ^ 31) mod 2 ^ 32 - 2 ^ 31"

definition mcp_port :: "MCPServer \<Rightarrow> int" where
  "mcp_port srv = (if mc_Port (mcp_Spec srv) = 0 then 8000 else mc_Port (mcp_Spec srv))"

definition mcp_meta :: "MCPServer \<Rightarrow> str_map \<Rightarrow> ObjectMeta" where
  "mcp_meta srv labels = empty_meta\<lparr>om_Name := mcp_Name srv, om_Namespace := mcp_Namespace srv, om_Labels := labels,
     om_OwnerReferences := [\<lparr>or_APIVersion = ''purko.io/v1alpha1'', or_Kind = ''MCPServer'', or_Name = mcp_Name srv,
       or_UID = om_UID (mcp_Meta srv), or_Controller = Some True\<rparr>]\<rparr>"

definition mcp_label :: "MCPServer \<Rightarrow> str_map" where
  "mcp_label srv = [''purko.io/mcp-server'' \<mapsto> mcp_Name srv]"

section \<open>The deployment\<close>

definition token_env :: "MCPServer \<Rightarrow> string \<Rightarrow> env_var" where
  "token_env srv n = \<lparr>en_Name = n, en_Value = EnvSecret (mc_SecretRef (mcp_Spec srv)) ''token'' (Some True)\<rparr>"

definition mcp_env :: "MCPServer \<Rightarrow> env_var list" where
  "mcp_env srv =
     (let sp = mcp_Spec srv in
      (if mc_Auth sp = ''bearer'' \<and> mc_SecretRef sp \<noteq> [] then [token_env srv ''AUTH_TOKEN''] else []) @
      map (\<lambda>e. if ev_Value e = [] \<and> mc_SecretRef sp \<noteq> [] then token_env srv (ev_Name e)
                else env_val (ev_Name e) (ev_Value e)) (mc_Env sp))"

definition mcp_pod_spec :: "MCPServer \<Rightarrow> mcp_pod" where
  "mcp_pod_spec srv =
     (let sp = mcp_Spec srv in
      \<lparr>mq_HostNetwork = mc_HostNetwork sp, mq_DNSPolicy = (if mc_HostNetwork sp then ''Default'' else []),
       mq_Name = ''mcp-server'', mq_Image = mc_Image sp, mq_ImagePullPolicy = ''IfNotPresent'', mq_Args = mc_Args sp,
       mq_Ports = (if mc_HostNetwork sp then [] else [wrap32 (mcp_port srv)]),
       mq_Resources = map_option (\<lambda>r. (rr_Requests r, rr_Limits r)) (mc_Resources sp), mq_Env = mcp_env srv\<rparr>)"

definition mcp_deployment :: "MCPServer \<Rightarrow> Deployment" where
  "mcp_deployment srv =
     \<lparr>de_Meta = mcp_meta srv [''app.kubernetes.io/name'' \<mapsto> mcp_Name srv, ''app.kubernetes.io/part-of'' \<mapsto> ''purko'',
        ''purko.io/mcp-server'' \<mapsto> mcp_Name srv],
      de_Spec = \<lparr>ds_Replicas = (case mc_Replicas (mcp_Spec srv) of None \<Rightarrow> 1 | Some n \<Rightarrow> wrap32 n),
        ds_Selector = mcp_label srv, ds_PodLabels = mcp_label srv, ds_Pod = mcp_pod_spec srv\<rparr>\<rparr>"

definition quantities_ok :: "'c mcp_api \<Rightarrow> MCPServer \<Rightarrow> bool" where
  "quantities_ok a srv =
     (case mc_Resources (mcp_Spec srv) of
        None \<Rightarrow> True
      | Some r \<Rightarrow> list_all (\<lambda>(_, v). m_quantity a v) (rr_Requests r @ rr_Limits r))"

definition empty_deployment :: Deployment where
  "empty_deployment = \<lparr>de_Meta = empty_meta, de_Spec = \<lparr>ds_Replicas = 0, ds_Selector = Map.empty,
     ds_PodLabels = Map.empty, ds_Pod = \<lparr>mq_HostNetwork = False, mq_DNSPolicy = [], mq_Name = [],
       mq_Image = [], mq_ImagePullPolicy = [], mq_Args = [],
       mq_Ports = [], mq_Resources = None, mq_Env = []\<rparr>\<rparr>\<rparr>"

definition is_missing :: "kerr + 'o \<Rightarrow> bool" where
  "is_missing found = (case found of Inl NotFound \<Rightarrow> True | _ \<Rightarrow> False)"

text \<open>A panic is \<open>None\<close>.\<close>

definition reconcileDeployment :: "'c mcp_api \<Rightarrow> MCPServer \<Rightarrow> 'c \<Rightarrow> (kerr option \<times> 'c) option" where
  "reconcileDeployment a srv c =
     (let found = m_get_deploy a c (mcp_Namespace srv, mcp_Name srv); desired = mcp_deployment srv in
      if \<not> quantities_ok a srv then None
      else if is_missing found then Some (m_create_deploy a c desired)
      else (let deploy = (case found of Inl _ \<Rightarrow> empty_deployment | Inr d \<Rightarrow> d)
            in Some (m_update_deploy a c (deploy\<lparr>de_Spec := de_Spec desired\<rparr>))))"

section \<open>The service\<close>

definition mcp_service :: "MCPServer \<Rightarrow> Service" where
  "mcp_service srv = \<lparr>se_Meta = mcp_meta srv (mcp_label srv), se_Selector = mcp_label srv,
     se_Ports = [(wrap32 (mcp_port srv), wrap32 (mcp_port srv))]\<rparr>"

definition empty_service :: Service where
  "empty_service = \<lparr>se_Meta = empty_meta, se_Selector = Map.empty, se_Ports = []\<rparr>"

definition reconcileService :: "'c mcp_api \<Rightarrow> MCPServer \<Rightarrow> 'c \<Rightarrow> kerr option \<times> 'c" where
  "reconcileService a srv c =
     (let found = m_get_svc a c (mcp_Namespace srv, mcp_Name srv); desired = mcp_service srv in
      if is_missing found then m_create_svc a c desired
      else (let svc = (case found of Inl _ \<Rightarrow> empty_service | Inr d \<Rightarrow> d)
            in m_update_svc a c (svc\<lparr>se_Selector := se_Selector desired, se_Ports := se_Ports desired\<rparr>)))"

section \<open>The list of servers\<close>

text \<open>
  The list is decoded as a JSON array of objects, and errors are dropped: a text that is no JSON gives no
  servers, an element that is no object a nil map, and a number out of range a nil value.
\<close>

fun lenient :: "jtree \<Rightarrow> iface"
  and lenient_arr :: "(string \<times> jtree) list \<Rightarrow> iface list"
  and lenient_obj :: "(string \<times> string \<times> jtree) list \<Rightarrow> (string \<times> iface) list \<Rightarrow> (string \<times> iface) list" where
  "lenient TNull = INil"
| "lenient (TBool b) = IBool b"
| "lenient (TNum lit) = (case ParseFloat lit of None \<Rightarrow> INil | Some x \<Rightarrow> INum x)"
| "lenient (TStr s) = IStr s"
| "lenient (TArr vs) = IArr (lenient_arr vs)"
| "lenient (TObj ms) = IObj (lenient_obj ms [])"
| "lenient_arr [] = []"
| "lenient_arr ((_, v) # vs) = lenient v # lenient_arr vs"
| "lenient_obj [] acc = acc"
| "lenient_obj ((k, _, v) # ms) acc = lenient_obj ms (alist_put k (lenient v) acc)"

definition server_map :: "jtree \<Rightarrow> iface" where
  "server_map v = (case v of TObj ms \<Rightarrow> lenient v | _ \<Rightarrow> INil)"

definition decode_servers :: "string \<Rightarrow> iface list" where
  "decode_servers txt =
     (case parse_json txt of Some (TArr vs) \<Rightarrow> map (\<lambda>(_, v). server_map v) vs | _ \<Rightarrow> [])"

text \<open>\<^verbatim>\<open>json.MarshalIndent(v, "", "  ")\<close>; \<open>nl\<close> is a newline and the indentation.\<close>

fun indented :: "string \<Rightarrow> iface \<Rightarrow> string"
  and indented_list :: "string \<Rightarrow> iface list \<Rightarrow> string list"
  and indented_obj :: "string \<Rightarrow> (string \<times> iface) list \<Rightarrow> (string \<times> string) list" where
  "indented nl INil = ''null''"
| "indented nl (IBool b) = (if b then ''true'' else ''false'')"
| "indented nl (INum x) = marshal_f64 x"
| "indented nl (IStr s) = marshal_string s"
| "indented nl (IArr xs) =
     (if xs = [] then ''[]''
      else ''['' @ nl @ ''  '' @ join ('','' @ nl @ ''  '') (indented_list (nl @ ''  '') xs) @ nl @ '']'')"
| "indented nl (IObj ms) =
     (if ms = [] then ''{}''
      else ''{'' @ nl @ ''  '' @
        join ('','' @ nl @ ''  '') (map (\<lambda>(k, v). marshal_string k @ '': '' @ v) (sort_keys (indented_obj (nl @ ''  '') ms))) @
        nl @ ''}'')"
| "indented_list nl [] = []"
| "indented_list nl (x # xs) = indented nl x # indented_list nl xs"
| "indented_obj nl [] = []"
| "indented_obj nl ((k, v) # ms) = (k, indented nl v) # indented_obj nl ms"

definition encode_servers :: "iface list \<Rightarrow> string" where
  "encode_servers ss = indented [CHR 0x0A] (IArr ss)"

definition server_url :: "MCPServer \<Rightarrow> string" where
  "server_url srv =
     (if mc_HostNetwork (mcp_Spec srv) then ''http://localhost:'' @ show_int (mcp_port srv)
      else ''http://'' @ mcp_Name srv @ ''.'' @ mcp_Namespace srv @ ''.svc:'' @ show_int (mcp_port srv))"

definition mcp_entry :: "MCPServer \<Rightarrow> iface" where
  "mcp_entry srv =
     (let sp = mcp_Spec srv in
      IObj ([(''name'', IStr (mcp_Name srv)), (''url'', IStr (server_url srv)), (''auth'', IStr (mc_Auth sp)),
             (''icon'', IStr (mc_Icon sp)), (''category'', IStr (mc_Category sp))] @
            (if mc_SecretRef sp \<noteq> [] then [(''secretRef'', IStr (mc_SecretRef sp))] else [])))"

definition entry_name :: "iface \<Rightarrow> string option" where
  "entry_name s =
     (case s of IObj ms \<Rightarrow> (case map_of ms ''name'' of Some (IStr n) \<Rightarrow> Some n | _ \<Rightarrow> None) | _ \<Rightarrow> None)"

fun put_server :: "string \<Rightarrow> iface \<Rightarrow> iface list \<Rightarrow> iface list" where
  "put_server n e [] = [e]"
| "put_server n e (s # ss) = (if entry_name s = Some n then e # ss else s # put_server n e ss)"

definition drop_server :: "string \<Rightarrow> iface list \<Rightarrow> iface list" where
  "drop_server n ss = filter (\<lambda>s. entry_name s \<noteq> Some n) ss"

definition listed :: "str_map \<Rightarrow> iface list" where
  "listed d = (case d ''servers'' of None \<Rightarrow> [] | Some txt \<Rightarrow> if txt = [] then [] else decode_servers txt)"

definition with_server :: "MCPServer \<Rightarrow> str_map \<Rightarrow> str_map" where
  "with_server srv d = d(''servers'' \<mapsto> encode_servers (put_server (mcp_Name srv) (mcp_entry srv) (listed d)))"

definition updateConfigMap :: "'c mcp_api \<Rightarrow> string \<Rightarrow> MCPServer \<Rightarrow> 'c \<Rightarrow> kerr option \<times> 'c" where
  "updateConfigMap a ns srv c =
     (case m_get_list a c ns of
        Inl NotFound \<Rightarrow> m_create_list a c ns (with_server srv Map.empty)
      | Inl e \<Rightarrow> (Some e, c)
      | Inr d \<Rightarrow> m_update_list a c ns (with_server srv (case d of None \<Rightarrow> Map.empty | Some d \<Rightarrow> d)))"

text \<open>Removing writes into the map as it is: a nil map panics.\<close>

definition removeFromConfigMap :: "'c mcp_api \<Rightarrow> string \<Rightarrow> MCPServer \<Rightarrow> 'c \<Rightarrow> 'c option" where
  "removeFromConfigMap a ns srv c =
     (case m_get_list a c ns of
        Inl _ \<Rightarrow> Some c
      | Inr None \<Rightarrow> None
      | Inr (Some d) \<Rightarrow>
          Some (snd (m_update_list a c ns
            (d(''servers'' \<mapsto> encode_servers (drop_server (mcp_Name srv) (listed d)))))))"

section \<open>Reconcile\<close>

definition setStatus :: "'c ctx \<Rightarrow> 'c mcp_api \<Rightarrow> string \<Rightarrow> string \<Rightarrow> string \<Rightarrow> MCPServer \<Rightarrow> 'c \<Rightarrow> MCPServer \<times> 'c" where
  "setStatus x a phase reason msg srv c =
     (let st = mcp_Status srv;
          cond = \<lparr>c_Type = ''Ready'', c_Status = (if phase = ''Ready'' then ''True'' else ''False''),
            c_LastTransitionTime = x_now x, c_Reason = reason, c_Message = msg\<rparr>;
          srv1 = srv\<lparr>mcp_Status := st\<lparr>mcs_Phase := phase, mcs_Message := msg,
            mcs_Conditions := x_setcond x (mcs_Conditions st) cond\<rparr>\<rparr>
      in (srv1, m_status a c srv1))"

definition mcp_failed :: "'c ctx \<Rightarrow> 'c mcp_api \<Rightarrow> string \<Rightarrow> kerr \<Rightarrow> MCPServer \<Rightarrow> 'c \<Rightarrow> outcome \<times> MCPServer \<times> 'c" where
  "mcp_failed x a reason e srv c =
     (let (srv1, c1) = setStatus x a ''Error'' reason (x_errtext x e) srv c in (RequeueAfter (30 * second), srv1, c1))"

definition mcp_live :: "'c ctx \<Rightarrow> 'c mcp_api \<Rightarrow> string \<Rightarrow> MCPServer \<Rightarrow> 'c \<Rightarrow> (outcome \<times> MCPServer \<times> 'c) option" where
  "mcp_live x a ns srv c =
     (case reconcileDeployment a srv c of
        None \<Rightarrow> None
      | Some (Some e, c1) \<Rightarrow> Some (mcp_failed x a ''DeploymentFailed'' e srv c1)
      | Some (None, c1) \<Rightarrow>
          (case reconcileService a srv c1 of
             (Some e, c2) \<Rightarrow> Some (mcp_failed x a ''ServiceFailed'' e srv c2)
           | (None, c2) \<Rightarrow>
               (let (_, c3) = updateConfigMap a ns srv c2;
                    (srv1, c4) = setStatus x a ''Ready'' ''Deployed''
                      ''Deployment and Service created, registered in mcp-servers ConfigMap'' srv c3
                in Some (RequeueAfter (5 * minute), srv1, c4))))"

definition mcp_write :: "'c mcp_api \<Rightarrow> MCPServer \<Rightarrow> outcome \<Rightarrow> 'c \<Rightarrow> outcome \<times> MCPServer \<times> 'c" where
  "mcp_write a srv out c =
     (let (err, c1) = m_update a c srv in (case err of Some e \<Rightarrow> Fail e | None \<Rightarrow> out, srv, c1))"

definition mcp_deleted :: "'c ctx \<Rightarrow> 'c mcp_api \<Rightarrow> string \<Rightarrow> MCPServer \<Rightarrow> 'c \<Rightarrow> (outcome \<times> MCPServer \<times> 'c) option" where
  "mcp_deleted x a ns srv c =
     (if \<not> x_has_finalizer x (mcp_Meta srv) mcpServerFinalizer then Some (Done, srv, c)
      else map_option (mcp_write a (srv\<lparr>mcp_Meta := x_remove_finalizer x (mcp_Meta srv) mcpServerFinalizer\<rparr>) Done)
             (removeFromConfigMap a ns srv c))"

definition reconcile_mcp :: "'c ctx \<Rightarrow> 'c mcp_api \<Rightarrow> string \<Rightarrow> key \<Rightarrow> 'c \<Rightarrow> (outcome \<times> MCPServer option \<times> 'c) option" where
  "reconcile_mcp x a ns k c =
     (case m_get a c k of
        Inl NotFound \<Rightarrow> Some (Done, None, c)
      | Inl e \<Rightarrow> Some (Fail e, None, c)
      | Inr srv \<Rightarrow>
          map_option (\<lambda>(out, s, c). (out, Some s, c))
            (if om_DeletionTimestamp (mcp_Meta srv) \<noteq> None then mcp_deleted x a ns srv c
             else if \<not> x_has_finalizer x (mcp_Meta srv) mcpServerFinalizer
             then Some (mcp_write a (srv\<lparr>mcp_Meta := x_add_finalizer x (mcp_Meta srv) mcpServerFinalizer\<rparr>) Requeue c)
             else mcp_live x a ns srv c))"

end
