(* ===== verification/MCP_Properties.thy ===== *)
theory MCP_Properties imports MCP_Controller Sample_Cluster begin

text \<open>What the MCP server controller keeps of the list of servers, and when it reports a server as ready.\<close>

lemma entry_name_mcp [simp]: "entry_name (mcp_entry srv) = Some (mcp_Name srv)"
  by (simp add: entry_name_def mcp_entry_def Let_def)

lemma find_put_server: "entry_name e = Some n \<Longrightarrow> find (\<lambda>x. entry_name x = Some n) (put_server n e ss) = Some e"
  by (induction ss) auto

lemma filter_put_server:
  "entry_name e = Some n \<Longrightarrow>
     filter (\<lambda>x. entry_name x \<noteq> Some n) (put_server n e ss) = filter (\<lambda>x. entry_name x \<noteq> Some n) ss"
  by (induction ss) auto

interpretation servers: keyed_table entry_name put_server drop_server
  by unfold_locales (auto simp: find_put_server filter_put_server drop_server_def)

lemma put_server_again:
  "entry_name e = Some n \<Longrightarrow> entry_name f = Some n \<Longrightarrow> put_server n f (put_server n e ss) = put_server n f ss"
  by (induction ss) auto

text \<open>Registering a server in the list puts its entry under its name and leaves the entries of all other
  names as they are; registering again replaces it; removing it takes its entry and nothing else, whether
  it was there before or not.\<close>

theorem registration_local:
  "let ss' = put_server (mcp_Name srv) (mcp_entry srv) ss in
   find (\<lambda>s. entry_name s = Some (mcp_Name srv)) ss' = Some (mcp_entry srv) \<and>
   filter (\<lambda>s. entry_name s \<noteq> Some (mcp_Name srv)) ss' = filter (\<lambda>s. entry_name s \<noteq> Some (mcp_Name srv)) ss \<and>
   put_server (mcp_Name srv) (mcp_entry srv) ss' = ss' \<and>
   drop_server (mcp_Name srv) ss' = drop_server (mcp_Name srv) ss \<and>
   find (\<lambda>s. entry_name s = Some (mcp_Name srv)) (drop_server (mcp_Name srv) ss') = None"
  by (simp add: servers.find_put servers.others_put servers.del_put servers.find_del put_server_again Let_def)

section \<open>Lists that are no JSON\<close>

text \<open>C33: The list is decoded as JSON and errors are dropped, although the registry reads it as YAML and the
  chart writes it so: registering one server then replaces the whole list by its own entry.\<close>

theorem yaml_list_overwritten:
  assumes "m_get_list a c ns = Inr (Some d)" "d ''servers'' = Some txt" "parse_json txt = None"
  shows "updateConfigMap a ns srv c = m_update_list a c ns (d(''servers'' \<mapsto> encode_servers [mcp_entry srv]))"
  using assms by (simp add: updateConfigMap_def with_server_def listed_def decode_servers_def)

definition yaml_list :: string where
  "yaml_list = ''- name: lumino'' @ [CHR 0x0A] @ ''  url: http://localhost:8000'' @ [CHR 0x0A]"

definition named_server :: "string \<Rightarrow> MCPServer" where
  "named_server n =
     \<lparr>mcp_Meta = named_meta n,
      mcp_Spec = \<lparr>mc_Image = ''img'', mc_Port = 0, mc_Args = [], mc_Replicas = None, mc_Auth = ''none'',
        mc_SecretRef = [], mc_Icon = [], mc_Category = [], mc_HostNetwork = False, mc_Env = [], mc_Resources = None\<rparr>,
      mcp_Status = \<lparr>mcs_Phase = [], mcs_ToolCount = 0, mcs_LastDiscovery = None, mcs_Message = [], mcs_Conditions = []\<rparr>\<rparr>"

text \<open>A cluster that holds only the data of the ConfigMap.\<close>

definition list_mcp :: "(str_map option) mcp_api" where
  "list_mcp =
     \<lparr>m_get = (\<lambda>_ k. Inr (named_server (snd k))), m_update = (\<lambda>c _. (None, c)), m_status = (\<lambda>c _. c),
      m_get_deploy = (\<lambda>_ _. Inl NotFound), m_create_deploy = (\<lambda>c _. (None, c)), m_update_deploy = (\<lambda>c _. (None, c)),
      m_get_svc = (\<lambda>_ _. Inl NotFound), m_create_svc = (\<lambda>c _. (None, c)), m_update_svc = (\<lambda>c _. (None, c)),
      m_get_list = (\<lambda>c _. Inr c), m_create_list = (\<lambda>_ _ d. (None, Some d)), m_update_list = (\<lambda>_ _ d. (None, Some d)),
      m_quantity = (\<lambda>_. True)\<rparr>"

lemma yaml_list_overwritten_witness:
  "updateConfigMap list_mcp ''agents'' (named_server ''git'') (Some [''servers'' \<mapsto> yaml_list]) =
     (None, Some [''servers'' \<mapsto> encode_servers [mcp_entry (named_server ''git'')]])"
proof -
  have "parse_json yaml_list = None" by code_simp
  then show ?thesis
    using yaml_list_overwritten [of list_mcp "Some [''servers'' \<mapsto> yaml_list]" "''agents''" "[''servers'' \<mapsto> yaml_list]"
        yaml_list "named_server ''git''"]
    by (simp add: list_mcp_def)
qed

section \<open>Reports\<close>

text \<open>
  A server counts as ready, with a message that says it is registered, also when its registration failed;
  and a ConfigMap without data makes the removal panic.
\<close>

lemma ready_without_registration:
  assumes "reconcileDeployment a srv c = Some (None, c1)" "reconcileService a srv c1 = (None, c2)"
    and "m_get_list a c2 ns = Inl (OtherError e)"
  shows "\<exists>srv' c'. mcp_live x a ns srv c = Some (RequeueAfter (5 * minute), srv', c') \<and>
    mcs_Phase (mcp_Status srv') = ''Ready''"
  using assms by (simp add: mcp_live_def updateConfigMap_def setStatus_def Let_def)

lemma removal_panics: "m_get_list a c ns = Inr None \<Longrightarrow> removeFromConfigMap a ns srv c = None"
  by (simp add: removeFromConfigMap_def)

lemma bad_quantity_panics:
  "\<not> quantities_ok a srv \<Longrightarrow> mcp_live x a ns srv c = None"
  by (simp add: mcp_live_def reconcileDeployment_def Let_def)

end
