(* ===== verification/Licensing.thy ===== *)
theory Licensing imports Recording begin

text \<open>
  Tiers and their limits (\<^verbatim>\<open>pkg/licensing\<close>), and what the entry point \<^verbatim>\<open>cmd/operator/main.go\<close> does with
  them: reading the key from the secret and pruning the history.  The package's variables are the record
  \<open>licensing\<close>; \<^verbatim>\<open>sync.Once\<close> is its field \<open>li_once\<close>.
\<close>

section \<open>Tiers\<close>

datatype Tier = Community | Pro | Enterprise

fun tier_num :: "Tier \<Rightarrow> int" where
  "tier_num Community = 0"
| "tier_num Pro = 1"
| "tier_num Enterprise = 2"

lemma tier_num_eq: "tier_num s = tier_num t \<longleftrightarrow> s = t"
  by (cases s; cases t) simp_all

instantiation Tier :: linorder
begin

definition less_eq_Tier :: "Tier \<Rightarrow> Tier \<Rightarrow> bool" where
  "s \<le> t \<longleftrightarrow> tier_num s \<le> tier_num t"

definition less_Tier :: "Tier \<Rightarrow> Tier \<Rightarrow> bool" where
  "s < t \<longleftrightarrow> tier_num s < tier_num t"

instance
  by standard (auto simp: less_eq_Tier_def less_Tier_def tier_num_eq)

end

definition tier_String :: "Tier \<Rightarrow> string" where
  "tier_String t =
     (case t of Pro \<Rightarrow> ''Pro'' | Enterprise \<Rightarrow> ''Enterprise'' | Community \<Rightarrow> ''Community'')"

definition validateLicense :: "string \<Rightarrow> Tier" where
  "validateLicense k = (if k = ''pro'' then Pro else if k = ''enterprise'' then Enterprise else Community)"

section \<open>The gate\<close>

record licensing =
  li_tier :: Tier
  li_dev :: bool
  li_initialized :: bool
  li_once :: bool

definition licensing_start :: licensing where
  "licensing_start = \<lparr>li_tier = Community, li_dev = True, li_initialized = False, li_once = False\<rparr>"

text \<open>The reader gives the error or the text of the secret; \<open>None\<close> is a nil callback.\<close>

definition license_key :: "string \<Rightarrow> (kerr + string) option \<Rightarrow> string" where
  "license_key env reader =
     (if env = [] then (case reader of Some (Inr v) \<Rightarrow> v | _ \<Rightarrow> []) else env)"

definition Init :: "string \<Rightarrow> (kerr + string) option \<Rightarrow> licensing \<Rightarrow> licensing" where
  "Init env reader l =
     (if li_once l then l
      else (let license = license_key env reader; l1 = l\<lparr>li_once := True, li_initialized := True\<rparr> in
            if license = [] \<or> license = ''dev'' then l1\<lparr>li_dev := True, li_tier := Community\<rparr>
            else l1\<lparr>li_dev := False, li_tier := validateLicense license\<rparr>))"

definition IsProEnabled :: "licensing \<Rightarrow> bool" where
  "IsProEnabled l \<longleftrightarrow> li_dev l \<or> Pro \<le> li_tier l"

definition IsEnterpriseEnabled :: "licensing \<Rightarrow> bool" where
  "IsEnterpriseEnabled l \<longleftrightarrow> li_dev l \<or> Enterprise \<le> li_tier l"

section \<open>Limits\<close>

record TierLimits =
  tl_MaxAgents :: int
  tl_MaxExecutionsMonth :: int
  tl_MaxClusters :: int
  tl_MaxUsers :: int
  tl_DAGWorkflows :: bool
  tl_WebDashboard :: bool
  tl_IntentBar :: bool
  tl_VisualBuilder :: bool
  tl_WebhookEvents :: int
  tl_HistoryRetention :: int

definition Limits :: "Tier \<Rightarrow> TierLimits" where
  "Limits t = (case t of
     Community \<Rightarrow> \<lparr>tl_MaxAgents = 10, tl_MaxExecutionsMonth = 1000, tl_MaxClusters = 1, tl_MaxUsers = 0,
       tl_DAGWorkflows = False, tl_WebDashboard = True, tl_IntentBar = False, tl_VisualBuilder = True,
       tl_WebhookEvents = 0, tl_HistoryRetention = 7\<rparr>
   | Pro \<Rightarrow> \<lparr>tl_MaxAgents = 50, tl_MaxExecutionsMonth = 25000, tl_MaxClusters = 3, tl_MaxUsers = 25,
       tl_DAGWorkflows = True, tl_WebDashboard = True, tl_IntentBar = True, tl_VisualBuilder = True,
       tl_WebhookEvents = 10000, tl_HistoryRetention = 90\<rparr>
   | Enterprise \<Rightarrow> \<lparr>tl_MaxAgents = 0, tl_MaxExecutionsMonth = 0, tl_MaxClusters = 0, tl_MaxUsers = 0,
       tl_DAGWorkflows = True, tl_WebDashboard = True, tl_IntentBar = True, tl_VisualBuilder = True,
       tl_WebhookEvents = 0, tl_HistoryRetention = 0\<rparr>)"

definition GetLimits :: "licensing \<Rightarrow> TierLimits" where
  "GetLimits l = (if li_dev l then Limits Enterprise else Limits (li_tier l))"

text \<open>The check the comment on the limits asks of a caller.\<close>

definition under_cap :: "int \<Rightarrow> int \<Rightarrow> bool" where
  "under_cap cap current \<longleftrightarrow> \<not> (0 < cap \<and> cap < current)"

section \<open>The entry point\<close>

text \<open>The callback reads the key \<^verbatim>\<open>license\<close> of the secret; a secret without it is no license.\<close>

definition license_reader :: "kerr + str_map \<Rightarrow> kerr + string" where
  "license_reader found = (case found of Inl e \<Rightarrow> Inl e | Inr d \<Rightarrow> Inr (get_str d ''license''))"

definition operator_license :: "string \<Rightarrow> kerr + str_map \<Rightarrow> licensing" where
  "operator_license env found = Init env (Some (license_reader found)) licensing_start"

text \<open>The clean-up that runs at the start and then once a day; its errors are only logged.\<close>

definition prune_history :: "licensing \<Rightarrow> time \<Rightarrow> history \<Rightarrow> history" where
  "prune_history l now h =
     (let retention = tl_HistoryRetention (GetLimits l) in
      if retention \<le> 0 then h
      else snd (DeleteRunsOlderThan h now retention))"

definition prune_recall_log :: "time \<Rightarrow> mem_store \<Rightarrow> mem_store" where
  "prune_recall_log now m = snd (DeleteRecallLogOlderThan m now 90)"

section \<open>Properties\<close>

lemma Init_once: "Init env' reader' (Init env reader l) = Init env reader l"
  by (simp add: Init_def Let_def)

text \<open>The license decides the features and nothing else does: the operator is licensed for Pro exactly when
  the key is missing, \<open>dev\<close>, \<open>pro\<close> or \<open>enterprise\<close>, for Enterprise exactly without \<open>pro\<close>; the workflow and intent
  features of the limits are on exactly for Pro; and no later call of \<open>Init\<close> changes any of it.\<close>

theorem license_decides:
  "let k = license_key env reader; l = Init env reader licensing_start in
   (IsProEnabled l \<longleftrightarrow> k \<in> {[], ''dev'', ''pro'', ''enterprise''}) \<and>
   (IsEnterpriseEnabled l \<longleftrightarrow> k \<in> {[], ''dev'', ''enterprise''}) \<and>
   (tl_DAGWorkflows (GetLimits l) \<longleftrightarrow> IsProEnabled l) \<and> (tl_IntentBar (GetLimits l) \<longleftrightarrow> IsProEnabled l) \<and>
   Init env' reader' l = l"
proof -
  have "IsProEnabled (Init env reader licensing_start) \<longleftrightarrow> license_key env reader \<in> {[], ''dev'', ''pro'', ''enterprise''}"
    "IsEnterpriseEnabled (Init env reader licensing_start) \<longleftrightarrow> license_key env reader \<in> {[], ''dev'', ''enterprise''}"
    "tl_DAGWorkflows (GetLimits (Init env reader licensing_start)) \<longleftrightarrow> license_key env reader \<in> {[], ''dev'', ''pro'', ''enterprise''}"
    "tl_IntentBar (GetLimits (Init env reader licensing_start)) \<longleftrightarrow> license_key env reader \<in> {[], ''dev'', ''pro'', ''enterprise''}"
    by (auto simp: Init_def Let_def licensing_start_def IsProEnabled_def IsEnterpriseEnabled_def GetLimits_def
        Limits_def validateLicense_def less_eq_Tier_def)
  then show ?thesis by (simp add: Let_def Init_once)
qed

text \<open>A higher tier does not always allow more: a limit of zero means unlimited, and Community has it for users
  and webhook events.\<close>

lemma limits_not_monotone:
  "under_cap (tl_MaxUsers (Limits Community)) 26 \<and> \<not> under_cap (tl_MaxUsers (Limits Pro)) 26 \<and>
   under_cap (tl_WebhookEvents (Limits Community)) 10001 \<and> \<not> under_cap (tl_WebhookEvents (Limits Pro)) 10001"
  by (simp add: Limits_def under_cap_def)

text \<open>Without a license the history is never pruned, although the dashboard reports the seven days of Community.\<close>

lemma unlicensed_never_prunes: "prune_history (operator_license [] (Inl e)) now h = h"
  by (simp add: prune_history_def operator_license_def license_reader_def Init_def license_key_def Let_def licensing_start_def
      GetLimits_def Limits_def)

end
