(* ===== verification/Http.thy ===== *)
theory Http imports Kube begin

text \<open>
  What the handlers of the dashboard share: requests and responses, the decoding of a request body into a
  struct, and the calls of the API server that only the dashboard makes.  The router of \<^verbatim>\<open>net/http\<close>, the
  connection and the text of decoding errors are not code of the repository.
\<close>

section \<open>Requests and responses\<close>

text \<open>A header and a query parameter that is missing reads as the empty text; a body that is missing is \<open>None\<close>.\<close>

record request =
  rq_Method :: string
  rq_Path :: string
  rq_Query :: "string \<Rightarrow> string"
  rq_Header :: "string \<Rightarrow> string"
  rq_Body :: "string option"

datatype body = Text string | Json iface

text \<open>
  \<open>rp_Headers\<close> says whether the content type and the CORS header reach the client: headers that are set after
  the status line was written are lost.
\<close>

record response =
  rp_Code :: int
  rp_Headers :: bool
  rp_Body :: body

definition http_error :: "string \<Rightarrow> int \<Rightarrow> response" where
  "http_error msg code = \<lparr>rp_Code = code, rp_Headers = False, rp_Body = Text (msg @ [CHR 0x0A])\<rparr>"

definition writeJSON :: "iface \<Rightarrow> response" where
  "writeJSON v = \<lparr>rp_Code = 200, rp_Headers = True, rp_Body = Json v\<rparr>"

text \<open>\<^verbatim>\<open>w.WriteHeader(code)\<close> before \<^verbatim>\<open>writeJSON\<close>.\<close>

definition header_first :: "int \<Rightarrow> iface \<Rightarrow> response" where
  "header_first code v = \<lparr>rp_Code = code, rp_Headers = False, rp_Body = Json v\<rparr>"

definition obj_str :: "(string \<times> string) list \<Rightarrow> iface" where
  "obj_str ms = IObj (map (\<lambda>(k, v). (k, IStr v)) ms)"

definition int_val :: "int \<Rightarrow> iface" where
  "int_val n = INum (Fin (of_int n))"

definition reply_error :: "string \<Rightarrow> response" where
  "reply_error msg = writeJSON (obj_str [(''error'', msg)])"

definition reply_done :: "string \<Rightarrow> string \<Rightarrow> response" where
  "reply_done status name = writeJSON (obj_str [(''status'', status), (''name'', name)])"

text \<open>Times are shown in UTC.\<close>

definition RFC3339 :: "time \<Rightarrow> string" where
  "RFC3339 t = show_date t @ ''T'' @ show_clock t @ ''Z''"

section \<open>Decoding a body\<close>

text \<open>
  A decoder reads the first value of the body and leaves the rest.  \<open>null\<close> leaves the struct as it is; a value
  that is no object is an error.
\<close>

definition body_value :: "request \<Rightarrow> jtree option" where
  "body_value r = map_option fst (pval (skip_ws (case rq_Body r of None \<Rightarrow> [] | Some s \<Rightarrow> s)))"

definition body_members :: "request \<Rightarrow> (string \<times> string \<times> jtree) list option" where
  "body_members r =
     (case body_value r of Some (TObj ms) \<Rightarrow> Some ms | Some TNull \<Rightarrow> Some [] | _ \<Rightarrow> None)"

definition field_bool :: "string \<Rightarrow> (string \<times> string \<times> jtree) list \<Rightarrow> bool option" where
  "field_bool name ms =
     (case struct_field name ms of None \<Rightarrow> Some False | Some (TBool b) \<Rightarrow> Some b | _ \<Rightarrow> None)"

text \<open>A pointer field is set by its last member, \<open>null\<close> makes it nil.\<close>

definition field_last :: "string \<Rightarrow> (string \<times> string \<times> jtree) list \<Rightarrow> jtree" where
  "field_last name ms =
     (case [v. (k, _, v) \<leftarrow> ms, EqualFold k name] of [] \<Rightarrow> TNull | vs \<Rightarrow> last vs)"

definition field_str_ptr :: "string \<Rightarrow> (string \<times> string \<times> jtree) list \<Rightarrow> string option option" where
  "field_str_ptr name ms =
     (case field_last name ms of TNull \<Rightarrow> Some None | TStr s \<Rightarrow> Some (Some s) | _ \<Rightarrow> None)"

definition field_bool_ptr :: "string \<Rightarrow> (string \<times> string \<times> jtree) list \<Rightarrow> bool option option" where
  "field_bool_ptr name ms =
     (case field_last name ms of TNull \<Rightarrow> Some None | TBool b \<Rightarrow> Some (Some b) | _ \<Rightarrow> None)"

definition elem_str :: "jtree \<Rightarrow> string option" where
  "elem_str v = (case v of TNull \<Rightarrow> Some [] | TStr s \<Rightarrow> Some s | _ \<Rightarrow> None)"

definition field_strs :: "string \<Rightarrow> (string \<times> string \<times> jtree) list \<Rightarrow> string list option" where
  "field_strs name ms =
     (case field_last name ms of
        TNull \<Rightarrow> Some []
      | TArr vs \<Rightarrow> those (map (\<lambda>(_, v). elem_str v) vs)
      | _ \<Rightarrow> None)"

text \<open>
  A map of strings.  The strict reading stops at a value of another type; the lenient one, where the caller
  drops the error, keeps the member with the empty text.
\<close>

definition strict_str_map :: "(string \<times> string \<times> jtree) list \<Rightarrow> str_alist option" where
  "strict_str_map ms =
     map_option (\<lambda>kvs. foldl (\<lambda>m (k, v). alist_put k v m) [] kvs)
       (those (map (\<lambda>(k, _, v). map_option (Pair k) (elem_str v)) ms))"

definition lenient_str_map :: "(string \<times> string \<times> jtree) list \<Rightarrow> str_alist" where
  "lenient_str_map ms =
     foldl (\<lambda>m (k, _, v). alist_put k (case elem_str v of None \<Rightarrow> [] | Some s \<Rightarrow> s) m) [] ms"

text \<open>The result is \<open>None\<close> for a nil map.\<close>

definition field_str_map :: "string \<Rightarrow> (string \<times> string \<times> jtree) list \<Rightarrow> str_alist option option" where
  "field_str_map name ms =
     (case field_last name ms of
        TNull \<Rightarrow> Some None
      | TObj kvs \<Rightarrow> map_option Some (strict_str_map kvs)
      | _ \<Rightarrow> None)"

section \<open>The server\<close>

text \<open>
  The calls the controllers do not make.  The data of a ConfigMap that is read as a whole is \<open>None\<close> for a nil
  map.  \<open>d_json_error\<close> is the text of the error a body that cannot be decoded gives.
\<close>

record 'c dash =
  d_ctx :: "'c ctx"
  d_Namespace :: string
  d_create_wf :: "'c \<Rightarrow> Workflow \<Rightarrow> kerr option \<times> 'c"
  d_delete_wf :: "'c \<Rightarrow> key \<Rightarrow> kerr option \<times> 'c"
  d_list_agents :: "'c \<Rightarrow> string \<Rightarrow> Agent list" \<comment> \<open>empty when the call fails\<close>
  d_create_agent :: "'c \<Rightarrow> Agent \<Rightarrow> kerr option \<times> 'c"
  d_update_agent :: "'c \<Rightarrow> Agent \<Rightarrow> kerr option \<times> 'c"
  d_delete_agent :: "'c \<Rightarrow> key \<Rightarrow> kerr option \<times> 'c"
  d_list_mcp :: "'c \<Rightarrow> kerr + MCPServer list"
  d_create_mcp :: "'c \<Rightarrow> MCPServer \<Rightarrow> kerr option \<times> 'c"
  d_delete_mcp :: "'c \<Rightarrow> key \<Rightarrow> kerr option \<times> 'c"
  d_list_llm :: "'c \<Rightarrow> kerr + LLMProvider list" \<comment> \<open>in every namespace\<close>
  d_create_llm :: "'c \<Rightarrow> LLMProvider \<Rightarrow> kerr option \<times> 'c"
  d_delete_llm :: "'c \<Rightarrow> key \<Rightarrow> kerr option \<times> 'c"
  d_get_data :: "'c \<Rightarrow> key \<Rightarrow> kerr + str_map option"
  d_create_data :: "'c \<Rightarrow> key \<Rightarrow> str_map \<Rightarrow> kerr option \<times> 'c"
  d_update_data :: "'c \<Rightarrow> key \<Rightarrow> str_map \<Rightarrow> kerr option \<times> 'c"
  d_pods :: "'c \<Rightarrow> string \<Rightarrow> string \<Rightarrow> (string \<times> string \<times> string) list" \<comment> \<open>name, phase, address of an agent's pods\<close>
  d_deployments :: "'c \<Rightarrow> string \<Rightarrow> string \<Rightarrow> nat" \<comment> \<open>namespace, value of the label \<open>app.kubernetes.io/part-of\<close>\<close>
  d_scalers :: "'c \<Rightarrow> string \<Rightarrow> nat"
  d_json_error :: "string \<Rightarrow> string"
  d_settle :: "'c \<Rightarrow> 'c" \<comment> \<open>what the rest of the system does while a handler sleeps\<close>

definition ns_of :: "'c dash \<Rightarrow> string" where
  "ns_of s = (if d_Namespace s \<noteq> [] then d_Namespace s else ''ai-agents'')"

definition nsOrDefault :: "'c dash \<Rightarrow> string \<Rightarrow> string" where
  "nsOrDefault s v = (if v = [] then ns_of s else v)"

abbreviation d_api :: "'c dash \<Rightarrow> 'c api" where "d_api s \<equiv> x_api (d_ctx s)"
abbreviation d_errtext :: "'c dash \<Rightarrow> kerr \<Rightarrow> string" where "d_errtext s \<equiv> x_errtext (d_ctx s)"
abbreviation d_now :: "'c dash \<Rightarrow> time" where "d_now s \<equiv> x_now (d_ctx s)"

definition bad_body :: "'c dash \<Rightarrow> request \<Rightarrow> response" where
  "bad_body s r = reply_error (d_json_error s (case rq_Body r of None \<Rightarrow> [] | Some b \<Rightarrow> b))"

text \<open>A write and its answer.\<close>

definition written :: "'c dash \<Rightarrow> kerr option \<times> 'c \<Rightarrow> response \<Rightarrow> response \<times> 'c" where
  "written s res ok = (case res of (Some e, c) \<Rightarrow> (reply_error (d_errtext s e), c) | (None, c) \<Rightarrow> (ok, c))"

definition post_only :: "request \<Rightarrow> 'c \<Rightarrow> response \<times> 'c \<Rightarrow> response \<times> 'c" where
  "post_only r c answer = (if rq_Method r \<noteq> ''POST'' then (http_error ''POST required'' 405, c) else answer)"

end
