(* ===== verification/Router.thy ===== *)
theory Router imports Http begin

text \<open>
  The routing of webhooks (\<^verbatim>\<open>dashboard/router.go\<close>): the payload of a source is reduced to a few fields, and the
  first rule that matches them names the workflow.
\<close>

section \<open>Rules and payloads\<close>

record TriggerRule =
  tg_Name :: string
  tg_Source :: string
  tg_Match :: "str_alist option" \<comment> \<open>\<open>None\<close> for a nil map\<close>
  tg_Workflow :: string

record NormalizedPayload =
  np_Source :: string
  np_Title :: string
  np_Severity :: string
  np_Service :: string
  np_Action :: string
  np_Type :: string
  np_Repository :: string
  np_User :: string
  np_Description :: string

type_synonym payload = "(string \<times> iface) list"

definition getString :: "payload \<Rightarrow> string \<Rightarrow> string" where
  "getString m key = (case map_of m key of None \<Rightarrow> [] | Some v \<Rightarrow> show_iface v)"

text \<open>A member that is an object; every other value fails the type assertion.\<close>

definition get_map :: "payload \<Rightarrow> string \<Rightarrow> payload option" where
  "get_map m key = (case map_of m key of Some (IObj ms) \<Rightarrow> Some ms | _ \<Rightarrow> None)"

definition empty_payload :: "string \<Rightarrow> NormalizedPayload" where
  "empty_payload source = \<lparr>np_Source = source, np_Title = [], np_Severity = [], np_Service = [], np_Action = [],
     np_Type = [], np_Repository = [], np_User = [], np_Description = []\<rparr>"

definition default_str :: "string \<Rightarrow> string \<Rightarrow> string" where
  "default_str v d = (if v = [] then d else v)"

section \<open>Normalising\<close>

definition pagerduty_data :: "payload \<Rightarrow> NormalizedPayload \<Rightarrow> NormalizedPayload" where
  "pagerduty_data event n =
     (case get_map event ''data'' of
        None \<Rightarrow> n
      | Some data \<Rightarrow>
          n\<lparr>np_Title := getString data ''title'', np_Severity := getString data ''urgency'',
            np_Service := (case get_map data ''service'' of None \<Rightarrow> np_Service n | Some svc \<Rightarrow> getString svc ''name'')\<rparr>)"

definition from_pagerduty :: "payload \<Rightarrow> NormalizedPayload \<Rightarrow> NormalizedPayload" where
  "from_pagerduty raw n0 =
     (let n = (case get_map raw ''event'' of
                 None \<Rightarrow> n0
               | Some event \<Rightarrow> (pagerduty_data event n0)\<lparr>np_Type := getString event ''event_type'',
                                  np_Action := getString event ''event_type''\<rparr>)
      in n\<lparr>np_Title := default_str (np_Title n) (getString raw ''title''),
           np_Severity := default_str (np_Severity n) (getString raw ''severity''),
           np_Service := default_str (np_Service n) (getString raw ''service'')\<rparr>)"

definition from_github :: "payload \<Rightarrow> NormalizedPayload \<Rightarrow> NormalizedPayload" where
  "from_github raw n0 =
     (let n1 = n0\<lparr>np_Action := getString raw ''action'',
                 np_Repository := (case get_map raw ''repository'' of None \<Rightarrow> np_Repository n0
                                   | Some repo \<Rightarrow> getString repo ''full_name'')\<rparr>;
          n2 = (case get_map raw ''pull_request'' of None \<Rightarrow> n1
                | Some pr \<Rightarrow> n1\<lparr>np_Title := getString pr ''title'', np_Type := ''pull_request''\<rparr>);
          n3 = (case get_map raw ''issue'' of None \<Rightarrow> n2
                | Some issue \<Rightarrow> n2\<lparr>np_Title := getString issue ''title'', np_Type := ''issue''\<rparr>)
      in if np_Type n3 = [] \<and> (map_of raw ''push'' \<noteq> None \<or> map_of raw ''ref'' \<noteq> None)
         then n3\<lparr>np_Type := ''push''\<rparr> else n3)"

definition from_slack :: "payload \<Rightarrow> NormalizedPayload \<Rightarrow> NormalizedPayload" where
  "from_slack raw n = n\<lparr>np_Action := getString raw ''command'', np_Title := getString raw ''text'',
     np_User := getString raw ''user_name'', np_Type := ''slash_command''\<rparr>"

definition from_generic :: "payload \<Rightarrow> NormalizedPayload \<Rightarrow> NormalizedPayload" where
  "from_generic raw n = n\<lparr>np_Title := getString raw ''title'', np_Severity := getString raw ''severity'',
     np_Service := getString raw ''service'', np_Action := getString raw ''action'', np_Type := getString raw ''type''\<rparr>"

definition description :: "NormalizedPayload \<Rightarrow> string" where
  "description n =
     join '' | ''
       ((if np_Title n \<noteq> [] then [np_Title n] else []) @
        (if np_Service n \<noteq> [] then [''service: '' @ np_Service n] else []) @
        (if np_Severity n \<noteq> [] then [''severity: '' @ np_Severity n] else []) @
        (if np_Repository n \<noteq> [] then [''repo: '' @ np_Repository n] else []) @
        (if np_Action n \<noteq> [] then [''action: '' @ np_Action n] else []))"

definition normalizePayload :: "string \<Rightarrow> payload \<Rightarrow> NormalizedPayload" where
  "normalizePayload source raw =
     (let src = ToLower source;
          n = (if src = ''pagerduty'' then from_pagerduty raw (empty_payload source)
               else if src = ''github'' then from_github raw (empty_payload source)
               else if src = ''slack'' then from_slack raw (empty_payload source)
               else from_generic raw (empty_payload source))
      in n\<lparr>np_Description := description n\<rparr>)"

section \<open>Rules\<close>

text \<open>The community edition compiles the intent feature out (\<^verbatim>\<open>dashboard/handlers_community.go\<close>).\<close>

definition proFeatures :: "(string \<times> bool) list" where
  "proFeatures = [(''intent'', False), (''autonomy'', False), (''sso'', False), (''history'', True)]"

definition has_feature :: "string \<Rightarrow> bool" where
  "has_feature f \<longleftrightarrow> map_of proFeatures f = Some True"

definition rule :: "string \<Rightarrow> string \<Rightarrow> str_alist \<Rightarrow> string \<Rightarrow> TriggerRule" where
  "rule name source match target = \<lparr>tg_Name = name, tg_Source = source, tg_Match = Some match, tg_Workflow = target\<rparr>"

definition defaultRules :: "TriggerRule list" where
  "defaultRules =
     [rule ''pagerduty-critical'' ''pagerduty'' [(''severity'', ''critical'')] ''incident-response'',
      rule ''pagerduty-high'' ''pagerduty'' [(''severity'', ''high'')] ''cluster-investigation'',
      rule ''github-pr'' ''github'' [(''type'', ''pull_request'')] ''cluster-sdlc-analysis'',
      rule ''github-push'' ''github'' [(''type'', ''push'')] ''cluster-sdlc-analysis''] @
     (if has_feature ''intent'' then [rule ''fallback'' ''*'' [] ''_intent''] else [])"

definition decode_rule :: "jtree \<Rightarrow> TriggerRule option" where
  "decode_rule v =
     (case v of
        TNull \<Rightarrow> Some \<lparr>tg_Name = [], tg_Source = [], tg_Match = None, tg_Workflow = []\<rparr>
      | TObj ms \<Rightarrow>
          (case (field_str ''name'' ms, field_str ''source'' ms, field_str_map ''match'' ms, field_str ''workflow'' ms) of
             (Some n, Some s, Some m, Some w) \<Rightarrow> Some \<lparr>tg_Name = n, tg_Source = s, tg_Match = m, tg_Workflow = w\<rparr>
           | _ \<Rightarrow> None)
      | _ \<Rightarrow> None)"

definition decode_rules :: "jtree \<Rightarrow> TriggerRule list option" where
  "decode_rules v =
     (case v of TNull \<Rightarrow> Some [] | TArr vs \<Rightarrow> those (map (\<lambda>(_, v). decode_rule v) vs) | _ \<Rightarrow> None)"

definition loadRules :: "'c dash \<Rightarrow> string \<Rightarrow> 'c \<Rightarrow> TriggerRule list" where
  "loadRules s namespace c =
     (case d_get_data s c (namespace, ''trigger-rules'') of
        Inl _ \<Rightarrow> defaultRules
      | Inr None \<Rightarrow> defaultRules
      | Inr (Some d) \<Rightarrow>
          (case d ''rules'' of
             None \<Rightarrow> defaultRules
           | Some txt \<Rightarrow>
               (case Option.bind (parse_json txt) decode_rules of None \<Rightarrow> defaultRules | Some rs \<Rightarrow> rs)))"

section \<open>Matching\<close>

definition rule_field :: "NormalizedPayload \<Rightarrow> string \<Rightarrow> string" where
  "rule_field p key =
     (if key = ''severity'' then np_Severity p else if key = ''service'' then np_Service p
      else if key = ''action'' then np_Action p else if key = ''type'' then np_Type p
      else if key = ''repository'' then np_Repository p else [])"

definition matchRule :: "TriggerRule \<Rightarrow> NormalizedPayload \<Rightarrow> bool" where
  "matchRule r p \<longleftrightarrow>
     (tg_Source r = ''*'' \<or> EqualFold (tg_Source r) (np_Source p)) \<and>
     list_all (\<lambda>(key, expected). EqualFold (rule_field p key) expected)
       (case tg_Match r of None \<Rightarrow> [] | Some m \<Rightarrow> m)"

definition routeWebhook :: "TriggerRule list \<Rightarrow> NormalizedPayload \<Rightarrow> TriggerRule option" where
  "routeWebhook rules p = find (\<lambda>r. matchRule r p) rules"

section \<open>The rules of the dashboard\<close>

text \<open>\<^verbatim>\<open>json.MarshalIndent(rules, "", "  ")\<close>: fields in the order of the struct, the match sorted by key.\<close>

definition indent_match :: "str_alist option \<Rightarrow> string" where
  "indent_match m =
     (let nl = CHR 0x0A # ''      '' in
      case m of
        None \<Rightarrow> ''null''
      | Some kvs \<Rightarrow>
          if kvs = [] then ''{}''
          else ''{'' @ nl @ join ('','' @ nl) (map (\<lambda>(k, v). marshal_string k @ '': '' @ marshal_string v) (sort_keys kvs)) @
               CHR 0x0A # ''    }'')"

definition indent_rule :: "TriggerRule \<Rightarrow> string" where
  "indent_rule r =
     (let nl = CHR 0x0A # ''    '' in
      ''{'' @ nl @ join ('','' @ nl)
        [marshal_string ''name'' @ '': '' @ marshal_string (tg_Name r),
         marshal_string ''source'' @ '': '' @ marshal_string (tg_Source r),
         marshal_string ''match'' @ '': '' @ indent_match (tg_Match r),
         marshal_string ''workflow'' @ '': '' @ marshal_string (tg_Workflow r)] @ CHR 0x0A # ''  }'')"

definition indent_rules :: "bool \<Rightarrow> TriggerRule list \<Rightarrow> string" where
  "indent_rules nil rules =
     (let nl = CHR 0x0A # ''  '' in
      if nil then ''null''
      else if rules = [] then ''[]''
      else ''['' @ nl @ join ('','' @ nl) (map indent_rule rules) @ CHR 0x0A # '']'')"

definition rule_value :: "TriggerRule \<Rightarrow> iface" where
  "rule_value r = IObj [(''name'', IStr (tg_Name r)), (''source'', IStr (tg_Source r)),
     (''match'', (case tg_Match r of None \<Rightarrow> INil | Some m \<Rightarrow> obj_str m)), (''workflow'', IStr (tg_Workflow r))]"

text \<open>
  Saving the rules writes into the map of the ConfigMap as it is: a nil map panics, which is the result
  \<open>None\<close>.
\<close>

definition save_rules :: "'c dash \<Rightarrow> string \<Rightarrow> response \<Rightarrow> 'c \<Rightarrow> (response \<times> 'c) option" where
  "save_rules s txt ok c =
     (let k = (ns_of s, ''trigger-rules'') in
      case d_get_data s c k of
        Inl NotFound \<Rightarrow> Some (written s (d_create_data s c k [''rules'' \<mapsto> txt]) ok)
      | Inl e \<Rightarrow> Some (reply_error (d_errtext s e), c)
      | Inr None \<Rightarrow> None
      | Inr (Some d) \<Rightarrow> Some (written s (d_update_data s c k (d(''rules'' \<mapsto> txt))) ok))"

definition handleTriggerRules :: "'c dash \<Rightarrow> request \<Rightarrow> 'c \<Rightarrow> (response \<times> 'c) option" where
  "handleTriggerRules s r c =
     (if rq_Method r = ''GET'' then
        Some (writeJSON (IObj [(''rules'', IArr (map rule_value (loadRules s (ns_of s) c)))]), c)
      else if rq_Method r = ''POST'' then
        (case body_value r of
           None \<Rightarrow> Some (bad_body s r, c)
         | Some v \<Rightarrow>
             (case decode_rules v of
                None \<Rightarrow> Some (bad_body s r, c)
              | Some rules \<Rightarrow>
                  save_rules s (indent_rules (v = TNull) rules)
                    (writeJSON (obj_str [(''status'', ''saved''), (''count'', show_nat (length rules))])) c))
      else Some (http_error ''GET or POST required'' 405, c))"

end
