(* ===== verification/Json_Indent.thy ===== *)
theory Json_Indent imports Keyed_Table begin

text \<open>
  Indented documents read back: a text \<open>s\<close> that reads as a value keeps doing so inside an array or an object,
  whatever white space separates the elements.
\<close>

definition reads :: "string \<Rightarrow> jtree \<Rightarrow> bool" where
  "reads s v \<longleftrightarrow> s \<noteq> [] \<and> \<not> json_ws (hd s) \<and> (\<forall>r. pval (s @ r) = Some (v, r))"

definition blank :: "string \<Rightarrow> bool" where
  "blank w \<longleftrightarrow> list_all json_ws w"

lemma skip_ws_blank [simp]: "blank w \<Longrightarrow> skip_ws (w @ s) = skip_ws s"
  by (induction w) (simp_all add: blank_def skip_ws_def)

lemma skip_ws_reads: "reads s v \<Longrightarrow> skip_ws (s @ r) = s @ r"
  by (cases s) (simp_all add: reads_def skip_ws_def)

lemma reads_pval: "reads s v \<Longrightarrow> pval (s @ r) = Some (v, r)"
  by (simp add: reads_def)

lemma reads_string: "list_all ascii x \<Longrightarrow> reads (marshal_string x) (TStr x)"
  by (simp add: reads_def pval_marshal_string) (simp add: marshal_string_def json_ws_def)

lemma reads_null: "reads ''null'' TNull"
  by (simp add: reads_def json_ws_def pval.simps HasPrefix_def)

lemma reads_empty: "reads ''{}'' (TObj [])" "reads ''[]'' (TArr [])"
  by (simp_all add: reads_def json_ws_def pval.simps)

lemma reads_parse: "reads s v \<Longrightarrow> parse_json s = Some v"
  using skip_ws_reads [of s v "[]"] reads_pval [of s v "[]"] by (simp add: parse_json_def skip_ws_def)

section \<open>Arrays\<close>

lemma parr_step:
  assumes "reads s v" "blank w" "blank w'" "\<not> json_ws d"
  shows "parr (w @ s @ w' @ d # r) =
    (if d = CHR '']'' then Some ([(s, v)], r)
     else if d = CHR '','' then map_option (\<lambda>(vs, u). ((s, v) # vs, u)) (parr r) else None)"
  using assms by (subst parr.simps) (simp add: Let_def skip_ws_reads reads_pval)

lemma blank_Nil: "blank []"
  by (simp add: blank_def)

lemma parr_items:
  "svs \<noteq> [] \<Longrightarrow> list_all (\<lambda>(s, v). reads s v) svs \<Longrightarrow> blank w \<Longrightarrow> blank w' \<Longrightarrow>
   parr (w @ join (CHR '','' # w) (map fst svs) @ w' @ CHR '']'' # r) = Some (svs, r)"
proof (induction svs rule: induct_list012)
  case 1
  then show ?case by simp
next
  case (2 sv)
  then show ?case using parr_step [of "fst sv" "snd sv" w w' "CHR '']''" r]
    by (simp add: json_ws_def case_prod_beta)
next
  case (3 sv tv svs)
  then show ?case
    using parr_step [of "fst sv" "snd sv" w "[]" "CHR '',''" "w @ join (CHR '','' # w) (map fst (tv # svs)) @ w' @ CHR '']'' # r"]
    by (simp add: json_ws_def case_prod_beta blank_Nil)
qed

lemma join_reads_head:
  assumes "svs \<noteq> []" "list_all (\<lambda>(s, v). reads s v) svs"
  shows "skip_ws (join sep (map fst svs) @ r) = join sep (map fst svs) @ r"
proof -
  obtain s v svs' where sv: "svs = (s, v) # svs'" using assms(1) by (cases svs) auto
  then have s: "reads s v" using assms(2) by simp
  show ?thesis using skip_ws_reads [OF s] sv by (cases svs') simp_all
qed

lemma reads_head_arr: "reads (c # s) v \<Longrightarrow> c \<noteq> CHR '']''"
  by (auto simp: reads_def pval.simps HasPrefix_def scan_number_def is_digit_def)

lemma pval_arr:
  "skip_ws t = c # u \<Longrightarrow> c \<noteq> CHR '']'' \<Longrightarrow> pval (CHR ''['' # t) = map_option (\<lambda>(vs, u). (TArr vs, u)) (parr t)"
  by (simp add: pval.simps)

lemma reads_arr:
  assumes "svs \<noteq> []" "list_all (\<lambda>(s, v). reads s v) svs" "blank w" "blank w'"
  shows "reads (CHR ''['' # w @ join (CHR '','' # w) (map fst svs) @ w' @ '']'') (TArr svs)"
proof -
  obtain s v svs' where sv: "svs = (s, v) # svs'" using assms(1) by (cases svs) auto
  then have "reads s v" using assms(2) by simp
  then obtain c t where c: "s = c # t" "c \<noteq> CHR '']''"
    using reads_head_arr by (cases s) (auto simp: reads_def)
  have "\<exists>u. join (CHR '','' # w) (map fst svs) @ x = c # u" for x
    using sv c(1) by (cases svs') simp_all
  then have head: "\<exists>u. skip_ws (w @ join (CHR '','' # w) (map fst svs) @ x) = c # u" for x
    using join_reads_head [OF assms(1,2)] assms(3) by simp
  have "pval (CHR ''['' # w @ join (CHR '','' # w) (map fst svs) @ w' @ CHR '']'' # r) = Some (TArr svs, r)" for r
    using head [of "w' @ CHR '']'' # r"] pval_arr c(2) parr_items [OF assms, of r] by fastforce
  then show ?thesis by (simp add: reads_def json_ws_def)
qed

section \<open>Objects\<close>

definition member :: "string \<times> string \<times> jtree \<Rightarrow> string" where
  "member m = (case m of (k, s, v) \<Rightarrow> marshal_string k @ '': '' @ s)"

definition member_ok :: "string \<times> string \<times> jtree \<Rightarrow> bool" where
  "member_ok m = (case m of (k, s, v) \<Rightarrow> list_all ascii k \<and> reads s v)"

lemma pobj_step:
  assumes "member_ok m" "blank w" "blank w'" "\<not> json_ws d"
  shows "pobj (w @ member m @ w' @ d # r) =
    (if d = CHR ''}'' then Some ([m], r)
     else if d = CHR '','' then map_option (\<lambda>(ms, u). (m # ms, u)) (pobj r) else None)"
proof -
  obtain k s v where m: "m = (k, s, v)" by (cases m)
  have k: "pstr (enc_body k @ CHR 0x22 # t) = Some (k, t)" for t
    using assms(1) m by (simp add: member_ok_def pstr_enc_body)
  have s: "reads s v" using assms(1) m by (simp add: member_ok_def)
  have ws: "skip_ws (CHR '' '' # t) = skip_ws t" for t by (simp add: skip_ws_def json_ws_def)
  show ?thesis
    using assms(2-4) k skip_ws_reads [OF s] reads_pval [OF s]
    by (subst pobj.simps) (simp add: m member_def marshal_string_def Let_def json_ws_def ws)
qed

lemma pobj_items:
  "ms \<noteq> [] \<Longrightarrow> list_all member_ok ms \<Longrightarrow> blank w \<Longrightarrow> blank w' \<Longrightarrow>
   pobj (w @ join (CHR '','' # w) (map member ms) @ w' @ CHR ''}'' # r) = Some (ms, r)"
proof (induction ms rule: induct_list012)
  case 1
  then show ?case by simp
next
  case (2 m)
  then show ?case using pobj_step [of m w w' "CHR ''}''" r] by (simp add: json_ws_def)
next
  case (3 m n ms)
  then show ?case
    using pobj_step [of m w "[]" "CHR '',''" "w @ join (CHR '','' # w) (map member (n # ms)) @ w' @ CHR ''}'' # r"]
    by (simp add: json_ws_def blank_Nil)
qed

lemma pval_obj:
  "skip_ws t = c # u \<Longrightarrow> c \<noteq> CHR ''}'' \<Longrightarrow> pval (CHR ''{'' # t) = map_option (\<lambda>(ms, u). (TObj ms, u)) (pobj t)"
  by (simp add: pval.simps)

lemma reads_obj:
  assumes "ms \<noteq> []" "list_all member_ok ms" "blank w" "blank w'"
  shows "reads (CHR ''{'' # w @ join (CHR '','' # w) (map member ms) @ w' @ ''}'') (TObj ms)"
proof -
  obtain m ms' where m: "ms = m # ms'" using assms(1) by (cases ms) auto
  have "\<exists>u. join (CHR '','' # w) (map member ms) @ x = CHR 0x22 # u" for x
    using m by (cases ms') (simp_all add: member_def marshal_string_def split: prod.split)
  moreover have "skip_ws (CHR 0x22 # u) = CHR 0x22 # u" for u by (simp add: json_ws_def)
  ultimately have head: "\<exists>u. skip_ws (w @ join (CHR '','' # w) (map member ms) @ x) = CHR 0x22 # u" for x
    using assms(3) by (metis skip_ws_blank)
  have "pval (CHR ''{'' # w @ join (CHR '','' # w) (map member ms) @ w' @ CHR ''}'' # r) = Some (TObj ms, r)" for r
    using head [of "w' @ CHR ''}'' # r"] pval_obj pobj_items [OF assms, of r] by fastforce
  then show ?thesis by (simp add: reads_def json_ws_def)
qed

end
