(* ===== verification/Sample_Dashboard.thy ===== *)
theory Sample_Dashboard imports Http Sample_Cluster begin

text \<open>
  The dashboard over the cluster in lists, and requests for the witnesses.
\<close>

definition list_dash :: "cluster dash" where
  "list_dash = \<lparr>
     d_ctx = list_ctx, d_Namespace = ''team'',
     d_create_wf = \<lambda>c w. if has_obj wf_Meta (cl_wfs c) (key_of (wf_Meta w)) then (Some AlreadyExists, c)
        else (None, c\<lparr>cl_wfs := cl_wfs c @ [w]\<rparr>),
     d_delete_wf = \<lambda>c k. (None, c\<lparr>cl_wfs := filter (\<lambda>w. key_of (wf_Meta w) \<noteq> k) (cl_wfs c)\<rparr>),
     d_list_agents = \<lambda>c n. filter (\<lambda>a. om_Namespace (ag_Meta a) = n) (cl_agents c),
     d_create_agent = \<lambda>c a. if has_obj ag_Meta (cl_agents c) (key_of (ag_Meta a)) then (Some AlreadyExists, c)
        else (None, c\<lparr>cl_agents := cl_agents c @ [a]\<rparr>),
     d_update_agent = \<lambda>c a. (None, c\<lparr>cl_agents := replace_obj ag_Meta
        (\<lambda>v. v\<lparr>ag_Meta := ag_Meta a, ag_Spec := ag_Spec a\<rparr>) (key_of (ag_Meta a)) (cl_agents c)\<rparr>),
     d_delete_agent = \<lambda>c k. (None, c\<lparr>cl_agents := filter (\<lambda>a. key_of (ag_Meta a) \<noteq> k) (cl_agents c)\<rparr>),
     d_list_mcp = \<lambda>c. Inr [],
     d_create_mcp = \<lambda>c m. (None, c),
     d_delete_mcp = \<lambda>c k. (Some NotFound, c),
     d_list_llm = \<lambda>c. Inr (cl_llms c),
     d_create_llm = \<lambda>c p. (None, c\<lparr>cl_llms := cl_llms c @ [p]\<rparr>),
     d_delete_llm = \<lambda>c k. (None, c\<lparr>cl_llms := filter (\<lambda>p. key_of (llm_Meta p) \<noteq> k) (cl_llms c)\<rparr>),
     d_get_data = \<lambda>c k. (case get_obj cm_Meta (cl_cms c) k of Inl e \<Rightarrow> Inl e | Inr m \<Rightarrow> Inr (Some (cm_Data m))),
     d_create_data = \<lambda>c k d. if has_obj cm_Meta (cl_cms c) k then (Some AlreadyExists, c)
        else (None, c\<lparr>cl_cms := cl_cms c @
          [\<lparr>cm_Meta = empty_meta\<lparr>om_Namespace := fst k, om_Name := snd k\<rparr>, cm_Data = d\<rparr>]\<rparr>),
     d_update_data = \<lambda>c k d. if has_obj cm_Meta (cl_cms c) k
        then (None, c\<lparr>cl_cms := replace_obj cm_Meta (\<lambda>m. m\<lparr>cm_Data := d\<rparr>) k (cl_cms c)\<rparr>) else (Some NotFound, c),
     d_pods = \<lambda>c n a. [], d_deployments = \<lambda>c n l. 0, d_scalers = \<lambda>c n. 0,
     d_json_error = \<lambda>_. ''invalid body'', d_settle = \<lambda>c. c\<rparr>"

definition post :: "string \<Rightarrow> string \<Rightarrow> request" where
  "post path b = \<lparr>rq_Method = ''POST'', rq_Path = path, rq_Query = \<lambda>_. [], rq_Header = \<lambda>_. [], rq_Body = Some b\<rparr>"

lemma find_append_has: "\<not> list_ex P xs \<Longrightarrow> find P (xs @ [x]) = (if P x then Some x else None)"
  by (induction xs) auto

lemma find_replaced_obj:
  "(\<And>v. key_of (meta (f v)) = key_of (meta v)) \<Longrightarrow>
   find (\<lambda>v. key_of (meta v) = k) (replace_obj meta f k os) = map_option f (find (\<lambda>v. key_of (meta v) = k) os)"
  by (induction os) (auto simp: replace_obj_def)

lemma list_ex_find: "list_ex P xs \<Longrightarrow> \<exists>x. find P xs = Some x"
  by (induction xs) auto

text \<open>A ConfigMap that was written is read back.\<close>

definition config_laws :: "'c dash \<Rightarrow> bool" where
  "config_laws s \<longleftrightarrow>
     (\<forall>c k d c'. d_create_data s c k d = (None, c') \<longrightarrow> d_get_data s c' k = Inr (Some d)) \<and>
     (\<forall>c k d c'. d_update_data s c k d = (None, c') \<longrightarrow> d_get_data s c' k = Inr (Some d))"

lemma key_of_new: "key_of (empty_meta\<lparr>om_Namespace := n, om_Name := m\<rparr>) = (n, m)"
  by (simp add: key_of_def)

lemma list_dash_config: "config_laws list_dash"
  by (auto simp: config_laws_def list_dash_def get_obj_def has_obj_def find_append_has find_replaced_obj key_of_new
      split: if_splits dest!: list_ex_find)

end
