(* ===== verification/Router_Properties.thy ===== *)
theory Router_Properties imports Router Json_Indent Sample_Dashboard begin

text \<open>
  Routing: what the dashboard saves is what webhooks are routed by, and where the rules that are built in send
  them.
\<close>

section \<open>Saved rules read back\<close>







lemma blank_indent: "blank (CHR 0x0A # replicate n CHR '' '')"
  by (induction n) (simp_all add: blank_def json_ws_def)









section \<open>Routing by the saved rules\<close>












section \<open>The built-in rules\<close>

text \<open>Only the stored source tells two spellings of a source apart, and a rule compares it without case.\<close>

lemma source_kept:
  "pagerduty_data event (n\<lparr>np_Source := src\<rparr>) = (pagerduty_data event n)\<lparr>np_Source := src\<rparr>"
  "from_pagerduty raw (n\<lparr>np_Source := src\<rparr>) = (from_pagerduty raw n)\<lparr>np_Source := src\<rparr>"
  "from_github raw (n\<lparr>np_Source := src\<rparr>) = (from_github raw n)\<lparr>np_Source := src\<rparr>"
  "from_slack raw (n\<lparr>np_Source := src\<rparr>) = (from_slack raw n)\<lparr>np_Source := src\<rparr>"
  "from_generic raw (n\<lparr>np_Source := src\<rparr>) = (from_generic raw n)\<lparr>np_Source := src\<rparr>"
  "description (n\<lparr>np_Source := src\<rparr>) = description n"
proof -
  show pd: "pagerduty_data event (n\<lparr>np_Source := src\<rparr>) = (pagerduty_data event n)\<lparr>np_Source := src\<rparr>" for event
    by (cases "get_map event ''data''") (simp_all add: pagerduty_data_def split: option.split)
  show "from_pagerduty raw (n\<lparr>np_Source := src\<rparr>) = (from_pagerduty raw n)\<lparr>np_Source := src\<rparr>"
    by (cases "get_map raw ''event''") (simp_all add: from_pagerduty_def pd Let_def)
  show "from_github raw (n\<lparr>np_Source := src\<rparr>) = (from_github raw n)\<lparr>np_Source := src\<rparr>"
    by (cases "get_map raw ''pull_request''"; cases "get_map raw ''issue''") (simp_all add: from_github_def Let_def split: option.split)
qed (simp_all add: from_slack_def from_generic_def description_def)

lemma normalize_case:
  assumes "ToLower src = ToLower src'"
  shows "normalizePayload src raw = (normalizePayload src' raw)\<lparr>np_Source := src\<rparr>"
proof -
  have "empty_payload src = (empty_payload src')\<lparr>np_Source := src\<rparr>" by (simp add: empty_payload_def)
  then show ?thesis using assms by (simp add: normalizePayload_def Let_def source_kept)
qed

lemma route_case:
  assumes "ToLower src = ToLower src'"
  shows "routeWebhook rules (normalizePayload src raw) = routeWebhook rules (normalizePayload src' raw)"
proof -
  have "np_Source (normalizePayload src' raw) = src'" using arg_cong [OF normalize_case [of src' src' raw], of np_Source] by simp
  moreover have "rule_field (normalizePayload src raw) = rule_field (normalizePayload src' raw)"
    using normalize_case [OF assms, of raw] by (simp add: rule_field_def fun_eq_iff)
  ultimately have "matchRule r (normalizePayload src raw) = matchRule r (normalizePayload src' raw)" for r
    using normalize_case [OF assms, of raw] assms by (simp add: matchRule_def EqualFold_def)
  then show ?thesis by (simp add: routeWebhook_def)
qed

lemma default_routing:
  assumes "routeWebhook defaultRules p = Some r"
  shows "tg_Workflow r \<noteq> ''_intent'' \<and> ToLower (np_Source p) \<in> {''pagerduty'', ''github''}"
proof -
  have "list_all (\<lambda>r. tg_Workflow r \<noteq> ''_intent'' \<and> tg_Source r \<noteq> ''*'' \<and>
      ToLower (tg_Source r) \<in> set [''pagerduty'', ''github'']) defaultRules" by code_simp
  moreover have "r \<in> set defaultRules" "matchRule r p" using assms by (auto simp: routeWebhook_def find_Some_iff)
  ultimately show ?thesis by (auto simp: list_all_iff matchRule_def EqualFold_def)
qed

end
