(* ===== verification/Dashboard_Runs.thy ===== *)
theory Dashboard_Runs imports Router MCP_Controller Workflow_Core begin

text \<open>
  The handlers of the dashboard that start, repeat, release and stop runs of workflows
  (\<^verbatim>\<open>dashboard/server.go\<close>).  A run's name ends in the low 32 bits of the time.
\<close>

section \<open>Triggering a run\<close>

definition time_suffix :: "time \<Rightarrow> string" where
  "time_suffix now = hex_pad 8 (now mod 2 ^ 32)"

definition trigger_path :: "request \<Rightarrow> (string \<times> string) option" where
  "trigger_path r =
     (let parts = splitn2 CHR ''/'' (TrimPrefix (rq_Path r) ''/api/trigger/'') in
      if hd parts = [] then None
      else Some (hd parts, if length parts = 2 then parts ! 1 else []))"

text \<open>A body that is no object gives an empty payload.\<close>

definition trigger_payload :: "request \<Rightarrow> payload" where
  "trigger_payload r = (case body_value r of Some (TObj ms) \<Rightarrow> lenient_obj ms [] | _ \<Rightarrow> [])"

definition trigger_source :: "request \<Rightarrow> payload \<Rightarrow> string" where
  "trigger_source r p =
     (if rq_Header r ''X-Trigger-Source'' \<noteq> [] then rq_Header r ''X-Trigger-Source''
      else if map_of p ''event'' \<noteq> None then ''pagerduty''
      else if map_of p ''repository'' \<noteq> None then ''github''
      else if map_of p ''command'' \<noteq> None then ''slack'' else ''unknown'')"

text \<open>The community stub of the intent designer, which designs nothing.\<close>

definition createIntentWorkflow :: "NormalizedPayload \<Rightarrow> string" where
  "createIntentWorkflow p = []"

text \<open>The workflow and how it was found, or the error text.\<close>

definition choose_workflow :: "'c dash \<Rightarrow> string \<Rightarrow> string \<Rightarrow> NormalizedPayload \<Rightarrow> 'c \<Rightarrow> string + string \<times> string" where
  "choose_workflow s namespace explicit n c =
     (if explicit \<noteq> [] then Inr (explicit, ''explicit'')
      else (case routeWebhook (loadRules s namespace c) n of
              None \<Rightarrow> Inl ''no matching rule found''
            | Some r \<Rightarrow>
                if tg_Workflow r = ''_intent'' then
                  (if createIntentWorkflow n \<noteq> [] then Inr (createIntentWorkflow n, ''llm-intent'')
                   else if \<not> has_feature ''intent'' then Inl ''the _intent fallback requires Purko Pro''
                   else Inl ''LLM intent failed to design workflow'')
                else Inr (tg_Workflow r, ''rule:'' @ tg_Name r)))"

definition payload_text :: "iface \<Rightarrow> string" where
  "payload_text v = (case v of IStr x \<Rightarrow> x | _ \<Rightarrow> show_iface v)"

definition merge_payload :: "payload \<Rightarrow> str_alist \<Rightarrow> str_alist" where
  "merge_payload p params = foldl (\<lambda>m (k, v). alist_put k (payload_text v) m) params p"

definition payload_input :: "string \<Rightarrow> payload \<Rightarrow> NormalizedPayload \<Rightarrow> string" where
  "payload_input source p n =
     marshal_iface (IObj [(''webhook_source'', IStr source), (''webhook_payload'', IObj p),
       (''description'', IStr (np_Description n)), (''task'', IStr (np_Description n))])"

definition no_input :: "WorkflowStep \<Rightarrow> bool" where
  "no_input step \<longleftrightarrow> (case ws_Input step of None \<Rightarrow> True | Some raw \<Rightarrow> length raw \<le> 2)"

definition fill_input :: "string \<Rightarrow> WorkflowStep \<Rightarrow> WorkflowStep" where
  "fill_input inp step = (if no_input step then step\<lparr>ws_Input := Some inp\<rparr> else step)"

definition new_workflow :: "string \<Rightarrow> string \<Rightarrow> str_map \<Rightarrow> WorkflowSpec \<Rightarrow> Workflow" where
  "new_workflow namespace name annotations spec =
     \<lparr>wf_Meta = empty_meta\<lparr>om_Name := name, om_Namespace := namespace, om_Annotations := annotations\<rparr>,
      wf_Spec = spec, wf_Status = zero_status\<rparr>"

definition webhook_run :: "time \<Rightarrow> string \<Rightarrow> string \<Rightarrow> string \<Rightarrow> string \<Rightarrow> payload \<Rightarrow> NormalizedPayload \<Rightarrow> Workflow \<Rightarrow> Workflow" where
  "webhook_run now namespace wfName route source p n w =
     (let spec = wf_Spec w in
      new_workflow namespace (wfName @ ''-run-'' @ time_suffix now)
        [''purko.io/workflow-template'' \<mapsto> wfName, ''purko.io/trigger-type'' \<mapsto> ''webhook'',
         ''purko.io/trigger-source'' \<mapsto> source, ''purko.io/trigger-route'' \<mapsto> route]
        (spec\<lparr>wp_Parameters := merge_payload p (wp_Parameters spec),
              wp_Steps := map (fill_input (payload_input source p n)) (wp_Steps spec), wp_Trigger := None\<rparr>))"

definition normalized_value :: "NormalizedPayload \<Rightarrow> iface" where
  "normalized_value n =
     obj_str [(''source'', np_Source n), (''title'', np_Title n), (''severity'', np_Severity n),
       (''service'', np_Service n), (''action'', np_Action n), (''type'', np_Type n),
       (''repository'', np_Repository n), (''user'', np_User n), (''description'', np_Description n)]"

definition triggered :: "string \<Rightarrow> string \<Rightarrow> string option \<Rightarrow> string \<Rightarrow> string \<Rightarrow> NormalizedPayload \<Rightarrow> response" where
  "triggered run namespace template route source n =
     header_first 201 (IObj ([(''status'', IStr ''triggered''), (''run'', IStr run), (''namespace'', IStr namespace)] @
       (case template of None \<Rightarrow> [] | Some t \<Rightarrow> [(''template'', IStr t)]) @
       [(''route'', IStr route), (''source'', IStr source), (''normalized'', normalized_value n)]))"

definition handleWebhookTrigger :: "'c dash \<Rightarrow> request \<Rightarrow> 'c \<Rightarrow> response \<times> 'c" where
  "handleWebhookTrigger s r c = post_only r c
     (case trigger_path r of
        None \<Rightarrow> (reply_error
          ''path must be /api/trigger/{namespace} or /api/trigger/{namespace}/{workflow-name}'', c)
      | Some (namespace, explicit) \<Rightarrow>
          (let p = trigger_payload r; source = trigger_source r p; n = normalizePayload source p in
           case choose_workflow s namespace explicit n c of
             Inl msg \<Rightarrow> (reply_error msg, c)
           | Inr (wfName, route) \<Rightarrow>
               (case k_get_wf (d_api s) c (namespace, wfName) of
                  Inl _ \<Rightarrow>
                    (if route \<noteq> ''llm-intent''
                     then (header_first 404 (obj_str
                       [(''error'', ''workflow '' @ quote wfName @ '' not found''), (''route'', route)]), c)
                     else (triggered wfName namespace None route source n, c))
                | Inr w \<Rightarrow>
                    (let run = webhook_run (d_now s) namespace wfName route source p n w in
                     written s (d_create_wf s c run)
                       (triggered (wf_Name run) namespace (Some wfName) route source n)))))"

section \<open>Approving and denying a step\<close>

definition step_path :: "string \<Rightarrow> request \<Rightarrow> (string \<times> string) option" where
  "step_path pre r =
     (case splitn2 CHR ''/'' (TrimPrefix (rq_Path r) pre) of [a, b] \<Rightarrow> Some (a, b) | _ \<Rightarrow> None)"

definition approve_step :: "string \<Rightarrow> Workflow \<Rightarrow> Workflow" where
  "approve_step stepName w =
     (let m = wf_Meta w in
      w\<lparr>wf_Meta := m\<lparr>om_Annotations := (om_Annotations m)(''purko.io/approve-'' @ stepName \<mapsto> ''true'')\<rparr>\<rparr>)"

definition step_reply :: "string \<Rightarrow> string \<Rightarrow> string \<Rightarrow> response" where
  "step_reply status wfName stepName =
     writeJSON (obj_str [(''status'', status), (''workflow'', wfName), (''step'', stepName)])"

definition handleApproveStep :: "'c dash \<Rightarrow> request \<Rightarrow> 'c \<Rightarrow> response \<times> 'c" where
  "handleApproveStep s r c = post_only r c
     (case step_path ''/api/approve/'' r of
        None \<Rightarrow> (reply_error ''path must be /api/approve/{workflow}/{step}'', c)
      | Some (wfName, stepName) \<Rightarrow>
          (case k_get_wf (d_api s) c (ns_of s, wfName) of
             Inl e \<Rightarrow> (reply_error (d_errtext s e), c)
           | Inr w \<Rightarrow> written s (k_update_wf (d_api s) c (approve_step stepName w))
               (step_reply ''approved'' wfName stepName)))"

text \<open>The first status of the step is failed and counted, whatever it was; without one nothing is.\<close>

definition deny_status :: "time \<Rightarrow> StepStatus \<Rightarrow> StepStatus" where
  "deny_status now ss = ss\<lparr>ss_Phase := ''Failed'', ss_Error := ''Denied by human'', ss_CompletionTime := Some now\<rparr>"

definition deny_step :: "time \<Rightarrow> string \<Rightarrow> Workflow \<Rightarrow> Workflow" where
  "deny_step now stepName w =
     (case find_index (\<lambda>ss. ss_Name ss = stepName) (wf_StepStatuses w) of
        None \<Rightarrow> w
      | Some i \<Rightarrow>
          upd_status (\<lambda>st. st\<lparr>wt_StepStatuses := (wt_StepStatuses st)[i := deny_status now (wt_StepStatuses st ! i)],
            wt_FailedSteps := wt_FailedSteps st + 1\<rparr>) w)"

definition handleDenyStep :: "'c dash \<Rightarrow> request \<Rightarrow> 'c \<Rightarrow> response \<times> 'c" where
  "handleDenyStep s r c = post_only r c
     (case step_path ''/api/deny/'' r of
        None \<Rightarrow> (reply_error ''path must be /api/deny/{workflow}/{step}'', c)
      | Some (wfName, stepName) \<Rightarrow>
          (case k_get_wf (d_api s) c (ns_of s, wfName) of
             Inl e \<Rightarrow> (reply_error (d_errtext s e), c)
           | Inr w \<Rightarrow> written s (k_status_wf (d_api s) c (deny_step (d_now s) stepName w))
               (step_reply ''denied'' wfName stepName)))"

section \<open>Running a workflow again\<close>

text \<open>
  The errors of the body are dropped: a parameter of another type overrides with the empty text, and
  parameters that are no object override nothing.
\<close>

definition rerun_parameters :: "request \<Rightarrow> str_alist" where
  "rerun_parameters r =
     (case body_members r of
        None \<Rightarrow> []
      | Some ms \<Rightarrow> (case field_last ''parameters'' ms of TObj kvs \<Rightarrow> lenient_str_map kvs | _ \<Rightarrow> []))"

definition override_parameters :: "str_alist \<Rightarrow> WorkflowSpec \<Rightarrow> WorkflowSpec" where
  "override_parameters over spec =
     spec\<lparr>wp_Parameters := foldl (\<lambda>m (k, v). alist_put k v m) (wp_Parameters spec) over\<rparr>"

text \<open>Deleting and creating are two calls with two seconds between them.\<close>

definition handleRerunWorkflow :: "'c dash \<Rightarrow> request \<Rightarrow> 'c \<Rightarrow> response \<times> 'c" where
  "handleRerunWorkflow s r c = post_only r c
     (let name = TrimPrefix (rq_Path r) ''/api/rerun/workflow/'' in
      if name = [] then (reply_error ''workflow name required'', c)
      else (case k_get_wf (d_api s) c (ns_of s, name) of
              Inl e \<Rightarrow> (reply_error (d_errtext s e), c)
            | Inr w \<Rightarrow>
                (let spec = override_parameters (rerun_parameters r) (wf_Spec w) in
                 case d_delete_wf s c (wf_Namespace w, wf_Name w) of
                   (Some e, c1) \<Rightarrow> (reply_error (''delete failed: '' @ d_errtext s e), c1)
                 | (None, c1) \<Rightarrow>
                     (case d_create_wf s (d_settle s c1) (new_workflow (ns_of s) name Map.empty spec) of
                        (Some e, c2) \<Rightarrow> (reply_error (''re-create failed: '' @ d_errtext s e), c2)
                      | (None, c2) \<Rightarrow> (reply_done ''restarted'' name, c2)))))"

definition handleDeleteWorkflow :: "'c dash \<Rightarrow> request \<Rightarrow> 'c \<Rightarrow> response \<times> 'c" where
  "handleDeleteWorkflow s r c =
     (if rq_Method r \<noteq> ''DELETE'' \<and> rq_Method r \<noteq> ''POST'' then (http_error ''DELETE or POST required'' 405, c)
      else (let name = TrimPrefix (rq_Path r) ''/api/delete/workflow/''
            in written s (d_delete_wf s c (ns_of s, name)) (reply_done ''deleted'' name)))"

section \<open>Creating a workflow\<close>

record new_step =
  nw_Name :: string
  nw_Agent :: string
  nw_Type :: string
  nw_DependsOn :: "string list"
  nw_Input :: string

record CreateWorkflowRequest =
  cw_Name :: string
  cw_Namespace :: string
  cw_Description :: string
  cw_Steps :: "new_step list"
  cw_Parallelism :: int
  cw_Strategy :: string
  cw_Parameters :: str_alist
  cw_Concurrency :: string
  cw_Cron :: string

definition decode_new_step :: "jtree \<Rightarrow> new_step option" where
  "decode_new_step v =
     (let build = (\<lambda>ms. case (field_str ''name'' ms, field_str ''agent'' ms, field_str ''type'' ms,
             field_strs ''dependsOn'' ms, field_str ''input'' ms) of
           (Some n, Some a, Some t, Some d, Some i) \<Rightarrow>
             Some \<lparr>nw_Name = n, nw_Agent = a, nw_Type = t, nw_DependsOn = d, nw_Input = i\<rparr>
         | _ \<Rightarrow> None)
      in case v of TNull \<Rightarrow> build [] | TObj ms \<Rightarrow> build ms | _ \<Rightarrow> None)"

definition field_steps :: "(string \<times> string \<times> jtree) list \<Rightarrow> new_step list option" where
  "field_steps ms =
     (case field_last ''steps'' ms of
        TNull \<Rightarrow> Some [] | TArr vs \<Rightarrow> those (map (\<lambda>(_, v). decode_new_step v) vs) | _ \<Rightarrow> None)"

definition decode_workflow_request :: "(string \<times> string \<times> jtree) list \<Rightarrow> CreateWorkflowRequest option" where
  "decode_workflow_request ms =
     (case (field_str ''name'' ms, field_str ''namespace'' ms, field_str ''description'' ms, field_steps ms,
            field_int ''parallelism'' ms, field_str ''strategy'' ms, field_str_map ''parameters'' ms,
            field_str ''concurrency'' ms, field_str ''cron'' ms) of
        (Some n, Some sp, Some d, Some st, Some par, Some str, Some ps, Some cc, Some cr) \<Rightarrow>
          Some \<lparr>cw_Name = n, cw_Namespace = sp, cw_Description = d, cw_Steps = st, cw_Parallelism = par,
            cw_Strategy = str, cw_Parameters = (case ps of None \<Rightarrow> [] | Some m \<Rightarrow> m), cw_Concurrency = cc, cw_Cron = cr\<rparr>
      | _ \<Rightarrow> None)"

definition created_step :: "new_step \<Rightarrow> WorkflowStep" where
  "created_step st =
     \<lparr>ws_Name = nw_Name st, ws_AgentRef = \<lparr>ar_Name = nw_Agent st, ar_Namespace = []\<rparr>, ws_Type = nw_Type st,
      ws_Description = [], ws_DependsOn = nw_DependsOn st, ws_InputFrom = [], ws_RetryPolicy = None,
      ws_StepTimeout = None, ws_ConditionExpr = [],
      ws_Input = (if nw_Input st \<noteq> [] then Some (marshal_str_map [(''task'', nw_Input st)]) else None),
      ws_Output = None, ws_Config = None\<rparr>"

definition created_spec :: "CreateWorkflowRequest \<Rightarrow> WorkflowSpec" where
  "created_spec req =
     \<lparr>wp_Description = cw_Description req, wp_Steps = map created_step (cw_Steps req),
      wp_Parallelism = Some (if cw_Parallelism req \<le> 0 then 1 else cw_Parallelism req),
      wp_FailureStrategy = (if cw_Strategy req = [] then ''failFast'' else cw_Strategy req),
      wp_Parameters = cw_Parameters req, wp_Edges = [],
      wp_Trigger = (if cw_Cron req \<noteq> []
        then Some \<lparr>tr_Type = ''schedule'', tr_Schedule = Some \<lparr>sg_Cron = cw_Cron req, sg_Timezone = [], sg_Suspend = False\<rparr>,
          tr_Webhook = None, tr_EventTriggers = []\<rparr> else None),
      wp_Concurrency = (if cw_Concurrency req \<noteq> [] then Some \<lparr>cc_Policy = cw_Concurrency req, cc_MaxParallel = 0\<rparr> else None),
      wp_ErrorHandling = None, wp_Observability = None, wp_Timeout = None, wp_Variables = [], wp_Hooks = None\<rparr>"

definition handleCreateWorkflow :: "'c dash \<Rightarrow> request \<Rightarrow> 'c \<Rightarrow> response \<times> 'c" where
  "handleCreateWorkflow s r c = post_only r c
     (case Option.bind (body_members r) decode_workflow_request of
        None \<Rightarrow> (bad_body s r, c)
      | Some req \<Rightarrow>
          (let namespace = (if cw_Namespace req = [] then ns_of s else cw_Namespace req)
           in written s (d_create_wf s c (new_workflow namespace (cw_Name req) Map.empty (created_spec req)))
                (reply_done ''created'' (cw_Name req))))"

section \<open>The logs of a step\<close>

definition log_reply :: "string list \<Rightarrow> string \<Rightarrow> response" where
  "log_reply ls status = writeJSON (IObj [(''lines'', IArr (map IStr ls)), (''status'', IStr status)])"

definition status_lines :: "StepStatus \<Rightarrow> string list" where
  "status_lines ss =
     (if ss_Error ss \<noteq> [] then split_char CHR 0x0A (ss_Error ss) else []) @
     (case ss_Output ss of Some raw \<Rightarrow> if 2 < length raw then [''OUTPUT:'' @ raw] else [] | None \<Rightarrow> [])"

definition writeStepStatusLogs :: "'c dash \<Rightarrow> string \<Rightarrow> string \<Rightarrow> string \<Rightarrow> 'c \<Rightarrow> response" where
  "writeStepStatusLogs s wfName stepName fallback c =
     (case k_get_wf (d_api s) c (ns_of s, wfName) of
        Inl _ \<Rightarrow> log_reply [] fallback
      | Inr w \<Rightarrow>
          (case find (\<lambda>ss. ss_Name ss = stepName \<and> status_lines ss \<noteq> []) (wf_StepStatuses w) of
             None \<Rightarrow> log_reply [] fallback
           | Some ss \<Rightarrow> log_reply (status_lines ss) (if ss_Phase ss = ''Failed'' then ''failed'' else ''complete'')))"

definition log_status :: "Job \<Rightarrow> string" where
  "log_status job =
     foldl (\<lambda>st c. let st1 = (if jc_Type c = ''Complete'' \<and> jc_Status c = ''True'' then ''complete'' else st)
                 in if jc_Type c = ''Failed'' \<and> jc_Status c = ''True'' then ''failed'' else st1)
       ''running'' (jo_Conditions job)"

definition handleStepLogs :: "'c dash \<Rightarrow> request \<Rightarrow> 'c \<Rightarrow> response" where
  "handleStepLogs s r c =
     (case step_path ''/api/logs/'' r of
        None \<Rightarrow> reply_error ''path must be /api/logs/{workflow}/{step}''
      | Some (wfName, stepName) \<Rightarrow>
          (case k_list_jobs (d_api s) c (ns_of s) wfName of
             Inl e \<Rightarrow> reply_error (d_errtext s e)
           | Inr all \<Rightarrow>
               (case filter (\<lambda>j. om_Labels (jo_Meta j) labelStep = Some stepName) all of
                  [] \<Rightarrow> writeStepStatusLogs s wfName stepName ''no job'' c
                | job # _ \<Rightarrow>
                    if \<not> x_clientset (d_ctx s) then log_reply [''no clientset configured''] ''error''
                    else (case k_pods (d_api s) c (ns_of s) (jo_Name job) of
                            Inl _ \<Rightarrow> writeStepStatusLogs s wfName stepName ''no pods'' c
                          | Inr [] \<Rightarrow> writeStepStatusLogs s wfName stepName ''no pods'' c
                          | Inr (pod # _) \<Rightarrow>
                              (case k_logs (d_api s) c (ns_of s) pod (Some 100) of
                                 Inl e \<Rightarrow> log_reply [''log error: '' @ d_errtext s e] ''error''
                               | Inr txt \<Rightarrow>
                                   (let ls = scan_lines 262144 txt in
                                    writeJSON (IObj [(''lines'', if ls = [] then INil else IArr (map IStr ls)),
                                      (''status'', IStr (log_status job)), (''pod'', IStr pod)])))))))"

end
