(* ===== verification/Dashboard_Properties.thy ===== *)
theory Dashboard_Properties imports Dashboard_Runs Run_Invariant Sample_Dashboard begin

text \<open>
  The dashboard and the controller together: what a trigger and a rerun create, and how approvals and denials
  move a run that the controller reconciles in between.
\<close>

section \<open>Triggered runs\<close>

lemma lenient_obj_distinct: "distinct (map fst acc) \<Longrightarrow> distinct (map fst (lenient_obj ms acc))"
proof (induction ms arbitrary: acc)
  case (Cons m ms)
  then show ?case by (cases m) (simp add: alist_put_distinct)
qed simp

lemma payload_distinct: "distinct (map fst (trigger_payload r))"
  by (auto simp: trigger_payload_def lenient_obj_distinct split: option.split jtree.split)

definition without_input :: "WorkflowStep \<Rightarrow> WorkflowStep" where
  "without_input step = step\<lparr>ws_Input := None\<rparr>"

lemma without_fill [simp]: "without_input (fill_input inp step) = without_input step"
  by (simp add: without_input_def fill_input_def)

lemma merge_payload_lookup:
  "map_of (merge_payload (trigger_payload r) params) k =
     (case map_of (trigger_payload r) k of None \<Rightarrow> map_of params k | Some v \<Rightarrow> Some (payload_text v))"
  unfolding merge_payload_def by (rule map_of_alist_put_all [OF payload_distinct])

lemma written_code: "written s res ok = (resp, c') \<Longrightarrow> rp_Code resp = 201 \<Longrightarrow> res = (None, c') \<and> resp = ok"
  by (auto simp: written_def reply_error_def writeJSON_def split: prod.splits option.splits)

text \<open>An answer 201 has gone through every step of the handler.\<close>

lemma trigger_created:
  assumes "handleWebhookTrigger s r c = (resp, c')" "rp_Code resp = 201"
  obtains namespace explicit name route w where "trigger_path r = Some (namespace, explicit)"
    "if explicit \<noteq> [] then name = explicit
     else \<exists>rule. routeWebhook (loadRules s namespace c)
       (normalizePayload (trigger_source r (trigger_payload r)) (trigger_payload r)) = Some rule \<and> name = tg_Workflow rule"
    "k_get_wf (d_api s) c (namespace, name) = Inr w"
    "written s (d_create_wf s c (webhook_run (d_now s) namespace name route (trigger_source r (trigger_payload r))
       (trigger_payload r) (normalizePayload (trigger_source r (trigger_payload r)) (trigger_payload r)) w))
      (triggered (wf_Name (webhook_run (d_now s) namespace name route (trigger_source r (trigger_payload r))
       (trigger_payload r) (normalizePayload (trigger_source r (trigger_payload r)) (trigger_payload r)) w))
       namespace (Some name) route (trigger_source r (trigger_payload r))
       (normalizePayload (trigger_source r (trigger_payload r)) (trigger_payload r))) = (resp, c')"
proof -
  let ?p = "trigger_payload r" let ?src = "trigger_source r ?p" let ?n = "normalizePayload ?src ?p"
  obtain namespace explicit where path: "trigger_path r = Some (namespace, explicit)"
    using assms by (auto simp: handleWebhookTrigger_def post_only_def http_error_def reply_error_def writeJSON_def
        split: if_splits option.splits)
  obtain name route where ch: "choose_workflow s namespace explicit ?n c = Inr (name, route)"
    using assms path by (auto simp: handleWebhookTrigger_def post_only_def http_error_def reply_error_def writeJSON_def
        Let_def split: if_splits sum.splits)
  have route: "route \<noteq> ''llm-intent''" using ch
    by (auto simp: choose_workflow_def createIntentWorkflow_def split: if_splits option.splits)
  have named: "if explicit \<noteq> [] then name = explicit
       else \<exists>rule. routeWebhook (loadRules s namespace c) ?n = Some rule \<and> name = tg_Workflow rule" using ch
    by (auto simp: choose_workflow_def createIntentWorkflow_def split: if_splits option.splits)
  obtain w where w: "k_get_wf (d_api s) c (namespace, name) = Inr w"
    using assms path ch route
    by (auto simp: handleWebhookTrigger_def post_only_def http_error_def header_first_def Let_def split: if_splits sum.splits)
  let ?run = "webhook_run (d_now s) namespace name route ?src ?p ?n w"
  have "written s (d_create_wf s c ?run) (triggered (wf_Name ?run) namespace (Some name) route ?src ?n) = (resp, c')"
    using assms path ch w by (auto simp: handleWebhookTrigger_def post_only_def http_error_def Let_def split: if_splits)
  with that path named w show thesis by blast
qed

text \<open>C23: A webhook that is answered with 201 has created one run, in the namespace of the path, of the workflow that the
  path names or, when it names none, the routing rules choose; the answer names the run, the namespace and the workflow.
  The run's steps are the template's with only empty inputs filled in, its parameters the template's with the payload's on
  top, it has no trigger of its own and no status, and its annotation names the template.  Every other answer leaves the
  cluster as it was, when a create that is refused does so.\<close>

theorem webhook_run_faithful:
  assumes "handleWebhookTrigger s r c = (resp, c')" "\<forall>v e c1. d_create_wf s c v = (Some e, c1) \<longrightarrow> c1 = c"
  shows "if rp_Code resp \<noteq> 201 then c' = c
    else let p = trigger_payload r; src = trigger_source r p; n = normalizePayload src p in
    \<exists>namespace explicit name route w run. trigger_path r = Some (namespace, explicit) \<and>
      (if explicit \<noteq> [] then name = explicit
       else \<exists>rule. routeWebhook (loadRules s namespace c) n = Some rule \<and> name = tg_Workflow rule) \<and>
      k_get_wf (d_api s) c (namespace, name) = Inr w \<and> d_create_wf s c run = (None, c') \<and>
      resp = triggered (wf_Name run) namespace (Some name) route src n \<and>
      wf_Namespace run = namespace \<and> template_name run = name \<and>
      wf_Status run = zero_status \<and> wp_Trigger (wf_Spec run) = None \<and>
      list_all2 (\<lambda>t t'. without_input t' = without_input t \<and> (no_input t \<or> t' = t)) (wf_Steps w) (wf_Steps run) \<and>
      (\<forall>k. map_of (wp_Parameters (wf_Spec run)) k =
        (case map_of p k of None \<Rightarrow> map_of (wp_Parameters (wf_Spec w)) k | Some v \<Rightarrow> Some (payload_text v)))"
proof (cases "rp_Code resp = 201")
  case False
  then show ?thesis using assms
    by (auto simp: handleWebhookTrigger_def post_only_def written_def triggered_def header_first_def Let_def
        split: if_splits option.splits sum.splits prod.splits)
next
  case True
  let ?p = "trigger_payload r" let ?src = "trigger_source r ?p" let ?n = "normalizePayload ?src ?p"
  obtain namespace explicit name route w where path: "trigger_path r = Some (namespace, explicit)"
    and named: "if explicit \<noteq> [] then name = explicit
       else \<exists>rule. routeWebhook (loadRules s namespace c) ?n = Some rule \<and> name = tg_Workflow rule"
    and w: "k_get_wf (d_api s) c (namespace, name) = Inr w"
    and sent: "written s (d_create_wf s c (webhook_run (d_now s) namespace name route ?src ?p ?n w))
      (triggered (wf_Name (webhook_run (d_now s) namespace name route ?src ?p ?n w)) namespace (Some name) route ?src ?n)
      = (resp, c')"
    by (rule trigger_created [OF assms(1) True])
  let ?run = "webhook_run (d_now s) namespace name route ?src ?p ?n w"
  have created: "d_create_wf s c ?run = (None, c')"
    and answer: "resp = triggered (wf_Name ?run) namespace (Some name) route ?src ?n"
    using sent True by (auto dest: written_code)
  have filled: "list_all2 (\<lambda>t t'. without_input t' = without_input t \<and> (no_input t \<or> t' = t)) ts (map (fill_input inp) ts)"
    for ts inp by (induction ts) (simp_all, simp add: fill_input_def)
  have made: "wf_Namespace ?run = namespace" "template_name ?run = name" "wf_Status ?run = zero_status"
    "wp_Trigger (wf_Spec ?run) = None" "wf_Steps ?run = map (fill_input (payload_input ?src ?p ?n)) (wf_Steps w)"
    "wp_Parameters (wf_Spec ?run) = merge_payload ?p (wp_Parameters (wf_Spec w))"
    by (auto simp: webhook_run_def new_workflow_def Let_def template_name_def)
  have steps: "list_all2 (\<lambda>t t'. without_input t' = without_input t \<and> (no_input t \<or> t' = t)) (wf_Steps w) (wf_Steps ?run)"
    unfolding made(5) by (rule filled)
  have params: "\<forall>k. map_of (wp_Parameters (wf_Spec ?run)) k =
      (case map_of ?p k of None \<Rightarrow> map_of (wp_Parameters (wf_Spec w)) k | Some v \<Rightarrow> Some (payload_text v))"
    unfolding made(6) by (simp only: merge_payload_lookup simp_thms)
  show ?thesis unfolding Let_def using True
    by (simp only: simp_thms if_False)
      (intro exI conjI, rule path, rule named, rule w, rule created, rule answer, (rule made(1-4))+, rule steps, rule params)
qed

definition hook_cluster :: cluster where
  "hook_cluster = no_cluster\<lparr>cl_wfs := [plain_workflow [plain_step ''a'' []] []]\<rparr>"

definition hook_request :: request where
  "hook_request = post ''/api/trigger/team/flow'' ''{\"repository\":\"purko\"}''"

lemma webhook_run_faithful_witness:
  "\<exists>name w run. k_get_wf (d_api list_dash) hook_cluster (''team'', name) = Inr w \<and> template_name run = name \<and>
    name = ''flow'' \<and>
    d_create_wf list_dash hook_cluster run = (None, snd (handleWebhookTrigger list_dash hook_request hook_cluster))"
proof -
  have code: "rp_Code (fst (handleWebhookTrigger list_dash hook_request hook_cluster)) = 201"
    "trigger_path hook_request = Some (''team'', ''flow'')" by code_simp+
  have law: "\<forall>v e c1. d_create_wf list_dash hook_cluster v = (Some e, c1) \<longrightarrow> c1 = hook_cluster"
    by (auto simp: list_dash_def)
  from webhook_run_faithful [OF prod.collapse [symmetric, of "handleWebhookTrigger list_dash hook_request hook_cluster"] law]
    code show ?thesis by (simp add: Let_def) blast
qed

section \<open>Running again\<close>

text \<open>A rerun that is acknowledged has replaced the workflow by a fresh one with the same steps and settings and the
  parameters of the request on top.\<close>

lemma rerun_faithful:
  assumes "handleRerunWorkflow s r c = (resp, c')" "resp = reply_done ''restarted'' name"
  shows "\<exists>w c1 run. k_get_wf (d_api s) c (ns_of s, name) = Inr w \<and> d_delete_wf s c (key_of (wf_Meta w)) = (None, c1) \<and>
    d_create_wf s (d_settle s c1) run = (None, c') \<and> wf_Name run = name \<and> wf_Status run = zero_status \<and>
    wf_Spec run = (wf_Spec w)\<lparr>wp_Parameters := wp_Parameters (wf_Spec run)\<rparr> \<and> template_name run = []"
  using assms
  by (auto simp: handleRerunWorkflow_def post_only_def http_error_def reply_error_def reply_done_def writeJSON_def obj_str_def
      Let_def key_of_def new_workflow_def override_parameters_def template_name_def empty_meta_def
      split: if_splits sum.splits prod.splits option.splits)

text \<open>
  The fresh workflow has no annotations: a rerun of a triggered run is no longer a run of its template, so the
  concurrency policy of the template does not see it.
\<close>

lemma rerun_forgets_template:
  "wf_Annotation (new_workflow namespace name Map.empty spec) ''purko.io/workflow-template'' = []"
  by (simp add: new_workflow_def)

text \<open>When the old workflow is still there after two seconds, as its finalizer may make it, the new one is refused and
  the old one goes: the workflow is lost.\<close>

lemma rerun_loses_workflow:
  assumes "rq_Method r = ''POST''" "TrimPrefix (rq_Path r) ''/api/rerun/workflow/'' = name" "name \<noteq> []"
    and "k_get_wf (d_api s) c (ns_of s, name) = Inr w" "d_delete_wf s c (key_of (wf_Meta w)) = (None, c1)"
    and "\<And>w'. d_create_wf s (d_settle s c1) w' = (Some AlreadyExists, c2)"
  shows "handleRerunWorkflow s r c = (reply_error (''re-create failed: '' @ d_errtext s AlreadyExists), c2)"
  using assms by (simp add: handleRerunWorkflow_def post_only_def Let_def key_of_def)

section \<open>Approvals and denials\<close>

text \<open>A step whose status is not final; one without a status is not touched by a denial.\<close>

definition deniable :: "Workflow \<Rightarrow> string \<Rightarrow> bool" where
  "deniable w n = (case status_of w n of None \<Rightarrow> True
     | Some ss \<Rightarrow> ss_Phase ss \<notin> set [''Succeeded'', ''Skipped'', ''Failed''])"

inductive served :: "Workflow \<times> 'c rt \<Rightarrow> Workflow \<times> 'c rt \<Rightarrow> bool" where
  controller: "run_step a b \<Longrightarrow> served a b"
| approval: "served (w, s) (approve_step n w, s')"
| denial: "deniable w n \<Longrightarrow> served (w, s) (deny_step now n w, s')"

abbreviation served_reaches :: "Workflow \<times> 'c rt \<Rightarrow> Workflow \<times> 'c rt \<Rightarrow> bool" where
  "served_reaches \<equiv> served\<^sup>*\<^sup>*"

inductive_cases servedE: "served a b"

lemma deny_step_cases:
  obtains (absent) "n \<notin> step_names w" "deny_step now n w = w"
  | (there) i where "i < length (wf_StepStatuses w)" "ss_Name (wf_StepStatuses w ! i) = n"
      "deny_step now n w = upd_status (\<lambda>st. st\<lparr>wt_FailedSteps := wt_FailedSteps st + 1\<rparr>)
         (update_step i (\<lambda>_. deny_status now (wf_StepStatuses w ! i)) w)"
proof (cases "find_index (\<lambda>ss. ss_Name ss = n) (wf_StepStatuses w)")
  case None
  then have "n \<notin> step_names w" by (auto simp: step_names_def find_index_None)
  then show ?thesis using None by (intro absent) (simp_all add: deny_step_def)
next
  case (Some i)
  then show ?thesis
    using find_index_Some [OF Some] by (intro there [of i]) (simp_all add: deny_step_def update_step_def set_steps_def)
qed

lemma named_deny: "named_steps (deny_step now n w) = named_steps w"
  by (cases rule: deny_step_cases [where n = n and w = w and now = now])
    (auto simp: deny_status_def map_update list_update_same_conv intro!: named_names)

lemma deny_simps [simp]: "wf_Phase (deny_step now n w) = wf_Phase w" "wf_Spec (deny_step now n w) = wf_Spec w"
  "wt_TotalSteps (wf_Status (deny_step now n w)) = wt_TotalSteps (wf_Status w)"
  by (cases rule: deny_step_cases [where n = n and w = w and now = now]; simp)+

lemma count_failed_more: "count_phase ps (upd_status (\<lambda>st. st\<lparr>wt_FailedSteps := k\<rparr>) w) = count_phase ps w"
  by (simp add: count_phase_def)

lemma deny_counted:
  assumes "distinct_steps w" "deniable w n" "counted w"
  shows "counted (deny_step now n w)"
proof (cases rule: deny_step_cases [where n = n and w = w and now = now])
  case (there i)
  have "status_of w n = Some (wf_StepStatuses w ! i)" using status_of_nth [OF assms(1) there(1)] there(2) by simp
  then have "ss_Phase (wf_StepStatuses w ! i) \<notin> set [''Succeeded'', ''Skipped'', ''Failed'']"
    using assms(2) by (simp add: deniable_def)
  then show ?thesis using there assms(3)
    by (simp add: counted_def count_failed_more count_update deny_status_def)
qed (use assms in simp)

lemma deny_final:
  assumes "named_steps w" "deniable w n" "steps_in ps w" "set ps \<subseteq> set [''Succeeded'', ''Skipped'', ''Failed'']"
  shows "deny_step now n w = w"
proof (cases rule: deny_step_cases [where n = n and w = w and now = now])
  case (there i)
  have d: "distinct_steps w" using assms(1) by (simp add: named_steps_def)
  have st: "status_of w n = Some (wf_StepStatuses w ! i)" using status_of_nth [OF d there(1)] there(2) by simp
  then have "n \<in> set (map ws_Name (wf_Steps w))"
    using assms(1) status_of_None [of w n] by (auto simp: named_steps_def)
  then have "ss_Phase (wf_StepStatuses w ! i) \<in> set ps" using assms(3) st by (auto simp: steps_in_def list_all_iff)
  then show ?thesis using assms(2,4) st by (auto simp: deniable_def)
qed simp

lemma deny_inv:
  assumes "run_inv w" "deniable w n"
  shows "run_inv (deny_step now n w)"
proof -
  have inv: "named_steps w" "phase_inv w" "known_phase (wf_Phase w)" using assms(1) by (simp_all add: run_inv_def)
  then have d: "distinct_steps w" by (simp add: named_steps_def)
  have none: "wf_StepStatuses w = [] \<Longrightarrow> deny_step now n w = w"
    by (cases rule: deny_step_cases [where n = n and w = w and now = now]) simp_all
  have "phase_inv (deny_step now n w)"
    using inv(2) none deny_counted [OF d assms(2)] deny_final [OF inv(1) assms(2), of done_phases]
      deny_final [OF inv(1) assms(2), of "[''Succeeded'', ''Skipped'', ''Failed'']"]
    unfolding phase_inv_def by auto
  then show ?thesis using inv by (simp add: run_inv_def named_deny)
qed

lemma approve_map_meta: "\<exists>f. approve_step n w = map_meta f w"
  by (rule exI [of _ "\<lambda>m. m\<lparr>om_Annotations := (om_Annotations m)(''purko.io/approve-'' @ n \<mapsto> ''true'')\<rparr>"])
    (simp add: approve_step_def map_meta_def Let_def)

lemma served_inv: "served a b \<Longrightarrow> run_inv (fst a) \<Longrightarrow> run_inv (fst b)"
proof (induction rule: served.induct)
  case (approval w s n s')
  then show ?case using approve_map_meta [of n w] run_step_inv [of "(w, s)"] elsewhere by (metis fst_conv)
qed (auto intro: run_step_inv deny_inv)

interpretation served_runs: wider_system served "\<lambda>a. run_inv (fst a)" run_step
  by unfold_locales (auto intro: served_inv controller)

text \<open>C3: Users can approve any step, and deny any step that has not ended, at any time between the reconciles, and a
  run that began with different step names and no statuses keeps its books, as long as at each reconcile the jobs found belong to steps of the workflow and the slice of
  statuses has room for the jobs that have no status: while the run is pending or running, the completed counter is the
  number of succeeded and skipped steps, the failed counter never exceeds the number of failed ones, and the total is the
  number of steps, each with one status at most; and every step of a run that succeeds has succeeded or was
  skipped.\<close>

theorem users_keep_counters:
  assumes "fresh_workflow w0" "served_reaches (w0, s0) (w, s)"
  shows "(wf_Phase w = ''Pending'' \<or> wf_Phase w = ''Running'' \<longrightarrow>
      wt_CompletedSteps (wf_Status w) = count_phase [''Succeeded'', ''Skipped''] w \<and>
      wt_FailedSteps (wf_Status w) \<le> count_phase [''Failed''] w \<and>
      wt_TotalSteps (wf_Status w) = int (length (wf_Steps w)) \<and> distinct (map ss_Name (wf_StepStatuses w))) \<and>
    (wf_Phase w = ''Succeeded'' \<longrightarrow> list_all (\<lambda>step. \<exists>ss. status_of w (ws_Name step) = Some ss \<and>
      ss_Phase ss \<in> {''Succeeded'', ''Skipped''}) (wf_Steps w))"
proof -
  have "phase_inv w" "distinct_steps w"
    using served_runs.reached [OF assms(2)] fresh_inv [OF assms(1)] by (simp_all add: run_inv_def named_steps_def)
  then have "wf_Phase w = ''Pending'' \<or> wf_Phase w = ''Running'' \<longrightarrow>
      counted w \<and> wt_TotalSteps (wf_Status w) = int (length (wf_Steps w))"
    "wf_Phase w = ''Succeeded'' \<longrightarrow> steps_in done_phases w" by (simp_all add: phase_inv_def)
  then show ?thesis using \<open>distinct_steps w\<close> by (simp add: counted_def steps_in_iff list_all_iff distinct_steps_def)
qed

lemma users_keep_counters_witness:
  "let w = deny_step 0 ''b'' (approve_step ''a'' (fst (reconciled_n 1 memo_start))) in
   wt_FailedSteps (wf_Status w) \<le> count_phase [''Failed''] w \<and> wf_Phase w = ''Running''"
proof -
  let ?w = "fst (reconciled_n 1 memo_start)" let ?s = "snd (reconciled_n 1 memo_start)"
  have "served_reaches memo_start (?w, ?s)" using served_runs.part_reaches [OF memo_run [of 1]] by simp
  then have "served_reaches memo_start (approve_step ''a'' ?w, ?s)" using approval by (rule rtranclp.rtrancl_into_rtrancl)
  moreover have "deniable (approve_step ''a'' ?w) ''b''" by code_simp
  ultimately have "served_reaches memo_start (deny_step 0 ''b'' (approve_step ''a'' ?w), ?s)"
    using denial rtranclp.rtrancl_into_rtrancl [of served] by blast
  moreover have "wf_Phase (deny_step 0 ''b'' (approve_step ''a'' ?w)) = ''Running''" by code_simp
  ultimately show ?thesis
    using users_keep_counters [OF memo_fresh, of _ "deny_step 0 ''b'' (approve_step ''a'' ?w)" ?s]
    unfolding Let_def by blast
qed

text \<open>
  The handler itself does not look at the status.  Denying one step of two twice makes the run count as
  finished, while the other step was never started.
\<close>

lemma denied_twice:
  "let w = plain_workflow [plain_step ''a'' [], plain_step ''b'' []] [step_in ''a'' ''Pending''];
       w2 = deny_step 1 ''a'' (deny_step 1 ''a'' w) in
   all_finished w2 \<and> wt_FailedSteps (wf_Status w2) = 2 \<and> count_phase [''Failed''] w2 = 1 \<and> status_of w2 ''b'' = None"
  by code_simp

text \<open>A denial of a step that has no status yet is acknowledged and changes nothing.\<close>

lemma denied_too_early: "n \<notin> step_names w \<Longrightarrow> deny_step now n w = w"
  by (cases rule: deny_step_cases [where n = n and w = w and now = now]) (auto simp: step_names_def)

end
