(* ===== verification/Scheduler.thy ===== *)
theory Scheduler imports Dashboard_Runs Sample_Dashboard begin

text \<open>
  The scheduler (\<^verbatim>\<open>dashboard/scheduler.go\<close>): it keeps one entry of the cron library for each workflow with a
  schedule, and the entry's callback starts a run.  The cron library is not code of the repository and is the
  argument \<open>lib\<close>; the ticker that calls \<open>sync\<close> every thirty seconds and the lock around it are not modelled.
\<close>

section \<open>The state\<close>

text \<open>
  Adding takes the expression and the workflow the callback triggers, and fails on an expression it cannot parse.
  \<open>sd_entries\<close> is the Go map, in the order a loop over it visits it.
\<close>

record 'k cron =
  cron_add :: "'k \<Rightarrow> string \<Rightarrow> string \<Rightarrow> (nat \<times> 'k) option"
  cron_remove :: "'k \<Rightarrow> nat \<Rightarrow> 'k"
  cron_entry :: "'k \<Rightarrow> nat \<Rightarrow> time \<times> time" \<comment> \<open>next and previous activation\<close>

record 'k scheduler =
  sd_Namespace :: string
  sd_cron :: 'k
  sd_entries :: "(string \<times> nat) list"

record ScheduleInfo =
  si_WorkflowName :: string
  si_Cron :: string
  si_NextRun :: string
  si_LastRun :: string
  si_Suspended :: bool
  si_RunCount :: int

section \<open>Following the workflows\<close>

definition schedule_of :: "Workflow \<Rightarrow> ScheduleTrigger option" where
  "schedule_of w = Option.bind (wp_Trigger (wf_Spec w)) tr_Schedule"

definition is_run :: "Workflow \<Rightarrow> bool" where
  "is_run w \<longleftrightarrow> wf_Annotation w ''purko.io/workflow-template'' \<noteq> []"

definition unschedule :: "'k cron \<Rightarrow> string \<Rightarrow> 'k scheduler \<Rightarrow> 'k scheduler" where
  "unschedule lib n st =
     (case map_of (sd_entries st) n of
        None \<Rightarrow> st
      | Some i \<Rightarrow> st\<lparr>sd_cron := cron_remove lib (sd_cron st) i,
          sd_entries := filter (\<lambda>(m, _). m \<noteq> n) (sd_entries st)\<rparr>)"

definition add_schedule :: "'k cron \<Rightarrow> string \<Rightarrow> ScheduleTrigger \<Rightarrow> 'k scheduler \<Rightarrow> 'k scheduler" where
  "add_schedule lib n g st =
     (if map_of (sd_entries st) n \<noteq> None then st
      else (case cron_add lib (sd_cron st) (sg_Cron g) n of
              None \<Rightarrow> st
            | Some (i, k) \<Rightarrow> st\<lparr>sd_cron := k, sd_entries := sd_entries st @ [(n, i)]\<rparr>))"

definition sync_workflow :: "'k cron \<Rightarrow> 'k scheduler \<times> string list \<Rightarrow> Workflow \<Rightarrow> 'k scheduler \<times> string list" where
  "sync_workflow lib acc w =
     (let (st, active) = acc in
      if is_run w then acc
      else (case schedule_of w of
              None \<Rightarrow> acc
            | Some g \<Rightarrow>
                if sg_Suspend g then (unschedule lib (wf_Name w) st, active)
                else (add_schedule lib (wf_Name w) g st, wf_Name w # active)))"

definition sync_schedules :: "'k cron \<Rightarrow> 'c api \<Rightarrow> 'c \<Rightarrow> 'k scheduler \<Rightarrow> 'k scheduler" where
  "sync_schedules lib a c st =
     (case k_list_wf a c (sd_Namespace st) of
        Inl _ \<Rightarrow> st
      | Inr ws \<Rightarrow>
          (let (st1, active) = foldl (sync_workflow lib) (st, []) ws
           in foldl (\<lambda>st (n, _). if n \<in> set active then st else unschedule lib n st) st1 (sd_entries st1)))"

section \<open>Starting a run\<close>

definition scheduled_input :: "time \<Rightarrow> Workflow \<Rightarrow> ScheduleTrigger \<Rightarrow> string" where
  "scheduled_input now w g =
     marshal_str_map [(''task'', wp_Description (wf_Spec w)), (''trigger'', ''schedule''),
       (''schedule'', sg_Cron g), (''timestamp'', RFC3339 now)]"

definition with_input :: "string \<Rightarrow> WorkflowSpec \<Rightarrow> WorkflowSpec" where
  "with_input inp spec = spec\<lparr>wp_Steps := map (\<lambda>step. step\<lparr>ws_Input := Some inp\<rparr>) (wp_Steps spec)\<rparr>"

definition scheduled_run :: "time \<Rightarrow> string \<Rightarrow> string \<Rightarrow> Workflow \<Rightarrow> ScheduleTrigger \<Rightarrow> Workflow" where
  "scheduled_run now namespace wfName w g =
     new_workflow namespace (wfName @ ''-sched-'' @ time_suffix now)
       [''purko.io/workflow-template'' \<mapsto> wfName, ''purko.io/trigger-type'' \<mapsto> ''schedule'',
        ''purko.io/trigger-source'' \<mapsto> sg_Cron g]
       ((with_input (scheduled_input now w g) (wf_Spec w))\<lparr>wp_Trigger := None\<rparr>)"

text \<open>
  The run's steps are the template's slice: the object the status update sends carries the new inputs as well.
  Reading the schedule of a workflow that has lost it panics, and a panic is \<open>None\<close>.
\<close>

definition triggerRun :: "'c dash \<Rightarrow> string \<Rightarrow> string \<Rightarrow> 'c \<Rightarrow> 'c option" where
  "triggerRun s namespace wfName c =
     (case k_get_wf (d_api s) c (namespace, wfName) of
        Inl _ \<Rightarrow> Some c
      | Inr w \<Rightarrow>
          (case schedule_of w of
             None \<Rightarrow> None
           | Some g \<Rightarrow>
               (case d_create_wf s c (scheduled_run (d_now s) namespace wfName w g) of
                  (Some _, c1) \<Rightarrow> Some c1
                | (None, c1) \<Rightarrow>
                    Some (snd (k_status_wf (d_api s) c1
                      (upd_status (\<lambda>st. st\<lparr>wt_LastTriggerTime := Some (d_now s)\<rparr>)
                        (w\<lparr>wf_Spec := with_input (scheduled_input (d_now s) w g) (wf_Spec w)\<rparr>)))))))"

section \<open>The list of schedules\<close>

definition GetSchedules :: "'k cron \<Rightarrow> 'k scheduler \<Rightarrow> ScheduleInfo list" where
  "GetSchedules lib st =
     map (\<lambda>(n, i). let (next, prev) = cron_entry lib (sd_cron st) i in
        \<lparr>si_WorkflowName = n, si_Cron = [], si_NextRun = RFC3339 next, si_LastRun = RFC3339 prev,
         si_Suspended = False, si_RunCount = 0\<rparr>) (sd_entries st)"

definition schedule_value :: "ScheduleInfo \<Rightarrow> iface" where
  "schedule_value i = IObj [(''workflowName'', IStr (si_WorkflowName i)), (''cron'', IStr (si_Cron i)),
     (''nextRun'', IStr (si_NextRun i)), (''lastRun'', IStr (si_LastRun i)), (''suspended'', IBool (si_Suspended i)),
     (''runCount'', int_val (si_RunCount i))]"

text \<open>Without entries the slice is nil, which is \<open>null\<close>; without a scheduler the list is empty.\<close>

definition handleSchedules :: "'k cron \<Rightarrow> 'k scheduler option \<Rightarrow> response" where
  "handleSchedules lib scheduler =
     writeJSON (IObj [(''schedules'', case scheduler of
        None \<Rightarrow> IArr []
      | Some st \<Rightarrow> (if sd_entries st = [] then INil else IArr (map schedule_value (GetSchedules lib st))))])"

section \<open>The entries follow the workflows\<close>

text \<open>
  What the cron library promises: \<open>jobs\<close> are the callbacks it runs by their number, \<open>valid\<close> the expressions it
  accepts.
\<close>

definition cron_laws :: "'k cron \<Rightarrow> ('k \<Rightarrow> nat \<rightharpoonup> string) \<Rightarrow> (string \<Rightarrow> bool) \<Rightarrow> bool" where
  "cron_laws lib jobs valid \<longleftrightarrow>
     (\<forall>k e n. (cron_add lib k e n = None) = (\<not> valid e)) \<and>
     (\<forall>k e n i k'. cron_add lib k e n = Some (i, k') \<longrightarrow> jobs k i = None \<and> jobs k' = (jobs k)(i \<mapsto> n)) \<and>
     (\<forall>k i. jobs (cron_remove lib k i) = (jobs k)(i := None))"

lemma cron_lawsD:
  assumes "cron_laws lib jobs valid"
  shows "(cron_add lib k e n = None) = (\<not> valid e)"
    "cron_add lib k e n = Some (i, k') \<Longrightarrow> jobs k i = None" "cron_add lib k e n = Some (i, k') \<Longrightarrow> jobs k' = (jobs k)(i \<mapsto> n)"
    "jobs (cron_remove lib k i) = (jobs k)(i := None)"
  using assms by (auto simp: cron_laws_def)

text \<open>The scheduler knows every callback of the library, and each workflow has at most one.\<close>

definition schedules_ok :: "('k \<Rightarrow> nat \<rightharpoonup> string) \<Rightarrow> 'k scheduler \<Rightarrow> bool" where
  "schedules_ok jobs st \<longleftrightarrow>
     distinct (map fst (sd_entries st)) \<and>
     (\<forall>i n. jobs (sd_cron st) i = Some n \<longleftrightarrow> (n, i) \<in> set (sd_entries st))"

definition scheduled :: "'k scheduler \<Rightarrow> string set" where
  "scheduled st = fst ` set (sd_entries st)"

lemma scheduled_lookup: "n \<in> scheduled st \<longleftrightarrow> map_of (sd_entries st) n \<noteq> None"
  by (simp add: scheduled_def map_of_eq_None_iff)

lemma filter_out_distinct: "distinct (map fst xs) \<Longrightarrow> distinct (map fst (filter P xs))"
  by (induction xs) auto

lemma map_of_unique: "distinct (map fst xs) \<Longrightarrow> map_of xs n = Some i \<Longrightarrow> (n, j) \<in> set xs \<longleftrightarrow> j = i"
  by (metis map_of_eq_Some_iff option.inject)

lemma unschedule_scheduled: "scheduled (unschedule lib n st) = scheduled st - {n}"
  by (force simp: scheduled_def unschedule_def map_of_eq_None_iff split: option.split)

lemma unschedule_ok:
  assumes "cron_laws lib jobs valid" "schedules_ok jobs st"
  shows "schedules_ok jobs (unschedule lib n st)"
proof (cases "map_of (sd_entries st) n")
  case (Some i)
  then have mem: "(n, i) \<in> set (sd_entries st)" by (rule map_of_SomeD)
  have ok: "distinct (map fst (sd_entries st))"
      "\<And>j m. jobs (sd_cron st) j = Some m \<longleftrightarrow> (m, j) \<in> set (sd_entries st)"
    using assms(2) by (simp_all add: schedules_ok_def)
  have "((jobs (sd_cron st))(i := None)) j = Some m \<longleftrightarrow> (m, j) \<in> set (sd_entries st) \<and> m \<noteq> n" for j m
  proof (cases "j = i")
    case True
    then show ?thesis using ok(2) [of i n] ok(2) [of i m] mem by auto
  next
    case False
    then show ?thesis using ok(2) [of j m] map_of_unique [OF ok(1) Some, of j] by auto
  qed
  then show ?thesis
    by (simp add: unschedule_def Some schedules_ok_def cron_lawsD(4) [OF assms(1)] filter_out_distinct [OF ok(1)])
qed (use assms in \<open>simp add: unschedule_def\<close>)

lemma unschedule_namespace [simp]: "sd_Namespace (unschedule lib n st) = sd_Namespace st"
  by (simp add: unschedule_def split: option.split)

lemma schedule_scheduled:
  assumes "cron_laws lib jobs valid"
  shows "scheduled (add_schedule lib n g st) = scheduled st \<union> (if valid (sg_Cron g) then {n} else {})"
proof (cases "map_of (sd_entries st) n")
  case None
  then show ?thesis
    using cron_lawsD(1) [OF assms, of "sd_cron st" "sg_Cron g" n]
    by (cases "cron_add lib (sd_cron st) (sg_Cron g) n") (auto simp: add_schedule_def scheduled_def)
next
  case (Some i)
  then have "n \<in> scheduled st" by (simp add: scheduled_lookup)
  with Some show ?thesis by (auto simp: add_schedule_def)
qed

lemma schedule_ok:
  assumes "cron_laws lib jobs valid" "schedules_ok jobs st"
  shows "schedules_ok jobs (add_schedule lib n g st)"
proof (cases "map_of (sd_entries st) n = None")
  case True
  show ?thesis
  proof (cases "cron_add lib (sd_cron st) (sg_Cron g) n")
    case None
    then show ?thesis using assms by (simp add: add_schedule_def)
  next
    case (Some r)
    obtain i k where r: "r = (i, k)" by (cases r)
    note laws = cron_lawsD(2,3) [OF assms(1) Some [unfolded r]]
    have ok: "distinct (map fst (sd_entries st))" "n \<notin> scheduled st"
        "\<And>j m. jobs (sd_cron st) j = Some m \<longleftrightarrow> (m, j) \<in> set (sd_entries st)"
      using assms(2) True by (simp_all add: schedules_ok_def scheduled_lookup)
    have "jobs k j = Some m \<longleftrightarrow> (m, j) \<in> set (sd_entries st) \<or> (m = n \<and> j = i)" for j m
      using ok(3) [of j m] laws by auto
    then show ?thesis using ok(1,2) True Some r by (auto simp: add_schedule_def schedules_ok_def scheduled_def)
  qed
qed (use assms in \<open>simp add: add_schedule_def\<close>)

text \<open>The schedule a workflow is to run on: it is a template, and the schedule is not suspended.\<close>

definition active_schedule :: "Workflow \<Rightarrow> ScheduleTrigger option" where
  "active_schedule w = (if is_run w then None
     else Option.bind (schedule_of w) (\<lambda>g. if sg_Suspend g then None else Some g))"

lemma sync_workflow_step:
  assumes laws: "cron_laws lib jobs valid" and step: "sync_workflow lib (st, active) w = (st', active')"
  shows "schedules_ok jobs st \<Longrightarrow> schedules_ok jobs st'"
    "set active' = set active \<union> (if active_schedule w = None then {} else {wf_Name w})"
    "n \<noteq> wf_Name w \<Longrightarrow> n \<in> scheduled st' \<longleftrightarrow> n \<in> scheduled st"
    "active_schedule w = Some g \<Longrightarrow> wf_Name w \<in> scheduled st' \<longleftrightarrow> wf_Name w \<in> scheduled st \<or> valid (sg_Cron g)"
proof -
  consider (off) "active_schedule w = None" "st' = st" "active' = active"
    | (suspended) "active_schedule w = None" "st' = unschedule lib (wf_Name w) st" "active' = active"
    | (on) h where "active_schedule w = Some h" "st' = add_schedule lib (wf_Name w) h st" "active' = wf_Name w # active"
    using step by (auto simp: sync_workflow_def active_schedule_def split: if_splits option.splits)
  note cases = this
  show "schedules_ok jobs st \<Longrightarrow> schedules_ok jobs st'"
    by (cases rule: cases) (simp_all add: unschedule_ok [OF laws] schedule_ok [OF laws])
  show "set active' = set active \<union> (if active_schedule w = None then {} else {wf_Name w})"
    by (cases rule: cases) auto
  show "n \<noteq> wf_Name w \<Longrightarrow> n \<in> scheduled st' \<longleftrightarrow> n \<in> scheduled st"
    by (cases rule: cases) (simp_all only: unschedule_scheduled schedule_scheduled [OF laws], auto)
  show "active_schedule w = Some g \<Longrightarrow> wf_Name w \<in> scheduled st' \<longleftrightarrow> wf_Name w \<in> scheduled st \<or> valid (sg_Cron g)"
    by (cases rule: cases) (simp_all add: schedule_scheduled [OF laws])
qed

lemma sync_workflows:
  assumes laws: "cron_laws lib jobs valid"
  shows "foldl (sync_workflow lib) (st, active) ws = (st', active') \<Longrightarrow> distinct (map wf_Name ws) \<Longrightarrow>
    (schedules_ok jobs st \<longrightarrow> schedules_ok jobs st') \<and>
    set active' = set active \<union> wf_Name ` {w \<in> set ws. active_schedule w \<noteq> None} \<and>
    (\<forall>n. n \<notin> wf_Name ` set ws \<longrightarrow> n \<in> scheduled st' \<longleftrightarrow> n \<in> scheduled st) \<and>
    (\<forall>w g. w \<in> set ws \<longrightarrow> active_schedule w = Some g \<longrightarrow>
      (wf_Name w \<in> scheduled st' \<longleftrightarrow> wf_Name w \<in> scheduled st \<or> valid (sg_Cron g)))"
proof (induction ws arbitrary: st active)
  case (Cons w ws)
  obtain st1 active1 where one: "sync_workflow lib (st, active) w = (st1, active1)"
    by (cases "sync_workflow lib (st, active) w")
  note step = sync_workflow_step [OF laws one]
  have new: "wf_Name w \<notin> wf_Name ` set ws" "distinct (map wf_Name ws)" using Cons.prems(2) by auto
  have "foldl (sync_workflow lib) (st1, active1) ws = (st', active')" using Cons.prems(1) one by simp
  note rest = Cons.IH [OF this new(2)]
  have "wf_Name v \<in> scheduled st' \<longleftrightarrow> wf_Name v \<in> scheduled st \<or> valid (sg_Cron g)"
    if "v \<in> set (w # ws)" "active_schedule v = Some g" for v g
  proof (cases "v = w")
    case True
    with rest new(1) step(4) that show ?thesis by blast
  next
    case False
    with that have v1: "v \<in> set ws" by simp
    have v: "v \<in> set ws" "wf_Name v \<noteq> wf_Name w"
      using v1 new(1) imageI [OF v1, of wf_Name] by metis+
    with rest that(2) step(3) [OF v(2)] show ?thesis by blast
  qed
  moreover have "n \<in> scheduled st' \<longleftrightarrow> n \<in> scheduled st" if "n \<notin> wf_Name ` set (w # ws)" for n
    using that rest step(3) [of n] by simp
  moreover have "set active' = set active \<union> wf_Name ` {v \<in> set (w # ws). active_schedule v \<noteq> None}"
    using rest step(2) by auto
  ultimately show ?case using rest step(1) by blast
qed simp

lemma unschedule_others:
  assumes laws: "cron_laws lib jobs valid" and ok: "schedules_ok jobs st"
  shows "schedules_ok jobs (foldl (\<lambda>st (n, _). if n \<in> A then st else unschedule lib n st) st xs) \<and>
    scheduled (foldl (\<lambda>st (n, _). if n \<in> A then st else unschedule lib n st) st xs) =
      scheduled st - (fst ` set xs - A)"
  using ok
proof (induction xs arbitrary: st)
  case (Cons x xs)
  obtain n i where x: "x = (n, i)" by (cases x)
  show ?case using Cons.IH [of "if n \<in> A then st else unschedule lib n st"] Cons.prems
      unschedule_ok [OF laws Cons.prems, of n] unschedule_scheduled [of lib n st]
    by (auto simp: x split: if_splits)
qed simp

text \<open>C25: After the scheduler has read the workflows of its namespace, the cron library runs exactly the callbacks of
  the scheduler's entries, each workflow has at most one, and a workflow has one exactly when it is a template whose
  schedule is not suspended and it had one before or its expression is valid: nothing stays behind for a workflow that
  is gone, suspended or without a schedule.\<close>

theorem schedules_follow_workflows:
  assumes laws: "cron_laws lib jobs valid" and ok: "schedules_ok jobs st"
    and ws: "k_list_wf a c (sd_Namespace st) = Inr ws" "distinct (map wf_Name ws)"
  shows "schedules_ok jobs (sync_schedules lib a c st) \<and>
    (\<forall>n. n \<in> scheduled (sync_schedules lib a c st) \<longleftrightarrow>
      (\<exists>w g. w \<in> set ws \<and> wf_Name w = n \<and> active_schedule w = Some g \<and> (n \<in> scheduled st \<or> valid (sg_Cron g))))"
proof -
  obtain st1 active where run: "foldl (sync_workflow lib) (st, []) ws = (st1, active)"
    by (cases "foldl (sync_workflow lib) (st, []) ws")
  note all = sync_workflows [OF laws run ws(2)]
  have ok1: "schedules_ok jobs st1" using all ok by blast
  note del = unschedule_others [OF laws ok1, of "set active" "sd_entries st1"]
  have "sync_schedules lib a c st =
      foldl (\<lambda>st (n, _). if n \<in> set active then st else unschedule lib n st) st1 (sd_entries st1)"
    by (simp add: sync_schedules_def ws(1) run)
  moreover have "scheduled st1 - (scheduled st1 - set active) = scheduled st1 \<inter> set active" by blast
  ultimately have res: "schedules_ok jobs (sync_schedules lib a c st)"
      "scheduled (sync_schedules lib a c st) = scheduled st1 \<inter> set active"
    using del by (simp_all add: scheduled_def [of st1, symmetric])
  have "n \<in> scheduled st1 \<and> n \<in> set active \<longleftrightarrow>
      (\<exists>w g. w \<in> set ws \<and> wf_Name w = n \<and> active_schedule w = Some g \<and> (n \<in> scheduled st \<or> valid (sg_Cron g)))" for n
  proof -
    have "n \<in> set active \<longleftrightarrow> (\<exists>w g. w \<in> set ws \<and> wf_Name w = n \<and> active_schedule w = Some g)"
      using all by auto
    then show ?thesis using all by blast
  qed
  with res show ?thesis by simp
qed

text \<open>An entry that stays keeps its callback: a changed expression is not noticed.\<close>

lemma changed_cron_kept: "n \<in> scheduled st \<Longrightarrow> add_schedule lib n g st = st"
  by (simp add: add_schedule_def scheduled_lookup)

text \<open>The callback of a workflow that has lost its schedule, before the next reading removes it, panics.\<close>

lemma lost_schedule_panics:
  "k_get_wf (d_api s) c (namespace, n) = Inr w \<Longrightarrow> schedule_of w = None \<Longrightarrow> triggerRun s namespace n c = None"
  by (simp add: triggerRun_def)

text \<open>A run is created from a workflow that a run of the scheduler created only when that workflow has a trigger:
  the runs themselves have none.\<close>

lemma run_not_scheduled: "wfName \<noteq> [] \<Longrightarrow> active_schedule (scheduled_run now namespace wfName w g) = None"
  by (simp add: active_schedule_def is_run_def scheduled_run_def new_workflow_def)

section \<open>A cron library in lists\<close>

record cron_table =
  ct_next :: nat
  ct_jobs :: "(nat \<times> string) list"

definition list_cron :: "cron_table cron" where
  "list_cron = \<lparr>
     cron_add = \<lambda>k e n. if e = [] then None
        else Some (ct_next k, \<lparr>ct_next = Suc (ct_next k), ct_jobs = (ct_next k, n) # ct_jobs k\<rparr>),
     cron_remove = \<lambda>k i. k\<lparr>ct_jobs := filter (\<lambda>(j, _). j \<noteq> i) (ct_jobs k)\<rparr>,
     cron_entry = \<lambda>k i. (0, 0)\<rparr>"

text \<open>The callbacks with a number the table has given out.\<close>

definition table_jobs :: "cron_table \<Rightarrow> nat \<rightharpoonup> string" where
  "table_jobs k i = (if i < ct_next k then map_of (ct_jobs k) i else None)"

lemma map_of_filter_out: "map_of (filter (\<lambda>(j, _). j \<noteq> i) xs) j = (if j = i then None else map_of xs j)"
  by (induction xs) auto

lemma list_cron_laws: "cron_laws list_cron table_jobs (\<lambda>e. e \<noteq> [])"
  by (auto simp: cron_laws_def list_cron_def table_jobs_def map_of_filter_out fun_eq_iff split: if_splits)

definition nightly :: "string \<Rightarrow> string \<Rightarrow> bool \<Rightarrow> Workflow" where
  "nightly n expr suspended =
     (plain_workflow [plain_step ''a'' []] [])\<lparr>wf_Meta := named_meta n,
       wf_Spec := (plain_spec [plain_step ''a'' []])\<lparr>wp_Trigger := Some \<lparr>tr_Type = ''schedule'',
         tr_Schedule = Some \<lparr>sg_Cron = expr, sg_Timezone = [], sg_Suspend = suspended\<rparr>, tr_Webhook = None,
         tr_EventTriggers = []\<rparr>\<rparr>\<rparr>"

definition cron_cluster :: cluster where
  "cron_cluster = no_cluster\<lparr>cl_wfs := [nightly ''report'' ''0 3 * * *'' False, nightly ''audit'' ''0 4 * * *'' True,
     nightly ''broken'' [] False]\<rparr>"

definition cron_start :: "cron_table scheduler" where
  "cron_start = \<lparr>sd_Namespace = ''team'', sd_cron = \<lparr>ct_next = 2, ct_jobs = [(0, ''audit''), (1, ''gone'')]\<rparr>,
     sd_entries = [(''audit'', 0), (''gone'', 1)]\<rparr>"

lemma nightly_active [simp]: "wf_Name (nightly n expr b) = n"
  "active_schedule (nightly n expr b) = (if b then None else Some \<lparr>sg_Cron = expr, sg_Timezone = [], sg_Suspend = b\<rparr>)"
  by (simp_all add: nightly_def named_meta_def empty_meta_def active_schedule_def schedule_of_def is_run_def)

lemma cron_start_ok: "schedules_ok table_jobs cron_start"
  by (auto simp: schedules_ok_def cron_start_def table_jobs_def)

lemma schedules_follow_workflows_witness:
  "schedules_ok table_jobs (sync_schedules list_cron list_api cron_cluster cron_start) \<and>
   scheduled (sync_schedules list_cron list_api cron_cluster cron_start) = {''report''}"
proof -
  have ws: "k_list_wf list_api cron_cluster (sd_Namespace cron_start) = Inr (cl_wfs cron_cluster)"
    by (simp add: list_api_def cron_start_def cron_cluster_def nightly_def named_meta_def empty_meta_def no_cluster_def)
  have names: "distinct (map wf_Name (cl_wfs cron_cluster))"
    by (simp add: cron_cluster_def nightly_def named_meta_def)
  note follow = schedules_follow_workflows [OF list_cron_laws cron_start_ok ws names]
  have "n \<in> scheduled (sync_schedules list_cron list_api cron_cluster cron_start) \<longleftrightarrow> n = ''report''" for n
  proof -
    have "(\<exists>w g. w \<in> set (cl_wfs cron_cluster) \<and> wf_Name w = n \<and> active_schedule w = Some g \<and>
        (n \<in> scheduled cron_start \<or> sg_Cron g \<noteq> [])) \<longleftrightarrow>
      list_ex (\<lambda>w. wf_Name w = n \<and> (case active_schedule w of None \<Rightarrow> False
        | Some g \<Rightarrow> n \<in> scheduled cron_start \<or> sg_Cron g \<noteq> [])) (cl_wfs cron_cluster)"
      by (auto simp: list_ex_iff split: option.splits)
    also have "\<dots> \<longleftrightarrow> n = ''report''"
      by (auto simp: cron_cluster_def cron_start_def scheduled_def)
    finally show ?thesis using follow by blast
  qed
  then show ?thesis using follow by auto
qed

end
