(* ===== verification/Dashboard_Views.thy ===== *)
theory Dashboard_Views imports Router Workflow_Core "HOL-Library.Multiset" begin

text \<open>
  What the dashboard shows of agents and workflows (\<^verbatim>\<open>dashboard/server.go\<close>): the overview, the two lists and
  the two detail pages.  The stream of \<^verbatim>\<open>handleSSE\<close> sends the same overview every three seconds.  A page that
  holds a whole resource is the resource itself, since its encoding is the Kubernetes library's.
\<close>

section \<open>Summaries\<close>

record AgentSummary =
  gs_Name :: string
  gs_Namespace :: string
  gs_Type :: string
  gs_Provider :: string
  gs_Model :: string
  gs_Phase :: string
  gs_Replicas :: int
  gs_Autonomy :: string
  gs_ToolCount :: int
  gs_Age :: string
  gs_Generation :: int
  gs_Group :: string
  gs_Image :: string

record StepBrief =
  sf_Name :: string
  sf_Phase :: string
  sf_Agent :: string
  sf_Type :: string
  sf_JobName :: string
  sf_Duration :: string
  sf_DepsOn :: "string list"

record WorkflowSummary =
  fs_Name :: string
  fs_Namespace :: string
  fs_Phase :: string
  fs_Total :: int
  fs_Completed :: int
  fs_Failed :: int
  fs_Duration :: string
  fs_Steps :: "StepBrief list"
  fs_Age :: string
  fs_Repository :: string
  fs_Parameters :: str_alist
  fs_TriggerType :: string
  fs_TriggerSource :: string
  fs_TriggerRoute :: string
  fs_TemplateRef :: string

record OverviewData =
  ov_AgentCount :: nat
  ov_AgentReady :: nat
  ov_WorkflowCount :: nat
  ov_WfSucceeded :: nat
  ov_WfRunning :: nat
  ov_WfFailed :: nat
  ov_DeployCount :: nat
  ov_HPACount :: nat
  ov_Agents :: "AgentSummary list"
  ov_Workflows :: "WorkflowSummary list"
  ov_Timestamp :: string

text \<open>The list is sorted by name; names are unique in a namespace, so that the order of equal names does not matter.\<close>

definition by_name :: "('a \<Rightarrow> string) \<Rightarrow> 'a list \<Rightarrow> 'a list" where
  "by_name f xs = order_by (\<lambda>a b. str_le (f a) (f b)) xs"

definition elapsed :: "time option \<Rightarrow> time option \<Rightarrow> string" where
  "elapsed completion start =
     (case (completion, start) of (Some b, Some a) \<Rightarrow> show_duration (round_second (b - a)) | _ \<Rightarrow> [])"

definition age_of :: "time \<Rightarrow> ObjectMeta \<Rightarrow> string" where
  "age_of now m = show_duration (round_second (now - om_CreationTimestamp m))"

section \<open>Agents\<close>

definition agent_group :: "Agent \<Rightarrow> string" where
  "agent_group a =
     (let group = get_str (om_Labels (ag_Meta a)) ''app.kubernetes.io/component''
      in if group = [] then ''general'' else group)"

definition agent_image :: "Agent \<Rightarrow> string" where
  "agent_image a =
     (case as_Runtime (ag_Spec a) of
        None \<Rightarrow> ''purko-executor:latest''
      | Some rt \<Rightarrow> if rt_Image rt \<noteq> [] then rt_Image rt else ''purko-executor:latest'')"

definition agent_summary :: "time \<Rightarrow> Agent \<Rightarrow> AgentSummary" where
  "agent_summary now a =
     (let sp = ag_Spec a in
      \<lparr>gs_Name = ag_Name a, gs_Namespace = om_Namespace (ag_Meta a), gs_Type = as_Type sp,
       gs_Provider = mo_Provider (as_Model sp), gs_Model = mo_Name (as_Model sp),
       gs_Phase = at_Phase (ag_Status a), gs_Replicas = at_AvailableReplicas (ag_Status a),
       gs_Autonomy = as_AutonomyLevel sp, gs_ToolCount = int (length (as_Tools sp)), gs_Age = age_of now (ag_Meta a),
       gs_Generation = om_Generation (ag_Meta a), gs_Group = agent_group a, gs_Image = agent_image a\<rparr>)"

definition listAgents :: "'c dash \<Rightarrow> 'c \<Rightarrow> AgentSummary list" where
  "listAgents s c = by_name gs_Name (map (agent_summary (d_now s)) (d_list_agents s c (ns_of s)))"

section \<open>Workflows\<close>

text \<open>The last status of a name counts; a step without a status reads as the empty one.\<close>

definition status_of :: "StepStatus list \<Rightarrow> string \<Rightarrow> StepStatus" where
  "status_of sss n = lookup_or (zero_step_status []) (map_of (rev (map (\<lambda>ss. (ss_Name ss, ss)) sss))) n"

definition step_brief :: "StepStatus list \<Rightarrow> WorkflowStep \<Rightarrow> StepBrief" where
  "step_brief sss step =
     (let ss = status_of sss (ws_Name step) in
      \<lparr>sf_Name = ws_Name step, sf_Phase = ss_Phase ss, sf_Agent = ar_Name (ws_AgentRef step),
       sf_Type = ws_Type step, sf_JobName = ss_JobName ss,
       sf_Duration = elapsed (ss_CompletionTime ss) (ss_StartTime ss), sf_DepsOn = ws_DependsOn step\<rparr>)"

definition workflow_summary :: "time \<Rightarrow> Workflow \<Rightarrow> WorkflowSummary" where
  "workflow_summary now w =
     (let st = wf_Status w in
      \<lparr>fs_Name = wf_Name w, fs_Namespace = wf_Namespace w, fs_Phase = wt_Phase st, fs_Total = wt_TotalSteps st,
       fs_Completed = wt_CompletedSteps st, fs_Failed = wt_FailedSteps st,
       fs_Duration = elapsed (wt_CompletionTime st) (wt_StartTime st),
       fs_Steps = map (step_brief (wt_StepStatuses st)) (wf_Steps w), fs_Age = age_of now (wf_Meta w),
       fs_Repository = lookup_or [] (map_of (wp_Parameters (wf_Spec w))) ''repository'',
       fs_Parameters = wp_Parameters (wf_Spec w), fs_TriggerType = wf_Annotation w ''purko.io/trigger-type'',
       fs_TriggerSource = wf_Annotation w ''purko.io/trigger-source'',
       fs_TriggerRoute = wf_Annotation w ''purko.io/trigger-route'',
       fs_TemplateRef = wf_Annotation w ''purko.io/workflow-template''\<rparr>)"

definition listWorkflows :: "'c dash \<Rightarrow> 'c \<Rightarrow> WorkflowSummary list" where
  "listWorkflows s c =
     by_name fs_Name (map (workflow_summary (d_now s))
       (case k_list_wf (d_api s) c (ns_of s) of Inl _ \<Rightarrow> [] | Inr ws \<Rightarrow> ws))"

section \<open>The overview\<close>

definition tally :: "('a \<Rightarrow> bool) \<Rightarrow> 'a list \<Rightarrow> nat" where
  "tally P xs = length (filter P xs)"

definition buildOverview :: "'c dash \<Rightarrow> 'c \<Rightarrow> OverviewData" where
  "buildOverview s c =
     (let agents = listAgents s c; workflows = listWorkflows s c in
      \<lparr>ov_AgentCount = length agents, ov_AgentReady = tally (\<lambda>a. gs_Phase a = ''Ready'') agents,
       ov_WorkflowCount = length workflows,
       ov_WfSucceeded = tally (\<lambda>w. fs_Phase w = ''Succeeded'') workflows,
       ov_WfRunning = tally (\<lambda>w. fs_Phase w = ''Running'') workflows,
       ov_WfFailed = tally (\<lambda>w. fs_Phase w = ''Failed'' \<or> fs_Phase w = ''CompletedWithErrors'') workflows,
       ov_DeployCount = d_deployments s c (ns_of s) ''agentic-crds'', ov_HPACount = d_scalers s c (ns_of s),
       ov_Agents = agents, ov_Workflows = workflows, ov_Timestamp = RFC3339 (d_now s)\<rparr>)"

section \<open>Details\<close>

definition handleWhoami :: "request \<Rightarrow> response" where
  "handleWhoami r =
     (let email = rq_Header r ''X-Forwarded-Email''
      in writeJSON (obj_str [(''user'', if email = [] then rq_Header r ''X-Forwarded-User'' else email)]))"

definition path_rest :: "string \<Rightarrow> request \<Rightarrow> string" where
  "path_rest pre r = drop (length pre) (rq_Path r)"

definition handleAgentDetail :: "'c dash \<Rightarrow> request \<Rightarrow> 'c \<Rightarrow> response + Agent \<times> (string \<times> string \<times> string) list" where
  "handleAgentDetail s r c =
     (let name = path_rest ''/api/agent/'' r in
      if name = [] then Inl (http_error ''agent name required'' 400)
      else (case k_get_agent (d_api s) c (ns_of s, name) of
              Inl e \<Rightarrow> Inl (http_error (d_errtext s e) 404)
            | Inr a \<Rightarrow> Inr (a, d_pods s c (ns_of s) name)))"

definition jobStatus :: "Job \<Rightarrow> string" where
  "jobStatus j =
     (case find (\<lambda>c. (jc_Type c = ''Complete'' \<or> jc_Type c = ''Failed'') \<and> jc_Status c = ''True'') (jo_Conditions j) of
        Some c \<Rightarrow> jc_Type c
      | None \<Rightarrow> if 0 < jo_Active j then ''Running'' else ''Pending'')"

definition job_view :: "Job \<Rightarrow> iface" where
  "job_view j = obj_str [(''name'', jo_Name j), (''step'', jo_Label j ''purko.io/step''), (''status'', jobStatus j),
     (''duration'', elapsed (jo_CompletionTime j) (jo_StartTime j))]"

definition handleWorkflowDetail :: "'c dash \<Rightarrow> request \<Rightarrow> 'c \<Rightarrow> response + Workflow \<times> str_map \<times> iface list" where
  "handleWorkflowDetail s r c =
     (let name = path_rest ''/api/workflow/'' r in
      if name = [] then Inl (http_error ''workflow name required'' 400)
      else (case k_get_wf (d_api s) c (ns_of s, name) of
              Inl e \<Rightarrow> Inl (http_error (d_errtext s e) 404)
            | Inr w \<Rightarrow>
                Inr (w,
                  (case k_get_cm (d_api s) c (ns_of s, name @ ''-outputs'') of Inl _ \<Rightarrow> Map.empty | Inr cm \<Rightarrow> cm_Data cm),
                  (case k_list_jobs (d_api s) c (ns_of s) name of Inl _ \<Rightarrow> [] | Inr js \<Rightarrow> map job_view js))))"

section \<open>Features and presets\<close>

definition historyRetentionDays :: int where
  "historyRetentionDays = 7"

definition handleFeatures :: response where
  "handleFeatures =
     writeJSON (IObj (map (\<lambda>(k, v). (k, IBool v)) proFeatures @ [(''historyRetentionDays'', int_val historyRetentionDays)]))"

definition no_presets :: "str_alist \<Rightarrow> response" where
  "no_presets error = writeJSON (IObj ((''presets'', IArr []) # map (\<lambda>(k, v). (k, IStr v)) error))"

text \<open>\<open>null\<close> decodes into a nil slice.\<close>

definition handlePresets :: "'c dash \<Rightarrow> 'c \<Rightarrow> response" where
  "handlePresets s c =
     (case k_get_cm (d_api s) c (ns_of s, ''purko-presets'') of
        Inl _ \<Rightarrow> no_presets []
      | Inr cm \<Rightarrow>
          (case cm_Data cm ''presets'' of
             None \<Rightarrow> no_presets []
           | Some txt \<Rightarrow>
               (case unmarshal_iface txt of
                  Some (IArr vs) \<Rightarrow> writeJSON (IObj [(''presets'', IArr vs)])
                | Some INil \<Rightarrow> writeJSON (IObj [(''presets'', INil)])
                | _ \<Rightarrow> no_presets [(''error'', ''invalid presets format'')])))"

section \<open>Facts about the views\<close>

lemma mset_by_name: "mset (by_name f xs) = mset xs"
  unfolding by_name_def by (rule mset_order_by)

lemma sorted_by_name: "sorted_wrt (\<lambda>a b. str_le (f a) (f b)) (by_name f xs)"
  unfolding by_name_def by (rule sorted_order_by) (use str_le_total str_le_trans in blast)+

lemma tally_by_name [simp]: "tally P (by_name f xs) = tally P xs"
proof -
  have "size (filter_mset P (mset (by_name f xs))) = size (filter_mset P (mset xs))" by (simp add: mset_by_name)
  then show ?thesis by (simp add: tally_def flip: mset_filter)
qed

lemma length_by_name [simp]: "length (by_name f xs) = length xs"
  using mset_by_name [of f xs] by (metis size_mset)

lemma tally_map [simp]: "tally P (map f xs) = tally (\<lambda>x. P (f x)) xs"
  by (simp add: tally_def filter_map comp_def)

lemma tally_disjoint:
  "(\<And>x. P x \<Longrightarrow> \<not> Q x) \<Longrightarrow> tally P xs + tally Q xs = tally (\<lambda>x. P x \<or> Q x) xs"
  by (induction xs) (auto simp: tally_def)

lemma tally_le: "tally P xs \<le> length xs"
  by (simp add: tally_def)

text \<open>The overview counts the workflows of the cluster by their phase, and none twice.\<close>

lemma overview_counts:
  assumes "k_list_wf (d_api s) c (ns_of s) = Inr ws"
  defines "ov \<equiv> buildOverview s c"
  shows "ov_WorkflowCount ov = length ws" "ov_WfSucceeded ov = tally (\<lambda>w. wf_Phase w = ''Succeeded'') ws"
    "ov_WfRunning ov = tally (\<lambda>w. wf_Phase w = ''Running'') ws"
    "ov_WfSucceeded ov + ov_WfRunning ov + ov_WfFailed ov \<le> ov_WorkflowCount ov"
proof -
  have fold: "ov_WfSucceeded ov = tally (\<lambda>w. wf_Phase w = ''Succeeded'') ws"
    "ov_WfRunning ov = tally (\<lambda>w. wf_Phase w = ''Running'') ws"
    "ov_WfFailed ov = tally (\<lambda>w. wf_Phase w = ''Failed'' \<or> wf_Phase w = ''CompletedWithErrors'') ws"
    "ov_WorkflowCount ov = length ws"
    using assms by (simp_all add: buildOverview_def Let_def listWorkflows_def workflow_summary_def)
  show "ov_WorkflowCount ov = length ws" "ov_WfSucceeded ov = tally (\<lambda>w. wf_Phase w = ''Succeeded'') ws"
    "ov_WfRunning ov = tally (\<lambda>w. wf_Phase w = ''Running'') ws" by (fact fold)+
  show "ov_WfSucceeded ov + ov_WfRunning ov + ov_WfFailed ov \<le> ov_WorkflowCount ov"
    unfolding fold by (subst tally_disjoint; (subst tally_disjoint)?; auto simp: tally_le)
qed

text \<open>A job shown as complete is one the controller takes for complete, and so is one shown as failed.\<close>

lemma first_condition:
  fixes t :: string
  assumes "d \<noteq> t" "t \<in> {''Complete'', ''Failed''}"
  shows "(case find (\<lambda>c. (jc_Type c = ''Complete'' \<or> jc_Type c = ''Failed'') \<and> jc_Status c = ''True'') cs of
      Some c \<Rightarrow> jc_Type c | None \<Rightarrow> d) = t \<Longrightarrow> list_ex (\<lambda>c. jc_Type c = t \<and> jc_Status c = ''True'') cs"
  using assms by (induction cs) (auto split: if_splits)

lemma only_condition:
  assumes "list_ex (\<lambda>c. jc_Type c = t \<and> jc_Status c = ''True'') cs" "t \<in> {''Complete'', ''Failed''}"
    "\<And>u. u \<in> {''Complete'', ''Failed''} \<Longrightarrow> u \<noteq> t \<Longrightarrow> \<not> list_ex (\<lambda>c. jc_Type c = u \<and> jc_Status c = ''True'') cs"
  shows "(case find (\<lambda>c. (jc_Type c = ''Complete'' \<or> jc_Type c = ''Failed'') \<and> jc_Status c = ''True'') cs of
      Some c \<Rightarrow> jc_Type c | None \<Rightarrow> d) = t"
  using assms by (induction cs) (auto split: if_splits)

lemma jobStatus_agrees:
  "jobStatus j = ''Complete'' \<Longrightarrow> isJobComplete j" "jobStatus j = ''Failed'' \<Longrightarrow> isJobFailed j"
  "isJobComplete j \<Longrightarrow> \<not> isJobFailed j \<Longrightarrow> jobStatus j = ''Complete''"
  "isJobFailed j \<Longrightarrow> \<not> isJobComplete j \<Longrightarrow> jobStatus j = ''Failed''"
  unfolding jobStatus_def isJobComplete_def isJobFailed_def
  by - ((rule first_condition [rotated 2], assumption, simp, simp) | (rule only_condition, assumption, simp, auto))+

end
