(* ===== verification/Dashboard_Config.thy ===== *)
theory Dashboard_Config imports Router MCP_Controller Registry "HOL-Library.Monad_Syntax"
begin

text \<open>
  The handlers of the dashboard that write agents, MCP servers and LLM providers (\<^verbatim>\<open>dashboard/server.go\<close>).
\<close>

abbreviation method_of :: "Http.request \<Rightarrow> string" where "method_of r \<equiv> Http.request.rq_Method r"
abbreviation path_of :: "Http.request \<Rightarrow> string" where "path_of r \<equiv> Http.request.rq_Path r"

section \<open>Agents\<close>

record CreateAgentRequest =
  ca_Name :: string
  ca_Namespace :: string
  ca_Type :: string
  ca_Provider :: string
  ca_Model :: string
  ca_Temperature :: f64
  ca_Autonomy :: string
  ca_Memory :: string
  ca_MemoryBehavior :: string
  ca_MemoryScope :: string
  ca_MemoryProviderRef :: string
  ca_MemoryMaxContextTokens :: int
  ca_Role :: string
  ca_Image :: "string option"
  ca_Group :: string
  ca_CostLimit :: f64
  ca_MaxIterations :: int
  ca_MaxExecutionTime :: string
  ca_RollbackOnFailure :: "bool option"
  ca_SystemPrompt :: string
  ca_Tools :: "string list"
  ca_MinReplicas :: int
  ca_MaxReplicas :: int
  ca_TargetCPU :: int

definition decode_agent_request :: "(string \<times> string \<times> jtree) list \<Rightarrow> CreateAgentRequest option" where
  "decode_agent_request ms = do {
     name \<leftarrow> field_str ''name'' ms;
     namespace \<leftarrow> field_str ''namespace'' ms;
     type \<leftarrow> field_str ''type'' ms;
     provider \<leftarrow> field_str ''provider'' ms;
     model \<leftarrow> field_str ''model'' ms;
     temperature \<leftarrow> field_f64 ''temperature'' ms;
     autonomy \<leftarrow> field_str ''autonomy'' ms;
     memory \<leftarrow> field_str ''memory'' ms;
     behavior \<leftarrow> field_str ''memoryBehavior'' ms;
     scope \<leftarrow> field_str ''memoryScope'' ms;
     ref \<leftarrow> field_str ''memoryProviderRef'' ms;
     tokens \<leftarrow> field_int ''memoryMaxContextTokens'' ms;
     role \<leftarrow> field_str ''role'' ms;
     img \<leftarrow> field_str_ptr ''image'' ms;
     group \<leftarrow> field_str ''group'' ms;
     cost \<leftarrow> field_f64 ''costLimit'' ms;
     iterations \<leftarrow> field_int ''maxIterations'' ms;
     exec_time \<leftarrow> field_str ''maxExecutionTime'' ms;
     rollback \<leftarrow> field_bool_ptr ''rollbackOnFailure'' ms;
     prompt \<leftarrow> field_str ''systemPrompt'' ms;
     tools \<leftarrow> field_strs ''tools'' ms;
     min_replicas \<leftarrow> field_int ''minReplicas'' ms;
     max_replicas \<leftarrow> field_int ''maxReplicas'' ms;
     cpu \<leftarrow> field_int ''targetCPU'' ms;
     Some \<lparr>ca_Name = name, ca_Namespace = namespace, ca_Type = type, ca_Provider = provider, ca_Model = model,
       ca_Temperature = temperature, ca_Autonomy = autonomy, ca_Memory = memory, ca_MemoryBehavior = behavior,
       ca_MemoryScope = scope, ca_MemoryProviderRef = ref, ca_MemoryMaxContextTokens = tokens, ca_Role = role,
       ca_Image = img, ca_Group = group, ca_CostLimit = cost, ca_MaxIterations = iterations,
       ca_MaxExecutionTime = exec_time, ca_RollbackOnFailure = rollback, ca_SystemPrompt = prompt, ca_Tools = tools,
       ca_MinReplicas = min_replicas, ca_MaxReplicas = max_replicas, ca_TargetCPU = cpu\<rparr> }"

definition decoded :: "((string \<times> string \<times> jtree) list \<Rightarrow> 'r option) \<Rightarrow> Http.request \<Rightarrow> 'r option" where
  "decoded f r = Option.bind (body_members r) f"

definition empty_memory :: MemorySpec where
  "empty_memory = \<lparr>ms_Type = [], ms_Behavior = [], ms_ProviderRef = [], ms_Scope = [], ms_Backend = [], ms_TTL = [],
     ms_MaxEntries = None, ms_MaxContextTokens = None, ms_RetentionPolicy = [], ms_PersistentStorage = None\<rparr>"

definition memorySpecFromRequest :: "string \<Rightarrow> string \<Rightarrow> string \<Rightarrow> int \<Rightarrow> MemorySpec option" where
  "memorySpecFromRequest behavior scope providerRef maxCtx =
     (if behavior = [] then None
      else Some (empty_memory\<lparr>ms_Behavior := behavior,
        ms_Scope := (if scope \<noteq> [] \<and> scope \<noteq> ''agent'' then scope else []), ms_ProviderRef := providerRef,
        ms_MaxContextTokens := (if 0 < maxCtx then Some maxCtx else None)\<rparr>))"

definition requested_memory :: "CreateAgentRequest \<Rightarrow> MemorySpec option" where
  "requested_memory req = memorySpecFromRequest (ca_MemoryBehavior req) (ca_MemoryScope req)
     (ca_MemoryProviderRef req) (ca_MemoryMaxContextTokens req)"

text \<open>The guardrails a request sets, each with the text of its value.\<close>

definition requested_guardrails :: "CreateAgentRequest \<Rightarrow> str_alist" where
  "requested_guardrails req =
     (if f64_lt (Fin 0) (ca_CostLimit req) then [(''costLimitUSD'', marshal_f64 (ca_CostLimit req))] else []) @
     (if 0 < ca_MaxIterations req then [(''maxIterations'', show_int (ca_MaxIterations req))] else []) @
     (if ca_MaxExecutionTime req \<noteq> [] then [(''maxExecutionTime'', marshal_string (ca_MaxExecutionTime req))] else []) @
     (case ca_RollbackOnFailure req of
        None \<Rightarrow> [] | Some b \<Rightarrow> [(''rollbackOnFailure'', if b then ''true'' else ''false'')])"

definition mcp_tools :: "string list \<Rightarrow> ToolSpec list" where
  "mcp_tools names = map (\<lambda>n. \<lparr>to_Name = n, to_Type = ''mcp'', to_Endpoint = None, to_CredentialsSecretRef = None,
     to_Config = None\<rparr>) names"

definition empty_runtime :: RuntimeSpec where
  "empty_runtime = \<lparr>rt_Image = [], rt_ServiceAccountName = [], rt_Env = [], rt_Config = [], rt_Resources = None,
     rt_CodeExecution = None\<rparr>"

definition or_default :: "int \<Rightarrow> int \<Rightarrow> int" where
  "or_default d n = (if n \<le> 0 then d else n)"

definition created_agent_spec :: "CreateAgentRequest \<Rightarrow> AgentSpec" where
  "created_agent_spec req =
     \<lparr>as_Type = ca_Type req,
      as_Model = \<lparr>mo_Provider = ca_Provider req, mo_Name = ca_Model req, mo_Version = [],
        mo_Temperature = Some (ca_Temperature req), mo_MaxTokens = None, mo_TopP = None, mo_FrequencyPenalty = None,
        mo_PresencePenalty = None, mo_CredentialsSecretRef = None, mo_Fallback = None\<rparr>,
      as_Role = ca_Role req, as_SystemPrompt = ca_SystemPrompt req, as_Instructions = [],
      as_AutonomyLevel = ca_Autonomy req, as_ShuHaRi = None, as_ApprovalPolicy = None, as_ConfidenceThreshold = None,
      as_Replicas = None, as_MaxConcurrency = None, as_Timeout = [], as_Tools = mcp_tools (ca_Tools req),
      as_Memory = requested_memory req,
      as_Runtime = (case ca_Image req of
        None \<Rightarrow> None | Some i \<Rightarrow> if i = [] then None else Some (empty_runtime\<lparr>rt_Image := i\<rparr>)),
      as_Scaling = Some \<lparr>sc_MinReplicas = Some (or_default 1 (ca_MinReplicas req)),
        sc_MaxReplicas = Some (or_default 3 (ca_MaxReplicas req)),
        sc_TargetUtilization = Some (or_default 70 (ca_TargetCPU req)), sc_Metrics = [], sc_Behavior = None\<rparr>,
      as_Guardrails = (let g = requested_guardrails req in if g = [] then None else Some (marshal_object g)),
      as_Observability = None, as_Lifecycle = None, as_Schedule = None, as_BlastRadius = None, as_Escalation = None,
      as_Capabilities = []\<rparr>"

definition empty_agent_status :: AgentStatus where
  "empty_agent_status = \<lparr>at_Phase = [], at_Message = [], at_ObservedGeneration = 0, at_AvailableReplicas = 0,
     at_TotalTasksProcessed = 0, at_ErrorCount = 0, at_StartTime = None, at_CompletionTime = None,
     at_LastActiveTime = None, at_Conditions = [], at_Metrics = None, at_ShuHaRi = None\<rparr>"

definition component_label :: string where
  "component_label = ''app.kubernetes.io/component''"

definition created_agent :: "'c dash \<Rightarrow> CreateAgentRequest \<Rightarrow> Agent" where
  "created_agent s req =
     \<lparr>ag_Meta = empty_meta\<lparr>om_Name := ca_Name req,
        om_Namespace := (if ca_Namespace req = [] then ns_of s else ca_Namespace req),
        om_Labels := (if ca_Group req \<noteq> [] \<and> ca_Group req \<noteq> ''general'' then [component_label \<mapsto> ca_Group req]
          else Map.empty)\<rparr>,
      ag_Spec = created_agent_spec req, ag_Status = empty_agent_status\<rparr>"

definition handleCreateAgent :: "'c dash \<Rightarrow> Http.request \<Rightarrow> 'c \<Rightarrow> response \<times> 'c" where
  "handleCreateAgent s r c = post_only r c
     (case decoded decode_agent_request r of
        None \<Rightarrow> (bad_body s r, c)
      | Some req \<Rightarrow> written s (d_create_agent s c (created_agent s req)) (reply_done ''created'' (ca_Name req)))"

section \<open>Updating an agent\<close>

definition update_image :: "string option \<Rightarrow> RuntimeSpec option \<Rightarrow> RuntimeSpec option" where
  "update_image img rt =
     (case img of
        None \<Rightarrow> rt
      | Some i \<Rightarrow>
          (if i = [] then map_option (\<lambda>t. t\<lparr>rt_Image := []\<rparr>) rt
           else Some ((case rt of None \<Rightarrow> empty_runtime | Some t \<Rightarrow> t)\<lparr>rt_Image := i\<rparr>)))"

definition overlay_memory :: "MemorySpec option \<Rightarrow> MemorySpec option \<Rightarrow> MemorySpec option" where
  "overlay_memory new old =
     (case new of
        None \<Rightarrow> old
      | Some m \<Rightarrow>
          Some (case old of
                  None \<Rightarrow> m
                | Some prev \<Rightarrow> prev\<lparr>ms_Behavior := ms_Behavior m, ms_Scope := ms_Scope m, ms_ProviderRef := ms_ProviderRef m,
                    ms_MaxContextTokens := ms_MaxContextTokens m\<rparr>))"

text \<open>
  The guardrails an agent has, decoded with errors dropped, each with the text its value is encoded to.  A raw
  value is never the text \<open>null\<close>, which would leave no map to write to.
\<close>

definition old_guardrails :: "raw option \<Rightarrow> str_alist" where
  "old_guardrails g =
     (case Option.bind g parse_json of
        Some (TObj ms) \<Rightarrow> map (\<lambda>(k, v). (k, marshal_iface v)) (lenient_obj ms [])
      | _ \<Rightarrow> [])"

definition merged_guardrails :: "CreateAgentRequest \<Rightarrow> raw option \<Rightarrow> str_alist" where
  "merged_guardrails req g = foldl (\<lambda>m (k, v). alist_put k v m) (old_guardrails g) (requested_guardrails req)"

definition updated_agent :: "CreateAgentRequest \<Rightarrow> Agent \<Rightarrow> Agent" where
  "updated_agent req a =
     (let sp = ag_Spec a; m = ag_Meta a; g = merged_guardrails req (as_Guardrails sp) in
      a\<lparr>ag_Meta := (if ca_Group req = [] then m
          else m\<lparr>om_Labels := (om_Labels m)(component_label \<mapsto> ca_Group req)\<rparr>),
        ag_Spec := sp\<lparr>
          as_Model := (as_Model sp)\<lparr>mo_Provider := ca_Provider req, mo_Name := ca_Model req,
            mo_Temperature := Some (ca_Temperature req)\<rparr>,
          as_AutonomyLevel := ca_Autonomy req, as_Role := ca_Role req, as_SystemPrompt := ca_SystemPrompt req,
          as_Runtime := update_image (ca_Image req) (as_Runtime sp),
          as_Memory := overlay_memory (requested_memory req) (as_Memory sp),
          as_Guardrails := (if g = [] then as_Guardrails sp else Some (marshal_object g)),
          as_Tools := mcp_tools (ca_Tools req)\<rparr>\<rparr>)"

definition handleUpdateAgent :: "'c dash \<Rightarrow> Http.request \<Rightarrow> 'c \<Rightarrow> response \<times> 'c" where
  "handleUpdateAgent s r c = post_only r c
     (case decoded decode_agent_request r of
        None \<Rightarrow> (bad_body s r, c)
      | Some req \<Rightarrow>
          (case k_get_agent (d_api s) c (if ca_Namespace req = [] then ns_of s else ca_Namespace req, ca_Name req) of
             Inl e \<Rightarrow> (reply_error (''agent not found: '' @ d_errtext s e), c)
           | Inr a \<Rightarrow> written s (d_update_agent s c (updated_agent req a)) (reply_done ''updated'' (ca_Name req))))"

definition handleDeleteAgent :: "'c dash \<Rightarrow> Http.request \<Rightarrow> 'c \<Rightarrow> response \<times> 'c" where
  "handleDeleteAgent s r c =
     (if method_of r \<noteq> ''DELETE'' \<and> method_of r \<noteq> ''POST'' then (http_error ''DELETE or POST required'' 405, c)
      else (let name = drop (length ''/api/delete/agent/'') (path_of r)
            in written s (d_delete_agent s c (ns_of s, name)) (reply_done ''deleted'' name)))"

section \<open>The tools\<close>

text \<open>The registry is asked again when it is stale; the answer is its servers and the number of their tools.\<close>

definition handleMCPTools :: "'h net \<Rightarrow> time \<Rightarrow> registry option \<Rightarrow> 'h \<Rightarrow> (MCPServerInfo list \<times> int) \<times> registry option \<times> 'h" where
  "handleMCPTools n now reg h =
     (case reg of
        None \<Rightarrow> (([], 0), None, h)
      | Some r \<Rightarrow>
          (let (r1, h1) = SyncIfStale n now r h; servers = GetServers r1
           in ((servers, sum_list (map mi_ToolCount servers)), Some r1, h1)))"

section \<open>MCP servers\<close>

text \<open>A list of resources, or the answer with the error.\<close>

definition listing :: "'c dash \<Rightarrow> string \<Rightarrow> kerr + 'o list \<Rightarrow> response + 'o list" where
  "listing s field found =
     (case found of
        Inl e \<Rightarrow> Inl (writeJSON (IObj [(field, IArr []), (''error'', IStr (d_errtext s e))]))
      | Inr xs \<Rightarrow> Inr xs)"

definition handleMCPServers :: "'c dash \<Rightarrow> 'c \<Rightarrow> response + MCPServer list" where
  "handleMCPServers s c = listing s ''servers'' (d_list_mcp s c)"

record server_request =
  sq_Name :: string
  sq_URL :: string
  sq_Image :: string
  sq_Port :: int
  sq_Category :: string
  sq_Icon :: string
  sq_Auth :: string
  sq_SecretRef :: string
  sq_HostNetwork :: bool
  sq_Args :: "string list"

definition decode_server_request :: "(string \<times> string \<times> jtree) list \<Rightarrow> server_request option" where
  "decode_server_request ms = do {
     name \<leftarrow> field_str ''name'' ms;
     url \<leftarrow> field_str ''url'' ms;
     img \<leftarrow> field_str ''image'' ms;
     port \<leftarrow> field_int ''port'' ms;
     category \<leftarrow> field_str ''category'' ms;
     icon \<leftarrow> field_str ''icon'' ms;
     auth \<leftarrow> field_str ''auth'' ms;
     secret \<leftarrow> field_str ''secretRef'' ms;
     host \<leftarrow> field_bool ''hostNetwork'' ms;
     args \<leftarrow> field_strs ''args'' ms;
     Some \<lparr>sq_Name = name, sq_URL = url, sq_Image = img, sq_Port = port, sq_Category = category, sq_Icon = icon,
       sq_Auth = auth, sq_SecretRef = secret, sq_HostNetwork = host, sq_Args = args\<rparr> }"

definition connected_entry :: "server_request \<Rightarrow> iface" where
  "connected_entry req =
     obj_str ([(''name'', sq_Name req), (''url'', sq_URL req), (''auth'', sq_Auth req), (''icon'', sq_Icon req),
       (''category'', sq_Category req)] @ (if sq_SecretRef req \<noteq> [] then [(''secretRef'', sq_SecretRef req)] else []))"

definition created_server :: "'c dash \<Rightarrow> server_request \<Rightarrow> MCPServer" where
  "created_server s req =
     \<lparr>mcp_Meta = empty_meta\<lparr>om_Name := sq_Name req, om_Namespace := ns_of s\<rparr>,
      mcp_Spec = \<lparr>mc_Image = sq_Image req, mc_Port = sq_Port req, mc_Args = sq_Args req, mc_Replicas = None,
        mc_Auth = sq_Auth req, mc_SecretRef = sq_SecretRef req, mc_Icon = sq_Icon req, mc_Category = sq_Category req,
        mc_HostNetwork = sq_HostNetwork req, mc_Env = [], mc_Resources = None\<rparr>,
      mcp_Status = \<lparr>mcs_Phase = [], mcs_ToolCount = 0, mcs_LastDiscovery = None, mcs_Message = [], mcs_Conditions = []\<rparr>\<rparr>"

abbreviation servers_key :: "'c dash \<Rightarrow> key" where "servers_key s \<equiv> (ns_of s, ''mcp-servers'')"

definition with_entry :: "string \<Rightarrow> iface \<Rightarrow> str_map \<Rightarrow> str_map" where
  "with_entry n e d = d(''servers'' \<mapsto> encode_servers (put_server n e (listed d)))"

definition upsertMCPConfigEntry :: "'c dash \<Rightarrow> string \<Rightarrow> iface \<Rightarrow> 'c \<Rightarrow> kerr option \<times> 'c" where
  "upsertMCPConfigEntry s n e c =
     (case d_get_data s c (servers_key s) of
        Inl NotFound \<Rightarrow> d_create_data s c (servers_key s) (with_entry n e Map.empty)
      | Inl err \<Rightarrow> (Some err, c)
      | Inr d \<Rightarrow> d_update_data s c (servers_key s) (with_entry n e (case d of None \<Rightarrow> Map.empty | Some d \<Rightarrow> d)))"

text \<open>The error, whether an entry was removed, and the cluster.\<close>

definition removeMCPConfigEntry :: "'c dash \<Rightarrow> string \<Rightarrow> 'c \<Rightarrow> (kerr option \<times> bool) \<times> 'c" where
  "removeMCPConfigEntry s n c =
     (case d_get_data s c (servers_key s) of
        Inl NotFound \<Rightarrow> ((None, False), c)
      | Inl err \<Rightarrow> ((Some err, False), c)
      | Inr None \<Rightarrow> ((None, False), c)
      | Inr (Some d) \<Rightarrow>
          (if \<not> list_ex (\<lambda>x. entry_name x = Some n) (listed d) then ((None, False), c)
           else (let (err, c1) = d_update_data s c (servers_key s)
                   (d(''servers'' \<mapsto> encode_servers (drop_server n (listed d)))) in ((err, True), c1))))"

definition handleMCPServerCreate :: "'c dash \<Rightarrow> Http.request \<Rightarrow> 'c \<Rightarrow> response \<times> 'c" where
  "handleMCPServerCreate s r c = post_only r c
     (case decoded decode_server_request r of
        None \<Rightarrow> (bad_body s r, c)
      | Some req \<Rightarrow>
          (if sq_URL req \<noteq> [] then
             written s (upsertMCPConfigEntry s (sq_Name req) (connected_entry req) c) (reply_done ''connected'' (sq_Name req))
           else written s (d_create_mcp s c (created_server s req)) (reply_done ''created'' (sq_Name req))))"

definition wants_delete :: "Http.request \<Rightarrow> bool" where
  "wants_delete r \<longleftrightarrow> method_of r = ''DELETE'' \<or> (method_of r = ''POST'' \<and> rq_Query r ''action'' = ''delete'')"

text \<open>The first resource of the name in any namespace; an error of the listing reads as no resources.\<close>

definition found_named :: "('o \<Rightarrow> ObjectMeta) \<Rightarrow> string \<Rightarrow> kerr + 'o list \<Rightarrow> 'o option" where
  "found_named meta n found = (case found of Inl _ \<Rightarrow> None | Inr xs \<Rightarrow> find (\<lambda>x. om_Name (meta x) = n) xs)"

definition meta_key :: "ObjectMeta \<Rightarrow> key" where
  "meta_key m = (om_Namespace m, om_Name m)"

definition handleMCPServerCRUD :: "'c dash \<Rightarrow> Http.request \<Rightarrow> 'c \<Rightarrow> (response + MCPServer) \<times> 'c" where
  "handleMCPServerCRUD s r c =
     (let name = drop (length ''/api/mcp/server/'') (path_of r) in
      if name = [] then (Inl (http_error ''name required'' 400), c)
      else (case found_named mcp_Meta name (d_list_mcp s c) of
              None \<Rightarrow>
                (if \<not> wants_delete r then (Inl (http_error ''not found'' 404), c)
                 else (case removeMCPConfigEntry s name c of
                         ((Some e, _), c1) \<Rightarrow> (Inl (reply_error (d_errtext s e)), c1)
                       | ((None, True), c1) \<Rightarrow> (Inl (reply_done ''deleted'' name), c1)
                       | ((None, False), c1) \<Rightarrow> (Inl (http_error ''not found'' 404), c1)))
            | Some m \<Rightarrow>
                if wants_delete r then apfst Inl (written s (d_delete_mcp s c (meta_key (mcp_Meta m))) (reply_done ''deleted'' name))
                else (Inr m, c)))"

section \<open>LLM providers\<close>

definition handleLLMProviders :: "'c dash \<Rightarrow> 'c \<Rightarrow> response + LLMProvider list" where
  "handleLLMProviders s c = listing s ''providers'' (d_list_llm s c)"

record provider_request =
  pq_Name :: string
  pq_Type :: string
  pq_Model :: string
  pq_Endpoint :: string
  pq_Default :: bool
  pq_SecretRef :: string
  pq_SecretKey :: string
  pq_Config :: str_alist

definition decode_provider_request :: "(string \<times> string \<times> jtree) list \<Rightarrow> provider_request option" where
  "decode_provider_request ms = do {
     name \<leftarrow> field_str ''name'' ms;
     type \<leftarrow> field_str ''type'' ms;
     model \<leftarrow> field_str ''model'' ms;
     endpoint \<leftarrow> field_str ''endpoint'' ms;
     def \<leftarrow> field_bool ''default'' ms;
     secret \<leftarrow> field_str ''secretRef'' ms;
     secret_key \<leftarrow> field_str ''secretKey'' ms;
     config \<leftarrow> field_str_map ''config'' ms;
     Some \<lparr>pq_Name = name, pq_Type = type, pq_Model = model, pq_Endpoint = endpoint, pq_Default = def,
       pq_SecretRef = secret, pq_SecretKey = secret_key, pq_Config = (case config of None \<Rightarrow> [] | Some m \<Rightarrow> m)\<rparr> }"

definition llmProviderNamespace :: string where
  "llmProviderNamespace = ''purko-system''"

definition created_provider :: "provider_request \<Rightarrow> LLMProvider" where
  "created_provider req =
     \<lparr>llm_Meta = empty_meta\<lparr>om_Name := pq_Name req, om_Namespace := llmProviderNamespace\<rparr>,
      llm_Spec = \<lparr>lp_Type = pq_Type req,
        lp_Endpoint = (if pq_Endpoint req = [] then lookup_or [] (map_of (pq_Config req)) ''endpoint'' else pq_Endpoint req),
        lp_APIFormat = [], lp_Model = pq_Model req, lp_Models = [],
        lp_Config = map_of (filter (\<lambda>(k, _). k \<noteq> ''endpoint'') (pq_Config req)),
        lp_Credentials = (if pq_SecretRef req = [] then None
          else Some \<lparr>cr_SecretRef = pq_SecretRef req,
            cr_SecretKey = (if pq_SecretKey req = [] then ''api-key'' else pq_SecretKey req)\<rparr>),
        lp_HealthCheck = None, lp_Fallback = None, lp_Default = pq_Default req\<rparr>,
      llm_Status = \<lparr>ls_Phase = [], ls_Message = [], ls_LastHealthCheck = None, ls_AvailableModels = 0,
        ls_Conditions = []\<rparr>\<rparr>"

definition handleLLMProviderCreate :: "'c dash \<Rightarrow> Http.request \<Rightarrow> 'c \<Rightarrow> response \<times> 'c" where
  "handleLLMProviderCreate s r c = post_only r c
     (case decoded decode_provider_request r of
        None \<Rightarrow> (bad_body s r, c)
      | Some req \<Rightarrow> written s (d_create_llm s c (created_provider req)) (reply_done ''created'' (pq_Name req)))"

definition handleLLMProviderCRUD :: "'c dash \<Rightarrow> Http.request \<Rightarrow> 'c \<Rightarrow> (response + LLMProvider) \<times> 'c" where
  "handleLLMProviderCRUD s r c =
     (let name = drop (length ''/api/llm/provider/'') (path_of r) in
      if name = [] then (Inl (http_error ''name required'' 400), c)
      else (case found_named llm_Meta name (d_list_llm s c) of
              None \<Rightarrow> (Inl (http_error ''not found'' 404), c)
            | Some p \<Rightarrow>
                if wants_delete r then apfst Inl (written s (d_delete_llm s c (meta_key (llm_Meta p))) (reply_done ''deleted'' name))
                else (Inr p, c)))"

end
