(* ===== verification/Json_Values.thy ===== *)
theory Json_Values imports MCP_Controller Json_Indent begin

text \<open>
  Values that are written indented and read back, as the list of MCP servers is by the controller and the
  dashboard: the values come back with the members of each object in the order of their keys.
\<close>

section \<open>Values without numbers\<close>

fun plain :: "iface \<Rightarrow> bool"
  and plain_list :: "iface list \<Rightarrow> bool"
  and plain_obj :: "(string \<times> iface) list \<Rightarrow> bool" where
  "plain INil = True"
| "plain (IBool b) = True"
| "plain (INum x) = False"
| "plain (IStr s) = list_all ascii s"
| "plain (IArr xs) = plain_list xs"
| "plain (IObj ms) = (distinct (map fst ms) \<and> plain_obj ms)"
| "plain_list [] = True"
| "plain_list (x # xs) = (plain x \<and> plain_list xs)"
| "plain_obj [] = True"
| "plain_obj ((k, v) # ms) = (list_all ascii k \<and> plain v \<and> plain_obj ms)"

fun canonical :: "iface \<Rightarrow> iface"
  and canonical_list :: "iface list \<Rightarrow> iface list"
  and canonical_obj :: "(string \<times> iface) list \<Rightarrow> (string \<times> iface) list" where
  "canonical (IArr xs) = IArr (canonical_list xs)"
| "canonical (IObj ms) = IObj (sort_keys (canonical_obj ms))"
| "canonical v = v"
| "canonical_list [] = []"
| "canonical_list (x # xs) = canonical x # canonical_list xs"
| "canonical_obj [] = []"
| "canonical_obj ((k, v) # ms) = (k, canonical v) # canonical_obj ms"

lemma plain_list_all: "plain_list xs = list_all plain xs"
  by (induction xs) auto

lemma canonical_list_map: "canonical_list xs = map canonical xs"
  by (induction xs) auto

lemma canonical_keys [simp]: "map fst (canonical_obj ms) = map fst ms"
  by (induction ms) auto

section \<open>Reading back\<close>

lemma insert_key_map: "insert_key (fst p, f p) (map (\<lambda>q. (fst q, f q)) qs) = map (\<lambda>q. (fst q, f q)) (insert_key p qs)"
  by (induction qs) auto

lemma sort_keys_map: "sort_keys (map (\<lambda>q. (fst q, f q)) xs) = map (\<lambda>q. (fst q, f q)) (sort_keys xs)"
  by (induction xs) (simp_all add: sort_keys_def insert_key_map)

lemma reads_bool: "reads ''true'' (TBool True)" "reads ''false'' (TBool False)"
  by (simp_all add: reads_def json_ws_def pval.simps HasPrefix_def)

lemma blank_deeper [simp]: "blank nl \<Longrightarrow> blank (nl @ ''  '')"
  by (simp add: blank_def json_ws_def)

lemma lenient_members:
  "distinct (map fst (acc @ map (\<lambda>(k, s, v). (k, lenient v)) tms)) \<Longrightarrow>
   lenient_obj tms acc = acc @ map (\<lambda>(k, s, v). (k, lenient v)) tms"
proof (induction tms arbitrary: acc)
  case (Cons m tms)
  obtain k s v where m: "m = (k, s, v)" by (cases m)
  have "lenient_obj (m # tms) acc = lenient_obj tms (acc @ [(k, lenient v)])"
    using Cons.prems by (simp add: m alist_put_def)
  also have "\<dots> = (acc @ [(k, lenient v)]) @ map (\<lambda>(k, s, v). (k, lenient v)) tms"
    by (rule Cons.IH) (use Cons.prems m in simp)
  finally show ?case by (simp add: m)
qed simp

definition text_of :: "string \<times> string \<times> jtree \<Rightarrow> string \<times> string" where
  "text_of m = (fst m, fst (snd m))"

definition value_of :: "string \<times> string \<times> jtree \<Rightarrow> string \<times> iface" where
  "value_of m = (fst m, lenient (snd (snd m)))"

lemma member_simps [simp]: "text_of (k, s, v) = (k, s)" "value_of (k, s, v) = (k, lenient v)"
  "member_ok (k, s, v) \<longleftrightarrow> list_all ascii k \<and> reads s v"
  by (simp_all add: text_of_def value_of_def member_ok_def)

lemma reads_members:
  assumes tms: "map text_of tms = indented_obj (nl @ ''  '') ms" "list_all member_ok tms" "map value_of tms = canonical_obj ms"
    and ms: "ms \<noteq> []" "distinct (map fst ms)" "blank nl"
  shows "\<exists>t. reads (indented nl (IObj ms)) t \<and> lenient t = canonical (IObj ms) \<and> (\<exists>us. t = TObj us)"
proof (intro exI conjI)
  let ?s = "sort_keys tms"
  have keys: "map fst tms = map fst ms"
    using arg_cong [OF tms(3), of "map fst"] by (simp add: value_of_def comp_def)
  have "tms \<noteq> []" using keys ms(1) by auto
  then have ne: "?s \<noteq> []" by (metis set_sort_keys set_empty)
  have ok: "list_all member_ok ?s" using tms(2) by (simp add: list_all_iff)
  have "sort_keys (indented_obj (nl @ ''  '') ms) = map text_of ?s"
    using sort_keys_map [of "\<lambda>m. fst (snd m)" tms] by (simp add: text_of_def [abs_def] flip: tms(1))
  then have "indented nl (IObj ms) = CHR ''{'' # (nl @ ''  '') @ join (CHR '','' # nl @ ''  '') (map member ?s) @ nl @ ''}''"
    using ms(1) by (simp add: member_def [abs_def] text_of_def case_prod_beta comp_def)
  then show "reads (indented nl (IObj ms)) (TObj ?s)"
    using reads_obj [OF ne ok, of "nl @ ''  ''" nl] ms(3) by simp
  have "distinct (map fst ?s)" using keys ms(2) by simp
  moreover have vals: "map (\<lambda>(k, s, v). (k, lenient v)) us = map value_of us" for us
    by (simp add: value_of_def case_prod_beta)
  ultimately have "lenient_obj ?s [] = map value_of ?s"
    using lenient_members [of "[]" ?s] by (simp add: vals) (simp add: value_of_def comp_def)
  also have "\<dots> = sort_keys (canonical_obj ms)"
    using sort_keys_map [of "\<lambda>m. lenient (snd (snd m))" tms] by (simp add: value_of_def [abs_def] flip: tms(3))
  finally show "lenient (TObj ?s) = canonical (IObj ms)" by simp
qed simp

lemma indented_reads:
  "plain v \<Longrightarrow> blank nl \<Longrightarrow> \<exists>t. reads (indented nl v) t \<and> lenient t = canonical v \<and>
     ((\<exists>ms. v = IObj ms) \<longrightarrow> (\<exists>us. t = TObj us))"
  "plain_list xs \<Longrightarrow> blank nl \<Longrightarrow> \<exists>svs. map fst svs = indented_list nl xs \<and> list_all (\<lambda>(s, v). reads s v) svs \<and>
     lenient_arr svs = canonical_list xs"
  "plain_obj ms \<Longrightarrow> blank nl \<Longrightarrow> \<exists>tms. map text_of tms = indented_obj nl ms \<and> list_all member_ok tms \<and>
     map value_of tms = canonical_obj ms"
proof (induction v and xs and ms arbitrary: nl and nl and nl rule: plain_plain_list_plain_obj.induct)
  case 1
  show ?case using reads_null by auto
next
  case (2 b)
  show ?case using reads_bool by (cases b) auto
next
  case (4 s)
  then show ?case using reads_string by fastforce
next
  case (5 xs)
  show ?case
  proof (cases "xs = []")
    case True
    then show ?thesis using reads_empty(2) by (intro exI [of _ "TArr []"]) simp
  next
    case False
    obtain svs where svs: "map fst svs = indented_list (nl @ ''  '') xs" "list_all (\<lambda>(s, v). reads s v) svs"
        "lenient_arr svs = canonical_list xs"
      using 5 by (metis blank_deeper plain.simps(5))
    have "svs \<noteq> []" using svs(1) False by (cases xs) auto
    then show ?thesis
      using reads_arr [of svs "nl @ ''  ''" nl] svs False 5(3) by (intro exI [of _ "TArr svs"]) simp
  qed
next
  case (6 ms)
  show ?case
  proof (cases "ms = []")
    case True
    then show ?thesis using reads_empty(1) by (intro exI [of _ "TObj []"]) (simp add: sort_keys_def)
  next
    case False
    obtain tms where "map text_of tms = indented_obj (nl @ ''  '') ms" "list_all member_ok tms"
        "map value_of tms = canonical_obj ms"
      using 6 by (metis blank_deeper plain.simps(6))
    then show ?thesis using reads_members [of tms nl ms] False 6 by auto
  qed
next
  case 7
  show ?case by simp
next
  case (8 x xs)
  then obtain t svs where "reads (indented nl x) t" "lenient t = canonical x"
      "map fst svs = indented_list nl xs" "list_all (\<lambda>(s, v). reads s v) svs" "lenient_arr svs = canonical_list xs"
    by fastforce
  then show ?case by (intro exI [of _ "(indented nl x, t) # svs"]) simp
next
  case 9
  show ?case by simp
next
  case (10 k v ms)
  then obtain t tms where "reads (indented nl v) t" "lenient t = canonical v"
      "map text_of tms = indented_obj nl ms" "list_all member_ok tms" "map value_of tms = canonical_obj ms"
    by fastforce
  then show ?case using 10(3)
    by (intro exI [of _ "(k, indented nl v, t) # tms"]) simp
qed simp_all

section \<open>The list of servers\<close>

definition plain_entry :: "iface \<Rightarrow> bool" where
  "plain_entry e \<longleftrightarrow> plain e \<and> (case e of IObj _ \<Rightarrow> True | INil \<Rightarrow> True | _ \<Rightarrow> False)"

lemma reads_entry:
  assumes "plain_entry e" "blank nl"
  shows "\<exists>t. reads (indented nl e) t \<and> server_map t = canonical e"
proof (cases e)
  case INil
  then show ?thesis using reads_null by (intro exI [of _ TNull]) (simp add: server_map_def)
next
  case (IObj ms)
  then obtain t us where "reads (indented nl e) t" "lenient t = canonical e" "t = TObj us"
    using indented_reads(1) [of e nl] assms by (auto simp: plain_entry_def)
  then show ?thesis by (intro exI [of _ t]) (simp add: server_map_def)
qed (use assms in \<open>simp_all add: plain_entry_def\<close>)

lemma reads_entries:
  "list_all plain_entry ss \<Longrightarrow> blank nl \<Longrightarrow> \<exists>svs. map fst svs = indented_list nl ss \<and>
     list_all (\<lambda>(s, v). reads s v) svs \<and> map (\<lambda>(s, v). server_map v) svs = map canonical ss"
proof (induction ss)
  case (Cons e ss)
  then obtain svs where "map fst svs = indented_list nl ss" "list_all (\<lambda>(s, v). reads s v) svs"
      "map (\<lambda>(s, v). server_map v) svs = map canonical ss" by auto
  moreover obtain t where "reads (indented nl e) t" "server_map t = canonical e"
    using Cons.prems reads_entry by fastforce
  ultimately show ?case by (intro exI [of _ "(indented nl e, t) # svs"]) simp
qed simp

theorem server_list_roundtrip:
  assumes "list_all plain_entry ss"
  shows "decode_servers (encode_servers ss) = map canonical ss"
proof (cases "ss = []")
  case True
  then show ?thesis using reads_parse [OF reads_empty(2)] by (simp add: encode_servers_def decode_servers_def)
next
  case False
  obtain svs where svs: "map fst svs = indented_list [CHR 0x0A, CHR '' '', CHR '' ''] ss"
      "list_all (\<lambda>(s, v). reads s v) svs" "map (\<lambda>(s, v). server_map v) svs = map canonical ss"
    using reads_entries [OF assms, of "[CHR 0x0A, CHR '' '', CHR '' '']"] by (auto simp: blank_def json_ws_def)
  have "svs \<noteq> []" using svs(1) False by (cases ss) auto
  then have "reads (encode_servers ss) (TArr svs)"
    using reads_arr [OF _ svs(2), of "[CHR 0x0A, CHR '' '', CHR '' '']" "[CHR 0x0A]"] svs(1) False
    by (simp add: encode_servers_def blank_def json_ws_def)
  then show ?thesis using svs(3) by (simp add: decode_servers_def reads_parse)
qed

lemma map_of_canonical: "map_of (canonical_obj ms) k = map_option canonical (map_of ms k)"
proof (induction ms)
  case (Cons m ms)
  then show ?case by (cases m) simp
qed simp

lemma map_of_sorted: "distinct (map fst ms) \<Longrightarrow> map_of (sort_keys ms) = map_of ms"
  by (simp add: map_of_inject_set)

lemma entry_name_canonical: "plain_entry e \<Longrightarrow> entry_name (canonical e) = entry_name e"
proof (cases e)
  case (IObj ms)
  assume "plain_entry e"
  then have "map_of (sort_keys (canonical_obj ms)) = map_of (canonical_obj ms)"
    by (intro map_of_sorted) (simp add: plain_entry_def IObj)
  then show ?thesis
    by (cases "map_of ms ''name''"; simp add: IObj entry_name_def map_of_canonical)
      (case_tac a; simp)
qed (simp_all add: plain_entry_def entry_name_def)

end
