(* ===== verification/Config_Properties.thy ===== *)
theory Config_Properties imports Dashboard_Config Json_Values MCP_Properties Sample_Dashboard begin

text \<open>
  What the dashboard's forms change, and what they leave alone.
\<close>

section \<open>Replies\<close>

lemma reply_kinds [simp]:
  "reply_done a n \<noteq> reply_error e" "reply_done a n \<noteq> http_error m k" "reply_done a n = reply_done b l \<longleftrightarrow> a = b \<and> n = l"
  by (auto simp: reply_done_def reply_error_def http_error_def writeJSON_def obj_str_def)

lemma reply_error_kind [simp]: "reply_error e \<noteq> reply_done a n" "http_error m k \<noteq> reply_done a n"
  using reply_kinds(1,2) by metis+

lemma written_done: "written s res (reply_done a n) = (reply_done b k, c') \<longleftrightarrow> res = (None, c') \<and> a = b \<and> n = k"
  by (cases res; cases "fst res") (auto simp: written_def)

lemma post_done: "post_only r c answer = (reply_done a n, c') \<Longrightarrow> answer = (reply_done a n, c')"
  by (auto simp: post_only_def split: if_splits)

section \<open>Updating an agent\<close>

lemma map_of_merged:
  "map_of (merged_guardrails req g) k =
     (case map_of (requested_guardrails req) k of None \<Rightarrow> map_of (old_guardrails g) k | Some v \<Rightarrow> Some v)"
proof -
  have "distinct (map fst (requested_guardrails req))" by (cases "ca_RollbackOnFailure req") (auto simp: requested_guardrails_def)
  from map_of_alist_put_all [OF this, of "\<lambda>v. v"] show ?thesis by (simp add: merged_guardrails_def)
qed

text \<open>The fields of an agent the form knows, taken out.\<close>

definition without_form :: "AgentSpec \<Rightarrow> AgentSpec" where
  "without_form sp = sp\<lparr>as_Model := (as_Model sp)\<lparr>mo_Provider := [], mo_Name := [], mo_Temperature := None\<rparr>,
     as_AutonomyLevel := [], as_Role := [], as_SystemPrompt := [], as_Runtime := None, as_Memory := None,
     as_Guardrails := None, as_Tools := []\<rparr>"

definition legacy_memory :: "MemorySpec \<Rightarrow> MemorySpec" where
  "legacy_memory m = m\<lparr>ms_Behavior := [], ms_Scope := [], ms_ProviderRef := [], ms_MaxContextTokens := None\<rparr>"

text \<open>An update that is acknowledged has written the agent of the request's name with only the form's fields changed:
  all other settings are kept; a request that leaves the memory controls alone keeps the memory settings as they are,
  and one that sets them keeps the settings the form does not know; a request without an image keeps the runtime, and
  one with an image changes nothing but the image; and each guardrail the request does not set keeps its value.\<close>

theorem agent_update_keeps:
  assumes "handleUpdateAgent s r c = (reply_done ''updated'' name, c')"
  shows "\<exists>req a b. decoded decode_agent_request r = Some req \<and> ca_Name req = name \<and>
    k_get_agent (d_api s) c (if ca_Namespace req = [] then ns_of s else ca_Namespace req, name) = Inr a \<and>
    d_update_agent s c b = (None, c') \<and> ag_Status b = ag_Status a \<and>
    (ag_Meta b)\<lparr>om_Labels := om_Labels (ag_Meta a)\<rparr> = ag_Meta a \<and> without_form (ag_Spec b) = without_form (ag_Spec a) \<and>
    (ca_MemoryBehavior req = [] \<longrightarrow> as_Memory (ag_Spec b) = as_Memory (ag_Spec a)) \<and>
    (\<forall>m. as_Memory (ag_Spec a) = Some m \<longrightarrow>
      (\<exists>m'. as_Memory (ag_Spec b) = Some m' \<and> legacy_memory m' = legacy_memory m)) \<and>
    (ca_Image req = None \<longrightarrow> as_Runtime (ag_Spec b) = as_Runtime (ag_Spec a)) \<and>
    (\<forall>t. as_Runtime (ag_Spec a) = Some t \<longrightarrow>
      (\<exists>t'. as_Runtime (ag_Spec b) = Some t' \<and> t'\<lparr>rt_Image := rt_Image t\<rparr> = t)) \<and>
    (\<exists>g. (as_Guardrails (ag_Spec b) = (if g = [] then as_Guardrails (ag_Spec a) else Some (marshal_object g))) \<and>
      (\<forall>k. map_of g k = (case map_of (requested_guardrails req) k of
         None \<Rightarrow> map_of (old_guardrails (as_Guardrails (ag_Spec a))) k | Some v \<Rightarrow> Some v)))"
proof -
  obtain req where req: "decoded decode_agent_request r = Some req"
    using post_done [OF assms [unfolded handleUpdateAgent_def]] by (auto simp: bad_body_def split: option.splits)
  then obtain a where a: "k_get_agent (d_api s) c (if ca_Namespace req = [] then ns_of s else ca_Namespace req, ca_Name req) = Inr a"
    using post_done [OF assms [unfolded handleUpdateAgent_def]] by (auto split: sum.splits)
  have w: "d_update_agent s c (updated_agent req a) = (None, c')" "ca_Name req = name"
    using post_done [OF assms [unfolded handleUpdateAgent_def]] req a by (auto simp: written_done)
  let ?b = "updated_agent req a" and ?g = "merged_guardrails req (as_Guardrails (ag_Spec a))"
  have spec: "as_Memory (ag_Spec ?b) = overlay_memory (requested_memory req) (as_Memory (ag_Spec a))"
    "as_Runtime (ag_Spec ?b) = update_image (ca_Image req) (as_Runtime (ag_Spec a))"
    "as_Guardrails (ag_Spec ?b) = (if ?g = [] then as_Guardrails (ag_Spec a) else Some (marshal_object ?g))"
    "ag_Status ?b = ag_Status a" "without_form (ag_Spec ?b) = without_form (ag_Spec a)"
    "(ag_Meta ?b)\<lparr>om_Labels := om_Labels (ag_Meta a)\<rparr> = ag_Meta a"
    by (simp_all add: updated_agent_def Let_def without_form_def)
  have memory: "ca_MemoryBehavior req = [] \<longrightarrow> as_Memory (ag_Spec ?b) = as_Memory (ag_Spec a)"
    "\<forall>m. as_Memory (ag_Spec a) = Some m \<longrightarrow>
      (\<exists>m'. as_Memory (ag_Spec ?b) = Some m' \<and> legacy_memory m' = legacy_memory m)"
    by (simp_all add: spec(1) overlay_memory_def requested_memory_def memorySpecFromRequest_def legacy_memory_def)
  have runtime: "ca_Image req = None \<longrightarrow> as_Runtime (ag_Spec ?b) = as_Runtime (ag_Spec a)"
    "\<forall>t. as_Runtime (ag_Spec a) = Some t \<longrightarrow>
      (\<exists>t'. as_Runtime (ag_Spec ?b) = Some t' \<and> t'\<lparr>rt_Image := rt_Image t\<rparr> = t)"
    by (simp_all add: spec(2) update_image_def split: option.split)
  have guardrails: "\<exists>g. (as_Guardrails (ag_Spec ?b) = (if g = [] then as_Guardrails (ag_Spec a) else Some (marshal_object g))) \<and>
      (\<forall>k. map_of g k = (case map_of (requested_guardrails req) k of
         None \<Rightarrow> map_of (old_guardrails (as_Guardrails (ag_Spec a))) k | Some v \<Rightarrow> Some v))"
    using spec(3) map_of_merged by blast
  show ?thesis
    by (rule exI [of _ req], rule exI [of _ a], rule exI [of _ ?b])
      (intro conjI req w(2) a [unfolded w(2)] w(1) spec(4-6) memory runtime guardrails)
qed

definition tuned_agent :: Agent where
  "tuned_agent = plain_agent\<lparr>ag_Spec := (ag_Spec plain_agent)\<lparr>as_Memory := Some (empty_memory\<lparr>ms_Type := ''buffer'', ms_TTL := ''24h''\<rparr>),
     as_Guardrails := Some ''{\"owner\":\"sre\"}''\<rparr>\<rparr>"

definition tuned_cluster :: cluster where
  "tuned_cluster = no_cluster\<lparr>cl_agents := [tuned_agent]\<rparr>"

definition tune_request :: Http.request where
  "tune_request = post ''/api/update/agent''
     ''{\"name\":\"scout\",\"provider\":\"p\",\"model\":\"m\",\"memoryBehavior\":\"persistent\",\"costLimit\":2}''"

lemma tune_facts:
  "fst (handleUpdateAgent list_dash tune_request tuned_cluster) = reply_done ''updated'' ''scout''"
  "map_option requested_guardrails (decoded decode_agent_request tune_request) = Some [(''costLimitUSD'', ''2'')]"
  "map_of (old_guardrails (as_Guardrails (ag_Spec tuned_agent))) ''owner'' = Some ''\"sre\"''"
  by code_simp+

lemma agent_update_keeps_witness:
  "\<exists>b m g. d_update_agent list_dash tuned_cluster b = (None, snd (handleUpdateAgent list_dash tune_request tuned_cluster)) \<and>
    as_Memory (ag_Spec b) = Some m \<and> ms_TTL m = ''24h'' \<and> as_Guardrails (ag_Spec b) = Some (marshal_object g) \<and>
    map_of g ''owner'' = Some ''\"sre\"'' \<and> map_of g ''costLimitUSD'' = Some ''2''"
proof -
  let ?h = "handleUpdateAgent list_dash tune_request tuned_cluster"
  have "?h = (reply_done ''updated'' ''scout'', snd ?h)" using tune_facts(1) by (metis prod.collapse)
  from agent_update_keeps [OF this] obtain req a b g where b: "decoded decode_agent_request tune_request = Some req"
      "k_get_agent (d_api list_dash) tuned_cluster (if ca_Namespace req = [] then ns_of list_dash else ca_Namespace req, ''scout'') = Inr a"
      "d_update_agent list_dash tuned_cluster b = (None, snd ?h)"
      "\<forall>m. as_Memory (ag_Spec a) = Some m \<longrightarrow> (\<exists>m'. as_Memory (ag_Spec b) = Some m' \<and> legacy_memory m' = legacy_memory m)"
      "as_Guardrails (ag_Spec b) = (if g = [] then as_Guardrails (ag_Spec a) else Some (marshal_object g))"
      "\<forall>k. map_of g k = (case map_of (requested_guardrails req) k of
         None \<Rightarrow> map_of (old_guardrails (as_Guardrails (ag_Spec a))) k | Some v \<Rightarrow> Some v)"
    by blast
  have a: "a = tuned_agent" using b(2)
    by (auto simp: list_dash_def list_ctx_def list_api_def tuned_cluster_def get_obj_def split: if_splits)
  have req: "requested_guardrails req = [(''costLimitUSD'', ''2'')]" using tune_facts(2) b(1) by simp
  have g: "map_of g ''owner'' = Some ''\"sre\"''" "map_of g ''costLimitUSD'' = Some ''2''"
    using b(6) [rule_format, of "''owner''"] b(6) [rule_format, of "''costLimitUSD''"] req tune_facts(3) a by simp_all
  moreover have "as_Guardrails (ag_Spec b) = Some (marshal_object g)" using b(5) g(1) by auto
  moreover obtain m where m: "as_Memory (ag_Spec b) = Some m" "legacy_memory m = legacy_memory (empty_memory\<lparr>ms_Type := ''buffer'', ms_TTL := ''24h''\<rparr>)"
    using b(4) a by (auto simp: tuned_agent_def)
  moreover have "ms_TTL m = ''24h''" using arg_cong [OF m(2), of ms_TTL] by (simp add: legacy_memory_def)
  ultimately show ?thesis using b(3) by blast
qed

text \<open>The tools are replaced by bare names: endpoints, credentials and settings of the tools are lost.  A request
  that omits the provider or the model clears it; only the image tells omitted from empty.\<close>

lemma update_strips_tools: "t \<in> set (as_Tools (ag_Spec (updated_agent req a))) \<Longrightarrow> to_Endpoint t = None \<and> to_Config t = None"
  by (auto simp: updated_agent_def Let_def mcp_tools_def)

lemma update_clears_model: "mo_Name (as_Model (ag_Spec (updated_agent req a))) = ca_Model req"
  by (simp add: updated_agent_def Let_def)

section \<open>Connecting a server\<close>

definition stored :: "'c dash \<Rightarrow> 'c \<Rightarrow> iface list" where
  "stored s c = (case d_get_data s c (servers_key s) of Inr (Some d) \<Rightarrow> listed d | _ \<Rightarrow> [])"

lemma encode_servers_ne: "encode_servers ss \<noteq> []"
  by (simp add: encode_servers_def)

lemma listed_written:
  "list_all plain_entry ss \<Longrightarrow> listed (d(''servers'' \<mapsto> encode_servers ss)) = map canonical ss"
  by (simp add: listed_def encode_servers_ne server_list_roundtrip)

lemma put_server_plain: "list_all plain_entry ss \<Longrightarrow> plain_entry e \<Longrightarrow> list_all plain_entry (put_server n e ss)"
  by (induction ss) auto

lemma upsert_stored:
  assumes laws: "config_laws s" and up: "upsertMCPConfigEntry s n e c = (None, c')"
    and plain: "list_all plain_entry (stored s c)" "plain_entry e"
  shows "stored s c' = map canonical (put_server n e (stored s c))"
proof -
  have read: "d_create_data s c (servers_key s) d = (None, c') \<Longrightarrow> d_get_data s c' (servers_key s) = Inr (Some d)"
    "d_update_data s c (servers_key s) d = (None, c') \<Longrightarrow> d_get_data s c' (servers_key s) = Inr (Some d)" for d
    using laws by (auto simp: config_laws_def)
  have empty: "listed Map.empty = []" by (simp add: listed_def)
  show ?thesis
  proof (cases "d_get_data s c (servers_key s)")
    case (Inl err)
    then have "d_create_data s c (servers_key s) (with_entry n e Map.empty) = (None, c')"
      using up by (cases err) (simp_all add: upsertMCPConfigEntry_def)
    from read(1) [OF this] Inl show ?thesis
      using plain(2) by (simp add: stored_def with_entry_def empty listed_written)
  next
    case (Inr d)
    define d1 where "d1 = (case d of None \<Rightarrow> Map.empty | Some d \<Rightarrow> d)"
    have st: "stored s c = listed d1" using Inr by (cases d) (simp_all add: stored_def d1_def empty)
    have "d_update_data s c (servers_key s) (with_entry n e d1) = (None, c')"
      using up Inr by (simp add: upsertMCPConfigEntry_def d1_def)
    from read(2) [OF this] show ?thesis
      using put_server_plain [OF plain] by (simp add: stored_def [of s c'] with_entry_def st listed_written)
  qed
qed

lemma find_canonical:
  "list_all plain_entry ss \<Longrightarrow> find (\<lambda>x. entry_name x = n) (map canonical ss) = map_option canonical (find (\<lambda>x. entry_name x = n) ss)"
  by (induction ss) (simp_all add: entry_name_canonical)

lemma entry_name_connected [simp]: "entry_name (connected_entry req) = Some (sq_Name req)"
  by (simp add: entry_name_def connected_entry_def obj_str_def)

lemma put_server_splits:
  "put_server n e ss = (if list_ex (\<lambda>x. entry_name x = Some n) ss
     then takeWhile (\<lambda>x. entry_name x \<noteq> Some n) ss @ e # tl (dropWhile (\<lambda>x. entry_name x \<noteq> Some n) ss)
     else ss @ [e])"
  by (induction ss) auto

text \<open>C26: Connecting a server by its address, once acknowledged, puts its entry, with the address and the settings of the
  request, into the stored list of servers: in place of the first entry of its name, or at the end when there is none; all
  other entries stay as they are, in their places.  A reader of the list finds the new entry under the name.  This is for
  entries, old and new, that are null or objects made of ASCII texts, booleans, null, lists and objects with different
  keys, without numbers; for a ConfigMap that reads back as it was written; and for the dashboard's and the controller's
  way of reading the list, which decodes the indented text as JSON and gives the members of each object in the order of
  their keys.\<close>

theorem connected_server_listed:
  assumes laws: "config_laws s" and h: "handleMCPServerCreate s r c = (reply_done ''connected'' name, c')"
    and req: "decoded decode_server_request r = Some req" "plain_entry (connected_entry req)"
    and old: "list_all plain_entry (stored s c)"
  shows "stored s c' = map canonical (if list_ex (\<lambda>x. entry_name x = Some name) (stored s c)
      then takeWhile (\<lambda>x. entry_name x \<noteq> Some name) (stored s c) @ connected_entry req #
        tl (dropWhile (\<lambda>x. entry_name x \<noteq> Some name) (stored s c))
      else stored s c @ [connected_entry req]) \<and>
    find (\<lambda>x. entry_name x = Some name) (stored s c') = Some (canonical (connected_entry req))"
proof -
  have up: "upsertMCPConfigEntry s (sq_Name req) (connected_entry req) c = (None, c')" "sq_Name req = name"
    using post_done [OF h [unfolded handleMCPServerCreate_def]] req(1)
    by (auto simp: written_done split: if_splits)
  note put = upsert_stored [OF laws up(1) old req(2)]
  have "find (\<lambda>x. entry_name x = Some name) (stored s c') = Some (canonical (connected_entry req))"
    using put_server_plain [OF old req(2), of name] up(2) by (simp add: put find_canonical servers.find_put)
  then show ?thesis using put up(2) by (simp only: put_server_splits simp_thms)
qed

definition connect_cluster :: cluster where
  "connect_cluster = no_cluster\<lparr>cl_cms := [\<lparr>cm_Meta = empty_meta\<lparr>om_Namespace := ''team'', om_Name := ''mcp-servers''\<rparr>,
     cm_Data = [''servers'' \<mapsto> ''[{\"name\":\"git\",\"url\":\"http://git\"}]'']\<rparr>]\<rparr>"

definition connect_request :: Http.request where
  "connect_request = post ''/api/mcp/server'' ''{\"name\":\"docs\",\"url\":\"http://docs\"}''"

lemma connect_facts:
  "fst (handleMCPServerCreate list_dash connect_request connect_cluster) = reply_done ''connected'' ''docs''"
  "(case decoded decode_server_request connect_request of None \<Rightarrow> False | Some req \<Rightarrow>
     plain_entry (connected_entry req) \<and> sq_URL req = ''http://docs'' \<and> sq_Name req = ''docs'')"
  "list_all plain_entry (stored list_dash connect_cluster) \<and>
   map entry_name (stored list_dash connect_cluster) = [Some ''git'']"
  by code_simp+

lemma connected_server_listed_witness:
  "\<exists>old new. stored list_dash (snd (handleMCPServerCreate list_dash connect_request connect_cluster)) = [old, new] \<and>
    entry_name new = Some ''docs''"
proof -
  let ?h = "handleMCPServerCreate list_dash connect_request connect_cluster"
  have h: "?h = (reply_done ''connected'' ''docs'', snd ?h)" using connect_facts(1) by (metis prod.collapse)
  obtain req where req: "decoded decode_server_request connect_request = Some req" "plain_entry (connected_entry req)"
    "sq_Name req = ''docs''"
    using connect_facts(2) by (auto split: option.splits)
  obtain e where e: "stored list_dash connect_cluster = [e]" "entry_name e = Some ''git''" using connect_facts(3) by auto
  from connected_server_listed [OF list_dash_config h req(1,2) conjunct1 [OF connect_facts(3)]] e
  have "stored list_dash (snd ?h) = [canonical e, canonical (connected_entry req)]" by simp
  then show ?thesis using req(2,3) by (simp add: entry_name_canonical)
qed

end
