(* ===== verification/Dashboard_Archive.thy ===== *)
theory Dashboard_Archive imports Http begin

text \<open>
  The handlers of the dashboard over the two stores: the archive of runs (\<^verbatim>\<open>dashboard/history.go\<close>) and the agents'
  memories (\<^verbatim>\<open>dashboard/memory.go\<close>).  A store that is not configured is \<open>None\<close>; \<open>etext\<close> is the text of a
  database error.
\<close>

section \<open>The archive of runs\<close>

definition defaultHistoryLimit :: int where
  "defaultHistoryLimit = 50"

definition opt_str :: "string \<Rightarrow> string \<Rightarrow> (string \<times> iface) list" where
  "opt_str k v = (if v = [] then [] else [(k, IStr v)])"

definition opt_time :: "string \<Rightarrow> time option \<Rightarrow> (string \<times> iface) list" where
  "opt_time k t = (case t of None \<Rightarrow> [] | Some t \<Rightarrow> [(k, IStr (RFC3339Nano t))])"

text \<open>A time that is no pointer: \<open>None\<close> is the zero time.\<close>

definition time_value :: "time option \<Rightarrow> iface" where
  "time_value t = IStr (case t of None \<Rightarrow> ''0001-01-01T00:00:00Z'' | Some t \<Rightarrow> RFC3339Nano t)"

definition runToJSON :: "WorkflowRun \<Rightarrow> (string \<times> iface) list" where
  "runToJSON run =
     [(''id'', IStr (hr_ID run)), (''name'', IStr (hr_Name run)), (''namespace'', IStr (hr_Namespace run)),
      (''phase'', IStr (hr_Phase run))] @ opt_str ''parameters'' (hr_Parameters run) @
     [(''totalSteps'', int_val (hr_TotalSteps run)), (''completedSteps'', int_val (hr_CompletedSteps run)),
      (''failedSteps'', int_val (hr_FailedSteps run))] @ opt_time ''startTime'' (hr_StartTime run) @
     opt_time ''completionTime'' (hr_CompletionTime run) @ opt_str ''message'' (hr_Message run) @
     [(''createdAt'', time_value (hr_CreatedAt run))]"

definition stepToJSON :: "StepExecution \<Rightarrow> iface" where
  "stepToJSON step = IObj
     ([(''id'', IStr (he_ID step)), (''workflowRunId'', IStr (he_WorkflowRunID step)),
       (''stepName'', IStr (he_StepName step))] @ opt_str ''agentName'' (he_AgentName step) @
      [(''phase'', IStr (he_Phase step))] @ opt_str ''input'' (he_Input step) @ opt_str ''output'' (he_Output step) @
      opt_str ''error'' (he_Error step) @ [(''retryCount'', int_val (he_RetryCount step))] @
      opt_str ''jobName'' (he_JobName step) @ opt_time ''startTime'' (he_StartTime step) @
      opt_time ''completionTime'' (he_CompletionTime step) @
      [(''tokensIn'', int_val (he_TokensIn step)), (''tokensOut'', int_val (he_TokensOut step)),
       (''costUsd'', INum (he_CostUSD step))])"

definition toolCallToJSON :: "ToolCall \<Rightarrow> iface" where
  "toolCallToJSON call = IObj
     ([(''id'', int_val (tc_ID call)), (''stepExecutionId'', IStr (tc_StepExecutionID call)),
       (''toolName'', IStr (tc_ToolName call))] @ opt_str ''toolType'' (tc_ToolType call) @
      opt_str ''toolServer'' (tc_ToolServer call) @ opt_str ''inputPreview'' (tc_InputPreview call) @
      [(''resultBytes'', int_val (tc_ResultBytes call)), (''elapsedMs'', int_val (tc_ElapsedMs call))] @
      opt_str ''autonomyLevel'' (tc_AutonomyLevel call) @ [(''timestamp'', time_value (tc_Timestamp call))])"

definition historyEnabled :: "history option \<Rightarrow> (history \<Rightarrow> response) \<Rightarrow> response" where
  "historyEnabled h answer = (case h of None \<Rightarrow> http_error ''execution history is not enabled'' 503 | Some h \<Rightarrow> answer h)"

text \<open>A query parameter that is no positive number keeps the default.\<close>

definition positive_or :: "int \<Rightarrow> string \<Rightarrow> int" where
  "positive_or d txt = (case atoi txt of Some v \<Rightarrow> if 0 < v then v else d | None \<Rightarrow> d)"

definition history_options :: "request \<Rightarrow> list_options" where
  "history_options r = \<lparr>lo_Namespace = rq_Query r ''namespace'', lo_Name = rq_Query r ''name'',
     lo_Limit = positive_or defaultHistoryLimit (rq_Query r ''limit''), lo_Offset = positive_or 0 (rq_Query r ''offset'')\<rparr>"

definition or_500 :: "(sql_error \<Rightarrow> string) \<Rightarrow> sql_error + 'a \<Rightarrow> ('a \<Rightarrow> response) \<Rightarrow> response" where
  "or_500 etext res answer = (case res of Inl e \<Rightarrow> http_error (etext e) 500 | Inr x \<Rightarrow> answer x)"

definition handleHistoryRuns :: "(sql_error \<Rightarrow> string) \<Rightarrow> history option \<Rightarrow> request \<Rightarrow> response" where
  "handleHistoryRuns etext store r = historyEnabled store
     (\<lambda>h. or_500 etext (ListWorkflowRuns h (history_options r))
       (\<lambda>runs. writeJSON (IArr (map (\<lambda>run. IObj (runToJSON run)) runs))))"

text \<open>The steps are read before it is known whether the run exists.\<close>

definition handleHistoryRunDetail :: "(sql_error \<Rightarrow> string) \<Rightarrow> history option \<Rightarrow> request \<Rightarrow> response" where
  "handleHistoryRunDetail etext store r = historyEnabled store
     (\<lambda>h. let path0 = TrimPrefix (rq_Path r) ''/api/history/run/''; stepsOnly = HasSuffix path0 ''/steps'';
            path = (if stepsOnly then TrimSuffix path0 ''/steps'' else path0)
        in if path = [] then http_error ''run id required'' 400
           else or_500 etext (ListStepExecutions h path)
             (\<lambda>steps. if stepsOnly then writeJSON (IArr (map stepToJSON steps))
               else (case GetWorkflowRun h path of
                       Inl _ \<Rightarrow> http_error (''workflow run not found: '' @ path) 404
                     | Inr run \<Rightarrow> writeJSON (IObj (runToJSON run @ [(''steps'', IArr (map stepToJSON steps))])))))"

definition handleHistoryStepTools :: "(sql_error \<Rightarrow> string) \<Rightarrow> history option \<Rightarrow> request \<Rightarrow> response" where
  "handleHistoryStepTools etext store r = historyEnabled store
     (\<lambda>h. let path = TrimPrefix (rq_Path r) ''/api/history/step/''; i = TrimSuffix path ''/tools''
        in if i = [] \<or> i = path then http_error ''expected /api/history/step/{id}/tools'' 400
           else or_500 etext (ListToolCalls h i) (\<lambda>calls. writeJSON (IArr (map toolCallToJSON calls))))"

section \<open>The memories\<close>

definition memToJSON :: "Entry \<Rightarrow> iface" where
  "memToJSON e = obj_str [(''id'', me_ID e), (''namespace'', me_Namespace e), (''scopeKey'', me_ScopeKey e),
     (''agent'', me_Agent e), (''workflow'', me_Workflow e), (''step'', me_Step e), (''content'', me_Content e),
     (''createdAt'', case me_CreatedAt e of None \<Rightarrow> ''0001-01-01T00:00:00Z'' | Some t \<Rightarrow> RFC3339 t)]"

definition memoryEnabled :: "mem_store option \<Rightarrow> (mem_store \<Rightarrow> response) \<Rightarrow> response" where
  "memoryEnabled st answer = (case st of None \<Rightarrow> http_error ''memory is not enabled'' 503 | Some st \<Rightarrow> answer st)"

definition query_ns :: "'c dash \<Rightarrow> request \<Rightarrow> string" where
  "query_ns s r = nsOrDefault s (rq_Query r ''namespace'')"

definition memory_query :: "request \<Rightarrow> mem_query" where
  "memory_query r = \<lparr>mq_Text = rq_Query r ''q'', mq_Agent = rq_Query r ''agent'', mq_ScopeKey = rq_Query r ''scope'',
     mq_Since = None, mq_Limit = positive_or 100 (rq_Query r ''limit'')\<rparr>"

definition handleMemory :: "(sql_error \<Rightarrow> string) \<Rightarrow> 'c dash \<Rightarrow> mem_store option \<Rightarrow> request \<Rightarrow> response" where
  "handleMemory etext s store r = memoryEnabled store
     (\<lambda>st. or_500 etext (Search (x_fts (d_ctx s)) st (query_ns s r) (memory_query r))
       (\<lambda>entries. writeJSON (IArr (map memToJSON entries))))"

text \<open>The status of the default provider, or of the only one; \<open>None\<close> is the dashboard without a cluster.\<close>

definition defaultProviderHealth :: "(kerr + MemoryProvider list) option \<Rightarrow> (bool \<times> string) option" where
  "defaultProviderHealth found =
     (case found of
        Some (Inr ps) \<Rightarrow>
          (let health = (\<lambda>p. (mps_Healthy (mpr_Status p), mps_LastError (mpr_Status p))) in
           case find (\<lambda>p. mp_Default (mpr_Spec p)) ps of
             Some p \<Rightarrow> Some (health p)
           | None \<Rightarrow> (case ps of [p] \<Rightarrow> Some (health p) | _ \<Rightarrow> None))
      | _ \<Rightarrow> None)"

definition handleMemoryStats :: "(sql_error \<Rightarrow> string) \<Rightarrow> 'c dash \<Rightarrow> (kerr + MemoryProvider list) option \<Rightarrow>
    mem_store option \<Rightarrow> request \<Rightarrow> response" where
  "handleMemoryStats etext s providers store r = memoryEnabled store
     (\<lambda>st. or_500 etext (Stats st (query_ns s r))
       (\<lambda>stats. writeJSON (IObj
         ([(''totalEntries'', int_val (mst_TotalEntries stats)),
           (''perAgent'', IObj (map (\<lambda>(a, n). (a, int_val n)) (mst_PerAgent stats))),
           (''providerType'', IStr (mst_ProviderType stats))] @
          (case defaultProviderHealth providers of
             None \<Rightarrow> [] | Some (healthy, lastErr) \<Rightarrow> [(''healthy'', IBool healthy), (''lastError'', IStr lastErr)])))))"

definition dangling :: "Entry list \<Rightarrow> string list \<Rightarrow> string list" where
  "dangling entries ids = filter (\<lambda>i. i \<notin> set (map me_ID entries)) ids"

definition handleMemoryRecall :: "(sql_error \<Rightarrow> string) \<Rightarrow> 'c dash \<Rightarrow> mem_store option \<Rightarrow> request \<Rightarrow> response" where
  "handleMemoryRecall etext s store r = memoryEnabled store
     (\<lambda>st. or_500 etext (ReadRecallLog st (query_ns s r) (rq_Query r ''runId'') (rq_Query r ''step''))
       (\<lambda>(entries, ids). writeJSON (IObj [(''entries'', IArr (map memToJSON entries)),
         (''danglingIds'', IArr (map IStr (dangling entries ids)))])))"

definition handleMemoryDelete :: "(sql_error \<Rightarrow> string) \<Rightarrow> 'c dash \<Rightarrow> request \<Rightarrow> mem_store option \<Rightarrow> response \<times> mem_store option" where
  "handleMemoryDelete etext s r store =
     (case store of
        None \<Rightarrow> (http_error ''memory is not enabled'' 503, None)
      | Some st \<Rightarrow>
          (if x_getenv (d_ctx s) ''PURKO_MEMORY_FORGET_ENABLED'' \<noteq> ''true'' then
             (http_error ''memory forget is disabled (set PURKO_MEMORY_FORGET_ENABLED=true; requires Spec 32 authz)'' 403, store)
           else if rq_Method r \<noteq> ''DELETE'' \<and> rq_Method r \<noteq> ''POST'' then
             (http_error ''DELETE or POST required'' 405, store)
           else (let i = drop (length ''/api/memory/'') (rq_Path r) in
                 case Forget st (query_ns s r) i of
                   (Inl e, st1) \<Rightarrow> (reply_error (etext e), Some st1)
                 | (Inr _, st1) \<Rightarrow>
                     (writeJSON (obj_str [(''status'', ''deleted''), (''id'', i)]), Some st1))))"

section \<open>Paging through the archive\<close>

lemma atoi_digits:
  assumes "list_all is_digit ds" "ds \<noteq> []" "in64 (digits_val ds)"
  shows "atoi ds = Some (digits_val ds)"
proof -
  obtain c t where ds: "ds = c # t" using assms(2) by (cases ds) auto
  then have "c \<in> set ''0123456789''" using assms(1) by (simp add: is_digit_def)
  then have "(case c # t of CHR ''-'' # t \<Rightarrow> (True, t) | CHR ''+'' # t \<Rightarrow> (False, t) | _ \<Rightarrow> (False, c # t)) = (False, c # t)"
    by auto
  then show ?thesis using assms(1,3) by (simp only: atoi_def ds Let_def prod.case) (simp add: ds)
qed

lemma show_pos_digits: "0 \<le> n \<Longrightarrow> list_all is_digit (show_pos n) \<and> show_pos n \<noteq> [] \<and> digits_val (show_pos n) = n"
proof (induction n rule: show_pos.induct)
  case (1 n)
  show ?case
  proof (cases "n < 10")
    case True
    then show ?thesis using 1(2) digit_char_ok [of n] by (simp add: show_pos.simps [of n] digits_val_def)
  next
    case False
    then show ?thesis using 1 digit_char_ok [of "n mod 10"]
      by (simp add: show_pos.simps [of n] digits_val_snoc)
  qed
qed

lemma atoi_show_nat: "int n < 9223372036854775808 \<Longrightarrow> atoi (show_nat n) = Some (int n)"
  using show_pos_digits [of "int n"] by (simp add: show_nat_def show_int_def atoi_digits in64_def)

lemma drop_take_pages:
  "concat (map (\<lambda>k. take L (drop (k * L) xs)) [0..<n]) = take (n * L) xs"
proof (induction n)
  case (Suc n)
  have "take (n * L) xs @ take L (drop (n * L) xs) = take (n * L + L) xs" by (simp add: take_add)
  then show ?case using Suc by (simp add: add.commute)
qed simp

text \<open>The newest first, by the text of their creation time, and by their identifiers among those of the same time.\<close>

definition newer_run :: "run_row \<Rightarrow> run_row \<Rightarrow> bool" where
  "newer_run a b \<longleftrightarrow> rr_created a \<noteq> rr_created b \<and> str_le (rr_created b) (rr_created a) \<or>
     rr_created a = rr_created b \<and> str_le (run_id a) (run_id b)"

lemma str_le_antisym: "str_le s t \<Longrightarrow> str_le t s \<Longrightarrow> s = t"
proof (induction s t rule: str_le.induct)
  case (1 t)
  then show ?case by (cases t) auto
qed (auto split: if_splits)

lemma run_order_newer: "run_order = newer_run"
  by (auto simp: run_order_def newer_run_def fun_eq_iff)

lemma runs_sorted: "sorted_wrt newer_run (order_by run_order rows)"
  unfolding run_order_newer
proof (rule sorted_order_by)
  show "newer_run a c" if "newer_run a b" "newer_run b c" for a b c
    using that str_le_trans str_le_antisym unfolding newer_run_def by metis
  show "newer_run a b \<or> newer_run b a" for a b
    using str_le_total unfolding newer_run_def by metis
qed

text \<open>The request for a page: its filter, which is empty where the parameter is missing, its size and where it starts.\<close>

definition asks_page :: "string \<Rightarrow> string \<Rightarrow> nat \<Rightarrow> nat \<Rightarrow> request \<Rightarrow> bool" where
  "asks_page namespace name len k r \<longleftrightarrow> rq_Query r ''namespace'' = namespace \<and> rq_Query r ''name'' = name \<and>
     rq_Query r ''limit'' = show_nat len \<and> rq_Query r ''offset'' = show_nat (k * len)"

lemma page_options:
  assumes "asks_page namespace name len k r" "0 < len" "int len < 9223372036854775808" "int (k * len) < 9223372036854775808"
  shows "history_options r = \<lparr>lo_Namespace = namespace, lo_Name = name, lo_Limit = int len, lo_Offset = int (k * len)\<rparr>"
proof -
  have "positive_or 0 (show_nat (k * len)) = int (k * len)" "positive_or d (show_nat len) = int len" for d
    using assms(2) atoi_show_nat [OF assms(3)] atoi_show_nat [OF assms(4)] by (auto simp: positive_or_def simp del: of_nat_mult)
  then show ?thesis using assms(1) by (simp add: history_options_def asks_page_def)
qed

text \<open>C27: Paging through an archive that is open and does not change between the requests shows it whole and in order.
  There is one list of the runs with the namespace and the name asked for (all of them, when these are empty), the newest
  first by the text of their creation time and by their identifiers where that is equal, so that requests with
  \<open>limit\<close> L and \<open>offset\<close> kL, for k below n, are answered with its pages of L runs one after the other:
  together they are its first nL runs, none twice and none left out.\<close>

theorem history_pages:
  assumes "history_ok h" "hs_open h" "0 < len" "int (n * len) < 9223372036854775808"
    and "\<forall>k < n. asks_page namespace name len k (req k)"
  shows "\<exists>rows. mset rows = mset (filter (\<lambda>r. (namespace = [] \<or> hr_Namespace (rr_run r) = namespace) \<and>
        (name = [] \<or> hr_Name (rr_run r) = name)) (hs_runs h)) \<and>
    sorted_wrt newer_run rows \<and> distinct (map run_id rows) \<and>
    (\<forall>k < n. handleHistoryRuns etext (Some h) (req k) =
      writeJSON (IArr (map (\<lambda>r. IObj (runToJSON (scanWorkflowRun r))) (take len (drop (k * len) rows))))) \<and>
    concat (map (\<lambda>k. take len (drop (k * len) rows)) [0..<n]) = take (n * len) rows"
proof (intro exI conjI allI impI)
  let ?ok = "\<lambda>r. (namespace = [] \<or> hr_Namespace (rr_run r) = namespace) \<and> (name = [] \<or> hr_Name (rr_run r) = name)"
  let ?rows = "order_by run_order (filter ?ok (hs_runs h))"
  show "mset ?rows = mset (filter ?ok (hs_runs h))" by (rule mset_order_by)
  show "sorted_wrt newer_run ?rows" by (rule runs_sorted)
  have "distinct (map run_id (hs_runs h))" using assms(1) by (simp add: history_ok_def run_ids_def)
  then show "distinct (map run_id ?rows)" by (simp add: distinct_order_by distinct_map_filter)
  show "concat (map (\<lambda>k. take len (drop (k * len) ?rows)) [0..<n]) = take (n * len) ?rows" by (rule drop_take_pages)
  fix k assume k: "k < n"
  have "len \<le> n * len" "k * len \<le> n * len" using k assms(3) by simp_all
  then have "int len < 9223372036854775808" "int (k * len) < 9223372036854775808" using assms(4) by linarith+
  then have "history_options (req k) =
      \<lparr>lo_Namespace = namespace, lo_Name = name, lo_Limit = int len, lo_Offset = int (k * len)\<rparr>"
    using page_options assms(3,5) k by blast
  moreover have "nat (int k * int len) = k * len" by (metis nat_int of_nat_mult)
  ultimately show "handleHistoryRuns etext (Some h) (req k) =
      writeJSON (IArr (map (\<lambda>r. IObj (runToJSON (scanWorkflowRun r))) (take len (drop (k * len) ?rows))))"
    using assms(2,3) by (simp add: handleHistoryRuns_def historyEnabled_def or_500_def ListWorkflowRuns_def sql_limit_def
      Let_def comp_def)
qed

definition two_runs :: history where
  "two_runs = NewHistory\<lparr>hs_runs := map (\<lambda>i. run_to_row 0 \<lparr>hr_ID = i, hr_Name = ''flow'', hr_Namespace = ''team'',
     hr_Phase = ''Running'', hr_Parameters = [], hr_TotalSteps = 1, hr_CompletedSteps = 0, hr_FailedSteps = 0,
     hr_StartTime = None, hr_CompletionTime = None, hr_Message = [], hr_CreatedAt = Some 0\<rparr>) [''b'', ''a'']\<rparr>"

definition page_request :: "nat \<Rightarrow> request" where
  "page_request k = \<lparr>rq_Method = ''GET'', rq_Path = ''/api/history/runs'',
     rq_Query = (\<lambda>p. if p = ''limit'' then show_nat 1 else if p = ''offset'' then show_nat k else []),
     rq_Header = (\<lambda>_. []), rq_Body = None\<rparr>"

lemma history_pages_witness:
  "\<exists>rows. map run_id rows \<in> {[''a'', ''b''], [''b'', ''a'']} \<and> sorted_wrt newer_run rows \<and>
    handleHistoryRuns (\<lambda>_. []) (Some two_runs) (page_request 1) =
      writeJSON (IArr [IObj (runToJSON (scanWorkflowRun (rows ! 1)))])"
proof -
  have ok: "history_ok two_runs" "hs_open two_runs" "map run_id (hs_runs two_runs) = [''b'', ''a'']" by code_simp+
  have asks: "\<forall>k < 2. asks_page [] [] 1 k (page_request k)" by (simp add: asks_page_def page_request_def)
  obtain rows where rows: "mset rows = mset (hs_runs two_runs)" "sorted_wrt newer_run rows" "distinct (map run_id rows)"
    "handleHistoryRuns (\<lambda>_. []) (Some two_runs) (page_request 1) =
      writeJSON (IArr (map (\<lambda>r. IObj (runToJSON (scanWorkflowRun r))) (take 1 (drop 1 rows))))"
    using history_pages [OF ok(1,2) _ _ asks, of "\<lambda>_. []"] by auto
  have "mset (map run_id rows) = {#''b'', ''a''#}" using rows(1) ok(3) by (metis mset.simps mset_map)
  then have ids: "length rows = 2" "set (map run_id rows) = {''a'', ''b''}"
    by (metis length_map size_mset size_add_mset size_empty One_nat_def Suc_1) (metis ok(3) rows(1) set_mset_mset mset_map insert_commute list.set empty_set)
  then obtain a b where ab: "rows = [a, b]" by (auto simp: length_Suc_conv numeral_2_eq_2)
  then have "map run_id rows \<in> {[''a'', ''b''], [''b'', ''a'']}" using ids(2) by (auto simp: doubleton_eq_iff)
  then show ?thesis using rows(2,4) ab by (intro exI [of _ rows]) simp
qed

section \<open>What the recall panel shows\<close>

text \<open>Every recalled identifier is shown, as a memory that is still there or as one that is gone; and what is shown
  as there is a memory of the namespace.\<close>

lemma recall_panel:
  assumes "ReadRecallLog st ns run step = Inr (entries, ids)"
  shows "i \<in> set ids \<longleftrightarrow> i \<in> set (map me_ID entries) \<or> i \<in> set (dangling entries ids)"
    "e \<in> set entries \<Longrightarrow> me_Namespace e = ns"
  using assms by (auto simp: ReadRecallLog_def dangling_def row_id_def split: if_splits option.splits)

text \<open>A memory that was deleted is found by no search.\<close>

lemma deleted_not_found:
  assumes "Forget st ns i = (Inr u, st')" "Search ft st' ns q = Inr entries"
  shows "i \<notin> set (map me_ID entries)"
proof
  have rows: "mdb_memories st' = filter (\<lambda>r. \<not> (row_id r = i \<and> me_Namespace (row_entry r) = ns)) (mdb_memories st)"
    using assms(1) by (auto simp: Forget_def split: if_splits)
  assume "i \<in> set (map me_ID entries)"
  then obtain r where r: "r \<in> set (mdb_memories st')" "search_where ft st' ns q r" "row_id r = i"
    using assms(2) subsetD [OF set_sql_limit] by (fastforce simp: Search_def Let_def row_id_def split: if_splits)
  then show False using rows by (simp add: search_where_def Let_def)
qed

end
