(* ===== verification/Status_Schema.thy ===== *)
theory Status_Schema imports Dashboard_Properties begin

text \<open>
  The schema of a workflow's status (\<^verbatim>\<open>crds/workflow.crd.yaml\<close>), which the API server checks on every status write,
  against the phases the controller and the dashboard write.
\<close>

section \<open>The schema\<close>

text \<open>An empty phase is left out of the document, which the schema allows.\<close>

definition crd_workflow_phase :: "string \<Rightarrow> bool" where
  "crd_workflow_phase p \<longleftrightarrow>
     p \<in> {[], ''Pending'', ''Running'', ''Succeeded'', ''CompletedWithErrors'', ''Failed'', ''Cancelled''}"

definition crd_step_phase :: "string \<Rightarrow> bool" where
  "crd_step_phase p \<longleftrightarrow>
     p \<in> {[], ''Pending'', ''Running'', ''Succeeded'', ''Failed'', ''Skipped'', ''RollingBack'', ''RolledBack''}"

definition typed_step :: "StepStatus \<Rightarrow> bool" where
  "typed_step ss \<longleftrightarrow> crd_step_phase (ss_Phase ss)"

abbreviation typed_steps :: "Workflow \<Rightarrow> bool" where
  "typed_steps w \<equiv> list_all typed_step (wf_StepStatuses w)"

text \<open>The one phase outside the schema is written for the strategy \<open>rollback\<close> only.\<close>

definition conforms :: "Workflow \<Rightarrow> bool" where
  "conforms w \<longleftrightarrow> typed_steps w \<and>
     (crd_workflow_phase (wf_Phase w) \<or> wf_Phase w = ''RollingBack'' \<and> wf_Strategy w = ''rollback'')"

lemma crd_phases [simp]:
  "crd_workflow_phase []" "crd_workflow_phase ''Pending''" "crd_workflow_phase ''Running''"
  "crd_workflow_phase ''Succeeded''" "crd_workflow_phase ''CompletedWithErrors''" "crd_workflow_phase ''Failed''"
  "crd_workflow_phase ''Cancelled''" "\<not> crd_workflow_phase ''RollingBack''"
  by (simp_all add: crd_workflow_phase_def)

lemma typed_phases [simp]:
  "typed_step (ss\<lparr>ss_Phase := []\<rparr>)" "typed_step (ss\<lparr>ss_Phase := ''Pending''\<rparr>)" "typed_step (ss\<lparr>ss_Phase := ''Running''\<rparr>)"
  "typed_step (ss\<lparr>ss_Phase := ''Succeeded''\<rparr>)" "typed_step (ss\<lparr>ss_Phase := ''Failed''\<rparr>)"
  "typed_step (ss\<lparr>ss_Phase := ''Skipped''\<rparr>)" "typed_step (ss\<lparr>ss_Phase := ''RollingBack''\<rparr>)"
  "typed_step (ss\<lparr>ss_Phase := ''RolledBack''\<rparr>)" "typed_step (zero_step_status n)"
  by (simp_all add: typed_step_def crd_step_phase_def zero_step_status_def)

lemma typed_fields [simp]:
  "typed_step (ss\<lparr>ss_JobName := j\<rparr>) = typed_step ss" "typed_step (ss\<lparr>ss_CompletionTime := t\<rparr>) = typed_step ss"
  "typed_step (ss\<lparr>ss_StartTime := t\<rparr>) = typed_step ss" "typed_step (ss\<lparr>ss_Output := v\<rparr>) = typed_step ss"
  "typed_step (ss\<lparr>ss_Error := e\<rparr>) = typed_step ss" "typed_step (ss\<lparr>ss_RetryCount := n\<rparr>) = typed_step ss"
  by (simp_all add: typed_step_def)

lemma typed_update: "list_all P xs \<Longrightarrow> P y \<Longrightarrow> list_all P (xs[i := y])"
  using set_update_subset_insert [of xs i y] by (auto simp: list_all_iff)

lemma conforms_steps:
  "conforms w \<Longrightarrow> wf_Phase w' = wf_Phase w \<Longrightarrow> wf_Spec w' = wf_Spec w \<Longrightarrow> typed_steps w' \<Longrightarrow> conforms w'"
  by (simp add: conforms_def)

lemma conforms_phase: "typed_steps w \<Longrightarrow> crd_workflow_phase p \<Longrightarrow> conforms (with_phase x p r m w)"
  by (simp add: conforms_def)

lemma conforms_typed: "conforms w \<Longrightarrow> typed_steps w"
  by (simp add: conforms_def)

lemma conforms_end_with:
  "end_with x p r m w s = (out, w', s') \<Longrightarrow> typed_steps w \<Longrightarrow> crd_workflow_phase p \<Longrightarrow> conforms w'"
  by (auto simp: end_with_def Let_def intro: conforms_phase dest!: setPhase_result split: prod.splits)

section \<open>The loop over the jobs\<close>

text \<open>What the parts that only change statuses keep of the workflow \<open>w\<close> they started with.\<close>

definition keeps :: "Workflow \<Rightarrow> Workflow \<Rightarrow> bool" where
  "keeps w v \<longleftrightarrow> wf_Spec v = wf_Spec w \<and> wf_Phase v = wf_Phase w \<and> typed_steps v"

lemma keeps_conforms: "conforms w \<Longrightarrow> keeps w v \<Longrightarrow> conforms v"
  by (auto simp: keeps_def intro: conforms_steps)

lemma keeps_update: "keeps w v \<Longrightarrow> typed_step (f (wf_StepStatuses v ! i)) \<Longrightarrow> keeps w (update_step i f v)"
  by (simp add: keeps_def) (simp add: update_step_def typed_update)

lemma keeps_ensure: "keeps w v \<Longrightarrow> keeps w (fst (ensureStepStatus v n))"
proof -
  assume v: "keeps w v"
  obtain v1 i where e: "ensureStepStatus v n = (v1, i)" by (cases "ensureStepStatus v n")
  from e show ?thesis using v by (cases rule: ensure_cases) (auto simp: keeps_def e)
qed

lemma keeps_with_step: "keeps w v \<Longrightarrow> (\<And>ss. typed_step (f ss)) \<Longrightarrow> keeps w (with_step_status n f v)"
  using keeps_ensure [of w v n] by (simp add: with_step_status_def split_def Let_def keeps_update)

lemma keeps_counters [simp]: "keeps w (add_completed v) = keeps w v" "keeps w (add_failed v) = keeps w v"
  by (simp_all add: keeps_def add_completed_def add_failed_def)

definition sync_keeps :: "Workflow \<Rightarrow> 'c sync \<Rightarrow> bool" where
  "sync_keeps w y \<longleftrightarrow> keeps w (sy_wf y) \<and> (\<forall>old. sy_old y = Some old \<longrightarrow> list_all typed_step old)"

lemma sync_keeps_assign: "sync_keeps w y \<Longrightarrow> typed_step ss \<Longrightarrow> sync_keeps w (assign p ss y)"
  by (auto simp: sync_keeps_def assign_def keeps_update typed_update split: ptr.split option.split)

lemma assign_keeps:
  assumes "sync_keeps w y" "typed_step ss"
  shows "keeps w (sy_wf (assign p ss y))" "sy_old (assign p ss y) = Some old \<Longrightarrow> list_all typed_step old"
  using sync_keeps_assign [OF assms, of p] by (simp_all add: sync_keeps_def)

lemma sync_keeps_changed: "sync_keeps w (y\<lparr>sy_changed := b\<rparr>) = sync_keeps w y"
  by (simp add: sync_keeps_def)

lemma sync_keeps_ensure: "sync_keeps w y \<Longrightarrow> sync_keeps w (fst (ensure_ptr x n y))"
  using keeps_ensure [of w "sy_wf y" n]
  by (auto simp: sync_keeps_def ensure_ptr_def Let_def split_def keeps_def split: option.splits)

lemma sync_keeps_running:
  assumes "sync_keeps w y"
  shows "sync_keeps w (sync_running x n job p y)"
proof -
  have "sync_keeps w (sync_succeeded x n job p y)"
    by (auto simp: sync_succeeded_def Let_def split_def sync_keeps_def intro: assign_keeps(1) [OF assms]
        dest: assign_keeps(2) [OF assms, rotated])
  moreover have "sync_keeps w (sync_failed x n job p y)"
    using assms by (auto simp: sync_failed_def Let_def sync_keeps_def intro: assign_keeps(1) [OF assms]
        dest: assign_keeps(2) [OF assms, rotated])
  ultimately show ?thesis using assms by (simp add: sync_running_def)
qed

lemma sync_keeps_one: "sync_keeps w y \<Longrightarrow> sync_keeps w (sync_one x ix nj y)"
proof -
  assume y: "sync_keeps w y"
  obtain n job where nj: "nj = (n, job)" by (cases nj)
  obtain y1 p where e: "ensure_ptr x n y = (y1, p)" by (cases "ensure_ptr x n y")
  have "sync_keeps w y1" using sync_keeps_ensure [OF y, of x n] by (simp add: e)
  then have "sync_keeps w (fst (adopt_job x n job y))"
    using sync_keeps_assign [of w y1 _ p] by (simp add: adopt_job_def e sync_keeps_changed)
  then show ?thesis using y
    by (auto simp: sync_one_def nj split_def Let_def intro: sync_keeps_running split: option.split)
qed

lemma sync_jobs_keep:
  assumes "typed_steps w"
  shows "keeps w (sy_wf (syncJobs x w jobs s))"
proof -
  have "sync_keeps w (foldl (\<lambda>y nj. sync_one x ix nj y) y njs)" if "sync_keeps w y" for ix njs y
    using that by (induction njs arbitrary: y) (auto intro: sync_keeps_one)
  moreover have "sync_keeps w (sync_start x w jobs s)"
    using assms by (simp add: sync_keeps_def keeps_def sync_start_def Let_def)
  ultimately show ?thesis by (simp add: syncJobs_def sync_keeps_def)
qed

section \<open>Launching\<close>

lemma approval_keeps: "keeps w (la_wf l) \<Longrightarrow> keeps w (la_wf (snd (check_approval agent n l)))"
  using keeps_ensure [of w "la_wf l" n]
  by (auto simp: check_approval_def Let_def split_def denied_def waiting_def intro!: keeps_update)

lemma start_keeps: "keeps w (la_wf l) \<Longrightarrow> keeps w (la_wf (start_job x r outs step agent l))"
proof -
  assume l: "keeps w (la_wf l)"
  have "la_wf (snd (snd (recall_for x r agent step inp l))) = la_wf l" for inp
    by (simp add: recall_for_def Let_def split_def)
  moreover have "keeps w (la_wf (mark_running x n j l'))" if "la_wf l' = la_wf l" for n j l'
    using l that by (simp add: mark_running_def keeps_with_step)
  ultimately show ?thesis using l by (simp add: start_job_def Let_def split_def)
qed

lemma close_keeps: "keeps w (la_wf l) \<Longrightarrow> p \<in> {''Skipped'', ''Succeeded''} \<Longrightarrow> keeps w (la_wf (close_step x n p l))"
  by (auto simp: close_step_def intro!: keeps_with_step)

lemma launch_one_keeps:
  assumes "keeps w (la_wf l)"
  shows "keeps w (la_wf (launch_one x r outs n l))"
proof -
  note approval = approval_keeps [OF assms]
  show ?thesis using assms approval close_keeps [OF assms] start_keeps [OF approval]
    by (simp add: launch_one_def split_def Let_def split: option.split)
qed

lemma launch_steps_keep: "typed_steps w \<Longrightarrow> keeps w (la_wf (launch_steps x cache r jobs changed w s))"
proof -
  assume w: "typed_steps w"
  have "keeps w (la_wf (launch_all x r outs k ns l))" if "keeps w (la_wf l)" for outs k ns l
    using that by (induction x r outs k ns l rule: launch_all.induct) (simp_all add: launch_one_keeps)
  then show ?thesis using w by (simp add: launch_steps_def launch_start_def keeps_def)
qed

lemma launch_conforms:
  assumes "reconcile_launch x cache r jobs changed w s = (out, w', s')" "conforms w"
  shows "conforms w'"
proof -
  note k = launch_steps_keep [OF conforms_typed [OF assms(2)], of x cache r jobs changed s]
  have "typed_steps (la_wf (launch_steps x cache r jobs changed w s))" using k by (simp add: keeps_def)
  then show ?thesis using assms keeps_conforms [OF assms(2) k]
    by (auto simp: reconcile_launch_def Let_def dest!: setPhase_result intro!: conforms_phase split: if_splits prod.splits)
qed

section \<open>The whole reconcile\<close>

lemma typed_rollback: "list_all typed_step sss \<Longrightarrow> list_all typed_step (fst (rollback_steps x w cache r outs sss s))"
proof (induction sss arbitrary: s)
  case (Cons ss sss)
  have "typed_step (fst (rollback_one x w cache r outs ss s))"
    using Cons.prems by (auto simp: rollback_one_def Let_def split: option.split)
  with Cons show ?case by (simp add: split_def Let_def)
qed simp

lemma typed_finish: "list_all typed_step sss \<Longrightarrow> list_all typed_step (fst (finish_statuses x w jobs sss s))"
proof (induction sss arbitrary: s)
  case (Cons ss sss)
  have "typed_step (fst (late_output x w jobs tt s))" if "typed_step tt" for tt s
    using that by (auto simp: late_output_def Let_def split_def split: option.split)
  then have "typed_step (fst (finish_status x w jobs ss s))"
    using Cons.prems by (simp add: finish_status_def)
  with Cons show ?case by (simp add: split_def Let_def)
qed simp

lemma typed_map: "list_all typed_step sss \<Longrightarrow> (\<And>ss. typed_step ss \<Longrightarrow> typed_step (f ss)) \<Longrightarrow> list_all typed_step (map f sss)"
  by (simp add: list_all_iff)

lemma typed_skip: "typed_steps w \<Longrightarrow> typed_steps (skip_unfinished w)" "typed_steps w \<Longrightarrow> typed_steps (skip_running w)"
  by (auto simp: skip_unfinished_def skip_running_def list_all_iff)

lemma typed_monitor:
  "typed_steps w \<Longrightarrow> list_all typed_step (map (rollback_status x w s) (wf_StepStatuses w))"
  "typed_steps w \<Longrightarrow> list_all typed_step (map (rollback_status_again x w s) (wf_StepStatuses w))"
  by (rule typed_map, assumption, simp add: rollback_status_def rollback_status_again_def)+

lemma monitor_conforms:
  assumes "monitor_rollback x w s = (out, w', s')" "conforms w"
  shows "conforms w'"
  using assms typed_monitor(1) [OF conforms_typed [OF assms(2)], of x s]
  by (auto simp: monitor_rollback_def Let_def status_wf_def dest!: setPhase_result
      intro!: conforms_phase conforms_steps [OF assms(2)] split: if_splits prod.splits option.splits)

lemma failure_conforms:
  assumes "reconcile_failure x cache r w s = (out, w', s')" "conforms w"
  shows "conforms w'"
proof -
  note t = conforms_typed [OF assms(2)]
  consider "w' = w" | "fail_fast x w s = (out, w', s')" | "stop_workflow x w s = (out, w', s')"
    | "monitor_again x w s = (out, w', s')" | "start_rollback x cache r w s = (out, w', s')" "wf_Strategy w = ''rollback''"
    using assms(1) by (auto simp: reconcile_failure_def split: if_splits)
  then show ?thesis
  proof cases
    case 2
    then show ?thesis using typed_skip(1) [OF t] by (auto simp: fail_fast_def elim!: conforms_end_with)
  next
    case 3
    then show ?thesis using typed_skip(1) [OF t] by (auto simp: stop_workflow_def elim!: conforms_end_with)
  next
    case 4
    then show ?thesis using typed_monitor(2) [OF t, of x s]
      by (auto simp: monitor_again_def Let_def dest!: snd_setPhase setPhase_result
          intro!: conforms_phase conforms_steps [OF assms(2)] split: if_splits prod.splits)
  next
    case 5
    have "list_all typed_step (rev (fst (rollback_steps x w cache r outs (rev (wf_StepStatuses w)) u)))" for outs u
      using typed_rollback [of "rev (wf_StepStatuses w)"] t by (simp add: list_all_iff)
    then show ?thesis using 5
      by (auto simp: start_rollback_def Let_def split_def conforms_def dest!: snd_setPhase)
  qed (use assms(2) in simp)
qed

lemma finished_conforms:
  assumes "reconcile_finished x jobs w s = (out, w', s')" "conforms w"
  shows "conforms w'"
proof -
  have p: "completionPhase a b n str = (p, r, m) \<Longrightarrow> crd_workflow_phase p" for a b n str p r m
    by (auto simp: completionPhase_def split: if_splits)
  note t = typed_finish [OF conforms_typed [OF assms(2)], of x "complete_now x w" jobs s]
  show ?thesis using assms t
    by (auto simp: reconcile_finished_def Let_def dest!: setPhase_result intro!: conforms_phase p
        split: if_splits prod.splits option.splits)
qed

lemma run_conforms:
  assumes "reconcile_run x cache w s = (out, w', s')" "conforms w"
  shows "conforms w'"
proof (cases "getWorkflowJobs x w s")
  case (Inr jobs)
  let ?y = "syncJobs x w jobs s"
  have y: "conforms (sy_wf ?y)"
    using keeps_conforms [OF assms(2) sync_jobs_keep [OF conforms_typed [OF assms(2)]]] .
  from assms(1) Inr have "and_then (reconcile_failure x cache (wf_Annotation w run_id_key) (sy_wf ?y) (sy_rt ?y))
      (\<lambda>w1 s1. and_then (reconcile_finished x (sy_jobs ?y) w1 s1) (\<lambda>w2 s2.
         reconcile_launch x cache (wf_Annotation w run_id_key) (sy_jobs ?y) (sy_changed ?y) w2 s2)) = (out, w', s')"
    by (simp add: reconcile_run_def Let_def)
  then show ?thesis
  proof (cases rule: and_thenE)
    case (stopped o1)
    then show ?thesis using failure_conforms y by blast
  next
    case (went_on w1 s1)
    have w1: "conforms w1" using failure_conforms [OF went_on(1) y] .
    from went_on(2) show ?thesis
      by (cases rule: and_thenE) (use finished_conforms [OF _ w1] launch_conforms in blast)+
  qed
qed (use assms in \<open>simp add: reconcile_run_def\<close>)

lemma prepare_conforms:
  assumes "reconcile_prepare x w s = (out, w', s')" "conforms w"
  shows "conforms w'"
proof -
  have timeout: "conforms v" if "reconcile_timeout x w s = (o1, v, s1)" for o1 v s1
    using that assms(2) conforms_end_with [of x "''Failed''"]
    by (auto simp: reconcile_timeout_def Let_def conforms_typed split: option.splits if_splits)
  have init: "conforms v" if "reconcile_init x u t = (o1, v, s1)" "conforms u" for o1 u v t s1
    using that by (auto simp: reconcile_init_def init_status_def set_annotation_def map_meta_def conforms_def Let_def
        split: if_splits prod.splits)
  from assms(1) show ?thesis
    unfolding reconcile_prepare_def
  proof (cases rule: and_thenE)
    case (stopped o1)
    then show ?thesis using timeout by blast
  next
    case (went_on w1 s1)
    have w1: "conforms w1" using timeout went_on(1) .
    from went_on(2) show ?thesis
    proof (cases rule: and_thenE)
      case (stopped o1)
      then show ?thesis using concurrency_inv [OF stopped(1)] w1 by simp
    next
      case (went_on w2 s2)
      then show ?thesis using concurrency_inv [OF went_on(1)] w1 init by simp
    qed
  qed
qed

lemma active_conforms:
  assumes "reconcile_active x w s = (out, w', s')" "conforms w"
  shows "conforms w'"
proof -
  consider "w' = w" | "monitor_rollback x w s = (out, w', s')" | "cancel x w s = (out, w', s')"
    | "and_then (reconcile_prepare x w s) (reconcile_agents x) = (out, w', s')"
    using assms(1) by (auto simp: reconcile_active_def split: if_splits)
  then show ?thesis
  proof cases
    case 3
    then show ?thesis
      using typed_skip(2) [OF conforms_typed [OF assms(2)]] by (auto simp: cancel_def complete_now_def elim!: conforms_end_with)
  next
    case 4
    then show ?thesis
    proof (cases rule: and_thenE)
      case (stopped o1)
      then show ?thesis using prepare_conforms assms(2) by blast
    next
      case (went_on w1 s1)
      have w1: "conforms w1" using prepare_conforms went_on(1) assms(2) by blast
      have "conforms w'" if "agent_missing x step e w1 s1 = (out, w', s')" for step e
        using that w1 by (auto simp: agent_missing_def Let_def conforms_typed intro!: conforms_phase
            dest!: setPhase_result split: if_splits prod.splits)
      then show ?thesis using went_on(2) run_conforms [OF _ w1]
        by (auto simp: reconcile_agents_def split: sum.splits)
    qed
  qed (use assms(2) monitor_conforms in blast)+
qed

text \<open>C10: The phases the controller writes are of the types the schema of the custom resource gives them: whatever a
  reconcile does, each step status has a phase of the schema, and the workflow has one too, unless its failure strategy
  is rollback and the phase is RollingBack.\<close>

theorem written_phases_typed:
  assumes "k_get_wf (x_api x) (rs_c s) k = Inr w" "conforms w" "Reconcile x k s = (out, Some w', s')"
  shows "list_all (\<lambda>ss. crd_step_phase (ss_Phase ss)) (wf_StepStatuses w') \<and>
    (crd_workflow_phase (wf_Phase w') \<or> wf_Phase w' = ''RollingBack'' \<and> wf_Strategy w' = ''rollback'')"
proof -
  have del: "conforms v" if "reconcile_deletion x w s = (o1, v, s1)" for o1 v s1
    using that assms(2)
    by (auto simp: reconcile_deletion_def map_meta_def conforms_def Let_def split: if_splits prod.splits)
  obtain o1 where "and_then (reconcile_deletion x w s) (reconcile_active x) = (o1, w', s')"
    using assms(1,3) by (auto simp: Reconcile_def Let_def split: prod.splits)
  then have "conforms w'"
    by (cases rule: and_thenE) (use del active_conforms in blast)+
  then show ?thesis by (simp add: conforms_def typed_step_def [abs_def])
qed

lemma sample_conforms: "conforms (plain_workflow [] [step_in ''a'' ''Running''])"
  by (simp add: conforms_def typed_step_def crd_step_phase_def plain_workflow_def step_in_def zero_status_def zero_step_status_def)

lemma written_phases_typed_witness:
  "\<exists>w'. fst (snd (Reconcile list_ctx (''team'', ''flow'')
      (list_rt (no_cluster\<lparr>cl_wfs := [plain_workflow [] [step_in ''a'' ''Running'']]\<rparr>)))) = Some w' \<and>
    list_all (\<lambda>ss. crd_step_phase (ss_Phase ss)) (wf_StepStatuses w') \<and> crd_workflow_phase (wf_Phase w')"
proof -
  let ?w = "plain_workflow [] [step_in ''a'' ''Running'']"
  let ?s = "list_rt (no_cluster\<lparr>cl_wfs := [?w]\<rparr>)"
  have get: "k_get_wf (x_api list_ctx) (rs_c ?s) (''team'', ''flow'') = Inr ?w" by (simp add: sample_defs)
  obtain out w' s' where r: "Reconcile list_ctx (''team'', ''flow'') ?s = (out, Some w', s')"
    by (simp add: Reconcile_def get Let_def split_def)
  have "map_option wf_Phase (fst (snd (Reconcile list_ctx (''team'', ''flow'') ?s))) = Some ''Succeeded''"
    by code_simp
  then have "wf_Phase w' = ''Succeeded''" using r by simp
  then show ?thesis using written_phases_typed [OF get sample_conforms r] r by simp
qed

section \<open>What the schema makes of a rollback\<close>

text \<open>The API server refuses a status whose phase is not of the schema.\<close>

definition schema_enforced :: "'c api \<Rightarrow> bool" where
  "schema_enforced api \<longleftrightarrow> (\<forall>c w. \<not> crd_workflow_phase (wf_Phase w) \<longrightarrow> (\<exists>e. k_status_wf api c w = (Some e, c)))"

text \<open>Jobs are other objects than workflows.\<close>

definition jobs_apart :: "'c api \<Rightarrow> bool" where
  "jobs_apart api \<longleftrightarrow> (\<forall>c k j. k_get_wf api (k_delete_job api c j) k = k_get_wf api c k) \<and>
     (\<forall>c k j. k_get_wf api (snd (k_create_job api c j)) k = k_get_wf api c k)"

lemma jobs_apartD:
  assumes "jobs_apart api"
  shows "k_get_wf api (k_delete_job api c j) k = k_get_wf api c k"
    "k_get_wf api (snd (k_create_job api c jb)) k = k_get_wf api c k"
  using assms unfolding jobs_apart_def by blast+

abbreviation stored_wf :: "'c ctx \<Rightarrow> key \<Rightarrow> 'c rt \<Rightarrow> kerr + Workflow" where
  "stored_wf x k s \<equiv> k_get_wf (x_api x) (rs_c s) k"

lemma delete_jobs_apart:
  assumes "jobs_apart (x_api x)"
  shows "stored_wf x k (deleteWorkflowJobs x w s) = stored_wf x k s" "rs_hist (deleteWorkflowJobs x w s) = rs_hist s"
proof -
  have one: "stored_wf x k (delete_job x j s) = stored_wf x k s" "rs_hist (delete_job x j s) = rs_hist s" for j s
    by (simp_all add: delete_job_def jobs_apartD [OF assms])
  have "stored_wf x k (foldl (\<lambda>s j. delete_job x (f j) s) s js) = stored_wf x k s \<and>
      rs_hist (foldl (\<lambda>s j. delete_job x (f j) s) s js) = rs_hist s" for f and js :: "Job list"
    by (induction js arbitrary: s) (simp_all add: one)
  then show "stored_wf x k (deleteWorkflowJobs x w s) = stored_wf x k s" "rs_hist (deleteWorkflowJobs x w s) = rs_hist s"
    by (simp_all add: deleteWorkflowJobs_def split: sum.split)
qed

lemma rollback_steps_apart:
  assumes "jobs_apart (x_api x)"
  shows "stored_wf x k (snd (rollback_steps x w cache r outs sss s)) = stored_wf x k s \<and>
    rs_hist (snd (rollback_steps x w cache r outs sss s)) = rs_hist s"
proof (induction sss arbitrary: s)
  case (Cons ss sss)
  have "stored_wf x k (snd (rollback_one x w cache r outs ss s)) = stored_wf x k s \<and>
      rs_hist (snd (rollback_one x w cache r outs ss s)) = rs_hist s"
    by (simp add: rollback_one_def Let_def jobs_apartD [OF assms] split: option.split)
  then show ?case using Cons by (simp add: split_def Let_def)
qed simp

text \<open>C11: With the schema enforced, no rollback is ever recorded: when a failed step asks for one, the write of the
  phase RollingBack is refused, its error is dropped, and the stored workflow and the archive are what they were.  So
  the monitoring of the rollback jobs is never reached, and the next reconcile finds the same workflow again.\<close>

theorem rollback_never_recorded:
  assumes "schema_enforced (x_api x)" "jobs_apart (x_api x)"
    and "0 < wt_FailedSteps (wf_Status w)" "wf_Strategy w = ''rollback''" "wf_Phase w \<noteq> ''RollingBack''"
    and "reconcile_failure x cache r w s = (out, w', s')"
  shows "out = Some (RequeueAfter (5 * second)) \<and> wf_Phase w' = ''RollingBack'' \<and>
    k_get_wf (x_api x) (rs_c s') k = k_get_wf (x_api x) (rs_c s) k \<and> rs_hist s' = rs_hist s"
proof -
  have start: "start_rollback x cache r w s = (out, w', s')" using assms(3-6) by (simp add: reconcile_failure_def)
  have refused: "\<exists>e. setPhase x v ''RollingBack'' rs m u = (Some e, with_phase x ''RollingBack'' rs m v, u)" for v rs m u
  proof -
    have "\<not> crd_workflow_phase (wf_Phase (with_phase x ''RollingBack'' rs m v))" by simp
    then obtain e where "k_status_wf (x_api x) (rs_c u) (with_phase x ''RollingBack'' rs m v) = (Some e, rs_c u)"
      using assms(1) unfolding schema_enforced_def by blast
    then show ?thesis by (simp add: setPhase_def Let_def)
  qed
  then have "snd (setPhase x v ''RollingBack'' rs m u) = (with_phase x ''RollingBack'' rs m v, u)" for v rs m u
    by (metis snd_conv)
  then show ?thesis using start
    by (auto simp: start_rollback_def Let_def split_def rollback_steps_apart [OF assms(2)] delete_jobs_apart [OF assms(2)])
qed

text \<open>The sample cluster behind a server that checks the schema.\<close>

definition strict_ctx :: "cluster ctx" where
  "strict_ctx = list_ctx\<lparr>x_api := list_api\<lparr>k_status_wf := \<lambda>c w.
     if crd_workflow_phase (wf_Phase w) then k_status_wf list_api c w else (Some (OtherError ''Unsupported value''), c)\<rparr>\<rparr>"

lemma strict_server: "schema_enforced (x_api strict_ctx)" "jobs_apart (x_api strict_ctx)"
  by (auto simp: strict_ctx_def schema_enforced_def) (simp add: strict_ctx_def jobs_apart_def list_api_def)

definition broken_run :: Workflow where
  "broken_run = add_failed ((plain_workflow [plain_step ''a'' [], plain_step ''b'' [''a'']]
     [step_in ''a'' ''Succeeded'', step_in ''b'' ''Failed''])\<lparr>wf_Spec := (plain_spec
       [plain_step ''a'' [], plain_step ''b'' [''a''] ])\<lparr>wp_FailureStrategy := ''rollback''\<rparr>\<rparr>)"

lemma rollback_never_recorded_witness:
  "rs_hist (snd (snd (reconcile_failure strict_ctx Map.empty ''r1'' broken_run (list_rt no_cluster)))) = None"
proof -
  let ?r = "reconcile_failure strict_ctx Map.empty ''r1'' broken_run (list_rt no_cluster)"
  have "0 < wt_FailedSteps (wf_Status broken_run)" "wf_Strategy broken_run = ''rollback''"
    "wf_Phase broken_run \<noteq> ''RollingBack''"
    by (simp_all add: broken_run_def add_failed_def plain_workflow_def plain_spec_def zero_status_def)
  from rollback_never_recorded [OF strict_server this, of Map.empty "''r1''" "list_rt no_cluster" "fst ?r" "fst (snd ?r)"
      "snd (snd ?r)"]
  show ?thesis by (simp add: list_rt_def)
qed

end
