(* ===== verification/Retry_Budget.thy ===== *)
theory Retry_Budget imports Sync_Properties Launch_Properties begin

text \<open>
  Retries run out: each round of the two loops of \<^verbatim>\<open>Reconcile\<close> over the jobs and the executable steps lowers a measure
  whenever it changes the status of a step, whatever the jobs do in between.
\<close>

section \<open>What a step has left\<close>

abbreviation final_phases :: "string list" where
  "final_phases \<equiv> [''Succeeded'', ''Failed'', ''Skipped'']"

text \<open>The jobs a step may still start, from its phase and retries.\<close>

definition attempts_of :: "int \<Rightarrow> (string \<times> int) option \<Rightarrow> nat" where
  "attempts_of m c = (case c of
     None \<Rightarrow> nat m + 1
   | Some (p, r) \<Rightarrow> if p \<in> set final_phases then 0
       else if p = ''Running'' then nat (m - r) else nat (m - r) + 1)"

text \<open>The changes its status may still go through.\<close>

definition changes_of :: "int \<Rightarrow> (string \<times> int) option \<Rightarrow> nat" where
  "changes_of m c = (case c of
     None \<Rightarrow> 3 * nat m + 4
   | Some (p, r) \<Rightarrow> if p \<in> set final_phases then 0
       else 3 * nat (m - r) + (if p = ''Running'' then 1 else if p = ''Pending'' then 2 else 3))"

definition lowers :: "int \<Rightarrow> int \<Rightarrow> (string \<times> int) option \<Rightarrow> (string \<times> int) option \<Rightarrow> bool" where
  "lowers b m old new \<longleftrightarrow> int (attempts_of m new) + b \<le> int (attempts_of m old) \<and>
     changes_of m new \<le> changes_of m old \<and> (new \<noteq> old \<longrightarrow> changes_of m new < changes_of m old)"

lemma lowers_refl [simp]: "lowers 0 m c c"
  by (simp add: lowers_def)

abbreviation core_at :: "Workflow \<Rightarrow> string \<Rightarrow> (string \<times> int) option" where
  "core_at w n \<equiv> map_option core_of (status_of w n)"

abbreviation retries_at :: "Workflow \<Rightarrow> string \<Rightarrow> int" where
  "retries_at w n \<equiv> getMaxRetries (getStepByName w n)"

section \<open>The loop over the jobs\<close>

lemma settle_lowers:
  "m = retries_at w (ss_Name ss) \<Longrightarrow> lowers 0 m (Some (core_of ss)) (Some (settle x w job ss))"
  by (auto simp: lowers_def settle_def Let_def attempts_of_def changes_of_def)

lemma adopted_lowers: "lowers 0 (retries_at w n) None (Some (settle x w job (adopted n job)))"
proof -
  have "ss_Name (adopted n job) = n" "ss_Phase (adopted n job) = ''Running''" "ss_RetryCount (adopted n job) = 0"
    by (simp_all add: adopted_def zero_step_status_def)
  then show ?thesis by (auto simp: lowers_def settle_def Let_def attempts_of_def changes_of_def)
qed

lemma expected_lowers: "lowers 0 (retries_at w n) (core_at w n) (expected x w jobs n)"
proof -
  have "status_of w n = Some ss \<Longrightarrow> ss_Name ss = n" for ss
    by (auto simp: status_of_def find_Some_iff)
  then show ?thesis
    using settle_lowers [of _ w _ x] adopted_lowers [of w n x]
    by (auto simp: expected_def split: option.split)
qed

section \<open>The loop over the executable steps\<close>

text \<open>What starting, closing or holding back a step makes of its status; \<open>b\<close> counts the jobs started.\<close>

definition moves :: "int \<Rightarrow> Workflow \<Rightarrow> string \<Rightarrow> Workflow \<Rightarrow> bool" where
  "moves b w n w' \<longleftrightarrow> b = 0 \<and> status_of w' n = status_of w n \<or>
     (\<exists>ss. status_of w' n = Some ss \<and> ss_RetryCount ss = ss_RetryCount (status_or_new w n) \<and>
        (b = 1 \<and> ss_Phase ss = ''Running'' \<or>
         b = 0 \<and> ss_Phase ss \<in> insert (ss_Phase (status_or_new w n)) (set (''Pending'' # final_phases))))"

lemma open_lowers:
  assumes "p \<notin> set busy_phases"
  shows "lowers 1 m (Some (p, r)) (Some (''Running'', r))"
    "q \<in> insert p (set (''Pending'' # final_phases)) \<Longrightarrow> lowers 0 m (Some (p, r)) (Some (q, r))"
  using assms by (auto simp: lowers_def attempts_of_def changes_of_def)

lemma new_lowers: "lowers b m (Some ([], 0)) c \<Longrightarrow> lowers b m None c"
  by (auto simp: lowers_def attempts_of_def changes_of_def)

lemma moves_lowers:
  assumes "moves b w n w'" "open_step w n"
  shows "lowers b m (core_at w n) (core_at w' n)"
proof (cases "b = 0 \<and> status_of w' n = status_of w n")
  case False
  let ?p = "ss_Phase (status_or_new w n)" and ?r = "ss_RetryCount (status_or_new w n)"
  have "?p \<notin> set busy_phases" using assms(2) by (simp add: open_step_def)
  note low = open_lowers [OF this, where m = m and r = ?r]
  obtain ss where ss: "status_of w' n = Some ss" "ss_RetryCount ss = ?r"
    and b: "b = 1 \<and> ss_Phase ss = ''Running'' \<or>
      b = 0 \<and> ss_Phase ss \<in> insert ?p (set (''Pending'' # final_phases))"
    using assms(1) False unfolding moves_def by blast
  have "lowers b m (Some (?p, ?r)) (core_at w' n)"
    using b by (rule disjE) (simp_all only: ss option.map low)
  then show ?thesis
    by (cases "status_of w n") (simp_all add: status_or_new_def zero_step_status_def new_lowers)
qed simp

lemma moves_with_step:
  assumes "distinct_steps w" "\<And>ss. ss_Name (f ss) = ss_Name ss" "\<And>ss. ss_RetryCount (f ss) = ss_RetryCount ss"
    and "ss_Phase (f (status_or_new w n)) = (if b = 1 then ''Running'' else p)" "b = 0 \<or> b = 1"
    and "p \<in> set (''Pending'' # final_phases)"
  shows "moves b w n (with_step_status n f w)"
  using assms(3-6) status_of_with_step [OF assms(1,2), of n n] by (auto simp: moves_def)

lemma moves_completed [simp]: "moves b w n (add_completed w') = moves b w n w'"
  by (simp add: moves_def)

lemma close_moves:
  "distinct_steps (la_wf l) \<Longrightarrow> p \<in> set done_phases \<Longrightarrow> moves 0 (la_wf l) n (la_wf (close_step x n p l))"
  by (auto simp: close_step_def intro!: moves_with_step [where p = p])

lemma approval_moves:
  assumes "distinct_steps (la_wf l)" "check_approval agent n l = (go, l1)"
  shows "moves 0 (la_wf l) n (la_wf l1)" "go \<Longrightarrow> status_or_new (la_wf l1) n = status_or_new (la_wf l) n"
proof -
  obtain w1 i where e: "ensureStepStatus (la_wf l) n = (w1, i)" by (cases "ensureStepStatus (la_wf l) n")
  note E = ensure_facts [OF assms(1) e]
  have upd: "with_step_status n f (la_wf l) = update_step i f w1" for f using e by (simp add: with_step_status_def)
  have w1: "moves 0 (la_wf l) n w1" "status_or_new w1 n = status_or_new (la_wf l) n"
    using E(4) [of n] by (auto simp: moves_def status_or_new_def)
  have "moves 0 (la_wf l) n (update_step i denied w1)" "moves 0 (la_wf l) n (update_step i (waiting n) w1)"
    using moves_with_step [OF assms(1), of denied n 0 "''Failed''"]
      moves_with_step [OF assms(1), of "waiting n" n 0 "''Pending''"] by (simp_all add: upd denied_def waiting_def)
  moreover have "moves 0 (la_wf l) n (la_wf l)" by (simp add: moves_def)
  moreover consider "l1 = l" | "la_wf l1 = w1" | "la_wf l1 = update_step i denied w1" "\<not> go"
    | "la_wf l1 = update_step i (waiting n) w1" "\<not> go"
    using assms(2) e unfolding check_approval_def Let_def by (auto split: if_splits)
  ultimately show "moves 0 (la_wf l) n (la_wf l1)" "go \<Longrightarrow> status_or_new (la_wf l1) n = status_or_new (la_wf l) n"
    using w1 by (metis (no_types))+
qed

lemma start_moves:
  assumes "distinct_steps (la_wf l)"
  shows "\<exists>b. la_running (start_job x r outs step agent l) = la_running l + b \<and>
    moves b (la_wf l) (ws_Name step) (la_wf (start_job x r outs step agent l))"
proof -
  obtain block agent1 l1 where rc: "recall_for x r agent step (buildStepInput (la_wf l) step outs) l
      = (block, agent1, l1)" by (metis prod.exhaust)
  note R = recall_for_ok [OF rc]
  have "moves 1 (la_wf l) (ws_Name step) (with_step_status (ws_Name step)
      (\<lambda>ss. ss\<lparr>ss_Phase := ''Running'', ss_JobName := j, ss_StartTime := t\<rparr>) (la_wf l))" for j t
    by (rule moves_with_step [OF assms, where p = "''Pending''"]) simp_all
  moreover have "moves 0 (la_wf l) (ws_Name step) (la_wf l)" by (simp add: moves_def)
  ultimately show ?thesis using R
    by (auto simp: start_job_def Let_def rc mark_running_def split: prod.split intro: exI [of _ 0] exI [of _ 1])
qed

lemma launch_one_moves:
  assumes "distinct_steps (la_wf l)" "open_step (la_wf l) n"
  shows "\<exists>b. la_running (launch_one x r outs n l) = la_running l + b \<and>
    moves b (la_wf l) n (la_wf (launch_one x r outs n l))"
proof -
  have same: "moves 0 (la_wf l) n (la_wf l)" by (simp add: moves_def)
  have close: "la_running (close_step x n p l) = la_running l" for p by (simp add: close_step_def)
  have start: "\<exists>b. la_running (if go then start_job x r outs step agent l1 else l1) = la_running l + b \<and>
      moves b (la_wf l) n (la_wf (if go then start_job x r outs step agent l1 else l1))"
    if c: "check_approval agent n l = (go, l1)" and nm: "ws_Name step = n" for agent go l1 step
  proof (cases go)
    case True
    note A = check_approval_ok [OF assms c] and M = approval_moves [OF assms(1) c]
    have "distinct_steps (la_wf l1)" using A(1) by (simp add: step_ok_def touches_def)
    from start_moves [OF this, of x r outs step agent] obtain b where
      "la_running (start_job x r outs step agent l1) = la_running l1 + b"
      "moves b (la_wf l1) n (la_wf (start_job x r outs step agent l1))" using nm by auto
    then show ?thesis using True M A(2) by (auto simp: moves_def)
  next
    case False
    then show ?thesis using approval_moves(1) [OF assms(1) c] check_approval_ok(2) [OF assms c] by simp
  qed
  show ?thesis
    using same close close_moves [OF assms(1)] start getStepByName_name [of "la_wf l" n]
    by (fastforce simp: launch_one_def split: option.split prod.split)
qed

section \<open>All steps together\<close>

text \<open>\<open>m\<close> gives the retries of each step; \<open>b\<close> counts the starts of each step from \<open>w\<close> to \<open>w'\<close>.\<close>

definition total :: "(int \<Rightarrow> (string \<times> int) option \<Rightarrow> nat) \<Rightarrow> (string \<Rightarrow> int) \<Rightarrow> string set \<Rightarrow> Workflow \<Rightarrow> nat" where
  "total f m ns w = (\<Sum>n\<in>ns. f (m n) (core_at w n))"

lemma total_lowers:
  assumes "finite ns" "\<And>n. n \<in> ns \<Longrightarrow> lowers (b n) (m n) (core_at w n) (core_at w' n)"
  shows "total changes_of m ns w' \<le> total changes_of m ns w"
    "\<exists>n \<in> ns. core_at w' n \<noteq> core_at w n \<Longrightarrow> total changes_of m ns w' < total changes_of m ns w"
proof -
  show "total changes_of m ns w' \<le> total changes_of m ns w"
    unfolding total_def using assms(2) by (intro sum_mono) (simp add: lowers_def)
  show "total changes_of m ns w' < total changes_of m ns w" if "\<exists>n \<in> ns. core_at w' n \<noteq> core_at w n"
    unfolding total_def using assms that by (intro sum_strict_mono_ex1) (auto simp: lowers_def)
qed

section \<open>The steps that are started\<close>

abbreviation phase_at :: "Workflow \<Rightarrow> string \<Rightarrow> string option" where
  "phase_at w n \<equiv> map_option ss_Phase (status_of w n)"

text \<open>One, when the step is running in \<open>w'\<close> and was not in \<open>w\<close>.\<close>

definition turns :: "Workflow \<Rightarrow> Workflow \<Rightarrow> string \<Rightarrow> nat" where
  "turns w w' n = (if phase_at w' n = Some ''Running'' \<and> phase_at w n \<noteq> Some ''Running'' then 1 else 0)"

lemma turns_same: "status_of w' n = status_of w n \<Longrightarrow> turns w w' n = 0"
  by (cases "phase_at w n = Some ''Running''") (simp_all add: turns_def)

lemma moves_turns: "moves b w n w' \<Longrightarrow> open_step w n \<Longrightarrow> b = int (turns w w' n)"
  by (auto simp: moves_def turns_def open_step_def status_or_new_def split: option.splits)

text \<open>The loop counts each step that turns, and every step pays for its turn.\<close>

lemma launch_all_steps:
  fixes l :: "'c launch" and x :: "'c ctx" and xs :: "string list" and r :: string and outs :: str_map and par :: int
  defines "l' \<equiv> \<lambda>xs l. launch_all x r outs par xs l"
  assumes "distinct xs" "distinct_steps (la_wf l)" "\<And>n. n \<in> set xs \<Longrightarrow> open_step (la_wf l) n"
  shows "la_running (l' xs l) - la_running l = (\<Sum>n\<in>set xs. int (turns (la_wf l) (la_wf (l' xs l)) n))"
    "lowers (int (turns (la_wf l) (la_wf (l' xs l)) n)) (m n) (core_at (la_wf l) n) (core_at (la_wf (l' xs l)) n)"
proof -
  have "la_running (l' xs l) - la_running l = (\<Sum>n\<in>set xs. int (turns (la_wf l) (la_wf (l' xs l)) n)) \<and>
      (\<forall>n. lowers (int (turns (la_wf l) (la_wf (l' xs l)) n)) (m n) (core_at (la_wf l) n) (core_at (la_wf (l' xs l)) n))"
    using assms(2-4)
  proof (induction xs arbitrary: l)
    case Nil
    then show ?case by (simp add: l'_def turns_same)
  next
    case (Cons n xs)
    show ?case
    proof (cases "par \<le> la_running l")
      case True
      then show ?thesis by (simp add: l'_def turns_same)
    next
      case False
      define l1 where "l1 = launch_one x r outs n l"
      let ?e = "l' xs l1"
      have e: "l' (n # xs) l = ?e" using False by (simp add: l'_def l1_def)
      have ok: "step_ok n l l1" unfolding l1_def using Cons.prems(2,3) by (intro launch_one_ok) auto
      have st: "status_of (la_wf l1) k = status_of (la_wf l) k" if "k \<noteq> n" for k
        using ok that by (simp add: step_ok_def touches_def)
      have d1: "distinct_steps (la_wf l1)" using ok by (simp add: step_ok_def touches_def)
      have open1: "open_step (la_wf l1) k" if "k \<in> set xs" for k
        using open_step_status [OF st] Cons.prems(1,3) that by fastforce
      have own: "status_of (la_wf ?e) n = status_of (la_wf l1) n"
        using launch_all_ok [OF _ d1 open1, of xs] Cons.prems(1) by (simp add: launched_def l'_def)
      have IH: "la_running ?e - la_running l1 = (\<Sum>k\<in>set xs. int (turns (la_wf l1) (la_wf ?e) k))"
        "lowers (int (turns (la_wf l1) (la_wf ?e) k)) (m k) (core_at (la_wf l1) k) (core_at (la_wf ?e) k)" for k
        using Cons.IH [OF _ d1 open1] Cons.prems(1) by simp_all
      obtain b where b: "la_running l1 = la_running l + b" "moves b (la_wf l) n (la_wf l1)"
        using launch_one_moves [of l n x r outs] Cons.prems(2,3) by (auto simp: l1_def)
      have bt: "b = int (turns (la_wf l) (la_wf ?e) n)"
        using moves_turns [OF b(2)] Cons.prems(3) own by (simp add: turns_def)
      have rest: "turns (la_wf l1) (la_wf ?e) k = turns (la_wf l) (la_wf ?e) k" if "k \<noteq> n" for k
        using st [OF that] by (simp add: turns_def)
      have "(\<Sum>k\<in>set xs. int (turns (la_wf l1) (la_wf ?e) k)) = (\<Sum>k\<in>set xs. int (turns (la_wf l) (la_wf ?e) k))"
        using Cons.prems(1) by (intro sum.cong refl arg_cong [of _ _ int] rest) auto
      then have "la_running ?e - la_running l = (\<Sum>k\<in>set (n # xs). int (turns (la_wf l) (la_wf ?e) k))"
        using IH(1) Cons.prems(1) b(1) bt by simp
      moreover have "lowers (int (turns (la_wf l) (la_wf ?e) k)) (m k) (core_at (la_wf l) k) (core_at (la_wf ?e) k)" for k
      proof (cases "k = n")
        case True
        then show ?thesis using moves_lowers [OF b(2)] Cons.prems(3) bt own by simp
      next
        case False
        then show ?thesis using IH(2) [of k] rest [of k] st [of k] by simp
      qed
      ultimately show ?thesis unfolding e by blast
    qed
  qed
  then show "la_running (l' xs l) - la_running l = (\<Sum>n\<in>set xs. int (turns (la_wf l) (la_wf (l' xs l)) n))"
    "lowers (int (turns (la_wf l) (la_wf (l' xs l)) n)) (m n) (core_at (la_wf l) n) (core_at (la_wf (l' xs l)) n)"
    by blast+
qed

section \<open>Rounds\<close>

text \<open>What one round meets: the clock and the API, the agents, the jobs there are, and the state of the stores.\<close>

record 'c round =
  ro_ctx :: "'c ctx"
  ro_cache :: "string \<rightharpoonup> Agent"
  ro_run :: string
  ro_jobs :: "(string \<times> Job) list"
  ro_rt :: "'c rt"

definition round_sync :: "'c round \<Rightarrow> Workflow \<Rightarrow> 'c sync" where
  "round_sync r w = syncJobs (ro_ctx r) w (ro_jobs r) (ro_rt r)"

definition round_launch :: "'c round \<Rightarrow> Workflow \<Rightarrow> 'c launch" where
  "round_launch r w =
     (let y = round_sync r w in
      launch_steps (ro_ctx r) (ro_cache r) (ro_run r) (sy_jobs y) (sy_changed y) (sy_wf y) (sy_rt y))"

text \<open>The steps that the launch loop of the round starts.\<close>

definition started :: "'c round \<Rightarrow> Workflow \<Rightarrow> string \<Rightarrow> nat" where
  "started r w = turns (sy_wf (round_sync r w)) (la_wf (round_launch r w))"

definition round_ok :: "'c round \<Rightarrow> Workflow \<Rightarrow> bool" where
  "round_ok r w \<longleftrightarrow> distinct (map fst (ro_jobs r)) \<and> mset (x_order (ro_ctx r) (ro_jobs r)) = mset (ro_jobs r) \<and>
     length (filter (\<lambda>(n, _). n \<notin> step_names w) (ro_jobs r)) \<le> x_spare (ro_ctx r) (length (wf_StepStatuses w))"

definition changed :: "Workflow \<Rightarrow> Workflow \<Rightarrow> bool" where
  "changed w w' \<longleftrightarrow> list_ex (\<lambda>s. core_at w' (ws_Name s) \<noteq> core_at w (ws_Name s)) (wf_Steps w)"

text \<open>The workflow after some rounds, how many of them changed a step, and how often each step was started.\<close>

fun run_rounds :: "'c round list \<Rightarrow> Workflow \<Rightarrow> Workflow \<times> nat \<times> (string \<Rightarrow> nat)" where
  "run_rounds [] w = (w, 0, \<lambda>_. 0)"
| "run_rounds (r # rs) w =
     (let w1 = la_wf (round_launch r w); (w2, k, j) = run_rounds rs w1
      in (w2, (if changed w w1 then 1 else 0) + k, \<lambda>n. started r w n + j n))"

fun rounds_ok :: "'c round list \<Rightarrow> Workflow \<Rightarrow> bool" where
  "rounds_ok [] w = True"
| "rounds_ok (r # rs) w \<longleftrightarrow> round_ok r w \<and> rounds_ok rs (la_wf (round_launch r w))"

abbreviation spec_names :: "Workflow \<Rightarrow> string set" where
  "spec_names w \<equiv> ws_Name ` set (wf_Steps w)"

lemma round_steps:
  assumes "distinct_steps w" "distinct (map ws_Name (wf_Steps w))" "round_ok r w"
  shows "lowers (int (started r w n)) (retries_at w n) (core_at w n) (core_at (la_wf (round_launch r w)) n)"
    "la_running (round_launch r w) - running_jobs (sy_jobs (round_sync r w)) = (\<Sum>n\<in>spec_names w. int (started r w n))"
    "wf_Spec (la_wf (round_launch r w)) = wf_Spec w" "distinct_steps (la_wf (round_launch r w))"
proof -
  let ?y = "round_sync r w"
  note S = syncJobs_spec [OF assms(1), of "ro_jobs r" "ro_ctx r" "ro_rt r"]
  have y: "distinct_steps (sy_wf ?y)" "wf_Spec (sy_wf ?y) = wf_Spec w"
    "core_at (sy_wf ?y) n = expected (ro_ctx r) w (map_of (ro_jobs r)) n" for n
    using S assms(3) by (simp_all add: round_sync_def round_ok_def same_frame_def)
  have steps: "wf_Steps (sy_wf ?y) = wf_Steps w" by (simp add: y(2))
  let ?ns = "findExecutableSteps (sy_wf ?y) (map fst (sy_jobs ?y))"
  let ?l = "launch_start (sy_wf ?y) (sy_jobs ?y) (sy_changed ?y) (ro_cache r) (sy_rt ?y)"
  have l: "la_wf ?l = sy_wf ?y" "la_running ?l = running_jobs (sy_jobs ?y)" by (simp_all add: launch_start_def)
  have d: "distinct ?ns" unfolding findExecutableSteps_def using assms(2) by (simp add: distinct_map_filter steps)
  have sub: "set ?ns \<subseteq> spec_names w" by (auto simp: findExecutableSteps_def steps)
  have L: "launched (set ?ns) ?l (round_launch r w)"
    unfolding round_launch_def Let_def using assms(2) by (intro launch_steps_ok(1) [OF y(1)]) (simp add: steps)
  then show "wf_Spec (la_wf (round_launch r w)) = wf_Spec w" "distinct_steps (la_wf (round_launch r w))"
    using y(2) by (simp_all add: launched_def same_frame_def launch_start_def)
  have idle: "started r w n = 0" if "n \<notin> set ?ns" for n
    using L that turns_same by (simp add: launched_def started_def l)
  note A = launch_all_steps [OF d, of ?l, unfolded l, OF y(1) executable_open(1) [OF y(1)]]
  have e: "round_launch r w = launch_all (ro_ctx r) (ro_run r) (getStepOutputs (ro_ctx r) (sy_wf ?y) (sy_rt ?y))
      (parallelism_of (sy_wf ?y)) ?ns ?l" by (simp add: round_launch_def Let_def launch_steps_def)
  have "(\<Sum>n\<in>set ?ns. int (started r w n)) = (\<Sum>n\<in>spec_names w. int (started r w n))"
    using sub idle by (intro sum.mono_neutral_left) auto
  then show "la_running (round_launch r w) - running_jobs (sy_jobs (round_sync r w)) = (\<Sum>n\<in>spec_names w. int (started r w n))"
    using A(1) unfolding started_def e by simp
  have "lowers 0 (retries_at w n) (core_at w n) (core_at (sy_wf ?y) n)" unfolding y(3) by (rule expected_lowers)
  moreover have "lowers (int (started r w n)) (retries_at w n) (core_at (sy_wf ?y) n) (core_at (la_wf (round_launch r w)) n)"
    unfolding started_def e by (rule A(2))
  ultimately show "lowers (int (started r w n)) (retries_at w n) (core_at w n) (core_at (la_wf (round_launch r w)) n)"
    by (auto simp: lowers_def)
qed

lemma run_rounds_budget:
  "distinct_steps w \<Longrightarrow> distinct (map ws_Name (wf_Steps w)) \<Longrightarrow> rounds_ok rs w \<Longrightarrow> run_rounds rs w = (w', k, j) \<Longrightarrow>
   k + total changes_of (retries_at w) (spec_names w) w' \<le> total changes_of (retries_at w) (spec_names w) w \<and>
   j n + attempts_of (retries_at w n) (core_at w' n) \<le> attempts_of (retries_at w n) (core_at w n)"
proof (induction rs arbitrary: w k j)
  case (Cons r rs)
  let ?w1 = "la_wf (round_launch r w)"
  obtain k1 j1 where r1: "run_rounds rs ?w1 = (w', k1, j1)" and
    kj: "k = (if changed w ?w1 then 1 else 0) + k1" "j = (\<lambda>n. started r w n + j1 n)"
    using Cons.prems(4) by (auto simp: Let_def split: prod.splits)
  have ok: "round_ok r w" using Cons.prems(3) by simp
  note R = round_steps [OF Cons.prems(1,2) ok]
  have same: "getStepByName ?w1 = getStepByName w" "wf_Steps ?w1 = wf_Steps w"
    by (simp_all add: R(3) getStepByName_def fun_eq_iff)
  have "changed w ?w1 \<longleftrightarrow> (\<exists>n \<in> spec_names w. core_at ?w1 n \<noteq> core_at w n)"
    by (auto simp: changed_def list_ex_iff)
  moreover note total_lowers [of "spec_names w" "\<lambda>n. int (started r w n)" "retries_at w" w ?w1, OF _ R(1)]
  ultimately have "(if changed w ?w1 then 1 else 0) + total changes_of (retries_at w) (spec_names w) ?w1
      \<le> total changes_of (retries_at w) (spec_names w) w" by (cases "changed w ?w1") (simp_all add: Suc_le_eq)
  moreover have "started r w n + attempts_of (retries_at w n) (core_at ?w1 n) \<le> attempts_of (retries_at w n) (core_at w n)"
    using R(1) [of n] by (simp add: lowers_def)
  moreover have "k1 + total changes_of (retries_at w) (spec_names w) w' \<le> total changes_of (retries_at w) (spec_names w) ?w1 \<and>
      j1 n + attempts_of (retries_at w n) (core_at w' n) \<le> attempts_of (retries_at w n) (core_at ?w1 n)"
    using Cons.IH [OF R(4) _ _ r1] Cons.prems(2,3) by (simp add: same)
  ultimately show ?case using kj by simp
qed simp

lemma find_unique: "distinct (map f xs) \<Longrightarrow> v \<in> set xs \<Longrightarrow> find (\<lambda>u. f u = f v) xs = Some v"
  by (induction xs) auto

lemma fresh_total:
  assumes "wf_StepStatuses w = []" "distinct (map ws_Name (wf_Steps w))"
  shows "total f (retries_at w) (spec_names w) w = sum_list (map (\<lambda>s. f (getMaxRetries (Some s)) None) (wf_Steps w))"
proof -
  have at: "getStepByName w (ws_Name s) = Some s" if "s \<in> set (wf_Steps w)" for s
    using find_unique [OF assms(2) that] by (simp add: getStepByName_def)
  have inj: "inj_on ws_Name (set (wf_Steps w))" "distinct (wf_Steps w)" using assms(2) by (simp_all add: distinct_map)
  have "total f (retries_at w) (spec_names w) w = (\<Sum>s\<in>set (wf_Steps w). f (getMaxRetries (Some s)) None)"
    unfolding total_def using inj(1) at assms(1) by (simp add: sum.reindex status_of_def)
  then show ?thesis using inj(2) by (simp add: sum_list_distinct_conv_sum_set)
qed

text \<open>C5: Retries run out.  From a new run, repeat the two loops over the jobs and the executable steps any number of times,
  whatever the jobs, the agents and the API server do in between, as long as the slice of statuses has room for the jobs
  that have no status.  Then each step is started at most once more often than it has retries, and only a bounded number
  of rounds changes the phase or the retries of a step: the run comes to rest.\<close>

theorem retries_run_out:
  assumes "wf_StepStatuses w = []" "distinct (map ws_Name (wf_Steps w))" "rounds_ok rs w"
    and "run_rounds rs w = (w', k, j)"
  shows "(\<forall>step \<in> set (wf_Steps w). j (ws_Name step) \<le> nat (getMaxRetries (Some step)) + 1) \<and>
    k \<le> sum_list (map (\<lambda>s. 3 * nat (getMaxRetries (Some s)) + 4) (wf_Steps w))"
proof -
  have "distinct_steps w" using assms(1) by (simp add: distinct_steps_def)
  note B = run_rounds_budget [OF this assms(2-4)]
  have "j (ws_Name step) \<le> nat (getMaxRetries (Some step)) + 1" if "step \<in> set (wf_Steps w)" for step
  proof -
    have "getStepByName w (ws_Name step) = Some step" using find_unique [OF assms(2) that] by (simp add: getStepByName_def)
    then show ?thesis using B [of "ws_Name step"] assms(1) by (simp add: attempts_of_def status_of_def)
  qed
  moreover have "total changes_of (retries_at w) (spec_names w) w
      = sum_list (map (\<lambda>s. 3 * nat (getMaxRetries (Some s)) + 4) (wf_Steps w))"
    using fresh_total [OF assms(1,2), of changes_of] by (simp add: changes_of_def)
  moreover note B [of "[]"]
  ultimately show ?thesis by (intro conjI ballI) simp_all
qed

definition flaky_step :: WorkflowStep where
  "flaky_step = (plain_step ''a'' [])\<lparr>ws_RetryPolicy := Some
     \<lparr>rp_MaxRetries = 5, rp_BackoffSeconds = 0, rp_Backoff = ''10s'', rp_RetryOn = []\<rparr>\<rparr>"

definition flaky_round :: "(string \<times> Job) list \<Rightarrow> cluster round" where
  "flaky_round jobs = \<lparr>ro_ctx = list_ctx, ro_cache = [''a'' \<mapsto> plain_agent], ro_run = ''r1'', ro_jobs = jobs,
     ro_rt = list_rt no_cluster\<rparr>"

abbreviation flaky_rounds :: "cluster round list" where
  "flaky_rounds \<equiv> [flaky_round [], flaky_round [(''a'', plain_job ''a'' ''Failed'')]]"

lemma retries_run_out_witness:
  "\<exists>w' k j. run_rounds flaky_rounds (plain_workflow [flaky_step] []) = (w', k, j) \<and> j ''a'' = 2 \<and> j ''a'' \<le> 6 \<and> k \<le> 19"
proof -
  let ?w = "plain_workflow [flaky_step] []"
  have two: "snd (snd (run_rounds flaky_rounds ?w)) ''a'' = 2" by code_simp
  obtain w' k j where r: "run_rounds flaky_rounds ?w = (w', k, j)" by (metis prod_cases3)
  have "map ss_Name (wf_StepStatuses (la_wf (round_launch (flaky_round []) ?w))) = [''a'']" by code_simp
  then have "step_names (la_wf (round_launch (flaky_round []) ?w)) = {''a''}"
    by (metis list.simps(15) empty_set step_names_def set_map)
  moreover have "x_order (ro_ctx (flaky_round jobs)) = (\<lambda>js. js)" "ro_jobs (flaky_round jobs) = jobs" for jobs
    by (simp_all add: flaky_round_def list_ctx_def)
  ultimately have ok: "rounds_ok flaky_rounds ?w" by (simp add: round_ok_def)
  have "wf_StepStatuses ?w = []" "distinct (map ws_Name (wf_Steps ?w))" by (simp_all add: sample_defs)
  from retries_run_out [OF this ok r] r two show ?thesis
    by (simp add: plain_workflow_def plain_spec_def flaky_step_def plain_step_def getMaxRetries_def)
qed

end
