(* ===== verification/Deep_Copy.thy ===== *)
theory Deep_Copy imports Main begin

text \<open>
  The hand-written copying of the resources (\<^verbatim>\<open>DeepCopyInto\<close> and \<^verbatim>\<open>DeepCopyObject\<close> in
  \<^verbatim>\<open>api/v1alpha1/types.go\<close>).  What a copy is worth depends on the references it shares with the original, so values
  are modelled here with the addresses of their pointers, maps and slices.

  Each copying function is a list of what it does with the fields it names, a value of type \<open>copying\<close>; \<open>copy_by\<close>
  runs it.  From that list and the type of the value, \<open>leaks\<close> computes the paths at which a copy may share.
\<close>

section \<open>Values with references\<close>

text \<open>
  \<open>GNode\<close> is a struct with its fields, the entries of a map by key, or the elements of a slice; \<open>GRef\<close> is a pointer, map
  or slice at an address, with what it points at.  A scalar is never looked into.
\<close>

datatype gv = GLit string | GNil | GRef nat gv | GNode "(string \<times> gv) list"

primrec addrs :: "gv \<Rightarrow> nat set" where
  "addrs (GLit s) = {}"
| "addrs GNil = {}"
| "addrs (GRef a v) = insert a (addrs v)"
| "addrs (GNode fs) = \<Union> (snd ` set (map (map_prod (\<lambda>f. f) addrs) fs))"

text \<open>The value a reader sees, whatever the addresses.\<close>

primrec erase :: "gv \<Rightarrow> gv" where
  "erase (GLit s) = GLit s"
| "erase GNil = GNil"
| "erase (GRef a v) = GRef 0 (erase v)"
| "erase (GNode fs) = GNode (map (map_prod (\<lambda>f. f) erase) fs)"

text \<open>The values at a path of field names; a \<open>*\<close> goes to every element, references are followed.\<close>

fun values_at :: "string list \<Rightarrow> gv \<Rightarrow> gv list" where
  "values_at [] v = [v]"
| "values_at (f # p) (GRef a v) = values_at (f # p) v"
| "values_at (f # p) (GNode fs) = concat (map (\<lambda>(g, v). if f = ''*'' \<or> g = f then values_at p v else []) fs)"
| "values_at (f # p) v = []"

definition bounded :: "nat \<Rightarrow> gv \<Rightarrow> bool" where
  "bounded n v \<longleftrightarrow> (\<forall>a \<in> addrs v. a < n)"

section \<open>Copying\<close>

text \<open>
  \<open>Assign\<close> is \<^verbatim>\<open>out = in\<close>; \<open>Ptr\<close> a new pointee and \<open>Elems\<close> a new slice or map, unless it is nil, filled by
  copying what is in it; \<open>Fields\<close> copies the struct and then the fields named; \<open>Library\<close> calls the generated copy
  function of the Kubernetes library.
\<close>

datatype copying = Assign | Library | Ptr copying | Elems copying | Fields "(string \<times> copying) list"

type_synonym copier = "gv \<Rightarrow> nat \<Rightarrow> gv \<times> nat" \<comment> \<open>the number is the next address not in use\<close>

fun copy_each :: "(string \<Rightarrow> copier) \<Rightarrow> nat \<Rightarrow> (string \<times> gv) list \<Rightarrow> (string \<times> gv) list \<times> nat" where
  "copy_each k n [] = ([], n)"
| "copy_each k n ((f, v) # fs) =
     (let (v1, n1) = k f v n; (fs1, n2) = copy_each k n1 fs in ((f, v1) # fs1, n2))"

definition copy_ptr :: "copier \<Rightarrow> copier" where
  "copy_ptr k v n = (case v of GRef a x \<Rightarrow> (let (x1, n1) = k x (Suc n) in (GRef n x1, n1)) | _ \<Rightarrow> (v, n))"

definition copy_slice :: "copier \<Rightarrow> copier" where
  "copy_slice k v n =
     (case v of GRef a (GNode es) \<Rightarrow> (let (es1, n1) = copy_each (\<lambda>f. k) (Suc n) es in (GRef n (GNode es1), n1)) | _ \<Rightarrow> (v, n))"

definition for_field :: "(string \<times> copier) list \<Rightarrow> string \<Rightarrow> copier" where
  "for_field ks f = (case map_of ks f of None \<Rightarrow> Pair | Some k \<Rightarrow> k)"

definition copy_struct :: "(string \<times> copier) list \<Rightarrow> copier" where
  "copy_struct ks v n =
     (case v of GNode fs \<Rightarrow> (let (fs1, n1) = copy_each (for_field ks) n fs in (GNode fs1, n1)) | _ \<Rightarrow> (v, n))"

primrec copy_by :: "copier \<Rightarrow> copying \<Rightarrow> copier" where
  "copy_by lib Assign = Pair"
| "copy_by lib Library = lib"
| "copy_by lib (Ptr c) = copy_ptr (copy_by lib c)"
| "copy_by lib (Elems c) = copy_slice (copy_by lib c)"
| "copy_by lib (Fields cs) = copy_struct (map (map_prod (\<lambda>f. f) (copy_by lib)) cs)"

text \<open>What the documentation of the generated functions promises: the same content at new addresses only.\<close>

definition deep_copier :: "copier \<Rightarrow> bool" where
  "deep_copier lib \<longleftrightarrow> (\<forall>v n. let (v1, n1) = lib v n in
     n \<le> n1 \<and> erase v1 = erase v \<and> (\<forall>a \<in> addrs v1. n \<le> a \<and> a < n1))"

section \<open>What a copy keeps of the original's addresses\<close>

definition kept_field :: "(string \<times> (gv \<Rightarrow> nat set)) list \<Rightarrow> string \<Rightarrow> gv \<Rightarrow> nat set" where
  "kept_field rs f = (case map_of rs f of None \<Rightarrow> addrs | Some r \<Rightarrow> r)"

primrec kept :: "copying \<Rightarrow> gv \<Rightarrow> nat set" where
  "kept Assign = addrs"
| "kept Library = (\<lambda>v. {})"
| "kept (Ptr c) = (\<lambda>v. case v of GRef a x \<Rightarrow> kept c x | _ \<Rightarrow> addrs v)"
| "kept (Elems c) = (\<lambda>v. case v of GRef a (GNode es) \<Rightarrow> (\<Union>(f, x) \<in> set es. kept c x) | _ \<Rightarrow> addrs v)"
| "kept (Fields cs) = (\<lambda>v. case v of
     GNode fs \<Rightarrow> (\<Union>(f, x) \<in> set fs. kept_field (map (map_prod (\<lambda>f. f) kept) cs) f x)
   | _ \<Rightarrow> addrs v)"

lemma addrs_GNode [simp]: "addrs (GNode fs) = (\<Union>(f, x) \<in> set fs. addrs x)"
  by force

declare addrs.simps(4) [simp del]

text \<open>\<open>v1\<close> has the content of \<open>v\<close>, the addresses \<open>r\<close> of \<open>v\<close>, and otherwise the new ones from \<open>n\<close> to \<open>n1\<close>.\<close>

definition copy_of :: "nat set \<Rightarrow> gv \<Rightarrow> nat \<Rightarrow> gv \<times> nat \<Rightarrow> bool" where
  "copy_of r v n c \<longleftrightarrow> n \<le> snd c \<and> erase (fst c) = erase v \<and> r \<subseteq> addrs v \<and> r \<subseteq> addrs (fst c) \<and>
     addrs (fst c) \<subseteq> r \<union> {n..<snd c}"

lemma copy_of_assign: "copy_of (addrs v) v n (v, n)"
  by (simp add: copy_of_def)

lemma copy_of_library: "deep_copier lib \<Longrightarrow> copy_of {} v n (lib v n)"
  unfolding deep_copier_def copy_of_def by (auto simp: Let_def split_def)

lemma copy_of_ref: "copy_of r v (Suc n) (v1, n1) \<Longrightarrow> copy_of r (GRef a v) n (GRef n v1, n1)"
  by (auto simp: copy_of_def)

lemma copy_of_cons:
  assumes "copy_of r v n (v1, m)" "copy_of q (GNode es) m (GNode fs, n1)"
  shows "copy_of (r \<union> q) (GNode ((f, v) # es)) n (GNode ((f, v1) # fs), n1)"
proof -
  have "{n..<m} \<subseteq> {n..<n1}" "{m..<n1} \<subseteq> {n..<n1}" using assms by (auto simp: copy_of_def)
  then show ?thesis using assms by (auto simp: copy_of_def)
qed

lemma copy_each_copies:
  assumes "\<And>f x n. (f, x) \<in> set es \<Longrightarrow> copy_of (r f x) x n (k f x n)"
  shows "copy_of (\<Union>(f, x) \<in> set es. r f x) (GNode es) n (GNode (fst (copy_each k n es)), snd (copy_each k n es))"
  using assms
proof (induction es arbitrary: n)
  case Nil
  then show ?case by (simp add: copy_of_def)
next
  case (Cons e es)
  obtain f v where e: "e = (f, v)" by (cases e)
  obtain v1 m where k: "k f v n = (v1, m)" by (cases "k f v n")
  have "copy_of (r f v) v n (v1, m)" using Cons.prems [of f v n] by (simp add: e k)
  moreover have "copy_of (\<Union>(f, x) \<in> set es. r f x) (GNode es) m (GNode (fst (copy_each k m es)), snd (copy_each k m es))"
    by (rule Cons.IH) (simp add: Cons.prems)
  ultimately show ?case using copy_of_cons by (simp add: e k split_def Let_def)
qed

lemma copies_ptr:
  assumes "\<And>x n. copy_of (r x) x n (k x n)"
  shows "copy_of (case v of GRef a x \<Rightarrow> r x | _ \<Rightarrow> addrs v) v n (copy_ptr k v n)"
  using copy_of_assign [of v n] copy_of_ref assms by (auto simp: copy_ptr_def Let_def split_def split: gv.split)

lemma copies_slice:
  assumes "\<And>x n. copy_of (r x) x n (k x n)"
  shows "copy_of (case v of GRef a (GNode es) \<Rightarrow> (\<Union>(f, x) \<in> set es. r x) | _ \<Rightarrow> addrs v) v n (copy_slice k v n)"
  using copy_of_assign [of v n] copy_of_ref [OF copy_each_copies [where r = "\<lambda>f. r" and k = "\<lambda>f. k"]] assms
  by (auto simp: copy_slice_def Let_def split_def split: gv.split)

lemma copies_struct:
  assumes "\<And>f x n. copy_of (kept_field rs f x) x n (for_field ks f x n)"
  shows "copy_of (case v of GNode fs \<Rightarrow> (\<Union>(f, x) \<in> set fs. kept_field rs f x) | _ \<Rightarrow> addrs v) v n (copy_struct ks v n)"
  using copy_of_assign [of v n] copy_each_copies assms
  by (auto simp: copy_struct_def Let_def split_def split: gv.split)

lemma map_of_pair: "map_of (map (map_prod (\<lambda>f. f) g) cs) f = map_option g (map_of cs f)"
  by (induction cs) auto

theorem copy_by_copies: "deep_copier lib \<Longrightarrow> copy_of (kept c v) v n (copy_by lib c v n)"
proof (induction c arbitrary: v n)
  case (Fields cs)
  have "copy_of (kept_field (map (map_prod (\<lambda>f. f) kept) cs) f x) x n
      (for_field (map (map_prod (\<lambda>f. f) (copy_by lib)) cs) f x n)" for f x n
  proof (cases "map_of cs f")
    case None
    then show ?thesis by (simp add: for_field_def kept_field_def map_of_pair copy_of_assign)
  next
    case (Some c)
    then have "(f, c) \<in> set cs" by (rule map_of_SomeD)
    with Fields have "copy_of (kept c x) x n (copy_by lib c x n)" by (metis snds.intros snd_conv)
    with Some show ?thesis by (simp add: for_field_def kept_field_def map_of_pair)
  qed
  then show ?case unfolding copy_by.simps kept.simps by (rule copies_struct)
qed (simp_all add: copy_of_assign copy_of_library copies_ptr copies_slice)
section \<open>Where a copy may share, from the types alone\<close>

text \<open>\<open>Scalar\<close> is also a struct without references, \<open>Opaque\<close> a type that is not looked into.\<close>

datatype gty = Scalar | Opaque | Pointer gty | Slice gty | Mapping gty | Struct "(string \<times> gty) list"

fun elements :: "(gv \<Rightarrow> bool) \<Rightarrow> gv \<Rightarrow> bool" where
  "elements t GNil = True"
| "elements t (GRef a (GNode es)) = list_all (\<lambda>(f, x). t x) es"
| "elements t v = False"

fun pointee :: "(gv \<Rightarrow> bool) \<Rightarrow> gv \<Rightarrow> bool" where
  "pointee t GNil = True"
| "pointee t (GRef a x) = t x"
| "pointee t v = False"

fun members_typed :: "(string \<times> (gv \<Rightarrow> bool)) list \<Rightarrow> gv \<Rightarrow> bool" where
  "members_typed ts (GNode fs) = list_all2 (\<lambda>(f, t) (g, x). f = g \<and> t x) ts fs"
| "members_typed ts v = False"

primrec typed :: "gty \<Rightarrow> gv \<Rightarrow> bool" where
  "typed Scalar = (\<lambda>v. case v of GLit s \<Rightarrow> True | _ \<Rightarrow> False)"
| "typed Opaque = (\<lambda>v. True)"
| "typed (Pointer t) = pointee (typed t)"
| "typed (Slice t) = elements (typed t)"
| "typed (Mapping t) = elements (typed t)"
| "typed (Struct ts) = members_typed (map (map_prod (\<lambda>f. f) typed) ts)"

text \<open>The paths in a value of the type that hold references.\<close>

primrec refs :: "gty \<Rightarrow> string list list" where
  "refs Scalar = []"
| "refs Opaque = [[]]"
| "refs (Pointer t) = [[]]"
| "refs (Slice t) = [[]]"
| "refs (Mapping t) = [[]]"
| "refs (Struct ts) = concat (map (\<lambda>(f, ps). map ((#) f) ps) (map (map_prod (\<lambda>f. f) refs) ts))"

definition leaks_in :: "(string \<times> (gty \<Rightarrow> string list list)) list \<Rightarrow> string \<times> gty \<Rightarrow> string list list" where
  "leaks_in ls ft = map ((#) (fst ft)) (case map_of ls (fst ft) of None \<Rightarrow> refs (snd ft) | Some l \<Rightarrow> l (snd ft))"

primrec leaks :: "copying \<Rightarrow> gty \<Rightarrow> string list list" where
  "leaks Assign = refs"
| "leaks Library = (\<lambda>t. [])"
| "leaks (Ptr c) = (\<lambda>t. case t of Pointer t \<Rightarrow> leaks c t | _ \<Rightarrow> [[]])"
| "leaks (Elems c) = (\<lambda>t. case t of
     Slice t \<Rightarrow> map ((#) ''*'') (leaks c t) | Mapping t \<Rightarrow> map ((#) ''*'') (leaks c t) | _ \<Rightarrow> [[]])"
| "leaks (Fields cs) = (\<lambda>t. case t of
     Struct ts \<Rightarrow> concat (map (leaks_in (map (map_prod (\<lambda>f. f) leaks) cs)) ts) | _ \<Rightarrow> [[]])"

definition addrs_at :: "string list list \<Rightarrow> gv \<Rightarrow> nat set" where
  "addrs_at ps v = (\<Union>p \<in> set ps. \<Union>x \<in> set (values_at p v). addrs x)"

lemma at_ref: "\<Union> (addrs ` set (values_at p x)) \<subseteq> \<Union> (addrs ` set (values_at p (GRef a x)))"
  by (cases p) auto

lemma addrs_at_ref: "addrs_at ps x \<subseteq> addrs_at ps (GRef a x)"
  unfolding addrs_at_def by (rule UN_mono [OF subset_refl at_ref])

lemma addrs_at_all [simp]: "addrs_at [[]] v = addrs v"
  by (simp add: addrs_at_def)

lemma addrs_at_field:
  assumes "(g, x) \<in> set fs" "f = ''*'' \<or> g = f"
  shows "addrs_at ps x \<subseteq> addrs_at (map ((#) f) ps) (GNode fs)"
  using assms by (fastforce simp: addrs_at_def)

lemma addrs_at_mono: "set ps \<subseteq> set qs \<Longrightarrow> addrs_at ps v \<subseteq> addrs_at qs v"
  by (auto simp: addrs_at_def)
lemma list_all2_field:
  assumes "list_all2 (\<lambda>(f, t) (g, x). f = g \<and> t x) ts fs" "(f, x) \<in> set fs"
  shows "\<exists>t. (f, t) \<in> set ts \<and> t x"
  using assms by (induction ts fs rule: list_all2_induct) auto

lemma members_typedD:
  assumes "members_typed (map (map_prod (\<lambda>f. f) typed) ts) v"
  obtains fs where "v = GNode fs" "\<And>f x. (f, x) \<in> set fs \<Longrightarrow> \<exists>t. (f, t) \<in> set ts \<and> typed t x"
proof (cases v)
  case (GNode fs)
  have "\<exists>t. (f, t) \<in> set ts \<and> typed t x" if "(f, x) \<in> set fs" for f x
    using list_all2_field [of "map (map_prod (\<lambda>f. f) typed) ts" fs f x] assms GNode that by auto
  with GNode show ?thesis by (rule that)
qed (use assms in auto)

lemma refs_sound: "typed t v \<Longrightarrow> addrs v \<subseteq> addrs_at (refs t) v"
proof (induction t arbitrary: v)
  case (Struct ts)
  then obtain fs where fs: "v = GNode fs" "\<And>f x. (f, x) \<in> set fs \<Longrightarrow> \<exists>t. (f, t) \<in> set ts \<and> typed t x"
    by (auto elim: members_typedD)
  have "addrs x \<subseteq> addrs_at (refs (Struct ts)) v" if x: "(f, x) \<in> set fs" for f x
  proof -
    from fs(2) [OF x] obtain t where t: "(f, t) \<in> set ts" "typed t x" by blast
    then have "addrs x \<subseteq> addrs_at (refs t) x" using Struct.IH by (metis snds.intros snd_conv)
    also have "\<dots> \<subseteq> addrs_at (map ((#) f) (refs t)) v" unfolding fs(1) by (rule addrs_at_field [OF x]) simp
    also have "\<dots> \<subseteq> addrs_at (refs (Struct ts)) v" using t(1) by (intro addrs_at_mono) force
    finally show ?thesis .
  qed
  then show ?case unfolding fs(1) by auto
qed (auto simp: addrs_at_def split: gv.splits)

lemma elements_kept:
  assumes "elements (typed t) v" "\<And>x. typed t x \<Longrightarrow> kept c x \<subseteq> addrs_at (leaks c t) x"
  shows "kept (Elems c) v \<subseteq> addrs_at (map ((#) ''*'') (leaks c t)) v"
proof -
  consider "v = GNil" | a es where "v = GRef a (GNode es)" "list_all (\<lambda>(f, x). typed t x) es"
    using assms(1) by (cases "(typed t, v)" rule: elements.cases) auto
  then show ?thesis
  proof cases
    case 2
    have "kept c x \<subseteq> addrs_at (map ((#) ''*'') (leaks c t)) (GNode es)" if x: "(f, x) \<in> set es" for f x
    proof -
      have "typed t x" using 2(2) x by (auto simp: list_all_iff)
      from assms(2) [OF this] show ?thesis using addrs_at_field [OF x, of "''*''" "leaks c t"] by simp
    qed
    then show ?thesis using addrs_at_ref [of _ "GNode es" a] unfolding 2(1) by fastforce
  qed simp
qed

lemma kept_addrs: "kept c v \<subseteq> addrs v"
proof (induction c arbitrary: v)
  case (Fields cs)
  have "kept_field (map (map_prod (\<lambda>f. f) kept) cs) f x \<subseteq> addrs x" for f x
  proof (cases "map_of cs f")
    case (Some c)
    then have "(f, c) \<in> set cs" by (rule map_of_SomeD)
    with Fields have "kept c x \<subseteq> addrs x" by (metis snds.intros snd_conv)
    with Some show ?thesis by (simp add: kept_field_def map_of_pair)
  qed (simp add: kept_field_def map_of_pair)
  then show ?case by (auto split: gv.split)
next
  case (Elems c)
  show ?case
  proof (cases v)
    case (GRef a x)
    then show ?thesis
    proof (cases x)
      case (GNode es)
      with GRef Elems show ?thesis by auto
    qed simp_all
  qed simp_all
next
  case (Ptr c)
  then show ?case by (auto split: gv.split)
qed simp_all

lemma leaks_sound: "typed t v \<Longrightarrow> kept c v \<subseteq> addrs_at (leaks c t) v"
proof (induction c arbitrary: t v)
  case (Ptr c)
  show ?case
  proof (cases t)
    case (Pointer u)
    with Ptr.prems have "v = GNil \<or> (\<exists>a x. v = GRef a x \<and> typed u x)"
      by (cases "(typed u, v)" rule: pointee.cases) auto
    then show ?thesis using Ptr.IH [of u] addrs_at_ref [of "leaks c u"] Pointer by fastforce
  qed (use kept_addrs [of "Ptr c" v] in simp_all)
next
  case (Elems c)
  show ?case
  proof (cases t)
    case (Slice u)
    with Elems show ?thesis using elements_kept [of u v c] by simp
  next
    case (Mapping u)
    with Elems show ?thesis using elements_kept [of u v c] by simp
  qed (use kept_addrs [of "Elems c" v] in simp_all)
next
  case (Fields cs)
  show ?case
  proof (cases t)
    case (Struct ts)
    then obtain fs where fs: "v = GNode fs" "\<And>f x. (f, x) \<in> set fs \<Longrightarrow> \<exists>t. (f, t) \<in> set ts \<and> typed t x"
      using Fields.prems by (auto elim: members_typedD)
    let ?k = "kept_field (map (map_prod (\<lambda>f. f) kept) cs)" and ?l = "leaks_in (map (map_prod (\<lambda>f. f) leaks) cs)"
    have "?k f x \<subseteq> addrs_at (leaks (Fields cs) t) v" if x: "(f, x) \<in> set fs" for f x
    proof -
      from fs(2) [OF x] obtain u where u: "(f, u) \<in> set ts" "typed u x" by blast
      have IH: "map_of cs f = Some c \<Longrightarrow> kept c x \<subseteq> addrs_at (leaks c u) x" for c
        using Fields.IH u(2) map_of_SomeD by (metis snds.intros snd_conv)
      have "?k f x \<subseteq> addrs_at (?l (f, u)) v"
        unfolding fs(1) using IH refs_sound [OF u(2)] addrs_at_field [OF x, of f]
        by (cases "map_of cs f") (force simp: kept_field_def leaks_in_def map_of_pair)+
      also have "\<dots> \<subseteq> addrs_at (leaks (Fields cs) t) v" using u(1) Struct by (intro addrs_at_mono) force
      finally show ?thesis .
    qed
    then show ?thesis unfolding fs(1) by auto
  qed (use kept_addrs [of "Fields cs" v] in simp_all)
qed (simp_all add: refs_sound)
section \<open>The types and their copying functions\<close>

abbreviation Raw :: gty where "Raw \<equiv> Pointer Opaque" \<comment> \<open>\<^verbatim>\<open>*runtime.RawExtension\<close>\<close>
abbreviation Time :: gty where "Time \<equiv> Pointer Opaque" \<comment> \<open>\<^verbatim>\<open>*metav1.Time\<close>\<close>

definition resource :: "gty \<Rightarrow> gty \<Rightarrow> gty" where
  "resource spec status =
     Struct [(''TypeMeta'', Scalar), (''ObjectMeta'', Opaque), (''Spec'', spec), (''Status'', status)]"

definition list_type :: "gty \<Rightarrow> gty" where
  "list_type t = Struct [(''TypeMeta'', Scalar), (''ListMeta'', Opaque), (''Items'', Slice t)]"

subsection \<open>Agents\<close>

definition ModelSpec_type :: gty where
  "ModelSpec_type = Struct [(''Provider'', Scalar), (''Name'', Scalar), (''Version'', Scalar),
     (''Temperature'', Pointer Scalar), (''MaxTokens'', Pointer Scalar), (''TopP'', Pointer Scalar),
     (''FrequencyPenalty'', Pointer Scalar), (''PresencePenalty'', Pointer Scalar),
     (''CredentialsSecretRef'', Pointer Scalar), (''Fallback'', Raw)]"

definition ModelSpec_DeepCopyInto :: copying where
  "ModelSpec_DeepCopyInto = Fields [(''Temperature'', Ptr Assign), (''MaxTokens'', Ptr Assign), (''TopP'', Ptr Assign),
     (''FrequencyPenalty'', Ptr Assign), (''PresencePenalty'', Ptr Assign), (''CredentialsSecretRef'', Ptr Assign)]"

definition EndpointSpec_type :: gty where
  "EndpointSpec_type = Struct [(''URL'', Scalar), (''Method'', Scalar), (''Headers'', Mapping Scalar),
     (''TimeoutSeconds'', Scalar), (''AuthScheme'', Scalar), (''AuthHeader'', Scalar)]"

definition EndpointSpec_DeepCopyInto :: copying where
  "EndpointSpec_DeepCopyInto = Fields [(''Headers'', Elems Assign)]"

definition ToolSpec_type :: gty where
  "ToolSpec_type = Struct [(''Name'', Scalar), (''Type'', Scalar), (''Endpoint'', Pointer EndpointSpec_type),
     (''CredentialsSecretRef'', Pointer Scalar), (''Config'', Raw)]"

definition ToolSpec_DeepCopyInto :: copying where
  "ToolSpec_DeepCopyInto =
     Fields [(''Endpoint'', Ptr EndpointSpec_DeepCopyInto), (''CredentialsSecretRef'', Ptr Assign)]"

definition MemorySpec_type :: gty where
  "MemorySpec_type = Struct [(''Type'', Scalar), (''Behavior'', Scalar), (''ProviderRef'', Scalar), (''Scope'', Scalar),
     (''Backend'', Scalar), (''TTL'', Scalar), (''MaxEntries'', Pointer Scalar), (''MaxContextTokens'', Pointer Scalar),
     (''RetentionPolicy'', Scalar), (''PersistentStorage'', Pointer Scalar)]"

definition MemorySpec_copy :: copying where
  "MemorySpec_copy =
     Fields [(''MaxContextTokens'', Ptr Assign), (''MaxEntries'', Ptr Assign), (''PersistentStorage'', Ptr Assign)]"

definition RuntimeSpec_type :: gty where
  "RuntimeSpec_type = Struct [(''Image'', Scalar), (''ServiceAccountName'', Scalar), (''Env'', Slice Scalar),
     (''Config'', Mapping Scalar), (''Resources'', Raw), (''CodeExecution'', Pointer Opaque)]"

definition RuntimeSpec_DeepCopyInto :: copying where
  "RuntimeSpec_DeepCopyInto = Fields [(''Env'', Elems Assign)]"

definition ScalingSpec_type :: gty where
  "ScalingSpec_type = Struct [(''MinReplicas'', Pointer Scalar), (''MaxReplicas'', Pointer Scalar),
     (''TargetUtilization'', Pointer Scalar), (''Metrics'', Slice Opaque), (''Behavior'', Raw)]"

definition ScalingSpec_DeepCopyInto :: copying where
  "ScalingSpec_DeepCopyInto =
     Fields [(''MinReplicas'', Ptr Assign), (''MaxReplicas'', Ptr Assign), (''TargetUtilization'', Ptr Assign)]"

definition AgentSpec_type :: gty where
  "AgentSpec_type = Struct [(''Type'', Scalar), (''Model'', ModelSpec_type), (''Role'', Scalar), (''SystemPrompt'', Scalar),
     (''Instructions'', Scalar), (''AutonomyLevel'', Scalar), (''ShuHaRi'', Pointer Opaque),
     (''ApprovalPolicy'', Pointer Scalar), (''ConfidenceThreshold'', Pointer Scalar), (''Replicas'', Pointer Scalar),
     (''MaxConcurrency'', Pointer Scalar), (''Timeout'', Scalar), (''Tools'', Slice ToolSpec_type),
     (''Memory'', Pointer MemorySpec_type), (''Runtime'', Pointer RuntimeSpec_type), (''Scaling'', Pointer ScalingSpec_type),
     (''Guardrails'', Raw), (''Observability'', Raw), (''Lifecycle'', Raw), (''Schedule'', Raw), (''BlastRadius'', Raw),
     (''Escalation'', Raw), (''Capabilities'', Slice Opaque)]"

definition AgentSpec_DeepCopyInto :: copying where
  "AgentSpec_DeepCopyInto = Fields [(''Model'', ModelSpec_DeepCopyInto), (''ConfidenceThreshold'', Ptr Assign),
     (''Replicas'', Ptr Assign), (''MaxConcurrency'', Ptr Assign), (''Tools'', Elems ToolSpec_DeepCopyInto),
     (''Memory'', Ptr MemorySpec_copy), (''Runtime'', Ptr RuntimeSpec_DeepCopyInto),
     (''Scaling'', Ptr ScalingSpec_DeepCopyInto)]"

definition AgentStatus_type :: gty where
  "AgentStatus_type = Struct [(''Phase'', Scalar), (''Message'', Scalar), (''ObservedGeneration'', Scalar),
     (''AvailableReplicas'', Scalar), (''TotalTasksProcessed'', Scalar), (''ErrorCount'', Scalar), (''StartTime'', Time),
     (''CompletionTime'', Time), (''LastActiveTime'', Time), (''Conditions'', Slice Opaque),
     (''Metrics'', Pointer Opaque), (''ShuHaRi'', Pointer Opaque)]"

definition AgentStatus_DeepCopyInto :: copying where
  "AgentStatus_DeepCopyInto = Fields [(''StartTime'', Library), (''CompletionTime'', Library),
     (''LastActiveTime'', Library), (''Conditions'', Elems Library)]"

definition Agent_DeepCopyInto :: copying where
  "Agent_DeepCopyInto = Fields [(''TypeMeta'', Assign), (''ObjectMeta'', Library), (''Spec'', AgentSpec_DeepCopyInto),
     (''Status'', AgentStatus_DeepCopyInto)]"

definition Agent_DeepCopyObject :: copying where
  "Agent_DeepCopyObject = Ptr Agent_DeepCopyInto"

definition AgentList_DeepCopyInto :: copying where
  "AgentList_DeepCopyInto =
     Fields [(''TypeMeta'', Assign), (''ListMeta'', Library), (''Items'', Elems Agent_DeepCopyInto)]"

definition AgentList_DeepCopyObject :: copying where
  "AgentList_DeepCopyObject = Ptr AgentList_DeepCopyInto"

subsection \<open>Workflows\<close>

definition RetryPolicySpec_type :: gty where
  "RetryPolicySpec_type = Struct [(''MaxRetries'', Scalar), (''BackoffSeconds'', Scalar), (''Backoff'', Scalar),
     (''RetryOn'', Slice Scalar)]"

definition RetryPolicySpec_DeepCopyInto :: copying where
  "RetryPolicySpec_DeepCopyInto = Fields [(''RetryOn'', Elems Assign)]"

definition WorkflowStep_type :: gty where
  "WorkflowStep_type = Struct [(''Name'', Scalar), (''AgentRef'', Scalar), (''Type'', Scalar), (''Description'', Scalar),
     (''DependsOn'', Slice Scalar), (''InputFrom'', Slice Scalar), (''RetryPolicy'', Pointer RetryPolicySpec_type),
     (''StepTimeout'', Pointer Scalar), (''ConditionExpr'', Scalar), (''Input'', Raw), (''Output'', Raw), (''Config'', Raw)]"

definition WorkflowStep_DeepCopyInto :: copying where
  "WorkflowStep_DeepCopyInto = Fields [(''AgentRef'', Assign), (''DependsOn'', Elems Assign), (''InputFrom'', Elems Assign),
     (''RetryPolicy'', Ptr RetryPolicySpec_DeepCopyInto), (''StepTimeout'', Ptr Assign)]"

definition Edge_type :: gty where
  "Edge_type = Struct [(''From'', Scalar), (''To'', Scalar), (''Condition'', Raw)]"

definition TriggerSpec_type :: gty where
  "TriggerSpec_type = Struct [(''Type'', Scalar), (''Schedule'', Pointer Scalar), (''Webhook'', Pointer Scalar),
     (''EventTriggers'', Slice Opaque)]"

definition TriggerSpec_DeepCopyInto :: copying where
  "TriggerSpec_DeepCopyInto = Fields [(''Schedule'', Ptr Assign), (''Webhook'', Ptr Assign)]"

definition WorkflowSpec_type :: gty where
  "WorkflowSpec_type = Struct [(''Description'', Scalar), (''Steps'', Slice WorkflowStep_type),
     (''Parallelism'', Pointer Scalar), (''FailureStrategy'', Scalar), (''Parameters'', Mapping Scalar),
     (''Edges'', Slice Edge_type), (''Trigger'', Pointer TriggerSpec_type), (''Concurrency'', Pointer Scalar),
     (''ErrorHandling'', Raw), (''Observability'', Raw), (''Timeout'', Raw), (''Variables'', Slice Opaque), (''Hooks'', Raw)]"

definition WorkflowSpec_DeepCopyInto :: copying where
  "WorkflowSpec_DeepCopyInto = Fields [(''Steps'', Elems WorkflowStep_DeepCopyInto), (''Parallelism'', Ptr Assign),
     (''Edges'', Elems Assign), (''Trigger'', Ptr TriggerSpec_DeepCopyInto), (''Concurrency'', Ptr Assign)]"

definition StepStatus_type :: gty where
  "StepStatus_type = Struct [(''Name'', Scalar), (''Phase'', Scalar), (''JobName'', Scalar), (''StartTime'', Time),
     (''CompletionTime'', Time), (''Output'', Raw), (''Error'', Scalar), (''RetryCount'', Scalar)]"

definition StepStatus_copy :: copying where
  "StepStatus_copy = Fields [(''StartTime'', Library), (''CompletionTime'', Library)]"

definition WorkflowStatus_type :: gty where
  "WorkflowStatus_type = Struct [(''Phase'', Scalar), (''Message'', Scalar), (''ObservedGeneration'', Scalar),
     (''TotalSteps'', Scalar), (''CompletedSteps'', Scalar), (''FailedSteps'', Scalar), (''StartTime'', Time),
     (''CompletionTime'', Time), (''StepStatuses'', Slice StepStatus_type), (''Conditions'', Slice Opaque),
     (''ActiveRuns'', Scalar), (''LastTriggerTime'', Time), (''NextRunTime'', Time)]"

definition WorkflowStatus_DeepCopyInto :: copying where
  "WorkflowStatus_DeepCopyInto = Fields [(''StartTime'', Library), (''CompletionTime'', Library),
     (''LastTriggerTime'', Library), (''NextRunTime'', Library), (''StepStatuses'', Elems StepStatus_copy),
     (''Conditions'', Elems Library)]"

definition Workflow_DeepCopyInto :: copying where
  "Workflow_DeepCopyInto = Fields [(''TypeMeta'', Assign), (''ObjectMeta'', Library),
     (''Spec'', WorkflowSpec_DeepCopyInto), (''Status'', WorkflowStatus_DeepCopyInto)]"

definition Workflow_DeepCopyObject :: copying where
  "Workflow_DeepCopyObject = Ptr Workflow_DeepCopyInto"

definition WorkflowList_DeepCopyInto :: copying where
  "WorkflowList_DeepCopyInto =
     Fields [(''TypeMeta'', Assign), (''ListMeta'', Library), (''Items'', Elems Workflow_DeepCopyInto)]"

definition WorkflowList_DeepCopyObject :: copying where
  "WorkflowList_DeepCopyObject = Ptr WorkflowList_DeepCopyInto"
subsection \<open>The other resources\<close>

text \<open>These copy the struct and its metadata only; a nil receiver, on which they would panic, stays nil here.\<close>

definition shallow_copy :: copying where
  "shallow_copy = Fields [(''ObjectMeta'', Library)]"

definition shallow_list :: "copying \<Rightarrow> copying" where
  "shallow_list c = Ptr (Fields [(''ListMeta'', Library), (''Items'', Elems c)])"

definition AgentAutonomyPolicy_DeepCopyObject :: copying where
  "AgentAutonomyPolicy_DeepCopyObject = Ptr shallow_copy"

definition AgentAutonomyPolicyList_DeepCopyObject :: copying where
  "AgentAutonomyPolicyList_DeepCopyObject = shallow_list shallow_copy"

definition MCPServer_DeepCopyObject :: copying where
  "MCPServer_DeepCopyObject = Ptr shallow_copy"

definition MCPServerList_DeepCopyObject :: copying where
  "MCPServerList_DeepCopyObject = shallow_list shallow_copy"

definition LLMProvider_DeepCopyObject :: copying where
  "LLMProvider_DeepCopyObject = Ptr shallow_copy"

definition LLMProviderList_DeepCopyObject :: copying where
  "LLMProviderList_DeepCopyObject = shallow_list shallow_copy"

definition MemoryRetention_copy :: copying where
  "MemoryRetention_copy = Fields [(''MaxEntriesPerScope'', Ptr Assign), (''MaxAgeDays'', Ptr Assign),
     (''RecallLogMaxAgeDays'', Ptr Assign)]"

definition MemoryProvider_copy :: copying where
  "MemoryProvider_copy = Fields [(''ObjectMeta'', Library), (''Spec'', Fields [(''Config'', Elems Assign),
     (''Credentials'', Ptr Assign), (''Retention'', Ptr MemoryRetention_copy)])]"

definition MemoryProvider_DeepCopyObject :: copying where
  "MemoryProvider_DeepCopyObject = Ptr MemoryProvider_copy"

definition MemoryProviderList_DeepCopyObject :: copying where
  "MemoryProviderList_DeepCopyObject = shallow_list MemoryProvider_copy"

definition MCPServer_type :: gty where
  "MCPServer_type = resource
     (Struct [(''Image'', Scalar), (''Port'', Scalar), (''Args'', Slice Scalar), (''Replicas'', Pointer Scalar),
       (''Auth'', Scalar), (''SecretRef'', Scalar), (''Icon'', Scalar), (''Category'', Scalar), (''HostNetwork'', Scalar),
       (''Env'', Slice Scalar), (''Resources'', Pointer Opaque)])
     (Struct [(''Phase'', Scalar), (''ToolCount'', Scalar), (''LastDiscovery'', Time), (''Message'', Scalar),
       (''Conditions'', Slice Opaque)])"

definition LLMProvider_type :: gty where
  "LLMProvider_type = resource
     (Struct [(''Type'', Scalar), (''Endpoint'', Scalar), (''APIFormat'', Scalar), (''Model'', Scalar),
       (''Models'', Slice Opaque), (''Config'', Mapping Scalar), (''Credentials'', Pointer Scalar),
       (''HealthCheck'', Pointer Scalar), (''Fallback'', Pointer Scalar), (''Default'', Scalar)])
     (Struct [(''Phase'', Scalar), (''Message'', Scalar), (''LastHealthCheck'', Time), (''AvailableModels'', Scalar),
       (''Conditions'', Slice Opaque)])"

definition MemoryProvider_type :: gty where
  "MemoryProvider_type = resource
     (Struct [(''Type'', Scalar), (''Config'', Mapping Scalar), (''Credentials'', Pointer Scalar), (''Default'', Scalar),
       (''Retention'', Pointer (Struct [(''MaxEntriesPerScope'', Pointer Scalar), (''MaxAgeDays'', Pointer Scalar),
         (''RecallLogMaxAgeDays'', Pointer Scalar)]))])
     (Struct [(''Healthy'', Scalar), (''EntryCount'', Scalar), (''LastError'', Scalar), (''LastChecked'', Scalar)])"

abbreviation Agent_type :: gty where "Agent_type \<equiv> resource AgentSpec_type AgentStatus_type"
abbreviation Workflow_type :: gty where "Workflow_type \<equiv> resource WorkflowSpec_type WorkflowStatus_type"

section \<open>What the copies share\<close>

lemma workflow_leaks:
  "leaks Workflow_DeepCopyObject (Pointer Workflow_type) =
     map (\<lambda>p. ''Spec'' # p)
       [[''Steps'', ''*'', ''Input''], [''Steps'', ''*'', ''Output''], [''Steps'', ''*'', ''Config''], [''Parameters''],
        [''Edges'', ''*'', ''Condition''], [''Trigger'', ''EventTriggers''], [''ErrorHandling''], [''Observability''],
        [''Timeout''], [''Variables''], [''Hooks'']] @
     [[''Status'', ''StepStatuses'', ''*'', ''Output'']]"
  by code_simp

lemma agent_leaks:
  "leaks Agent_DeepCopyObject (Pointer Agent_type) =
     map (\<lambda>p. ''Spec'' # p)
       [[''Model'', ''Fallback''], [''ShuHaRi''], [''ApprovalPolicy''], [''Tools'', ''*'', ''Config''],
        [''Runtime'', ''Config''], [''Runtime'', ''Resources''], [''Runtime'', ''CodeExecution''],
        [''Scaling'', ''Metrics''], [''Scaling'', ''Behavior''], [''Guardrails''], [''Observability''], [''Lifecycle''],
        [''Schedule''], [''BlastRadius''], [''Escalation''], [''Capabilities'']] @
     [[''Status'', ''Metrics''], [''Status'', ''ShuHaRi'']]"
  by code_simp

lemma memory_provider_leaks: "leaks MemoryProvider_DeepCopyObject (Pointer MemoryProvider_type) = []"
  by code_simp

lemma server_leaks:
  "leaks MCPServer_DeepCopyObject (Pointer MCPServer_type) =
     map (\<lambda>f. [''Spec'', f]) [''Args'', ''Replicas'', ''Env'', ''Resources''] @
     map (\<lambda>f. [''Status'', f]) [''LastDiscovery'', ''Conditions'']"
  "leaks LLMProvider_DeepCopyObject (Pointer LLMProvider_type) =
     map (\<lambda>f. [''Spec'', f]) [''Models'', ''Config'', ''Credentials'', ''HealthCheck'', ''Fallback''] @
     map (\<lambda>f. [''Status'', f]) [''LastHealthCheck'', ''Conditions'']"
  by code_simp+

text \<open>The lists share what their items share.\<close>

lemma list_leaks:
  "leaks AgentList_DeepCopyObject (Pointer (list_type Agent_type)) =
     map (\<lambda>p. ''Items'' # ''*'' # p) (leaks Agent_DeepCopyObject (Pointer Agent_type))"
  "leaks WorkflowList_DeepCopyObject (Pointer (list_type Workflow_type)) =
     map (\<lambda>p. ''Items'' # ''*'' # p) (leaks Workflow_DeepCopyObject (Pointer Workflow_type))"
  "leaks MemoryProviderList_DeepCopyObject (Pointer (list_type MemoryProvider_type)) = []"
  by code_simp+

text \<open>A copier that keeps the promise of the library.\<close>

fun run_all :: "(string \<times> (nat \<Rightarrow> gv \<times> nat)) list \<Rightarrow> nat \<Rightarrow> (string \<times> gv) list \<times> nat" where
  "run_all [] n = ([], n)"
| "run_all ((f, k) # ks) n = (let (v, n1) = k n; (fs, n2) = run_all ks n1 in ((f, v) # fs, n2))"

primrec deep_copy :: copier where
  "deep_copy (GLit s) = (\<lambda>n. (GLit s, n))"
| "deep_copy GNil = (\<lambda>n. (GNil, n))"
| "deep_copy (GRef a v) = (\<lambda>n. let (v1, n1) = deep_copy v (Suc n) in (GRef n v1, n1))"
| "deep_copy (GNode fs) = (\<lambda>n. let (fs1, n1) = run_all (map (map_prod (\<lambda>f. f) deep_copy) fs) n in (GNode fs1, n1))"

lemma run_all_copies:
  assumes "\<And>f x n. (f, x) \<in> set fs \<Longrightarrow> copy_of {} x n (deep_copy x n)"
  shows "copy_of {} (GNode fs) n (GNode (fst (run_all (map (map_prod (\<lambda>f. f) deep_copy) fs) n)),
    snd (run_all (map (map_prod (\<lambda>f. f) deep_copy) fs) n))"
  using assms
proof (induction fs arbitrary: n)
  case (Cons e es)
  obtain f v where e: "e = (f, v)" by (cases e)
  have head: "copy_of {} v n (fst (deep_copy v n), snd (deep_copy v n))" using Cons.prems [of f v] by (simp add: e)
  have tail: "copy_of {} (GNode es) m (GNode (fst (run_all (map (map_prod (\<lambda>f. f) deep_copy) es) m)),
      snd (run_all (map (map_prod (\<lambda>f. f) deep_copy) es) m))" for m
  proof (rule Cons.IH)
    show "copy_of {} x n (deep_copy x n)" if "(f, x) \<in> set es" for f x n
      using Cons.prems [of f x n] that by simp
  qed
  show ?case using copy_of_cons [OF head tail, of f] by (simp add: e split_def Let_def)
qed (simp add: copy_of_def)

lemma deep_copy_copies: "copy_of {} v n (deep_copy v n)"
proof (induction v arbitrary: n)
  case (GRef a v)
  then show ?case using copy_of_ref [of "{}" v n] by (simp add: Let_def split_def)
next
  case (GNode fs)
  have "copy_of {} x n (deep_copy x n)" if "(f, x) \<in> set fs" for f x n
    using GNode that by (metis snds.intros snd_conv)
  from run_all_copies [OF this] show ?case by (simp add: Let_def split_def)
qed (simp_all add: copy_of_def)

lemma deep_copy_ok: "deep_copier deep_copy"
  using deep_copy_copies unfolding deep_copier_def copy_of_def by (fastforce simp: Let_def split_def)

text \<open>C21: A copy of a workflow has the content of the original and shares with it, of all its pointers, maps and
  slices, at most those under the fields the copying functions forget: the parameters, the variables, the free-form
  documents of the steps, edges, triggers and the spec, and the outputs of the step statuses.\<close>

theorem workflow_copy_isolated:
  assumes "deep_copier lib" "typed (Pointer Workflow_type) v" "bounded n v"
    and "copy_by lib Workflow_DeepCopyObject v n = (v', n')"
  shows "erase v' = erase v \<and> addrs v' \<inter> addrs v \<subseteq> addrs_at (map (\<lambda>p. ''Spec'' # p)
      [[''Steps'', ''*'', ''Input''], [''Steps'', ''*'', ''Output''], [''Steps'', ''*'', ''Config''], [''Parameters''],
       [''Edges'', ''*'', ''Condition''], [''Trigger'', ''EventTriggers''], [''ErrorHandling''], [''Observability''],
       [''Timeout''], [''Variables''], [''Hooks'']] @
    [[''Status'', ''StepStatuses'', ''*'', ''Output'']]) v"
proof -
  have "copy_of (kept Workflow_DeepCopyObject v) v n (v', n')"
    using copy_by_copies [OF assms(1), of Workflow_DeepCopyObject v n] by (simp add: assms(4))
  then have "erase v' = erase v" "addrs v' \<subseteq> kept Workflow_DeepCopyObject v \<union> {n..<n'}" by (simp_all add: copy_of_def)
  moreover have "addrs v \<inter> {n..<n'} = {}" using assms(3) by (auto simp: bounded_def)
  ultimately show ?thesis
    using leaks_sound [OF assms(2), of Workflow_DeepCopyObject] unfolding workflow_leaks by blast
qed


text \<open>A workflow with parameters at address 2, and nothing else that is a reference.\<close>

definition sample_spec :: "gv \<Rightarrow> gv" where
  "sample_spec params = GNode [(''Description'', GLit []), (''Steps'', GNil), (''Parallelism'', GNil),
     (''FailureStrategy'', GLit []), (''Parameters'', params), (''Edges'', GNil), (''Trigger'', GNil), (''Concurrency'', GNil),
     (''ErrorHandling'', GNil), (''Observability'', GNil), (''Timeout'', GNil), (''Variables'', GNil), (''Hooks'', GNil)]"

definition sample_status :: gv where
  "sample_status = GNode [(''Phase'', GLit []), (''Message'', GLit []), (''ObservedGeneration'', GLit ''0''),
     (''TotalSteps'', GLit ''0''), (''CompletedSteps'', GLit ''0''), (''FailedSteps'', GLit ''0''), (''StartTime'', GNil),
     (''CompletionTime'', GNil), (''StepStatuses'', GNil), (''Conditions'', GNil), (''ActiveRuns'', GLit ''0''),
     (''LastTriggerTime'', GNil), (''NextRunTime'', GNil)]"

definition sample_template :: "gv \<Rightarrow> gv" where
  "sample_template params = GRef 1 (GNode [(''TypeMeta'', GLit ''Workflow''), (''ObjectMeta'', GLit ''flow''),
     (''Spec'', sample_spec params), (''Status'', sample_status)])"

lemma sample_typed: "elements (typed Scalar) params \<Longrightarrow> typed (Pointer Workflow_type) (sample_template params)"
  by (simp add: sample_template_def sample_spec_def sample_status_def resource_def WorkflowSpec_type_def
      WorkflowStatus_type_def)

lemma workflow_copy_isolated_witness:
  "\<exists>v' n'. copy_by deep_copy Workflow_DeepCopyObject (sample_template (GRef 2 (GNode []))) 3 = (v', n') \<and>
     addrs v' \<inter> addrs (sample_template (GRef 2 (GNode []))) \<subseteq> {2}"
proof -
  let ?v = "sample_template (GRef 2 (GNode []))"
  obtain v' n' where c: "copy_by deep_copy Workflow_DeepCopyObject ?v 3 = (v', n')" by force
  have "elements (typed Scalar) (GRef 2 (GNode []))" by simp
  moreover have "bounded 3 ?v" by (simp add: bounded_def sample_template_def sample_spec_def sample_status_def)
  ultimately show ?thesis using workflow_copy_isolated [OF deep_copy_ok sample_typed _ c] c
    by (simp add: addrs_at_def sample_template_def sample_spec_def sample_status_def)
qed

end
