(* ===== verification/Cache_Aliasing.thy ===== *)
theory Cache_Aliasing imports Deep_Copy Dashboard_Properties begin

text \<open>
  What the incomplete copies do to the controllers and the dashboard: the client of the manager answers reads from a
  cache and hands out \<^verbatim>\<open>DeepCopyObject\<close> of the object it holds, so a caller that writes through a reference the copy
  shares writes into the cache, and every later read sees it.
\<close>

section \<open>Writing through a reference\<close>

text \<open>Everything that holds the address sees the new content.\<close>

primrec poke :: "nat \<Rightarrow> gv \<Rightarrow> gv \<Rightarrow> gv" where
  "poke a c (GLit s) = GLit s"
| "poke a c GNil = GNil"
| "poke a c (GRef b v) = GRef b (if b = a then c else poke a c v)"
| "poke a c (GNode fs) = GNode (map (map_prod (\<lambda>f. f) (poke a c)) fs)"

lemma poke_other: "a \<notin> addrs v \<Longrightarrow> poke a c v = v"
proof (induction v)
  case (GNode fs)
  have "poke a c x = x" if "(f, x) \<in> set fs" for f x
    using GNode that by (auto simp: snds.simps)
  then have "map (map_prod (\<lambda>f. f) (poke a c)) fs = map (\<lambda>p. p) fs" by (intro map_cong) auto
  then show ?case by simp
qed auto

definition map_value :: "str_alist \<Rightarrow> gv" where
  "map_value ps = GNode (map (map_prod (\<lambda>k. k) GLit) ps)"

fun entries :: "gv \<Rightarrow> str_alist" where
  "entries (GNode fs) = List.map_filter (\<lambda>(k, v). case v of GLit s \<Rightarrow> Some (k, s) | _ \<Rightarrow> None) fs"
| "entries v = []"

lemma entries_map_value [simp]: "entries (map_value ps) = ps"
  by (induction ps) (auto simp: map_value_def List.map_filter_simps)

section \<open>The parameters of a template\<close>

abbreviation params_path :: "string list" where "params_path \<equiv> [''Spec'', ''Parameters'']"

text \<open>
  The loop of the webhook handler over the payload, in the memory \<open>v\<close>: \<^verbatim>\<open>run.Spec = wf.Spec\<close> takes the map of the
  workflow that was read, and a nil map is replaced by one of the run's own first.
\<close>

definition merge_in_place :: "payload \<Rightarrow> gv \<Rightarrow> gv \<Rightarrow> gv" where
  "merge_in_place p r v =
     (case values_at params_path r of
        [GRef a es] \<Rightarrow> poke a (map_value (merge_payload p (entries es))) v
      | _ \<Rightarrow> v)"

lemma at_each:
  assumes "f \<noteq> ''*''" "\<And>x n. values_at p (fst (k f x n)) = values_at p x"
  shows "values_at (f # p) (GNode (fst (copy_each k n fs))) = values_at (f # p) (GNode fs)"
  using assms by (induction k n fs rule: copy_each.induct) (auto simp: Let_def split: prod.splits, metis fst_conv)

lemma at_struct:
  assumes "f \<noteq> ''*''" "\<And>x n. values_at p (fst (for_field ks f x n)) = values_at p x"
  shows "values_at (f # p) (fst (copy_struct ks v n)) = values_at (f # p) v"
  using at_each [of f p "for_field ks", OF assms] by (auto simp: copy_struct_def split_def Let_def split: gv.split)

lemma at_ptr: "(\<And>x n. values_at (f # p) (fst (k x n)) = values_at (f # p) x) \<Longrightarrow> values_at (f # p) (fst (copy_ptr k v n)) = values_at (f # p) v"
  by (auto simp: copy_ptr_def split_def Let_def split: gv.split)

text \<open>The copy refers to the very map of the original.\<close>

lemma parameters_shared: "values_at params_path (fst (copy_by lib Workflow_DeepCopyObject v n)) = values_at params_path v"
proof -
  have spec: "values_at [''Parameters''] (fst (copy_by lib WorkflowSpec_DeepCopyInto x m)) = values_at [''Parameters''] x" for x m
    unfolding WorkflowSpec_DeepCopyInto_def copy_by.simps by (rule at_struct) (simp_all add: for_field_def)
  have "values_at params_path (fst (copy_by lib Workflow_DeepCopyInto x m)) = values_at params_path x" for x m
    unfolding Workflow_DeepCopyInto_def copy_by.simps by (rule at_struct) (simp_all add: for_field_def spec)
  then show ?thesis unfolding Workflow_DeepCopyObject_def copy_by.simps by (rule at_ptr)
qed

lemma at_poke_field: "values_at [f] (poke a c (GNode fs)) = map (poke a c) (values_at [f] (GNode fs))"
  by (induction fs) auto

lemma at_poke_params:
  assumes "typed (Pointer Workflow_type) v" "\<And>x. v \<noteq> GRef a x"
  shows "values_at params_path (poke a c v) = map (poke a c) (values_at params_path v)"
proof (cases v)
  case (GRef b x)
  with assms have "b \<noteq> a" "typed Workflow_type x" by auto
  then obtain tm om sp st where x: "x = GNode [(''TypeMeta'', tm), (''ObjectMeta'', om), (''Spec'', GNode sp), (''Status'', st)]"
    unfolding resource_def WorkflowSpec_type_def typed.simps list.map map_prod_simp
    by (auto elim!: members_typed.elims simp: list_all2_Cons1)
  then show ?thesis using GRef \<open>b \<noteq> a\<close> at_poke_field [of "''Parameters''" a c sp] by simp
qed (use assms in auto)


section \<open>Payloads that stay\<close>

text \<open>C22: The payload of one webhook reaches the runs of later ones: the copy the handler reads from the cache has the
  parameters map of the cached template itself, so the handler merges its payload into the template, and a later webhook
  that does not name a parameter starts its run with the value the earlier one sent.\<close>

theorem payload_leaks:
  assumes "typed (Pointer Workflow_type) tmpl" "values_at [''Spec'', ''Parameters''] tmpl = [GRef a (map_value ps)]"
    and "\<And>x. tmpl \<noteq> GRef a x"
    and "first = fst (copy_by lib Workflow_DeepCopyObject tmpl n)"
    and "later = fst (copy_by lib Workflow_DeepCopyObject (merge_in_place (trigger_payload r1) first tmpl) m)"
  shows "\<exists>es. values_at [''Spec'', ''Parameters''] later = [GRef a es] \<and>
    map_of (merge_payload (trigger_payload r2) (entries es)) k =
      (case map_of (trigger_payload r2) k of
         Some v \<Rightarrow> Some (payload_text v)
       | None \<Rightarrow> (case map_of (trigger_payload r1) k of Some v \<Rightarrow> Some (payload_text v) | None \<Rightarrow> map_of ps k))"
proof -
  let ?es = "map_value (merge_payload (trigger_payload r1) ps)"
  have "merge_in_place (trigger_payload r1) first tmpl = poke a ?es tmpl"
    by (simp add: merge_in_place_def assms(2,4) parameters_shared)
  then have "values_at params_path later = [GRef a ?es]"
    by (simp add: assms(2,5) parameters_shared at_poke_params [OF assms(1,3)])
  then show ?thesis by (auto simp: merge_payload_lookup split: option.split)
qed

definition bare_request :: request where
  "bare_request = post ''/api/trigger/team/flow'' ''{}''"

lemma payload_leaks_witness:
  "map_of (trigger_payload bare_request) ''repository'' = None \<and>
   (\<exists>es. values_at [''Spec'', ''Parameters''] (fst (copy_by deep_copy Workflow_DeepCopyObject
        (merge_in_place (trigger_payload hook_request)
          (fst (copy_by deep_copy Workflow_DeepCopyObject (sample_template (GRef 2 (map_value []))) 3))
          (sample_template (GRef 2 (map_value [])))) 9)) = [GRef 2 es] \<and>
      map_of (merge_payload (trigger_payload bare_request) (entries es)) ''repository'' = Some ''purko'')"
proof -
  let ?t = "sample_template (GRef 2 (map_value []))"
  have bare: "map_of (trigger_payload bare_request) ''repository'' = None" by code_simp
  have sent: "map_of (trigger_payload hook_request) ''repository'' = Some (IStr ''purko'')" by code_simp
  have t: "typed (Pointer Workflow_type) ?t" by (rule sample_typed) (simp add: map_value_def)
  have at: "values_at [''Spec'', ''Parameters''] ?t = [GRef 2 (map_value [])]" "\<And>x. ?t \<noteq> GRef 2 x"
    by (simp_all add: sample_template_def sample_spec_def)
  from payload_leaks [OF t at refl refl, of deep_copy hook_request 3 9 bare_request "''repository''"] bare sent
  show ?thesis by (simp add: payload_text_def)
qed

section \<open>The metrics of an agent\<close>

text \<open>
  The counters of an agent that is read are those of the cache: the controller's increments are in the cache before the
  write that may fail, and a second attempt counts again.
\<close>

lemma agent_metrics_shared:
  "values_at [''Status'', ''Metrics''] (fst (copy_by lib Agent_DeepCopyObject v n)) = values_at [''Status'', ''Metrics''] v"
proof -
  have status: "values_at [''Metrics''] (fst (copy_by lib AgentStatus_DeepCopyInto x m)) = values_at [''Metrics''] x" for x m
    unfolding AgentStatus_DeepCopyInto_def copy_by.simps by (rule at_struct) (simp_all add: for_field_def)
  have "values_at [''Status'', ''Metrics''] (fst (copy_by lib Agent_DeepCopyInto x m)) = values_at [''Status'', ''Metrics''] x"
    for x m
    unfolding Agent_DeepCopyInto_def copy_by.simps by (rule at_struct) (simp_all add: for_field_def status)
  then show ?thesis unfolding Agent_DeepCopyObject_def copy_by.simps by (rule at_ptr)
qed

end
