(* ===== verification/Cli.thy ===== *)
theory Cli imports Dashboard_Runs Recording begin

text \<open>
  The command line client \<^verbatim>\<open>purkoctl\<close>: its surroundings and the helpers of \<^verbatim>\<open>cmd/purkoctl/output.go\<close>.

  A command is a function of the client and the cluster.  It returns the text of its error, what it prints, and the
  cluster.  Lines are printed as they are; a table is the text given to \<^verbatim>\<open>tabwriter\<close>, which pads its columns; a resource
  printed as JSON is the resource.
\<close>

section \<open>The surroundings\<close>

datatype shown =
    Agents "Agent list" | OneAgent Agent
  | Workflows "Workflow list" | OneWorkflow Workflow
  | Servers "MCPServer list" | OneServer MCPServer | ToolRows "(string \<times> string \<times> string) list"
  | Providers "LLMProvider list" | OneProvider LLMProvider

datatype printed = Line string | Tabbed string | Json shown | Stream string

type_synonym 'c command = "string option \<times> printed list \<times> 'c"

text \<open>
  The client reads the API server, not a cache; an empty namespace lists all.  \<open>ct_yaml\<close> functions are
  \<^verbatim>\<open>yaml.Unmarshal\<close>, whose error is a text; \<open>ct_read\<close> reads a file.
\<close>

record 'c cli =
  ct_ctx :: "'c ctx"
  ct_namespace :: string
  ct_output :: string
  ct_read :: "string \<Rightarrow> string + string"
  ct_yaml_wf :: "string \<Rightarrow> string + Workflow"
  ct_yaml_agent :: "string \<Rightarrow> string + Agent"
  ct_yaml_mcp :: "string \<Rightarrow> string + MCPServer"
  ct_yaml_llm :: "string \<Rightarrow> string + LLMProvider"
  ct_create_wf :: "'c \<Rightarrow> Workflow \<Rightarrow> kerr option \<times> 'c"
  ct_delete_wf :: "'c \<Rightarrow> key \<Rightarrow> kerr option \<times> 'c"
  ct_list_agents :: "'c \<Rightarrow> string \<Rightarrow> kerr + Agent list"
  ct_create_agent :: "'c \<Rightarrow> Agent \<Rightarrow> kerr option \<times> 'c"
  ct_delete_agent :: "'c \<Rightarrow> key \<Rightarrow> kerr option \<times> 'c"
  ct_get_mcp :: "'c \<Rightarrow> key \<Rightarrow> kerr + MCPServer"
  ct_list_mcp :: "'c \<Rightarrow> string \<Rightarrow> kerr + MCPServer list"
  ct_create_mcp :: "'c \<Rightarrow> MCPServer \<Rightarrow> kerr option \<times> 'c"
  ct_delete_mcp :: "'c \<Rightarrow> key \<Rightarrow> kerr option \<times> 'c"
  ct_get_llm :: "'c \<Rightarrow> key \<Rightarrow> kerr + LLMProvider"
  ct_list_llm :: "'c \<Rightarrow> string \<Rightarrow> kerr + LLMProvider list"
  ct_create_llm :: "'c \<Rightarrow> LLMProvider \<Rightarrow> kerr option \<times> 'c"
  ct_delete_llm :: "'c \<Rightarrow> key \<Rightarrow> kerr option \<times> 'c"
  ct_deployments :: "'c \<Rightarrow> (string \<times> string \<times> string list) list option" \<comment> \<open>name, namespace, images; in \<open>purko-system\<close>\<close>
  ct_connect :: bool \<comment> \<open>does \<open>setupK8sClient\<close> reach a cluster\<close>

abbreviation ct_api :: "'c cli \<Rightarrow> 'c api" where "ct_api t \<equiv> x_api (ct_ctx t)"
abbreviation ct_now :: "'c cli \<Rightarrow> time" where "ct_now t \<equiv> x_now (ct_ctx t)"
abbreviation ct_errtext :: "'c cli \<Rightarrow> kerr \<Rightarrow> string" where "ct_errtext t \<equiv> x_errtext (ct_ctx t)"

definition fails :: "string \<Rightarrow> 'c \<Rightarrow> 'c command" where
  "fails msg c = (Some msg, [], c)"

definition prints :: "printed list \<Rightarrow> 'c \<Rightarrow> 'c command" where
  "prints outs c = (None, outs, c)"

text \<open>A write, the text before its error, and what is printed when it succeeds.\<close>

definition after_write :: "'c cli \<Rightarrow> kerr option \<times> 'c \<Rightarrow> string \<Rightarrow> ('c \<Rightarrow> 'c command) \<Rightarrow> 'c command" where
  "after_write t res msg k =
     (case res of (Some e, c) \<Rightarrow> fails (msg @ '': '' @ ct_errtext t e) c | (None, c) \<Rightarrow> k c)"

section \<open>Printing\<close>

abbreviation tab :: string where "tab \<equiv> [CHR 0x09]"
abbreviation newline :: string where "newline \<equiv> [CHR 0x0A]"

definition printTable :: "string list \<Rightarrow> string list list \<Rightarrow> printed" where
  "printTable headers rows = Tabbed (concat (map (\<lambda>r. join tab r @ newline) (headers # rows)))"

text \<open>\<^verbatim>\<open>Seconds\<close>, \<^verbatim>\<open>Minutes\<close> and \<^verbatim>\<open>Hours\<close> of a duration are floats: the whole units plus the rest divided.\<close>

definition go_mod :: "int \<Rightarrow> int \<Rightarrow> int" where
  "go_mod a b = a - b * (if (a < 0) = (b < 0) then \<bar>a\<bar> div \<bar>b\<bar> else - (\<bar>a\<bar> div \<bar>b\<bar>))"

definition in_units :: "int \<Rightarrow> int \<Rightarrow> f64" where
  "in_units u d =
     f64_add (f64_of_int ((d - go_mod d u) div u)) (f64_of_rat (of_int (go_mod d u) / of_int u))"

definition f64_div24 :: "f64 \<Rightarrow> f64" where
  "f64_div24 v = (case v of Fin q \<Rightarrow> f64_of_rat (q / 24) | y \<Rightarrow> y)"

text \<open>The zero time is instant 0 of the model.\<close>

definition formatAge :: "time \<Rightarrow> time \<Rightarrow> string" where
  "formatAge now t =
     (if t = 0 then ''-''
      else let d = now - t; h = in_units hour d in
        if \<not> f64_lt h (Fin 24) then show_int (f64_to_int (f64_div24 h)) @ ''d''
        else if \<not> f64_lt h (Fin 1) then show_int (f64_to_int h) @ ''h''
        else show_int (f64_to_int (in_units minute d)) @ ''m'')"

definition is_set :: "time option \<Rightarrow> bool" where
  "is_set t \<longleftrightarrow> t \<noteq> None \<and> t \<noteq> Some 0"

definition formatDuration :: "time \<Rightarrow> time option \<Rightarrow> time option \<Rightarrow> string" where
  "formatDuration now start end_time =
     (if \<not> is_set start then ''-''
      else let d = (if is_set end_time then the end_time else now) - the start;
               seconds = f64_to_int (in_units second d) in
        if d < minute then show_int seconds @ ''s''
        else let minutes = f64_to_int (in_units minute d); rest = go_mod seconds 60 in
          if rest = 0 then show_int minutes @ ''m'' else show_int minutes @ ''m'' @ show_int rest @ ''s'')"

definition formatCost :: "f64 \<Rightarrow> string" where
  "formatCost usd = ''$'' @ show_2f usd"

definition show_bool :: "bool \<Rightarrow> string" where
  "show_bool b = (if b then ''true'' else ''false'')"

text \<open>The table of conditions, which the detail commands print last.\<close>

definition condition_table :: "Condition list \<Rightarrow> printed list" where
  "condition_table cs =
     (if cs = [] then []
      else [Line [], Line ''Conditions:'',
            printTable [''  TYPE'', ''STATUS'', ''REASON'', ''MESSAGE'']
              (map (\<lambda>c. [''  '' @ c_Type c, c_Status c, c_Reason c, c_Message c]) cs)])"

section \<open>Version\<close>

definition extractOperatorVersion :: "string list \<Rightarrow> string" where
  "extractOperatorVersion images =
     (case images of
        [] \<Rightarrow> ''unknown''
      | img # _ \<Rightarrow> (case splitn2 CHR '':'' img of [_, tag] \<Rightarrow> tag | _ \<Rightarrow> ''unknown''))"

definition runVersion :: "'c cli \<Rightarrow> string \<Rightarrow> 'c \<Rightarrow> 'c command" where
  "runVersion t version c =
     prints (Line (''Client:    '' @ version) #
       (if \<not> ct_connect t then [Line ''Operator:  not found (unable to connect to cluster)'']
        else case ct_deployments t c of
            None \<Rightarrow> [Line ''Operator:  not found'']
          | Some deps \<Rightarrow>
              (case find (\<lambda>(name, ns, images). Contains name ''purko'' \<or> Contains name ''operator'') deps of
                 None \<Rightarrow> [Line ''Operator:  not found'']
               | Some (name, ns, images) \<Rightarrow>
                   [Line (''Operator:  '' @ extractOperatorVersion images @ '' ('' @ ns @ ''/'' @ name @ '')'')]))) c"

section \<open>Facts\<close>

lemma formatDuration_unset: "formatDuration now None e = ''-''"
  by (simp add: formatDuration_def is_set_def)

text \<open>The port of a registry is taken for the tag.\<close>

lemma registry_port_as_version: "extractOperatorVersion [''registry:5000/purko:v1''] = ''5000/purko:v1''"
  by code_simp

lemma duration_samples:
  "formatDuration 0 (Some second) (Some (46 * second)) = ''45s''"
  "formatDuration 0 (Some second) (Some (121 * second)) = ''2m''"
  "formatDuration (200 * second) (Some second) None = ''3m19s''"
  "formatAge (30 * hour) hour = ''1d''" "formatAge (30 * hour) (25 * hour) = ''5h''"
  by code_simp+

end
