(* ===== verification/Cli_Workflow.thy ===== *)
theory Cli_Workflow imports Cli Reconcile_Phases begin

text \<open>The commands on workflows (\<^verbatim>\<open>cmd/purkoctl/workflow.go\<close>).\<close>

section \<open>Create, delete and show\<close>

definition runWorkflowCreate :: "'c cli \<Rightarrow> string \<Rightarrow> 'c \<Rightarrow> 'c command" where
  "runWorkflowCreate t path c =
     (case ct_read t path of
        Inl e \<Rightarrow> fails (''unable to read file '' @ quote path @ '': '' @ e) c
      | Inr data \<Rightarrow>
          (case ct_yaml_wf t data of
             Inl e \<Rightarrow> fails (''unable to parse workflow YAML: '' @ e) c
           | Inr w0 \<Rightarrow>
               (let w = (if wf_Namespace w0 = [] then map_meta (\<lambda>m. m\<lparr>om_Namespace := ct_namespace t\<rparr>) w0 else w0) in
                after_write t (ct_create_wf t c w) (''unable to create workflow '' @ quote (wf_Name w))
                  (prints [Line (''Workflow '' @ wf_Name w @ '' created in namespace '' @ wf_Namespace w)]))))"

definition workflow_missing :: "'c cli \<Rightarrow> string \<Rightarrow> string" where
  "workflow_missing t name = ''workflow '' @ quote name @ '' not found in namespace '' @ quote (ct_namespace t)"

definition with_workflow :: "'c cli \<Rightarrow> string \<Rightarrow> 'c \<Rightarrow> (Workflow \<Rightarrow> 'c command) \<Rightarrow> 'c command" where
  "with_workflow t name c k =
     (case k_get_wf (ct_api t) c (ct_namespace t, name) of
        Inl _ \<Rightarrow> fails (workflow_missing t name) c | Inr w \<Rightarrow> k w)"

definition runWorkflowDelete :: "'c cli \<Rightarrow> string \<Rightarrow> 'c \<Rightarrow> 'c command" where
  "runWorkflowDelete t name c = with_workflow t name c (\<lambda>w.
     after_write t (ct_delete_wf t c (om_Namespace (wf_Meta w), wf_Name w)) (''unable to delete workflow '' @ quote name)
       (prints [Line (''Workflow '' @ name @ '' deleted from namespace '' @ ct_namespace t)]))"

text \<open>Newest first.  \<^verbatim>\<open>sort.Slice\<close> leaves the order of equal times open; the model keeps the order of the answer.\<close>

definition newest_created :: "Workflow list \<Rightarrow> Workflow list" where
  "newest_created ws =
     order_by (\<lambda>a b. om_CreationTimestamp (wf_Meta b) \<le> om_CreationTimestamp (wf_Meta a)) ws"

definition workflow_row :: "time \<Rightarrow> Workflow \<Rightarrow> string list" where
  "workflow_row now w =
     (let st = wf_Status w in
      [wf_Name w, wf_Phase w, show_int (wt_TotalSteps st), show_int (wt_CompletedSteps st), show_int (wt_FailedSteps st),
       formatDuration now (wt_StartTime st) (wt_CompletionTime st), formatAge now (om_CreationTimestamp (wf_Meta w))])"

definition runWorkflowList :: "'c cli \<Rightarrow> 'c \<Rightarrow> 'c command" where
  "runWorkflowList t c =
     (case k_list_wf (ct_api t) c (ct_namespace t) of
        Inl e \<Rightarrow> fails (''workflows: unable to list in namespace '' @ quote (ct_namespace t) @ '': '' @ ct_errtext t e) c
      | Inr ws \<Rightarrow>
          (let items = newest_created ws in
           prints [if ct_output t = ''json'' then Json (Workflows items)
                   else printTable [''NAME'', ''PHASE'', ''STEPS'', ''COMPLETED'', ''FAILED'', ''DURATION'', ''AGE'']
                          (map (workflow_row (ct_now t)) items)] c))"

text \<open>The status of a step is the last one of its name.\<close>

definition step_row :: "time \<Rightarrow> StepStatus list \<Rightarrow> WorkflowStep \<Rightarrow> string list" where
  "step_row now sss step =
     [''  '' @ ws_Name step, ar_Name (ws_AgentRef step)] @
     (case status_index sss (ws_Name step) of
        None \<Rightarrow> [''Pending'', ''-'', ''0'', ''-'']
      | Some i \<Rightarrow>
          (let ss = sss ! i in
           [ss_Phase ss, formatDuration now (ss_StartTime ss) (ss_CompletionTime ss), show_int (ss_RetryCount ss),
            if ss_JobName ss \<noteq> [] then ss_JobName ss else ''-'']))"

text \<open>The parameters are a map, whose order is open.\<close>

definition workflow_details :: "'c cli \<Rightarrow> Workflow \<Rightarrow> printed list" where
  "workflow_details t w =
     [Line (''Name:         '' @ wf_Name w), Line (''Namespace:    '' @ wf_Namespace w),
      Line (''Phase:        '' @ wf_Phase w),
      Line (''Duration:     '' @ formatDuration (ct_now t) (wt_StartTime (wf_Status w)) (wt_CompletionTime (wf_Status w)))] @
     (if wp_Parameters (wf_Spec w) = [] then []
      else Line ''Parameters:'' # map (\<lambda>(k, v). Line (''  '' @ k @ '':   '' @ v)) (wp_Parameters (wf_Spec w))) @
     [Line [], Line ''Steps:'',
      printTable [''  NAME'', ''AGENT'', ''PHASE'', ''DURATION'', ''RETRIES'', ''JOB'']
        (map (step_row (ct_now t) (wf_StepStatuses w)) (wf_Steps w))] @
     condition_table (wt_Conditions (wf_Status w))"

definition runWorkflowGet :: "'c cli \<Rightarrow> string \<Rightarrow> 'c \<Rightarrow> 'c command" where
  "runWorkflowGet t name c = with_workflow t name c (\<lambda>w.
     prints (if ct_output t = ''json'' then [Json (OneWorkflow w)] else workflow_details t w) c)"

section \<open>Trigger and rerun\<close>

fun parse_params :: "string list \<Rightarrow> str_alist \<Rightarrow> string + str_alist" where
  "parse_params [] m = Inr m"
| "parse_params (p # ps) m =
     (case splitn2 CHR ''='' p of
        [k, v] \<Rightarrow> parse_params ps (alist_put k v m)
      | _ \<Rightarrow> Inl (''invalid parameter format '' @ quote p @ '', expected key=value''))"

text \<open>\<^verbatim>\<open>rand.Intn(36)\<close> gives the draws, one for each character.\<close>

definition randomString :: "nat list \<Rightarrow> string" where
  "randomString draws = map (\<lambda>i. ''abcdefghijklmnopqrstuvwxyz0123456789'' ! i) draws"

definition instance_of :: "string \<Rightarrow> nat list \<Rightarrow> str_alist \<Rightarrow> Workflow \<Rightarrow> Workflow" where
  "instance_of namespace draws params tmpl =
     (let spec = wf_Spec tmpl in
      \<lparr>wf_Meta = empty_meta\<lparr>om_Name := take 253 (wf_Name tmpl @ ''-'' @ randomString draws), om_Namespace := namespace,
         om_Labels := om_Labels (wf_Meta tmpl)\<rparr>,
       wf_Spec = spec\<lparr>wp_Trigger := None,
         wp_Parameters := foldl (\<lambda>m (k, v). alist_put k v m) (wp_Parameters spec) params\<rparr>,
       wf_Status = zero_status\<rparr>)"

definition triggerTemplate :: "'c cli \<Rightarrow> nat list \<Rightarrow> Workflow \<Rightarrow> str_alist \<Rightarrow> 'c \<Rightarrow> 'c command" where
  "triggerTemplate t draws tmpl params c =
     (let w = instance_of (ct_namespace t) draws params tmpl in
      after_write t (ct_create_wf t c w) ''failed to create workflow instance''
        (prints [Line (''Workflow '' @ wf_Name w @ '' triggered in namespace '' @ ct_namespace t)]))"

definition reset_status :: "WorkflowStatus \<Rightarrow> WorkflowStatus" where
  "reset_status st = st\<lparr>wt_Phase := [], wt_StepStatuses := [], wt_StartTime := None, wt_CompletionTime := None,
     wt_CompletedSteps := 0, wt_FailedSteps := 0, wt_Message := []\<rparr>"

definition decision_key :: "string \<Rightarrow> bool" where
  "decision_key k \<longleftrightarrow> HasPrefix k ''purko.io/approve-'' \<or> HasPrefix k ''purko.io/deny-''"

definition reset_annotations :: "time \<Rightarrow> str_map \<Rightarrow> str_map" where
  "reset_annotations now m =
     (\<lambda>k. if k = ''purko.io/cancel'' \<or> decision_key k then None else m k)(''purko.io/rerun'' \<mapsto> RFC3339 now)"

text \<open>The two writes of a rerun: first the status, then the annotations.\<close>

definition restart :: "'c cli \<Rightarrow> Workflow \<Rightarrow> string \<Rightarrow> 'c \<Rightarrow> 'c command" where
  "restart t w msg c =
     (let w1 = upd_status reset_status w in
      after_write t (k_status_wf (ct_api t) c w1) ''failed to reset workflow status'' (\<lambda>c1.
        (let w2 = map_meta (\<lambda>m. m\<lparr>om_Annotations := reset_annotations (ct_now t) (om_Annotations m)\<rparr>) w1 in
         after_write t (k_update_wf (ct_api t) c1 w2) ''failed to set rerun annotation'' (prints [Line msg]))))"

definition triggerRerun :: "'c cli \<Rightarrow> Workflow \<Rightarrow> 'c \<Rightarrow> 'c command" where
  "triggerRerun t w c =
     restart t w (''Workflow '' @ wf_Name w @ '' triggered in namespace '' @ ct_namespace t) c"

definition runWorkflowTrigger :: "'c cli \<Rightarrow> nat list \<Rightarrow> string list \<Rightarrow> string \<Rightarrow> 'c \<Rightarrow> 'c command" where
  "runWorkflowTrigger t draws given name c = with_workflow t name c (\<lambda>w.
     (case parse_params given [] of
        Inl e \<Rightarrow> fails e c
      | Inr params \<Rightarrow>
          if wp_Trigger (wf_Spec w) \<noteq> None then triggerTemplate t draws w params c else triggerRerun t w c))"

definition runWorkflowRerun :: "'c cli \<Rightarrow> string \<Rightarrow> 'c \<Rightarrow> 'c command" where
  "runWorkflowRerun t name c = with_workflow t name c (\<lambda>w.
     if wf_Phase w \<in> {''Succeeded'', ''CompletedWithErrors'', ''Failed'', ''Cancelled''}
     then restart t w (''Workflow '' @ name @ '' restarted'') c
     else if wf_Phase w \<in> {''Running'', ''Pending''}
     then fails (''workflow '' @ quote name @ '' is still running. Use 'purkoctl workflow cancel' first'') c
     else fails (''workflow '' @ quote name @ '' is in unexpected phase '' @ quote (wf_Phase w)) c)"

section \<open>Logs\<close>

definition findActiveStep :: "StepStatus list \<Rightarrow> StepStatus option" where
  "findActiveStep sss =
     (case find (\<lambda>ss. ss_Phase ss = ''Running'') sss of
        Some ss \<Rightarrow> Some ss
      | None \<Rightarrow> find (\<lambda>ss. ss_Phase ss \<in> {''Succeeded'', ''CompletedWithErrors'', ''Failed''}) (rev sss))"

definition target_step :: "Workflow \<Rightarrow> string \<Rightarrow> string option \<Rightarrow> string + StepStatus" where
  "target_step w name step =
     (case step of
        Some n \<Rightarrow>
          (case find (\<lambda>ss. ss_Name ss = n) (wf_StepStatuses w) of
             Some ss \<Rightarrow> Inr ss | None \<Rightarrow> Inl (''step '' @ quote n @ '' not found in workflow '' @ quote name))
      | None \<Rightarrow>
          (case findActiveStep (wf_StepStatuses w) of
             Some ss \<Rightarrow> Inr ss
           | None \<Rightarrow> Inl (''no active or completed steps found in workflow '' @ quote name)))"

text \<open>
  The dash in the message is a long one, in UTF-8.  The log is read to its end; a stream that breaks off is not modelled.
\<close>

definition logs_gone :: string where
  "logs_gone = ''Logs unavailable '' @ [CHR 0xE2, CHR 0x80, CHR 0x94] @ '' pod has been garbage collected''"

definition runWorkflowLogs :: "'c cli \<Rightarrow> string \<Rightarrow> string option \<Rightarrow> 'c \<Rightarrow> 'c command" where
  "runWorkflowLogs t name step c = with_workflow t name c (\<lambda>w.
     (case target_step w name step of
        Inl e \<Rightarrow> fails e c
      | Inr ss \<Rightarrow>
          if ss_JobName ss = [] then fails (''step '' @ quote (ss_Name ss) @ '' has no job assigned yet'') c
          else (case k_pods (ct_api t) c (ct_namespace t) (ss_JobName ss) of
              Inl e \<Rightarrow> fails (''unable to list pods for job '' @ quote (ss_JobName ss) @ '': '' @ ct_errtext t e) c
            | Inr [] \<Rightarrow> prints [Line logs_gone] c
            | Inr (pod # _) \<Rightarrow>
                (case k_logs (ct_api t) c (ct_namespace t) pod None of
                   Inl e \<Rightarrow> fails (''unable to read logs from pod '' @ quote pod @ '': '' @ ct_errtext t e) c
                 | Inr s \<Rightarrow> prints [Stream s] c))))"

section \<open>Approve, deny and cancel\<close>

definition setStepAnnotation :: "'c cli \<Rightarrow> string \<Rightarrow> string \<Rightarrow> string \<Rightarrow> 'c \<Rightarrow> 'c command" where
  "setStepAnnotation t wfName stepName action c = with_workflow t wfName c (\<lambda>w.
     if \<not> list_ex (\<lambda>s. ws_Name s = stepName) (wf_Steps w)
     then fails (''step '' @ quote stepName @ '' not found in workflow '' @ quote wfName) c
     else (case find (\<lambda>ss. ss_Name ss = stepName) (wf_StepStatuses w) of
         None \<Rightarrow> fails (''step '' @ quote stepName @ '' has not been reached yet'') c
       | Some ss \<Rightarrow>
           if ss_Phase ss \<noteq> ''Pending''
           then fails (''step '' @ quote stepName @ '' is not pending approval (phase: '' @ ss_Phase ss @ '')'') c
           else after_write t
                  (k_update_wf (ct_api t) c (set_annotation (''purko.io/'' @ action @ ''-'' @ stepName) ''true'' w))
                  (''failed to set '' @ action @ '' annotation'')
                  (prints [Line (''Step '' @ stepName @ '' '' @ (if action = ''deny'' then ''denied'' else ''approved'') @
                     '' in workflow '' @ wfName)])))"

definition runWorkflowApprove :: "'c cli \<Rightarrow> string \<Rightarrow> string \<Rightarrow> 'c \<Rightarrow> 'c command" where
  "runWorkflowApprove t wfName stepName c = setStepAnnotation t wfName stepName ''approve'' c"

definition runWorkflowDeny :: "'c cli \<Rightarrow> string \<Rightarrow> string \<Rightarrow> 'c \<Rightarrow> 'c command" where
  "runWorkflowDeny t wfName stepName c = setStepAnnotation t wfName stepName ''deny'' c"

definition runWorkflowCancel :: "'c cli \<Rightarrow> string \<Rightarrow> 'c \<Rightarrow> 'c command" where
  "runWorkflowCancel t name c = with_workflow t name c (\<lambda>w.
     if wf_Phase w \<noteq> ''Running'' \<and> wf_Phase w \<noteq> ''Pending''
     then fails (''workflow '' @ quote name @ '' is not running (phase: '' @ wf_Phase w @ '')'') c
     else after_write t (k_update_wf (ct_api t) c (set_annotation ''purko.io/cancel'' ''true'' w))
            ''failed to cancel workflow'' (prints [Line (''Workflow '' @ name @ '' cancelled'')]))"

end
