(* ===== verification/Cli_Resources.thy ===== *)
theory Cli_Resources imports Cli begin

text \<open>
  The commands on agents, MCP servers and LLM providers (\<^verbatim>\<open>agent.go\<close>, \<^verbatim>\<open>mcp.go\<close> and \<^verbatim>\<open>llm.go\<close> in
  \<^verbatim>\<open>cmd/purkoctl\<close>).
\<close>

section \<open>Agents\<close>

definition runAgentCreate :: "'c cli \<Rightarrow> string \<Rightarrow> 'c \<Rightarrow> 'c command" where
  "runAgentCreate t path c =
     (case ct_read t path of
        Inl e \<Rightarrow> fails (''unable to read file '' @ quote path @ '': '' @ e) c
      | Inr data \<Rightarrow>
          (case ct_yaml_agent t data of
             Inl e \<Rightarrow> fails (''unable to parse agent YAML: '' @ e) c
           | Inr a0 \<Rightarrow>
               (let a = (if om_Namespace (ag_Meta a0) = []
                         then a0\<lparr>ag_Meta := (ag_Meta a0)\<lparr>om_Namespace := ct_namespace t\<rparr>\<rparr> else a0);
                    m = ag_Meta a in
                after_write t (ct_create_agent t c a) (''unable to create agent '' @ quote (om_Name m))
                  (prints [Line (''Agent '' @ om_Name m @ '' created in namespace '' @ om_Namespace m)]))))"

definition with_agent :: "'c cli \<Rightarrow> string \<Rightarrow> 'c \<Rightarrow> (Agent \<Rightarrow> 'c command) \<Rightarrow> 'c command" where
  "with_agent t name c k =
     (case k_get_agent (ct_api t) c (ct_namespace t, name) of
        Inl _ \<Rightarrow> fails (''agent '' @ quote name @ '' not found in namespace '' @ quote (ct_namespace t)) c
      | Inr a \<Rightarrow> k a)"

definition runAgentDelete :: "'c cli \<Rightarrow> string \<Rightarrow> 'c \<Rightarrow> 'c command" where
  "runAgentDelete t name c = with_agent t name c (\<lambda>a.
     after_write t (ct_delete_agent t c (om_Namespace (ag_Meta a), om_Name (ag_Meta a)))
       (''unable to delete agent '' @ quote name)
       (prints [Line (''Agent '' @ name @ '' deleted from namespace '' @ ct_namespace t)]))"

definition agent_row :: "time \<Rightarrow> Agent \<Rightarrow> string list" where
  "agent_row now a =
     (let m = (case at_Metrics (ag_Status a) of None \<Rightarrow> zero_metrics | Some m \<Rightarrow> m); mo = as_Model (ag_Spec a) in
      [om_Name (ag_Meta a), as_Type (ag_Spec a), mo_Provider mo @ ''/'' @ mo_Name mo, at_Phase (ag_Status a),
       as_AutonomyLevel (ag_Spec a), show_int (am_TotalInvocations m), formatCost (am_TotalCostUSD m),
       formatAge now (om_CreationTimestamp (ag_Meta a))])"

text \<open>Names are unique in a namespace, so that the sort is determined.\<close>

definition sorted_by_name :: "('a \<Rightarrow> ObjectMeta) \<Rightarrow> 'a list \<Rightarrow> 'a list" where
  "sorted_by_name meta xs = order_by (\<lambda>a b. str_le (om_Name (meta a)) (om_Name (meta b))) xs"

definition runAgentList :: "'c cli \<Rightarrow> 'c \<Rightarrow> 'c command" where
  "runAgentList t c =
     (case ct_list_agents t c (ct_namespace t) of
        Inl e \<Rightarrow> fails (''agents: unable to list in namespace '' @ quote (ct_namespace t) @ '': '' @ ct_errtext t e) c
      | Inr xs \<Rightarrow>
          (let items = sorted_by_name ag_Meta xs in
           prints [if ct_output t = ''json'' then Json (Agents items)
                   else printTable [''NAME'', ''TYPE'', ''MODEL'', ''PHASE'', ''AUTONOMY'', ''INVOCATIONS'', ''COST'', ''AGE'']
                          (map (agent_row (ct_now t)) items)] c))"

text \<open>\<^verbatim>\<open>%.1f\<close>.\<close>

fun show_1f :: "f64 \<Rightarrow> string" where
  "show_1f (Fin q) =
     (let n = round_half_even (\<bar>q\<bar> * 10) in
      (if q < 0 then ''-'' else []) @ show_pos (n div 10) @ ''.'' @ [digit_char (n mod 10)])"
| "show_1f NegZero = ''-0.0''"
| "show_1f PosInf = ''+Inf''"
| "show_1f NegInf = ''-Inf''"
| "show_1f NaN = ''NaN''"

definition f64_mul100 :: "f64 \<Rightarrow> f64" where
  "f64_mul100 v = (case v of Fin q \<Rightarrow> f64_of_rat (q * 100) | y \<Rightarrow> y)"

text \<open>Both counters are converted to floats before the division.\<close>

definition success_rate :: "AgentMetrics \<Rightarrow> f64" where
  "success_rate m =
     (if am_TotalInvocations m \<le> 0 then Fin 0
      else case (f64_val (f64_of_int (am_SuccessCount m)), f64_val (f64_of_int (am_TotalInvocations m))) of
          (Some a, Some b) \<Rightarrow> f64_mul100 (f64_of_rat (a / b)) | _ \<Rightarrow> Fin 0)"

definition autonomy_details :: "Agent \<Rightarrow> printed list" where
  "autonomy_details a =
     [Line [], Line ''Autonomy:'', Line (''  Level:        '' @ as_AutonomyLevel (ag_Spec a))] @
     (case at_ShuHaRi (ag_Status a) of
        None \<Rightarrow> []
      | Some s \<Rightarrow>
          [Line (''  Shu-Ha-Ri:    '' @ sh_CurrentLevel s), Line (''  Ready:        '' @ show_bool (sh_ReadyForPromotion s))] @
          (case sh_PromotionProgress s of
             None \<Rightarrow> []
           | Some p \<Rightarrow> [Line (''  Progress:     '' @ show_int (pp_ActionsCompleted p) @ ''/'' @
               show_int (pp_ActionsRequired p) @ '' actions, '' @ show_1f (f64_mul100 (pp_SuccessRate p)) @
               ''% success rate, '' @ show_int (pp_DaysInLevel p) @ ''/'' @ show_int (pp_DaysRequired p) @ '' days'')]))"

definition metrics_details :: "AgentMetrics option \<Rightarrow> printed list" where
  "metrics_details mo =
     [Line [], Line ''Metrics:''] @
     (case mo of
        None \<Rightarrow> [Line ''  Invocations:  0'', Line ''  Cost:         $0.00'']
      | Some m \<Rightarrow>
          [Line (''  Invocations:  '' @ show_int (am_TotalInvocations m)),
           Line (''  Tokens:       '' @ show_int (am_TotalTokensUsed m)),
           Line (''  Cost:         '' @ formatCost (am_TotalCostUSD m)),
           Line (''  Avg Latency:  '' @ show_int (am_AverageLatencyMs m) @ ''ms''),
           Line (''  Success:      '' @ show_int (am_SuccessCount m) @ '' ('' @ show_1f (success_rate m) @ ''%)''),
           Line (''  Failures:     '' @ show_int (am_FailureCount m))])"

definition agent_details :: "time \<Rightarrow> Agent \<Rightarrow> printed list" where
  "agent_details now a =
     (let m = ag_Meta a; mo = as_Model (ag_Spec a); tools = as_Tools (ag_Spec a) in
      [Line (''Name:         '' @ om_Name m), Line (''Namespace:    '' @ om_Namespace m),
       Line (''Type:         '' @ as_Type (ag_Spec a)), Line (''Phase:        '' @ at_Phase (ag_Status a)),
       Line (''Age:          '' @ formatAge now (om_CreationTimestamp m)),
       Line [], Line ''Model:'', Line (''  Provider:     '' @ mo_Provider mo), Line (''  Name:         '' @ mo_Name mo)] @
      (case mo_Temperature mo of None \<Rightarrow> [] | Some x \<Rightarrow> [Line (''  Temperature:  '' @ show_1f x)]) @
      autonomy_details a @
      (if tools = [] then []
       else [Line [], Line (''Tools ('' @ show_nat (length tools) @ ''):''),
             printTable [''  NAME'', ''TYPE''] (map (\<lambda>tl. [''  '' @ to_Name tl, to_Type tl]) tools)]) @
      metrics_details (at_Metrics (ag_Status a)) @
      condition_table (at_Conditions (ag_Status a)))"

definition runAgentGet :: "'c cli \<Rightarrow> string \<Rightarrow> 'c \<Rightarrow> 'c command" where
  "runAgentGet t name c = with_agent t name c (\<lambda>a.
     prints (if ct_output t = ''json'' then [Json (OneAgent a)] else agent_details (ct_now t) a) c)"

section \<open>Looking up in every namespace\<close>

text \<open>All namespaces first; when that is not allowed, the current one.\<close>

definition list_anywhere :: "('c \<Rightarrow> string \<Rightarrow> kerr + 'a list) \<Rightarrow> string \<Rightarrow> 'c \<Rightarrow> kerr + 'a list" where
  "list_anywhere f namespace c = (case f c [] of Inr xs \<Rightarrow> Inr xs | Inl _ \<Rightarrow> f c namespace)"

text \<open>The object of a name in the current namespace, else the first of that name in the sorted list.\<close>

definition find_anywhere :: "kerr + 'a \<Rightarrow> string + 'a list \<Rightarrow> ('a \<Rightarrow> ObjectMeta) \<Rightarrow> string \<Rightarrow> string \<Rightarrow> string \<Rightarrow> string + 'a" where
  "find_anywhere got found meta name no_list no_match =
     (case got of
        Inr v \<Rightarrow> Inr v
      | Inl _ \<Rightarrow>
          (case found of
             Inl _ \<Rightarrow> Inl no_list
           | Inr xs \<Rightarrow> (case find (\<lambda>v. om_Name (meta v) = name) xs of Some v \<Rightarrow> Inr v | None \<Rightarrow> Inl no_match)))"

section \<open>MCP servers\<close>

definition place_le :: "MCPServer \<Rightarrow> MCPServer \<Rightarrow> bool" where
  "place_le a b \<longleftrightarrow>
     (let m = mcp_Meta a; n = mcp_Meta b in
      if om_Namespace m \<noteq> om_Namespace n then str_le (om_Namespace m) (om_Namespace n)
      else str_le (om_Name m) (om_Name n))"

definition listMCPServers :: "'c cli \<Rightarrow> 'c \<Rightarrow> string + MCPServer list" where
  "listMCPServers t c =
     (case list_anywhere (ct_list_mcp t) (ct_namespace t) c of
        Inl e \<Rightarrow> Inl (''mcp: unable to list servers: '' @ ct_errtext t e)
      | Inr xs \<Rightarrow> Inr (order_by place_le xs))"

definition or_dash :: "string \<Rightarrow> string" where
  "or_dash s = (if s = [] then ''-'' else s)"

definition server_row :: "time \<Rightarrow> MCPServer \<Rightarrow> string list" where
  "server_row now s =
     [om_Name (mcp_Meta s), om_Namespace (mcp_Meta s), or_dash (mc_Category (mcp_Spec s)), mcs_Phase (mcp_Status s),
      show_int (mcs_ToolCount (mcp_Status s)), formatAge now (om_CreationTimestamp (mcp_Meta s))]"

definition runMCPList :: "'c cli \<Rightarrow> 'c \<Rightarrow> 'c command" where
  "runMCPList t c =
     (case listMCPServers t c of
        Inl e \<Rightarrow> fails e c
      | Inr items \<Rightarrow>
          prints [if ct_output t = ''json'' then Json (Servers items)
                  else printTable [''NAME'', ''NAMESPACE'', ''CATEGORY'', ''PHASE'', ''TOOLS'', ''AGE'']
                         (map (server_row (ct_now t)) items)] c)"

definition tool_row :: "MCPServer \<Rightarrow> string \<times> string \<times> string" where
  "tool_row s =
     (let n = mcs_ToolCount (mcp_Status s) in
      (if 0 < n then ''('' @ show_int n @ '' tools)'' else ''-'', om_Name (mcp_Meta s), or_dash (mc_Category (mcp_Spec s))))"

definition runMCPTools :: "'c cli \<Rightarrow> string \<Rightarrow> 'c \<Rightarrow> 'c command" where
  "runMCPTools t filterServer c =
     (case listMCPServers t c of
        Inl e \<Rightarrow> fails e c
      | Inr items \<Rightarrow>
          (let rows = map tool_row (filter (\<lambda>s. filterServer = [] \<or> om_Name (mcp_Meta s) = filterServer) items) in
           if filterServer \<noteq> [] \<and> rows = [] then fails (''mcp server '' @ quote filterServer @ '' not found'') c
           else prints [if ct_output t = ''json'' then Json (ToolRows rows)
                        else printTable [''TOOL'', ''SERVER'', ''CATEGORY''] (map (\<lambda>(a, b, d). [a, b, d]) rows)] c))"

definition mcp_missing :: "'c cli \<Rightarrow> string \<Rightarrow> string" where
  "mcp_missing t name = ''mcp server '' @ quote name @ '' not found in namespace '' @ quote (ct_namespace t)"

definition find_server :: "'c cli \<Rightarrow> string \<Rightarrow> string \<Rightarrow> 'c \<Rightarrow> string + MCPServer" where
  "find_server t name no_match c =
     find_anywhere (ct_get_mcp t c (ct_namespace t, name)) (listMCPServers t c) mcp_Meta name (mcp_missing t name) no_match"

definition shown_phase :: "string \<Rightarrow> string" where
  "shown_phase p = (if p = [] then ''Unknown'' else p)"

definition runMCPTest :: "'c cli \<Rightarrow> string \<Rightarrow> 'c \<Rightarrow> 'c command" where
  "runMCPTest t name c =
     (case find_server t name (mcp_missing t name) c of
        Inl e \<Rightarrow> fails e c
      | Inr s \<Rightarrow>
          (let phase = shown_phase (mcs_Phase (mcp_Status s)) in
           prints ([Line (''Server '' @ om_Name (mcp_Meta s) @ '': '' @ phase @ '' ('' @
                show_int (mcs_ToolCount (mcp_Status s)) @ '' tools discovered)'')] @
             (if EqualFold phase ''error'' \<and> mcs_Message (mcp_Status s) \<noteq> []
              then [Line (''Error: '' @ mcs_Message (mcp_Status s))] else [])) c))"

definition server_details :: "time \<Rightarrow> MCPServer \<Rightarrow> printed list" where
  "server_details now s =
     (let m = mcp_Meta s; sp = mcp_Spec s; st = mcp_Status s in
      [Line (''Name:         '' @ om_Name m), Line (''Namespace:    '' @ om_Namespace m),
       Line (''Image:        '' @ mc_Image sp), Line (''Port:         '' @ show_int (mc_Port sp)),
       Line (''Auth:         '' @ mc_Auth sp), Line (''Category:     '' @ mc_Category sp),
       Line (''Phase:        '' @ mcs_Phase st), Line (''Tools:        '' @ show_int (mcs_ToolCount st)),
       Line (''Age:          '' @ formatAge now (om_CreationTimestamp m))] @
      (if mcs_Message st \<noteq> [] then [Line (''Message:      '' @ mcs_Message st)] else []) @
      condition_table (mcs_Conditions st))"

definition runMCPGet :: "'c cli \<Rightarrow> string \<Rightarrow> 'c \<Rightarrow> 'c command" where
  "runMCPGet t name c =
     (case find_server t name (''mcp server '' @ quote name @ '' not found'') c of
        Inl e \<Rightarrow> fails e c
      | Inr s \<Rightarrow> prints (if ct_output t = ''json'' then [Json (OneServer s)] else server_details (ct_now t) s) c)"

definition runMCPCreate :: "'c cli \<Rightarrow> string \<Rightarrow> 'c \<Rightarrow> 'c command" where
  "runMCPCreate t path c =
     (case ct_read t path of
        Inl e \<Rightarrow> fails (''unable to read file '' @ quote path @ '': '' @ e) c
      | Inr data \<Rightarrow>
          (case ct_yaml_mcp t data of
             Inl e \<Rightarrow> fails (''unable to parse YAML: '' @ e) c
           | Inr s0 \<Rightarrow>
               (let s = (if om_Namespace (mcp_Meta s0) = []
                         then s0\<lparr>mcp_Meta := (mcp_Meta s0)\<lparr>om_Namespace := ct_namespace t\<rparr>\<rparr> else s0) in
                after_write t (ct_create_mcp t c s) ''unable to create MCP server''
                  (prints [Line (''MCPServer '' @ om_Name (mcp_Meta s) @ '' created in namespace '' @
                     om_Namespace (mcp_Meta s))]))))"

definition runMCPDelete :: "'c cli \<Rightarrow> string \<Rightarrow> 'c \<Rightarrow> 'c command" where
  "runMCPDelete t name c =
     (case ct_get_mcp t c (ct_namespace t, name) of
        Inl _ \<Rightarrow> fails (mcp_missing t name) c
      | Inr s \<Rightarrow>
          after_write t (ct_delete_mcp t c (om_Namespace (mcp_Meta s), om_Name (mcp_Meta s)))
            (''unable to delete mcp server '' @ quote name)
            (prints [Line (''MCPServer '' @ name @ '' deleted from namespace '' @ ct_namespace t)]))"

section \<open>LLM providers\<close>

text \<open>Sorted by name only; providers of one name in several namespaces keep the order of the answer.\<close>

definition listLLMProviders :: "'c cli \<Rightarrow> 'c \<Rightarrow> string + LLMProvider list" where
  "listLLMProviders t c =
     (case list_anywhere (ct_list_llm t) (ct_namespace t) c of
        Inl e \<Rightarrow> Inl (''llm: unable to list providers: '' @ ct_errtext t e)
      | Inr xs \<Rightarrow> Inr (sorted_by_name llm_Meta xs))"

definition provider_row :: "time \<Rightarrow> LLMProvider \<Rightarrow> string list" where
  "provider_row now p =
     [om_Name (llm_Meta p), lp_Type (llm_Spec p), lp_Model (llm_Spec p), ls_Phase (llm_Status p),
      show_int (ls_AvailableModels (llm_Status p)), if lp_Default (llm_Spec p) then ''true'' else [],
      formatAge now (om_CreationTimestamp (llm_Meta p))]"

definition runLLMList :: "'c cli \<Rightarrow> 'c \<Rightarrow> 'c command" where
  "runLLMList t c =
     (case listLLMProviders t c of
        Inl e \<Rightarrow> fails e c
      | Inr items \<Rightarrow>
          prints [if ct_output t = ''json'' then Json (Providers items)
                  else printTable [''NAME'', ''TYPE'', ''MODEL'', ''PHASE'', ''MODELS'', ''DEFAULT'', ''AGE'']
                         (map (provider_row (ct_now t)) items)] c)"

definition llm_missing :: "'c cli \<Rightarrow> string \<Rightarrow> string" where
  "llm_missing t name = ''llm provider '' @ quote name @ '' not found in namespace '' @ quote (ct_namespace t)"

definition find_provider :: "'c cli \<Rightarrow> string \<Rightarrow> string \<Rightarrow> 'c \<Rightarrow> string + LLMProvider" where
  "find_provider t name no_match c =
     find_anywhere (ct_get_llm t c (ct_namespace t, name)) (listLLMProviders t c) llm_Meta name (llm_missing t name) no_match"

definition check_line :: "string \<Rightarrow> LLMProvider \<Rightarrow> printed list" where
  "check_line label p =
     (case ls_LastHealthCheck (llm_Status p) of
        None \<Rightarrow> [] | Some u \<Rightarrow> if u = 0 then [] else [Line (label @ RFC3339 u)])"

definition error_line :: "string \<Rightarrow> string \<Rightarrow> LLMProvider \<Rightarrow> printed list" where
  "error_line label phase p =
     (if EqualFold phase ''error'' \<and> ls_Message (llm_Status p) \<noteq> [] then [Line (label @ ls_Message (llm_Status p))] else [])"

definition runLLMTest :: "'c cli \<Rightarrow> string \<Rightarrow> 'c \<Rightarrow> 'c command" where
  "runLLMTest t name c =
     (case find_provider t name (llm_missing t name) c of
        Inl e \<Rightarrow> fails e c
      | Inr p \<Rightarrow>
          (let phase = shown_phase (ls_Phase (llm_Status p)) in
           prints ([Line (''Provider:      '' @ om_Name (llm_Meta p)), Line (''Type:          '' @ lp_Type (llm_Spec p)),
                    Line (''Model:         '' @ lp_Model (llm_Spec p)), Line (''Phase:         '' @ phase)] @
             check_line ''Last Check:    '' p @ error_line ''Error:         '' phase p @
             condition_table (ls_Conditions (llm_Status p))) c))"

definition model_row :: "ModelDefinition \<Rightarrow> string list" where
  "model_row m =
     [''  '' @ md_Name m, md_DisplayName m] @
     (case md_Pricing m of
        None \<Rightarrow> [''-'', ''-'']
      | Some p \<Rightarrow> [''$'' @ show_2f (pr_InputPerMToken p), ''$'' @ show_2f (pr_OutputPerMToken p)])"

text \<open>The line of the last check begins with an empty one.\<close>

definition provider_details :: "time \<Rightarrow> LLMProvider \<Rightarrow> printed list" where
  "provider_details now p =
     (let m = llm_Meta p; sp = llm_Spec p; st = llm_Status p in
      [Line (''Name:         '' @ om_Name m), Line (''Namespace:    '' @ om_Namespace m),
       Line (''Type:         '' @ lp_Type sp), Line (''Model:        '' @ lp_Model sp),
       Line (''Phase:        '' @ ls_Phase st), Line (''Default:      '' @ show_bool (lp_Default sp)),
       Line (''Age:          '' @ formatAge now (om_CreationTimestamp m))] @
      (if lp_Endpoint sp \<noteq> [] then [Line (''Endpoint:     '' @ lp_Endpoint sp)] else []) @
      (if lp_APIFormat sp \<noteq> [] then [Line (''API Format:   '' @ lp_APIFormat sp)] else []) @
      (if lp_Models sp = [] then []
       else [Line [], Line ''Models:'',
             printTable [''  NAME'', ''DISPLAY NAME'', ''INPUT $/MT'', ''OUTPUT $/MT''] (map model_row (lp_Models sp))]) @
      check_line (newline @ ''Last Check:   '') p @ error_line ''Error:        '' (ls_Phase st) p @
      condition_table (ls_Conditions st))"

definition runLLMGet :: "'c cli \<Rightarrow> string \<Rightarrow> 'c \<Rightarrow> 'c command" where
  "runLLMGet t name c =
     (case find_provider t name (''llm provider '' @ quote name @ '' not found'') c of
        Inl e \<Rightarrow> fails e c
      | Inr p \<Rightarrow> prints (if ct_output t = ''json'' then [Json (OneProvider p)] else provider_details (ct_now t) p) c)"

definition runLLMCreate :: "'c cli \<Rightarrow> string \<Rightarrow> 'c \<Rightarrow> 'c command" where
  "runLLMCreate t path c =
     (case ct_read t path of
        Inl e \<Rightarrow> fails (''unable to read file '' @ quote path @ '': '' @ e) c
      | Inr data \<Rightarrow>
          (case ct_yaml_llm t data of
             Inl e \<Rightarrow> fails (''unable to parse YAML: '' @ e) c
           | Inr p0 \<Rightarrow>
               (let p = (if om_Namespace (llm_Meta p0) = []
                         then p0\<lparr>llm_Meta := (llm_Meta p0)\<lparr>om_Namespace := ct_namespace t\<rparr>\<rparr> else p0) in
                after_write t (ct_create_llm t c p) ''unable to create LLM provider''
                  (prints [Line (''LLMProvider '' @ om_Name (llm_Meta p) @ '' created in namespace '' @
                     om_Namespace (llm_Meta p))]))))"

definition runLLMDelete :: "'c cli \<Rightarrow> string \<Rightarrow> 'c \<Rightarrow> 'c command" where
  "runLLMDelete t name c =
     (case ct_get_llm t c (ct_namespace t, name) of
        Inl _ \<Rightarrow> fails (llm_missing t name) c
      | Inr p \<Rightarrow>
          after_write t (ct_delete_llm t c (om_Namespace (llm_Meta p), om_Name (llm_Meta p)))
            (''unable to delete llm provider '' @ quote name)
            (prints [Line (''LLMProvider '' @ name @ '' deleted from namespace '' @ ct_namespace t)]))"

section \<open>Facts\<close>

text \<open>The commands that show something change nothing.\<close>

lemma shows_only [simp]: "snd (snd (fails e c)) = c" "snd (snd (prints xs c)) = c"
  by (simp_all add: fails_def prints_def)

lemma readers_keep_cluster:
  "snd (snd (runAgentList t c)) = c" "snd (snd (runAgentGet t n c)) = c"
  "snd (snd (runMCPList t c)) = c" "snd (snd (runMCPTools t n c)) = c" "snd (snd (runMCPTest t n c)) = c"
  "snd (snd (runMCPGet t n c)) = c" "snd (snd (runLLMList t c)) = c" "snd (snd (runLLMTest t n c)) = c"
  "snd (snd (runLLMGet t n c)) = c"
  by (simp_all add: runAgentList_def runAgentGet_def with_agent_def runMCPList_def runMCPTools_def runMCPTest_def
      runMCPGet_def runLLMList_def runLLMTest_def runLLMGet_def Let_def split: sum.split)

text \<open>A server that is shown has the name that was asked for, and one of the current namespace goes first.\<close>

lemma found_server:
  assumes "find_server t name e c = Inr s"
    and "\<And>k v. ct_get_mcp t c k = Inr v \<Longrightarrow> (om_Namespace (mcp_Meta v), om_Name (mcp_Meta v)) = k"
  shows "om_Name (mcp_Meta s) = name \<and>
    (\<forall>v. ct_get_mcp t c (ct_namespace t, name) = Inr v \<longrightarrow> s = v)"
  using assms by (auto simp: find_server_def find_anywhere_def find_Some_iff split: sum.splits option.splits)

end
