(* ===== verification/Cli_Properties.thy ===== *)
theory Cli_Properties imports Cli_Workflow Cli_Resources Sample_Cluster begin

text \<open>What the commands promise, and what becomes of a rerun in the controller.\<close>

section \<open>The status loop without statuses\<close>

text \<open>
  When no step has a status, the index is empty, every pointer of the loop is fresh, and the capacity of the slice does
  not matter.
\<close>

definition same_but_slice :: "'c sync \<Rightarrow> 'c sync \<Rightarrow> bool" where
  "same_but_slice y y' \<longleftrightarrow> sy_wf y' = sy_wf y \<and> sy_jobs y' = sy_jobs y \<and> sy_changed y' = sy_changed y \<and> sy_rt y' = sy_rt y"

lemma fresh_simps [simp]:
  "deref (Fresh i) y = wf_StepStatuses (sy_wf y) ! i"
  "assign (Fresh i) ss y = y\<lparr>sy_wf := update_step i (\<lambda>_. ss) (sy_wf y)\<rparr>"
  by (simp_all add: deref_def assign_def)

lemma same_adopt:
  assumes "same_but_slice y y'"
  shows "same_but_slice (fst (adopt_job x n job y)) (fst (adopt_job x n job y')) \<and>
    snd (adopt_job x n job y') = snd (adopt_job x n job y) \<and> (\<exists>i. snd (adopt_job x n job y) = Fresh i)"
proof -
  obtain w1 i where "ensureStepStatus (sy_wf y) n = (w1, i)" by (cases "ensureStepStatus (sy_wf y) n")
  then show ?thesis using assms by (auto simp: adopt_job_def ensure_ptr_def same_but_slice_def Let_def)
qed

lemma same_running:
  "same_but_slice y y' \<Longrightarrow> same_but_slice (sync_running x n job (Fresh i) y) (sync_running x n job (Fresh i) y')"
  by (auto simp: same_but_slice_def sync_running_def sync_succeeded_def sync_failed_def Let_def split_def)

lemma same_fold:
  "same_but_slice y y' \<Longrightarrow>
   same_but_slice (foldl (\<lambda>y nj. sync_one x (\<lambda>_. None) nj y) y js) (foldl (\<lambda>y nj. sync_one x (\<lambda>_. None) nj y) y' js)"
proof (induction js arbitrary: y y')
  case (Cons nj js)
  obtain n job where nj: "nj = (n, job)" by (cases nj)
  from same_adopt [OF Cons.prems, of x n job] obtain i where
    "same_but_slice (fst (adopt_job x n job y)) (fst (adopt_job x n job y'))"
    "snd (adopt_job x n job y) = Fresh i" "snd (adopt_job x n job y') = Fresh i" by auto
  then have "same_but_slice (sync_one x (\<lambda>_. None) nj y) (sync_one x (\<lambda>_. None) nj y')"
    using same_running by (simp add: sync_one_def nj split_def Let_def)
  then show ?case using Cons.IH by simp
qed simp


lemma fresh_sync_spec:
  assumes "wf_StepStatuses w = []" "distinct (map fst jobs)" "mset (x_order x jobs) = mset jobs"
  shows "map_option core_of (status_of (sy_wf (syncJobs x w jobs s)) n) = expected x w (map_of jobs) n"
proof -
  let ?y = "sync_start x w jobs s" and ?js = "x_order x jobs"
  let ?z = "?y\<lparr>sy_cap := length ?js\<rparr>"
  have ix: "status_index [] = (\<lambda>_. None)" by (simp add: status_index_def fun_eq_iff)
  have dist: "distinct (map fst ?js)" using assms(2,3) by (metis mset_eq_imp_distinct_iff mset_map)
  have same: "map_of ?js = map_of jobs"
    using assms(2) dist mset_eq_setD [OF assms(3)] by (intro map_of_inject_set [THEN iffD2]) auto
  have wz: "sy_wf ?z = w" "sy_old ?z = None" "sy_cap ?z = length ?js" by (simp_all add: sync_start_def Let_def)
  have "let y' = foldl (\<lambda>y nj. sync_one x (\<lambda>_. None) nj y) ?z ?js in
      distinct_steps (sy_wf y') \<and> same_frame (sy_wf ?z) (sy_wf y') \<and> same_balance (sy_wf ?z) (sy_wf y') \<and>
      (\<forall>m. map_option core_of (status_of (sy_wf y') m) = expected x (sy_wf ?z) (map_of ?js) m)"
    using dist assms(1) by (intro sync_fold) (simp_all add: wz distinct_steps_def index_ok_def step_names_def)
  moreover have "same_but_slice ?z ?y" by (simp add: same_but_slice_def)
  note same_fold [OF this, of x ?js]
  ultimately show ?thesis by (simp add: syncJobs_def assms(1) ix same_but_slice_def Let_def wz same)
qed

section \<open>Rerun\<close>

text \<open>What the API server keeps: a status write stores the status, an update the rest.\<close>

definition writes_kept :: "'c api \<Rightarrow> bool" where
  "writes_kept api \<longleftrightarrow>
     (\<forall>c c1 w v. k_get_wf api c (key_of (wf_Meta w)) = Inr v \<longrightarrow> k_status_wf api c w = (None, c1) \<longrightarrow>
        k_get_wf api c1 (key_of (wf_Meta w)) = Inr (v\<lparr>wf_Status := wf_Status w\<rparr>)) \<and>
     (\<forall>c c1 w v. k_get_wf api c (key_of (wf_Meta w)) = Inr v \<longrightarrow> k_update_wf api c w = (None, c1) \<longrightarrow>
        k_get_wf api c1 (key_of (wf_Meta w)) = Inr (v\<lparr>wf_Meta := wf_Meta w, wf_Spec := wf_Spec w\<rparr>))"

lemma writes_keptD:
  assumes "writes_kept api" "k_get_wf api c (key_of (wf_Meta w)) = Inr v"
  shows "k_status_wf api c w = (None, c1) \<Longrightarrow> k_get_wf api c1 (key_of (wf_Meta w)) = Inr (v\<lparr>wf_Status := wf_Status w\<rparr>)"
    "k_update_wf api c w = (None, c1) \<Longrightarrow>
       k_get_wf api c1 (key_of (wf_Meta w)) = Inr (v\<lparr>wf_Meta := wf_Meta w, wf_Spec := wf_Spec w\<rparr>)"
  using assms unfolding writes_kept_def by blast+

lemma after_write_ok: "after_write t res msg k = (None, outs, c') \<Longrightarrow> \<exists>c1. res = (None, c1) \<and> k c1 = (None, outs, c')"
  by (auto simp: after_write_def fails_def split: prod.splits option.splits)

definition restarted :: "time \<Rightarrow> Workflow \<Rightarrow> Workflow" where
  "restarted now w = map_meta (\<lambda>m. m\<lparr>om_Annotations := reset_annotations now (om_Annotations m)\<rparr>) (upd_status reset_status w)"

lemma key_of_annotations [simp]: "key_of (m\<lparr>om_Annotations := a\<rparr>) = key_of m"
  by (simp add: key_of_def)

lemma restart_stores:
  assumes "writes_kept (ct_api t)" "k_get_wf (ct_api t) c (key_of (wf_Meta w)) = Inr w"
    and "restart t w msg c = (None, outs, c')"
  shows "k_get_wf (ct_api t) c' (key_of (wf_Meta w)) = Inr (restarted (ct_now t) w)"
proof -
  let ?w1 = "upd_status reset_status w"
  let ?w2 = "map_meta (\<lambda>m. m\<lparr>om_Annotations := reset_annotations (ct_now t) (om_Annotations m)\<rparr>) ?w1"
  obtain c1 where c1: "k_status_wf (ct_api t) c ?w1 = (None, c1)"
    and rest: "after_write t (k_update_wf (ct_api t) c1 ?w2) ''failed to set rerun annotation'' (prints [Line msg])
      = (None, outs, c')"
    using assms(3) after_write_ok by (fastforce simp: restart_def Let_def)
  obtain c2 where c2: "k_update_wf (ct_api t) c1 ?w2 = (None, c2)" "c' = c2"
    using after_write_ok [OF rest] by (auto simp: prints_def)
  have meta: "wf_Meta ?w1 = wf_Meta w" "key_of (wf_Meta ?w2) = key_of (wf_Meta w)"
    by (simp_all add: map_meta_def)
  have "k_get_wf (ct_api t) c1 (key_of (wf_Meta w)) = Inr (w\<lparr>wf_Status := wf_Status ?w1\<rparr>)"
    using writes_keptD(1) [OF assms(1), of c ?w1 w c1] assms(2) c1 by (simp add: meta)
  from writes_keptD(2) [OF assms(1), of c1 ?w2, OF _ c2(1)] this show ?thesis
    by (simp add: meta(2) c2(2) restarted_def) (simp add: map_meta_def)
qed

text \<open>C18: A rerun by the command line client repeats nothing while the jobs of the old run are still there, which is an
  hour by default: the workflow is stored without statuses, with the decisions of the users removed and with the run id
  of the old run, but the controller, once it has initialised the status, takes the old jobs for those of the new run:
  a step whose old job is complete has succeeded again, and one whose old job failed, and that has no retries, has
  failed again, without a new job.\<close>

theorem rerun_replays_jobs:
  assumes "writes_kept (ct_api t)" "k_get_wf (ct_api t) c (ct_namespace t, name) = Inr w"
    and "key_of (wf_Meta w) = (ct_namespace t, name)" "runWorkflowRerun t name c = (None, outs, c')"
    and "distinct (map fst jobs)" "mset (x_order x jobs) = mset jobs" "map_of jobs n = Some job"
  shows "\<exists>w'. k_get_wf (ct_api t) c' (ct_namespace t, name) = Inr w' \<and> wf_Phase w' = [] \<and> wf_Spec w' = wf_Spec w \<and>
    om_Annotations (wf_Meta w') run_id_key = om_Annotations (wf_Meta w) run_id_key \<and>
    (\<forall>k. decision_key k \<longrightarrow> om_Annotations (wf_Meta w') k = None) \<and>
    map_option core_of (status_of (sy_wf (syncJobs x (fst (init_status x w' s0)) jobs s)) n) =
      Some (if isJobComplete job then (''Succeeded'', 0)
            else if \<not> isJobFailed job then (''Running'', 0)
            else if getMaxRetries (getStepByName w n) \<le> 0 then (''Failed'', 0) else ([], 1))"
proof -
  let ?w = "restarted (ct_now t) w" and ?i = "fst (init_status x (restarted (ct_now t) w) s0)"
  obtain msg where "restart t w msg c = (None, outs, c')"
    using assms(2,4) by (auto simp: runWorkflowRerun_def with_workflow_def fails_def split: if_splits)
  from restart_stores [OF assms(1) _ this] have get: "k_get_wf (ct_api t) c' (ct_namespace t, name) = Inr ?w"
    using assms(2,3) by simp
  have w: "wf_Phase ?w = []" "wf_Spec ?w = wf_Spec w" "wf_StepStatuses ?w = []"
    by (simp_all add: restarted_def map_meta_def reset_status_def)
  have i: "wf_Spec ?i = wf_Spec w" "wf_StepStatuses ?i = []" using w by (simp_all add: init_status_def)
  have gone: "decision_key k \<Longrightarrow> om_Annotations (wf_Meta ?w) k = None" for k
    by (auto simp: restarted_def map_meta_def reset_annotations_def decision_key_def HasPrefix_def)
  have id: "om_Annotations (wf_Meta ?w) run_id_key = om_Annotations (wf_Meta w) run_id_key"
    by (simp add: restarted_def map_meta_def reset_annotations_def decision_key_def HasPrefix_def)
  have "map_option core_of (status_of (sy_wf (syncJobs x ?i jobs s)) n) = Some (settle x ?i job (adopted n job))"
    unfolding fresh_sync_spec [OF i(2) assms(5,6)] using i(2) assms(7) by (simp add: expected_def status_of_def)
  also have "settle x ?i job (adopted n job) =
      (if isJobComplete job then (''Succeeded'', 0)
       else if \<not> isJobFailed job then (''Running'', 0)
       else if getMaxRetries (getStepByName w n) \<le> 0 then (''Failed'', 0) else ([], 1))"
    using i(1) by (auto simp: settle_def adopted_def zero_step_status_def retry_early_def getStepByName_def Let_def)
  finally show ?thesis using get w(1,2) gone id by blast
qed

section \<open>Decisions and triggers\<close>

text \<open>
  A decision is stored for a step that waits, as one annotation beside what was there; for any other step the command
  fails and writes nothing.
\<close>

lemma decision_stored:
  assumes "writes_kept (ct_api t)" "k_get_wf (ct_api t) c (ct_namespace t, name) = Inr w"
    and "key_of (wf_Meta w) = (ct_namespace t, name)" "setStepAnnotation t name n action c = (None, outs, c')"
  shows "k_get_wf (ct_api t) c' (ct_namespace t, name) = Inr (set_annotation (''purko.io/'' @ action @ ''-'' @ n) ''true'' w)"
    "n \<in> ws_Name ` set (wf_Steps w)" "\<exists>ss \<in> set (wf_StepStatuses w). ss_Name ss = n \<and> ss_Phase ss = ''Pending''"
proof -
  let ?w = "set_annotation (''purko.io/'' @ action @ ''-'' @ n) ''true'' w"
  from assms(2,4) obtain ss where ss: "find (\<lambda>ss. ss_Name ss = n) (wf_StepStatuses w) = Some ss" "ss_Phase ss = ''Pending''"
    and step: "list_ex (\<lambda>s. ws_Name s = n) (wf_Steps w)" and put: "k_update_wf (ct_api t) c ?w = (None, c')"
    by (auto simp: setStepAnnotation_def with_workflow_def fails_def prints_def dest!: after_write_ok
        split: if_splits option.splits)
  have meta: "key_of (wf_Meta ?w) = (ct_namespace t, name)" using assms(3) by (simp add: set_annotation_def map_meta_def)
  show "k_get_wf (ct_api t) c' (ct_namespace t, name) = Inr ?w"
    using writes_keptD(2) [OF assms(1), of c ?w w c'] assms(2) put meta by (simp add: set_annotation_def map_meta_def)
  show "n \<in> ws_Name ` set (wf_Steps w)" using step by (auto simp: list_ex_iff)
  show "\<exists>ss \<in> set (wf_StepStatuses w). ss_Name ss = n \<and> ss_Phase ss = ''Pending''" using ss by (auto simp: find_Some_iff)
qed

lemma decision_refused:
  assumes "k_get_wf (ct_api t) c (ct_namespace t, name) = Inr w"
    and "\<nexists>ss. find (\<lambda>ss. ss_Name ss = n) (wf_StepStatuses w) = Some ss \<and> ss_Phase ss = ''Pending''"
  shows "\<exists>msg. setStepAnnotation t name n action c = (Some msg, [], c)"
  using assms by (auto simp: setStepAnnotation_def with_workflow_def fails_def split: option.splits)

text \<open>
  The run a trigger creates from a template does not name the template, so that no run counts as its sibling, and the
  concurrency policy of the template never holds it back.
\<close>

lemma triggered_without_siblings: "active_runs (instance_of namespace draws params tmpl) ws = []"
  by (simp add: active_runs_def template_name_def instance_of_def empty_meta_def Let_def)

lemma triggered_not_held_back:
  "k_list_wf (x_api x) (rs_c s) namespace = Inr ws \<Longrightarrow>
   enforceConcurrency x conc (instance_of namespace draws params tmpl) s = (None, s)"
proof -
  assume "k_list_wf (x_api x) (rs_c s) namespace = Inr ws"
  moreover have "wf_Namespace (instance_of namespace draws params tmpl) = namespace"
    by (simp add: instance_of_def Let_def)
  ultimately show ?thesis by (simp add: enforceConcurrency_def triggered_without_siblings max_parallel_def)
qed

section \<open>A sample\<close>

definition list_cli :: "cluster cli" where
  "list_cli = \<lparr>ct_ctx = list_ctx, ct_namespace = ''team'', ct_output = [], ct_read = \<lambda>_. Inl ''no file'',
     ct_yaml_wf = \<lambda>_. Inl [], ct_yaml_agent = \<lambda>_. Inl [], ct_yaml_mcp = \<lambda>_. Inl [], ct_yaml_llm = \<lambda>_. Inl [],
     ct_create_wf = \<lambda>c w. (None, c\<lparr>cl_wfs := cl_wfs c @ [w]\<rparr>),
     ct_delete_wf = \<lambda>c k. (None, c\<lparr>cl_wfs := filter (\<lambda>w. key_of (wf_Meta w) \<noteq> k) (cl_wfs c)\<rparr>),
     ct_list_agents = \<lambda>c n. Inr (cl_agents c), ct_create_agent = \<lambda>c a. (None, c), ct_delete_agent = \<lambda>c k. (None, c),
     ct_get_mcp = \<lambda>c k. Inl NotFound, ct_list_mcp = \<lambda>c n. Inr [], ct_create_mcp = \<lambda>c m. (None, c),
     ct_delete_mcp = \<lambda>c k. (None, c), ct_get_llm = \<lambda>c k. Inl NotFound, ct_list_llm = \<lambda>c n. Inr (cl_llms c),
     ct_create_llm = \<lambda>c p. (None, c), ct_delete_llm = \<lambda>c k. (None, c), ct_deployments = \<lambda>c. None, ct_connect = True\<rparr>"

lemma find_stored:
  "(\<And>v. key_of (meta (f v)) = key_of (meta v) \<or> key_of (meta (f v)) = k) \<Longrightarrow>
   find (\<lambda>v. key_of (meta v) = k) (replace_obj meta f k os) = map_option f (find (\<lambda>v. key_of (meta v) = k) os)"
  by (induction os) (auto simp: replace_obj_def)

lemma list_writes_kept: "writes_kept list_api"
  by (auto simp: writes_kept_def list_api_def get_obj_def find_stored split: option.splits)

definition ended_run :: cluster where
  "ended_run = no_cluster\<lparr>cl_wfs := [upd_status (\<lambda>st. st\<lparr>wt_Phase := ''Failed''\<rparr>)
     (plain_workflow [plain_step ''a'' []] [step_in ''a'' ''Failed''])]\<rparr>"

lemma rerun_replays_jobs_witness:
  "\<exists>w'. k_get_wf list_api (snd (snd (runWorkflowRerun list_cli ''flow'' ended_run))) (''team'', ''flow'') = Inr w' \<and>
     map_option core_of (status_of (sy_wf (syncJobs list_ctx (fst (init_status list_ctx w' (list_rt ended_run)))
       [(''a'', plain_job ''a'' ''Failed'')] (list_rt ended_run))) ''a'') = Some (''Failed'', 0)"
proof -
  let ?job = "plain_job ''a'' ''Failed''" and ?c = "snd (snd (runWorkflowRerun list_cli ''flow'' ended_run))"
  obtain w where w: "w = hd (cl_wfs ended_run)" by simp
  have get: "k_get_wf (ct_api list_cli) ended_run (ct_namespace list_cli, ''flow'') = Inr w"
    "key_of (wf_Meta w) = (ct_namespace list_cli, ''flow'')" "getMaxRetries (getStepByName w ''a'') \<le> 0"
    unfolding w by (simp_all add: list_cli_def ended_run_def sample_defs getMaxRetries_def getStepByName_def)
  have run: "fst (runWorkflowRerun list_cli ''flow'' ended_run) = None" by code_simp
  have job: "\<not> isJobComplete ?job" "isJobFailed ?job"
    by (simp_all add: sample_defs isJobComplete_def isJobFailed_def)
  have api: "ct_api list_cli = list_api" "ct_namespace list_cli = ''team''"
    by (simp_all add: list_cli_def list_ctx_def)
  obtain outs where "runWorkflowRerun list_cli ''flow'' ended_run = (None, outs, ?c)"
    using run by (metis prod.collapse)
  then show ?thesis
    using rerun_replays_jobs [of list_cli ended_run "''flow''" w outs ?c "[(''a'', ?job)]" list_ctx "''a''" ?job
        "list_rt ended_run" "list_rt ended_run"] get job list_writes_kept
    by (auto simp: api list_ctx_def)
qed

end
