(* ===== verification/Dashboard_Server.thy ===== *)
theory Dashboard_Server imports Dashboard_Runs Dashboard_Config Dashboard_Views Dashboard_Archive Scheduler begin

text \<open>
  The server of the dashboard as a whole (\<^verbatim>\<open>Start\<close> in \<^verbatim>\<open>dashboard/server.go\<close>): its table of routes, the choice
  \<^verbatim>\<open>http.ServeMux\<close> makes by it, and the state the handlers share.

  A page whose encoding is not the repository's is the value that is encoded.  Paths are taken without escapes.
\<close>

section \<open>The server\<close>

datatype page =
    Answer response
  | AgentPage "Agent \<times> (string \<times> string \<times> string) list"
  | WorkflowPage "Workflow \<times> str_map \<times> iface list"
  | OverviewPage OverviewData
  | AgentsPage "AgentSummary list"
  | WorkflowsPage "WorkflowSummary list"
  | ServersPage "MCPServer list"
  | ServerPage MCPServer
  | ProvidersPage "LLMProvider list"
  | ProviderPage LLMProvider
  | ToolsPage "MCPServerInfo list \<times> int"
  | IndexPage string
  | EventStream
  | Redirect string
  | Panicked

text \<open>What the server is built with; \<open>wb_files\<close> is the file server over the embedded files.\<close>

record ('c, 'h, 'k) web =
  wb_dash :: "'c dash"
  wb_net :: "'h net"
  wb_cron :: "'k cron"
  wb_etext :: "sql_error \<Rightarrow> string"
  wb_memproviders :: "('c \<Rightarrow> kerr + MemoryProvider list) option"
  wb_files :: "string \<Rightarrow> response"
  wb_index :: string

record ('c, 'h, 'k) serving =
  sv_cluster :: 'c
  sv_world :: 'h
  sv_registry :: "registry option"
  sv_scheduler :: "'k scheduler option"
  sv_history :: "history option"
  sv_memory :: "mem_store option"

section \<open>Pages of the server itself\<close>

definition handleIndex :: "string \<Rightarrow> Http.request \<Rightarrow> page" where
  "handleIndex index r =
     (if path_of r \<noteq> ''/'' then Answer (http_error ''404 page not found'' 404) else IndexPage index)"

definition handleOverview :: "'c dash \<Rightarrow> 'c \<Rightarrow> page" where
  "handleOverview s c = OverviewPage (buildOverview s c)"

definition handleAgents :: "'c dash \<Rightarrow> 'c \<Rightarrow> page" where
  "handleAgents s c = AgentsPage (listAgents s c)"

definition handleWorkflows :: "'c dash \<Rightarrow> 'c \<Rightarrow> page" where
  "handleWorkflows s c = WorkflowsPage (listWorkflows s c)"

text \<open>The events of a stream: one overview for each tick, of the cluster as it is then, until the client leaves.\<close>

definition handleSSE :: "'c dash \<Rightarrow> 'c list \<Rightarrow> OverviewData list" where
  "handleSSE s ticks = map (buildOverview s) ticks"

section \<open>The routes\<close>

datatype handler =
    Static | Index | Overview | Agents | Workflows | AgentDetail | WorkflowDetail | SSE | CreateAgent | CreateWorkflow
  | TriggerRules | Schedules | UpdateAgent | MCPTools | Presets | DeleteAgent | DeleteWorkflow | RerunWorkflow
  | StepLogs | DenyStep | ApproveStep | MCPServers | MCPServerCRUD | MCPServerCreate | LLMProviders
  | LLMProviderCRUD | LLMProviderCreate | WebhookTrigger | HistoryRuns | HistoryRunDetail | HistoryStepTools
  | Memories | MemoryStats | MemoryRecall | MemoryDelete | Features | Whoami

definition routes :: "(string \<times> handler) list" where
  "routes =
     [(''/static/'', Static), (''/'', Index), (''/api/overview'', Overview), (''/api/agents'', Agents),
      (''/api/workflows'', Workflows), (''/api/agent/'', AgentDetail), (''/api/workflow/'', WorkflowDetail),
      (''/api/events'', SSE), (''/api/create/agent'', CreateAgent), (''/api/create/workflow'', CreateWorkflow),
      (''/api/trigger/rules'', TriggerRules), (''/api/schedules'', Schedules), (''/api/update/agent'', UpdateAgent),
      (''/api/mcp/tools'', MCPTools), (''/api/presets'', Presets), (''/api/delete/agent/'', DeleteAgent),
      (''/api/delete/workflow/'', DeleteWorkflow), (''/api/rerun/workflow/'', RerunWorkflow), (''/api/logs/'', StepLogs),
      (''/api/deny/'', DenyStep), (''/api/approve/'', ApproveStep), (''/api/mcp/servers'', MCPServers),
      (''/api/mcp/server/'', MCPServerCRUD), (''/api/mcp/server'', MCPServerCreate), (''/api/llm/providers'', LLMProviders),
      (''/api/llm/provider/'', LLMProviderCRUD), (''/api/llm/provider'', LLMProviderCreate),
      (''/api/trigger/'', WebhookTrigger), (''/api/history/runs'', HistoryRuns), (''/api/history/run/'', HistoryRunDetail),
      (''/api/history/step/'', HistoryStepTools), (''/api/memory'', Memories), (''/api/memory/stats'', MemoryStats),
      (''/api/memory/recall'', MemoryRecall), (''/api/memory/'', MemoryDelete), (''/api/features'', Features),
      (''/api/whoami'', Whoami)]"

section \<open>\<^verbatim>\<open>http.ServeMux\<close>\<close>

text \<open>A pattern that ends in a slash stands for all paths below it; of the patterns that match the longest is taken.\<close>

definition matches :: "string \<Rightarrow> string \<Rightarrow> bool" where
  "matches path pat \<longleftrightarrow> (if HasSuffix pat ''/'' then HasPrefix path pat else path = pat)"

definition longer :: "(string \<times> handler) option \<Rightarrow> string \<times> handler \<Rightarrow> (string \<times> handler) option" where
  "longer best rt =
     (case best of None \<Rightarrow> Some rt | Some b \<Rightarrow> if length (fst b) < length (fst rt) then Some rt else best)"

definition route :: "string \<Rightarrow> (string \<times> handler) option" where
  "route path = foldl longer None (filter (\<lambda>rt. matches path (fst rt)) routes)"

text \<open>\<^verbatim>\<open>path.Clean\<close> of a path that begins with a slash, and the slash at the end kept.\<close>

fun clean_segments :: "string list \<Rightarrow> string list \<Rightarrow> string list" where
  "clean_segments acc [] = rev acc"
| "clean_segments acc (s # ss) =
     clean_segments (if s = [] \<or> s = ''.'' then acc else if s = ''..'' then tl acc else s # acc) ss"

definition cleanPath :: "string \<Rightarrow> string" where
  "cleanPath p =
     (if p = [] then ''/''
      else let p1 = (if hd p = CHR ''/'' then p else CHR ''/'' # p);
               np = CHR ''/'' # join ''/'' (clean_segments [] (split_char CHR ''/'' p1)) in
        if last p1 = CHR ''/'' \<and> np \<noteq> ''/'' then np @ ''/'' else np)"

text \<open>A path without a pattern of its own goes to the one with a slash at its end, if that is a pattern.\<close>

definition slash_redirect :: "string \<Rightarrow> bool" where
  "slash_redirect path \<longleftrightarrow>
     \<not> HasSuffix path ''/'' \<and> path \<notin> set (map fst routes) \<and> path @ ''/'' \<in> set (map fst routes)"

definition mux :: "Http.request \<Rightarrow> string + handler" where
  "mux r =
     (let path = (if method_of r = ''CONNECT'' then path_of r else cleanPath (path_of r)) in
      if slash_redirect path then Inl (path @ ''/'')
      else if path \<noteq> path_of r then Inl path
      else (case route path of Some (_, h) \<Rightarrow> Inr h | None \<Rightarrow> Inr Index))"

section \<open>Serving a request\<close>

definition reading :: "page \<Rightarrow> ('c, 'h, 'k) serving \<Rightarrow> page \<times> ('c, 'h, 'k) serving" where
  "reading pg st = (pg, st)"

definition on_cluster :: "response \<times> 'c \<Rightarrow> ('c, 'h, 'k) serving \<Rightarrow> page \<times> ('c, 'h, 'k) serving" where
  "on_cluster res st = (Answer (fst res), st\<lparr>sv_cluster := snd res\<rparr>)"

definition detail :: "('o \<Rightarrow> page) \<Rightarrow> response + 'o \<Rightarrow> page" where
  "detail pg res = (case res of Inl a \<Rightarrow> Answer a | Inr v \<Rightarrow> pg v)"

definition on_detail :: "('o \<Rightarrow> page) \<Rightarrow> (response + 'o) \<times> 'c \<Rightarrow> ('c, 'h, 'k) serving \<Rightarrow> page \<times> ('c, 'h, 'k) serving" where
  "on_detail pg res st = (detail pg (fst res), st\<lparr>sv_cluster := snd res\<rparr>)"

fun handle :: "('c, 'h, 'k) web \<Rightarrow> handler \<Rightarrow> Http.request \<Rightarrow> ('c, 'h, 'k) serving \<Rightarrow> page \<times> ('c, 'h, 'k) serving" where
  "handle b Static r st = reading (Answer (wb_files b (path_rest ''/static/'' r))) st"
| "handle b Index r st = reading (handleIndex (wb_index b) r) st"
| "handle b Overview r st = reading (handleOverview (wb_dash b) (sv_cluster st)) st"
| "handle b Agents r st = reading (handleAgents (wb_dash b) (sv_cluster st)) st"
| "handle b Workflows r st = reading (handleWorkflows (wb_dash b) (sv_cluster st)) st"
| "handle b AgentDetail r st = reading (detail AgentPage (handleAgentDetail (wb_dash b) r (sv_cluster st))) st"
| "handle b WorkflowDetail r st = reading (detail WorkflowPage (handleWorkflowDetail (wb_dash b) r (sv_cluster st))) st"
| "handle b SSE r st = reading EventStream st"
| "handle b CreateAgent r st = on_cluster (handleCreateAgent (wb_dash b) r (sv_cluster st)) st"
| "handle b CreateWorkflow r st = on_cluster (handleCreateWorkflow (wb_dash b) r (sv_cluster st)) st"
| "handle b TriggerRules r st =
     (case handleTriggerRules (wb_dash b) r (sv_cluster st) of
        None \<Rightarrow> (Panicked, st) | Some res \<Rightarrow> on_cluster res st)"
| "handle b Schedules r st = reading (Answer (handleSchedules (wb_cron b) (sv_scheduler st))) st"
| "handle b UpdateAgent r st = on_cluster (handleUpdateAgent (wb_dash b) r (sv_cluster st)) st"
| "handle b MCPTools r st =
     (let (found, reg, h) = handleMCPTools (wb_net b) (d_now (wb_dash b)) (sv_registry st) (sv_world st)
      in (ToolsPage found, st\<lparr>sv_registry := reg, sv_world := h\<rparr>))"
| "handle b Presets r st = reading (Answer (handlePresets (wb_dash b) (sv_cluster st))) st"
| "handle b DeleteAgent r st = on_cluster (handleDeleteAgent (wb_dash b) r (sv_cluster st)) st"
| "handle b DeleteWorkflow r st = on_cluster (handleDeleteWorkflow (wb_dash b) r (sv_cluster st)) st"
| "handle b RerunWorkflow r st = on_cluster (handleRerunWorkflow (wb_dash b) r (sv_cluster st)) st"
| "handle b StepLogs r st = reading (Answer (handleStepLogs (wb_dash b) r (sv_cluster st))) st"
| "handle b DenyStep r st = on_cluster (handleDenyStep (wb_dash b) r (sv_cluster st)) st"
| "handle b ApproveStep r st = on_cluster (handleApproveStep (wb_dash b) r (sv_cluster st)) st"
| "handle b MCPServers r st = reading (detail ServersPage (handleMCPServers (wb_dash b) (sv_cluster st))) st"
| "handle b MCPServerCRUD r st = on_detail ServerPage (handleMCPServerCRUD (wb_dash b) r (sv_cluster st)) st"
| "handle b MCPServerCreate r st = on_cluster (handleMCPServerCreate (wb_dash b) r (sv_cluster st)) st"
| "handle b LLMProviders r st = reading (detail ProvidersPage (handleLLMProviders (wb_dash b) (sv_cluster st))) st"
| "handle b LLMProviderCRUD r st = on_detail ProviderPage (handleLLMProviderCRUD (wb_dash b) r (sv_cluster st)) st"
| "handle b LLMProviderCreate r st = on_cluster (handleLLMProviderCreate (wb_dash b) r (sv_cluster st)) st"
| "handle b WebhookTrigger r st = on_cluster (handleWebhookTrigger (wb_dash b) r (sv_cluster st)) st"
| "handle b HistoryRuns r st = reading (Answer (handleHistoryRuns (wb_etext b) (sv_history st) r)) st"
| "handle b HistoryRunDetail r st = reading (Answer (handleHistoryRunDetail (wb_etext b) (sv_history st) r)) st"
| "handle b HistoryStepTools r st = reading (Answer (handleHistoryStepTools (wb_etext b) (sv_history st) r)) st"
| "handle b Memories r st = reading (Answer (handleMemory (wb_etext b) (wb_dash b) (sv_memory st) r)) st"
| "handle b MemoryStats r st =
     reading (Answer (handleMemoryStats (wb_etext b) (wb_dash b)
       (map_option (\<lambda>f. f (sv_cluster st)) (wb_memproviders b)) (sv_memory st) r)) st"
| "handle b MemoryRecall r st = reading (Answer (handleMemoryRecall (wb_etext b) (wb_dash b) (sv_memory st) r)) st"
| "handle b MemoryDelete r st =
     (let (a, m) = handleMemoryDelete (wb_etext b) (wb_dash b) r (sv_memory st) in (Answer a, st\<lparr>sv_memory := m\<rparr>))"
| "handle b Features r st = reading (Answer handleFeatures) st"
| "handle b Whoami r st = reading (Answer (handleWhoami r)) st"

definition serve :: "('c, 'h, 'k) web \<Rightarrow> Http.request \<Rightarrow> ('c, 'h, 'k) serving \<Rightarrow> page \<times> ('c, 'h, 'k) serving" where
  "serve b r st = (case mux r of Inl path \<Rightarrow> (Redirect path, st) | Inr h \<Rightarrow> handle b h r st)"

section \<open>Facts\<close>

text \<open>Every pattern reaches its own handler.\<close>

lemma routes_reached: "map (\<lambda>(p, h). route p = Some (p, h)) routes = replicate (length routes) True"
  by code_simp

lemma route_samples:
  "map_option snd (route ''/api/mcp/server'') = Some MCPServerCreate"
  "map_option snd (route ''/api/mcp/server/git'') = Some MCPServerCRUD"
  "map_option snd (route ''/api/trigger/deploy'') = Some WebhookTrigger"
  "map_option snd (route ''/api/intent'') = Some Index"
  by code_simp+

lemma clean_samples:
  "cleanPath ''/api//agent/../agents'' = ''/api/agents''" "cleanPath ''/../x/./'' = ''/x/''" "cleanPath [] = ''/''"
  by code_simp+

text \<open>What a request may not change when it only reads.\<close>

definition same_data :: "('c, 'h, 'k) serving \<Rightarrow> ('c, 'h, 'k) serving \<Rightarrow> bool" where
  "same_data st st' \<longleftrightarrow> sv_cluster st' = sv_cluster st \<and> sv_memory st' = sv_memory st \<and>
     sv_history st' = sv_history st \<and> sv_scheduler st' = sv_scheduler st"

lemma same_data_refl [simp]: "same_data st st"
  by (simp add: same_data_def)

lemma reading_keeps [simp]: "same_data st (snd (reading pg st))"
  by (simp add: reading_def)

lemma on_cluster_keeps [simp]: "snd res = sv_cluster st \<Longrightarrow> same_data st (snd (on_cluster res st))"
  by (simp add: on_cluster_def same_data_def)

lemma on_detail_keeps [simp]: "snd res = sv_cluster st \<Longrightarrow> same_data st (snd (on_detail pg res st))"
  by (simp add: on_detail_def same_data_def)

lemma refused_keeps:
  assumes "method_of r \<noteq> ''POST''" "method_of r \<noteq> ''DELETE''"
  shows "snd (handleDeleteAgent s r c) = c" "snd (handleDeleteWorkflow s r c) = c"
    "snd (handleMCPServerCRUD s r c) = c" "snd (handleLLMProviderCRUD s r c) = c"
    "snd (handleMemoryDelete etext s r m) = m"
    "handleTriggerRules s r c = Some (a, c') \<Longrightarrow> c' = c"
  using assms
  by (auto simp: handleDeleteAgent_def handleDeleteWorkflow_def handleMCPServerCRUD_def handleLLMProviderCRUD_def
      handleMemoryDelete_def handleTriggerRules_def wants_delete_def Let_def split: option.splits if_splits)

lemma posting_keeps:
  assumes "method_of r \<noteq> ''POST''"
  shows "snd (handleCreateAgent s r c) = c" "snd (handleUpdateAgent s r c) = c" "snd (handleCreateWorkflow s r c) = c"
    "snd (handleRerunWorkflow s r c) = c" "snd (handleApproveStep s r c) = c" "snd (handleDenyStep s r c) = c"
    "snd (handleWebhookTrigger s r c) = c" "snd (handleMCPServerCreate s r c) = c" "snd (handleLLMProviderCreate s r c) = c"
  using assms
  by (simp_all add: post_only_def handleCreateAgent_def handleUpdateAgent_def handleCreateWorkflow_def
      handleRerunWorkflow_def handleApproveStep_def handleDenyStep_def handleWebhookTrigger_def
      handleMCPServerCreate_def handleLLMProviderCreate_def)

lemma keeping_handlers:
  assumes "method_of r \<noteq> ''POST''" "method_of r \<noteq> ''DELETE''"
  shows "same_data st (snd (handle b TriggerRules r st))" "same_data st (snd (handle b MCPTools r st))"
    "same_data st (snd (handle b MemoryDelete r st))"
    "h \<notin> {TriggerRules, MCPTools, MemoryDelete} \<Longrightarrow> same_data st (snd (handle b h r st))"
proof -
  show "same_data st (snd (handle b TriggerRules r st))"
    using refused_keeps(6) [OF assms, of "wb_dash b" "sv_cluster st"] by (auto split: option.splits)
  show "same_data st (snd (handle b MCPTools r st))"
    by (simp add: split_def Let_def same_data_def)
  show "same_data st (snd (handle b MemoryDelete r st))"
    using refused_keeps(5) [OF assms] by (simp add: split_def Let_def same_data_def)
  show "h \<notin> {TriggerRules, MCPTools, MemoryDelete} \<Longrightarrow> same_data st (snd (handle b h r st))"
    by (cases h) (simp_all add: refused_keeps(1-4) [OF assms] posting_keeps [OF assms(1)])
qed

text \<open>C13: A request that is neither a POST nor a DELETE changes nothing the system keeps, whatever its path: the cluster,
  the memories of the agents, the archive of runs and the schedules are as they were, though the list of tools may have
  been read again.\<close>

theorem reads_change_nothing:
  assumes "method_of r \<noteq> ''POST''" "method_of r \<noteq> ''DELETE''"
  shows "same_data st (snd (serve b r st))"
proof (cases "mux r")
  case (Inr h)
  have "same_data st (snd (handle b h r st))"
    by (cases "h \<in> {TriggerRules, MCPTools, MemoryDelete}") (auto simp del: handle.simps intro: keeping_handlers [OF assms])
  then show ?thesis by (simp add: serve_def Inr)
qed (simp add: serve_def)

section \<open>A sample\<close>

definition sample_web :: "(cluster, unit, cron_table) web" where
  "sample_web = \<lparr>wb_dash = list_dash, wb_net = one_server, wb_cron = list_cron, wb_etext = \<lambda>_. ''error'',
     wb_memproviders = None, wb_files = \<lambda>_. http_error ''404 page not found'' 404, wb_index = []\<rparr>"

definition sample_serving :: "(cluster, unit, cron_table) serving" where
  "sample_serving = \<lparr>sv_cluster = no_cluster\<lparr>cl_agents := [plain_agent]\<rparr>, sv_world = (), sv_registry = Some no_registry,
     sv_scheduler = None, sv_history = None, sv_memory = None\<rparr>"

definition sample_request :: "string \<Rightarrow> string \<Rightarrow> Http.request" where
  "sample_request meth path = \<lparr>Http.request.rq_Method = meth, rq_Path = path, rq_Query = \<lambda>_. [], rq_Header = \<lambda>_. [], rq_Body = None\<rparr>"

lemma reads_change_nothing_witness:
  "map ag_Name (cl_agents (sv_cluster (snd (serve sample_web (sample_request ''GET'' ''/api/delete/agent/scout'') sample_serving)))) =
     [''scout''] \<and>
   cl_agents (sv_cluster (snd (serve sample_web (sample_request ''POST'' ''/api/delete/agent/scout'') sample_serving))) = []"
proof
  have "same_data sample_serving (snd (serve sample_web (sample_request ''GET'' ''/api/delete/agent/scout'') sample_serving))"
    by (rule reads_change_nothing) (simp_all add: sample_request_def)
  then show "map ag_Name (cl_agents (sv_cluster (snd (serve sample_web (sample_request ''GET'' ''/api/delete/agent/scout'') sample_serving)))) =
     [''scout'']"
    by (simp add: same_data_def sample_serving_def plain_agent_def named_meta_def)
  have "map ag_Name (cl_agents (sv_cluster (snd (serve sample_web (sample_request ''POST'' ''/api/delete/agent/scout'') sample_serving)))) = []"
    by code_simp
  then show "cl_agents (sv_cluster (snd (serve sample_web (sample_request ''POST'' ''/api/delete/agent/scout'') sample_serving))) = []"
    by simp
qed

end
