(* ===== verification/Operator.thy ===== *)
theory Operator imports Licensing Dashboard_Server begin

text \<open>
  The entry point of the operator (\<^verbatim>\<open>cmd/operator/main.go\<close>): which parts it starts for its flags and its environment,
  and with which stores; and the gauges of \<^verbatim>\<open>controllers/metrics.go\<close> that are computed.  The libraries that the
  parts are wired with are parameters.
\<close>

section \<open>Flags and surroundings\<close>

record options =
  op_metricsAddr :: string
  op_probeAddr :: string
  op_webhookPort :: int
  op_dashboardPort :: int
  op_leaderElection :: bool
  op_webhooks :: bool
  op_dashboard :: bool
  op_agentNamespace :: string

definition default_options :: options where
  "default_options = \<lparr>op_metricsAddr = '':8080'', op_probeAddr = '':8081'', op_webhookPort = 9443,
     op_dashboardPort = 8082, op_leaderElection = False, op_webhooks = False, op_dashboard = True,
     op_agentNamespace = ''ai-agents''\<rparr>"

text \<open>The steps that end the process when they fail.\<close>

datatype setup_step = NewClientset | NewManager | SetupController string | AddHealthz | AddReadyz | StartManager

record surroundings =
  su_getenv :: "string \<Rightarrow> string"
  su_license :: "kerr + str_map" \<comment> \<open>the secret \<open>purko-license\<close>\<close>
  su_open_history :: "string \<Rightarrow> string + history"
  su_open_memory :: "string \<Rightarrow> string + mem_store"
  su_works :: "setup_step \<Rightarrow> bool"

section \<open>The stores\<close>

definition store_path :: "string \<Rightarrow> string \<Rightarrow> string" where
  "store_path given otherwise = (if given = [] then otherwise else given)"

text \<open>An archive that cannot be opened is reported and done without.\<close>

definition historyStore :: "surroundings \<Rightarrow> history option" where
  "historyStore su =
     (if su_getenv su ''PURKO_HISTORY_ENABLED'' \<noteq> ''true'' then None
      else case su_open_history su (store_path (su_getenv su ''PURKO_HISTORY_PATH'') ''/var/lib/purko/history.db'') of
          Inl _ \<Rightarrow> None | Inr h \<Rightarrow> Some h)"

definition memoryStore :: "surroundings \<Rightarrow> mem_store option" where
  "memoryStore su =
     (if su_getenv su ''PURKO_MEMORY_ENABLED'' = ''false'' then None
      else case su_open_memory su (store_path (su_getenv su ''PURKO_MEMORY_PATH'') ''/var/lib/purko/memory.db'') of
          Inl _ \<Rightarrow> None | Inr m \<Rightarrow> Some m)"

section \<open>Starting\<close>

text \<open>\<open>ru_memory\<close> and \<open>ru_history\<close> are what the workflow controller and the dashboard are given.\<close>

record manager =
  mg_probeAddr :: string
  mg_leaderElection :: bool
  mg_leaderElectionID :: string
  mg_webhookPort :: "int option"

record running =
  ru_license :: licensing
  ru_manager :: manager
  ru_controllers :: "string list"
  ru_admission :: "string list"
  ru_history :: "history option"
  ru_memory :: "mem_store option"
  ru_dashboard :: "(int \<times> string) option" \<comment> \<open>port and namespace; the scheduler runs with it\<close>

definition manager_of :: "options \<Rightarrow> manager" where
  "manager_of o1 = \<lparr>mg_probeAddr = op_probeAddr o1, mg_leaderElection = op_leaderElection o1,
     mg_leaderElectionID = ''purko-operator-lock'',
     mg_webhookPort = (if op_webhooks o1 then Some (op_webhookPort o1) else None)\<rparr>"

definition controllers_of :: "mem_store option \<Rightarrow> string list" where
  "controllers_of mem =
     [''Agent'', ''Workflow'', ''MCPServer'', ''LLMProvider''] @ (if mem \<noteq> None then [''MemoryProvider''] else [])"

definition admission_paths :: "options \<Rightarrow> string list" where
  "admission_paths o1 =
     (if op_webhooks o1 then [''/validate-purko-io-v1alpha1-agent'', ''/validate-purko-io-v1alpha1-workflow''] else [])"

definition setup_steps :: "mem_store option \<Rightarrow> setup_step list" where
  "setup_steps mem =
     [NewClientset, NewManager] @ map SetupController (controllers_of mem) @ [AddHealthz, AddReadyz, StartManager]"

text \<open>The first step that fails ends the process; otherwise the parts run.\<close>

definition main :: "options \<Rightarrow> surroundings \<Rightarrow> setup_step + running" where
  "main o1 su =
     (let hist = historyStore su; mem = memoryStore su in
      case find (\<lambda>s. \<not> su_works su s) (setup_steps mem) of
        Some s \<Rightarrow> Inl s
      | None \<Rightarrow> Inr \<lparr>ru_license = operator_license (su_getenv su ''PURKO_LICENSE'') (su_license su),
          ru_manager = manager_of o1, ru_controllers = controllers_of mem, ru_admission = admission_paths o1,
          ru_history = hist, ru_memory = mem,
          ru_dashboard = (if op_dashboard o1 then Some (op_dashboardPort o1, op_agentNamespace o1) else None)\<rparr>)"

text \<open>What the workflow controller and the dashboard start from; the two share the stores.\<close>

definition controller_start :: "running \<Rightarrow> 'c \<Rightarrow> 'c rt" where
  "controller_start ru c =
     \<lparr>rs_c = c, rs_hist = ru_history ru, rs_mem = ru_memory ru, rs_metrics = [], rs_events = [], rs_uuid = 0\<rparr>"

definition dashboard_start :: "running \<Rightarrow> 'c \<Rightarrow> 'h \<Rightarrow> 'k scheduler \<Rightarrow> registry \<Rightarrow> ('c, 'h, 'k) serving option" where
  "dashboard_start ru c h sched reg =
     map_option (\<lambda>_. \<lparr>sv_cluster = c, sv_world = h, sv_registry = Some reg, sv_scheduler = Some sched,
       sv_history = ru_history ru, sv_memory = ru_memory ru\<rparr>) (ru_dashboard ru)"

text \<open>The clean-ups at the start and once a day, each over the store it was started with.\<close>

definition cleanups :: "running \<Rightarrow> time \<Rightarrow> running" where
  "cleanups ru now =
     ru\<lparr>ru_history := map_option (prune_history (ru_license ru) now) (ru_history ru),
        ru_memory := map_option (prune_recall_log now) (ru_memory ru)\<rparr>"

section \<open>Gauges\<close>

definition ShuHaRiLevelToFloat :: "string \<Rightarrow> f64" where
  "ShuHaRiLevelToFloat level =
     (if level = ''shu'' then Fin 1 else if level = ''ha'' then Fin 2 else if level = ''ri'' then Fin 3 else Fin 0)"

text \<open>The two gauges of a server, by its name and category.\<close>

type_synonym mcp_gauges = "string \<times> string \<Rightarrow> (f64 \<times> f64) option"

definition UpdateMCPMetrics :: "string \<times> string \<times> string \<times> int \<Rightarrow> mcp_gauges \<Rightarrow> mcp_gauges" where
  "UpdateMCPMetrics report g =
     (let (serverName, category, status, toolCount) = report in
      g((serverName, category) \<mapsto> (if status = ''connected'' then Fin 1 else Fin 0, f64_of_int toolCount)))"

section \<open>Facts\<close>

lemma main_cases:
  assumes "main o1 su = Inr ru"
  shows "ru_history ru = historyStore su" "ru_memory ru = memoryStore su"
    "ru_controllers ru = controllers_of (memoryStore su)" "ru_admission ru = admission_paths o1"
    "ru_manager ru = manager_of o1"
  using assms by (auto simp: main_def Let_def split: option.splits)

text \<open>
  A store that does not open never keeps the operator from starting, and the controller of the memory providers runs
  just when there is a store for it.
\<close>

lemma stores_optional:
  assumes "\<And>s. su_works su s"
  shows "\<exists>ru. main o1 su = Inr ru \<and> (''MemoryProvider'' \<in> set (ru_controllers ru) \<longleftrightarrow> ru_memory ru \<noteq> None)"
proof -
  have "find (\<lambda>s. \<not> su_works su s) (setup_steps (memoryStore su)) = None" using assms by (simp add: find_None_iff)
  then show ?thesis by (simp add: main_def Let_def controllers_of_def)
qed

lemma stores_shared:
  "dashboard_start ru c h sched reg = Some sv \<Longrightarrow>
   sv_history sv = rs_hist (controller_start ru c) \<and> sv_memory sv = rs_mem (controller_start ru c)"
  by (auto simp: dashboard_start_def controller_start_def)

text \<open>The flag for the address of the metrics has no effect.\<close>

lemma metrics_address_ignored: "main (o1\<lparr>op_metricsAddr := a\<rparr>) su = main o1 su"
proof -
  have "manager_of (o1\<lparr>op_metricsAddr := a\<rparr>) = manager_of o1" "admission_paths (o1\<lparr>op_metricsAddr := a\<rparr>) = admission_paths o1"
    by (simp_all add: manager_of_def admission_paths_def)
  then show ?thesis by (simp add: main_def Let_def cong: option.case_cong)
qed

text \<open>Nor does the leader election reach the dashboard and its scheduler.\<close>

lemma dashboard_without_election:
  "main o1 su = Inr ru \<Longrightarrow> main (o1\<lparr>op_leaderElection := b\<rparr>) su = Inr ru' \<Longrightarrow> ru_dashboard ru' = ru_dashboard ru"
  by (auto simp: main_def Let_def split: option.splits)

text \<open>A gauge is never removed: a server that has gone keeps its last value.\<close>

lemma gauges_kept:
  "(n, cat) \<notin> (\<lambda>rep. (fst rep, fst (snd rep))) ` set reports \<Longrightarrow>
   foldl (\<lambda>g rep. UpdateMCPMetrics rep g) g reports (n, cat) = g (n, cat)"
  by (induction reports arbitrary: g) (auto simp: UpdateMCPMetrics_def split_def Let_def)

end
