(* ===== verification/Launch_Liveness.thy ===== *)
theory Launch_Liveness imports Launch_Properties begin

text \<open>
  The launch loop passes no step over: unless the parallelism is used up, each step whose turn has come gets the
  phase that its condition, its agent and the decisions of the users give it.
\<close>

section \<open>What becomes of a step\<close>

definition approval_phase :: "Workflow \<Rightarrow> string \<Rightarrow> string" where
  "approval_phase w n =
     (if annotated (''purko.io/deny-'' @ n) w then ''Failed''
      else if annotated (''purko.io/approve-'' @ n) w then ''Running'' else ''Pending'')"

definition launch_phase :: "Workflow \<Rightarrow> str_map \<Rightarrow> Agent option \<Rightarrow> WorkflowStep \<Rightarrow> string" where
  "launch_phase w outputs agent step =
     (if ws_ConditionExpr step \<noteq> [] \<and> \<not> condition_met (ws_ConditionExpr step) outputs then ''Skipped''
      else if ar_Name (ws_AgentRef step) = [] then ''Succeeded''
      else case agent of
          None \<Rightarrow> []
        | Some a \<Rightarrow> if needs_approval a then approval_phase w (ws_Name step) else ''Running'')"

definition has_status :: "Workflow \<Rightarrow> string \<Rightarrow> string \<Rightarrow> bool" where
  "has_status w n p \<longleftrightarrow> (\<exists>ss. status_of w n = Some ss \<and> ss_Phase ss = p)"

text \<open>An API server that is there to create jobs.\<close>

definition creates_jobs :: "'c api \<Rightarrow> bool" where
  "creates_jobs api \<longleftrightarrow> (\<forall>c j. fst (k_create_job api c j) \<in> {None, Some AlreadyExists})"

section \<open>One step\<close>

lemma phase_written:
  assumes "distinct_steps w" "\<And>ss. ss_Name (f ss) = ss_Name ss" "\<And>ss. ss_Phase (f ss) = p"
  shows "has_status (with_step_status n f w) n p"
  using status_of_with_step [OF assms(1,2)] assms(3) by (simp add: has_status_def)

lemma status_of_completed [simp]: "status_of (add_completed w) n = status_of w n"
  by (simp add: status_of_def add_completed_def)

lemma close_phase: "distinct_steps (la_wf l) \<Longrightarrow> has_status (la_wf (close_step x n p l)) n p"
  using phase_written [where w = "la_wf l" and f = "\<lambda>ss. ss\<lparr>ss_Phase := p, ss_CompletionTime := Some (x_now x)\<rparr>"]
  by (simp add: close_step_def has_status_def)

lemma start_phase:
  assumes "distinct_steps (la_wf l)" "creates_jobs (x_api x)"
  shows "has_status (la_wf (start_job x runID outputs step agent l)) (ws_Name step) ''Running''"
proof -
  obtain block agent1 l1 where r: "recall_for x runID agent step (buildStepInput (la_wf l) step outputs) l
      = (block, agent1, l1)" by (metis prod.exhaust)
  have wf: "la_wf l1 = la_wf l" by (rule recall_for_ok(1) [OF r])
  have "fst (k_create_job (x_api x) c j) = None \<or> fst (k_create_job (x_api x) c j) = Some AlreadyExists" for c j
    using assms(2) by (auto simp: creates_jobs_def)
  then obtain s job where "start_job x runID outputs step agent l = mark_running x (ws_Name step) job (l1\<lparr>la_rt := s\<rparr>)"
    by (auto simp: start_job_def Let_def r split_def)
  then show ?thesis using phase_written [where w = "la_wf l"] assms(1) wf by (simp add: mark_running_def)
qed

lemma approval_decides:
  assumes "distinct_steps (la_wf l)" "open_step (la_wf l) n" "needs_approval agent" "check_approval agent n l = (go, l1)"
  shows "go \<longleftrightarrow> approval_phase (la_wf l) n = ''Running''" "\<not> go \<Longrightarrow> has_status (la_wf l1) n (approval_phase (la_wf l) n)"
proof -
  obtain w1 i where e: "ensureStepStatus (la_wf l) n = (w1, i)" by (cases "ensureStepStatus (la_wf l) n")
  note E = ensure_facts [OF assms(1) e]
  have idle: "ss_Phase (wf_StepStatuses w1 ! i) \<noteq> ''Running''" using assms(2) E(3) by (simp add: open_step_def)
  have "with_step_status n f (la_wf l) = update_step i f w1" for f using e by (simp add: with_step_status_def)
  then have written: "has_status (update_step i denied w1) n ''Failed''" "has_status (update_step i (waiting n) w1) n ''Pending''"
    using phase_written [OF assms(1), of denied "''Failed''" n] phase_written [OF assms(1), of "waiting n" "''Pending''" n]
    by (simp_all add: denied_def waiting_def)
  show "go \<longleftrightarrow> approval_phase (la_wf l) n = ''Running''" "\<not> go \<Longrightarrow> has_status (la_wf l1) n (approval_phase (la_wf l) n)"
    using assms(3,4) e idle written E(6) by (auto simp: check_approval_def approval_phase_def Let_def split: if_splits)
qed

lemma launch_one_phase:
  assumes "distinct_steps (la_wf l)" "open_step (la_wf l) n" "creates_jobs (x_api x)"
    and "getStepByName (la_wf l) n = Some step" "ar_Name (ws_AgentRef step) \<noteq> [] \<longrightarrow> la_cache l n \<noteq> None"
  shows "has_status (la_wf (launch_one x runID outputs n l)) n (launch_phase (la_wf l) outputs (la_cache l n) step)"
proof -
  have nm: "ws_Name step = n" using assms(4) by (simp add: getStepByName_name)
  show ?thesis
  proof (cases "ws_ConditionExpr step \<noteq> [] \<and> \<not> condition_met (ws_ConditionExpr step) outputs \<or> ar_Name (ws_AgentRef step) = []")
    case True
    then show ?thesis using assms(4) close_phase [OF assms(1)] by (auto simp: launch_one_def launch_phase_def)
  next
    case False
    then obtain agent where agent: "la_cache l n = Some agent" using assms(5) by auto
    obtain go l1 where c: "check_approval agent n l = (go, l1)" by (cases "check_approval agent n l")
    have "distinct_steps (la_wf l1)" using check_approval_ok(1) [OF assms(1,2) c] by (simp add: step_ok_def touches_def)
    then have run: "has_status (la_wf (start_job x runID outputs step agent l1)) n ''Running''"
      using start_phase [OF _ assms(3)] nm by metis
    have one: "launch_one x runID outputs n l = (if go then start_job x runID outputs step agent l1 else l1)"
      using False agent c assms(4) by (auto simp: launch_one_def)
    show ?thesis
    proof (cases "needs_approval agent")
      case True
      then show ?thesis using False agent run one nm approval_decides [OF assms(1,2) True c]
        by (auto simp: launch_phase_def)
    next
      case plain: False
      then have go using c by (simp add: check_approval_def)
      then show ?thesis using False agent run one plain by (auto simp: launch_phase_def)
    qed
  qed
qed

lemma launch_one_cache:
  assumes "distinct_steps (la_wf l)" "open_step (la_wf l) n" "m \<noteq> n"
  shows "la_cache (launch_one x runID outputs n l) m = la_cache l m"
proof -
  have start: "la_cache (start_job x runID outputs step agent l1) m = la_cache l1 m" if "ws_Name step = n"
    for step agent and l1 :: "'a launch"
    using that assms(3) by (auto simp: start_job_def recall_for_def mark_running_def Let_def split: prod.split)
  have "la_cache l1 = la_cache l" if "check_approval agent n l = (go, l1)" for agent go l1
    by (rule check_approval_ok(4) [OF assms(1,2) that])
  with start show ?thesis
    by (auto simp: launch_one_def close_step_def dest!: getStepByName_name split: option.split prod.split)
qed

section \<open>The loop\<close>

text \<open>Steps with an agent have it in the cache.\<close>

definition agents_cached :: "Workflow \<Rightarrow> (string \<rightharpoonup> Agent) \<Rightarrow> string set \<Rightarrow> bool" where
  "agents_cached w cache ns \<longleftrightarrow>
     (\<forall>n \<in> ns. \<exists>step. getStepByName w n = Some step \<and> (ar_Name (ws_AgentRef step) \<noteq> [] \<longrightarrow> cache n \<noteq> None))"

lemma launch_phase_frame: "wf_Meta w' = wf_Meta w \<Longrightarrow> launch_phase w' outputs agent step = launch_phase w outputs agent step"
  by (simp add: launch_phase_def approval_phase_def split: option.split)

lemma step_frame: "wf_Spec w' = wf_Spec w \<Longrightarrow> getStepByName w' n = getStepByName w n"
  by (simp add: getStepByName_def)

lemma launch_all_phases:
  "distinct ns \<Longrightarrow> distinct_steps (la_wf l) \<Longrightarrow> (\<And>n. n \<in> set ns \<Longrightarrow> open_step (la_wf l) n) \<Longrightarrow> creates_jobs (x_api x) \<Longrightarrow>
   agents_cached (la_wf l) (la_cache l) (set ns) \<Longrightarrow> n \<in> set ns \<Longrightarrow> getStepByName (la_wf l) n = Some step \<Longrightarrow>
   par \<le> la_running (launch_all x runID outputs par ns l) \<and>
     status_of (la_wf (launch_all x runID outputs par ns l)) n = status_of (la_wf l) n \<or>
   has_status (la_wf (launch_all x runID outputs par ns l)) n (launch_phase (la_wf l) outputs (la_cache l n) step)"
proof (induction ns arbitrary: l)
  case (Cons k ns)
  show ?case
  proof (cases "par \<le> la_running l")
    case False
    define l1 where "l1 = launch_one x runID outputs k l"
    have t: "touches k (la_wf l) (la_wf l1)"
      unfolding l1_def using launch_one_ok [of l k x runID outputs] Cons.prems(2,3) by (simp add: step_ok_def)
    have frame: "wf_Spec (la_wf l1) = wf_Spec (la_wf l)" "wf_Meta (la_wf l1) = wf_Meta (la_wf l)"
      and d: "distinct_steps (la_wf l1)" using t by (simp_all add: touches_def same_frame_def)
    have cache: "m \<noteq> k \<Longrightarrow> la_cache l1 m = la_cache l m" for m
      unfolding l1_def using launch_one_cache Cons.prems(2,3) by (metis list.set_intros(1))
    have open1: "open_step (la_wf l1) m" if "m \<in> set ns" for m
    proof (rule open_step_status)
      show "status_of (la_wf l1) m = status_of (la_wf l) m" using that t Cons.prems(1) by (auto simp: touches_def)
      show "open_step (la_wf l) m" using that Cons.prems(3) by simp
    qed
    have "distinct ns" using Cons.prems(1) by simp
    note L = launch_all_ok [OF this d open1, of x runID outputs par]
    show ?thesis
    proof (cases "n = k")
      case True
      have "has_status (la_wf l1) n (launch_phase (la_wf l) outputs (la_cache l n) step)"
        unfolding l1_def True
        by (rule launch_one_phase) (use Cons.prems True in \<open>auto simp: agents_cached_def\<close>)
      moreover have "n \<notin> set ns" using True Cons.prems(1) by simp
      ultimately show ?thesis using False L by (simp add: l1_def launched_def has_status_def)
    next
      case other: False
      then have "n \<in> set ns" using Cons.prems(6) by simp
      moreover have "agents_cached (la_wf l1) (la_cache l1) (set ns)"
        unfolding agents_cached_def step_frame [OF frame(1)]
      proof
        fix m assume "m \<in> set ns"
        moreover from this have "la_cache l1 m = la_cache l m" using Cons.prems(1) by (intro cache) auto
        ultimately show "\<exists>step. getStepByName (la_wf l) m = Some step \<and> (ar_Name (ws_AgentRef step) \<noteq> [] \<longrightarrow> la_cache l1 m \<noteq> None)"
          using Cons.prems(5) by (simp add: agents_cached_def)
      qed
      ultimately have "par \<le> la_running (launch_all x runID outputs par ns l1) \<and>
            status_of (la_wf (launch_all x runID outputs par ns l1)) n = status_of (la_wf l1) n \<or>
          has_status (la_wf (launch_all x runID outputs par ns l1)) n (launch_phase (la_wf l) outputs (la_cache l n) step)"
        unfolding launch_phase_frame [OF frame(2), symmetric] cache [OF other, symmetric]
        using Cons.prems(1,4,7) d open1 by (intro Cons.IH) (simp_all add: step_frame [OF frame(1)])
      moreover have "status_of (la_wf l1) n = status_of (la_wf l) n" using t other by (simp add: touches_def)
      ultimately show ?thesis using False by (simp add: l1_def)
    qed
  qed simp
qed simp

lemma launch_steps_phases:
  assumes "distinct_steps w" "distinct (map ws_Name (wf_Steps w))" "creates_jobs (x_api x)"
    and "agents_cached w cache (set (findExecutableSteps w (map fst jobs)))"
    and "n \<in> set (findExecutableSteps w (map fst jobs))" "getStepByName w n = Some step"
  shows "parallelism_of w \<le> la_running (launch_steps x cache runID jobs changed w s) \<and>
      status_of (la_wf (launch_steps x cache runID jobs changed w s)) n = status_of w n \<or>
    has_status (la_wf (launch_steps x cache runID jobs changed w s)) n
      (launch_phase w (getStepOutputs x w s) (cache n) step)"
proof -
  have "distinct (findExecutableSteps w (map fst jobs))"
    unfolding findExecutableSteps_def using assms(2) by (simp add: distinct_map_filter)
  from launch_all_phases [OF this, of "launch_start w jobs changed cache s" x n step "parallelism_of w" runID
      "getStepOutputs x w s"] show ?thesis
    using assms executable_open(1) [OF assms(1)] by (simp add: launch_start_def launch_steps_def)
qed

text \<open>C8: No step is passed over: when the API server creates jobs and the agents are known, a reconcile either uses up
  the parallelism and leaves the status of a step whose turn has come as it was, or gives the step its phase: skipped
  when its condition is not met, succeeded when it has no agent, failed when a user has denied it, pending while its
  agent needs an approval it does not have, and running otherwise.\<close>

theorem no_step_passed_over:
  assumes "distinct_steps w" "distinct (map ws_Name (wf_Steps w))" "creates_jobs (x_api x)"
    and "agents_cached w cache (set (findExecutableSteps w (map fst jobs)))"
    and "n \<in> set (findExecutableSteps w (map fst jobs))" "getStepByName w n = Some step"
  shows "parallelism_of w \<le> la_running (launch_steps x cache runID jobs changed w s) \<and>
      status_of (la_wf (launch_steps x cache runID jobs changed w s)) n = status_of w n \<or>
    has_status (la_wf (launch_steps x cache runID jobs changed w s)) n
      (launch_phase w (getStepOutputs x w s) (cache n) step)"
  using assms by (rule launch_steps_phases)

lemma list_creates_jobs: "creates_jobs list_api"
  by (auto simp: creates_jobs_def list_api_def)

lemma no_step_passed_over_witness:
  "has_status (la_wf (launch_steps list_ctx [''a'' \<mapsto> plain_agent, ''c'' \<mapsto> plain_agent] ''r1'' [] False
     (plain_workflow [plain_step ''a'' [], plain_step ''b'' [''a'']] []) (list_rt no_cluster))) ''a'' ''Running''"
proof -
  let ?w = "plain_workflow [plain_step ''a'' [], plain_step ''b'' [''a'']] []" and ?c = "[''a'' \<mapsto> plain_agent, ''c'' \<mapsto> plain_agent]"
  have ex: "findExecutableSteps ?w (map fst ([] :: (string \<times> Job) list)) = [''a'']" by code_simp
  have run: "la_running (launch_steps list_ctx ?c ''r1'' [] False ?w (list_rt no_cluster)) = 1" "parallelism_of ?w = 2"
    by code_simp+
  have step: "getStepByName ?w ''a'' = Some (plain_step ''a'' [])"
    by (simp add: getStepByName_def plain_workflow_def plain_spec_def plain_step_def)
  have phase: "launch_phase ?w out (?c ''a'') (plain_step ''a'' []) = ''Running''" for out
    by (simp add: launch_phase_def plain_step_def plain_agent_def needs_approval_def)
  have "distinct_steps ?w" "distinct (map ws_Name (wf_Steps ?w))" "creates_jobs (x_api list_ctx)"
    by (simp_all add: distinct_steps_def plain_workflow_def plain_spec_def plain_step_def zero_status_def list_creates_jobs list_ctx_def)
  moreover have "agents_cached ?w ?c {''a''}" using step by (simp add: agents_cached_def)
  ultimately show ?thesis
    using no_step_passed_over [of ?w list_ctx ?c "[]" "''a''" "plain_step ''a'' []" "''r1''" False "list_rt no_cluster"]
      ex run step phase by simp
qed

end
