(* ===== verification/Run_Completion.thy ===== *)
theory Run_Completion imports Run_Invariant Webhook_Properties Launch_Liveness begin

text \<open>
  A run that goes well ends well: an admitted workflow whose jobs complete is brought to \<open>Succeeded\<close>.  Each
  reconcile keeps the run on course (preservation) and either ends it, sets it up (finalizer and run id) or gives one
  more step a status (progress), so that three reconciles more than there are steps are enough.
\<close>

section \<open>Rounds\<close>

text \<open>A reconcile meets its context (clock, API, caches) and the state of the cluster and the stores.\<close>

type_synonym 'c meeting = "'c ctx \<times> 'c rt"

definition reconcile_found :: "'c meeting \<Rightarrow> Workflow \<Rightarrow> 'c step" where
  "reconcile_found r w = and_then (reconcile_deletion (fst r) w (snd r)) (reconcile_active (fst r))"

text \<open>
  The workflow as the reconcile leaves it, when its writes are accepted.  A reconcile that asks for another at once has
  written the object, for its finalizer or its run id; that write does not store the status, which is a subresource.
\<close>

definition after_reconcile :: "'c meeting \<Rightarrow> Workflow \<Rightarrow> Workflow" where
  "after_reconcile r w =
     (case reconcile_found r w of (out, w1, _) \<Rightarrow>
        if out = Some Requeue then map_meta (\<lambda>_. wf_Meta w1) w else w1)"

text \<open>The reconciles of a workflow, until it has ended.\<close>

fun drive :: "'c meeting list \<Rightarrow> Workflow \<Rightarrow> Workflow" where
  "drive [] w = w"
| "drive (r # rs) w = (if terminal_phase (wf_Phase w) then w else drive rs (after_reconcile r w))"

text \<open>The agent of each step may start: no approval is needed, or it is given.\<close>

definition may_start :: "(string \<rightharpoonup> Agent) \<Rightarrow> Workflow \<Rightarrow> bool" where
  "may_start cache w \<longleftrightarrow>
     list_all (\<lambda>step. case cache (ws_Name step) of
         None \<Rightarrow> True
       | Some agent \<Rightarrow> needs_approval agent \<longrightarrow> approval_phase w (ws_Name step) = ''Running'') (wf_Steps w)"

text \<open>Every job has completed, and every running step has one.\<close>

definition jobs_succeed :: "(string \<times> Job) list \<Rightarrow> Workflow \<Rightarrow> bool" where
  "jobs_succeed jobs w \<longleftrightarrow>
     list_all (\<lambda>(_, j). isJobComplete j \<and> jo_Active j \<le> 0) jobs \<and>
     list_all (\<lambda>ss. ss_Phase ss = ''Running'' \<longrightarrow> ss_Name ss \<in> fst ` set jobs) (wf_StepStatuses w)"

text \<open>Neither the timeout nor the concurrency policy ends or holds back the run.\<close>

definition let_through :: "'c meeting \<Rightarrow> Workflow \<Rightarrow> bool" where
  "let_through r w \<longleftrightarrow> fst (reconcile_timeout (fst r) w (snd r)) = None \<and> fst (reconcile_concurrency (fst r) w (snd r)) = None"

text \<open>The agents and the jobs that the reconcile finds; the jobs are those of steps, and there is room for their statuses.\<close>

definition meets_agents_and_jobs :: "'c meeting \<Rightarrow> Workflow \<Rightarrow> bool" where
  "meets_agents_and_jobs r w \<longleftrightarrow>
     (case reconcile_prepare (fst r) w (snd r) of
        (None, w1, s1) \<Rightarrow>
          (case (find_agents (fst r) w1 s1 (wf_Steps w1) Map.empty, getWorkflowJobs (fst r) w1 s1) of
             (Inr cache, Inr jobs) \<Rightarrow> may_start cache w1 \<and> jobs_succeed jobs w1 \<and> listing_ok (fst r) w1 s1
           | _ \<Rightarrow> False)
      | _ \<Rightarrow> False)"

text \<open>What a reconcile needs so that the run can go on.\<close>

definition serves :: "'c api \<Rightarrow> bool" where
  "serves api \<longleftrightarrow> creates_jobs api \<and> (\<forall>c v. fst (k_status_wf api c v) = None) \<and> (\<forall>c v. fst (k_update_wf api c v) = None)"

text \<open>
  Finalizers are lists of names in the metadata: one that is added is there, and the rest of the metadata that matters
  here is neither changed by it nor decides on it.
\<close>

definition finalizer_laws :: "(ObjectMeta \<Rightarrow> string \<Rightarrow> bool) \<Rightarrow> (ObjectMeta \<Rightarrow> string \<Rightarrow> ObjectMeta) \<Rightarrow> bool" where
  "finalizer_laws has add \<longleftrightarrow>
     (\<forall>m f. has (add m f) f \<and> om_Annotations (add m f) = om_Annotations m) \<and>
     (\<forall>m f a. has (m\<lparr>om_Annotations := a\<rparr>) f = has m f)"

text \<open>The workflow is neither a template nor to be deleted or cancelled; a reconcile that gets past the set-up meets the rest.\<close>

definition cooperates :: "'c meeting \<Rightarrow> Workflow \<Rightarrow> bool" where
  "cooperates r w \<longleftrightarrow> serves (x_api (fst r)) \<and> om_DeletionTimestamp (wf_Meta w) = None \<and>
     \<not> annotated ''purko.io/template'' w \<and> \<not> annotated ''purko.io/cancel'' w \<and>
     (x_has_finalizer (fst r) (wf_Meta w) workflowFinalizer \<longrightarrow> let_through r w \<and>
        (wf_Annotation w run_id_key \<noteq> [] \<longrightarrow> meets_agents_and_jobs r w))"

fun cooperation :: "'c meeting list \<Rightarrow> Workflow \<Rightarrow> bool" where
  "cooperation [] w = True"
| "cooperation (r # rs) w \<longleftrightarrow>
     terminal_phase (wf_Phase w) \<or> cooperates r w \<and> cooperation rs (after_reconcile r w)"

section \<open>On course\<close>

abbreviation course_phases :: "string list" where
  "course_phases \<equiv> ''Running'' # done_phases"

definition on_course :: "Workflow \<Rightarrow> bool" where
  "on_course w \<longleftrightarrow> run_inv w \<and> (wf_Phase w = ''Pending'' \<or> wf_Phase w = ''Running'') \<and> wt_FailedSteps (wf_Status w) = 0 \<and>
     (\<forall>n ss. status_of w n = Some ss \<longrightarrow> ss_Phase ss \<in> set course_phases)"

text \<open>The steps that have no status yet.\<close>

definition steps_left :: "Workflow \<Rightarrow> string set" where
  "steps_left w = {n \<in> ws_Name ` set (wf_Steps w). status_of w n = None}"

lemma steps_left_finite [simp]: "finite (steps_left w)"
  by (simp add: steps_left_def)

lemma prepare_workflow:
  assumes "reconcile_prepare x w s = (None, w1, s1)"
  shows "\<exists>s0. w1 = fst (init_status x w s0)"
proof -
  have "reconcile_timeout x w s = (None, w', s') \<Longrightarrow> w' = w" for w' s'
    by (auto simp: reconcile_timeout_def end_with_def Let_def split: option.splits if_splits prod.splits)
  moreover have "reconcile_init x w s = (None, w', s') \<Longrightarrow> w' = fst (init_status x w s)" for w' s s'
    by (auto simp: reconcile_init_def Let_def split: if_splits prod.splits)
  ultimately show ?thesis
    using assms unfolding reconcile_prepare_def and_then_def
    by (auto dest!: concurrency_inv split: prod.splits option.splits)
qed

lemma prepare_frame:
  assumes "reconcile_prepare x w s = (None, w1, s1)"
  shows "wf_Spec w1 = wf_Spec w" "wf_Meta w1 = wf_Meta w" "wf_StepStatuses w1 = wf_StepStatuses w" "on_course w \<Longrightarrow> w1 = w"
    "wf_Phase w = [] \<Longrightarrow> wf_Phase w1 = ''Pending'' \<and> wt_FailedSteps (wf_Status w1) = 0"
  using prepare_workflow [OF assms] by (auto simp: init_status_def on_course_def)

section \<open>The loop over the jobs\<close>

lemma sync_jobs_subset: "set (sy_jobs (syncJobs x w jobs s)) \<subseteq> set jobs"
proof -
  have assign: "sy_jobs (assign p ss y) = sy_jobs y" for p ss and y :: "'a sync"
    by (simp add: assign_def split: ptr.split option.split)
  have ensure: "sy_jobs (fst (ensure_ptr x n y)) = sy_jobs y" for n y
    by (simp add: ensure_ptr_def Let_def split_def)
  have run: "set (sy_jobs (sync_running x n job p y)) \<subseteq> set (sy_jobs y)" for n job p y
    by (auto simp: sync_running_def sync_succeeded_def sync_failed_def Let_def assign split: prod.split)
  have adopt: "sy_jobs (fst (adopt_job x n job y)) = sy_jobs y" for n job y
    using ensure [of n y] by (simp add: adopt_job_def Let_def assign split_def)
  have "set (sy_jobs (sync_one x ix nj y)) \<subseteq> set (sy_jobs y)" for ix nj y
    using run [of "fst nj" "snd nj"] adopt [of "fst nj" "snd nj" y]
    by (cases "ix (fst nj)") (auto simp: sync_one_def split_def Let_def dest!: subsetD [OF run])
  then have "set (sy_jobs (foldl (\<lambda>y nj. sync_one x ix nj y) y njs)) \<subseteq> set (sy_jobs y)" for ix njs y
    by (induction njs arbitrary: y) force+
  then show ?thesis by (force simp: syncJobs_def sync_start_def Let_def)
qed

lemma expected_done:
  assumes "expected x w (map_of jobs) n = Some (p, r)" "jobs_succeed jobs w" "distinct_steps w"
    and "\<And>ss. status_of w n = Some ss \<Longrightarrow> ss_Phase ss \<in> set course_phases"
  shows "p \<in> set done_phases"
proof -
  have job: "isJobComplete j" if "map_of jobs n = Some j" for j
    using map_of_SomeD [OF that] assms(2) by (auto simp: jobs_succeed_def list_all_iff)
  have run: "map_of jobs n \<noteq> None" if "status_of w n = Some ss" "ss_Phase ss = ''Running''" for ss
    using assms(2) that status_of_SomeD [OF that(1)] by (auto simp: jobs_succeed_def list_all_iff map_of_eq_None_iff)
  show ?thesis
    using assms(1,4) job run
    by (auto simp: expected_def settle_def Let_def adopted_def zero_step_status_def split: option.splits if_splits)
qed

lemma sync_course:
  assumes "on_course w" "getWorkflowJobs x w s = Inr jobs" "listing_ok x w s" "jobs_succeed jobs w"
  defines "v \<equiv> sy_wf (syncJobs x w jobs s)"
  shows "on_course v" "wf_Spec v = wf_Spec w" "wf_Meta v = wf_Meta w" "steps_left v \<subseteq> steps_left w"
    "status_of v n = Some ss \<Longrightarrow> ss_Phase ss \<in> set done_phases"
    "n \<in> set (map fst (sy_jobs (syncJobs x w jobs s))) \<Longrightarrow> status_of v n \<noteq> None"
    "running_jobs (sy_jobs (syncJobs x w jobs s)) = 0"
proof -
  have inv: "run_inv w" "wf_Phase w = ''Pending'' \<or> wf_Phase w = ''Running''" and d: "distinct_steps w"
    using assms(1) by (auto simp: on_course_def run_inv_def named_steps_def)
  note I = sync_inv [OF inv assms(2,3), folded v_def]
  have dj: "distinct (map fst jobs)"
    using assms(2) by (auto simp: getWorkflowJobs_def job_map_distinct split: sum.splits)
  have ls: "mset (x_order x jobs) = mset jobs"
    "length (filter (\<lambda>(n, _). n \<notin> step_names w) jobs) \<le> x_spare x (length (wf_StepStatuses w))"
    using assms(2,3) by (simp_all add: listing_ok_def)
  note S = syncJobs_spec [OF d dj ls, where s = s, folded v_def]
  show fr: "wf_Spec v = wf_Spec w" "wf_Meta v = wf_Meta w" using S(2) by (simp_all add: same_frame_def)
  have phases: "ss_Phase ss \<in> set done_phases" if "status_of v n = Some ss" for n ss
  proof (rule expected_done [OF _ assms(4) d])
    show "expected x w (map_of jobs) n = Some (core_of ss)" using S(4) [of n] that by simp
  qed (use assms(1) in \<open>auto simp: on_course_def\<close>)
  show "status_of v n = Some ss \<Longrightarrow> ss_Phase ss \<in> set done_phases" by (rule phases)
  have some: "status_of v n \<noteq> None \<longleftrightarrow> status_of w n \<noteq> None \<or> map_of jobs n \<noteq> None" for n
    using S(4) [of n] by (auto simp: expected_def split: option.splits)
  then have "status_of v n = None \<Longrightarrow> status_of w n = None" for n by metis
  then show "steps_left v \<subseteq> steps_left w" using fr(1) by (auto simp: steps_left_def)
  have failed: "count_phase [''Failed''] u = 0"
    if "distinct_steps u" "\<And>n ss. status_of u n = Some ss \<Longrightarrow> ss_Phase ss \<noteq> ''Failed''" for u
    using that status_of_in by (fastforce simp: count_phase_def filter_empty_conv)
  have "count_phase [''Failed''] w = 0" "count_phase [''Failed''] v = 0"
    using assms(1) phases S(1) d by (intro failed; fastforce simp: on_course_def)+
  then have "wt_FailedSteps (wf_Status v) = 0" using S(3) assms(1) by (simp add: same_balance_def on_course_def)
  then show "on_course v" using I inv(2) phases by (auto simp: on_course_def)
  note sub = sync_jobs_subset [of x w jobs s]
  show "n \<in> set (map fst (sy_jobs (syncJobs x w jobs s))) \<Longrightarrow> status_of v n \<noteq> None"
    using sub some [of n] by (fastforce simp: map_of_eq_None_iff)
  have "filter (\<lambda>(_, j). 0 < jo_Active j) (sy_jobs (syncJobs x w jobs s)) = []"
    using sub assms(4) by (fastforce simp: filter_empty_conv jobs_succeed_def list_all_iff)
  then show "running_jobs (sy_jobs (syncJobs x w jobs s)) = 0" by (simp add: running_jobs_def)
qed

section \<open>The loop over the executable steps\<close>

lemma find_agents_cached:
  "find_agents x w s steps c = Inr cache \<Longrightarrow>
   (\<forall>step \<in> set steps. ar_Name (ws_AgentRef step) \<noteq> [] \<longrightarrow> cache (ws_Name step) \<noteq> None) \<and> dom c \<subseteq> dom cache"
  by (induction steps arbitrary: c) (fastforce simp: Let_def split: if_splits sum.splits)+

lemma with_step_failed: "wt_FailedSteps (wf_Status (with_step_status n f w)) = wt_FailedSteps (wf_Status w)"
  by (auto simp: with_step_status_def ensureStepStatus_def split: option.split)

lemma launch_one_failed:
  "wt_FailedSteps (wf_Status (la_wf (launch_one x r outs n l))) = wt_FailedSteps (wf_Status (la_wf l))"
proof -
  have close: "wt_FailedSteps (wf_Status (la_wf (close_step x n p l))) = wt_FailedSteps (wf_Status (la_wf l))" for p
    by (simp add: close_step_def with_step_failed)
  have check: "wt_FailedSteps (wf_Status (la_wf l1)) = wt_FailedSteps (wf_Status (la_wf l))"
    if "check_approval agent n l = (go, l1)" for agent go l1
    using that by (auto simp: check_approval_def ensureStepStatus_def Let_def split: if_splits option.splits)
  have start: "wt_FailedSteps (wf_Status (la_wf (start_job x r outs step agent l1))) = wt_FailedSteps (wf_Status (la_wf l1))"
    for step agent and l1 :: "'a launch"
  proof -
    obtain block agent1 l2 where rc: "recall_for x r agent step (buildStepInput (la_wf l1) step outs) l1
        = (block, agent1, l2)" by (metis prod.exhaust)
    show ?thesis using recall_for_ok(1) [OF rc]
      by (simp add: start_job_def Let_def rc mark_running_def with_step_failed split_def)
  qed
  show ?thesis using close check start by (simp add: launch_one_def split: option.split prod.split)
qed

lemma launch_all_failed:
  "wt_FailedSteps (wf_Status (la_wf (launch_all x r outs par ns l))) = wt_FailedSteps (wf_Status (la_wf l))"
  by (induction ns arbitrary: l) (simp_all add: launch_one_failed)

lemma all_done_counts:
  assumes "distinct_steps w" "distinct (map ws_Name (wf_Steps w))" "steps_in ps w"
  shows "int (length (wf_Steps w)) \<le> count_phase ps w"
proof -
  let ?F = "filter (\<lambda>ss. ss_Phase ss \<in> set ps) (wf_StepStatuses w)"
  have "set (map ws_Name (wf_Steps w)) \<subseteq> ss_Name ` set ?F"
  proof
    fix n assume "n \<in> set (map ws_Name (wf_Steps w))"
    then obtain ss where "status_of w n = Some ss" "ss_Phase ss \<in> set ps" using assms(3) by (auto simp: steps_in_iff)
    then show "n \<in> ss_Name ` set ?F" using status_of_SomeD [of w n ss] by auto
  qed
  then have "card (set (map ws_Name (wf_Steps w))) \<le> card (set ?F)"
    by (meson List.finite_set card_image_le card_mono finite_imageI le_trans)
  then show ?thesis
    using assms(2) card_length [of ?F] distinct_card [OF assms(2)] by (simp add: count_phase_def)
qed

lemma launch_phase_course:
  assumes "may_start cache w" "getStepByName w n = Some step" "ar_Name (ws_AgentRef step) \<noteq> [] \<longrightarrow> cache n \<noteq> None"
  shows "launch_phase w outs (cache n) step \<in> set course_phases"
proof -
  note nm = getStepByName_name [OF assms(2)]
  then have "needs_approval agent \<longrightarrow> approval_phase w (ws_Name step) = ''Running''" if "cache n = Some agent" for agent
    using assms(1) that by (fastforce simp: may_start_def list_all_iff)
  then show ?thesis using assms(3) nm by (auto simp: launch_phase_def split: if_splits)
qed

lemma launch_course:
  fixes x :: "'c ctx" and s :: "'c rt" and changed :: bool and r :: string
  assumes "on_course w" "\<And>n ss. status_of w n = Some ss \<Longrightarrow> ss_Phase ss \<in> set done_phases"
    and "well_formed client ns w" "\<not> all_finished w" "0 < parallelism_of w" "creates_jobs (x_api x)"
    and "find_agents x w' s' (wf_Steps w) Map.empty = Inr cache" "may_start cache w"
    and "\<And>n. n \<in> set (map fst jobs) \<Longrightarrow> status_of w n \<noteq> None" "running_jobs jobs = 0"
  defines "v \<equiv> la_wf (launch_steps x cache r jobs changed w s)"
  shows "wt_FailedSteps (wf_Status v) = 0" "status_of v n = Some ss \<Longrightarrow> ss_Phase ss \<in> set course_phases"
    "steps_left v \<subset> steps_left w"
proof -
  let ?l = "launch_steps x cache r jobs changed w s" and ?ns = "findExecutableSteps w (map fst jobs)"
  have d: "distinct_steps w" "distinct (map ws_Name (wf_Steps w))"
    and cnt: "counted w" "wt_TotalSteps (wf_Status w) = int (length (wf_Steps w))" "wt_FailedSteps (wf_Status w) = 0"
    using assms(1) by (auto simp: on_course_def run_inv_def named_steps_def phase_inv_def)
  show "wt_FailedSteps (wf_Status v) = 0" using cnt(3) by (simp add: v_def launch_steps_def launch_all_failed launch_start_def)
  have phase: "has_phase ps w n \<longleftrightarrow> (\<exists>ss. status_of w n = Some ss \<and> ss_Phase ss \<in> set ps)" for ps n
    by (rule has_phase_status [OF d(1)])
  have "\<exists>step \<in> set (wf_Steps w). \<not> step_finished w (ws_Name step)"
  proof (rule ccontr)
    assume "\<not> ?thesis"
    then have "steps_in done_phases w" unfolding steps_in_iff phase using assms(2) by blast
    from all_done_counts [OF d this] show False using assms(4) cnt by (simp add: all_finished_def counted_def)
  qed
  moreover have shape: "acyclic (depends (wf_Steps w))"
    "\<forall>s \<in> set (wf_Steps w). set (ws_DependsOn s) \<subseteq> ws_Name ` set (wf_Steps w)"
    using assms(3) by (auto simp: well_formed_def Let_def)
  ultimately have "?ns \<noteq> []"
    using shape
  proof (elim bexE, intro some_step_ready)
    show "wf_Strategy w = ''continueOnError'' \<or> (\<forall>n. \<not> has_phase [''Failed''] w n)"
      using assms(2) by (auto simp: phase dest!: assms(2))
    show "\<not> has_phase [''Running''] w n" for n using assms(2) [of n] by (auto simp: phase)
    show "step_finished w n" if "n \<in> set (map fst jobs)" for n
      using assms(9) [OF that] assms(2) [of n] by (auto simp: phase)
  qed
  have named: "\<exists>step. getStepByName w n = Some step" if n: "n \<in> set ?ns" for n
  proof -
    obtain step where "step \<in> set (wf_Steps w)" "ws_Name step = n" using executable_open(2) [OF d(1) n] by auto
    then show ?thesis by (cases "getStepByName w n") (auto simp: getStepByName_def find_None_iff)
  qed
  have known: "ar_Name (ws_AgentRef step) \<noteq> [] \<longrightarrow> cache n \<noteq> None" if "getStepByName w n = Some step" for n step
    using find_agents_cached [OF assms(7)] getStepByName_name [OF that] by auto
  then have cached: "agents_cached w cache (set ?ns)" unfolding agents_cached_def using named by meson
  have launch: "parallelism_of w \<le> la_running ?l \<and> status_of v n = status_of w n \<or>
      (\<exists>ss. status_of v n = Some ss \<and> ss_Phase ss \<in> set course_phases)" if n: "n \<in> set ?ns" for n
  proof -
    obtain step where step: "getStepByName w n = Some step" using named n by blast
    from launch_steps_phases [OF d assms(6) cached n step] launch_phase_course [OF assms(8) step known [OF step]]
    show ?thesis unfolding v_def has_status_def by metis
  qed
  have L: "launched (set ?ns) (launch_start w jobs changed cache s) ?l" by (rule launch_steps_ok(1) [OF d])
  then have fr: "wf_Spec v = wf_Spec w" "distinct_steps v" and other: "n \<notin> set ?ns \<Longrightarrow> status_of v n = status_of w n" for n
    by (simp_all add: v_def launched_def launch_start_def same_frame_def)
  show "ss_Phase ss \<in> set course_phases" if "status_of v n = Some ss" for n ss
    using that launch [of n] other [of n] assms(2) [of n ss] by (cases "n \<in> set ?ns") auto
  have idle: "status_of w n = None" if "n \<in> set ?ns" for n
    using executable_open(1) [OF d(1) that] assms(2) [of n]
    by (cases "status_of w n") (auto simp: open_step_def status_or_new_def)
  have some: "\<exists>n \<in> set ?ns. status_of v n \<noteq> None"
  proof (rule ccontr)
    assume none: "\<not> ?thesis"
    then have same: "status_of v n = status_of w n" for n using other idle by (cases "n \<in> set ?ns") auto
    obtain n where n: "n \<in> set ?ns" using \<open>?ns \<noteq> []\<close> by (meson list.set_sel(1))
    then have "0 < la_running ?l" using launch [OF n] none assms(5) by auto
    moreover have "count_phase [''Running''] v = count_phase [''Running''] w + la_running ?l"
      using L assms(10) by (simp add: launched_def surplus_def launch_start_def v_def)
    ultimately have "0 < count_phase [''Running''] v" by (simp add: count_phase_def)
    then obtain ss where "ss \<in> set (wf_StepStatuses v)" "ss_Phase ss = ''Running''"
      by (auto simp: count_phase_def filter_empty_conv)
    then show False using status_of_in [OF fr(2)] same assms(2) by fastforce
  qed
  have "steps_left v \<subseteq> steps_left w"
  proof
    fix n assume "n \<in> steps_left v"
    then show "n \<in> steps_left w" using other [of n] idle [of n] fr(1) by (cases "n \<in> set ?ns") (auto simp: steps_left_def)
  qed
  moreover obtain n where "n \<in> set ?ns" "status_of v n \<noteq> None" using some by blast
  then have "n \<in> steps_left w - steps_left v"
    using idle executable_open(2) [OF d(1)] by (auto simp: steps_left_def)
  ultimately show "steps_left v \<subset> steps_left w" by blast
qed

section \<open>Progress and preservation\<close>

definition succeeded :: "Workflow \<Rightarrow> bool" where
  "succeeded w \<longleftrightarrow> wf_Phase w = ''Succeeded'' \<and> steps_in done_phases w"

text \<open>A reconcile that finds all steps finished ends the run; another one launches and goes on.\<close>

lemma finished_succeeds:
  assumes "on_course w" "all_finished w" "reconcile_finished x jobs w s = (out, w', s')"
  shows "out \<noteq> None" "succeeded w'" "wf_Spec w' = wf_Spec w" "out \<noteq> Some Requeue" "wf_Meta w' = wf_Meta w"
proof -
  have i: "run_inv w" "wf_Phase w = ''Pending'' \<or> wf_Phase w = ''Running''" using assms(1) by (auto simp: on_course_def)
  show "out \<noteq> None" using assms(2,3)
    by (auto simp: reconcile_finished_def Let_def split: prod.splits option.splits)
  have "wf_Phase w' = ''Succeeded''"
    using assms by (auto simp: reconcile_finished_def Let_def completionPhase_def on_course_def
        dest!: setPhase_result split: prod.splits option.splits)
  then show "succeeded w'" using finished_inv(1) [OF assms(3) i] by (simp add: succeeded_def run_inv_def phase_inv_def)
  show "wf_Spec w' = wf_Spec w" "out \<noteq> Some Requeue" "wf_Meta w' = wf_Meta w" using assms(2,3)
    by (auto simp: reconcile_finished_def Let_def dest!: setPhase_result split: prod.splits option.splits)
qed

lemma status_of_phase [simp]: "status_of (with_phase x p r m w) n = status_of w n"
  "status_of (upd_status (\<lambda>st. st\<lparr>wt_ObservedGeneration := g\<rparr>) w) n = status_of w n"
  by (simp_all add: status_of_def)

lemma launch_result:
  assumes "reconcile_launch x cache r jobs changed w s = (out, w', s')" "wf_Phase w = ''Pending'' \<or> wf_Phase w = ''Running''"
    and "distinct_steps w" "distinct (map ws_Name (wf_Steps w))"
  defines "v \<equiv> la_wf (launch_steps x cache r jobs changed w s)"
  shows "wf_Phase w' = ''Pending'' \<or> wf_Phase w' = ''Running''" "wf_Spec w' = wf_Spec w"
    "wt_FailedSteps (wf_Status w') = wt_FailedSteps (wf_Status v)" "status_of w' n = status_of v n"
    "steps_left w' = steps_left v" "out \<noteq> Some Requeue" "wf_Meta w' = wf_Meta w"
proof -
  show "out \<noteq> Some Requeue" using assms(1) by (auto simp: reconcile_launch_def Let_def split: if_splits prod.splits)
  have "same_frame w v" using launch_steps_ok(1) [OF assms(3,4), of jobs changed cache s x r]
    by (simp add: v_def launched_def launch_start_def)
  moreover have "w' = v \<or> (\<exists>p q. w' = with_phase x ''Running'' p q
      (upd_status (\<lambda>st. st\<lparr>wt_ObservedGeneration := om_Generation (wf_Meta v)\<rparr>) v))"
    using assms(1) by (auto simp: reconcile_launch_def v_def Let_def dest!: setPhase_result split: if_splits prod.splits)
  ultimately show "wf_Phase w' = ''Pending'' \<or> wf_Phase w' = ''Running''" "wf_Spec w' = wf_Spec w"
    "wt_FailedSteps (wf_Status w') = wt_FailedSteps (wf_Status v)" "status_of w' n = status_of v n"
    "steps_left w' = steps_left v" "wf_Meta w' = wf_Meta w"
    using assms(2) by (auto simp: same_frame_def with_phase_def status_of_def steps_left_def)
qed

abbreviation shaped :: "Workflow \<Rightarrow> bool" where
  "shaped w \<equiv> (\<exists>client ns. well_formed client ns w) \<and> 0 < parallelism_of w"

lemma run_progress:
  assumes "on_course w" "shaped w" "creates_jobs (x_api x)" "listing_ok x w s"
    and "find_agents x w s (wf_Steps w) Map.empty = Inr cache" "may_start cache w"
    and "getWorkflowJobs x w s = Inr jobs" "jobs_succeed jobs w"
    and "reconcile_run x cache w s = (out, w', s')"
  shows "out \<noteq> Some Requeue \<and> wf_Meta w' = wf_Meta w \<and> wf_Spec w' = wf_Spec w \<and> (succeeded w' \<or> on_course w' \<and> card (steps_left w') < card (steps_left w))"
proof -
  let ?y = "syncJobs x w jobs s" and ?r = "wf_Annotation w run_id_key"
  let ?v = "sy_wf ?y"
  note S = sync_course [OF assms(1,7,4,8)]
  have ph: "wf_Phase ?v = ''Pending'' \<or> wf_Phase ?v = ''Running''" and inv: "run_inv w"
    "wf_Phase w = ''Pending'' \<or> wf_Phase w = ''Running''"
    using S(1) assms(1) by (auto simp: on_course_def)
  have d: "distinct_steps ?v" "distinct (map ws_Name (wf_Steps ?v))"
    using S(1) by (auto simp: on_course_def run_inv_def named_steps_def)
  have "reconcile_failure x cache ?r ?v (sy_rt ?y) = (None, ?v, sy_rt ?y)"
    using S(1) by (simp add: reconcile_failure_def on_course_def)
  then have run: "and_then (reconcile_finished x (sy_jobs ?y) ?v (sy_rt ?y)) (\<lambda>w1 s1.
      reconcile_launch x cache ?r (sy_jobs ?y) (sy_changed ?y) w1 s1) = (out, w', s')"
    using assms(7,9) by (simp add: reconcile_run_def Let_def and_then_def)
  show ?thesis
  proof (cases "all_finished ?v")
    case True
    from run show ?thesis
    proof (cases rule: and_thenE)
      case (stopped o1)
      then show ?thesis using finished_succeeds(2-5) [OF S(1) True stopped(1)] S(2,3) by simp
    next
      case (went_on w2 s2)
      then show ?thesis using finished_succeeds(1) [OF S(1) True went_on(1)] by simp
    qed
  next
    case False
    then have l: "reconcile_launch x cache ?r (sy_jobs ?y) (sy_changed ?y) ?v (sy_rt ?y) = (out, w', s')"
      using run by (simp add: reconcile_finished_def and_then_def)
    note R = launch_result [OF l ph d]
    obtain client ns where shape: "well_formed client ns ?v" "0 < parallelism_of ?v"
      using assms(2) S(2) by (auto simp: well_formed_def parallelism_of_def)
    have approval: "approval_phase ?v = approval_phase w"
      using S(3) by (simp add: fun_eq_iff approval_phase_def)
    have agents: "find_agents x w s (wf_Steps ?v) Map.empty = Inr cache" "may_start cache ?v"
      using assms(5,6) S(2) approval by (simp_all add: may_start_def cong: option.case_cong)
    note L = launch_course [OF S(1) S(5) shape(1) False shape(2) assms(3) agents S(6,7),
        where r = ?r and changed = "sy_changed ?y" and s = "sy_rt ?y"]
    have "run_inv w'" by (rule run_part_inv [OF assms(9) inv assms(4)])
    then have "on_course w'" using R L(1,2) by (auto simp: on_course_def)
    moreover have "steps_left w' \<subset> steps_left w" unfolding R(5) by (rule psubset_subset_trans [OF L(3) S(4)])
    ultimately show ?thesis using R(2,6,7) S(2,3) by (auto intro: psubset_card_mono)
  qed
qed

definition under_way :: "Workflow \<Rightarrow> bool" where
  "under_way w \<longleftrightarrow> fresh_workflow w \<or> on_course w"

lemma prepared_course:
  assumes "under_way w" "reconcile_prepare x w s = (None, w1, s1)"
  shows "on_course w1" "steps_left w1 = steps_left w"
proof -
  note F = prepare_frame [OF assms(2)]
  show "steps_left w1 = steps_left w" using F(1,3) by (simp add: steps_left_def status_of_def)
  show "on_course w1"
  proof (cases "on_course w")
    case True
    then show ?thesis using F(4) by simp
  next
    case False
    then have f: "fresh_workflow w" using assms(1) by (simp add: under_way_def)
    then show ?thesis using F(3,5) prepare_inv(1) [OF assms(2) fresh_inv [OF f]]
      by (auto simp: on_course_def fresh_workflow_def status_of_def)
  qed
qed

text \<open>What is left of the set-up: the finalizer and the run id.\<close>

definition setup_left :: "(ObjectMeta \<Rightarrow> string \<Rightarrow> bool) \<Rightarrow> Workflow \<Rightarrow> nat" where
  "setup_left has w = (if has (wf_Meta w) workflowFinalizer then 0 else 1) + (if wf_Annotation w run_id_key = [] then 1 else 0)"

abbreviation left_over :: "(ObjectMeta \<Rightarrow> string \<Rightarrow> bool) \<Rightarrow> Workflow \<Rightarrow> nat" where
  "left_over has w \<equiv> setup_left has w + card (steps_left w)"

lemma meta_course [simp]: "under_way (map_meta f w) = under_way w" "steps_left (map_meta f w) = steps_left w"
  "wf_Spec (map_meta f w) = wf_Spec w"
  by (simp_all add: under_way_def fresh_workflow_def on_course_def steps_left_def status_of_def)
    (simp_all add: map_meta_def)

text \<open>The reconcile that adds the finalizer, and the one that sets the run id.\<close>

lemma finalizer_round:
  assumes "cooperates r w" "\<not> x_has_finalizer (fst r) (wf_Meta w) workflowFinalizer"
  shows "after_reconcile r w = map_meta (\<lambda>m. x_add_finalizer (fst r) m workflowFinalizer) w"
proof -
  have "fst (k_update_wf (x_api (fst r)) c v) = None" for c v using assms(1) by (simp add: cooperates_def serves_def)
  then have "fst (update_wf (fst r) v t) = None" for v t by (simp add: update_wf_def split_def)
  then show ?thesis using assms
    by (simp add: after_reconcile_def reconcile_found_def reconcile_deletion_def cooperates_def and_then_def ends_def
        map_meta_def Let_def split: prod.split)
qed

lemma run_id_round:
  assumes "cooperates r w" "x_has_finalizer (fst r) (wf_Meta w) workflowFinalizer" "wf_Annotation w run_id_key = []"
    and "under_way w"
  shows "\<exists>v. v \<noteq> [] \<and> after_reconcile r w = set_annotation run_id_key v w"
proof -
  obtain x s where r: "r = (x, s)" by (cases r)
  have upd: "fst (update_wf x v t) = None" for v t
    using assms(1) r by (simp add: cooperates_def serves_def update_wf_def split_def)
  have go: "\<not> terminal_phase (wf_Phase w)" "wf_Phase w \<noteq> ''RollingBack''"
    using assms(4) by (auto simp: under_way_def fresh_workflow_def on_course_def terminal_phase_def)
  have let1: "fst (reconcile_timeout x w s) = None" "fst (reconcile_concurrency x w s) = None"
    using assms(1,2) r by (simp_all add: cooperates_def let_through_def)
  have t: "reconcile_timeout x w s = (None, w, s)"
    using let1(1) by (auto simp: reconcile_timeout_def end_with_def Let_def split: option.splits if_splits prod.splits)
  obtain s1 where c: "reconcile_concurrency x w s = (None, w, s1)"
    using let1(2) concurrency_inv by (metis prod.collapse)
  have i: "\<exists>s2. reconcile_init x w s1 = (Some Requeue, set_annotation run_id_key
      (buildRunID (x_rand x) (om_UID (wf_Meta w))) (fst (init_status x w s1)), s2)"
    using assms(3) upd by (simp add: reconcile_init_def init_status_def ends_def split_def Let_def)
  have "\<exists>s2. reconcile_found r w = (Some Requeue, set_annotation run_id_key
      (buildRunID (x_rand x) (om_UID (wf_Meta w))) (fst (init_status x w s1)), s2)"
    using assms(1,2) go t c i r
    by (auto simp: reconcile_found_def reconcile_deletion_def reconcile_active_def reconcile_prepare_def cooperates_def
        and_then_def)
  then have "after_reconcile r w = set_annotation run_id_key (buildRunID (x_rand x) (om_UID (wf_Meta w))) w"
    by (auto simp: after_reconcile_def set_annotation_def map_meta_def init_status_def)
  moreover have "buildRunID (x_rand x) (om_UID (wf_Meta w)) \<noteq> []" by (simp add: buildRunID_def)
  ultimately show ?thesis by blast
qed

lemma round_progress:
  assumes "under_way w" "shaped w" "cooperates r w" "finalizer_laws has add"
    and "x_has_finalizer (fst r) = has" "x_add_finalizer (fst r) = add"
  defines "w' \<equiv> after_reconcile r w"
  shows "wf_Spec w' = wf_Spec w" "succeeded w' \<or> under_way w' \<and> left_over has w' < left_over has w"
proof -
  consider (finalizer) "\<not> has (wf_Meta w) workflowFinalizer"
    | (run_id) "has (wf_Meta w) workflowFinalizer" "wf_Annotation w run_id_key = []"
    | (ready) "has (wf_Meta w) workflowFinalizer" "wf_Annotation w run_id_key \<noteq> []" by blast
  then have "wf_Spec w' = wf_Spec w \<and> (succeeded w' \<or> under_way w' \<and> left_over has w' < left_over has w)"
  proof cases
    case finalizer
    then have "w' = map_meta (\<lambda>m. add m workflowFinalizer) w"
      using finalizer_round [OF assms(3)] assms(5,6) by (simp add: w'_def)
    then show ?thesis using finalizer assms(1,4)
      by (simp add: setup_left_def finalizer_laws_def) (simp add: map_meta_def)
  next
    case run_id
    then obtain v where "v \<noteq> []" "w' = set_annotation run_id_key v w"
      using run_id_round [OF assms(3)] assms(1,5) by (auto simp: w'_def)
    then show ?thesis using run_id assms(1,4)
      by (simp add: setup_left_def finalizer_laws_def set_annotation_def) (simp add: map_meta_def)
  next
    case ready
    obtain x s where r: "r = (x, s)" by (cases r)
    obtain w1 s1 cache jobs where prep: "reconcile_prepare x w s = (None, w1, s1)" and
      met: "creates_jobs (x_api x)" "find_agents x w1 s1 (wf_Steps w1) Map.empty = Inr cache"
        "getWorkflowJobs x w1 s1 = Inr jobs" "may_start cache w1" "jobs_succeed jobs w1" "listing_ok x w1 s1"
      and plain: "\<not> annotated ''purko.io/template'' w" "\<not> annotated ''purko.io/cancel'' w"
        "om_DeletionTimestamp (wf_Meta w) = None" "x_has_finalizer x (wf_Meta w) workflowFinalizer"
      using assms(3,5) ready r
      by (auto simp: cooperates_def serves_def meets_agents_and_jobs_def split: prod.splits option.splits sum.splits)
    have "\<not> terminal_phase (wf_Phase w)" "wf_Phase w \<noteq> ''RollingBack''"
      using assms(1) by (auto simp: under_way_def fresh_workflow_def on_course_def terminal_phase_def)
    then have found: "reconcile_found r w = reconcile_run x cache w1 s1"
      using plain prep met(2) r
      by (simp add: reconcile_found_def reconcile_deletion_def reconcile_active_def and_then_def reconcile_agents_def)
    moreover obtain out w2 s2 where run: "reconcile_run x cache w1 s1 = (out, w2, s2)" by (metis prod.exhaust)
    ultimately have w': "w' = (if out = Some Requeue then map_meta (\<lambda>_. wf_Meta w2) w else w2)"
      by (simp add: w'_def after_reconcile_def)
    note P = prepared_course [OF assms(1) prep] and F = prepare_frame(1,2) [OF prep]
    have "shaped w1" using assms(2) F by (auto simp: well_formed_def parallelism_of_def)
    note R = run_progress [OF P(1) this met(1,6,2,4,3,5) run]
    show ?thesis using R P(2) F by (auto simp: w' under_way_def setup_left_def)
  qed
  then show "wf_Spec w' = wf_Spec w" "succeeded w' \<or> under_way w' \<and> left_over has w' < left_over has w" by simp_all
qed

lemma drive_succeeds:
  assumes "finalizer_laws has add"
  shows "under_way w \<Longrightarrow> shaped w \<Longrightarrow> (\<forall>r \<in> set rs. x_has_finalizer (fst r) = has \<and> x_add_finalizer (fst r) = add) \<Longrightarrow>
    left_over has w < length rs \<Longrightarrow> cooperation rs w \<Longrightarrow> succeeded (drive rs w)"
proof (induction rs arbitrary: w)
  case (Cons r rs)
  let ?w' = "after_reconcile r w"
  have going: "\<not> terminal_phase (wf_Phase w)"
    using Cons.prems(1) by (auto simp: under_way_def fresh_workflow_def on_course_def terminal_phase_def)
  then have "cooperates r w" "cooperation rs ?w'" using Cons.prems(5) by simp_all
  note P = round_progress [OF Cons.prems(1,2) this(1) assms]
  have stop: "drive rs v = v" if "succeeded v" for v
    using that by (cases rs) (auto simp: succeeded_def terminal_phase_def)
  have "shaped ?w'" using Cons.prems(2,3) P(1) by (auto simp: well_formed_def parallelism_of_def)
  then have "succeeded (drive rs ?w')"
    using P(2) stop Cons.IH \<open>cooperation rs ?w'\<close> Cons.prems(3,4) by fastforce
  then show ?case using going by simp
qed simp

section \<open>An admitted run succeeds\<close>

text \<open>C2: A run that is admitted and goes well succeeds.  Take a workflow that passes admission, has no status yet (its
  finalizer and run id may be missing too) and allows at least one job at a time.  Let every reconcile meet an API server
  that accepts its writes and creates its jobs, and find a workflow that is not a template, to be deleted, cancelled,
  over its timeout or held back by its concurrency policy, with agents that can be read and may start, jobs of its own
  steps only, all completed, one for each running step, and room in the slice of statuses for those without a status.
  Then three reconciles more than there are steps bring the run to \<open>Succeeded\<close>, with every step succeeded or
  skipped.\<close>

theorem admitted_run_succeeds:
  assumes "is_allowed (handle_workflow order client ns (Inr w))" "\<And>xs. mset (order xs) = mset xs"
    and "fresh_workflow w" "0 < parallelism_of w" "length (wf_Steps w) + 2 < length rs" "cooperation rs w"
    and "finalizer_laws has add" "\<forall>r \<in> set rs. x_has_finalizer (fst r) = has \<and> x_add_finalizer (fst r) = add"
  shows "wf_Phase (drive rs w) = ''Succeeded'' \<and> steps_in [''Succeeded'', ''Skipped''] (drive rs w)"
proof -
  have "well_formed client ns w" using assms(1) handle_workflow_allowed structure_iff [OF assms(2)] by blast
  then have "shaped w" using assms(4) by blast
  moreover have "card (steps_left w) \<le> card (ws_Name ` set (wf_Steps w))"
    by (intro card_mono) (auto simp: steps_left_def)
  moreover have "card (ws_Name ` set (wf_Steps w)) \<le> length (wf_Steps w)"
    using card_image_le [of "set (wf_Steps w)" ws_Name] card_length [of "wf_Steps w"] by simp
  moreover have "setup_left has w \<le> 2" by (simp add: setup_left_def)
  ultimately show ?thesis
    using drive_succeeds [OF assms(7), of w rs] assms(3,5,6,8) by (simp add: under_way_def succeeded_def)
qed

text \<open>A step with an agent, then a notification, without finalizer and run id: two reconciles set the run up, and the fourth
  finds the job completed.\<close>

definition errand :: Workflow where
  "errand = (plain_workflow [plain_step ''a'' [], note_step ''b'' [''a'']] [])
     \<lparr>wf_Meta := empty_meta\<lparr>om_Name := ''flow'', om_Namespace := ''team''\<rparr>, wf_Status := zero_status\<rparr>"

definition errand_meeting :: "Job list \<Rightarrow> cluster meeting" where
  "errand_meeting jobs = (list_ctx, list_rt (no_cluster\<lparr>cl_agents := [plain_agent], cl_jobs := jobs\<rparr>))"

abbreviation errand_meetings :: "cluster meeting list" where
  "errand_meetings \<equiv> [errand_meeting [], errand_meeting [], errand_meeting [], errand_meeting [plain_job ''a'' ''Complete''],
     errand_meeting [plain_job ''a'' ''Complete'']]"

text \<open>The same test on the sample cluster, where the list of jobs is visited as it is.\<close>

definition list_finds :: "cluster meeting \<Rightarrow> Workflow \<Rightarrow> bool" where
  "list_finds r w \<longleftrightarrow>
     (case reconcile_prepare list_ctx w (snd r) of
        (None, w1, s1) \<Rightarrow>
          (case (find_agents list_ctx w1 s1 (wf_Steps w1) Map.empty, getWorkflowJobs list_ctx w1 s1) of
             (Inr cache, Inr jobs) \<Rightarrow> may_start cache w1 \<and> jobs_succeed jobs w1 \<and>
               list_all (\<lambda>(n, _). n \<in> set (map ws_Name (wf_Steps w1)) \<and> n \<in> step_names w1) jobs
           | _ \<Rightarrow> False)
      | _ \<Rightarrow> False)"

definition list_meets :: "cluster meeting \<Rightarrow> Workflow \<Rightarrow> bool" where
  "list_meets r w \<longleftrightarrow> om_DeletionTimestamp (wf_Meta w) = None \<and>
     wf_Annotation w ''purko.io/template'' = [] \<and> wf_Annotation w ''purko.io/cancel'' = [] \<and>
     (workflowFinalizer \<notin> set (om_Finalizers (wf_Meta w)) \<or>
      let_through (list_ctx, snd r) w \<and> (wf_Annotation w run_id_key = [] \<or> list_finds r w))"

fun well_met :: "cluster meeting list \<Rightarrow> Workflow \<Rightarrow> bool" where
  "well_met [] w = True"
| "well_met (r # rs) w \<longleftrightarrow> list_meets r w \<and> well_met rs (after_reconcile r w)"

lemma errand_met: "well_met errand_meetings errand"
  by code_simp

lemma list_listing_ok:
  assumes "getWorkflowJobs list_ctx v s = Inr jobs"
    "list_all (\<lambda>(n, _). n \<in> set (map ws_Name (wf_Steps v)) \<and> n \<in> step_names v) jobs"
  shows "listing_ok list_ctx v s"
proof -
  have "filter (\<lambda>(n, _). n \<notin> step_names v) jobs = []" "fst ` set jobs \<subseteq> set (map ws_Name (wf_Steps v))"
    using assms(2) by (auto simp: list_all_iff filter_empty_conv)
  then show ?thesis using assms(1) by (simp add: listing_ok_def list_ctx_def)
qed

lemma list_meets_cooperates:
  assumes "fst r = list_ctx" "list_meets r w"
  shows "cooperates r w"
proof -
  have "serves (x_api list_ctx)" using list_creates_jobs by (simp add: serves_def list_api_def list_ctx_def)
  moreover have "x_has_finalizer list_ctx m f \<longleftrightarrow> f \<in> set (om_Finalizers m)" for m f by (simp add: list_ctx_def)
  moreover have "r = (list_ctx, snd r)" using assms(1) by (cases r) simp
  moreover have "meets_agents_and_jobs r w" if "list_finds r w"
    using that assms(1) list_listing_ok
    by (auto simp: meets_agents_and_jobs_def list_finds_def split: prod.splits option.splits sum.splits)
  ultimately show ?thesis using assms by (auto simp: cooperates_def list_meets_def)
qed

lemma list_cooperation: "(\<And>r. r \<in> set rs \<Longrightarrow> fst r = list_ctx) \<Longrightarrow> well_met rs w \<Longrightarrow> cooperation rs w"
  by (induction rs arbitrary: w) (simp_all add: list_meets_cooperates)

lemma list_finalizers: "finalizer_laws (x_has_finalizer list_ctx) (x_add_finalizer list_ctx)"
  by (simp add: finalizer_laws_def list_ctx_def)

lemma admitted_run_succeeds_witness:
  "wf_Phase (drive errand_meetings errand) = ''Succeeded'' \<and>
   steps_in [''Succeeded'', ''Skipped''] (drive errand_meetings errand)"
proof (rule admitted_run_succeeds [of rev None "''team''" _ _ "x_has_finalizer list_ctx" "x_add_finalizer list_ctx"])
  show "is_allowed (handle_workflow rev None ''team'' (Inr errand))" by code_simp
  show "cooperation errand_meetings errand"
    by (rule list_cooperation [OF _ errand_met]) (auto simp: errand_meeting_def)
  show "finalizer_laws (x_has_finalizer list_ctx) (x_add_finalizer list_ctx)" by (rule list_finalizers)
  show "\<forall>r \<in> set errand_meetings. x_has_finalizer (fst r) = x_has_finalizer list_ctx \<and>
      x_add_finalizer (fst r) = x_add_finalizer list_ctx" by (simp add: errand_meeting_def)
qed (simp_all add: errand_def fresh_workflow_def sample_defs note_step_def parallelism_of_def)

end
