(* ===== verification/Derived_Runs.thy ===== *)
theory Derived_Runs imports Webhook_Properties Run_Invariant Scheduler Cli_Workflow begin

text \<open>
  Runs made from a template.  The dashboard, the scheduler and the command line client each make a run by copying the
  specification and filling in inputs and parameters; none of that is anything the admission webhook looks at.
\<close>

section \<open>What admission looks at\<close>

definition same_step :: "WorkflowStep \<Rightarrow> WorkflowStep \<Rightarrow> bool" where
  "same_step s t \<longleftrightarrow> (\<exists>inp. t = s\<lparr>ws_Input := inp\<rparr>)"

definition same_shape :: "Workflow \<Rightarrow> Workflow \<Rightarrow> bool" where
  "same_shape w v \<longleftrightarrow> list_all2 same_step (wf_Steps w) (wf_Steps v) \<and> wp_Edges (wf_Spec v) = wp_Edges (wf_Spec w) \<and>
     wf_Strategy v = wf_Strategy w \<and> wp_Timeout (wf_Spec v) = wp_Timeout (wf_Spec w) \<and>
     wp_Parallelism (wf_Spec v) = wp_Parallelism (wf_Spec w)"

text \<open>A function of the steps that does not read their inputs gives the same on both.\<close>

lemma same_steps_map:
  assumes "list_all2 same_step ss ts" "\<And>s inp. f (s\<lparr>ws_Input := inp\<rparr>) = f s"
  shows "map f ts = map f ss"
  using assms(1) by (induction rule: list_all2_induct) (auto simp: same_step_def assms(2))

lemma same_steps_set:
  assumes "list_all2 same_step ss ts" "\<And>s inp. P (s\<lparr>ws_Input := inp\<rparr>) = P s"
  shows "(\<forall>t \<in> set ts. P t) \<longleftrightarrow> (\<forall>s \<in> set ss. P s)"
  using same_steps_map [OF assms] by (metis (no_types) in_set_conv_nth length_map nth_map)

lemma shape_well_formed:
  assumes "same_shape w v"
  shows "well_formed client ns v = well_formed client ns w"
proof -
  have st: "list_all2 same_step (wf_Steps w) (wf_Steps v)" using assms by (simp add: same_shape_def)
  have names: "map ws_Name (wf_Steps v) = map ws_Name (wf_Steps w)" by (rule same_steps_map [OF st]) simp
  then have nset: "ws_Name ` set (wf_Steps v) = ws_Name ` set (wf_Steps w)" by (metis list.set_map)
  have "map (\<lambda>s. (ws_Name s, ws_DependsOn s)) (wf_Steps v) = map (\<lambda>s. (ws_Name s, ws_DependsOn s)) (wf_Steps w)"
    by (rule same_steps_map [OF st]) simp
  then have "(\<lambda>s. (ws_Name s, ws_DependsOn s)) ` set (wf_Steps v) = (\<lambda>s. (ws_Name s, ws_DependsOn s)) ` set (wf_Steps w)"
    by (metis list.set_map)
  then have deps: "depends (wf_Steps v) = depends (wf_Steps w)"
    unfolding depends_def by (auto simp: image_iff set_eq_iff) (metis prod.inject)+
  have "length (wf_Steps v) = length (wf_Steps w)" using list_all2_lengthD [OF st] by simp
  moreover note same_steps_set [OF st, of "\<lambda>s. ws_Name s \<noteq> [] \<and> (ar_Name (ws_AgentRef s) \<noteq> [] \<or> ws_Type s \<noteq> []) \<and>
      set (ws_DependsOn s) \<subseteq> ws_Name ` set (wf_Steps w)"]
  moreover have "agent_key ns (s\<lparr>ws_Input := inp\<rparr>) = agent_key ns s" for s inp by (simp add: agent_key_def)
  then have "(\<forall>s \<in> set (wf_Steps v). ar_Name (ws_AgentRef s) \<noteq> [] \<longrightarrow> rd_agent c (agent_key ns s) \<noteq> Some Missing) \<longleftrightarrow>
      (\<forall>s \<in> set (wf_Steps w). ar_Name (ws_AgentRef s) \<noteq> [] \<longrightarrow> rd_agent c (agent_key ns s) \<noteq> Some Missing)" for c :: reader
    by (intro same_steps_set [OF st]) simp
  ultimately show ?thesis using assms by (simp add: well_formed_def Let_def names nset deps same_shape_def)
qed

lemma shape_content:
  assumes "same_shape w v"
  shows "timeout_warning v = timeout_warning w" "check_content v = check_content w"
proof -
  have st: "list_all2 same_step (wf_Steps w) (wf_Steps v)" using assms by (simp add: same_shape_def)
  have "map (exceeding d) (wf_Steps v) = map (exceeding d) (wf_Steps w)" for d
    by (rule same_steps_map [OF st]) (simp add: exceeding_def step_timeout_def split: option.split)
  then show "timeout_warning v = timeout_warning w" using assms by (simp add: timeout_warning_def same_shape_def cong: option.case_cong)
  have "map ws_Name (wf_Steps v) = map ws_Name (wf_Steps w)" by (rule same_steps_map [OF st]) simp
  moreover have "map check_condition (wf_Steps v) = map check_condition (wf_Steps w)"
    by (rule same_steps_map [OF st]) (simp add: check_condition_def)
  moreover have "map (check_refs ns) (wf_Steps v) = map (check_refs ns) (wf_Steps w)" for ns
    by (rule same_steps_map [OF st]) (simp add: check_refs_def)
  moreover have "map check_step_timeout (wf_Steps v) = map check_step_timeout (wf_Steps w)"
    by (rule same_steps_map [OF st]) (simp add: check_step_timeout_def)
  ultimately show "check_content v = check_content w" using assms by (simp add: check_content_def Let_def same_shape_def)
qed

lemma shape_admitted:
  assumes "same_shape w v" "\<And>xs. mset (order xs) = mset xs"
  shows "is_allowed (handle_workflow order client ns (Inr v)) = is_allowed (handle_workflow order client ns (Inr w))"
  using assms shape_well_formed shape_content by (simp add: handle_workflow_allowed structure_iff)

section \<open>The runs\<close>

lemma map_same_steps: "(\<And>s. same_step s (f s)) \<Longrightarrow> list_all2 same_step ss (map f ss)"
  by (simp add: list_all2_map2 list_all2_refl)

lemma same_step_input [simp]: "same_step s (s\<lparr>ws_Input := inp\<rparr>)" "same_step s s" "same_step s (fill_input i s)"
proof -
  show "same_step s (s\<lparr>ws_Input := inp\<rparr>)" "same_step s s" for inp
    by (auto simp: same_step_def intro: exI [of _ "ws_Input s"])
  then show "same_step s (fill_input i s)" by (simp add: fill_input_def)
qed

text \<open>The ways the program makes a run of a template.\<close>

inductive made_from :: "string \<Rightarrow> Workflow \<Rightarrow> Workflow \<Rightarrow> bool" where
  by_webhook: "made_from ns w (webhook_run now ns wfName route source p n w)"
| by_schedule: "made_from ns w (scheduled_run now ns wfName w g)"
| by_rerun: "made_from ns w (new_workflow ns name Map.empty (override_parameters over (wf_Spec w)))"
| by_client: "made_from ns w (instance_of ns draws params w)"

lemma made_shape: "made_from ns w v \<Longrightarrow> same_shape w v"
  by (induction rule: made_from.induct)
    (simp_all add: webhook_run_def scheduled_run_def instance_of_def new_workflow_def with_input_def override_parameters_def Let_def
      same_shape_def map_same_steps list_all2_refl)

lemma made_new: "made_from ns w v \<Longrightarrow> wf_Status v = zero_status \<and> wf_Namespace v = ns"
  by (induction rule: made_from.induct)
    (simp_all add: webhook_run_def scheduled_run_def instance_of_def new_workflow_def Let_def)

text \<open>C31: The runs of an admitted template are admitted: whether the dashboard makes the run for a webhook or a rerun,
  the scheduler for a schedule or the command line client for a user, in the namespace the template was admitted in the
  run passes admission as well, and it starts as a new run, with the template's parallelism.\<close>

theorem template_runs_admitted:
  assumes "made_from ns w v" "\<And>xs. mset (order xs) = mset xs" "is_allowed (handle_workflow order client ns (Inr w))"
  shows "is_allowed (handle_workflow order client ns (Inr v)) \<and> fresh_workflow v \<and> wf_Namespace v = ns \<and>
    parallelism_of v = parallelism_of w"
proof -
  note shape = made_shape [OF assms(1)] and new = made_new [OF assms(1)]
  have "is_allowed (handle_workflow order client ns (Inr v))" using shape_admitted [OF shape assms(2)] assms(3) by simp
  moreover from this have "well_formed client ns v" using handle_workflow_allowed structure_iff [OF assms(2)] by blast
  ultimately show ?thesis using new shape
    by (simp add: fresh_workflow_def well_formed_def Let_def zero_status_def same_shape_def parallelism_of_def)
qed

lemma template_runs_admitted_witness:
  "is_allowed (handle_workflow rev None ''team'' (Inr (instance_of ''team'' [1, 2, 3, 4, 5] [(''k'', ''v'')]
     (plain_workflow fan_steps []))))"
proof -
  have "is_allowed (handle_workflow rev None ''team'' (Inr (plain_workflow fan_steps [])))" by code_simp
  then show ?thesis
    using template_runs_admitted [OF by_client [of "''team''" "plain_workflow fan_steps []"], of rev None] by simp
qed

end
