(* ===== verification/Metrics.thy ===== *)
theory Metrics imports Reconcile_Sync Sample_Cluster Cli begin

text \<open>
  The Prometheus collectors (\<^verbatim>\<open>controllers/metrics.go\<close>), and what becomes of the events that the controllers record.  The
  library is a parameter: it panics when the labels do not fit the collector and when a counter is to go down, and in
  no other case that the controllers can reach.  A reconcile whose events make it panic does not get further than the
  event; the model of the reconcile records the events and goes on.
\<close>

section \<open>The collectors\<close>

datatype vec_kind = CounterVec | GaugeVec | HistogramVec "int list"

record vec =
  vc_Name :: string
  vc_kind :: vec_kind
  vc_labels :: "string list"

abbreviation vec :: "string \<Rightarrow> vec_kind \<Rightarrow> string list \<Rightarrow> vec" where
  "vec name kind labels \<equiv> \<lparr>vc_Name = name, vc_kind = kind, vc_labels = labels\<rparr>"

definition vec_AgentInvocations :: vec where
  "vec_AgentInvocations = vec ''agent_invocations_total'' CounterVec [''agent'', ''namespace'', ''status'']"

definition vec_AgentTokens :: vec where
  "vec_AgentTokens = vec ''agent_tokens_total'' CounterVec [''agent'', ''namespace'']"

definition vec_AgentCostUSD :: vec where
  "vec_AgentCostUSD = vec ''agent_cost_usd_total'' CounterVec [''agent'', ''namespace'']"

definition vec_AgentLatency :: vec where
  "vec_AgentLatency = vec ''agent_latency_seconds'' (HistogramVec [5, 15, 30, 60, 120, 300, 600]) [''agent'', ''namespace'']"

definition vec_WorkflowDuration :: vec where
  "vec_WorkflowDuration =
     vec ''workflow_duration_seconds'' (HistogramVec [10, 30, 60, 120, 300, 600, 1800]) [''workflow'', ''namespace'', ''status'']"

definition vec_WorkflowCostUSD :: vec where
  "vec_WorkflowCostUSD = vec ''workflow_cost_usd_total'' CounterVec [''workflow'', ''namespace'']"

definition vec_WorkflowStepDuration :: vec where
  "vec_WorkflowStepDuration =
     vec ''step_duration_seconds'' (HistogramVec [5, 15, 30, 60, 120, 300]) [''workflow'', ''step'', ''agent'']"

definition vec_WorkflowsActive :: vec where
  "vec_WorkflowsActive = vec ''workflows_active'' GaugeVec [''namespace'']"

definition vec_ShuHaRiLevel :: vec where
  "vec_ShuHaRiLevel = vec ''shuhari_level'' GaugeVec [''agent'', ''namespace'']"

definition vec_MCPServerStatus :: vec where
  "vec_MCPServerStatus = vec ''mcp_server_status'' GaugeVec [''server'', ''category'']"

definition vec_MCPServerTools :: vec where
  "vec_MCPServerTools = vec ''mcp_server_tools'' GaugeVec [''server'', ''category'']"

definition vec_AgentsTotal :: vec where
  "vec_AgentsTotal = vec ''agents_total'' GaugeVec [''namespace'', ''type'']"

definition registered :: "vec list" where
  "registered =
     [vec_AgentInvocations, vec_AgentTokens, vec_AgentCostUSD, vec_AgentLatency, vec_WorkflowDuration, vec_WorkflowCostUSD,
      vec_WorkflowStepDuration, vec_WorkflowsActive, vec_ShuHaRiLevel, vec_MCPServerStatus, vec_MCPServerTools, vec_AgentsTotal]"

text \<open>Registering the same name twice panics: all names differ.\<close>

lemma names_differ: "distinct (map vc_Name registered)"
  by code_simp

section \<open>Recording events\<close>

datatype operation = Add f64 | SetTo f64 | Observe f64

text \<open>The call an event stands for; tokens are counted in 64 bits and durations in seconds.\<close>

fun call_of :: "metric \<Rightarrow> vec \<times> string list \<times> operation" where
  "call_of (AgentInvocations agent ns status) = (vec_AgentInvocations, [agent, ns, status], Add (Fin 1))"
| "call_of (AgentLatency agent ns d) = (vec_AgentLatency, [agent, ns], Observe (in_units second d))"
| "call_of (WorkflowStepDuration flow step agent d) = (vec_WorkflowStepDuration, [flow, step, agent], Observe (in_units second d))"
| "call_of (WorkflowCostUSD flow ns cost) = (vec_WorkflowCostUSD, [flow, ns], Add cost)"
| "call_of (AgentTokens agent ns n) = (vec_AgentTokens, [agent, ns], Add (f64_of_int (wrap64 n)))"
| "call_of (AgentCostUSD agent ns cost) = (vec_AgentCostUSD, [agent, ns], Add cost)"
| "call_of (WorkflowDuration flow ns phase d) = (vec_WorkflowDuration, [flow, ns, phase], Observe (in_units second d))"
| "call_of (WorkflowsActiveInc ns) = (vec_WorkflowsActive, [ns], Add (Fin 1))"
| "call_of (WorkflowsActiveDec ns) = (vec_WorkflowsActive, [ns], Add (Fin (- 1)))"
| "call_of (AgentsTotal ns typ) = (vec_AgentsTotal, [ns, typ], SetTo (Fin 1))"

text \<open>The library: the call of a collector with label values, which gives the new state or panics.\<close>

type_synonym 'g prometheus = "vec \<Rightarrow> string list \<Rightarrow> operation \<Rightarrow> 'g \<Rightarrow> 'g option"

fun going_down :: "operation \<Rightarrow> bool" where
  "going_down (Add v) = f64_lt v (Fin 0)"
| "going_down _ = False"

definition prometheus_laws :: "'g prometheus \<Rightarrow> bool" where
  "prometheus_laws p \<longleftrightarrow> (\<forall>v labels opn g.
     p v labels opn g = None \<longleftrightarrow>
       length labels \<noteq> length (vc_labels v) \<or> vc_kind v = CounterVec \<and> going_down opn)"

fun record_all :: "'g prometheus \<Rightarrow> metric list \<Rightarrow> 'g \<Rightarrow> 'g option" where
  "record_all p [] g = Some g"
| "record_all p (m # ms) g = (case call_of m of (v, labels, opn) \<Rightarrow> Option.bind (p v labels opn g) (record_all p ms))"

text \<open>The events between two states.\<close>

definition new_metrics :: "'c rt \<Rightarrow> 'c rt \<Rightarrow> metric list" where
  "new_metrics s s' = drop (length (rs_metrics s)) (rs_metrics s')"

section \<open>When recording panics\<close>

fun harmful :: "metric \<Rightarrow> bool" where
  "harmful (AgentTokens agent ns n) = f64_lt (f64_of_int (wrap64 n)) (Fin 0)"
| "harmful (AgentCostUSD agent ns cost) = f64_lt cost (Fin 0)"
| "harmful (WorkflowCostUSD flow ns cost) = f64_lt cost (Fin 0)"
| "harmful _ = False"

lemmas vec_defs = vec_AgentInvocations_def vec_AgentTokens_def vec_AgentCostUSD_def vec_AgentLatency_def vec_WorkflowDuration_def
  vec_WorkflowCostUSD_def vec_WorkflowStepDuration_def vec_WorkflowsActive_def vec_AgentsTotal_def

lemma call_panics:
  assumes "prometheus_laws p" "call_of m = (v, labels, opn)"
  shows "p v labels opn g = None \<longleftrightarrow> harmful m"
proof -
  have "length labels = length (vc_labels v)" "vc_kind v = CounterVec \<and> going_down opn \<longleftrightarrow> harmful m"
    using assms(2) by (cases m; force simp: vec_defs)+
  then show ?thesis using assms(1) by (simp add: prometheus_laws_def)
qed

lemma record_all_panics: "prometheus_laws p \<Longrightarrow> record_all p ms g = None \<longleftrightarrow> list_ex harmful ms"
proof (induction ms arbitrary: g)
  case (Cons m ms)
  obtain v labels opn where c: "call_of m = (v, labels, opn)" by (metis prod.exhaust)
  from call_panics [OF Cons.prems c, of g] Cons show ?case
    by (cases "p v labels opn g") (simp_all add: c)
qed simp

lemma learn_metrics: "rs_metrics (snd (learn x e s)) = rs_metrics s"
  by (simp add: learn_def Let_def split: option.split prod.split)

lemma event_metrics [simp]: "rs_metrics (memoryEvent x w t r m s) = rs_metrics s"
  by (simp add: memoryEvent_def)

lemma route_metrics: "rs_metrics (route_memory x agent ns n m w step s) = rs_metrics s"
proof -
  have retained: "rs_metrics (retain x k n s) = rs_metrics s" for k n s
    by (simp add: retain_def split: option.split)
  have "rs_metrics (persistMemory x agent w step a b c s) = rs_metrics s" for a b c
    using learn_metrics [of x "memory_entry agent w step (memory_content w step a b c)" s]
    by (auto simp: persistMemory_def Let_def retained split: prod.split sum.split)
  moreover have "rs_metrics (storeAgentMemory x ns n sm s) = rs_metrics s" for sm
    by (auto simp: storeAgentMemory_def Let_def split: sum.split kerr.split)
  ultimately show ?thesis by (simp add: route_memory_def Let_def split: option.split)
qed

text \<open>What the update of the agent's counters records, and the events of a succeeded step that come before it.\<close>

lemma agent_update_metrics:
  "rs_metrics (updateAgentMetrics x ns agentName output start fin w step s) = rs_metrics s @
     (case Option.bind (Option.bind (raw_map output) (\<lambda>out. out ''_metrics'')) step_metrics of
        None \<Rightarrow> []
      | Some (tin, tout, cost) \<Rightarrow>
          (case k_get_agent (x_api x) (rs_c s) (ns, agentName) of
             Inl _ \<Rightarrow> []
           | Inr _ \<Rightarrow> [AgentTokens agentName ns (tin + tout), AgentCostUSD agentName ns cost]))"
  by (simp add: updateAgentMetrics_def Let_def metric_def status_agent_def route_metrics split: option.split sum.split prod.split)

lemma before_update:
  "\<exists>ms. rs_metrics (workflow_cost w output (step_durations x w stepName a start (metric (AgentInvocations a ns ''success'') s))) =
     rs_metrics s @ ms \<and> \<not> list_ex harmful ms"
  "rs_c (workflow_cost w output (step_durations x w stepName a start (metric (AgentInvocations a ns ''success'') s))) = rs_c s"
proof -
  have "f64_lt (Fin 0) c \<Longrightarrow> \<not> f64_lt c (Fin 0)" for c by (cases c) auto
  then show "\<exists>ms. rs_metrics (workflow_cost w output (step_durations x w stepName a start (metric (AgentInvocations a ns ''success'') s))) =
     rs_metrics s @ ms \<and> \<not> list_ex harmful ms"
    by (simp add: workflow_cost_def step_durations_def metric_def Let_def split: option.split)
  show "rs_c (workflow_cost w output (step_durations x w stepName a start (metric (AgentInvocations a ns ''success'') s))) = rs_c s"
    by (simp add: workflow_cost_def step_durations_def metric_def Let_def split: option.split)
qed

text \<open>C17: A negative usage report stops the reconcile.  Of all that is recorded when the job of an agent's step has
  succeeded, only the agent's counters of tokens and cost can make the metrics library panic (it does so when a counter is to go
  down or the number of labels is wrong): the counts of invocations
  and the durations never do, and the workflow's cost is guarded.  It panics exactly when the output reports its usage,
  the agent can be read, and the tokens, added in 64 bits, or the cost are below zero.\<close>

theorem negative_usage_panics:
  assumes "prometheus_laws p" "jo_Label job labelAgent = agentName" "agentName \<noteq> []"
  shows "record_all p (new_metrics s (success_effects x w job ss stepName output s)) g = None \<longleftrightarrow>
    (\<exists>out raw tin tout cost agent. raw_map output = Some out \<and> out ''_metrics'' = Some raw \<and>
       step_metrics raw = Some (tin, tout, cost) \<and>
       k_get_agent (x_api x) (rs_c s) (wf_Namespace w, agentName) = Inr agent \<and>
       (f64_lt (f64_of_int (wrap64 (tin + tout))) (Fin 0) \<or> f64_lt cost (Fin 0)))"
proof -
  let ?ns = "wf_Namespace w"
  let ?s = "workflow_cost w output (step_durations x w stepName agentName (ss_StartTime ss)
    (metric (AgentInvocations agentName ?ns ''success'') s))"
  have c: "rs_c ?s = rs_c s" by (rule before_update(2))
  obtain ms where ms: "rs_metrics ?s = rs_metrics s @ ms" "\<not> list_ex harmful ms" using before_update(1) by blast
  have "success_effects x w job ss stepName output s =
      updateAgentMetrics x ?ns agentName output (ss_StartTime ss) (x_now x) w (ss_Name ss) ?s"
    using assms(2,3) by (simp add: success_effects_def)
  then have "new_metrics s (success_effects x w job ss stepName output s) = ms @
     (case Option.bind (Option.bind (raw_map output) (\<lambda>out. out ''_metrics'')) step_metrics of
        None \<Rightarrow> []
      | Some (tin, tout, cost) \<Rightarrow>
          (case k_get_agent (x_api x) (rs_c s) (?ns, agentName) of
             Inl _ \<Rightarrow> []
           | Inr _ \<Rightarrow> [AgentTokens agentName ?ns (tin + tout), AgentCostUSD agentName ?ns cost]))"
    by (simp only: new_metrics_def agent_update_metrics ms(1) c append_assoc) simp
  then show ?thesis unfolding record_all_panics [OF assms(1)] using ms(2)
    by (auto simp: bind_eq_Some_conv split: option.splits sum.splits)
qed

text \<open>A library with nothing but the panics, and a step that reports a negative cost.\<close>

definition strict_prometheus :: "unit prometheus" where
  "strict_prometheus v labels opn g =
     (if length labels \<noteq> length (vc_labels v) \<or> vc_kind v = CounterVec \<and> going_down opn then None else Some ())"

definition refund :: string where
  "refund = ''{'' @ quote ''_metrics'' @ '':{'' @ quote ''tokens_in'' @ '':10,'' @ quote ''tokens_out'' @ '':5,'' @
     quote ''cost_usd'' @ '':-1}}''"

definition scout_job :: Job where
  "scout_job = (plain_job ''a'' ''Complete'')\<lparr>jo_Meta := (jo_Meta (plain_job ''a'' ''Complete''))\<lparr>om_Labels := [labelAgent \<mapsto> ''scout'']\<rparr>\<rparr>"

lemma negative_usage_panics_witness:
  "record_all strict_prometheus (new_metrics (list_rt (no_cluster\<lparr>cl_agents := [plain_agent]\<rparr>))
     (success_effects list_ctx (plain_workflow [] []) scout_job (step_in ''a'' ''Running'') ''a'' refund
       (list_rt (no_cluster\<lparr>cl_agents := [plain_agent]\<rparr>)))) () = None"
proof -
  let ?s = "list_rt (no_cluster\<lparr>cl_agents := [plain_agent]\<rparr>)" and ?w = "plain_workflow [] []"
  have r: "map_option step_metrics (Option.bind (raw_map refund) (\<lambda>m. m ''_metrics'')) = Some (Some (10, 5, Fin (- 1)))"
    by code_simp
  then obtain out raw where "raw_map refund = Some out" "out ''_metrics'' = Some raw" "step_metrics raw = Some (10, 5, Fin (- 1))"
    by (auto simp: bind_eq_Some_conv)
  moreover have "prometheus_laws strict_prometheus" by (simp add: prometheus_laws_def strict_prometheus_def)
  moreover have "k_get_agent (x_api list_ctx) (rs_c ?s) (wf_Namespace ?w, ''scout'') = Inr plain_agent" by (simp add: sample_defs)
  moreover have "jo_Label scout_job labelAgent = ''scout''" by (simp add: scout_job_def)
  moreover have "f64_lt (Fin (- 1)) (Fin 0)" by simp
  ultimately show ?thesis
    using negative_usage_panics [of strict_prometheus scout_job "''scout''" ?s list_ctx ?w "step_in ''a'' ''Running''" "''a''" refund "()"]
    by blast
qed

end
