(* ===== verification/Cli_Main.thy ===== *)
theory Cli_Main imports Cli_Properties begin

text \<open>
  The program \<^verbatim>\<open>purkoctl\<close> (\<^verbatim>\<open>cmd/purkoctl/main.go\<close> and the command variables of the other files): the connection it
  makes, the tree of its commands, and a command line from its beginning to the exit code.

  The libraries \<^verbatim>\<open>cobra\<close> and \<^verbatim>\<open>clientcmd\<close> are parameters.  A command line is parsed by \<open>cb_parse\<close>; the kubeconfig is read by
  the fields of \<open>kube_config\<close>.
\<close>

section \<open>The connection\<close>

text \<open>The loaded configuration, by the path given; an empty path stands for the default loading rules.\<close>

record kube_config =
  kf_namespace :: "string \<Rightarrow> string + string"
  kf_rest :: "string \<Rightarrow> string option" \<comment> \<open>the error of \<open>ClientConfig\<close>\<close>
  kf_client :: "string \<Rightarrow> string option"
  kf_clientset :: "string \<Rightarrow> string option"

definition chosen_namespace :: "kube_config \<Rightarrow> string \<Rightarrow> string \<Rightarrow> string + string" where
  "chosen_namespace k kubeconfig namespace =
     (if namespace \<noteq> [] then Inr namespace
      else (case kf_namespace k kubeconfig of
              Inl e \<Rightarrow> Inl (''unable to determine namespace: '' @ e)
            | Inr ns \<Rightarrow> Inr (if ns = [] then ''default'' else ns)))"

text \<open>The namespace the commands work in, or the error.\<close>

definition setupK8sClient :: "kube_config \<Rightarrow> string \<Rightarrow> string \<Rightarrow> string + string" where
  "setupK8sClient k kubeconfig namespace =
     (case chosen_namespace k kubeconfig namespace of
        Inl e \<Rightarrow> Inl e
      | Inr ns \<Rightarrow>
          (case kf_rest k kubeconfig of
             Some e \<Rightarrow> Inl (''unable to connect to cluster: '' @ e)
           | None \<Rightarrow>
               (case kf_client k kubeconfig of
                  Some e \<Rightarrow> Inl (''unable to create K8s client: '' @ e)
                | None \<Rightarrow>
                    (case kf_clientset k kubeconfig of
                       Some e \<Rightarrow> Inl (''unable to create K8s clientset: '' @ e)
                     | None \<Rightarrow> Inr ns))))"

text \<open>\<^verbatim>\<open>filepath.Join\<close> cleans the path: the segments are kept in reverse.\<close>

fun clean_rev :: "bool \<Rightarrow> string list \<Rightarrow> string list \<Rightarrow> string list" where
  "clean_rev rooted acc [] = acc"
| "clean_rev rooted acc (s # ss) =
     clean_rev rooted
       (if s = [] \<or> s = ''.'' then acc
        else if s = ''..'' then
          (case acc of [] \<Rightarrow> if rooted then [] else [s] | t # ts \<Rightarrow> if t = ''..'' then s # acc else ts)
        else s # acc) ss"

definition Clean :: "string \<Rightarrow> string" where
  "Clean p =
     (let rooted = (p \<noteq> [] \<and> hd p = CHR ''/''); segs = rev (clean_rev rooted [] (split_char CHR ''/'' p)) in
      if rooted then ''/'' @ join ''/'' segs else if segs = [] then ''.'' else join ''/'' segs)"

definition Join :: "string list \<Rightarrow> string" where
  "Join parts = (let ps = filter (\<lambda>p. p \<noteq> []) parts in if ps = [] then [] else Clean (join ''/'' ps))"

definition defaultKubeconfig :: "(string \<Rightarrow> string) \<Rightarrow> string + string \<Rightarrow> string" where
  "defaultKubeconfig getenv home =
     (if getenv ''KUBECONFIG'' \<noteq> [] then getenv ''KUBECONFIG''
      else (case home of Inl _ \<Rightarrow> [] | Inr h \<Rightarrow> Join [h, ''.kube'', ''config'']))"

section \<open>The tree of commands\<close>

datatype verb =
    Version
  | AgentList | AgentGet | AgentCreate | AgentDelete
  | WorkflowList | WorkflowGet | WorkflowTrigger | WorkflowLogs | WorkflowApprove | WorkflowDeny | WorkflowCancel
  | WorkflowRerun | WorkflowCreate | WorkflowDelete
  | MCPList | MCPGet | MCPCreate | MCPDelete | MCPTools | MCPTest
  | LLMList | LLMGet | LLMCreate | LLMDelete | LLMTest

text \<open>The words of a command, how many arguments it takes, and whether the flag \<open>file\<close> is required.\<close>

record leaf =
  lf_path :: "string list"
  lf_min :: nat
  lf_max :: "nat option"
  lf_file :: bool

definition leaf :: "string list \<Rightarrow> nat \<Rightarrow> nat option \<Rightarrow> bool \<Rightarrow> leaf" where
  "leaf path least most file = \<lparr>lf_path = path, lf_min = least, lf_max = most, lf_file = file\<rparr>"

definition agentCmd :: "(verb \<times> leaf) list" where
  "agentCmd =
     [(AgentList, leaf [''agent'', ''list''] 0 None False), (AgentGet, leaf [''agent'', ''get''] 1 (Some 1) False),
      (AgentCreate, leaf [''agent'', ''create''] 0 None True), (AgentDelete, leaf [''agent'', ''delete''] 1 (Some 1) False)]"

definition workflowCmd :: "(verb \<times> leaf) list" where
  "workflowCmd =
     [(WorkflowList, leaf [''workflow'', ''list''] 0 None False),
      (WorkflowGet, leaf [''workflow'', ''get''] 1 (Some 1) False),
      (WorkflowTrigger, leaf [''workflow'', ''trigger''] 1 (Some 1) False),
      (WorkflowLogs, leaf [''workflow'', ''logs''] 1 (Some 2) False),
      (WorkflowApprove, leaf [''workflow'', ''approve''] 2 (Some 2) False),
      (WorkflowDeny, leaf [''workflow'', ''deny''] 2 (Some 2) False),
      (WorkflowCancel, leaf [''workflow'', ''cancel''] 1 (Some 1) False),
      (WorkflowRerun, leaf [''workflow'', ''rerun''] 1 (Some 1) False),
      (WorkflowCreate, leaf [''workflow'', ''create''] 0 None True),
      (WorkflowDelete, leaf [''workflow'', ''delete''] 1 (Some 1) False)]"

definition mcpCmd :: "(verb \<times> leaf) list" where
  "mcpCmd =
     [(MCPList, leaf [''mcp'', ''list''] 0 None False), (MCPGet, leaf [''mcp'', ''get''] 1 (Some 1) False),
      (MCPCreate, leaf [''mcp'', ''create''] 0 None True), (MCPDelete, leaf [''mcp'', ''delete''] 1 (Some 1) False),
      (MCPTools, leaf [''mcp'', ''tools''] 0 (Some 1) False), (MCPTest, leaf [''mcp'', ''test''] 1 (Some 1) False)]"

definition llmCmd :: "(verb \<times> leaf) list" where
  "llmCmd =
     [(LLMList, leaf [''llm'', ''list''] 0 None False), (LLMGet, leaf [''llm'', ''get''] 1 (Some 1) False),
      (LLMCreate, leaf [''llm'', ''create''] 0 None True), (LLMDelete, leaf [''llm'', ''delete''] 1 (Some 1) False),
      (LLMTest, leaf [''llm'', ''test''] 1 (Some 1) False)]"

definition rootCmd :: "(verb \<times> leaf) list" where
  "rootCmd = (Version, leaf [''version''] 0 None False) # agentCmd @ workflowCmd @ mcpCmd @ llmCmd"

definition leaf_of :: "verb \<Rightarrow> leaf" where
  "leaf_of v = the (map_of rootCmd v)"

section \<open>A command line\<close>

record invocation =
  iv_verb :: verb
  iv_args :: "string list"
  iv_namespace :: string
  iv_output :: string
  iv_kubeconfig :: string
  iv_file :: "string option"
  iv_params :: "string list"

text \<open>
  What \<^verbatim>\<open>cobra\<close> makes of the arguments: an error of its own, a help text, or a command with its arguments and flags.
  It runs the hook of the root before the command, and looks for required flags in between.
\<close>

datatype parsed = Refused string | Helped | Invoked invocation

record cobra =
  cb_parse :: "string list \<Rightarrow> parsed"
  cb_required :: "string \<Rightarrow> string"

definition args_ok :: "leaf \<Rightarrow> nat \<Rightarrow> bool" where
  "args_ok l n \<longleftrightarrow> lf_min l \<le> n \<and> (case lf_max l of None \<Rightarrow> True | Some m \<Rightarrow> n \<le> m)"

text \<open>\<^verbatim>\<open>ExactArgs\<close>, \<^verbatim>\<open>RangeArgs\<close> and \<^verbatim>\<open>MaximumNArgs\<close> are checked before a command runs.\<close>

definition cobra_laws :: "cobra \<Rightarrow> bool" where
  "cobra_laws cb \<longleftrightarrow> (\<forall>argv iv. cb_parse cb argv = Invoked iv \<longrightarrow> args_ok (leaf_of (iv_verb iv)) (length (iv_args iv)))"

definition pre_run :: "kube_config \<Rightarrow> invocation \<Rightarrow> string + string" where
  "pre_run k iv =
     (if lf_path (leaf_of (iv_verb iv)) = [''version''] then Inr (iv_namespace iv)
      else setupK8sClient k (iv_kubeconfig iv) (iv_namespace iv))"

text \<open>The client of an invocation.\<close>

definition client_of :: "kube_config \<Rightarrow> invocation \<Rightarrow> string \<Rightarrow> 'c cli \<Rightarrow> 'c cli" where
  "client_of k iv ns t =
     t\<lparr>ct_namespace := ns, ct_output := iv_output iv,
       ct_connect := (case setupK8sClient k (iv_kubeconfig iv) (iv_namespace iv) of Inl _ \<Rightarrow> False | Inr _ \<Rightarrow> True)\<rparr>"

text \<open>An argument that is not there is a panic.\<close>

definition arg :: "nat \<Rightarrow> string list \<Rightarrow> string option" where
  "arg i args = (if i < length args then Some (args ! i) else None)"

definition file_of :: "invocation \<Rightarrow> string" where
  "file_of iv = (case iv_file iv of None \<Rightarrow> [] | Some f \<Rightarrow> f)"

definition one_arg :: "invocation \<Rightarrow> (string \<Rightarrow> 'c command) \<Rightarrow> 'c command option" where
  "one_arg iv f = map_option f (arg 0 (iv_args iv))"

definition two_args :: "invocation \<Rightarrow> (string \<Rightarrow> string \<Rightarrow> 'c command) \<Rightarrow> 'c command option" where
  "two_args iv f = (case (arg 0 (iv_args iv), arg 1 (iv_args iv)) of (Some a, Some b) \<Rightarrow> Some (f a b) | _ \<Rightarrow> None)"

definition run_agent :: "'c cli \<Rightarrow> invocation \<Rightarrow> 'c \<Rightarrow> 'c command option" where
  "run_agent t iv c =
     (case iv_verb iv of
        AgentList \<Rightarrow> Some (runAgentList t c)
      | AgentGet \<Rightarrow> one_arg iv (\<lambda>name. runAgentGet t name c)
      | AgentCreate \<Rightarrow> Some (runAgentCreate t (file_of iv) c)
      | AgentDelete \<Rightarrow> one_arg iv (\<lambda>name. runAgentDelete t name c)
      | _ \<Rightarrow> None)"

definition run_workflow :: "'c cli \<Rightarrow> nat list \<Rightarrow> invocation \<Rightarrow> 'c \<Rightarrow> 'c command option" where
  "run_workflow t draws iv c =
     (case iv_verb iv of
        WorkflowList \<Rightarrow> Some (runWorkflowList t c)
      | WorkflowGet \<Rightarrow> one_arg iv (\<lambda>name. runWorkflowGet t name c)
      | WorkflowTrigger \<Rightarrow> one_arg iv (\<lambda>name. runWorkflowTrigger t draws (iv_params iv) name c)
      | WorkflowLogs \<Rightarrow> one_arg iv (\<lambda>name. runWorkflowLogs t name (arg 1 (iv_args iv)) c)
      | WorkflowApprove \<Rightarrow> two_args iv (\<lambda>name step. runWorkflowApprove t name step c)
      | WorkflowDeny \<Rightarrow> two_args iv (\<lambda>name step. runWorkflowDeny t name step c)
      | WorkflowCancel \<Rightarrow> one_arg iv (\<lambda>name. runWorkflowCancel t name c)
      | WorkflowRerun \<Rightarrow> one_arg iv (\<lambda>name. runWorkflowRerun t name c)
      | WorkflowCreate \<Rightarrow> Some (runWorkflowCreate t (file_of iv) c)
      | WorkflowDelete \<Rightarrow> one_arg iv (\<lambda>name. runWorkflowDelete t name c)
      | _ \<Rightarrow> None)"

definition run_mcp :: "'c cli \<Rightarrow> invocation \<Rightarrow> 'c \<Rightarrow> 'c command option" where
  "run_mcp t iv c =
     (case iv_verb iv of
        MCPList \<Rightarrow> Some (runMCPList t c)
      | MCPGet \<Rightarrow> one_arg iv (\<lambda>name. runMCPGet t name c)
      | MCPCreate \<Rightarrow> Some (runMCPCreate t (file_of iv) c)
      | MCPDelete \<Rightarrow> one_arg iv (\<lambda>name. runMCPDelete t name c)
      | MCPTools \<Rightarrow> Some (runMCPTools t (if length (iv_args iv) = 1 then iv_args iv ! 0 else []) c)
      | MCPTest \<Rightarrow> one_arg iv (\<lambda>name. runMCPTest t name c)
      | _ \<Rightarrow> None)"

definition run_llm :: "'c cli \<Rightarrow> invocation \<Rightarrow> 'c \<Rightarrow> 'c command option" where
  "run_llm t iv c =
     (case iv_verb iv of
        LLMList \<Rightarrow> Some (runLLMList t c)
      | LLMGet \<Rightarrow> one_arg iv (\<lambda>name. runLLMGet t name c)
      | LLMCreate \<Rightarrow> Some (runLLMCreate t (file_of iv) c)
      | LLMDelete \<Rightarrow> one_arg iv (\<lambda>name. runLLMDelete t name c)
      | LLMTest \<Rightarrow> one_arg iv (\<lambda>name. runLLMTest t name c)
      | _ \<Rightarrow> None)"

definition run_verb :: "'c cli \<Rightarrow> string \<Rightarrow> nat list \<Rightarrow> invocation \<Rightarrow> 'c \<Rightarrow> 'c command option" where
  "run_verb t version draws iv c =
     (if iv_verb iv = Version then Some (runVersion t version c)
      else if iv_verb iv \<in> fst ` set agentCmd then run_agent t iv c
      else if iv_verb iv \<in> fst ` set workflowCmd then run_workflow t draws iv c
      else if iv_verb iv \<in> fst ` set mcpCmd then run_mcp t iv c
      else run_llm t iv c)"

lemmas run_defs = run_verb_def run_agent_def run_workflow_def run_mcp_def run_llm_def one_arg_def two_args_def agentCmd_def
  workflowCmd_def mcpCmd_def

text \<open>The exit code, the command's error and output, and the cluster; a panic is \<open>None\<close>.\<close>

definition ended_with :: "'c command \<Rightarrow> int \<times> 'c command" where
  "ended_with r = (if fst r = None then 0 else 1, r)"

definition purkoctl :: "'c cli \<Rightarrow> kube_config \<Rightarrow> cobra \<Rightarrow> string \<Rightarrow> nat list \<Rightarrow> string list \<Rightarrow> 'c \<Rightarrow> (int \<times> 'c command) option" where
  "purkoctl t k cb version draws argv c =
     (case cb_parse cb argv of
        Refused e \<Rightarrow> Some (ended_with (fails e c))
      | Helped \<Rightarrow> Some (ended_with (prints [] c))
      | Invoked iv \<Rightarrow>
          (case pre_run k iv of
             Inl e \<Rightarrow> Some (ended_with (fails e c))
           | Inr ns \<Rightarrow>
               if lf_file (leaf_of (iv_verb iv)) \<and> iv_file iv = None then Some (ended_with (fails (cb_required cb ''file'') c))
               else map_option ended_with (run_verb (client_of k iv ns t) version draws iv c)))"

section \<open>Facts\<close>

lemma chosen_not_empty: "chosen_namespace k p n = Inr ns \<Longrightarrow> ns \<noteq> [] \<and> (n \<noteq> [] \<longrightarrow> ns = n)"
  by (auto simp: chosen_namespace_def split: if_splits sum.splits)

lemma setup_namespace: "setupK8sClient k p n = Inr ns \<Longrightarrow> chosen_namespace k p n = Inr ns"
  by (auto simp: setupK8sClient_def split: sum.splits option.splits)

definition reading_verbs :: "verb list" where
  "reading_verbs = [Version, AgentList, AgentGet, WorkflowList, WorkflowGet, WorkflowLogs, MCPList, MCPGet, MCPTools, MCPTest,
     LLMList, LLMGet, LLMTest]"

lemma workflow_readers:
  "snd (snd (runVersion t v c)) = c" "snd (snd (runWorkflowList t c)) = c" "snd (snd (runWorkflowGet t n c)) = c"
  "snd (snd (runWorkflowLogs t n s c)) = c"
  by (simp_all add: runVersion_def runWorkflowList_def runWorkflowGet_def with_workflow_def runWorkflowLogs_def Let_def
      split: sum.split list.split)

lemma leaf_args:
  "lf_min (leaf_of v) =
     (case v of WorkflowApprove \<Rightarrow> 2 | WorkflowDeny \<Rightarrow> 2
      | Version \<Rightarrow> 0 | AgentList \<Rightarrow> 0 | AgentCreate \<Rightarrow> 0 | WorkflowList \<Rightarrow> 0 | WorkflowCreate \<Rightarrow> 0 | MCPList \<Rightarrow> 0
      | MCPCreate \<Rightarrow> 0 | MCPTools \<Rightarrow> 0 | LLMList \<Rightarrow> 0 | LLMCreate \<Rightarrow> 0 | _ \<Rightarrow> 1)"
  by (cases v) (simp_all add: leaf_of_def rootCmd_def agentCmd_def workflowCmd_def mcpCmd_def llmCmd_def leaf_def)

lemma verb_args:
  assumes "args_ok (leaf_of (iv_verb iv)) (length (iv_args iv))"
  shows "\<exists>r. run_verb t version draws iv c = Some r"
proof -
  have least: "lf_min (leaf_of (iv_verb iv)) \<le> length (iv_args iv)" using assms by (simp add: args_ok_def)
  have "1 \<le> length (iv_args iv) \<Longrightarrow> arg 0 (iv_args iv) \<noteq> None" "2 \<le> length (iv_args iv) \<Longrightarrow> arg 1 (iv_args iv) \<noteq> None"
    by (auto simp: arg_def)
  then show ?thesis using least leaf_args [of "iv_verb iv"]
    by (cases "iv_verb iv") (auto simp: run_defs simp del: split_paired_Ex)
qed

lemma verb_reads:
  assumes "run_verb t version draws iv c = Some r" "iv_verb iv \<in> set reading_verbs"
  shows "snd (snd r) = c"
  using assms by (auto simp: reading_verbs_def run_defs readers_keep_cluster workflow_readers)

section \<open>A command line is safe\<close>

text \<open>C36: A command line is safe: it never reads an argument that is not there, exits with 0 exactly when it reports no error,
  and leaves the cluster as it is unless it names a command that writes; that command then runs in a namespace that is
  not empty, the one given or the one of the kubeconfig.\<close>

theorem command_lines_safe:
  assumes "cobra_laws cb"
  shows "\<exists>code err outs c'. purkoctl t k cb version draws argv c = Some (code, err, outs, c') \<and>
    (code = 0 \<longleftrightarrow> err = None) \<and>
    (c' \<noteq> c \<longrightarrow> (\<exists>iv ns. cb_parse cb argv = Invoked iv \<and> iv_verb iv \<notin> set reading_verbs \<and>
       chosen_namespace k (iv_kubeconfig iv) (iv_namespace iv) = Inr ns \<and> ns \<noteq> [] \<and>
       Some (err, outs, c') = run_verb (client_of k iv ns t) version draws iv c))"
proof (cases "cb_parse cb argv")
  case (Invoked iv)
  have args: "args_ok (leaf_of (iv_verb iv)) (length (iv_args iv))" using assms Invoked by (simp add: cobra_laws_def)
  show ?thesis
  proof (cases "pre_run k iv")
    case (Inr ns)
    obtain r where r: "run_verb (client_of k iv ns t) version draws iv c = Some r"
      using verb_args [OF args, of "client_of k iv ns t" version draws c] by (elim exE)
    have ns: "chosen_namespace k (iv_kubeconfig iv) (iv_namespace iv) = Inr ns" "ns \<noteq> []"
      if "iv_verb iv \<notin> set reading_verbs"
    proof -
      have "lf_path (leaf_of (iv_verb iv)) \<noteq> [''version'']" using that
        by (cases "iv_verb iv") (simp_all add: reading_verbs_def leaf_of_def rootCmd_def agentCmd_def workflowCmd_def mcpCmd_def
            llmCmd_def leaf_def)
      then have "setupK8sClient k (iv_kubeconfig iv) (iv_namespace iv) = Inr ns" using Inr by (simp add: pre_run_def)
      then show "chosen_namespace k (iv_kubeconfig iv) (iv_namespace iv) = Inr ns" "ns \<noteq> []"
        using setup_namespace chosen_not_empty by blast+
    qed
    show ?thesis
    proof (cases "lf_file (leaf_of (iv_verb iv)) \<and> iv_file iv = None")
      case True
      then show ?thesis using Invoked Inr by (simp add: purkoctl_def ended_with_def fails_def)
    next
      case False
      then have "purkoctl t k cb version draws argv c = Some (ended_with r)"
        using Invoked Inr r by (auto simp: purkoctl_def)
      moreover obtain err outs c' where "r = (err, outs, c')" by (cases r)
      ultimately show ?thesis using verb_reads [OF r] ns r Invoked by (auto simp: ended_with_def intro!: exI [of _ ns])
    qed
  qed (use Invoked in \<open>simp add: purkoctl_def ended_with_def fails_def\<close>)
qed (simp_all add: purkoctl_def ended_with_def fails_def prints_def)

text \<open>A parser for plain words.\<close>

definition plain_cobra :: cobra where
  "plain_cobra = \<lparr>cb_parse = \<lambda>argv.
       (case find (\<lambda>(v, l). take (length (lf_path l)) argv = lf_path l) rootCmd of
          None \<Rightarrow> Refused ''unknown command''
        | Some (v, l) \<Rightarrow>
            let args = drop (length (lf_path l)) argv in
            if args_ok l (length args)
            then Invoked \<lparr>iv_verb = v, iv_args = args, iv_namespace = [], iv_output = ''table'', iv_kubeconfig = [],
              iv_file = None, iv_params = []\<rparr>
            else Refused ''wrong number of arguments''),
     cb_required = \<lambda>f. f\<rparr>"

lemma plain_cobra_laws: "cobra_laws plain_cobra"
proof -
  have "distinct (map fst rootCmd)" by code_simp
  then have "(v, l) \<in> set rootCmd \<Longrightarrow> leaf_of v = l" for v l by (simp add: leaf_of_def)
  then have "rootCmd ! i = (v, l) \<Longrightarrow> i < length rootCmd \<Longrightarrow> leaf_of v = l" for v l i by (metis nth_mem)
  then show ?thesis
    by (auto simp: cobra_laws_def plain_cobra_def Let_def find_Some_iff split: option.splits if_splits)
qed

definition plain_kube :: kube_config where
  "plain_kube = \<lparr>kf_namespace = \<lambda>_. Inr ''team'', kf_rest = \<lambda>_. None, kf_client = \<lambda>_. None, kf_clientset = \<lambda>_. None\<rparr>"

lemma command_lines_safe_witness:
  "\<exists>iv. cb_parse plain_cobra [''workflow'', ''delete'', ''flow''] = Invoked iv \<and> iv_verb iv \<notin> set reading_verbs"
proof -
  let ?r = "purkoctl list_cli plain_kube plain_cobra ''dev'' [] [''workflow'', ''delete'', ''flow''] ended_run"
  obtain code err outs c' where r: "?r = Some (code, err, outs, c')" and
    safe: "c' \<noteq> ended_run \<longrightarrow> (\<exists>iv ns. cb_parse plain_cobra [''workflow'', ''delete'', ''flow''] = Invoked iv \<and>
      iv_verb iv \<notin> set reading_verbs \<and> chosen_namespace plain_kube (iv_kubeconfig iv) (iv_namespace iv) = Inr ns \<and> ns \<noteq> [] \<and>
      Some (err, outs, c') = run_verb (client_of plain_kube iv ns list_cli) ''dev'' [] iv ended_run)"
    using command_lines_safe [OF plain_cobra_laws, of list_cli plain_kube "''dev''" "[]"
        "[''workflow'', ''delete'', ''flow'']" ended_run] by blast
  have "map_option (\<lambda>(code, err, outs, c). length (cl_wfs c)) ?r = Some 0" "length (cl_wfs ended_run) = 1" by code_simp+
  then have "c' \<noteq> ended_run" using r by auto
  then show ?thesis using safe by blast
qed

end
