(* ===== verification/Served_Runs.thy ===== *)
theory Served_Runs imports Dashboard_Properties Run_Completion begin

text \<open>
  How runs end when the controller and the users take turns: the steps of \<open>served\<close> are the reconciles, changes of the
  metadata, and the approvals and denials of the dashboard.  A reconcile is a step when its list of jobs names steps of
  the workflow only and the slice of statuses has room for the jobs without a status (\<open>lists_ok\<close>; \<open>lost_update\<close> shows what
  happens without room), a denial is one when the step has not ended (\<open>denied_twice\<close> shows what happens otherwise).
\<close>

section \<open>Completion\<close>

text \<open>C1: Take a workflow whose steps have different names and that has no phase and no statuses yet.  As long as, at each
  reconcile, the jobs found belong to steps of the workflow and the slice of statuses has room for the jobs that have no
  status, and as long as users deny only steps that have not ended, the end of a run is sound,
  whatever else the cluster, lost writes, approvals and changes of the metadata do in between: a workflow reported as
  succeeded has, for every step of its specification, a status that succeeded or was skipped, and one reported as
  completed with errors has a final status for every step.\<close>

theorem completion_sound:
  assumes "fresh_workflow w0" "served_reaches (w0, s0) (w, s)" "step \<in> set (wf_Steps w)"
  shows "(wf_Phase w = ''Succeeded'' \<longrightarrow>
      (\<exists>ss. status_of w (ws_Name step) = Some ss \<and> ss_Phase ss \<in> {''Succeeded'', ''Skipped''})) \<and>
    (wf_Phase w = ''CompletedWithErrors'' \<longrightarrow>
      (\<exists>ss. status_of w (ws_Name step) = Some ss \<and> ss_Phase ss \<in> {''Succeeded'', ''Skipped'', ''Failed''}))"
proof -
  have "phase_inv w" using served_runs.reached [OF assms(2)] fresh_inv [OF assms(1)] by (simp add: run_inv_def)
  then show ?thesis using assms(3) by (auto simp: phase_inv_def steps_in_iff)
qed

lemma completion_sound_witness:
  "list_all (\<lambda>step. \<exists>ss. status_of (fst (reconciled_n 3 memo_start)) (ws_Name step) = Some ss \<and>
      ss_Phase ss \<in> {''Succeeded'', ''Skipped''}) (wf_Steps (fst (reconciled_n 3 memo_start)))"
  unfolding list_all_iff
proof
  fix step assume step: "step \<in> set (wf_Steps (fst (reconciled_n 3 memo_start)))"
  have "served_reaches (memo, list_rt no_cluster) (fst (reconciled_n 3 memo_start), snd (reconciled_n 3 memo_start))"
    using served_runs.part_reaches [OF memo_run [of 3]] by simp
  from completion_sound [OF memo_fresh this step] memo_facts(5)
  show "\<exists>ss. status_of (fst (reconciled_n 3 memo_start)) (ws_Name step) = Some ss \<and>
      ss_Phase ss \<in> {''Succeeded'', ''Skipped''}" by simp
qed

section \<open>Failures that were not counted\<close>

definition uncounted :: "Workflow \<Rightarrow> bool" where
  "uncounted w \<longleftrightarrow> (wf_Phase w = ''Pending'' \<or> wf_Phase w = ''Running'') \<and>
     wt_FailedSteps (wf_Status w) < count_phase [''Failed''] w"

text \<open>It keeps running with the failure uncounted, or it has stopped short of its completion.\<close>

definition incomplete :: "Workflow \<Rightarrow> bool" where
  "incomplete w \<longleftrightarrow> run_inv w \<and> (uncounted w \<or> stopped_phase (wf_Phase w))"

lemma count_names:
  assumes "distinct_steps w"
  shows "count_phase ps w = int (card {n. \<exists>ss. status_of w n = Some ss \<and> ss_Phase ss \<in> set ps})"
proof -
  let ?F = "filter (\<lambda>ss. ss_Phase ss \<in> set ps) (wf_StepStatuses w)"
  have "{n. \<exists>ss. status_of w n = Some ss \<and> ss_Phase ss \<in> set ps} = set (map ss_Name ?F)"
    using status_of_in [OF assms] status_of_SomeD [of w] by fastforce
  moreover have "distinct (map ss_Name ?F)" using assms by (simp add: distinct_steps_def distinct_map_filter)
  ultimately show ?thesis using distinct_card [of "map ss_Name ?F"] by (simp add: count_phase_def)
qed

lemma uncounted_unfinished:
  assumes "run_inv w" "uncounted w"
  shows "\<not> all_finished w"
proof -
  have i: "named_steps w" "counted w" "wt_TotalSteps (wf_Status w) = int (length (wf_Steps w))"
    using assms by (auto simp: run_inv_def phase_inv_def uncounted_def)
  have "length (wf_StepStatuses w) = card (step_names w)"
    using i(1) distinct_card [of "map ss_Name (wf_StepStatuses w)"]
    by (simp add: named_steps_def distinct_steps_def step_names_def)
  also have "\<dots> \<le> card (set (map ws_Name (wf_Steps w)))"
    using i(1) by (intro card_mono) (auto simp: named_steps_def)
  also have "\<dots> \<le> length (wf_Steps w)" using card_length [of "map ws_Name (wf_Steps w)"] by simp
  finally have "count_phase [''Succeeded'', ''Skipped'', ''Failed''] w \<le> int (length (wf_Steps w))"
    unfolding count_phase_def using length_filter_le [of _ "wf_StepStatuses w"] by (meson of_nat_mono order_trans)
  then show ?thesis using i(2,3) assms(2) count_final [of w] by (simp add: all_finished_def counted_def uncounted_def)
qed

section \<open>The controller keeps them\<close>

lemma failure_stops:
  assumes "reconcile_failure x cache r w s = (Some o1, w', s')" "uncounted w"
  shows "stopped_phase (wf_Phase w')"
  using assms
  by (auto simp: reconcile_failure_def fail_fast_def stop_workflow_def end_with_def start_rollback_def uncounted_def Let_def
      dest!: setPhase_result snd_setPhase split: if_splits prod.splits)

lemma launch_failed_more:
  assumes "launched ns l l'" "distinct_steps (la_wf l)" "\<And>n. n \<in> ns \<Longrightarrow> open_step (la_wf l) n"
  shows "count_phase [''Failed''] (la_wf l) \<le> count_phase [''Failed''] (la_wf l')"
proof -
  let ?N = "\<lambda>l. {n. \<exists>ss. status_of (la_wf l) n = Some ss \<and> ss_Phase ss \<in> set [''Failed'']}"
  have "?N l \<subseteq> ?N l'"
  proof
    fix n assume n: "n \<in> ?N l"
    then have "n \<notin> ns" using assms(3) [of n] by (auto simp: open_step_def status_or_new_def)
    then show "n \<in> ?N l'" using n assms(1) by (simp add: launched_def)
  qed
  moreover have d: "distinct_steps (la_wf l')" using assms(1) by (simp add: launched_def)
  moreover have "finite (?N l')"
    by (rule finite_subset [of _ "step_names (la_wf l')"]) (auto simp: step_names_def dest: status_of_SomeD)
  ultimately show ?thesis unfolding count_names [OF assms(2)] count_names [OF d] by (simp add: card_mono)
qed

lemma launch_uncounted:
  assumes "reconcile_launch x cache r jobs changed w s = (out, w', s')" "run_inv w" "uncounted w"
  shows "uncounted w'"
proof -
  let ?l = "launch_steps x cache r jobs changed w s"
  have d: "distinct_steps w" "distinct (map ws_Name (wf_Steps w))"
    using assms(2) by (auto simp: run_inv_def named_steps_def)
  note L = launch_steps_ok(1) [OF d, of jobs changed cache s x r]
  have "count_phase [''Failed''] w \<le> count_phase [''Failed''] (la_wf ?l)"
    using launch_failed_more [OF L] d(1) executable_open(1) [OF d(1)] by (simp add: launch_start_def)
  moreover have "wt_FailedSteps (wf_Status (la_wf ?l)) = wt_FailedSteps (wf_Status w)"
    by (simp add: launch_steps_def launch_all_failed launch_start_def)
  moreover have "same_frame w (la_wf ?l)" using L by (simp add: launched_def launch_start_def)
  moreover have "w' = la_wf ?l \<or> (\<exists>p q. w' = with_phase x ''Running'' p q
      (upd_status (\<lambda>st. st\<lparr>wt_ObservedGeneration := om_Generation (wf_Meta (la_wf ?l))\<rparr>) (la_wf ?l)))"
    using assms(1) by (auto simp: reconcile_launch_def Let_def dest!: setPhase_result split: if_splits prod.splits)
  ultimately show ?thesis using assms(3) by (auto simp: uncounted_def same_frame_def count_phase_def with_phase_def)
qed

lemma sync_uncounted:
  assumes "run_inv w" "uncounted w" "getWorkflowJobs x w s = Inr jobs" "listing_ok x w s"
  shows "uncounted (sy_wf (syncJobs x w jobs s))"
proof -
  have d: "distinct_steps w" using assms(1) by (simp add: run_inv_def named_steps_def)
  have "distinct (map fst jobs)" using assms(3) by (auto simp: getWorkflowJobs_def job_map_distinct split: sum.splits)
  moreover have "mset (x_order x jobs) = mset jobs" "length (filter (\<lambda>(n, _). n \<notin> step_names w) jobs) \<le>
      x_spare x (length (wf_StepStatuses w))" using assms(3,4) by (simp_all add: listing_ok_def)
  ultimately have "same_balance w (sy_wf (syncJobs x w jobs s))" "same_frame w (sy_wf (syncJobs x w jobs s))"
    using syncJobs_spec [OF d, of jobs x s] by simp_all
  then show ?thesis using assms(2) by (auto simp: uncounted_def same_balance_def same_frame_def)
qed

lemma run_uncounted:
  assumes "reconcile_run x cache w s = (out, w', s')" "run_inv w" "uncounted w" "listing_ok x w s"
  shows "uncounted w' \<or> stopped_phase (wf_Phase w')"
proof (cases "getWorkflowJobs x w s")
  case (Inl e)
  with assms show ?thesis by (simp add: reconcile_run_def)
next
  case (Inr jobs)
  let ?y = "syncJobs x w jobs s"
  have ph: "wf_Phase w = ''Pending'' \<or> wf_Phase w = ''Running''" using assms(3) by (simp add: uncounted_def)
  note I = sync_inv(1) [OF assms(2) ph Inr assms(4)] and U = sync_uncounted [OF assms(2,3) Inr assms(4)]
  from assms(1) Inr have "and_then (reconcile_failure x cache (wf_Annotation w run_id_key) (sy_wf ?y) (sy_rt ?y))
      (\<lambda>w1 s1. and_then (reconcile_finished x (sy_jobs ?y) w1 s1) (\<lambda>w2 s2.
         reconcile_launch x cache (wf_Annotation w run_id_key) (sy_jobs ?y) (sy_changed ?y) w2 s2)) = (out, w', s')"
    by (simp add: reconcile_run_def Let_def)
  then show ?thesis
  proof (cases rule: and_thenE)
    case (stopped o1)
    then show ?thesis using failure_stops U by blast
  next
    case (went_on w1 s1)
    have "w1 = sy_wf ?y" using failure_inv(2) [OF went_on(1) I] by simp
    then have "reconcile_launch x cache (wf_Annotation w run_id_key) (sy_jobs ?y) (sy_changed ?y) (sy_wf ?y) s1 =
        (out, w', s')"
      using went_on(2) uncounted_unfinished [OF I U] by (simp add: reconcile_finished_def and_then_def)
    then show ?thesis using launch_uncounted [OF _ I U] by blast
  qed
qed

lemma prepare_uncounted:
  assumes "reconcile_prepare x w s = (out, w', s')" "uncounted w"
  shows "uncounted w' \<or> out \<noteq> None \<and> stopped_phase (wf_Phase w')"
proof -
  have T: "w2 = w \<or> out2 \<noteq> None \<and> stopped_phase (wf_Phase w2)"
    if "reconcile_timeout x w s = (out2, w2, s2)" for out2 w2 s2
    using that by (auto simp: reconcile_timeout_def end_with_def Let_def dest!: setPhase_result
        split: option.splits if_splits prod.splits)
  have I: "uncounted w2" if "reconcile_init x w t = (out2, w2, s2)" for t out2 w2 s2
    using that assms(2) by (auto simp: reconcile_init_def init_status_def set_annotation_def map_meta_def uncounted_def
        count_phase_def Let_def split: if_splits prod.splits)
  from assms(1) show ?thesis unfolding reconcile_prepare_def
  proof (cases rule: and_thenE)
    case (stopped o1)
    then show ?thesis using T [OF stopped(1)] assms(2) by auto
  next
    case (went_on w1 s1)
    then have w1: "w1 = w" using T by blast
    from went_on(2) show ?thesis
      by (cases rule: and_thenE) (use w1 assms(2) I concurrency_inv in blast)+
  qed
qed

lemma reconcile_incomplete:
  assumes "reconcile_active x w s = (out, w', s')" "incomplete w" "lists_ok x w s"
  shows "incomplete w'"
proof -
  have inv: "run_inv w" "run_inv w'" using assms reconcile_active_inv by (auto simp: incomplete_def)
  show ?thesis
  proof (cases "uncounted w")
    case False
    then have "wf_Phase w' = wf_Phase w \<or> monitor_rollback x w s = (out, w', s')"
      using assms(1,2)
      by (auto simp: incomplete_def reconcile_active_def stopped_phase_def terminal_phase_def split: if_splits)
    then have "stopped_phase (wf_Phase w')" using assms(2) False
      by (auto simp: incomplete_def monitor_rollback_def Let_def dest!: setPhase_result
          split: prod.splits option.splits if_splits)
    then show ?thesis using inv by (simp add: incomplete_def)
  next
    case True
    then have "\<not> terminal_phase (wf_Phase w)" "wf_Phase w \<noteq> ''RollingBack''"
      by (auto simp: uncounted_def terminal_phase_def)
    then consider "w' = w" | "cancel x w s = (out, w', s')"
      | "and_then (reconcile_prepare x w s) (reconcile_agents x) = (out, w', s')"
      using assms(1) by (auto simp: reconcile_active_def split: if_splits)
    then have "uncounted w' \<or> stopped_phase (wf_Phase w')"
    proof cases
      case 2
      then show ?thesis by (auto simp: cancel_def end_with_def Let_def dest!: setPhase_result split: prod.splits)
    next
      case 3
      then show ?thesis
      proof (cases rule: and_thenE)
        case (stopped o1)
        then show ?thesis using prepare_uncounted True by blast
      next
        case (went_on w1 s1)
        have u: "uncounted w1" using prepare_uncounted [OF went_on(1) True] by simp
        have i: "run_inv w1" "listing_ok x w1 s1"
          using prepare_inv(1) [OF went_on(1) inv(1)] assms(3) went_on(1) by (simp_all add: lists_ok_def)
        have "uncounted w' \<or> stopped_phase (wf_Phase w')" if "agent_missing x step e w1 s1 = (out, w', s')" for step e
          using that u by (auto simp: agent_missing_def Let_def dest!: setPhase_result split: if_splits prod.splits)
        then show ?thesis using went_on(2) run_uncounted [OF _ i(1) u i(2)]
          by (auto simp: reconcile_agents_def split: sum.splits)
      qed
    qed (use True in simp)
    then show ?thesis using inv by (simp add: incomplete_def)
  qed
qed

section \<open>The users keep them\<close>

lemma deny_uncounted:
  assumes "distinct_steps w" "deniable w n" "uncounted w"
  shows "uncounted (deny_step now n w)"
proof (cases rule: deny_step_cases [where n = n and w = w and now = now])
  case (there i)
  have "status_of w n = Some (wf_StepStatuses w ! i)" using status_of_nth [OF assms(1) there(1)] there(2) by simp
  then have "ss_Phase (wf_StepStatuses w ! i) \<notin> set [''Succeeded'', ''Skipped'', ''Failed'']"
    using assms(2) by (simp add: deniable_def)
  then show ?thesis using there assms(3) by (simp add: uncounted_def count_failed_more count_update deny_status_def)
qed (use assms in simp)

lemma meta_incomplete [simp]: "incomplete (map_meta f w) = incomplete w"
  by (simp add: incomplete_def uncounted_def count_phase_def) (simp add: map_meta_def)

lemma served_incomplete: "served a b \<Longrightarrow> incomplete (fst a) \<Longrightarrow> incomplete (fst b)"
proof (induction rule: served.induct)
  case (controller a b)
  then show ?case by (induction rule: run_step.induct) (auto intro: reconcile_incomplete)
next
  case (approval w s n s')
  then show ?case using approve_map_meta [of n w] by auto
next
  case (denial w n s now s')
  then show ?case using deny_uncounted [of w n now] deny_inv [of w n now]
    by (auto simp: incomplete_def run_inv_def named_steps_def)
qed

interpretation short_runs: kept_invariant served "\<lambda>a. incomplete (fst a)"
  by unfold_locales (rule served_incomplete)

section \<open>A denied step\<close>

text \<open>C14: In a run that began with different step names and no statuses, a failure that was not counted, which is what a
  denial found by the controller leaves, keeps the run from ever completing: however the controller and the users go on, as long as the jobs found belong to steps of the workflow, the
  slice of statuses has room and users deny only steps that have not ended, the run is never reported as succeeded or as
  completed with errors.  It goes on running with a failure that is not counted, or it ends otherwise: failed (by its
  timeout, a missing agent, or another failure that is counted), cancelled, or in a rollback.\<close>

theorem uncounted_failure_never_finishes:
  assumes "fresh_workflow w0" "served_reaches (w0, s0) (w, s)"
    and "wf_Phase w = ''Pending'' \<or> wf_Phase w = ''Running''"
    and "wt_FailedSteps (wf_Status w) < count_phase [''Failed''] w" "served_reaches (w, s) (v, t)"
  shows "wf_Phase v \<in> {''Failed'', ''Cancelled'', ''RollingBack''} \<or>
    wf_Phase v \<in> {''Pending'', ''Running''} \<and> wt_FailedSteps (wf_Status v) < count_phase [''Failed''] v \<and> \<not> all_finished v"
proof -
  have "run_inv w" using served_runs.reached [OF assms(2)] fresh_inv [OF assms(1)] by simp
  then have "incomplete v"
    using short_runs.reached [OF assms(5)] assms(3,4) by (simp add: incomplete_def uncounted_def)
  then show ?thesis using uncounted_unfinished [of v] by (auto simp: incomplete_def uncounted_def stopped_phase_def)
qed

definition guarded_agent :: Agent where
  "guarded_agent = plain_agent\<lparr>ag_Spec := (ag_Spec plain_agent)
     \<lparr>as_Guardrails := Some ''{\"humanApprovalRequired\":true}''\<rparr>\<rparr>"

definition denied_run :: Workflow where
  "denied_run = map_meta (\<lambda>m. m\<lparr>om_Annotations := (om_Annotations m)(''purko.io/deny-a'' \<mapsto> ''true'')\<rparr>)
     ((plain_workflow [plain_step ''a'' []] [])\<lparr>wf_Status := zero_status\<rparr>)"

abbreviation denied_start :: "Workflow \<times> cluster rt" where
  "denied_start \<equiv> (denied_run, list_rt (no_cluster\<lparr>cl_agents := [guarded_agent]\<rparr>))"

lemma denied_facts:
  "no_jobs (reconciled_n 0 denied_start)" "no_jobs (reconciled_n 1 denied_start)"
  "wf_Phase (fst (reconciled_n 1 denied_start)) = ''Running''"
  "wt_FailedSteps (wf_Status (fst (reconciled_n 1 denied_start))) = 0"
  "count_phase [''Failed''] (fst (reconciled_n 1 denied_start)) = 1"
  "wf_Phase (fst (reconciled_n 2 denied_start)) = ''Running''"
  "wf_Phase denied_run = []" "List.null (wf_StepStatuses denied_run)"
  "distinct (map ws_Name (wf_Steps denied_run))"
  by code_simp+

lemma uncounted_failure_never_finishes_witness: "\<not> all_finished (fst (reconciled_n 2 denied_start))"
proof -
  let ?r = "\<lambda>n. reconciled_n n denied_start"
  have fresh: "fresh_workflow denied_run" using denied_facts(7-9) by (simp add: fresh_workflow_def List.null_iff)
  have a: "served_reaches denied_start (fst (?r 1), snd (?r 1))"
    using served_runs.part_reaches [OF run_n [of 1 denied_start]] denied_facts(1) by simp
  have "run_reaches (?r 1) (reconciled_n 1 (?r 1))" using denied_facts(2) by (intro run_n) simp
  then have "served_reaches (fst (?r 1), snd (?r 1)) (fst (?r 2), snd (?r 2))"
    using served_runs.part_reaches by (fastforce simp: numeral_2_eq_2)
  from uncounted_failure_never_finishes [OF fresh a _ _ this] denied_facts(3-6) show ?thesis by simp
qed

end
