(* ===== verification/Rollback_Runs.thy ===== *)
theory Rollback_Runs imports Run_Completion begin

text \<open>
  A rollback over several reconciles, from the phase \<open>RollingBack\<close> to its end.
\<close>

text \<open>The step names a job that can be read and has neither completed nor failed.\<close>

definition job_unfinished :: "'c meeting \<Rightarrow> Workflow \<Rightarrow> StepStatus \<Rightarrow> bool" where
  "job_unfinished r w ss \<longleftrightarrow> ss_JobName ss \<noteq> [] \<and>
     (case k_get_job (x_api (fst r)) (rs_c (snd r)) (wf_Namespace w, ss_JobName ss) of
        Inl _ \<Rightarrow> False
      | Inr j \<Rightarrow> \<not> isJobComplete j \<and> \<not> isJobFailed j)"

text \<open>The status after some reconciles: rolled back, once one of them did not find the job unfinished.\<close>

definition rolled :: "'c meeting list \<Rightarrow> Workflow \<Rightarrow> StepStatus \<Rightarrow> StepStatus" where
  "rolled rs w ss =
     (if ss_Phase ss = ''RollingBack'' \<and> \<not> list_all (\<lambda>r. job_unfinished r w ss) rs then ss\<lparr>ss_Phase := ''RolledBack''\<rparr> else ss)"

definition waits :: "'c meeting list \<Rightarrow> Workflow \<Rightarrow> StepStatus \<Rightarrow> bool" where
  "waits rs w ss \<longleftrightarrow> ss_Phase ss = ''RollingBack'' \<and> list_all (\<lambda>r. job_unfinished r w ss) rs"

text \<open>The reconcile reaches the monitoring, and the API server takes the status.\<close>

definition monitors :: "'c meeting \<Rightarrow> Workflow \<Rightarrow> bool" where
  "monitors r w \<longleftrightarrow> om_DeletionTimestamp (wf_Meta w) = None \<and> x_has_finalizer (fst r) (wf_Meta w) workflowFinalizer \<and>
     \<not> annotated ''purko.io/template'' w \<and> (\<forall>c v. fst (k_status_wf (x_api (fst r)) c v) = None)"

lemma monitored_round:
  assumes "wf_Phase w = ''RollingBack''" "monitors r w"
  defines "w' \<equiv> after_reconcile r w"
  shows "wf_StepStatuses w' = map (rolled [r] w) (wf_StepStatuses w)" "wf_Meta w' = wf_Meta w"
    "wf_Phase w' = (if list_ex (waits [r] w) (wf_StepStatuses w) then ''RollingBack'' else ''Failed'')"
    "\<not> list_ex (waits [r] w) (wf_StepStatuses w) \<Longrightarrow> wt_CompletionTime (wf_Status w') = Some (x_now (fst r))"
    "fst (reconcile_found r w) =
       Some (if list_ex (waits [r] w) (wf_StepStatuses w) then RequeueAfter (5 * second) else Done)"
proof -
  obtain x s where r: "r = (x, s)" by (cases r)
  have waits: "rollback_waits x w s = waits [r] w"
    by (auto simp: fun_eq_iff rollback_waits_def waits_def job_unfinished_def r split: sum.split)
  have status: "rollback_status x w s = rolled [r] w"
    by (auto simp: fun_eq_iff rollback_status_def waits) (simp_all add: waits_def rolled_def)
  have found: "reconcile_found r w = monitor_rollback x w s"
    using assms(1,2) by (simp add: reconcile_found_def reconcile_deletion_def reconcile_active_def and_then_def
        monitors_def terminal_phase_def r)
  have ok: "fst (k_status_wf (x_api x) c v) = None" for c v using assms(2) by (simp add: monitors_def r)
  then have ok2: "fst (status_wf x v t) = None" for v t by (simp add: status_wf_def split_def)
  have ok3: "fst (setPhase x v p q m t) = None" for v p q m t
    using ok by (simp add: setPhase_def Let_def split_def)
  let ?sss = "map (rolled [r] w) (wf_StepStatuses w)"
  have "wf_StepStatuses w' = ?sss \<and> wf_Meta w' = wf_Meta w \<and>
      wf_Phase w' = (if list_ex (waits [r] w) (wf_StepStatuses w) then ''RollingBack'' else ''Failed'') \<and>
      (\<not> list_ex (waits [r] w) (wf_StepStatuses w) \<longrightarrow> wt_CompletionTime (wf_Status w') = Some (x_now x)) \<and>
      fst (reconcile_found r w) =
        Some (if list_ex (waits [r] w) (wf_StepStatuses w) then RequeueAfter (5 * second) else Done)"
  proof (cases "list_ex (waits [r] w) (wf_StepStatuses w)")
    case True
    obtain s1 where "status_wf x (set_steps ?sss w) s = (None, s1)" using ok2 by (metis prod.collapse)
    then have "monitor_rollback x w s = (Some in_5s, set_steps ?sss w, s1)"
      using True by (simp add: monitor_rollback_def waits status ends_def)
    then show ?thesis using True assms(1) by (simp add: w'_def after_reconcile_def found)
  next
    case False
    let ?w2 = "complete_now x (set_steps ?sss w)" and ?m = "rolled_back_msg (rolledBack (complete_now x (set_steps ?sss w)))"
    obtain s1 where "setPhase x ?w2 ''Failed'' ''RolledBack'' ?m s =
        (None, with_phase x ''Failed'' ''RolledBack'' ?m ?w2, s1)"
      using ok3 setPhase_workflow by (metis prod.collapse)
    then have "\<exists>s2. monitor_rollback x w s = (Some Done, with_phase x ''Failed'' ''RolledBack'' ?m ?w2, s2)"
      using False by (simp add: monitor_rollback_def waits status Let_def)
    then show ?thesis using False by (auto simp: w'_def after_reconcile_def found complete_now_def with_phase_def)
  qed
  then show "wf_StepStatuses w' = map (rolled [r] w) (wf_StepStatuses w)" "wf_Meta w' = wf_Meta w"
    "wf_Phase w' = (if list_ex (waits [r] w) (wf_StepStatuses w) then ''RollingBack'' else ''Failed'')"
    "\<not> list_ex (waits [r] w) (wf_StepStatuses w) \<Longrightarrow> wt_CompletionTime (wf_Status w') = Some (x_now (fst r))"
    "fst (reconcile_found r w) =
       Some (if list_ex (waits [r] w) (wf_StepStatuses w) then RequeueAfter (5 * second) else Done)" by (simp_all add: r)
qed

lemma same_jobs:
  "wf_Meta v = wf_Meta w \<Longrightarrow> job_unfinished r v ss = job_unfinished r w ss"
  "job_unfinished r w (ss\<lparr>ss_Phase := p\<rparr>) = job_unfinished r w ss"
  by (simp_all add: job_unfinished_def)

lemma rolled_again:
  assumes "wf_Meta v = wf_Meta w"
  shows "rolled rs v (rolled [r] w ss) = rolled (r # rs) w ss" "waits rs v (rolled [r] w ss) = waits (r # rs) w ss"
proof -
  have unf: "job_unfinished r v = job_unfinished r w" for r by (rule ext) (rule same_jobs(1) [OF assms])
  show "rolled rs v (rolled [r] w ss) = rolled (r # rs) w ss" "waits rs v (rolled [r] w ss) = waits (r # rs) w ss"
    by (auto simp: rolled_def waits_def unf same_jobs(2))
qed

lemma drive_rollback:
  "wf_Phase w = ''RollingBack'' \<Longrightarrow> list_all (\<lambda>r. monitors r w) rs \<Longrightarrow>
   wf_StepStatuses (drive rs w) = map (rolled rs w) (wf_StepStatuses w) \<and>
   wf_Phase (drive rs w) = (if rs = [] \<or> list_ex (waits rs w) (wf_StepStatuses w) then ''RollingBack'' else ''Failed'')"
proof (induction rs arbitrary: w)
  case Nil
  then show ?case by (simp add: rolled_def)
next
  case (Cons r rs)
  let ?v = "after_reconcile r w"
  have m: "monitors r w" using Cons.prems(2) by simp
  note R = monitored_round [OF Cons.prems(1) m]
  have go: "drive (r # rs) w = drive rs ?v" using Cons.prems(1) by (simp add: terminal_phase_def)
  show ?case
  proof (cases "list_ex (waits [r] w) (wf_StepStatuses w)")
    case True
    have "list_all (\<lambda>r. monitors r ?v) rs" using Cons.prems(2) R(2) by (simp add: monitors_def list_all_iff)
    moreover have "wf_Phase ?v = ''RollingBack''" using R(3) True by simp
    moreover have "list_ex (waits rs ?v) (wf_StepStatuses ?v) = list_ex (waits (r # rs) w) (wf_StepStatuses w)"
      unfolding R(1) by (simp add: list_ex_iff rolled_again(2) [OF R(2)])
    moreover have "map (rolled rs ?v) (wf_StepStatuses ?v) = map (rolled (r # rs) w) (wf_StepStatuses w)"
      unfolding R(1) by (simp add: rolled_again(1) [OF R(2)])
    moreover have "rs = [] \<Longrightarrow> list_ex (waits (r # rs) w) (wf_StepStatuses w)" using True by simp
    ultimately show ?thesis using Cons.IH [of ?v] unfolding go by auto
  next
    case False
    have "drive rs ?v = ?v" using R(3) False by (cases rs) (simp_all add: terminal_phase_def)
    moreover have "rolled [r] w ss = rolled (r # rs) w ss" "\<not> waits (r # rs) w ss" if "ss \<in> set (wf_StepStatuses w)" for ss
      using False that by (auto simp: rolled_def waits_def list_ex_iff)
    ultimately show ?thesis using R(1,3) False unfolding go by (auto simp: list_ex_iff)
  qed
qed

text \<open>C12: A rollback ends as soon as each of its jobs has been found finished, or gone.  Let a workflow in the phase
  \<open>RollingBack\<close>, not a template and not being deleted, be reconciled one or more times by a server that accepts its
  status.  A step that is rolling back waits while it names a job that can be read and has neither completed nor failed;
  the first reconcile that finds it otherwise marks it as rolled back, and no other status is changed.  The workflow has
  failed when no step has waited through all of the reconciles and is still rolling back otherwise; a reconcile that
  leaves it rolling back asks for another in five seconds, and the one that ends it sets its completion time.\<close>

theorem rollback_ends:
  assumes "wf_Phase w = ''RollingBack''" "rs \<noteq> []" "list_all (\<lambda>r. monitors r w) rs"
  shows "wf_Phase (drive rs w) = (if list_ex (\<lambda>ss. ss_Phase ss = ''RollingBack'' \<and> list_all (\<lambda>r. job_unfinished r w ss) rs)
      (wf_StepStatuses w) then ''RollingBack'' else ''Failed'') \<and>
    wf_StepStatuses (drive rs w) = map (\<lambda>ss. if ss_Phase ss = ''RollingBack'' \<and> \<not> list_all (\<lambda>r. job_unfinished r w ss) rs
      then ss\<lparr>ss_Phase := ''RolledBack''\<rparr> else ss) (wf_StepStatuses w) \<and>
    list_all (\<lambda>r. if wf_Phase (after_reconcile r w) = ''RollingBack'' then fst (reconcile_found r w) = Some (RequeueAfter (5 * second))
      else fst (reconcile_found r w) = Some Done \<and> wt_CompletionTime (wf_Status (after_reconcile r w)) = Some (x_now (fst r))) rs"
proof -
  have "if wf_Phase (after_reconcile r w) = ''RollingBack'' then fst (reconcile_found r w) = Some (RequeueAfter (5 * second))
      else fst (reconcile_found r w) = Some Done \<and> wt_CompletionTime (wf_Status (after_reconcile r w)) = Some (x_now (fst r))"
    if "r \<in> set rs" for r
  proof -
    have "monitors r w" using assms(3) that by (simp add: list_all_iff)
    note R = monitored_round [OF assms(1) this]
    show ?thesis using R(4,5) by (simp add: R(3))
  qed
  then have "list_all (\<lambda>r. if wf_Phase (after_reconcile r w) = ''RollingBack'' then fst (reconcile_found r w) = Some (RequeueAfter (5 * second))
      else fst (reconcile_found r w) = Some Done \<and> wt_CompletionTime (wf_Status (after_reconcile r w)) = Some (x_now (fst r))) rs"
    by (simp only: list_all_iff) blast
  moreover note drive_rollback [OF assms(1,3)]
  ultimately show ?thesis using assms(2) by (simp only: rolled_def [abs_def] waits_def [abs_def] simp_thms)
qed

text \<open>Two steps, of which the job of the first is finished at once and that of the second at the second reconcile.\<close>

definition rolling :: Workflow where
  "rolling = with_phase list_ctx ''RollingBack'' [] [] (plain_workflow [plain_step ''a'' [], plain_step ''b'' []]
     [step_in ''a'' ''RollingBack'', step_in ''b'' ''RollingBack''])"

definition rollback_meeting :: "string \<Rightarrow> string \<Rightarrow> cluster meeting" where
  "rollback_meeting a b = (list_ctx, list_rt (no_cluster\<lparr>cl_jobs := [plain_job ''a'' a, plain_job ''b'' b]\<rparr>))"

lemma rolling_facts:
  "wf_Phase rolling = ''RollingBack''" "om_DeletionTimestamp (wf_Meta rolling) = None"
  "workflowFinalizer \<in> set (om_Finalizers (wf_Meta rolling))" "wf_Annotation rolling ''purko.io/template'' = []"
  "list_ex (\<lambda>ss. ss_Phase ss = ''RollingBack'' \<and> list_all (\<lambda>r. job_unfinished r rolling ss)
     [rollback_meeting ''Complete'' []]) (wf_StepStatuses rolling)"
  "\<not> list_ex (\<lambda>ss. ss_Phase ss = ''RollingBack'' \<and> list_all (\<lambda>r. job_unfinished r rolling ss)
     [rollback_meeting ''Complete'' [], rollback_meeting ''Complete'' ''Failed'']) (wf_StepStatuses rolling)"
  by code_simp+

lemma rollback_ends_witness:
  "wf_Phase (drive [rollback_meeting ''Complete'' []] rolling) = ''RollingBack'' \<and>
   wf_Phase (drive [rollback_meeting ''Complete'' [], rollback_meeting ''Complete'' ''Failed''] rolling) = ''Failed''"
proof -
  have "monitors (rollback_meeting a b) rolling" for a b
    using rolling_facts(2-4) by (simp add: monitors_def rollback_meeting_def list_ctx_def list_api_def)
  then show ?thesis
    using rollback_ends [of rolling "[rollback_meeting ''Complete'' []]"] rolling_facts
      rollback_ends [of rolling "[rollback_meeting ''Complete'' [], rollback_meeting ''Complete'' ''Failed'']"]
    by simp
qed

end
