(* ===== verification/Spec2Isabelle.thy ===== *)
theory Spec2Isabelle
  imports Witnesses Sync_Properties Launch_Properties Reconcile_Properties Agent_Properties
    Webhook_Properties Registry Agent_Identity Provider_Controllers MCP_Properties
    Licensing Router_Properties Dashboard_Properties Scheduler Dashboard_Views Config_Properties Dashboard_Archive
    Status_Schema Retry_Budget Cache_Aliasing Cli_Properties Operator Run_Completion Derived_Runs
    Metrics Cli_Main Served_Runs Rollback_Runs
begin

text \<open>
  Purko is a Kubernetes operator that runs workflows of language-model agents. A
  \<^verbatim>\<open>Workflow\<close> is a set of steps with dependencies; the workflow controller turns each
  step into a Job whose pod runs an agent, follows the jobs, and keeps the status of the workflow. Around it
  stand controllers for agents, MCP servers and providers, admission webhooks, two SQLite stores (the archive of
  runs and the agents' memories), a registry of MCP tools, a dashboard with webhooks and a scheduler, and the
  command line client \<^verbatim>\<open>purkoctl\<close>. This development models the Go code of these parts,
  each theory one file or one component of it, and proves what makes them correct, alone and together.

  Definitions carry the names of the source. A struct is a record with the fields of the struct under a short
  prefix, an enum of strings stays a string, an error is the left side of a sum or a named outcome, a panic that
  the code can reach is a value of its own. Code outside the repository is a parameter: the API server, pod
  logs, the clock, random numbers, the environment, HTTP, YAML, the cron library and the full-text index are
  fields of records (\<open>api\<close> and \<open>ctx\<close> in \<open>Kube\<close>, \<open>dash\<close> in
  \<open>Http\<close>, \<open>net\<close> in \<open>Registry\<close>, \<open>cron\<close> in
  \<open>Scheduler\<close>, \<open>fts\<close> in \<open>Memory_Store\<close>, \<open>cli\<close> in
  \<open>Cli\<close>, \<open>cobra\<close> and \<open>kube_config\<close> in \<open>Cli_Main\<close>,
  \<open>prometheus\<close> in \<open>Metrics\<close>) over a state of any type, and what a property needs of
  them is a hypothesis of its statement.
\<close>

section \<open>Foundations\<close>

text \<open>
  \<open>Prelude\<close> holds Go strings as lists of bytes with the operations of
  \<^verbatim>\<open>strings\<close>, \<^verbatim>\<open>strconv\<close> and \<^verbatim>\<open>fmt\<close>;
  \<open>Float64\<close> the binary64 numbers as rationals with rounding; \<open>Json\<close> the grammar,
  decoding and encoding of \<^verbatim>\<open>encoding/json\<close>, with \<open>Json_Indent\<close> and
  \<open>Json_Values\<close> for documents that are written indented and read back; \<open>Regexp\<close> the
  engine for the patterns the source compiles, with Go's leftmost-first choice; \<open>Sha256\<close> the digest
  that shortens job names; \<open>Go_Time\<close> dates, durations and the wrap-around of 64-bit numbers;
  \<open>Sql\<close> what the two stores share; \<open>Keyed_Table\<close> lists used as tables, a locale with
  two interpretations (JSON objects, and the list of MCP servers in \<open>MCP_Properties\<close>);
  \<open>Transition_System\<close> systems that move in steps, a locale for what each step keeps and one for a
  system inside a wider one, interpreted by the run of a workflow, the run with the decisions of its users, and
  the archive.

  \<open>Types\<close> has the custom resources of \<^verbatim>\<open>api/v1alpha1/types.go\<close>. The
  functions that copy them are modelled apart, in \<open>Deep_Copy\<close>: values with addresses, one plan for
  each \<^verbatim>\<open>DeepCopyInto\<close>, and the fields a copy shares with its original, found by an
  analysis that is proved sound. \<open>Cache_Aliasing\<close> shows what the shared fields do when a caller
  writes into an object it has read. Everywhere else an object that was read is a value: the state
  \<open>c\<close> of an API parameter is what the API server answers with.
\<close>

section \<open>The workflow controller\<close>

text \<open>
  \<^verbatim>\<open>controllers/workflow_controller.go\<close>, \<^verbatim>\<open>workflow_history.go\<close>,
  \<^verbatim>\<open>condition.go\<close>, \<^verbatim>\<open>job_builder.go\<close> and
  \<^verbatim>\<open>memory.go\<close>. \<open>Condition\<close> evaluates condition expressions;
  \<open>Workflow_Core\<close> finds executable steps, retry counts and delays; \<open>Step_Input\<close> puts a
  step's input together; \<open>Job_Builder\<close> builds the Job; \<open>Kube\<close> reads jobs, logs and
  outputs; \<open>Recording\<close> writes phases and mirrors them into the archive;
  \<open>Memory_Policy\<close> and \<open>Agent_Memory\<close> decide on, recall and keep memories and update
  the counters of an agent.

  \<^verbatim>\<open>Reconcile\<close> is modelled whole, in the order of the code.
  \<open>Reconcile_Phases\<close>: finalizer, deletion, rollback, cancel, timeout, concurrency policy,
  initialisation, agents, failure strategies and completion. \<open>Reconcile_Sync\<close>: the loop over the
  jobs, with the pointers into the slice of statuses that an append may leave stale. \<open>Reconcile\<close>:
  the launch loop with approvals and conditions, and the composition. The state \<open>rt\<close> holds the
  cluster, both stores, the metrics and the events; a workflow that is changed in place is passed along.

  \<open>Status_Table\<close> gives the view of the statuses by name that the proofs share.
  \<open>Sync_Properties\<close>: the loop refines a function of each step's own status and job, whatever the
  order of the job map. \<open>Launch_Properties\<close>: the launch loop touches only executable steps and
  stays within the parallelism. \<open>Launch_Liveness\<close>: it passes no such step over.
  \<open>Run_Invariant\<close>: over any number of reconciles, with lost writes and foreign changes in between,
  the counters agree with the statuses. \<open>Served_Runs\<close>: the same with users who approve and deny in
  between, so that a completed workflow has a final status for every step, and that a run with a failure that
  is not counted never ends well. Both need, at each reconcile, jobs of the workflow's own steps and room in the
  slice of statuses (\<open>lists_ok\<close>); without room a success can be lost, as
  \<open>Sync_Properties\<close> shows.
  \<open>Reconcile_Properties\<close>: single reconciles, that is failure strategies, the start of a rollback,
  timeout. \<open>Rollback_Runs\<close>: the reconciles of a rollback, until its jobs have ended.
  \<open>Retry_Budget\<close>: a measure of each step's status that every round lowers, so that the retries of
  each step end. \<open>Run_Completion\<close>: an admitted run whose jobs complete reaches
  \<^verbatim>\<open>Succeeded\<close>, in at most three reconciles more than it has steps: one adds the
  finalizer, one the run id, one ends the run.
  \<open>Derived_Runs\<close>: what the webhook, the scheduler, a rerun and the client make of an admitted
  template is admitted again. \<open>Status_Schema\<close>: the phases the schema of the
  custom resource admits, and the one the controller writes that it does not. \<open>Agent_Properties\<close>:
  what is recalled and stored stays in the pool of the agent.
\<close>

section \<open>The other controllers, admission and the stores\<close>

text \<open>
  \<open>Agent_Controller\<close> with \<open>Agent_Identity\<close> (service account, role and binding of an
  agent), \<open>MCP_Controller\<close> with \<open>MCP_Properties\<close> (deployment, service, and the shared
  list of servers), \<open>Provider_Controllers\<close> (LLM and memory providers). \<open>Webhook\<close> and
  \<open>Step_Graph\<close> are the admission webhooks and their cycle check, whose loop ends because a node is
  queued only when its degree falls to zero; \<open>Webhook_Properties\<close> proves what is admitted, in terms
  of the workflow and the text of its conditions, and that an admitted run is never stuck. \<open>Memory_Store\<close> and \<open>History_Store\<close> are the SQLite
  stores as lists of rows, with the locales \<open>memory_provider\<close> and \<open>run_archive\<close> for
  what their clients use. \<open>Registry\<close> is the discovery of tools over JSON-RPC.
  \<open>Licensing\<close> has tiers, limits and the pruning they ask for. \<open>Metrics\<close> has the
  collectors of \<^verbatim>\<open>controllers/metrics.go\<close> and the calls each recorded event makes: a
  reconcile records its events and goes on, \<open>record_all\<close> says whether one of them would have made
  it panic, as a negative amount of tokens does.
\<close>

section \<open>Dashboard, scheduler, command line and entry point\<close>

text \<open>
  \<open>Http\<close>: requests, responses and the decoding of bodies. \<open>Router\<close>: normalising and
  routing webhooks, with \<open>Router_Properties\<close>. \<open>Dashboard_Runs\<close>: starting, repeating,
  approving, denying and deleting runs, with \<open>Dashboard_Properties\<close>, which lets users act between
  the reconciles of \<open>Run_Invariant\<close>. \<open>Dashboard_Config\<close>: agents, servers and
  providers, with \<open>Config_Properties\<close>. \<open>Dashboard_Views\<close> and
  \<open>Dashboard_Archive\<close>: what is shown of the cluster and of the stores. \<open>Scheduler\<close>:
  cron entries that follow the workflows. \<open>Dashboard_Server\<close>: the table of routes, the choice of
  \<^verbatim>\<open>http.ServeMux\<close>, and the handlers over one state. \<open>Operator\<close>:
  \<^verbatim>\<open>main\<close>, which opens the stores and starts the parts. \<open>Cli\<close>,
  \<open>Cli_Workflow\<close> and \<open>Cli_Resources\<close>: the commands of
  \<^verbatim>\<open>purkoctl\<close>, with \<open>Cli_Properties\<close>, which follows a rerun into the
  controller, and \<open>Cli_Main\<close>, which has the tree of commands and a command line from its beginning
  to the exit code.

  \<open>Sample_Cluster\<close> and \<open>Sample_Dashboard\<close> instantiate the parameters with a cluster in
  lists; the witnesses of the properties, in \<open>Witnesses\<close> and beside the properties, are evaluated
  on it.
\<close>

section \<open>Bounds and termination\<close>

text \<open>
  Every definition is total, and none uses fuel. Loops of the source over slices are recursions over lists. The
  matcher of the regular expressions recurs on the pattern and the text, since every repetition in the source's
  patterns is over one class; the JSON decoder is guarded by the rest of the text being shorter; the cycle check
  ends because its queue and the nodes of positive degree shrink together; the rounds of a run have the measure
  of \<open>Retry_Budget\<close>. The delays of retries wrap at 64 bits, as does
  \<^verbatim>\<open>time.Duration\<close>; the ports of a service at 32 bits; the digest of job names works on
  words of 32 bits; counters of steps and calls are unbounded integers.
\<close>

section \<open>Not modelled\<close>

text \<open>
  The Python executor and the deployment files (but for the phases of the workflow schema); the libraries
  themselves; goroutines, locks and tickers, whose bodies are functions that are called once; the TLS and HTTP
  connections; the padding of tables and the JSON printer of the command line, and a log stream that breaks off;
  the order in which Go visits a map, which is a parameter where it can matter; times before 1970 and after
  9999; paths with escapes. Optimistic locking is a write that may fail. A property's statement says which of
  these it assumes.
\<close>

end
